(* ===== verification/Xenia_Prelude.thy ===== *)
theory Xenia_Prelude
  imports Main "HOL-Library.Word"
begin

text \<open>
  Shared vocabulary of the development: Rust's fixed-width integers and byte arrays, the
  \<open>Result\<close> type with the combinators that stand for the \<open>?\<close> operator, big-endian integer
  encoding, UTF-8 string bytes, and the generic lemmas the components share.

  Conventions.
  \<^item> \<open>u8\<close>, \<open>u32\<close> and \<open>u64\<close> are words of that width; \<open>usize\<close> values (lengths, indices) are
    natural numbers, and \<open>n as u64\<close> is \<open>of_nat n\<close>, which wraps as the cast does. The pointer
    width is 64, so \<open>usize::try_from\<close> on a \<open>u64\<close> always succeeds and is \<open>unat\<close>.
  \<^item> \<open>[u8; N]\<close> is the type \<open>N byte_array\<close> of byte lists of exactly that length, so no operation
    needs a length hypothesis the Rust type already gives. A byte slice or vector is a
    list of bytes.
  \<^item> A Rust \<open>String\<close> is its UTF-8 byte string, a list of \<open>char\<close> (Isabelle's \<open>char\<close> is one byte).
\<close>

section \<open>Types\<close>

type_synonym u8 = "8 word"
type_synonym u16 = "16 word"
type_synonym u32 = "32 word"
type_synonym u64 = "64 word"
type_synonym bytes = "u8 list"

named_theorems result_simps \<open>characterisations of when a fallible computation returns Ok\<close>
named_theorems array_simps \<open>facts about fixed-length byte arrays\<close>
named_theorems message_defs \<open>definitions of signed or hashed messages\<close>

section \<open>Fixed-length byte arrays\<close>

typedef (overloaded) ('n::len) byte_array = "{xs :: bytes. length xs = LENGTH('n)}"
  morphisms slice Abs_byte_array
proof
  show "replicate LENGTH('n) 0 \<in> {xs :: bytes. length xs = LENGTH('n)}" by simp
qed

text \<open>The array literal \<open>[b; N]\<close>.\<close>

definition filled :: "u8 \<Rightarrow> 'n::len byte_array" where
  "filled b = Abs_byte_array (replicate LENGTH('n) b)"

text \<open>\<open>slice.try_into()\<close> for a fixed-length array: the length has to match.\<close>

definition try_into :: "bytes \<Rightarrow> 'n::len byte_array option" where
  "try_into xs = (if length xs = LENGTH('n) then Some (Abs_byte_array xs) else None)"

abbreviation zeroed :: "'n::len byte_array" where
  "zeroed \<equiv> filled 0"

text \<open>
  \<open>[0; N]\<close> filled with \<open>copy_from_slice\<close>, which panics when the lengths differ. The callers pass
  encodings whose length is a type-level constant of the library that produces them.
\<close>

definition copy_from_slice :: "bytes \<Rightarrow> 'n::len byte_array" where
  "copy_from_slice xs = (case try_into xs of Some a \<Rightarrow> a | None \<Rightarrow> zeroed)"

type_synonym u8_16 = "16 byte_array"
type_synonym u8_32 = "32 byte_array"
type_synonym u8_64 = "64 byte_array"
type_synonym Uuid = u8_16

instantiation byte_array :: (len) equal
begin

definition equal_byte_array :: "'a byte_array \<Rightarrow> 'a byte_array \<Rightarrow> bool" where
  "equal_byte_array a b \<longleftrightarrow> slice a = slice b"

instance
  by standard (simp add: equal_byte_array_def slice_inject)

end

lemma length_slice [simp, array_simps]: "length (slice (a :: 'n::len byte_array)) = LENGTH('n)"
  using slice [of a] by simp

lemma slice_not_Nil [simp, array_simps]: "slice a \<noteq> []"
  by (metis len_gt_0 length_slice length_greater_0_conv)

lemma slice_eq_iff [simp, array_simps]: "slice a = slice b \<longleftrightarrow> a = b"
  by (rule slice_inject)

lemma slice_filled [simp, array_simps]: "slice (filled b :: 'n::len byte_array) = replicate LENGTH('n) b"
  by (simp add: filled_def Abs_byte_array_inverse)

lemma filled_eq_iff [simp, array_simps]: "(filled a :: 'n::len byte_array) = filled b \<longleftrightarrow> a = b"
proof -
  have "(filled a :: 'n byte_array) = filled b \<longleftrightarrow>
      replicate LENGTH('n) a = replicate LENGTH('n) b"
    using slice_eq_iff [of "filled a :: 'n byte_array" "filled b"] by simp
  also have "\<dots> \<longleftrightarrow> a = b"
    by (simp add: replicate_eq_replicate)
  finally show ?thesis .
qed

lemma slice_Abs [simp, array_simps]:
  "length xs = LENGTH('n::len) \<Longrightarrow> slice (Abs_byte_array xs :: 'n byte_array) = xs"
  by (simp add: Abs_byte_array_inverse)

lemma try_into_slice [simp, array_simps]: "try_into (slice a) = Some a"
  by (simp add: try_into_def slice_inverse)

lemma try_into_eq_Some [array_simps]: "try_into xs = Some a \<longleftrightarrow> xs = slice a"
  by (auto simp: try_into_def slice_inverse split: if_splits)

lemma try_into_eq_None [array_simps]:
  "(try_into xs :: 'n::len byte_array option) = None \<longleftrightarrow> length xs \<noteq> LENGTH('n)"
  by (simp add: try_into_def)

lemma slice_copy_from_slice [simp, array_simps]:
  "length xs = LENGTH('n::len) \<Longrightarrow> slice (copy_from_slice xs :: 'n byte_array) = xs"
  by (simp add: copy_from_slice_def try_into_def)

lemma copy_from_slice_slice [simp, array_simps]: "copy_from_slice (slice a) = a"
  by (simp add: copy_from_slice_def)

text \<open>Fixed-length fields make concatenated messages uniquely decodable.\<close>

lemma slice_append_eq_iff [simp, array_simps]:
  "slice (a :: 'n::len byte_array) @ xs = slice b @ ys \<longleftrightarrow> a = b \<and> xs = ys"
  by (simp add: append_eq_append_conv)

section \<open>Results\<close>

datatype ('a, 'e) result = Ok 'a | Err 'e

text \<open>
  \<open>and_then r f\<close> is \<open>let x = r?; f(x)\<close> when both sides have the same error type; a \<open>?\<close> that
  converts the error with \<open>From\<close> is \<open>map_err\<close> with the constructor the conversion wraps it in.
\<close>

fun and_then :: "('a, 'e) result \<Rightarrow> ('a \<Rightarrow> ('b, 'e) result) \<Rightarrow> ('b, 'e) result" where
  "and_then (Ok x) f = f x"
| "and_then (Err e) f = Err e"

fun map_err :: "('e \<Rightarrow> 'f) \<Rightarrow> ('a, 'e) result \<Rightarrow> ('a, 'f) result" where
  "map_err g (Ok x) = Ok x"
| "map_err g (Err e) = Err (g e)"

fun map_ok :: "('a \<Rightarrow> 'b) \<Rightarrow> ('a, 'e) result \<Rightarrow> ('b, 'e) result" where
  "map_ok g (Ok x) = Ok (g x)"
| "map_ok g (Err e) = Err e"

fun ok_or :: "'a option \<Rightarrow> 'e \<Rightarrow> ('a, 'e) result" where
  "ok_or (Some x) e = Ok x"
| "ok_or None e = Err e"

fun is_ok :: "('a, 'e) result \<Rightarrow> bool" where
  "is_ok (Ok _) = True"
| "is_ok (Err _) = False"

text \<open>A loop over a slice that leaves with the first error.\<close>

fun for_each :: "('a \<Rightarrow> (unit, 'e) result) \<Rightarrow> 'a list \<Rightarrow> (unit, 'e) result" where
  "for_each f [] = Ok ()"
| "for_each f (x # xs) = and_then (f x) (\<lambda>_. for_each f xs)"

lemma and_then_eq_Ok [simp, result_simps]:
  "and_then r f = Ok y \<longleftrightarrow> (\<exists>x. r = Ok x \<and> f x = Ok y)"
  by (cases r) auto

lemma ex_unit_iff: "(\<exists>u :: unit. P u) \<longleftrightarrow> P ()"
  by auto

lemma and_then_assoc: "and_then (and_then r f) g = and_then r (\<lambda>x. and_then (f x) g)"
  by (cases r) auto

lemma map_err_eq_Ok [simp, result_simps]: "map_err g r = Ok x \<longleftrightarrow> r = Ok x"
  by (cases r) auto

lemma map_ok_eq_Ok [simp, result_simps]: "map_ok g r = Ok y \<longleftrightarrow> (\<exists>x. r = Ok x \<and> y = g x)"
  by (cases r) auto

lemma ok_or_eq_Ok [simp, result_simps]: "ok_or v e = Ok x \<longleftrightarrow> v = Some x"
  by (cases v) auto

lemma if_Err_eq_Ok [simp, result_simps]: "(if P then Err e else r) = Ok x \<longleftrightarrow> \<not> P \<and> r = Ok x"
  by simp

lemma if_else_Err_eq_Ok [simp, result_simps]: "(if P then r else Err e) = Ok x \<longleftrightarrow> P \<and> r = Ok x"
  by simp

lemma is_ok_iff: "is_ok r \<longleftrightarrow> (\<exists>x. r = Ok x)"
  by (cases r) auto

lemma not_Ok_unit_iff: "r \<noteq> Ok () \<longleftrightarrow> (\<exists>e. r = Err e)"
  by (cases r) auto

lemma for_each_eq_Ok [simp, result_simps]:
  "for_each f xs = Ok () \<longleftrightarrow> (\<forall>x \<in> set xs. f x = Ok ())"
  by (induction xs) auto

lemma for_each_append:
  "for_each f (xs @ ys) = and_then (for_each f xs) (\<lambda>_. for_each f ys)"
  by (induction xs) (auto simp: and_then_assoc)

text \<open>
  Fallible operations that also change a state return the state after them with their result;
  \<open>st_then\<close> is \<open>?\<close> between two such calls: an error keeps the state reached.
\<close>

fun st_then :: "'s \<times> ('a, 'e) result \<Rightarrow> ('s \<Rightarrow> 'a \<Rightarrow> 's \<times> ('b, 'e) result) \<Rightarrow> 's \<times> ('b, 'e) result" where
  "st_then (s, Ok x) f = f s x"
| "st_then (s, Err e) f = (s, Err e)"

lemma st_then_eq_Ok [simp, result_simps]:
  "st_then r f = (s', Ok y) \<longleftrightarrow> (\<exists>s x. r = (s, Ok x) \<and> f s x = (s', Ok y))"
  by (cases "(r, f)" rule: st_then.cases) auto

section \<open>Machine arithmetic\<close>

definition checked_add :: "'n::len word \<Rightarrow> 'n word \<Rightarrow> 'n word option" where
  "checked_add a b = (if unat a + unat b < 2 ^ LENGTH('n) then Some (a + b) else None)"

definition checked_sub :: "'n::len word \<Rightarrow> 'n word \<Rightarrow> 'n word option" where
  "checked_sub a b = (if b \<le> a then Some (a - b) else None)"

definition saturating_add :: "'n::len word \<Rightarrow> 'n word \<Rightarrow> 'n word" where
  "saturating_add a b = (if unat a + unat b < 2 ^ LENGTH('n) then a + b else - 1)"

definition saturating_sub :: "'n::len word \<Rightarrow> 'n word \<Rightarrow> 'n word" where
  "saturating_sub a b = (if b \<le> a then a - b else 0)"

lemma unat_add_less:
  "unat (a :: 'n::len word) + unat b < 2 ^ LENGTH('n) \<Longrightarrow> unat (a + b) = unat a + unat b"
  by (simp add: unat_add_lem)

lemma checked_add_eq_Some:
  "checked_add (a :: 'n::len word) b = Some c \<longleftrightarrow>
     unat c = unat a + unat b"
proof
  assume "checked_add a b = Some c"
  then show "unat c = unat a + unat b"
    by (auto simp: checked_add_def unat_add_less split: if_splits)
next
  assume c: "unat c = unat a + unat b"
  moreover have "unat c < 2 ^ LENGTH('n)"
    by (rule unsigned_less)
  ultimately have "unat a + unat b < 2 ^ LENGTH('n)"
    by simp
  with c show "checked_add a b = Some c"
    by (simp add: checked_add_def unat_add_less word_unat_eq_iff)
qed

lemma checked_add_eq_None:
  "checked_add (a :: 'n::len word) b = None \<longleftrightarrow> 2 ^ LENGTH('n) \<le> unat a + unat b"
  by (auto simp: checked_add_def)

lemma checked_sub_eq_Some:
  "checked_sub (a :: 'n::len word) b = Some c \<longleftrightarrow> b \<le> a \<and> c = a - b"
  by (auto simp: checked_sub_def)

lemma unat_saturating_add:
  "unat (saturating_add (a :: 'n::len word) b) = min (unat a + unat b) (2 ^ LENGTH('n) - 1)"
proof -
  have "unat (- 1 :: 'n word) = 2 ^ LENGTH('n) - 1"
    by (simp add: unsigned_minus_1_eq_mask mask_eq_exp_minus_1)
  then show ?thesis
    using unat_add_less [of a b] by (auto simp: saturating_add_def)
qed

lemma unat_saturating_sub: "unat (saturating_sub (a :: 'n::len word) b) = unat a - unat b"
  by (auto simp: saturating_sub_def unat_sub word_le_nat_alt)

lemma unat_u64_less: "unat (w :: u64) < 2 ^ 64"
proof -
  have "unat w < 2 ^ LENGTH(64)" by (rule unsigned_less)
  then show ?thesis by simp
qed

lemma unat_of_nat_u64 [simp]: "n < 2 ^ 64 \<Longrightarrow> unat (of_nat n :: u64) = n"
  by (simp add: unat_of_nat)

lemma of_nat_u64_eq_iff:
  "m < 2 ^ 64 \<Longrightarrow> n < 2 ^ 64 \<Longrightarrow> (of_nat m :: u64) = of_nat n \<longleftrightarrow> m = n"
  by (metis unat_of_nat_u64)

section \<open>Byte encodings\<close>

definition to_be_bytes :: "u64 \<Rightarrow> bytes" where
  "to_be_bytes w = map (\<lambda>i. ucast (drop_bit (8 * i) w)) (rev [0..<8])"

definition to_le_bytes :: "u64 \<Rightarrow> bytes" where
  "to_le_bytes w = map (\<lambda>i. ucast (drop_bit (8 * i) w)) [0..<8]"

definition u32_to_be_bytes :: "u32 \<Rightarrow> bytes" where
  "u32_to_be_bytes w = map (\<lambda>i. ucast (drop_bit (8 * i) w)) (rev [0..<4])"

definition as_bytes :: "string \<Rightarrow> bytes" where
  "as_bytes s = map (\<lambda>ch. of_nat (of_char ch)) s"

lemma length_to_be_bytes [simp]: "length (to_be_bytes w) = 8"
  by (simp add: to_be_bytes_def)

lemma length_as_bytes [simp]: "length (as_bytes s) = length s"
  by (simp add: as_bytes_def)

lemma length_to_le_bytes [simp]: "length (to_le_bytes w) = 8"
  by (simp add: to_le_bytes_def)

lemma length_u32_to_be_bytes [simp]: "length (u32_to_be_bytes w) = 4"
  by (simp add: u32_to_be_bytes_def)

text \<open>The bytes of a word determine it.\<close>

lemma bytes_of_word_inject:
  assumes "\<And>i. i < k \<Longrightarrow> (ucast (drop_bit (8 * i) a) :: u8) = ucast (drop_bit (8 * i) b)"
    and "LENGTH('n) = 8 * k"
  shows "(a :: 'n::len word) = b"
proof (rule bit_word_eqI)
  fix n assume "n < LENGTH('n)"
  then have "n div 8 < k" using assms(2) by (simp add: less_mult_imp_div_less mult.commute)
  from assms(1) [OF this]
  have "bit (ucast (drop_bit (8 * (n div 8)) a) :: u8) (n mod 8) =
      bit (ucast (drop_bit (8 * (n div 8)) b) :: u8) (n mod 8)"
    by simp
  then have "bit a (8 * (n div 8) + n mod 8) = bit b (8 * (n div 8) + n mod 8)"
    by (simp add: bit_unsigned_iff bit_drop_bit_eq)
  then show "bit a n = bit b n" by simp
qed

lemma to_be_bytes_inject [simp]: "to_be_bytes a = to_be_bytes b \<longleftrightarrow> a = b"
  by (auto simp: to_be_bytes_def intro: bytes_of_word_inject [of 8])

lemma to_le_bytes_inject [simp]: "to_le_bytes a = to_le_bytes b \<longleftrightarrow> a = b"
  by (auto simp: to_le_bytes_def intro: bytes_of_word_inject [of 8])

lemma u32_to_be_bytes_inject [simp]: "u32_to_be_bytes a = u32_to_be_bytes b \<longleftrightarrow> a = b"
  by (auto simp: u32_to_be_bytes_def intro: bytes_of_word_inject [of 4])

lemma to_le_bytes_append_inject [simp]:
  "to_le_bytes a @ xs = to_le_bytes b @ ys \<longleftrightarrow> a = b \<and> xs = ys"
  by (simp add: append_eq_append_conv)

lemma u32_to_be_bytes_append_inject [simp]:
  "u32_to_be_bytes a @ xs = u32_to_be_bytes b @ ys \<longleftrightarrow> a = b \<and> xs = ys"
  by (simp add: append_eq_append_conv)

text \<open>A length-prefixed field can be told from what follows it, below the bound of the prefix.\<close>

lemma unat_of_nat_u32 [simp]: "n < 2 ^ 32 \<Longrightarrow> unat (of_nat n :: u32) = n"
  by (simp add: unat_of_nat)

lemma of_nat_u32_eq_iff:
  "m < 2 ^ 32 \<Longrightarrow> n < 2 ^ 32 \<Longrightarrow> (of_nat m :: u32) = of_nat n \<longleftrightarrow> m = n"
  by (metis unat_of_nat_u32)

lemma u32_prefixed_inject:
  assumes "length xs < 2 ^ 32" and "length ys < 2 ^ 32"
  shows "u32_to_be_bytes (of_nat (length xs)) @ xs @ us = u32_to_be_bytes (of_nat (length ys)) @ ys @ vs
    \<longleftrightarrow> xs = ys \<and> us = vs"
  using of_nat_u32_eq_iff [OF assms] by (auto simp: append_eq_append_conv)

lemma to_be_bytes_append_inject [simp]:
  "to_be_bytes a @ xs = to_be_bytes b @ ys \<longleftrightarrow> a = b \<and> xs = ys"
  by (simp add: append_eq_append_conv)

lemma of_char_u8_inject: "(of_nat (of_char x) :: u8) = of_nat (of_char y) \<longleftrightarrow> x = y"
proof
  assume eq: "(of_nat (of_char x) :: u8) = of_nat (of_char y)"
  have *: "unat (of_nat (of_char z) :: u8) = (of_char z :: nat)" for z
    by (simp add: unat_of_nat)
  from eq have "(of_char x :: nat) = of_char y"
    using * by metis
  then show "x = y" by simp
qed simp

lemma as_bytes_inject [simp]: "as_bytes s = as_bytes t \<longleftrightarrow> s = t"
  unfolding as_bytes_def
  by (rule inj_map_eq_map) (simp add: inj_def of_char_u8_inject)

section \<open>Lists\<close>

text \<open>The successive pairs \<open>slice.windows(2)\<close> yields.\<close>

fun windows2 :: "'a list \<Rightarrow> ('a \<times> 'a) list" where
  "windows2 (x # y # zs) = (x, y) # windows2 (y # zs)"
| "windows2 _ = []"

lemma windows2_snoc:
  "windows2 (xs @ [x]) = (if xs = [] then [] else windows2 xs @ [(last xs, x)])"
  by (induction xs rule: windows2.induct) auto

text \<open>\<open>Vec::get\<close> and \<open>slice::last\<close>.\<close>

definition vec_get :: "'a list \<Rightarrow> nat \<Rightarrow> 'a option" where
  "vec_get xs i = (if i < length xs then Some (xs ! i) else None)"

fun vec_last :: "'a list \<Rightarrow> 'a option" where
  "vec_last [] = None"
| "vec_last [x] = Some x"
| "vec_last (x # y # zs) = vec_last (y # zs)"

lemma vec_get_snoc [simp]: "vec_get (xs @ [x]) (length xs) = Some x"
  by (simp add: vec_get_def)

lemma vec_last_snoc [simp]: "vec_last (xs @ [x]) = Some x"
  by (induction xs rule: vec_last.induct) auto

lemma vec_last_conv: "vec_last xs = (if xs = [] then None else Some (last xs))"
  by (induction xs rule: vec_last.induct) auto

text \<open>
  A vector holds at most \<open>isize::MAX\<close> bytes, so its length is below \<open>2 ^ 63\<close>: growing past that
  aborts the program.
\<close>

definition vec_fits :: "'a list \<Rightarrow> bool" where
  "vec_fits xs \<longleftrightarrow> length xs < 2 ^ 63"

text \<open>Records of one fixed length, concatenated, can be told apart when their number is known.\<close>

lemma concat_map_fixed_inject:
  assumes "\<And>x. length (f x) = n" and "length xs = length ys"
  shows "concat (map f xs) @ us = concat (map f ys) @ vs \<longleftrightarrow> map f xs = map f ys \<and> us = vs"
  using assms(2)
proof (induction xs ys rule: list_induct2)
  case (Cons x xs y ys)
  then show ?case using assms(1) by (simp add: append_eq_append_conv)
qed simp

text \<open>Two different byte strings with one hash.\<close>

definition bytes_collision :: "(bytes \<Rightarrow> 'h) \<Rightarrow> bytes \<Rightarrow> bytes \<Rightarrow> bool" where
  "bytes_collision h x y \<longleftrightarrow> x \<noteq> y \<and> h x = h y"

lemma same_hash_cases: "h x = h y \<Longrightarrow> x = y \<or> bytes_collision h x y"
  by (simp add: bytes_collision_def)

end
