(* ===== verification/Ledger_Primitives.thy ===== *)
theory Ledger_Primitives
  imports Xenia_Prelude
begin

text \<open>
  The consent-event data of \<open>crates/xenia-ledger/src/entry.rs\<close>, the hash preimage of
  \<open>crates/xenia-ledger/src/hash.rs\<close>, and the third-party primitives the ledger calls, as one
  record of functions that every definition using them takes as its argument: BLAKE3
  (\<open>blake3::hash\<close>), bincode serialization of the preimage, Ed25519 (\<open>ed25519_dalek\<close>) and
  ML-DSA (\<open>ml_dsa\<close>). Nothing is assumed of them except through the named predicates at the
  end, each of which states what the respective crate documents: a signature made with a key
  verifies under its verifying key, and encoding a verifying key can be undone. No theorem
  assumes that a hash is injective, which no 32-byte hash is: where a result rests on collision
  resistance, its statement names the two colliding preimages.
\<close>

section \<open>Consent events\<close>

text \<open>
  \<open>std::time::SystemTime\<close> as seconds and nanoseconds relative to the Unix epoch. The ledger
  only stores it and passes it to the serializer.
\<close>

record SystemTime =
  secs_since_epoch :: int
  nanos_since_epoch :: u32

datatype ConsentKind = Request | Approval | Denial | Revocation | Violation | AthenaTriage

fun ConsentKind_stable_name :: "ConsentKind \<Rightarrow> string" where
  "ConsentKind_stable_name Request = ''consent.requested''"
| "ConsentKind_stable_name Approval = ''consent.granted''"
| "ConsentKind_stable_name Denial = ''consent.denied''"
| "ConsentKind_stable_name Revocation = ''consent.revoked''"
| "ConsentKind_stable_name Violation = ''consent.protocol_violation''"
| "ConsentKind_stable_name AthenaTriage = ''admin.athena_triage''"

record ConsentEventRecord =
  source_id :: u8_32
  session_id :: Uuid
  request_id :: Uuid
  kind :: ConsentKind
  scope :: string

definition ConsentEventRecord_stable_name :: "ConsentEventRecord \<Rightarrow> string" where
  "ConsentEventRecord_stable_name r = ConsentKind_stable_name (kind r)"

record EntryPreimage =
  seq :: u64
  prev_hash :: u8_32
  timestamp :: SystemTime
  event :: ConsentEventRecord

section \<open>Third-party primitives\<close>

text \<open>
  \<open>'sk\<close> and \<open>'vk\<close> are \<open>ed25519_dalek::SigningKey\<close> and \<open>VerifyingKey\<close>, \<open>'ml\<close> is
  \<open>ml_dsa::SigningKey\<close>. The error of \<open>bincode::serialize\<close> is its message.
\<close>

datatype MlDsaParams = MlDsa65 | MlDsa87

record ('sk, 'vk, 'ml) crypto =
  blake3_hash :: "bytes \<Rightarrow> u8_32"
  bincode_serialize :: "EntryPreimage \<Rightarrow> (bytes, string) result"
  ed_sign :: "'sk \<Rightarrow> bytes \<Rightarrow> u8_64"
  ed_verifying_key :: "'sk \<Rightarrow> 'vk"
  ed_key_from_bytes :: "u8_32 \<Rightarrow> 'vk option"
  ed_key_to_bytes :: "'vk \<Rightarrow> u8_32"
  ed_verify :: "'vk \<Rightarrow> bytes \<Rightarrow> u8_64 \<Rightarrow> bool"
  ml_sign :: "MlDsaParams \<Rightarrow> 'ml \<Rightarrow> bytes \<Rightarrow> bytes"
  ml_verifying_key :: "MlDsaParams \<Rightarrow> 'ml \<Rightarrow> bytes"
  ml_key_encoding_ok :: "MlDsaParams \<Rightarrow> bytes \<Rightarrow> bool"
  ml_signature_encoding_ok :: "MlDsaParams \<Rightarrow> bytes \<Rightarrow> bool"
  ml_signature_decodes :: "MlDsaParams \<Rightarrow> bytes \<Rightarrow> bool"
  ml_verify :: "MlDsaParams \<Rightarrow> bytes \<Rightarrow> bytes \<Rightarrow> bytes \<Rightarrow> bool"

text \<open>\<open>ed25519_dalek\<close>: a signature verifies under the verifying key of the key that made it.\<close>

definition ed25519_correct :: "('sk, 'vk, 'ml) crypto \<Rightarrow> bool" where
  "ed25519_correct c \<longleftrightarrow> (\<forall>sk m. ed_verify c (ed_verifying_key c sk) m (ed_sign c sk m))"

text \<open>\<open>ed25519_dalek\<close>: \<open>from_bytes\<close> and \<open>to_bytes\<close> of a verifying key undo each other.\<close>

definition ed25519_key_codec :: "('sk, 'vk, 'ml) crypto \<Rightarrow> bool" where
  "ed25519_key_codec c \<longleftrightarrow>
     (\<forall>k. ed_key_from_bytes c (ed_key_to_bytes c k) = Some k) \<and>
     (\<forall>b k. ed_key_from_bytes c b = Some k \<longrightarrow> ed_key_to_bytes c k = b)"

text \<open>
  \<open>ml_dsa\<close> (FIPS 204): keys and signatures encode to the lengths of the parameter set, their
  encodings decode, and a signature verifies under the verifying key of the key that made it.
\<close>

fun ml_dsa_key_len :: "MlDsaParams \<Rightarrow> nat" where
  "ml_dsa_key_len MlDsa65 = 1952"
| "ml_dsa_key_len MlDsa87 = 2592"

fun ml_dsa_signature_len :: "MlDsaParams \<Rightarrow> nat" where
  "ml_dsa_signature_len MlDsa65 = 3309"
| "ml_dsa_signature_len MlDsa87 = 4627"

definition ml_dsa_correct :: "('sk, 'vk, 'ml) crypto \<Rightarrow> MlDsaParams \<Rightarrow> bool" where
  "ml_dsa_correct c P \<longleftrightarrow> (\<forall>sk m.
     length (ml_verifying_key c P sk) = ml_dsa_key_len P \<and>
     length (ml_sign c P sk m) = ml_dsa_signature_len P \<and>
     ml_key_encoding_ok c P (ml_verifying_key c P sk) \<and>
     ml_signature_encoding_ok c P (ml_sign c P sk m) \<and>
     ml_signature_decodes c P (ml_sign c P sk m) \<and>
     ml_verify c P (ml_verifying_key c P sk) m (ml_sign c P sk m))"

text \<open>\<open>bincode\<close>: the preimage of an entry that can be serialized.\<close>

definition serializable :: "('sk, 'vk, 'ml) crypto \<Rightarrow> EntryPreimage \<Rightarrow> bool" where
  "serializable c p \<longleftrightarrow> is_ok (bincode_serialize c p)"

lemma ed25519_correctD: "ed25519_correct c \<Longrightarrow> ed_verify c (ed_verifying_key c sk) m (ed_sign c sk m)"
  by (simp add: ed25519_correct_def)

lemma ed25519_key_codecD:
  assumes "ed25519_key_codec c"
  shows "ed_key_from_bytes c (ed_key_to_bytes c k) = Some k"
    and "ed_key_from_bytes c b = Some k' \<Longrightarrow> ed_key_to_bytes c k' = b"
    and "ed_key_to_bytes c x = ed_key_to_bytes c y \<longleftrightarrow> x = y"
proof -
  from assms show 1: "ed_key_from_bytes c (ed_key_to_bytes c k) = Some k" for k
    by (simp add: ed25519_key_codec_def)
  from assms show "ed_key_from_bytes c b = Some k' \<Longrightarrow> ed_key_to_bytes c k' = b"
    by (simp add: ed25519_key_codec_def)
  show "ed_key_to_bytes c x = ed_key_to_bytes c y \<longleftrightarrow> x = y"
    by (metis 1 option.inject)
qed

section \<open>A concrete instance for witnesses\<close>

text \<open>
  A checksum in place of BLAKE3 and a keyed checksum in place of both signature schemes: it
  satisfies every predicate above and evaluates, which is all a witness needs. The signing key
  is the verifying key.
\<close>

definition checksum :: "bytes \<Rightarrow> u8" where
  "checksum xs = fold (\<lambda>b acc. acc * 31 + b + 1) xs 7"

definition demo_serialize :: "EntryPreimage \<Rightarrow> bytes" where
  "demo_serialize p = to_be_bytes (seq p) @ slice (prev_hash p) @
     slice (session_id (event p)) @ as_bytes (scope (event p))"

definition demo_crypto :: "(u8_32, u8_32, bytes) crypto" where
  "demo_crypto = \<lparr>
     blake3_hash = (\<lambda>m. filled (checksum m)),
     bincode_serialize = (\<lambda>p. Ok (demo_serialize p)),
     ed_sign = (\<lambda>k m. filled (checksum (slice k @ m))),
     ed_verifying_key = (\<lambda>k. k),
     ed_key_from_bytes = Some,
     ed_key_to_bytes = (\<lambda>k. k),
     ed_verify = (\<lambda>k m s. s = filled (checksum (slice k @ m))),
     ml_sign = (\<lambda>P k m. replicate (ml_dsa_signature_len P) (checksum m)),
     ml_verifying_key = (\<lambda>P k. replicate (ml_dsa_key_len P) 1),
     ml_key_encoding_ok = (\<lambda>P b. True),
     ml_signature_encoding_ok = (\<lambda>P b. True),
     ml_signature_decodes = (\<lambda>P b. True),
     ml_verify = (\<lambda>P k m s. s = replicate (ml_dsa_signature_len P) (checksum m))\<rparr>"

lemma demo_crypto_simps [simp]:
  "blake3_hash demo_crypto m = filled (checksum m)"
  "bincode_serialize demo_crypto p = Ok (demo_serialize p)"
  "ed_sign demo_crypto k m = filled (checksum (slice k @ m))"
  "ed_verifying_key demo_crypto k = k"
  "ed_key_from_bytes demo_crypto b = Some b"
  "ed_key_to_bytes demo_crypto k = k"
  "ed_verify demo_crypto k m s \<longleftrightarrow> s = filled (checksum (slice k @ m))"
  by (simp_all add: demo_crypto_def)

lemma demo_crypto_lawful [simp]:
  "ed25519_correct demo_crypto"
  "ed25519_key_codec demo_crypto"
  "serializable demo_crypto p"
  "ml_dsa_correct demo_crypto P"
  by (simp_all add: ed25519_correct_def ed25519_key_codec_def serializable_def ml_dsa_correct_def
      demo_crypto_def)

end
