(* ===== verification/Ledger_Signature.thy ===== *)
theory Ledger_Signature
  imports Ledger_Primitives
begin

text \<open>
  \<open>crates/xenia-ledger/src/signature.rs\<close>: signature suites and their stable labels, the
  algorithm-tagged signature envelope, the evidence-signature backends and their errors. The
  trait \<open>EvidenceSignatureBackend\<close> is the record of its two methods; the three backends of the
  crate are values of it. The locale \<open>evidence_backend\<close> is the contract of the trait, interpreted
  on all three.
\<close>

section \<open>Signature suites\<close>

datatype SignatureSuite = Ed25519Rfc8032 | MlDsa65Fips204 | MlDsa87Fips204 | SlhDsaFips205

fun SignatureSuite_stable_label :: "SignatureSuite \<Rightarrow> string" where
  "SignatureSuite_stable_label Ed25519Rfc8032 = ''ed25519-rfc8032''"
| "SignatureSuite_stable_label MlDsa65Fips204 = ''ml-dsa-65-fips204''"
| "SignatureSuite_stable_label MlDsa87Fips204 = ''ml-dsa-87-fips204''"
| "SignatureSuite_stable_label SlhDsaFips205 = ''slh-dsa-fips205''"

definition SignatureSuite_is_post_quantum :: "SignatureSuite \<Rightarrow> bool" where
  "SignatureSuite_is_post_quantum s \<longleftrightarrow> s \<noteq> Ed25519Rfc8032"

definition SignatureSuite_from_stable_label :: "string \<Rightarrow> SignatureSuite option" where
  "SignatureSuite_from_stable_label label =
     (if label = ''ed25519-rfc8032'' then Some Ed25519Rfc8032
      else if label = ''ml-dsa-65-fips204'' then Some MlDsa65Fips204
      else if label = ''ml-dsa-87-fips204'' then Some MlDsa87Fips204
      else if label = ''slh-dsa-fips205'' then Some SlhDsaFips205
      else None)"

fun SignatureSuite_fixed_signature_len :: "SignatureSuite \<Rightarrow> nat option" where
  "SignatureSuite_fixed_signature_len Ed25519Rfc8032 = Some 64"
| "SignatureSuite_fixed_signature_len MlDsa65Fips204 = Some 3309"
| "SignatureSuite_fixed_signature_len MlDsa87Fips204 = Some 4627"
| "SignatureSuite_fixed_signature_len SlhDsaFips205 = None"

fun SignatureSuite_fixed_public_key_len :: "SignatureSuite \<Rightarrow> nat option" where
  "SignatureSuite_fixed_public_key_len Ed25519Rfc8032 = Some 32"
| "SignatureSuite_fixed_public_key_len MlDsa65Fips204 = Some 1952"
| "SignatureSuite_fixed_public_key_len MlDsa87Fips204 = Some 2592"
| "SignatureSuite_fixed_public_key_len SlhDsaFips205 = None"

definition CURRENT_LEDGER_SIGNATURE_SUITE :: SignatureSuite where
  "CURRENT_LEDGER_SIGNATURE_SUITE = Ed25519Rfc8032"

section \<open>Signature envelopes\<close>

record SignatureEnvelope =
  algorithm :: string
  signature :: bytes

datatype SignatureEnvelopeError =
    UnknownSignatureSuite string
  | BadSignatureLength string nat nat
  | UnsupportedLegacySuite string

definition SignatureEnvelope_new :: "SignatureSuite \<Rightarrow> bytes \<Rightarrow> SignatureEnvelope" where
  "SignatureEnvelope_new s sig = \<lparr>algorithm = SignatureSuite_stable_label s, signature = sig\<rparr>"

definition SignatureEnvelope_ed25519 :: "u8_64 \<Rightarrow> SignatureEnvelope" where
  "SignatureEnvelope_ed25519 sig = SignatureEnvelope_new Ed25519Rfc8032 (slice sig)"

definition SignatureEnvelope_suite ::
    "SignatureEnvelope \<Rightarrow> (SignatureSuite, SignatureEnvelopeError) result" where
  "SignatureEnvelope_suite env =
     ok_or (SignatureSuite_from_stable_label (algorithm env)) (UnknownSignatureSuite (algorithm env))"

definition SignatureEnvelope_validate_shape ::
    "SignatureEnvelope \<Rightarrow> (SignatureSuite, SignatureEnvelopeError) result" where
  "SignatureEnvelope_validate_shape env =
     and_then (SignatureEnvelope_suite env) (\<lambda>suite.
       case SignatureSuite_fixed_signature_len suite of
         Some expected \<Rightarrow>
           (let found = length (signature env) in
            if found \<noteq> expected then Err (BadSignatureLength (algorithm env) expected found)
            else Ok suite)
       | None \<Rightarrow> Ok suite)"

definition SignatureEnvelope_is_post_quantum ::
    "SignatureEnvelope \<Rightarrow> (bool, SignatureEnvelopeError) result" where
  "SignatureEnvelope_is_post_quantum env =
     map_ok SignatureSuite_is_post_quantum (SignatureEnvelope_suite env)"

text \<open>\<open>copy_from_slice\<close> into the 64-byte array succeeds because the shape check fixed the length.\<close>

definition SignatureEnvelope_to_legacy_ed25519 ::
    "SignatureEnvelope \<Rightarrow> (u8_64, SignatureEnvelopeError) result" where
  "SignatureEnvelope_to_legacy_ed25519 env =
     and_then (SignatureEnvelope_validate_shape env) (\<lambda>suite.
       if suite \<noteq> Ed25519Rfc8032 then Err (UnsupportedLegacySuite (algorithm env))
       else Ok (Abs_byte_array (signature env)))"

section \<open>Verification backends\<close>

datatype EvidenceSignatureBackendError =
    BadPublicKeyLength nat nat
  | BadSignatureLength nat nat
  | BadPublicKey
  | BadSignatureEncoding
  | BadSignature
  | UnsupportedSuite SignatureSuite

record EvidenceSignatureBackend =
  suite :: SignatureSuite
  verify_signature :: "bytes \<Rightarrow> bytes \<Rightarrow> bytes \<Rightarrow> (unit, EvidenceSignatureBackendError) result"

definition Ed25519_verify_signature ::
    "('sk, 'vk, 'ml) crypto \<Rightarrow> bytes \<Rightarrow> bytes \<Rightarrow> bytes \<Rightarrow> (unit, EvidenceSignatureBackendError) result"
where
  "Ed25519_verify_signature c public_key message sig =
     and_then (ok_or (try_into public_key) (BadPublicKeyLength 32 (length public_key))) (\<lambda>public_key.
     and_then (ok_or (try_into sig)
         (EvidenceSignatureBackendError.BadSignatureLength 64 (length sig))) (\<lambda>sig.
     and_then (ok_or (ed_key_from_bytes c public_key) BadPublicKey) (\<lambda>verifying_key.
       if ed_verify c verifying_key message sig then Ok () else Err BadSignature)))"

definition Ed25519EvidenceSignatureBackend ::
    "('sk, 'vk, 'ml) crypto \<Rightarrow> EvidenceSignatureBackend" where
  "Ed25519EvidenceSignatureBackend c =
     \<lparr>suite = Ed25519Rfc8032, verify_signature = Ed25519_verify_signature c\<rparr>"

definition verify_ml_dsa ::
    "('sk, 'vk, 'ml) crypto \<Rightarrow> MlDsaParams \<Rightarrow> SignatureSuite \<Rightarrow> bytes \<Rightarrow> bytes \<Rightarrow> bytes \<Rightarrow>
     (unit, EvidenceSignatureBackendError) result" where
  "verify_ml_dsa c P s public_key message sig =
     and_then (ok_or (SignatureSuite_fixed_public_key_len s) (UnsupportedSuite s))
       (\<lambda>expected_public_key_len.
     and_then (ok_or (SignatureSuite_fixed_signature_len s) (UnsupportedSuite s))
       (\<lambda>expected_signature_len.
     if length public_key \<noteq> expected_public_key_len
     then Err (BadPublicKeyLength expected_public_key_len (length public_key))
     else if length sig \<noteq> expected_signature_len
     then Err (EvidenceSignatureBackendError.BadSignatureLength expected_signature_len (length sig))
     else if \<not> ml_key_encoding_ok c P public_key then Err BadPublicKey
     else if \<not> ml_signature_encoding_ok c P sig then Err BadSignatureEncoding
     else if \<not> ml_signature_decodes c P sig then Err BadSignatureEncoding
     else if ml_verify c P public_key message sig then Ok () else Err BadSignature))"

definition MlDsa65EvidenceSignatureBackend ::
    "('sk, 'vk, 'ml) crypto \<Rightarrow> EvidenceSignatureBackend" where
  "MlDsa65EvidenceSignatureBackend c =
     \<lparr>suite = MlDsa65Fips204, verify_signature = verify_ml_dsa c MlDsa65 MlDsa65Fips204\<rparr>"

definition MlDsa87EvidenceSignatureBackend ::
    "('sk, 'vk, 'ml) crypto \<Rightarrow> EvidenceSignatureBackend" where
  "MlDsa87EvidenceSignatureBackend c =
     \<lparr>suite = MlDsa87Fips204, verify_signature = verify_ml_dsa c MlDsa87 MlDsa87Fips204\<rparr>"

section \<open>Labels and envelopes\<close>

lemma from_stable_label_stable_label [simp]:
  "SignatureSuite_from_stable_label (SignatureSuite_stable_label s) = Some s"
  by (cases s) (simp_all add: SignatureSuite_from_stable_label_def)

lemma from_stable_label_eq_Some:
  "SignatureSuite_from_stable_label l = Some s \<longleftrightarrow> l = SignatureSuite_stable_label s"
proof
  assume "SignatureSuite_from_stable_label l = Some s"
  then show "l = SignatureSuite_stable_label s"
    unfolding SignatureSuite_from_stable_label_def
    by (cases s) (simp_all split: if_split_asm)
qed simp

lemma stable_label_inject [simp]:
  "SignatureSuite_stable_label s = SignatureSuite_stable_label t \<longleftrightarrow> s = t"
  by (metis from_stable_label_stable_label option.inject)

text \<open>A shape-checked envelope has the label of its suite and the suite's signature length.\<close>

lemma validate_shape_eq_Ok [result_simps]:
  "SignatureEnvelope_validate_shape env = Ok s \<longleftrightarrow>
     algorithm env = SignatureSuite_stable_label s \<and>
     (\<forall>n. SignatureSuite_fixed_signature_len s = Some n \<longrightarrow> length (signature env) = n)"
proof -
  have "SignatureEnvelope_validate_shape env = Ok s \<longleftrightarrow>
      SignatureEnvelope_suite env = Ok s \<and>
      (\<forall>n. SignatureSuite_fixed_signature_len s = Some n \<longrightarrow> length (signature env) = n)"
    by (auto simp: SignatureEnvelope_validate_shape_def Let_def split: option.splits if_splits)
  then show ?thesis
    by (simp add: SignatureEnvelope_suite_def from_stable_label_eq_Some)
qed

lemma validate_shape_ed25519 [simp]:
  "SignatureEnvelope_validate_shape (SignatureEnvelope_ed25519 sig) = Ok Ed25519Rfc8032"
  by (simp add: validate_shape_eq_Ok SignatureEnvelope_ed25519_def SignatureEnvelope_new_def)

lemma to_legacy_ed25519_eq_Ok [result_simps]:
  "SignatureEnvelope_to_legacy_ed25519 env = Ok sig \<longleftrightarrow> env = SignatureEnvelope_ed25519 sig"
  by (cases env)
    (auto simp: SignatureEnvelope_to_legacy_ed25519_def validate_shape_eq_Ok
      SignatureEnvelope_ed25519_def SignatureEnvelope_new_def slice_inverse)

section \<open>The backend contract\<close>

text \<open>
  What every backend promises the evidence verifiers: it accepts only public keys and
  signatures of the lengths its suite fixes, and its suite fixes both.
\<close>

locale evidence_backend =
  fixes backend :: EvidenceSignatureBackend
  assumes accepts_lengths:
    "verify_signature backend pk m sig = Ok () \<Longrightarrow>
       SignatureSuite_fixed_public_key_len (suite backend) = Some (length pk) \<and>
       SignatureSuite_fixed_signature_len (suite backend) = Some (length sig)"
begin

lemma accepts_only_nonempty_keys: "verify_signature backend [] m sig \<noteq> Ok ()"
proof
  assume "verify_signature backend [] m sig = Ok ()"
  then have "SignatureSuite_fixed_public_key_len (suite backend) = Some 0"
    by (auto dest: accepts_lengths)
  then show False
    by (cases "suite backend") auto
qed

lemma accepted_shape:
  assumes "verify_signature backend pk m (signature env) = Ok ()"
    and "algorithm env = SignatureSuite_stable_label (suite backend)"
  shows "SignatureEnvelope_validate_shape env = Ok (suite backend)"
  using assms by (auto simp: validate_shape_eq_Ok dest: accepts_lengths)

end

lemma Ed25519_verify_signature_eq_Ok [result_simps]:
  "Ed25519_verify_signature c pk m sig = Ok () \<longleftrightarrow>
     (\<exists>k s vk. pk = slice k \<and> sig = slice s \<and> ed_key_from_bytes c k = Some vk \<and> ed_verify c vk m s)"
  by (auto simp: Ed25519_verify_signature_def try_into_eq_Some)

lemma verify_ml_dsa_eq_Ok [result_simps]:
  "verify_ml_dsa c P s pk m sig = Ok () \<longleftrightarrow>
     SignatureSuite_fixed_public_key_len s = Some (length pk) \<and>
     SignatureSuite_fixed_signature_len s = Some (length sig) \<and>
     ml_key_encoding_ok c P pk \<and> ml_signature_encoding_ok c P sig \<and>
     ml_signature_decodes c P sig \<and> ml_verify c P pk m sig"
  by (auto simp: verify_ml_dsa_def)

lemma backend_simps [simp]:
  "suite (Ed25519EvidenceSignatureBackend c) = Ed25519Rfc8032"
  "suite (MlDsa65EvidenceSignatureBackend c) = MlDsa65Fips204"
  "suite (MlDsa87EvidenceSignatureBackend c) = MlDsa87Fips204"
  "verify_signature (Ed25519EvidenceSignatureBackend c) = Ed25519_verify_signature c"
  "verify_signature (MlDsa65EvidenceSignatureBackend c) = verify_ml_dsa c MlDsa65 MlDsa65Fips204"
  "verify_signature (MlDsa87EvidenceSignatureBackend c) = verify_ml_dsa c MlDsa87 MlDsa87Fips204"
  by (simp_all add: Ed25519EvidenceSignatureBackend_def MlDsa65EvidenceSignatureBackend_def
      MlDsa87EvidenceSignatureBackend_def)

interpretation ed25519: evidence_backend "Ed25519EvidenceSignatureBackend c" for c
  by unfold_locales (auto simp: Ed25519_verify_signature_eq_Ok)

interpretation ml_dsa_65: evidence_backend "MlDsa65EvidenceSignatureBackend c" for c
  by unfold_locales (simp_all add: verify_ml_dsa_eq_Ok)

interpretation ml_dsa_87: evidence_backend "MlDsa87EvidenceSignatureBackend c" for c
  by unfold_locales (simp_all add: verify_ml_dsa_eq_Ok)

end
