(* ===== verification/Ledger_Policy.thy ===== *)
theory Ledger_Policy
  imports Ledger_Signature
begin

text \<open>
  \<open>crates/xenia-ledger/src/policy.rs\<close>: the crypto-policy profiles, the downgrade policies and
  the evidence manifest with the validation every evidence verifier runs first.
\<close>

record LedgerEvidenceProfile =
  schema :: string
  hash_chain :: string
  serialization :: string
  entry_hash_preimage :: string
  ledger_signature :: SignatureSuite
  policy_profile :: string

definition LedgerEvidenceProfile_ledger_signature_is_post_quantum ::
    "LedgerEvidenceProfile \<Rightarrow> bool" where
  "LedgerEvidenceProfile_ledger_signature_is_post_quantum p =
     SignatureSuite_is_post_quantum (ledger_signature p)"

definition CURRENT_LEDGER_EVIDENCE_PROFILE :: LedgerEvidenceProfile where
  "CURRENT_LEDGER_EVIDENCE_PROFILE = \<lparr>
     schema = ''xenia-ledger-evidence-profile-v1'',
     hash_chain = ''blake3-256'',
     serialization = ''bincode-1'',
     entry_hash_preimage = ''bincode-v1(seq,prev_hash,timestamp,event)'',
     ledger_signature = CURRENT_LEDGER_SIGNATURE_SUITE,
     policy_profile = ''hybrid-pre-pqc-v1''\<rparr>"

datatype CryptoPolicyProfile = HybridPrePqcV1 | FullPqcV1

fun CryptoPolicyProfile_stable_label :: "CryptoPolicyProfile \<Rightarrow> string" where
  "CryptoPolicyProfile_stable_label HybridPrePqcV1 = ''hybrid-pre-pqc-v1''"
| "CryptoPolicyProfile_stable_label FullPqcV1 = ''full-pqc-v1''"

definition CryptoPolicyProfile_requires_post_quantum_signatures :: "CryptoPolicyProfile \<Rightarrow> bool" where
  "CryptoPolicyProfile_requires_post_quantum_signatures p \<longleftrightarrow> p = FullPqcV1"

datatype DowngradePolicy = ExplicitClassicalSignatureAllowance | RejectClassicalSignatures

fun DowngradePolicy_stable_label :: "DowngradePolicy \<Rightarrow> string" where
  "DowngradePolicy_stable_label ExplicitClassicalSignatureAllowance =
     ''explicit-classical-signature-allowance''"
| "DowngradePolicy_stable_label RejectClassicalSignatures = ''reject-classical-signatures''"

record EvidenceCryptoManifest =
  schema :: string
  profile :: CryptoPolicyProfile
  kem :: string
  transcript_signature :: SignatureSuite
  ledger_signature :: SignatureSuite
  hash_chain :: string
  kdf :: string
  aead :: string
  downgrade_policy :: DowngradePolicy

datatype EvidencePolicyError =
    PqTranscriptSignatureInHybridPrePqc
  | PqLedgerSignatureInHybridPrePqc
  | HybridPrePqcRequiresExplicitClassicalAllowance
  | ClassicalTranscriptSignatureInFullPqc
  | ClassicalLedgerSignatureInFullPqc
  | DowngradePolicyAllowsClassicalInFullPqc

definition EvidenceCryptoManifest_validate_against_policy ::
    "EvidenceCryptoManifest \<Rightarrow> (unit, EvidencePolicyError) result" where
  "EvidenceCryptoManifest_validate_against_policy m =
     (case profile m of
        HybridPrePqcV1 \<Rightarrow>
          if SignatureSuite_is_post_quantum (transcript_signature m)
          then Err PqTranscriptSignatureInHybridPrePqc
          else if SignatureSuite_is_post_quantum (EvidenceCryptoManifest.ledger_signature m)
          then Err PqLedgerSignatureInHybridPrePqc
          else if downgrade_policy m \<noteq> ExplicitClassicalSignatureAllowance
          then Err HybridPrePqcRequiresExplicitClassicalAllowance
          else Ok ()
      | FullPqcV1 \<Rightarrow>
          if \<not> SignatureSuite_is_post_quantum (transcript_signature m)
          then Err ClassicalTranscriptSignatureInFullPqc
          else if \<not> SignatureSuite_is_post_quantum (EvidenceCryptoManifest.ledger_signature m)
          then Err ClassicalLedgerSignatureInFullPqc
          else if downgrade_policy m \<noteq> RejectClassicalSignatures
          then Err DowngradePolicyAllowsClassicalInFullPqc
          else Ok ())"

definition EvidenceCryptoManifest_signatures_are_post_quantum :: "EvidenceCryptoManifest \<Rightarrow> bool" where
  "EvidenceCryptoManifest_signatures_are_post_quantum m \<longleftrightarrow>
     SignatureSuite_is_post_quantum (transcript_signature m) \<and>
     SignatureSuite_is_post_quantum (EvidenceCryptoManifest.ledger_signature m)"

definition CURRENT_EVIDENCE_CRYPTO_MANIFEST :: EvidenceCryptoManifest where
  "CURRENT_EVIDENCE_CRYPTO_MANIFEST = \<lparr>
     EvidenceCryptoManifest.schema = ''xenia-evidence-crypto-manifest-v1'',
     profile = HybridPrePqcV1,
     kem = ''ml-kem-768-fips203'',
     transcript_signature = Ed25519Rfc8032,
     EvidenceCryptoManifest.ledger_signature = CURRENT_LEDGER_SIGNATURE_SUITE,
     EvidenceCryptoManifest.hash_chain = ''blake3-256'',
     kdf = ''hkdf-sha256'',
     aead = ''chacha20-poly1305'',
     downgrade_policy = ExplicitClassicalSignatureAllowance\<rparr>"

lemma CryptoPolicyProfile_stable_label_inject [simp]:
  "CryptoPolicyProfile_stable_label p = CryptoPolicyProfile_stable_label q \<longleftrightarrow> p = q"
  by (cases p; cases q) simp_all

text \<open>
  A manifest passes exactly when its two authority-bearing suites and its downgrade policy all
  have the class its profile declares: all post-quantum with classical signatures rejected, or
  all classical with the explicit allowance. There is no mixed manifest.
\<close>

lemma validate_against_policy_eq_Ok [result_simps]:
  "EvidenceCryptoManifest_validate_against_policy m = Ok () \<longleftrightarrow>
     SignatureSuite_is_post_quantum (transcript_signature m) = (profile m = FullPqcV1) \<and>
     SignatureSuite_is_post_quantum (EvidenceCryptoManifest.ledger_signature m) =
       (profile m = FullPqcV1) \<and>
     (downgrade_policy m = RejectClassicalSignatures) = (profile m = FullPqcV1)"
  by (cases "profile m"; cases "downgrade_policy m")
    (simp_all add: EvidenceCryptoManifest_validate_against_policy_def)

lemma current_manifest_valid:
  "EvidenceCryptoManifest_validate_against_policy CURRENT_EVIDENCE_CRYPTO_MANIFEST = Ok ()"
  by (simp add: validate_against_policy_eq_Ok CURRENT_EVIDENCE_CRYPTO_MANIFEST_def
      SignatureSuite_is_post_quantum_def CURRENT_LEDGER_SIGNATURE_SUITE_def)

end
