(* ===== verification/Hash_Walk.thy ===== *)
theory Hash_Walk
  imports Xenia_Prelude
begin

text \<open>
  The interface every verifier of a hash-linked log satisfies. The ledger has three such
  loops: the legacy chain verifier, the exported-chain verifier and the checkpoint-extension
  verifier. Each walks a slice from a position and an expected previous hash, under some setting
  (the public key), checks one entry
  at a time and moves the expected hash on to that entry's hash. The locales state that
  contract once; what follows from it (prefixes verify, suffixes verify from the right anchor,
  two accepted logs with one head hash carry one content or exhibit a hash collision) is proved
  here once and used through the interpretations in the theories of the three verifiers.
\<close>

text \<open>The expected previous hash after a slice: the hash of its last entry.\<close>

definition head_after :: "('e \<Rightarrow> 'h) \<Rightarrow> 'h \<Rightarrow> 'e list \<Rightarrow> 'h" where
  "head_after hash_of p es = (if es = [] then p else hash_of (last es))"

text \<open>Two different preimages with one hash.\<close>

definition collision :: "('p \<Rightarrow> 'h option) \<Rightarrow> 'p \<Rightarrow> 'p \<Rightarrow> bool" where
  "collision hash_fn x y \<longleftrightarrow> x \<noteq> y \<and> hash_fn x \<noteq> None \<and> hash_fn x = hash_fn y"

lemma head_after_simps:
  "head_after f p [] = p"
  "head_after f p (e # es) = head_after f (f e) es"
  "head_after f p (es @ [e]) = f e"
  "head_after f p (xs @ ys) = head_after f (head_after f p xs) ys"
  by (auto simp: head_after_def)

locale hash_walk =
  fixes walk :: "'s \<Rightarrow> nat \<Rightarrow> 'h \<Rightarrow> 'e list \<Rightarrow> (unit, 'err) result"
    and step_ok :: "'s \<Rightarrow> nat \<Rightarrow> 'h \<Rightarrow> 'e \<Rightarrow> bool"
    and prev_of :: "'e \<Rightarrow> 'h"
    and hash_of :: "'e \<Rightarrow> 'h"
  assumes walk_Nil: "walk s i p [] = Ok ()"
    and walk_Cons: "walk s i p (e # es) = Ok () \<longleftrightarrow> step_ok s i p e \<and> walk s (Suc i) (hash_of e) es = Ok ()"
    and step_link: "step_ok s i p e \<Longrightarrow> prev_of e = p"
begin

lemma walk_append:
  "walk s i p (xs @ ys) = Ok () \<longleftrightarrow>
     walk s i p xs = Ok () \<and> walk s (i + length xs) (head_after hash_of p xs) ys = Ok ()"
proof (induction xs arbitrary: i p)
  case Nil
  then show ?case by (simp add: walk_Nil head_after_simps)
next
  case (Cons e xs)
  then show ?case by (simp add: walk_Cons head_after_simps)
qed

lemma walk_snoc:
  "walk s i p (xs @ [e]) = Ok () \<longleftrightarrow>
     walk s i p xs = Ok () \<and> step_ok s (i + length xs) (head_after hash_of p xs) e"
  by (simp add: walk_append walk_Cons walk_Nil)

lemma walk_take: "walk s i p es = Ok () \<Longrightarrow> walk s i p (take k es) = Ok ()"
  using walk_append [of s i p "take k es" "drop k es"] by simp

lemma walk_drop:
  "walk s i p es = Ok () \<Longrightarrow> k \<le> length es \<Longrightarrow>
     walk s (i + k) (head_after hash_of p (take k es)) (drop k es) = Ok ()"
  using walk_append [of s i p "take k es" "drop k es"] by (simp add: min_absorb2)

lemma walk_nth:
  assumes "walk s i p es = Ok ()" and "k < length es"
  shows "step_ok s (i + k) (head_after hash_of p (take k es)) (es ! k)"
proof -
  have "walk s i p (take (Suc k) es) = Ok ()"
    using assms(1) by (rule walk_take)
  then show ?thesis
    using assms(2) by (simp add: take_Suc_conv_app_nth walk_snoc)
qed

lemma walk_iff_nth:
  "walk s i p es = Ok () \<longleftrightarrow>
     (\<forall>k < length es. step_ok s (i + k) (head_after hash_of p (take k es)) (es ! k))"
proof (induction es rule: rev_induct)
  case Nil
  then show ?case by (simp add: walk_Nil)
next
  case (snoc e es)
  then show ?case
    by (auto simp: walk_snoc nth_append less_Suc_eq)
qed

lemma walk_all: "walk s i p es = Ok () \<Longrightarrow> e \<in> set es \<Longrightarrow> \<exists>j q. step_ok s j q e"
  by (metis in_set_conv_nth walk_nth)

lemma head_after_take:
  assumes "walk s i p es = Ok ()" and "k < length es"
  shows "head_after hash_of p (take k es) = prev_of (es ! k)"
  using step_link [OF walk_nth [OF assms]] by simp

text \<open>Every entry after the first links to the hash of the entry before it.\<close>

lemma walk_links:
  assumes "walk s i p es = Ok ()" and "Suc k < length es"
  shows "prev_of (es ! Suc k) = hash_of (es ! k)"
proof -
  have "head_after hash_of p (take (Suc k) es) = prev_of (es ! Suc k)"
    using assms by (rule head_after_take)
  then show ?thesis
    using assms(2) by (simp add: take_Suc_conv_app_nth head_after_simps)
qed

end

text \<open>
  A walk whose entries are committed by their hash: an accepted entry's hash is the hash of its
  preimage, and the preimage determines the link. Two different preimages with one hash are a
  collision of the hash function.
\<close>

locale committed_walk = hash_walk walk step_ok prev_of hash_of
  for walk :: "'s \<Rightarrow> nat \<Rightarrow> 'h \<Rightarrow> 'e list \<Rightarrow> (unit, 'err) result"
    and step_ok :: "'s \<Rightarrow> nat \<Rightarrow> 'h \<Rightarrow> 'e \<Rightarrow> bool"
    and prev_of :: "'e \<Rightarrow> 'h"
    and hash_of :: "'e \<Rightarrow> 'h" +
  fixes preimage :: "'e \<Rightarrow> 'p"
    and hash_fn :: "'p \<Rightarrow> 'h option"
  assumes step_hash: "step_ok s i p e \<Longrightarrow> hash_fn (preimage e) = Some (hash_of e)"
    and preimage_prev: "preimage e = preimage e' \<Longrightarrow> prev_of e = prev_of e'"
begin

text \<open>
  Going back from the head: as long as the preimages agree the links agree, and the first pair
  that differs is a collision.
\<close>

lemma same_head_step:
  assumes "step_ok s i p e" and "step_ok r j q e'" and "hash_of e = hash_of e'"
  shows "(preimage e = preimage e' \<and> p = q) \<or> collision hash_fn (preimage e) (preimage e')"
proof -
  have *: "hash_fn (preimage e) = Some (hash_of e)" "hash_fn (preimage e') = Some (hash_of e')"
    using assms(1,2) by (auto dest: step_hash)
  show ?thesis
  proof (cases "preimage e = preimage e'")
    case True
    then have "prev_of e = prev_of e'" by (rule preimage_prev)
    with assms(1,2) have "p = q" by (auto dest: step_link)
    with True show ?thesis by simp
  next
    case False
    with * assms(3) show ?thesis by (simp add: collision_def)
  qed
qed

theorem same_head_same_log:
  assumes "walk s i p es = Ok ()" and "walk r j q fs = Ok ()"
    and "length es = length fs" and "head_after hash_of p es = head_after hash_of q fs"
  shows "(map preimage es = map preimage fs \<and> p = q) \<or>
    (\<exists>k < length es. collision hash_fn (preimage (es ! k)) (preimage (fs ! k)))"
  using assms
proof (induction es arbitrary: fs rule: rev_induct)
  case Nil
  then show ?case by (simp add: head_after_simps)
next
  case (snoc e es)
  then obtain f gs where fs: "fs = gs @ [f]" and len: "length es = length gs"
    by (cases fs rule: rev_cases) auto
  from snoc.prems fs have h: "hash_of e = hash_of f"
    by (simp add: head_after_simps)
  from snoc.prems fs have w: "walk s i p es = Ok ()" "walk r j q gs = Ok ()"
    and s: "step_ok s (i + length es) (head_after hash_of p es) e"
      "step_ok r (j + length gs) (head_after hash_of q gs) f"
    by (auto simp: walk_snoc)
  from same_head_step [OF s h] show ?case
  proof
    assume *: "preimage e = preimage f \<and> head_after hash_of p es = head_after hash_of q gs"
    with w len have "(map preimage es = map preimage gs \<and> p = q) \<or>
        (\<exists>k < length es. collision hash_fn (preimage (es ! k)) (preimage (gs ! k)))"
      by (intro snoc.IH) auto
    then show ?thesis
    proof
      assume "map preimage es = map preimage gs \<and> p = q"
      then show ?thesis using * fs by simp
    next
      assume "\<exists>k < length es. collision hash_fn (preimage (es ! k)) (preimage (gs ! k))"
      then obtain k where k: "k < length es" "collision hash_fn (preimage (es ! k)) (preimage (gs ! k))"
        by blast
      then have "collision hash_fn (preimage ((es @ [e]) ! k)) (preimage (fs ! k))"
        using fs len by (simp add: nth_append)
      with k show ?thesis by (metis length_append_singleton less_Suc_eq)
    qed
  next
    assume "collision hash_fn (preimage e) (preimage f)"
    then have "collision hash_fn (preimage ((es @ [e]) ! length es)) (preimage (fs ! length es))"
      using fs len by (simp add: nth_append)
    then show ?thesis by (metis length_append_singleton lessI)
  qed
qed

end

end
