(* ===== verification/Ledger_Entry.thy ===== *)
theory Ledger_Entry
  imports Ledger_Policy Hash_Walk
begin

text \<open>
  \<open>crates/xenia-ledger/src/entry.rs\<close>, \<open>hash.rs\<close> and \<open>errors.rs\<close>: the signed, chained ledger
  entry, its export-safe shape with an algorithm-tagged signature, the entry hash, and the error
  types of the chain and of its verifiers.
\<close>

section \<open>Errors\<close>

datatype LedgerError =
    Serialization string
  | AppendInvariant
  | SequenceOverflow

datatype 'e TransactionalAppendError =
    Ledger LedgerError
  | Persist 'e

datatype VerifyError =
    Empty
  | OutOfOrder nat u64 u64
  | BrokenLink u64
  | EntryHashMismatch u64
  | BadSignature u64
  | UnsupportedSignatureSuite u64 SignatureSuite
  | UnknownSignatureSuite u64 string
  | BadSignatureLength u64 nat nat
  | BadSignaturePublicKey u64 SignatureSuite
  | SignatureBackendSuiteMismatch u64 SignatureSuite SignatureSuite
  | BadGenesis

section \<open>Entries\<close>

record LedgerEntry =
  seq :: u64
  prev_hash :: u8_32
  timestamp :: SystemTime
  event :: ConsentEventRecord
  entry_hash :: u8_32
  signature :: u8_64

record LedgerEntryExport =
  seq :: u64
  prev_hash :: u8_32
  timestamp :: SystemTime
  event :: ConsentEventRecord
  entry_hash :: u8_32
  signature :: SignatureEnvelope

definition LedgerEntry_signature_suite :: "LedgerEntry \<Rightarrow> SignatureSuite" where
  "LedgerEntry_signature_suite e = CURRENT_LEDGER_SIGNATURE_SUITE"

definition LedgerEntry_signature_envelope :: "LedgerEntry \<Rightarrow> SignatureEnvelope" where
  "LedgerEntry_signature_envelope e = SignatureEnvelope_ed25519 (LedgerEntry.signature e)"

definition LedgerEntryExport_from_legacy_entry :: "LedgerEntry \<Rightarrow> LedgerEntryExport" where
  "LedgerEntryExport_from_legacy_entry e = \<lparr>
     LedgerEntryExport.seq = LedgerEntry.seq e,
     LedgerEntryExport.prev_hash = LedgerEntry.prev_hash e,
     LedgerEntryExport.timestamp = LedgerEntry.timestamp e,
     LedgerEntryExport.event = LedgerEntry.event e,
     LedgerEntryExport.entry_hash = LedgerEntry.entry_hash e,
     LedgerEntryExport.signature = LedgerEntry_signature_envelope e\<rparr>"

definition LedgerEntryExport_to_legacy_entry ::
    "LedgerEntryExport \<Rightarrow> (LedgerEntry, SignatureEnvelopeError) result" where
  "LedgerEntryExport_to_legacy_entry e =
     map_ok (\<lambda>sig. \<lparr>
       LedgerEntry.seq = LedgerEntryExport.seq e,
       LedgerEntry.prev_hash = LedgerEntryExport.prev_hash e,
       LedgerEntry.timestamp = LedgerEntryExport.timestamp e,
       LedgerEntry.event = LedgerEntryExport.event e,
       LedgerEntry.entry_hash = LedgerEntryExport.entry_hash e,
       LedgerEntry.signature = sig\<rparr>)
     (SignatureEnvelope_to_legacy_ed25519 (LedgerEntryExport.signature e))"

definition LedgerEntry_to_export_entry :: "LedgerEntry \<Rightarrow> LedgerEntryExport" where
  "LedgerEntry_to_export_entry e = LedgerEntryExport_from_legacy_entry e"

section \<open>Hashes\<close>

definition compute_session_transcript_hash :: "('sk, 'vk, 'ml) crypto \<Rightarrow> bytes \<Rightarrow> u8_32" where
  "compute_session_transcript_hash c transcript_bytes = blake3_hash c transcript_bytes"

definition compute_entry_hash ::
    "('sk, 'vk, 'ml) crypto \<Rightarrow> u64 \<Rightarrow> u8_32 \<Rightarrow> SystemTime \<Rightarrow> ConsentEventRecord \<Rightarrow>
     (u8_32, LedgerError) result" where
  "compute_entry_hash c sq prev ts ev =
     (let preimage = \<lparr>EntryPreimage.seq = sq, EntryPreimage.prev_hash = prev,
            EntryPreimage.timestamp = ts, EntryPreimage.event = ev\<rparr>
      in and_then (map_err Serialization (bincode_serialize c preimage))
           (\<lambda>bytes. Ok (blake3_hash c bytes)))"

section \<open>Preimages and collisions\<close>

text \<open>The four fields an entry hash commits to, of a legacy and of an exported entry.\<close>

definition entry_preimage :: "LedgerEntry \<Rightarrow> EntryPreimage" where
  "entry_preimage e = \<lparr>EntryPreimage.seq = LedgerEntry.seq e,
     EntryPreimage.prev_hash = LedgerEntry.prev_hash e,
     EntryPreimage.timestamp = LedgerEntry.timestamp e,
     EntryPreimage.event = LedgerEntry.event e\<rparr>"

definition export_preimage :: "LedgerEntryExport \<Rightarrow> EntryPreimage" where
  "export_preimage e = \<lparr>EntryPreimage.seq = LedgerEntryExport.seq e,
     EntryPreimage.prev_hash = LedgerEntryExport.prev_hash e,
     EntryPreimage.timestamp = LedgerEntryExport.timestamp e,
     EntryPreimage.event = LedgerEntryExport.event e\<rparr>"

text \<open>The entry hash as a partial function of the preimage.\<close>

definition preimage_hash :: "('sk, 'vk, 'ml) crypto \<Rightarrow> EntryPreimage \<Rightarrow> u8_32 option" where
  "preimage_hash c p =
     (case compute_entry_hash c (EntryPreimage.seq p) (EntryPreimage.prev_hash p)
        (EntryPreimage.timestamp p) (EntryPreimage.event p) of
        Ok h \<Rightarrow> Some h | Err _ \<Rightarrow> None)"

text \<open>Two different preimages the ledger's hash does not tell apart.\<close>

definition entry_hash_collision ::
    "('sk, 'vk, 'ml) crypto \<Rightarrow> EntryPreimage \<Rightarrow> EntryPreimage \<Rightarrow> bool" where
  "entry_hash_collision c x y \<longleftrightarrow> collision (preimage_hash c) x y"

lemma compute_entry_hash_eq_Ok [result_simps]:
  "compute_entry_hash c sq prev ts ev = Ok h \<longleftrightarrow>
     preimage_hash c \<lparr>EntryPreimage.seq = sq, EntryPreimage.prev_hash = prev,
       EntryPreimage.timestamp = ts, EntryPreimage.event = ev\<rparr> = Some h"
  by (auto simp: preimage_hash_def split: result.splits)

lemma entry_preimage_hash:
  "compute_entry_hash c (LedgerEntry.seq e) (LedgerEntry.prev_hash e)
     (LedgerEntry.timestamp e) (LedgerEntry.event e) = Ok h \<longleftrightarrow>
   preimage_hash c (entry_preimage e) = Some h"
  by (simp add: compute_entry_hash_eq_Ok entry_preimage_def)

lemma export_preimage_hash:
  "compute_entry_hash c (LedgerEntryExport.seq e) (LedgerEntryExport.prev_hash e)
     (LedgerEntryExport.timestamp e) (LedgerEntryExport.event e) = Ok h \<longleftrightarrow>
   preimage_hash c (export_preimage e) = Some h"
  by (simp add: compute_entry_hash_eq_Ok export_preimage_def)

lemma entry_preimage_inject:
  "entry_preimage e = entry_preimage f \<longleftrightarrow>
     LedgerEntry.seq e = LedgerEntry.seq f \<and> LedgerEntry.prev_hash e = LedgerEntry.prev_hash f \<and>
     LedgerEntry.timestamp e = LedgerEntry.timestamp f \<and> LedgerEntry.event e = LedgerEntry.event f"
  by (simp add: entry_preimage_def)

lemma export_preimage_inject:
  "export_preimage e = export_preimage f \<longleftrightarrow>
     LedgerEntryExport.seq e = LedgerEntryExport.seq f \<and>
     LedgerEntryExport.prev_hash e = LedgerEntryExport.prev_hash f \<and>
     LedgerEntryExport.timestamp e = LedgerEntryExport.timestamp f \<and>
     LedgerEntryExport.event e = LedgerEntryExport.event f"
  by (simp add: export_preimage_def)

lemma to_export_entry_simps [simp]:
  "LedgerEntryExport.seq (LedgerEntry_to_export_entry e) = LedgerEntry.seq e"
  "LedgerEntryExport.prev_hash (LedgerEntry_to_export_entry e) = LedgerEntry.prev_hash e"
  "LedgerEntryExport.timestamp (LedgerEntry_to_export_entry e) = LedgerEntry.timestamp e"
  "LedgerEntryExport.event (LedgerEntry_to_export_entry e) = LedgerEntry.event e"
  "LedgerEntryExport.entry_hash (LedgerEntry_to_export_entry e) = LedgerEntry.entry_hash e"
  "LedgerEntryExport.signature (LedgerEntry_to_export_entry e) =
     SignatureEnvelope_ed25519 (LedgerEntry.signature e)"
  "export_preimage (LedgerEntry_to_export_entry e) = entry_preimage e"
  by (simp_all add: LedgerEntry_to_export_entry_def LedgerEntryExport_from_legacy_entry_def
      LedgerEntry_signature_envelope_def export_preimage_def entry_preimage_def)

lemma serializable_preimage_hash:
  "serializable c p \<Longrightarrow> \<exists>h. preimage_hash c p = Some h"
  by (cases p) (auto simp: serializable_def is_ok_iff preimage_hash_def compute_entry_hash_def)

text \<open>An exported entry converts back exactly when it is the export of a legacy entry.\<close>

lemma to_legacy_entry_eq_Ok [result_simps]:
  "LedgerEntryExport_to_legacy_entry x = Ok e \<longleftrightarrow> x = LedgerEntry_to_export_entry e"
  by (cases x; cases e)
    (auto simp: LedgerEntryExport_to_legacy_entry_def to_legacy_ed25519_eq_Ok
      LedgerEntry_to_export_entry_def LedgerEntryExport_from_legacy_entry_def
      LedgerEntry_signature_envelope_def)

end
