(* ===== verification/Ledger_Checkpoint.thy ===== *)
theory Ledger_Checkpoint
  imports Ledger_Entry
begin

text \<open>
  The signed checkpoint of \<open>crates/xenia-ledger/src/checkpoint.rs\<close>: its record, the
  domain-separated message its signature covers, its verification and its fingerprint. The
  continuity rules between checkpoints and entries are in \<open>Ledger_Continuity\<close>.
\<close>

definition LEDGER_CHECKPOINT_SCHEMA :: string where
  "LEDGER_CHECKPOINT_SCHEMA = ''xenia-ledger-checkpoint-v1''"

record LedgerCheckpoint =
  schema :: string
  entry_count :: u64
  head_hash :: u8_32
  ledger_public_key :: u8_32
  timestamp_unix_secs :: u64
  signature :: u8_64

definition checkpoint_message :: "u64 \<Rightarrow> u8_32 \<Rightarrow> u8_32 \<Rightarrow> u64 \<Rightarrow> bytes" where
  "checkpoint_message count head key ts =
     as_bytes ''xenia:ledger-checkpoint:v1'' @ [0] @
     as_bytes LEDGER_CHECKPOINT_SCHEMA @ [0] @
     to_be_bytes count @ slice head @ slice key @ to_be_bytes ts"

datatype CheckpointError =
    UnsupportedSchema string
  | BadPublicKey
  | BadSignature

definition Verifier_verify_checkpoint ::
    "('sk, 'vk, 'ml) crypto \<Rightarrow> LedgerCheckpoint \<Rightarrow> (unit, CheckpointError) result" where
  "Verifier_verify_checkpoint c cp =
     (if LedgerCheckpoint.schema cp \<noteq> LEDGER_CHECKPOINT_SCHEMA
      then Err (UnsupportedSchema (LedgerCheckpoint.schema cp))
      else and_then (ok_or (ed_key_from_bytes c (ledger_public_key cp)) CheckpointError.BadPublicKey)
        (\<lambda>public_key.
          let message = checkpoint_message (entry_count cp) (head_hash cp)
                (ledger_public_key cp) (timestamp_unix_secs cp)
          in if ed_verify c public_key message (LedgerCheckpoint.signature cp)
             then Ok () else Err CheckpointError.BadSignature))"

definition checkpoint_fingerprint ::
    "('sk, 'vk, 'ml) crypto \<Rightarrow> LedgerCheckpoint \<Rightarrow> (u8_32, CheckpointError) result" where
  "checkpoint_fingerprint c cp =
     and_then (Verifier_verify_checkpoint c cp) (\<lambda>_.
       let bytes = checkpoint_message (entry_count cp) (head_hash cp)
             (ledger_public_key cp) (timestamp_unix_secs cp) @ slice (LedgerCheckpoint.signature cp)
       in Ok (blake3_hash c bytes))"

section \<open>Lemmas\<close>

lemma checkpoint_message_inject [simp]:
  "checkpoint_message n h k t = checkpoint_message n' h' k' t' \<longleftrightarrow>
     n = n' \<and> h = h' \<and> k = k' \<and> t = t'"
  by (simp add: checkpoint_message_def)

lemma verify_checkpoint_eq_Ok [result_simps]:
  "Verifier_verify_checkpoint c cp = Ok () \<longleftrightarrow>
     LedgerCheckpoint.schema cp = LEDGER_CHECKPOINT_SCHEMA \<and>
     (\<exists>vk. ed_key_from_bytes c (ledger_public_key cp) = Some vk \<and>
        ed_verify c vk (checkpoint_message (entry_count cp) (head_hash cp)
          (ledger_public_key cp) (timestamp_unix_secs cp)) (LedgerCheckpoint.signature cp))"
  by (auto simp: Verifier_verify_checkpoint_def Let_def)

lemma checkpoint_fingerprint_eq_Ok [result_simps]:
  "checkpoint_fingerprint c cp = Ok f \<longleftrightarrow>
     Verifier_verify_checkpoint c cp = Ok () \<and>
     f = blake3_hash c (checkpoint_message (entry_count cp) (head_hash cp)
          (ledger_public_key cp) (timestamp_unix_secs cp) @ slice (LedgerCheckpoint.signature cp))"
  by (auto simp: checkpoint_fingerprint_def Let_def)

text \<open>The bytes a fingerprint hashes, and that they determine a verified checkpoint.\<close>

definition fingerprint_bytes :: "LedgerCheckpoint \<Rightarrow> bytes" where
  "fingerprint_bytes cp = checkpoint_message (entry_count cp) (head_hash cp)
     (ledger_public_key cp) (timestamp_unix_secs cp) @ slice (LedgerCheckpoint.signature cp)"

lemma length_checkpoint_message [simp]: "length (checkpoint_message n h k t) = 134"
  by (simp add: checkpoint_message_def LEDGER_CHECKPOINT_SCHEMA_def)

lemma fingerprint_bytes_inject:
  assumes "LedgerCheckpoint.schema a = LedgerCheckpoint.schema b"
  shows "fingerprint_bytes a = fingerprint_bytes b \<longleftrightarrow> a = b"
  using assms by (cases a; cases b) (auto simp: fingerprint_bytes_def append_eq_append_conv)

end
