(* ===== verification/Ledger_Verify.thy ===== *)
theory Ledger_Verify
  imports Ledger_Checkpoint
begin

text \<open>
  The chain verifiers of \<open>crates/xenia-ledger/src/verify.rs\<close>: \<open>Verifier::verify_chain\<close> on
  stored entries, \<open>verify_exported_chain_with_backend\<close> and \<open>verify_exported_chain\<close> on exported
  ones. Each loop is a recursive function over the slice carrying the index and
  \<open>expected_prev\<close>, with the loop body as a definition of its own; both loops interpret the
  locale of committed hash walks. The evidence-bundle verifiers of the same file are in
  \<open>Ledger_Evidence\<close>.
\<close>

section \<open>Stored chains\<close>

definition verify_chain_entry ::
    "('sk, 'vk, 'ml) crypto \<Rightarrow> 'vk \<Rightarrow> nat \<Rightarrow> u8_32 \<Rightarrow> LedgerEntry \<Rightarrow> (unit, VerifyError) result" where
  "verify_chain_entry c public_key index expected_prev e =
     (let expected_seq = of_nat index; sq = LedgerEntry.seq e in
      if sq \<noteq> expected_seq then Err (OutOfOrder index expected_seq sq)
      else if sq = 0 \<and> LedgerEntry.prev_hash e \<noteq> zeroed then Err BadGenesis
      else if LedgerEntry.prev_hash e \<noteq> expected_prev then Err (BrokenLink sq)
      else and_then (map_err (\<lambda>_. EntryHashMismatch sq)
             (compute_entry_hash c sq (LedgerEntry.prev_hash e) (LedgerEntry.timestamp e)
                (LedgerEntry.event e)))
        (\<lambda>recomputed.
          if recomputed \<noteq> LedgerEntry.entry_hash e then Err (EntryHashMismatch sq)
          else if ed_verify c public_key (slice (LedgerEntry.entry_hash e)) (LedgerEntry.signature e)
          then Ok () else Err (VerifyError.BadSignature sq)))"

fun verify_chain_loop ::
    "('sk, 'vk, 'ml) crypto \<Rightarrow> 'vk \<Rightarrow> nat \<Rightarrow> u8_32 \<Rightarrow> LedgerEntry list \<Rightarrow> (unit, VerifyError) result"
where
  "verify_chain_loop c public_key index expected_prev [] = Ok ()"
| "verify_chain_loop c public_key index expected_prev (e # es) =
     and_then (verify_chain_entry c public_key index expected_prev e)
       (\<lambda>_. verify_chain_loop c public_key (Suc index) (LedgerEntry.entry_hash e) es)"

definition Verifier_verify_chain ::
    "('sk, 'vk, 'ml) crypto \<Rightarrow> LedgerEntry list \<Rightarrow> 'vk \<Rightarrow> (unit, VerifyError) result" where
  "Verifier_verify_chain c entries public_key = verify_chain_loop c public_key 0 zeroed entries"

section \<open>Exported chains\<close>

fun signature_envelope_error_to_verify_error :: "u64 \<Rightarrow> SignatureEnvelopeError \<Rightarrow> VerifyError" where
  "signature_envelope_error_to_verify_error sq (SignatureEnvelopeError.UnknownSignatureSuite alg) =
     VerifyError.UnknownSignatureSuite sq alg"
| "signature_envelope_error_to_verify_error sq
     (SignatureEnvelopeError.BadSignatureLength alg expected found) =
     VerifyError.BadSignatureLength sq expected found"
| "signature_envelope_error_to_verify_error sq (UnsupportedLegacySuite alg) =
     VerifyError.BadSignature sq"

definition entry_signature_suite_for_verify ::
    "LedgerEntryExport \<Rightarrow> (SignatureSuite, VerifyError) result" where
  "entry_signature_suite_for_verify e =
     map_err (signature_envelope_error_to_verify_error (LedgerEntryExport.seq e))
       (SignatureEnvelope_validate_shape (LedgerEntryExport.signature e))"

fun backend_error_to_verify_error ::
    "u64 \<Rightarrow> SignatureSuite \<Rightarrow> EvidenceSignatureBackendError \<Rightarrow> VerifyError" where
  "backend_error_to_verify_error sq s (BadPublicKeyLength expected found) = BadSignaturePublicKey sq s"
| "backend_error_to_verify_error sq s EvidenceSignatureBackendError.BadPublicKey =
     BadSignaturePublicKey sq s"
| "backend_error_to_verify_error sq s (EvidenceSignatureBackendError.BadSignatureLength expected found) =
     VerifyError.BadSignatureLength sq expected found"
| "backend_error_to_verify_error sq s BadSignatureEncoding = VerifyError.BadSignature sq"
| "backend_error_to_verify_error sq s EvidenceSignatureBackendError.BadSignature =
     VerifyError.BadSignature sq"
| "backend_error_to_verify_error sq s (UnsupportedSuite t) = UnsupportedSignatureSuite sq s"

definition verify_exported_entry ::
    "('sk, 'vk, 'ml) crypto \<Rightarrow> bytes \<Rightarrow> EvidenceSignatureBackend \<Rightarrow> nat \<Rightarrow> u8_32 \<Rightarrow>
     LedgerEntryExport \<Rightarrow> (unit, VerifyError) result" where
  "verify_exported_entry c public_key backend index expected_prev e =
     (let expected_seq = of_nat index; sq = LedgerEntryExport.seq e in
      if sq \<noteq> expected_seq then Err (OutOfOrder index expected_seq sq)
      else if sq = 0 \<and> LedgerEntryExport.prev_hash e \<noteq> zeroed then Err BadGenesis
      else if LedgerEntryExport.prev_hash e \<noteq> expected_prev then Err (BrokenLink sq)
      else and_then (map_err (\<lambda>_. EntryHashMismatch sq)
             (compute_entry_hash c sq (LedgerEntryExport.prev_hash e)
                (LedgerEntryExport.timestamp e) (LedgerEntryExport.event e)))
        (\<lambda>recomputed.
          if recomputed \<noteq> LedgerEntryExport.entry_hash e then Err (EntryHashMismatch sq)
          else and_then (entry_signature_suite_for_verify e) (\<lambda>s.
            if s \<noteq> suite backend then Err (SignatureBackendSuiteMismatch sq s (suite backend))
            else map_err (backend_error_to_verify_error sq s)
              (verify_signature backend public_key (slice (LedgerEntryExport.entry_hash e))
                 (SignatureEnvelope.signature (LedgerEntryExport.signature e))))))"

fun verify_exported_loop ::
    "('sk, 'vk, 'ml) crypto \<Rightarrow> bytes \<Rightarrow> EvidenceSignatureBackend \<Rightarrow> nat \<Rightarrow> u8_32 \<Rightarrow>
     LedgerEntryExport list \<Rightarrow> (unit, VerifyError) result" where
  "verify_exported_loop c public_key backend index expected_prev [] = Ok ()"
| "verify_exported_loop c public_key backend index expected_prev (e # es) =
     and_then (verify_exported_entry c public_key backend index expected_prev e)
       (\<lambda>_. verify_exported_loop c public_key backend (Suc index) (LedgerEntryExport.entry_hash e) es)"

definition Verifier_verify_exported_chain_with_backend ::
    "('sk, 'vk, 'ml) crypto \<Rightarrow> LedgerEntryExport list \<Rightarrow> bytes \<Rightarrow> EvidenceSignatureBackend \<Rightarrow>
     (unit, VerifyError) result" where
  "Verifier_verify_exported_chain_with_backend c entries public_key backend =
     verify_exported_loop c public_key backend 0 zeroed entries"

definition Verifier_verify_exported_chain ::
    "('sk, 'vk, 'ml) crypto \<Rightarrow> LedgerEntryExport list \<Rightarrow> 'vk \<Rightarrow> (unit, VerifyError) result" where
  "Verifier_verify_exported_chain c entries public_key =
     and_then
       (for_each (\<lambda>e. and_then (entry_signature_suite_for_verify e) (\<lambda>s.
          if s \<noteq> Ed25519Rfc8032 then Err (UnsupportedSignatureSuite (LedgerEntryExport.seq e) s)
          else Ok ())) entries)
       (\<lambda>_. Verifier_verify_exported_chain_with_backend c entries
          (slice (ed_key_to_bytes c public_key)) (Ed25519EvidenceSignatureBackend c))"

section \<open>What an accepted entry satisfies\<close>

lemma verify_chain_entry_eq_Ok [result_simps]:
  "verify_chain_entry c pk i p e = Ok () \<longleftrightarrow>
     LedgerEntry.seq e = of_nat i \<and> (LedgerEntry.seq e = 0 \<longrightarrow> p = zeroed) \<and>
     LedgerEntry.prev_hash e = p \<and>
     preimage_hash c (entry_preimage e) = Some (LedgerEntry.entry_hash e) \<and>
     ed_verify c pk (slice (LedgerEntry.entry_hash e)) (LedgerEntry.signature e)"
  by (auto simp: verify_chain_entry_def Let_def compute_entry_hash_eq_Ok entry_preimage_def)

lemma entry_suite_eq_Ok [result_simps]:
  "entry_signature_suite_for_verify e = Ok s \<longleftrightarrow>
     SignatureEnvelope_validate_shape (LedgerEntryExport.signature e) = Ok s"
  by (simp add: entry_signature_suite_for_verify_def)

lemma verify_exported_entry_eq_Ok [result_simps]:
  "verify_exported_entry c pk b i p e = Ok () \<longleftrightarrow>
     LedgerEntryExport.seq e = of_nat i \<and> (LedgerEntryExport.seq e = 0 \<longrightarrow> p = zeroed) \<and>
     LedgerEntryExport.prev_hash e = p \<and>
     preimage_hash c (export_preimage e) = Some (LedgerEntryExport.entry_hash e) \<and>
     SignatureEnvelope_validate_shape (LedgerEntryExport.signature e) = Ok (suite b) \<and>
     verify_signature b pk (slice (LedgerEntryExport.entry_hash e))
       (SignatureEnvelope.signature (LedgerEntryExport.signature e)) = Ok ()"
  by (auto simp: verify_exported_entry_def Let_def compute_entry_hash_eq_Ok export_preimage_def
      entry_suite_eq_Ok)

section \<open>Both loops are committed hash walks\<close>

interpretation chain_walk: committed_walk "verify_chain_loop c"
    "\<lambda>pk i p e. verify_chain_entry c pk i p e = Ok ()"
    LedgerEntry.prev_hash LedgerEntry.entry_hash entry_preimage "preimage_hash c" for c
  by unfold_locales (auto simp: verify_chain_entry_eq_Ok entry_preimage_inject)

interpretation export_walk: committed_walk "\<lambda>pk. verify_exported_loop c pk b"
    "\<lambda>pk i p e. verify_exported_entry c pk b i p e = Ok ()"
    LedgerEntryExport.prev_hash LedgerEntryExport.entry_hash export_preimage "preimage_hash c"
    for c b
  by unfold_locales (auto simp: verify_exported_entry_eq_Ok export_preimage_inject)

section \<open>Exported and stored chains\<close>

text \<open>On the export of a stored entry the Ed25519 backend gives the stored verifier's answer.\<close>

lemma verify_exported_entry_export:
  assumes "ed25519_key_codec c"
  shows "verify_exported_entry c (slice (ed_key_to_bytes c pk)) (Ed25519EvidenceSignatureBackend c)
      i p (LedgerEntry_to_export_entry e) = verify_chain_entry c pk i p e"
proof -
  have sig: "SignatureEnvelope.signature (SignatureEnvelope_ed25519 s) = slice s" for s
    by (simp add: SignatureEnvelope_ed25519_def SignatureEnvelope_new_def)
  show ?thesis
    using ed25519_key_codecD(1) [OF assms, of pk]
    by (simp add: verify_exported_entry_def verify_chain_entry_def Let_def sig
        entry_signature_suite_for_verify_def Ed25519_verify_signature_def cong: if_cong)
qed

lemma verify_exported_loop_export:
  assumes "ed25519_key_codec c"
  shows "verify_exported_loop c (slice (ed_key_to_bytes c pk)) (Ed25519EvidenceSignatureBackend c)
      i p (map LedgerEntry_to_export_entry es) = verify_chain_loop c pk i p es"
  by (induction es arbitrary: i p) (simp_all add: verify_exported_entry_export [OF assms])

lemma suites_of_exports:
  "for_each (\<lambda>e. and_then (entry_signature_suite_for_verify e) (\<lambda>s.
      if s \<noteq> Ed25519Rfc8032 then Err (UnsupportedSignatureSuite (LedgerEntryExport.seq e) s)
      else Ok ())) (map LedgerEntry_to_export_entry es) = Ok ()"
  by (auto simp: entry_suite_eq_Ok)

lemma verify_exported_chain_export:
  assumes "ed25519_key_codec c"
  shows "Verifier_verify_exported_chain c (map LedgerEntry_to_export_entry es) pk =
    Verifier_verify_chain c es pk"
  unfolding Verifier_verify_exported_chain_def suites_of_exports
  by (simp add: Verifier_verify_exported_chain_with_backend_def Verifier_verify_chain_def
      verify_exported_loop_export [OF assms])

text \<open>The Ed25519 verifier accepts only exports of stored entries.\<close>

lemma exported_chain_accepts_only_exports:
  assumes "Verifier_verify_exported_chain c xs pk = Ok ()"
  shows "\<exists>es. xs = map LedgerEntry_to_export_entry es"
proof -
  have "\<exists>e. x = LedgerEntry_to_export_entry e" if "x \<in> set xs" for x
  proof -
    have "SignatureEnvelope_validate_shape (LedgerEntryExport.signature x) = Ok Ed25519Rfc8032"
      using assms that by (auto simp: Verifier_verify_exported_chain_def entry_suite_eq_Ok)
    then have "\<exists>sig. SignatureEnvelope_to_legacy_ed25519 (LedgerEntryExport.signature x) = Ok sig"
      by (simp add: SignatureEnvelope_to_legacy_ed25519_def)
    then have "\<exists>e. LedgerEntryExport_to_legacy_entry x = Ok e"
      by (auto simp: LedgerEntryExport_to_legacy_entry_def)
    then show ?thesis by (simp add: to_legacy_entry_eq_Ok)
  qed
  then show ?thesis by (metis ex_map_conv)
qed

end
