(* ===== verification/Ledger_Binding.thy ===== *)
theory Ledger_Binding
  imports Ledger_Verify
begin

text \<open>
  \<open>crates/xenia-ledger/src/binding.rs\<close>: bindings of an evidence bundle to its verifier keys and to
  its session transcript, and the signature over a transcript binding, with the validation every
  evidence verifier runs. The two transcript error types are in \<open>entry.rs\<close>.
\<close>

section \<open>Public-key bindings\<close>

definition EVIDENCE_PUBLIC_KEY_BINDING_SCHEMA :: string where
  "EVIDENCE_PUBLIC_KEY_BINDING_SCHEMA = ''xenia-evidence-public-key-binding-v1''"

definition EVIDENCE_PUBLIC_KEY_FINGERPRINT_ALGORITHM :: string where
  "EVIDENCE_PUBLIC_KEY_FINGERPRINT_ALGORITHM = ''blake3-256''"

record EvidencePublicKeyBinding =
  schema :: string
  signature_suite :: SignatureSuite
  public_key :: bytes
  fingerprint_algorithm :: string
  public_key_fingerprint :: u8_32

datatype EvidencePublicKeyBindingError =
    UnsupportedSchema string
  | UnsupportedFingerprintAlgorithm string
  | EmptyPublicKey
  | SignatureSuiteManifestMismatch SignatureSuite SignatureSuite
  | SignatureSuiteBackendMismatch SignatureSuite SignatureSuite
  | BadPublicKeyLength SignatureSuite nat nat
  | PublicKeyFingerprintMismatch

definition compute_evidence_public_key_fingerprint :: "('sk, 'vk, 'ml) crypto \<Rightarrow> bytes \<Rightarrow> u8_32" where
  "compute_evidence_public_key_fingerprint c key = blake3_hash c key"

definition EvidencePublicKeyBinding_new ::
    "('sk, 'vk, 'ml) crypto \<Rightarrow> SignatureSuite \<Rightarrow> bytes \<Rightarrow> EvidencePublicKeyBinding" where
  "EvidencePublicKeyBinding_new c s key = \<lparr>
     EvidencePublicKeyBinding.schema = EVIDENCE_PUBLIC_KEY_BINDING_SCHEMA,
     signature_suite = s, public_key = key,
     fingerprint_algorithm = EVIDENCE_PUBLIC_KEY_FINGERPRINT_ALGORITHM,
     public_key_fingerprint = compute_evidence_public_key_fingerprint c key\<rparr>"

definition EvidencePublicKeyBinding_validate_against_signature_suite_and_backend ::
    "('sk, 'vk, 'ml) crypto \<Rightarrow> EvidencePublicKeyBinding \<Rightarrow> SignatureSuite \<Rightarrow>
     EvidenceSignatureBackend \<Rightarrow> (unit, EvidencePublicKeyBindingError) result" where
  "EvidencePublicKeyBinding_validate_against_signature_suite_and_backend c kb expected_suite backend =
     (if EvidencePublicKeyBinding.schema kb \<noteq> EVIDENCE_PUBLIC_KEY_BINDING_SCHEMA
      then Err (EvidencePublicKeyBindingError.UnsupportedSchema (EvidencePublicKeyBinding.schema kb))
      else if fingerprint_algorithm kb \<noteq> EVIDENCE_PUBLIC_KEY_FINGERPRINT_ALGORITHM
      then Err (UnsupportedFingerprintAlgorithm (fingerprint_algorithm kb))
      else if public_key kb = [] then Err EmptyPublicKey
      else if signature_suite kb \<noteq> expected_suite
      then Err (SignatureSuiteManifestMismatch expected_suite (signature_suite kb))
      else if signature_suite kb \<noteq> suite backend
      then Err (SignatureSuiteBackendMismatch (suite backend) (signature_suite kb))
      else and_then
        (case SignatureSuite_fixed_public_key_len (signature_suite kb) of
           Some expected \<Rightarrow>
             (let found = length (public_key kb) in
              if found \<noteq> expected
              then Err (EvidencePublicKeyBindingError.BadPublicKeyLength (signature_suite kb) expected found)
              else Ok ())
         | None \<Rightarrow> Ok ())
        (\<lambda>_. let computed = compute_evidence_public_key_fingerprint c (public_key kb) in
           if computed \<noteq> public_key_fingerprint kb then Err PublicKeyFingerprintMismatch else Ok ()))"

definition EvidencePublicKeyBinding_validate_against_manifest_and_backend ::
    "('sk, 'vk, 'ml) crypto \<Rightarrow> EvidencePublicKeyBinding \<Rightarrow> EvidenceCryptoManifest \<Rightarrow>
     EvidenceSignatureBackend \<Rightarrow> (unit, EvidencePublicKeyBindingError) result" where
  "EvidencePublicKeyBinding_validate_against_manifest_and_backend c kb manifest backend =
     EvidencePublicKeyBinding_validate_against_signature_suite_and_backend c kb
       (EvidenceCryptoManifest.ledger_signature manifest) backend"

section \<open>Transcript bindings\<close>

definition SESSION_TRANSCRIPT_BINDING_SCHEMA :: string where
  "SESSION_TRANSCRIPT_BINDING_SCHEMA = ''xenia-session-transcript-binding-v1''"

definition SESSION_TRANSCRIPT_HASH_ALGORITHM :: string where
  "SESSION_TRANSCRIPT_HASH_ALGORITHM = ''blake3-256''"

record SessionTranscriptBinding =
  schema :: string
  session_id :: Uuid
  transcript_hash_algorithm :: string
  transcript_hash :: u8_32
  transcript_signature :: SignatureSuite

datatype TranscriptBindingError =
    UnsupportedSchema string
  | UnsupportedTranscriptHashAlgorithm string
  | EmptyTranscriptHash
  | TranscriptSignatureSuiteMismatch SignatureSuite SignatureSuite

definition SessionTranscriptBinding_from_hash ::
    "Uuid \<Rightarrow> u8_32 \<Rightarrow> SignatureSuite \<Rightarrow> SessionTranscriptBinding" where
  "SessionTranscriptBinding_from_hash sid h s = \<lparr>
     SessionTranscriptBinding.schema = SESSION_TRANSCRIPT_BINDING_SCHEMA,
     SessionTranscriptBinding.session_id = sid,
     transcript_hash_algorithm = SESSION_TRANSCRIPT_HASH_ALGORITHM,
     transcript_hash = h, SessionTranscriptBinding.transcript_signature = s\<rparr>"

definition SessionTranscriptBinding_new ::
    "('sk, 'vk, 'ml) crypto \<Rightarrow> Uuid \<Rightarrow> bytes \<Rightarrow> SignatureSuite \<Rightarrow> SessionTranscriptBinding" where
  "SessionTranscriptBinding_new c sid transcript_bytes s =
     SessionTranscriptBinding_from_hash sid (compute_session_transcript_hash c transcript_bytes) s"

definition SessionTranscriptBinding_validate_against_manifest ::
    "SessionTranscriptBinding \<Rightarrow> EvidenceCryptoManifest \<Rightarrow> (unit, TranscriptBindingError) result" where
  "SessionTranscriptBinding_validate_against_manifest b manifest =
     (if SessionTranscriptBinding.schema b \<noteq> SESSION_TRANSCRIPT_BINDING_SCHEMA
      then Err (TranscriptBindingError.UnsupportedSchema (SessionTranscriptBinding.schema b))
      else if transcript_hash_algorithm b \<noteq> SESSION_TRANSCRIPT_HASH_ALGORITHM
      then Err (UnsupportedTranscriptHashAlgorithm (transcript_hash_algorithm b))
      else if transcript_hash b = zeroed then Err EmptyTranscriptHash
      else if SessionTranscriptBinding.transcript_signature b \<noteq>
        EvidenceCryptoManifest.transcript_signature manifest
      then Err (TranscriptSignatureSuiteMismatch
        (EvidenceCryptoManifest.transcript_signature manifest)
        (SessionTranscriptBinding.transcript_signature b))
      else Ok ())"

section \<open>Transcript signatures\<close>

definition SESSION_TRANSCRIPT_SIGNATURE_SCHEMA :: string where
  "SESSION_TRANSCRIPT_SIGNATURE_SCHEMA = ''xenia-session-transcript-signature-v1''"

record SessionTranscriptSignature =
  schema :: string
  session_id :: Uuid
  transcript_hash_algorithm :: string
  transcript_hash :: u8_32
  signature :: SignatureEnvelope

datatype TranscriptSignatureError =
    UnsupportedSchema string
  | UnsupportedTranscriptHashAlgorithm string
  | EmptyTranscriptHash
  | BindingSessionMismatch Uuid Uuid
  | BindingHashAlgorithmMismatch string string
  | BindingHashMismatch
  | SignatureEnvelope SignatureEnvelopeError
  | TranscriptSignatureSuiteMismatch SignatureSuite SignatureSuite

definition SessionTranscriptSignature_from_binding ::
    "SessionTranscriptBinding \<Rightarrow> SignatureEnvelope \<Rightarrow> SessionTranscriptSignature" where
  "SessionTranscriptSignature_from_binding b sig = \<lparr>
     SessionTranscriptSignature.schema = SESSION_TRANSCRIPT_SIGNATURE_SCHEMA,
     SessionTranscriptSignature.session_id = SessionTranscriptBinding.session_id b,
     SessionTranscriptSignature.transcript_hash_algorithm =
       SessionTranscriptBinding.transcript_hash_algorithm b,
     SessionTranscriptSignature.transcript_hash = SessionTranscriptBinding.transcript_hash b,
     SessionTranscriptSignature.signature = sig\<rparr>"

definition SessionTranscriptSignature_validate_against_binding_and_manifest ::
    "SessionTranscriptSignature \<Rightarrow> SessionTranscriptBinding \<Rightarrow> EvidenceCryptoManifest \<Rightarrow>
     (SignatureSuite, TranscriptSignatureError) result" where
  "SessionTranscriptSignature_validate_against_binding_and_manifest s b manifest =
     (if SessionTranscriptSignature.schema s \<noteq> SESSION_TRANSCRIPT_SIGNATURE_SCHEMA
      then Err (TranscriptSignatureError.UnsupportedSchema (SessionTranscriptSignature.schema s))
      else if SessionTranscriptSignature.transcript_hash_algorithm s \<noteq> SESSION_TRANSCRIPT_HASH_ALGORITHM
      then Err (TranscriptSignatureError.UnsupportedTranscriptHashAlgorithm
        (SessionTranscriptSignature.transcript_hash_algorithm s))
      else if SessionTranscriptSignature.session_id s \<noteq> SessionTranscriptBinding.session_id b
      then Err (BindingSessionMismatch (SessionTranscriptBinding.session_id b)
        (SessionTranscriptSignature.session_id s))
      else if SessionTranscriptSignature.transcript_hash_algorithm s \<noteq>
        SessionTranscriptBinding.transcript_hash_algorithm b
      then Err (BindingHashAlgorithmMismatch (SessionTranscriptBinding.transcript_hash_algorithm b)
        (SessionTranscriptSignature.transcript_hash_algorithm s))
      else if SessionTranscriptSignature.transcript_hash s \<noteq> SessionTranscriptBinding.transcript_hash b
      then Err BindingHashMismatch
      else if SessionTranscriptSignature.transcript_hash s = zeroed
      then Err TranscriptSignatureError.EmptyTranscriptHash
      else and_then (map_err TranscriptSignatureError.SignatureEnvelope
          (SignatureEnvelope_validate_shape (SessionTranscriptSignature.signature s)))
        (\<lambda>suite. if suite \<noteq> EvidenceCryptoManifest.transcript_signature manifest
           then Err (TranscriptSignatureError.TranscriptSignatureSuiteMismatch
             (EvidenceCryptoManifest.transcript_signature manifest) suite)
           else Ok suite))"

definition session_transcript_signature_message :: "SessionTranscriptBinding \<Rightarrow> bytes" where
  "session_transcript_signature_message b =
     as_bytes ''xenia:session-transcript-signature:v1'' @ [0] @
     as_bytes SESSION_TRANSCRIPT_SIGNATURE_SCHEMA @ [0] @
     slice (SessionTranscriptBinding.session_id b) @
     as_bytes (SessionTranscriptBinding.transcript_hash_algorithm b) @ [0] @
     slice (SessionTranscriptBinding.transcript_hash b)"

definition sign_session_transcript_binding_ed25519 ::
    "('sk, 'vk, 'ml) crypto \<Rightarrow> SessionTranscriptBinding \<Rightarrow> 'sk \<Rightarrow> SessionTranscriptSignature" where
  "sign_session_transcript_binding_ed25519 c b sk =
     (let message = session_transcript_signature_message b
      in SessionTranscriptSignature_from_binding b (SignatureEnvelope_ed25519 (ed_sign c sk message)))"

definition sign_session_transcript_binding_ml_dsa_65 ::
    "('sk, 'vk, 'ml) crypto \<Rightarrow> SessionTranscriptBinding \<Rightarrow> 'ml \<Rightarrow> SessionTranscriptSignature" where
  "sign_session_transcript_binding_ml_dsa_65 c b sk =
     (let message = session_transcript_signature_message b
      in SessionTranscriptSignature_from_binding b
           (SignatureEnvelope_new MlDsa65Fips204 (ml_sign c MlDsa65 sk message)))"

definition sign_session_transcript_binding_ml_dsa_87 ::
    "('sk, 'vk, 'ml) crypto \<Rightarrow> SessionTranscriptBinding \<Rightarrow> 'ml \<Rightarrow> SessionTranscriptSignature" where
  "sign_session_transcript_binding_ml_dsa_87 c b sk =
     (let message = session_transcript_signature_message b
      in SessionTranscriptSignature_from_binding b
           (SignatureEnvelope_new MlDsa87Fips204 (ml_sign c MlDsa87 sk message)))"

section \<open>Characterisations\<close>

lemma key_binding_validate_eq_Ok [result_simps]:
  "EvidencePublicKeyBinding_validate_against_signature_suite_and_backend c kb s b = Ok () \<longleftrightarrow>
     EvidencePublicKeyBinding.schema kb = EVIDENCE_PUBLIC_KEY_BINDING_SCHEMA \<and>
     fingerprint_algorithm kb = EVIDENCE_PUBLIC_KEY_FINGERPRINT_ALGORITHM \<and>
     public_key kb \<noteq> [] \<and> signature_suite kb = s \<and> suite b = s \<and>
     (\<forall>n. SignatureSuite_fixed_public_key_len s = Some n \<longrightarrow> length (public_key kb) = n) \<and>
     public_key_fingerprint kb = blake3_hash c (public_key kb)"
  by (auto simp: EvidencePublicKeyBinding_validate_against_signature_suite_and_backend_def Let_def
      compute_evidence_public_key_fingerprint_def split: option.splits)

lemma transcript_binding_validate_eq_Ok [result_simps]:
  "SessionTranscriptBinding_validate_against_manifest b m = Ok () \<longleftrightarrow>
     SessionTranscriptBinding.schema b = SESSION_TRANSCRIPT_BINDING_SCHEMA \<and>
     SessionTranscriptBinding.transcript_hash_algorithm b = SESSION_TRANSCRIPT_HASH_ALGORITHM \<and>
     SessionTranscriptBinding.transcript_hash b \<noteq> zeroed \<and>
     SessionTranscriptBinding.transcript_signature b = EvidenceCryptoManifest.transcript_signature m"
  by (auto simp: SessionTranscriptBinding_validate_against_manifest_def)

lemma transcript_signature_validate_eq_Ok [result_simps]:
  "SessionTranscriptSignature_validate_against_binding_and_manifest s b m = Ok t \<longleftrightarrow>
     SessionTranscriptSignature.schema s = SESSION_TRANSCRIPT_SIGNATURE_SCHEMA \<and>
     SessionTranscriptSignature.transcript_hash_algorithm s = SESSION_TRANSCRIPT_HASH_ALGORITHM \<and>
     SessionTranscriptBinding.transcript_hash_algorithm b = SESSION_TRANSCRIPT_HASH_ALGORITHM \<and>
     SessionTranscriptSignature.session_id s = SessionTranscriptBinding.session_id b \<and>
     SessionTranscriptSignature.transcript_hash s = SessionTranscriptBinding.transcript_hash b \<and>
     SessionTranscriptBinding.transcript_hash b \<noteq> zeroed \<and>
     t = EvidenceCryptoManifest.transcript_signature m \<and>
     SignatureEnvelope_validate_shape (SessionTranscriptSignature.signature s) = Ok t"
  by (auto simp: SessionTranscriptSignature_validate_against_binding_and_manifest_def)

text \<open>Under the one hash algorithm the verifiers accept, the message determines what it binds.\<close>

lemma transcript_message_inject:
  assumes "SessionTranscriptBinding.transcript_hash_algorithm a = SESSION_TRANSCRIPT_HASH_ALGORITHM"
    and "SessionTranscriptBinding.transcript_hash_algorithm b = SESSION_TRANSCRIPT_HASH_ALGORITHM"
  shows "session_transcript_signature_message a = session_transcript_signature_message b \<longleftrightarrow>
    SessionTranscriptBinding.session_id a = SessionTranscriptBinding.session_id b \<and>
    SessionTranscriptBinding.transcript_hash a = SessionTranscriptBinding.transcript_hash b"
  using assms by (simp add: session_transcript_signature_message_def)

end
