(* ===== verification/Ledger_Seal.thy ===== *)
theory Ledger_Seal
  imports Ledger_Binding
begin

text \<open>
  \<open>crates/xenia-ledger/src/seal.rs\<close>: the seal over a whole evidence bundle, its canonical
  length-prefixed message, its construction and its validation against the bundle's parts.
\<close>

definition EVIDENCE_BUNDLE_SEAL_SCHEMA :: string where
  "EVIDENCE_BUNDLE_SEAL_SCHEMA = ''xenia-evidence-bundle-seal-v1''"

record EvidenceBundleSeal =
  schema :: string
  session_id :: Uuid
  profile :: CryptoPolicyProfile
  transcript_signature :: SignatureSuite
  ledger_signature :: SignatureSuite
  transcript_hash_algorithm :: string
  transcript_hash :: u8_32
  transcript_public_key_fingerprint :: u8_32
  ledger_public_key_fingerprint :: u8_32
  ledger_entry_count :: u64
  ledger_first_entry_hash :: u8_32
  ledger_last_entry_hash :: u8_32
  signature :: SignatureEnvelope

datatype EvidenceBundleSealError =
    UnsupportedSchema string
  | SessionMismatch Uuid Uuid
  | ProfileMismatch CryptoPolicyProfile CryptoPolicyProfile
  | TranscriptSignatureSuiteMismatch SignatureSuite SignatureSuite
  | LedgerSignatureSuiteMismatch SignatureSuite SignatureSuite
  | TranscriptHashAlgorithmMismatch string string
  | TranscriptHashMismatch
  | TranscriptPublicKeyFingerprintMismatch
  | LedgerPublicKeyFingerprintMismatch
  | LedgerEntryCountMismatch u64 u64
  | LedgerFirstEntryHashMismatch
  | LedgerLastEntryHashMismatch
  | SignatureEnvelope SignatureEnvelopeError
  | SealSignatureSuiteMismatch SignatureSuite SignatureSuite
  | EmptyTranscriptBoundBundle

definition ledger_chain_anchors ::
    "LedgerEntryExport list \<Rightarrow> (u64 \<times> u8_32 \<times> u8_32, EvidenceBundleSealError) result" where
  "ledger_chain_anchors es =
     and_then (ok_or (vec_get es 0) EmptyTranscriptBoundBundle) (\<lambda>first.
     and_then (ok_or (vec_last es) EmptyTranscriptBoundBundle) (\<lambda>last.
       Ok (of_nat (length es), LedgerEntryExport.entry_hash first, LedgerEntryExport.entry_hash last)))"

definition EvidenceBundleSeal_from_parts ::
    "EvidenceCryptoManifest \<Rightarrow> SessionTranscriptBinding \<Rightarrow> EvidencePublicKeyBinding \<Rightarrow>
     LedgerEntryExport list \<Rightarrow> EvidencePublicKeyBinding \<Rightarrow> SignatureEnvelope \<Rightarrow>
     (EvidenceBundleSeal, EvidenceBundleSealError) result" where
  "EvidenceBundleSeal_from_parts manifest tb tkb es lkb sig =
     and_then (ledger_chain_anchors es) (\<lambda>(count, first_hash, last_hash).
       Ok \<lparr>EvidenceBundleSeal.schema = EVIDENCE_BUNDLE_SEAL_SCHEMA,
          EvidenceBundleSeal.session_id = SessionTranscriptBinding.session_id tb,
          EvidenceBundleSeal.profile = EvidenceCryptoManifest.profile manifest,
          EvidenceBundleSeal.transcript_signature = EvidenceCryptoManifest.transcript_signature manifest,
          EvidenceBundleSeal.ledger_signature = EvidenceCryptoManifest.ledger_signature manifest,
          EvidenceBundleSeal.transcript_hash_algorithm =
            SessionTranscriptBinding.transcript_hash_algorithm tb,
          EvidenceBundleSeal.transcript_hash = SessionTranscriptBinding.transcript_hash tb,
          transcript_public_key_fingerprint = public_key_fingerprint tkb,
          ledger_public_key_fingerprint = public_key_fingerprint lkb,
          ledger_entry_count = count, ledger_first_entry_hash = first_hash,
          ledger_last_entry_hash = last_hash, EvidenceBundleSeal.signature = sig\<rparr>)"

definition EvidenceBundleSeal_validate_against_bundle ::
    "EvidenceBundleSeal \<Rightarrow> EvidenceCryptoManifest \<Rightarrow> SessionTranscriptBinding \<Rightarrow>
     EvidencePublicKeyBinding \<Rightarrow> LedgerEntryExport list \<Rightarrow> EvidencePublicKeyBinding \<Rightarrow>
     (SignatureSuite, EvidenceBundleSealError) result" where
  "EvidenceBundleSeal_validate_against_bundle s manifest tb tkb es lkb =
     (if EvidenceBundleSeal.schema s \<noteq> EVIDENCE_BUNDLE_SEAL_SCHEMA
      then Err (EvidenceBundleSealError.UnsupportedSchema (EvidenceBundleSeal.schema s))
      else if EvidenceBundleSeal.session_id s \<noteq> SessionTranscriptBinding.session_id tb
      then Err (SessionMismatch (SessionTranscriptBinding.session_id tb) (EvidenceBundleSeal.session_id s))
      else if EvidenceBundleSeal.profile s \<noteq> EvidenceCryptoManifest.profile manifest
      then Err (ProfileMismatch (EvidenceCryptoManifest.profile manifest) (EvidenceBundleSeal.profile s))
      else if EvidenceBundleSeal.transcript_signature s \<noteq>
        EvidenceCryptoManifest.transcript_signature manifest
      then Err (EvidenceBundleSealError.TranscriptSignatureSuiteMismatch
        (EvidenceCryptoManifest.transcript_signature manifest)
        (EvidenceBundleSeal.transcript_signature s))
      else if EvidenceBundleSeal.ledger_signature s \<noteq> EvidenceCryptoManifest.ledger_signature manifest
      then Err (LedgerSignatureSuiteMismatch (EvidenceCryptoManifest.ledger_signature manifest)
        (EvidenceBundleSeal.ledger_signature s))
      else if EvidenceBundleSeal.transcript_hash_algorithm s \<noteq>
        SessionTranscriptBinding.transcript_hash_algorithm tb
      then Err (TranscriptHashAlgorithmMismatch (SessionTranscriptBinding.transcript_hash_algorithm tb)
        (EvidenceBundleSeal.transcript_hash_algorithm s))
      else if EvidenceBundleSeal.transcript_hash s \<noteq> SessionTranscriptBinding.transcript_hash tb
      then Err TranscriptHashMismatch
      else if transcript_public_key_fingerprint s \<noteq> public_key_fingerprint tkb
      then Err TranscriptPublicKeyFingerprintMismatch
      else if ledger_public_key_fingerprint s \<noteq> public_key_fingerprint lkb
      then Err LedgerPublicKeyFingerprintMismatch
      else and_then (ledger_chain_anchors es) (\<lambda>(count, first_hash, last_hash).
        if ledger_entry_count s \<noteq> count
        then Err (LedgerEntryCountMismatch count (ledger_entry_count s))
        else if ledger_first_entry_hash s \<noteq> first_hash then Err LedgerFirstEntryHashMismatch
        else if ledger_last_entry_hash s \<noteq> last_hash then Err LedgerLastEntryHashMismatch
        else and_then (map_err EvidenceBundleSealError.SignatureEnvelope
            (SignatureEnvelope_validate_shape (EvidenceBundleSeal.signature s))) (\<lambda>suite.
          if suite \<noteq> EvidenceCryptoManifest.transcript_signature manifest
          then Err (SealSignatureSuiteMismatch
            (EvidenceCryptoManifest.transcript_signature manifest) suite)
          else Ok suite)))"

section \<open>The sealed message\<close>

definition evidence_message_push_bytes :: "bytes \<Rightarrow> bytes \<Rightarrow> bytes" where
  "evidence_message_push_bytes message bs =
     message @ to_be_bytes (of_nat (length bs)) @ bs"

definition evidence_message_push_u64 :: "bytes \<Rightarrow> u64 \<Rightarrow> bytes" where
  "evidence_message_push_u64 message value = message @ to_be_bytes value"

definition evidence_bundle_seal_message :: "EvidenceBundleSeal \<Rightarrow> bytes" where
  "evidence_bundle_seal_message s =
     (let message = [];
          message = evidence_message_push_bytes message (as_bytes ''xenia:evidence-bundle-seal:v1'');
          message = evidence_message_push_bytes message (as_bytes (EvidenceBundleSeal.schema s));
          message = evidence_message_push_bytes message (slice (EvidenceBundleSeal.session_id s));
          message = evidence_message_push_bytes message
            (as_bytes (CryptoPolicyProfile_stable_label (EvidenceBundleSeal.profile s)));
          message = evidence_message_push_bytes message
            (as_bytes (SignatureSuite_stable_label (EvidenceBundleSeal.transcript_signature s)));
          message = evidence_message_push_bytes message
            (as_bytes (SignatureSuite_stable_label (EvidenceBundleSeal.ledger_signature s)));
          message = evidence_message_push_bytes message
            (as_bytes (EvidenceBundleSeal.transcript_hash_algorithm s));
          message = evidence_message_push_bytes message (slice (EvidenceBundleSeal.transcript_hash s));
          message = evidence_message_push_bytes message (slice (transcript_public_key_fingerprint s));
          message = evidence_message_push_bytes message (slice (ledger_public_key_fingerprint s));
          message = evidence_message_push_u64 message (ledger_entry_count s);
          message = evidence_message_push_bytes message (slice (ledger_first_entry_hash s));
          message = evidence_message_push_bytes message (slice (ledger_last_entry_hash s))
      in message)"

definition evidence_bundle_seal_message_from_parts ::
    "EvidenceCryptoManifest \<Rightarrow> SessionTranscriptBinding \<Rightarrow> EvidencePublicKeyBinding \<Rightarrow>
     LedgerEntryExport list \<Rightarrow> EvidencePublicKeyBinding \<Rightarrow> (bytes, EvidenceBundleSealError) result" where
  "evidence_bundle_seal_message_from_parts manifest tb tkb es lkb =
     and_then (EvidenceBundleSeal_from_parts manifest tb tkb es lkb
         (SignatureEnvelope_new (EvidenceCryptoManifest.transcript_signature manifest) []))
       (\<lambda>seal. Ok (evidence_bundle_seal_message seal))"

definition sign_evidence_bundle_seal_ed25519 ::
    "('sk, 'vk, 'ml) crypto \<Rightarrow> EvidenceCryptoManifest \<Rightarrow> SessionTranscriptBinding \<Rightarrow>
     EvidencePublicKeyBinding \<Rightarrow> LedgerEntryExport list \<Rightarrow> EvidencePublicKeyBinding \<Rightarrow> 'sk \<Rightarrow>
     (EvidenceBundleSeal, EvidenceBundleSealError) result" where
  "sign_evidence_bundle_seal_ed25519 c manifest tb tkb es lkb sk =
     and_then (evidence_bundle_seal_message_from_parts manifest tb tkb es lkb) (\<lambda>message.
       EvidenceBundleSeal_from_parts manifest tb tkb es lkb
         (SignatureEnvelope_ed25519 (ed_sign c sk message)))"

definition sign_evidence_bundle_seal_ml_dsa_65 ::
    "('sk, 'vk, 'ml) crypto \<Rightarrow> EvidenceCryptoManifest \<Rightarrow> SessionTranscriptBinding \<Rightarrow>
     EvidencePublicKeyBinding \<Rightarrow> LedgerEntryExport list \<Rightarrow> EvidencePublicKeyBinding \<Rightarrow> 'ml \<Rightarrow>
     (EvidenceBundleSeal, EvidenceBundleSealError) result" where
  "sign_evidence_bundle_seal_ml_dsa_65 c manifest tb tkb es lkb sk =
     and_then (evidence_bundle_seal_message_from_parts manifest tb tkb es lkb) (\<lambda>message.
       EvidenceBundleSeal_from_parts manifest tb tkb es lkb
         (SignatureEnvelope_new MlDsa65Fips204 (ml_sign c MlDsa65 sk message)))"

definition sign_evidence_bundle_seal_ml_dsa_87 ::
    "('sk, 'vk, 'ml) crypto \<Rightarrow> EvidenceCryptoManifest \<Rightarrow> SessionTranscriptBinding \<Rightarrow>
     EvidencePublicKeyBinding \<Rightarrow> LedgerEntryExport list \<Rightarrow> EvidencePublicKeyBinding \<Rightarrow> 'ml \<Rightarrow>
     (EvidenceBundleSeal, EvidenceBundleSealError) result" where
  "sign_evidence_bundle_seal_ml_dsa_87 c manifest tb tkb es lkb sk =
     and_then (evidence_bundle_seal_message_from_parts manifest tb tkb es lkb) (\<lambda>message.
       EvidenceBundleSeal_from_parts manifest tb tkb es lkb
         (SignatureEnvelope_new MlDsa87Fips204 (ml_sign c MlDsa87 sk message)))"

section \<open>Lemmas\<close>

lemma ledger_chain_anchors_eq_Ok [result_simps]:
  "ledger_chain_anchors es = Ok (n, f, l) \<longleftrightarrow>
     es \<noteq> [] \<and> n = of_nat (length es) \<and> f = LedgerEntryExport.entry_hash (hd es) \<and>
     l = LedgerEntryExport.entry_hash (last es)"
  by (cases es) (auto simp: ledger_chain_anchors_def vec_get_def vec_last_conv)

lemma seal_validate_eq_Ok [result_simps]:
  "EvidenceBundleSeal_validate_against_bundle s m tb tkb es lkb = Ok t \<longleftrightarrow>
     EvidenceBundleSeal.schema s = EVIDENCE_BUNDLE_SEAL_SCHEMA \<and>
     EvidenceBundleSeal.session_id s = SessionTranscriptBinding.session_id tb \<and>
     EvidenceBundleSeal.profile s = EvidenceCryptoManifest.profile m \<and>
     EvidenceBundleSeal.transcript_signature s = EvidenceCryptoManifest.transcript_signature m \<and>
     EvidenceBundleSeal.ledger_signature s = EvidenceCryptoManifest.ledger_signature m \<and>
     EvidenceBundleSeal.transcript_hash_algorithm s =
       SessionTranscriptBinding.transcript_hash_algorithm tb \<and>
     EvidenceBundleSeal.transcript_hash s = SessionTranscriptBinding.transcript_hash tb \<and>
     transcript_public_key_fingerprint s = public_key_fingerprint tkb \<and>
     ledger_public_key_fingerprint s = public_key_fingerprint lkb \<and>
     es \<noteq> [] \<and> ledger_entry_count s = of_nat (length es) \<and>
     ledger_first_entry_hash s = LedgerEntryExport.entry_hash (hd es) \<and>
     ledger_last_entry_hash s = LedgerEntryExport.entry_hash (last es) \<and>
     t = EvidenceCryptoManifest.transcript_signature m \<and>
     SignatureEnvelope_validate_shape (EvidenceBundleSeal.signature s) = Ok t"
  unfolding EvidenceBundleSeal_validate_against_bundle_def if_Err_eq_Ok and_then_eq_Ok map_err_eq_Ok
  by (auto simp: ledger_chain_anchors_eq_Ok)

text \<open>A sealed message without its signature field is uniquely decodable.\<close>

lemma push_bytes_inject:
  assumes "length x < 2 ^ 64" and "length y < 2 ^ 64"
  shows "to_be_bytes (of_nat (length x)) @ x @ us = to_be_bytes (of_nat (length y)) @ y @ vs \<longleftrightarrow>
    x = y \<and> us = vs"
  using assms by (auto simp: of_nat_u64_eq_iff append_eq_append_conv)

lemma labels_fit:
  "length (CryptoPolicyProfile_stable_label p) < 2 ^ 64"
  "length (SignatureSuite_stable_label s) < 2 ^ 64"
  by (cases p; simp) (cases s; simp)

lemma seal_message_inject:
  assumes "length (EvidenceBundleSeal.schema a) < 2 ^ 64" "length (EvidenceBundleSeal.schema b) < 2 ^ 64"
    and "length (EvidenceBundleSeal.transcript_hash_algorithm a) < 2 ^ 64"
    and "length (EvidenceBundleSeal.transcript_hash_algorithm b) < 2 ^ 64"
  shows "evidence_bundle_seal_message a = evidence_bundle_seal_message b \<longleftrightarrow>
    b = a\<lparr>EvidenceBundleSeal.signature := EvidenceBundleSeal.signature b\<rparr>"
proof -
  note fit = push_bytes_inject [of "as_bytes s" "as_bytes t" for s t, unfolded length_as_bytes]
  have "evidence_bundle_seal_message a = evidence_bundle_seal_message b \<longleftrightarrow>
      EvidenceBundleSeal.schema a = EvidenceBundleSeal.schema b \<and>
      EvidenceBundleSeal.session_id a = EvidenceBundleSeal.session_id b \<and>
      EvidenceBundleSeal.profile a = EvidenceBundleSeal.profile b \<and>
      EvidenceBundleSeal.transcript_signature a = EvidenceBundleSeal.transcript_signature b \<and>
      EvidenceBundleSeal.ledger_signature a = EvidenceBundleSeal.ledger_signature b \<and>
      EvidenceBundleSeal.transcript_hash_algorithm a = EvidenceBundleSeal.transcript_hash_algorithm b \<and>
      EvidenceBundleSeal.transcript_hash a = EvidenceBundleSeal.transcript_hash b \<and>
      transcript_public_key_fingerprint a = transcript_public_key_fingerprint b \<and>
      ledger_public_key_fingerprint a = ledger_public_key_fingerprint b \<and>
      ledger_entry_count a = ledger_entry_count b \<and>
      ledger_first_entry_hash a = ledger_first_entry_hash b \<and>
      ledger_last_entry_hash a = ledger_last_entry_hash b"
    using fit [OF assms(1,2)] fit [OF labels_fit(1) labels_fit(1)] fit [OF labels_fit(2) labels_fit(2)]
      fit [OF assms(3,4)]
    by (auto simp: evidence_bundle_seal_message_def evidence_message_push_bytes_def
        evidence_message_push_u64_def Let_def)
  then show ?thesis
    by (cases a; cases b) auto
qed

end
