(* ===== verification/Ledger_Continuity.thy ===== *)
theory Ledger_Continuity
  imports Ledger_Verify
begin

text \<open>
  The continuity rules of \<open>crates/xenia-ledger/src/checkpoint.rs\<close>: freshness of one checkpoint,
  monotonicity of two, a checkpoint as an exact prefix of a ledger, and a suffix of signed entries
  that proves one checkpoint extends another. The extension loop is the third committed hash walk.
\<close>

record CheckpointFreshnessPolicy =
  max_age_secs :: "u64 option"
  max_future_skew_secs :: u64

definition CheckpointFreshnessPolicy_default :: CheckpointFreshnessPolicy where
  "CheckpointFreshnessPolicy_default = \<lparr>max_age_secs = None, max_future_skew_secs = 300\<rparr>"

datatype CheckpointContinuityError =
    InvalidCheckpoint CheckpointError
  | LedgerKeyChanged
  | TimestampRegressed u64 u64
  | EntryCountRegressed u64 u64
  | ForkAtSameHeight u64
  | TrustedKeyMismatch
  | CheckpointAheadOfLedger u64 u64
  | PrefixHeadMismatch u64
  | ExtensionLengthMismatch u64 u64 u64
  | SuffixOutOfOrder nat u64 u64
  | SuffixBrokenLink u64
  | SuffixEntryHashMismatch u64
  | SuffixBadSignature u64
  | CandidateHeadMismatch
  | CheckpointFromFuture u64 u64 u64
  | CheckpointTooOld u64 u64
  | Ledger VerifyError

definition Verifier_verify_checkpoint_freshness ::
    "('sk, 'vk, 'ml) crypto \<Rightarrow> LedgerCheckpoint \<Rightarrow> u64 \<Rightarrow> CheckpointFreshnessPolicy \<Rightarrow>
     (unit, CheckpointContinuityError) result" where
  "Verifier_verify_checkpoint_freshness c cp now_unix_secs policy =
     and_then (map_err InvalidCheckpoint (Verifier_verify_checkpoint c cp)) (\<lambda>_.
       if timestamp_unix_secs cp > saturating_add now_unix_secs (max_future_skew_secs policy)
       then Err (CheckpointFromFuture (timestamp_unix_secs cp) now_unix_secs
              (max_future_skew_secs policy))
       else case max_age_secs policy of
           Some maximum_age \<Rightarrow>
             (let age = saturating_sub now_unix_secs (timestamp_unix_secs cp) in
              if age > maximum_age then Err (CheckpointTooOld age maximum_age) else Ok ())
         | None \<Rightarrow> Ok ())"

definition Verifier_verify_checkpoint_monotonic ::
    "('sk, 'vk, 'ml) crypto \<Rightarrow> LedgerCheckpoint \<Rightarrow> LedgerCheckpoint \<Rightarrow>
     (unit, CheckpointContinuityError) result" where
  "Verifier_verify_checkpoint_monotonic c previous candidate =
     and_then (map_err InvalidCheckpoint (Verifier_verify_checkpoint c previous)) (\<lambda>_.
     and_then (map_err InvalidCheckpoint (Verifier_verify_checkpoint c candidate)) (\<lambda>_.
       if ledger_public_key previous \<noteq> ledger_public_key candidate then Err LedgerKeyChanged
       else if timestamp_unix_secs candidate < timestamp_unix_secs previous
       then Err (TimestampRegressed (timestamp_unix_secs previous) (timestamp_unix_secs candidate))
       else if entry_count candidate < entry_count previous
       then Err (EntryCountRegressed (entry_count previous) (entry_count candidate))
       else if entry_count candidate = entry_count previous \<and> head_hash candidate \<noteq> head_hash previous
       then Err (ForkAtSameHeight (entry_count candidate))
       else Ok ()))"

text \<open>
  The index of the prefix check is below the length of the slice: it is one less than a count
  that the guard before bounds by the length.
\<close>

definition Verifier_verify_checkpoint_prefix ::
    "('sk, 'vk, 'ml) crypto \<Rightarrow> LedgerCheckpoint \<Rightarrow> LedgerEntry list \<Rightarrow> 'vk \<Rightarrow>
     (unit, CheckpointContinuityError) result" where
  "Verifier_verify_checkpoint_prefix c cp entries public_key =
     and_then (map_err InvalidCheckpoint (Verifier_verify_checkpoint c cp)) (\<lambda>_.
     if ledger_public_key cp \<noteq> ed_key_to_bytes c public_key then Err TrustedKeyMismatch
     else and_then (map_err Ledger (Verifier_verify_chain c entries public_key)) (\<lambda>_.
       let ledger_len = of_nat (length entries) in
       if entry_count cp > ledger_len
       then Err (CheckpointAheadOfLedger (entry_count cp) ledger_len)
       else let observed_head =
              (if entry_count cp = 0 then zeroed
               else LedgerEntry.entry_hash (entries ! unat (entry_count cp - 1)))
            in if observed_head \<noteq> head_hash cp then Err (PrefixHeadMismatch (entry_count cp))
               else Ok ()))"

definition verify_extension_entry ::
    "('sk, 'vk, 'ml) crypto \<Rightarrow> 'vk \<Rightarrow> u64 \<Rightarrow> nat \<Rightarrow> u8_32 \<Rightarrow> LedgerEntry \<Rightarrow>
     (unit, CheckpointContinuityError) result" where
  "verify_extension_entry c public_key previous_count index expected_prev e =
     (let expected_seq = previous_count + of_nat index; sq = LedgerEntry.seq e in
      if sq \<noteq> expected_seq then Err (SuffixOutOfOrder index expected_seq sq)
      else if LedgerEntry.prev_hash e \<noteq> expected_prev then Err (SuffixBrokenLink sq)
      else and_then (map_err (\<lambda>_. SuffixEntryHashMismatch sq)
             (compute_entry_hash c sq (LedgerEntry.prev_hash e) (LedgerEntry.timestamp e)
                (LedgerEntry.event e)))
        (\<lambda>recomputed.
          if recomputed \<noteq> LedgerEntry.entry_hash e then Err (SuffixEntryHashMismatch sq)
          else if ed_verify c public_key (slice (LedgerEntry.entry_hash e)) (LedgerEntry.signature e)
          then Ok () else Err (SuffixBadSignature sq)))"

text \<open>The loop of the extension check; it returns the last \<open>expected_prev\<close>.\<close>

fun verify_extension_loop ::
    "('sk, 'vk, 'ml) crypto \<Rightarrow> 'vk \<Rightarrow> u64 \<Rightarrow> nat \<Rightarrow> u8_32 \<Rightarrow> LedgerEntry list \<Rightarrow>
     (u8_32, CheckpointContinuityError) result" where
  "verify_extension_loop c public_key previous_count index expected_prev [] = Ok expected_prev"
| "verify_extension_loop c public_key previous_count index expected_prev (e # es) =
     and_then (verify_extension_entry c public_key previous_count index expected_prev e)
       (\<lambda>_. verify_extension_loop c public_key previous_count (Suc index)
          (LedgerEntry.entry_hash e) es)"

definition Verifier_verify_checkpoint_extension ::
    "('sk, 'vk, 'ml) crypto \<Rightarrow> LedgerCheckpoint \<Rightarrow> LedgerCheckpoint \<Rightarrow> LedgerEntry list \<Rightarrow>
     (unit, CheckpointContinuityError) result" where
  "Verifier_verify_checkpoint_extension c previous candidate suffix =
     and_then (Verifier_verify_checkpoint_monotonic c previous candidate) (\<lambda>_.
       let expected_len = entry_count candidate - entry_count previous in
       if of_nat (length suffix) \<noteq> expected_len
       then Err (ExtensionLengthMismatch (entry_count previous) (of_nat (length suffix))
              (entry_count candidate))
       else and_then (map_err InvalidCheckpoint
              (ok_or (ed_key_from_bytes c (ledger_public_key candidate)) CheckpointError.BadPublicKey))
         (\<lambda>public_key.
       and_then (verify_extension_loop c public_key (entry_count previous) 0 (head_hash previous) suffix)
         (\<lambda>expected_prev.
            if expected_prev \<noteq> head_hash candidate then Err CandidateHeadMismatch else Ok ())))"

section \<open>The extension loop is a committed hash walk\<close>

definition extension_walk ::
    "('sk, 'vk, 'ml) crypto \<Rightarrow> 'vk \<Rightarrow> u64 \<Rightarrow> nat \<Rightarrow> u8_32 \<Rightarrow> LedgerEntry list \<Rightarrow>
     (unit, CheckpointContinuityError) result" where
  "extension_walk c pk base i p es = map_ok (\<lambda>_. ()) (verify_extension_loop c pk base i p es)"

lemma verify_extension_entry_eq_Ok [result_simps]:
  "verify_extension_entry c pk base i p e = Ok () \<longleftrightarrow>
     LedgerEntry.seq e = base + of_nat i \<and> LedgerEntry.prev_hash e = p \<and>
     preimage_hash c (entry_preimage e) = Some (LedgerEntry.entry_hash e) \<and>
     ed_verify c pk (slice (LedgerEntry.entry_hash e)) (LedgerEntry.signature e)"
  by (auto simp: verify_extension_entry_def Let_def compute_entry_hash_eq_Ok entry_preimage_def)

lemma extension_walk_simps [simp]:
  "extension_walk c pk base i p [] = Ok ()"
  "extension_walk c pk base i p (e # es) = Ok () \<longleftrightarrow>
     verify_extension_entry c pk base i p e = Ok () \<and>
     extension_walk c pk base (Suc i) (LedgerEntry.entry_hash e) es = Ok ()"
  by (auto simp: extension_walk_def)

lemma verify_extension_loop_eq_Ok:
  "verify_extension_loop c pk base i p es = Ok h \<longleftrightarrow>
     extension_walk c pk base i p es = Ok () \<and> h = head_after LedgerEntry.entry_hash p es"
proof (induction es arbitrary: i p)
  case Nil
  then show ?case by (auto simp: head_after_simps)
next
  case (Cons e es)
  then show ?case by (auto simp: head_after_simps(2))
qed

interpretation ext_walk: committed_walk "\<lambda>pk. extension_walk c pk base"
    "\<lambda>pk i p e. verify_extension_entry c pk base i p e = Ok ()"
    LedgerEntry.prev_hash LedgerEntry.entry_hash entry_preimage "preimage_hash c" for c base
  by unfold_locales (auto simp: verify_extension_entry_eq_Ok entry_preimage_inject)

section \<open>Characterisations\<close>

lemma verify_checkpoint_monotonic_eq_Ok [result_simps]:
  "Verifier_verify_checkpoint_monotonic c a b = Ok () \<longleftrightarrow>
     Verifier_verify_checkpoint c a = Ok () \<and> Verifier_verify_checkpoint c b = Ok () \<and>
     ledger_public_key a = ledger_public_key b \<and>
     timestamp_unix_secs a \<le> timestamp_unix_secs b \<and> entry_count a \<le> entry_count b \<and>
     (entry_count a = entry_count b \<longrightarrow> head_hash a = head_hash b)"
  by (auto simp: Verifier_verify_checkpoint_monotonic_def not_less)

lemma verify_checkpoint_extension_eq_Ok [result_simps]:
  "Verifier_verify_checkpoint_extension c a b es = Ok () \<longleftrightarrow>
     Verifier_verify_checkpoint_monotonic c a b = Ok () \<and>
     of_nat (length es) = entry_count b - entry_count a \<and>
     (\<exists>vk. ed_key_from_bytes c (ledger_public_key b) = Some vk \<and>
        extension_walk c vk (entry_count a) 0 (head_hash a) es = Ok ()) \<and>
     head_hash b = head_after LedgerEntry.entry_hash (head_hash a) es"
  by (auto simp: Verifier_verify_checkpoint_extension_def Let_def verify_extension_loop_eq_Ok)

lemma verify_checkpoint_freshness_eq_Ok [result_simps]:
  "Verifier_verify_checkpoint_freshness c cp now policy = Ok () \<longleftrightarrow>
     Verifier_verify_checkpoint c cp = Ok () \<and>
     timestamp_unix_secs cp \<le> saturating_add now (max_future_skew_secs policy) \<and>
     (\<forall>m. max_age_secs policy = Some m \<longrightarrow> saturating_sub now (timestamp_unix_secs cp) \<le> m)"
  by (auto simp: Verifier_verify_checkpoint_freshness_def Let_def not_less split: option.splits)

text \<open>The head a chain has after its first \<open>n\<close> entries.\<close>

abbreviation chain_head :: "LedgerEntry list \<Rightarrow> u8_32" where
  "chain_head es \<equiv> head_after LedgerEntry.entry_hash zeroed es"

lemma prefix_index_in_range:
  fixes n :: u64
  assumes "n \<le> of_nat (length xs)" and "n \<noteq> 0"
  shows "unat (n - 1) < length xs"
proof -
  have "unat n \<le> unat (of_nat (length xs) :: u64)"
    using assms(1) by (simp add: word_le_nat_alt)
  also have "\<dots> \<le> length xs"
    by (simp add: unat_of_nat)
  finally have "unat n \<le> length xs" .
  moreover have "0 < unat n"
    using assms(2) by (simp add: unat_gt_0)
  moreover have "unat (n - 1) = unat n - 1"
    using assms(2) by (rule unat_minus_one)
  ultimately show ?thesis by simp
qed

lemma verify_checkpoint_prefix_eq_Ok [result_simps]:
  "Verifier_verify_checkpoint_prefix c cp es pk = Ok () \<longleftrightarrow>
     Verifier_verify_checkpoint c cp = Ok () \<and>
     ledger_public_key cp = ed_key_to_bytes c pk \<and>
     Verifier_verify_chain c es pk = Ok () \<and>
     entry_count cp \<le> of_nat (length es) \<and>
     head_hash cp = chain_head (take (unat (entry_count cp)) es)"
proof -
  have "(if entry_count cp = 0 then zeroed
       else LedgerEntry.entry_hash (es ! unat (entry_count cp - 1))) =
      chain_head (take (unat (entry_count cp)) es)"
    if le: "entry_count cp \<le> of_nat (length es)"
  proof (cases "entry_count cp = 0")
    case True
    then show ?thesis by (simp add: head_after_simps)
  next
    case False
    have "take (Suc (unat (entry_count cp - 1))) es =
        take (unat (entry_count cp - 1)) es @ [es ! unat (entry_count cp - 1)]"
      using prefix_index_in_range [OF le False] by (rule take_Suc_conv_app_nth)
    moreover have "Suc (unat (entry_count cp - 1)) = unat (entry_count cp)"
      using False by (simp add: unat_minus_one unat_gt_0)
    ultimately show ?thesis
      using False by (simp add: head_after_simps)
  qed
  then show ?thesis
    by (auto simp: Verifier_verify_checkpoint_prefix_def Let_def not_less)
qed

section \<open>Chains as extensions of the empty log\<close>

text \<open>
  From the zero hash and count zero the extension loop and the chain verifier accept the same
  slices, as long as the slice fits the sequence space.
\<close>

lemma chain_loop_iff_extension_walk:
  assumes "i + length es \<le> 2 ^ 64" and "i = 0 \<longrightarrow> p = zeroed"
  shows "verify_chain_loop c pk i p es = Ok () \<longleftrightarrow> extension_walk c pk 0 i p es = Ok ()"
  using assms
proof (induction es arbitrary: i p)
  case (Cons e es)
  have "(of_nat i :: u64) = 0 \<longleftrightarrow> i = 0"
    using Cons.prems(1) of_nat_u64_eq_iff [of i 0] by simp
  then show ?case
    using Cons by (auto simp: verify_chain_entry_eq_Ok verify_extension_entry_eq_Ok)
qed simp

lemma verify_chain_iff_extension_walk:
  assumes "length es \<le> 2 ^ 64"
  shows "Verifier_verify_chain c es pk = Ok () \<longleftrightarrow> extension_walk c pk 0 0 zeroed es = Ok ()"
  using assms by (simp add: Verifier_verify_chain_def chain_loop_iff_extension_walk)

text \<open>The extension loop only sees the sum of the base count and the index.\<close>

lemma extension_walk_shift:
  "extension_walk c pk base (i + k) p es = Ok () \<longleftrightarrow>
   extension_walk c pk (base + of_nat k) i p es = Ok ()"
proof (induction es arbitrary: i p)
  case (Cons e es)
  from Cons [of "Suc i"] show ?case
    by (simp add: verify_extension_entry_eq_Ok add_ac)
qed simp

lemma extension_walk_append:
  "extension_walk c pk base 0 p (xs @ ys) = Ok () \<longleftrightarrow>
     extension_walk c pk base 0 p xs = Ok () \<and>
     extension_walk c pk (base + of_nat (length xs)) 0
       (head_after LedgerEntry.entry_hash p xs) ys = Ok ()"
  using extension_walk_shift [of c pk base 0 "length xs"]
  by (simp add: ext_walk.walk_append)

lemma monotonic_trans:
  assumes "Verifier_verify_checkpoint_monotonic c x y = Ok ()"
    and "Verifier_verify_checkpoint_monotonic c y z = Ok ()"
  shows "Verifier_verify_checkpoint_monotonic c x z = Ok ()"
proof -
  note xy = assms(1) [unfolded verify_checkpoint_monotonic_eq_Ok]
    and yz = assms(2) [unfolded verify_checkpoint_monotonic_eq_Ok]
  have "entry_count y = entry_count x" if "entry_count x = entry_count z"
    using xy yz that by (intro order.antisym) simp_all
  then have "entry_count x = entry_count z \<longrightarrow> head_hash x = head_hash z"
    using xy yz by simp
  moreover have "timestamp_unix_secs x \<le> timestamp_unix_secs z" "entry_count x \<le> entry_count z"
    using xy yz by (blast intro: order.trans)+
  ultimately show ?thesis
    using xy yz by (simp add: verify_checkpoint_monotonic_eq_Ok)
qed

text \<open>Extensions compose: the entries of two adjoining extensions prove the whole one.\<close>

lemma extension_trans:
  assumes "Verifier_verify_checkpoint_extension c x y es = Ok ()"
    and "Verifier_verify_checkpoint_extension c y z fs = Ok ()"
  shows "Verifier_verify_checkpoint_extension c x z (es @ fs) = Ok ()"
proof -
  note xy = assms(1) [unfolded verify_checkpoint_extension_eq_Ok]
    and yz = assms(2) [unfolded verify_checkpoint_extension_eq_Ok]
  have mono: "Verifier_verify_checkpoint_monotonic c x z = Ok ()"
    by (rule monotonic_trans [OF conjunct1 [OF xy] conjunct1 [OF yz]])
  have len: "of_nat (length es) = entry_count y - entry_count x"
      "of_nat (length fs) = entry_count z - entry_count y"
    and head: "head_hash y = head_after LedgerEntry.entry_hash (head_hash x) es"
      "head_hash z = head_after LedgerEntry.entry_hash (head_hash y) fs"
    using xy yz by blast+
  from len(1) have y: "entry_count x + of_nat (length es) = entry_count y"
    by simp
  have key: "ledger_public_key y = ledger_public_key z"
    using conjunct1 [OF yz] by (simp add: verify_checkpoint_monotonic_eq_Ok)
  obtain vk where vk: "ed_key_from_bytes c (ledger_public_key z) = Some vk"
    and w1: "extension_walk c vk (entry_count x) 0 (head_hash x) es = Ok ()"
    and w2: "extension_walk c vk (entry_count y) 0 (head_hash y) fs = Ok ()"
    using xy yz key by auto
  from w1 w2 have "extension_walk c vk (entry_count x) 0 (head_hash x) (es @ fs) = Ok ()"
    unfolding extension_walk_append y head(1) [symmetric] by blast
  moreover have "head_hash z = head_after LedgerEntry.entry_hash (head_hash x) (es @ fs)"
    unfolding head_after_simps(4) head(1) [symmetric] by (rule head(2))
  moreover have "of_nat (length (es @ fs)) = entry_count z - entry_count x"
    using len by simp
  ultimately show ?thesis
    unfolding verify_checkpoint_extension_eq_Ok using mono vk by blast
qed

text \<open>A checkpoint of the empty ledger.\<close>

definition genesis_checkpoint :: "LedgerCheckpoint \<Rightarrow> bool" where
  "genesis_checkpoint cp \<longleftrightarrow> entry_count cp = 0 \<and> head_hash cp = zeroed"

text \<open>An extension of the empty ledger is a complete chain with the candidate as its checkpoint.\<close>

lemma extension_of_genesis:
  assumes "Verifier_verify_checkpoint_extension c x y es = Ok ()" and "genesis_checkpoint x"
    and "length es < 2 ^ 64" and "ed_key_from_bytes c (ledger_public_key y) = Some pk"
    and "ed25519_key_codec c"
  shows "Verifier_verify_checkpoint_prefix c y es pk = Ok ()"
proof -
  have "Verifier_verify_chain c es pk = Ok ()"
    using assms by (auto simp: verify_checkpoint_extension_eq_Ok genesis_checkpoint_def
        verify_chain_iff_extension_walk)
  moreover have "entry_count y = of_nat (length es)" "head_hash y = chain_head es"
    using assms by (auto simp: verify_checkpoint_extension_eq_Ok genesis_checkpoint_def)
  moreover have "Verifier_verify_checkpoint c y = Ok ()"
    using assms by (simp add: verify_checkpoint_extension_eq_Ok verify_checkpoint_monotonic_eq_Ok)
  ultimately show ?thesis
    using assms(3) ed25519_key_codecD(2) [OF assms(5,4)]
    by (simp add: verify_checkpoint_prefix_eq_Ok)
qed

end
