(* ===== verification/Ledger_Chain.thy ===== *)
theory Ledger_Chain
  imports Ledger_Continuity "HOL-Library.Sublist"
begin

text \<open>
  The append-only chain of \<open>crates/xenia-ledger/src/chain.rs\<close>. A method on \<open>&mut self\<close> returns the updated chain beside its result;
  \<open>SystemTime::now()\<close> and the caller's \<open>persist\<close> closure are arguments. The abstract view of a
  chain is its log of timed events; the step relation \<open>chain_step\<close> is any one append a caller
  makes, and the invariant \<open>Chain_ok\<close> holds along every sequence of them.
\<close>

section \<open>The chain\<close>

record 'sk Chain =
  base_entry_count :: u64
  base_head_hash :: u8_32
  base_checkpoint :: "LedgerCheckpoint option"
  entries :: "LedgerEntry list"
  signing_key :: 'sk

definition Chain_new :: "'sk \<Rightarrow> 'sk Chain" where
  "Chain_new sk = \<lparr>base_entry_count = 0, base_head_hash = zeroed, base_checkpoint = None,
     entries = [], signing_key = sk\<rparr>"

definition Chain_from_entries :: "LedgerEntry list \<Rightarrow> 'sk \<Rightarrow> 'sk Chain" where
  "Chain_from_entries es sk = \<lparr>base_entry_count = 0, base_head_hash = zeroed,
     base_checkpoint = None, entries = es, signing_key = sk\<rparr>"

definition Chain_from_checkpoint_suffix ::
    "LedgerCheckpoint \<Rightarrow> LedgerEntry list \<Rightarrow> 'sk \<Rightarrow> 'sk Chain" where
  "Chain_from_checkpoint_suffix cp es sk = \<lparr>base_entry_count = entry_count cp,
     base_head_hash = head_hash cp, base_checkpoint = Some cp, entries = es, signing_key = sk\<rparr>"

definition Chain_entry_count :: "'sk Chain \<Rightarrow> u64" where
  "Chain_entry_count ch = saturating_add (base_entry_count ch) (of_nat (length (entries ch)))"

definition Chain_len :: "'sk Chain \<Rightarrow> nat" where
  "Chain_len ch = unat (Chain_entry_count ch)"

definition Chain_resident_len :: "'sk Chain \<Rightarrow> nat" where
  "Chain_resident_len ch = length (entries ch)"

definition Chain_base_checkpoint :: "'sk Chain \<Rightarrow> LedgerCheckpoint option" where
  "Chain_base_checkpoint ch = base_checkpoint ch"

definition Chain_is_empty :: "'sk Chain \<Rightarrow> bool" where
  "Chain_is_empty ch \<longleftrightarrow> Chain_entry_count ch = 0"

definition Chain_last_hash :: "'sk Chain \<Rightarrow> u8_32" where
  "Chain_last_hash ch =
     (case vec_last (entries ch) of Some e \<Rightarrow> LedgerEntry.entry_hash e | None \<Rightarrow> base_head_hash ch)"

definition Chain_export_entries :: "'sk Chain \<Rightarrow> LedgerEntryExport list" where
  "Chain_export_entries ch = map LedgerEntry_to_export_entry (entries ch)"

definition Chain_append ::
    "('sk, 'vk, 'ml) crypto \<Rightarrow> SystemTime \<Rightarrow> ConsentEventRecord \<Rightarrow> 'sk Chain \<Rightarrow>
     'sk Chain \<times> (LedgerEntry, LedgerError) result" where
  "Chain_append c now ev ch =
     (let entry_index = length (entries ch) in
      case checked_add (base_entry_count ch) (of_nat entry_index) of
        None \<Rightarrow> (ch, Err SequenceOverflow)
      | Some sq \<Rightarrow>
          (let prev = Chain_last_hash ch in
           case compute_entry_hash c sq prev now ev of
             Err e \<Rightarrow> (ch, Err e)
           | Ok h \<Rightarrow>
               (let sig = ed_sign c (signing_key ch) (slice h);
                    ch' = ch\<lparr>entries := entries ch @ [\<lparr>
                      LedgerEntry.seq = sq, LedgerEntry.prev_hash = prev,
                      LedgerEntry.timestamp = now, LedgerEntry.event = ev,
                      LedgerEntry.entry_hash = h, LedgerEntry.signature = sig\<rparr>]\<rparr>
                in (ch', ok_or (vec_get (entries ch') entry_index) AppendInvariant))))"

definition Chain_append_transactional ::
    "('sk, 'vk, 'ml) crypto \<Rightarrow> SystemTime \<Rightarrow> ConsentEventRecord \<Rightarrow>
     (LedgerEntry list \<Rightarrow> (unit, 'e) result) \<Rightarrow> 'sk Chain \<Rightarrow>
     'sk Chain \<times> (LedgerEntry, 'e TransactionalAppendError) result" where
  "Chain_append_transactional c now ev persist ch =
     (case Chain_append c now ev ch of
        (ch', Err e) \<Rightarrow> (ch', Err (TransactionalAppendError.Ledger e))
      | (ch', Ok _) \<Rightarrow>
          (case persist (entries ch') of
             Err err \<Rightarrow> (ch'\<lparr>entries := butlast (entries ch')\<rparr>, Err (Persist err))
           | Ok _ \<Rightarrow> (ch', ok_or (vec_last (entries ch'))
                            (TransactionalAppendError.Ledger AppendInvariant))))"

definition Chain_append_transactional_chain ::
    "('sk, 'vk, 'ml) crypto \<Rightarrow> SystemTime \<Rightarrow> ConsentEventRecord \<Rightarrow>
     ('sk Chain \<Rightarrow> (unit, 'e) result) \<Rightarrow> 'sk Chain \<Rightarrow>
     'sk Chain \<times> (LedgerEntry, 'e TransactionalAppendError) result" where
  "Chain_append_transactional_chain c now ev persist ch =
     (case Chain_append c now ev ch of
        (ch', Err e) \<Rightarrow> (ch', Err (TransactionalAppendError.Ledger e))
      | (ch', Ok _) \<Rightarrow>
          (case persist ch' of
             Err err \<Rightarrow> (ch'\<lparr>entries := butlast (entries ch')\<rparr>, Err (Persist err))
           | Ok _ \<Rightarrow> (ch', ok_or (vec_last (entries ch'))
                            (TransactionalAppendError.Ledger AppendInvariant))))"

definition Chain_into_entries :: "'sk Chain \<Rightarrow> LedgerEntry list" where
  "Chain_into_entries ch = entries ch"

definition Chain_sign_checkpoint ::
    "('sk, 'vk, 'ml) crypto \<Rightarrow> u64 \<Rightarrow> 'sk Chain \<Rightarrow> LedgerCheckpoint" where
  "Chain_sign_checkpoint c ts ch =
     (let count = Chain_entry_count ch; head = Chain_last_hash ch;
          key = ed_key_to_bytes c (ed_verifying_key c (signing_key ch));
          message = checkpoint_message count head key ts
      in \<lparr>LedgerCheckpoint.schema = LEDGER_CHECKPOINT_SCHEMA, entry_count = count,
          head_hash = head, ledger_public_key = key, timestamp_unix_secs = ts,
          LedgerCheckpoint.signature = ed_sign c (signing_key ch) message\<rparr>)"

section \<open>Invariant and step relation\<close>

text \<open>
  \<open>anchored\<close>: the base fields repeat the base checkpoint. \<open>Chain_ok\<close>: the resident entries extend
  the base under the chain's own key and the sequence numbers have not wrapped.
\<close>

definition anchored :: "'sk Chain \<Rightarrow> bool" where
  "anchored ch \<longleftrightarrow>
     (case base_checkpoint ch of
        None \<Rightarrow> base_entry_count ch = 0 \<and> base_head_hash ch = zeroed
      | Some cp \<Rightarrow> base_entry_count ch = entry_count cp \<and> base_head_hash ch = head_hash cp)"

definition Chain_ok :: "('sk, 'vk, 'ml) crypto \<Rightarrow> 'sk Chain \<Rightarrow> bool" where
  "Chain_ok c ch \<longleftrightarrow> anchored ch \<and>
     unat (base_entry_count ch) + length (Chain.entries ch) \<le> 2 ^ 64 \<and>
     extension_walk c (ed_verifying_key c (Chain.signing_key ch)) (base_entry_count ch) 0
       (base_head_hash ch) (Chain.entries ch) = Ok ()"

text \<open>The abstract log: the events with their times, in order.\<close>

definition Chain_log :: "'sk Chain \<Rightarrow> (SystemTime \<times> ConsentEventRecord) list" where
  "Chain_log ch = map (\<lambda>e. (LedgerEntry.timestamp e, LedgerEntry.event e)) (Chain.entries ch)"

inductive chain_step :: "('sk, 'vk, 'ml) crypto \<Rightarrow> 'sk Chain \<Rightarrow> 'sk Chain \<Rightarrow> bool" for c where
  append: "vec_fits (Chain.entries ch) \<Longrightarrow> Chain_append c now ev ch = (ch', r) \<Longrightarrow>
    chain_step c ch ch'"
| append_transactional: "vec_fits (Chain.entries ch) \<Longrightarrow>
    Chain_append_transactional c now ev (persist :: _ \<Rightarrow> (unit, string) result) ch = (ch', r') \<Longrightarrow>
    chain_step c ch ch'"
| append_transactional_chain: "vec_fits (Chain.entries ch) \<Longrightarrow>
    Chain_append_transactional_chain c now ev (persist' :: _ \<Rightarrow> (unit, string) result) ch =
      (ch', r') \<Longrightarrow>
    chain_step c ch ch'"

section \<open>Appending\<close>

lemma last_hash_head_after:
  "Chain_last_hash ch = head_after LedgerEntry.entry_hash (base_head_hash ch) (Chain.entries ch)"
  by (simp add: Chain_last_hash_def head_after_def vec_last_conv)

text \<open>The entry an append adds.\<close>

definition next_entry ::
    "('sk, 'vk, 'ml) crypto \<Rightarrow> SystemTime \<Rightarrow> ConsentEventRecord \<Rightarrow> 'sk Chain \<Rightarrow> u8_32 \<Rightarrow> LedgerEntry"
where
  "next_entry c now ev ch h = \<lparr>
     LedgerEntry.seq = base_entry_count ch + of_nat (length (Chain.entries ch)),
     LedgerEntry.prev_hash = Chain_last_hash ch, LedgerEntry.timestamp = now,
     LedgerEntry.event = ev, LedgerEntry.entry_hash = h,
     LedgerEntry.signature = ed_sign c (Chain.signing_key ch) (slice h)\<rparr>"

lemma Chain_append_cases:
  obtains (overflow) "Chain_append c now ev ch = (ch, Err SequenceOverflow)"
      "2 ^ 64 \<le> unat (base_entry_count ch) + unat (of_nat (length (Chain.entries ch)) :: u64)"
    | (serialization) msg where "Chain_append c now ev ch = (ch, Err (Serialization msg))"
    | (appended) h where
      "Chain_append c now ev ch =
         (ch\<lparr>Chain.entries := Chain.entries ch @ [next_entry c now ev ch h]\<rparr>,
          Ok (next_entry c now ev ch h))"
      "unat (base_entry_count ch) + unat (of_nat (length (Chain.entries ch)) :: u64) < 2 ^ 64"
      "preimage_hash c (entry_preimage (next_entry c now ev ch h)) = Some h"
proof (cases "checked_add (base_entry_count ch) (of_nat (length (Chain.entries ch)))")
  case None
  have "2 ^ 64 \<le> unat (base_entry_count ch) + unat (of_nat (length (Chain.entries ch)) :: u64)"
    using None by (simp add: checked_add_eq_None)
  moreover have "Chain_append c now ev ch = (ch, Err SequenceOverflow)"
    using None by (simp add: Chain_append_def)
  ultimately show thesis by (intro overflow)
next
  case (Some sq)
  then have sq: "sq = base_entry_count ch + of_nat (length (Chain.entries ch))"
    and lt: "unat (base_entry_count ch) + unat (of_nat (length (Chain.entries ch)) :: u64) < 2 ^ 64"
    by (auto simp: checked_add_def split: if_splits)
  show thesis
  proof (cases "compute_entry_hash c sq (Chain_last_hash ch) now ev")
    case (Ok h)
    have "preimage_hash c (entry_preimage (next_entry c now ev ch h)) = Some h"
      using Ok sq by (simp add: compute_entry_hash_eq_Ok entry_preimage_def next_entry_def)
    with Ok Some sq lt show thesis
      by (intro appended [of h]) (simp_all add: Chain_append_def next_entry_def Let_def)
  next
    case (Err e)
    then obtain msg where "e = Serialization msg"
      by (auto simp: compute_entry_hash_def Let_def elim: map_err.elims and_then.elims)
    with Err Some show thesis
      by (intro serialization [of msg]) (simp add: Chain_append_def)
  qed
qed

lemma next_entry_extends:
  assumes "ed25519_correct c"
    and "preimage_hash c (entry_preimage (next_entry c now ev ch h)) = Some h"
    and "Chain_ok c ch"
  shows "extension_walk c (ed_verifying_key c (Chain.signing_key ch)) (base_entry_count ch) 0
    (base_head_hash ch) (Chain.entries ch @ [next_entry c now ev ch h]) = Ok ()"
  using assms
  by (simp add: ext_walk.walk_snoc verify_extension_entry_eq_Ok Chain_ok_def
      ed25519_correctD next_entry_def last_hash_head_after)

lemma Chain_append_effect:
  "fst (Chain_append c now ev ch) = ch \<or>
     (\<exists>h. fst (Chain_append c now ev ch) =
        ch\<lparr>Chain.entries := Chain.entries ch @ [next_entry c now ev ch h]\<rparr>)"
  by (cases rule: Chain_append_cases [of c now ev ch]) auto

lemma anchored_entries [simp]: "anchored (ch\<lparr>Chain.entries := es\<rparr>) \<longleftrightarrow> anchored ch"
  by (simp add: anchored_def cong: option.case_cong)

lemma Chain_append_ok:
  assumes "ed25519_correct c" and "Chain_ok c ch" and "vec_fits (Chain.entries ch)"
  shows "Chain_ok c (fst (Chain_append c now ev ch))"
proof (cases rule: Chain_append_cases [of c now ev ch])
  case (appended h)
  have "unat (of_nat (length (Chain.entries ch)) :: u64) = length (Chain.entries ch)"
    using assms(3) by (intro unat_of_nat_u64) (simp add: vec_fits_def)
  then show ?thesis
    using appended assms(2) next_entry_extends [OF assms(1) appended(3) assms(2)]
    by (simp add: Chain_ok_def)
qed (use assms(2) in simp_all)

text \<open>An append to a chain with room succeeds when the entry can be serialized.\<close>

lemma append_serialized:
  assumes "\<And>p. \<exists>b. bincode_serialize c p = Ok b" and "unat (base_entry_count ch) + length (Chain.entries ch) < 2 ^ 64"
  shows "\<exists>e. Chain_append c now ev ch = (ch\<lparr>Chain.entries := Chain.entries ch @ [e]\<rparr>, Ok e) \<and> LedgerEntry.event e = ev"
proof (cases rule: Chain_append_cases [of c now ev ch])
  case overflow
  then show ?thesis using assms(2) by simp
next
  case (serialization msg)
  obtain f where "\<And>p. bincode_serialize c p = Ok (f p)" using assms(1) by metis
  then have "compute_entry_hash c s p t e \<noteq> Err x" for s p t e x
    by (simp add: compute_entry_hash_def)
  then show ?thesis
    using serialization
    by (auto simp: Chain_append_def Let_def split: option.splits result.splits)
next
  case (appended h)
  then show ?thesis by (auto simp: next_entry_def)
qed

section \<open>The contract of an append operation\<close>

text \<open>A later state of a chain: same key, same base, the old entries an initial part of the new.\<close>

definition chain_extends :: "'sk Chain \<Rightarrow> 'sk Chain \<Rightarrow> bool" where
  "chain_extends ch ch' \<longleftrightarrow>
     base_entry_count ch' = base_entry_count ch \<and> base_head_hash ch' = base_head_hash ch \<and>
     base_checkpoint ch' = base_checkpoint ch \<and> Chain.signing_key ch' = Chain.signing_key ch \<and>
     prefix (Chain.entries ch) (Chain.entries ch')"

lemma chain_extends_refl [simp]: "chain_extends ch ch"
  by (simp add: chain_extends_def)

lemma chain_extends_trans [trans]:
  "chain_extends a b \<Longrightarrow> chain_extends b d \<Longrightarrow> chain_extends a d"
  by (auto simp: chain_extends_def)

text \<open>
  All three ways to append share one contract: an operation that reports an error leaves the
  chain exactly as it was, and one that reports an entry has done what \<open>append\<close> does. The locale
  derives from it that the abstract log grows by exactly the reported event, that the chain stays
  valid and that nothing already in it changes.
\<close>

locale append_operation =
  fixes run :: "'sk Chain \<Rightarrow> 'sk Chain \<times> (LedgerEntry, 'err) result"
    and c :: "('sk, 'vk, 'ml) crypto" and now :: SystemTime and ev :: ConsentEventRecord
  assumes run_Err: "run ch = (ch', Err err) \<Longrightarrow> ch' = ch"
    and run_Ok: "run ch = (ch', Ok e) \<Longrightarrow> Chain_append c now ev ch = (ch', Ok e)"
begin

lemma run_effect:
  obtains (failed) err where "run ch = (ch, Err err)"
    | (succeeded) ch' e where "run ch = (ch', Ok e)" "Chain_append c now ev ch = (ch', Ok e)"
  using run_Err run_Ok by (metis result.exhaust surj_pair)

lemma refines_log:
  "Chain_log (fst (run ch)) =
     (if is_ok (snd (run ch)) then Chain_log ch @ [(now, ev)] else Chain_log ch)"
proof (cases rule: run_effect [of ch])
  case (succeeded ch' e)
  then show ?thesis
    by (cases rule: Chain_append_cases [of c now ev ch])
      (auto simp: Chain_log_def next_entry_def)
qed simp

lemma reported_entry_is_last:
  "run ch = (ch', Ok e) \<Longrightarrow> Chain.entries ch' = Chain.entries ch @ [e]"
  using run_Ok [of ch ch' e] by (cases rule: Chain_append_cases [of c now ev ch]) auto

lemma run_extends: "chain_extends ch (fst (run ch))"
proof (cases rule: run_effect [of ch])
  case (succeeded ch' e)
  then show ?thesis
    by (cases rule: Chain_append_cases [of c now ev ch]) (auto simp: chain_extends_def)
qed simp

lemma run_ok:
  assumes "ed25519_correct c" and "Chain_ok c ch" and "vec_fits (Chain.entries ch)"
  shows "Chain_ok c (fst (run ch))"
proof (cases rule: run_effect [of ch])
  case (succeeded ch' e)
  then show ?thesis using Chain_append_ok [OF assms, of now ev] by simp
qed (use assms in simp)

end

interpretation append: append_operation "Chain_append c now ev" c now ev for c now ev
proof
  show "ch' = ch" if "Chain_append c now ev ch = (ch', Err err)" for ch ch' err
    using that by (cases rule: Chain_append_cases [of c now ev ch]) auto
qed simp

lemma Chain_append_Ok_last:
  assumes "Chain_append c now ev ch = (ch', Ok e)"
  shows "vec_last (Chain.entries ch') = Some e"
    and "ch'\<lparr>Chain.entries := butlast (Chain.entries ch')\<rparr> = ch"
  using assms by (cases rule: Chain_append_cases [of c now ev ch]; simp)+

interpretation transactional: append_operation "Chain_append_transactional c now ev persist" c now ev
  for c now ev and persist :: "LedgerEntry list \<Rightarrow> (unit, 'e) result"
  by unfold_locales
    (auto simp: Chain_append_transactional_def Chain_append_Ok_last append.run_Err
      split: prod.splits result.splits)

interpretation transactional_chain:
    append_operation "Chain_append_transactional_chain c now ev persist" c now ev
  for c now ev and persist :: "'sk Chain \<Rightarrow> (unit, 'e) result"
  by unfold_locales
    (auto simp: Chain_append_transactional_chain_def Chain_append_Ok_last append.run_Err
      split: prod.splits result.splits)

section \<open>Along every sequence of appends\<close>

lemma chain_step_extends: "chain_step c ch ch' \<Longrightarrow> chain_extends ch ch'"
  by (erule chain_step.cases; metis append.run_extends transactional.run_extends
      transactional_chain.run_extends fst_conv)

lemma chain_step_ok:
  assumes "chain_step c ch ch'" and "ed25519_correct c" and "Chain_ok c ch"
  shows "Chain_ok c ch'"
  using assms(1)
proof cases
  case (append now ev r)
  then show ?thesis using append.run_ok [OF assms(2,3), of now ev] by simp
next
  case (append_transactional now ev persist r')
  then show ?thesis using transactional.run_ok [OF assms(2,3), of now ev persist] by simp
next
  case (append_transactional_chain now ev persist' r')
  then show ?thesis using transactional_chain.run_ok [OF assms(2,3), of now ev persist'] by simp
qed

lemma chain_steps_extends: "(chain_step c)\<^sup>*\<^sup>* ch ch' \<Longrightarrow> chain_extends ch ch'"
  by (induction rule: rtranclp_induct) (auto dest: chain_step_extends chain_extends_trans)

lemma chain_steps_ok:
  assumes "(chain_step c)\<^sup>*\<^sup>* ch ch'" and "ed25519_correct c" and "Chain_ok c ch"
  shows "Chain_ok c ch'"
  using assms by (induction rule: rtranclp_induct) (auto dest: chain_step_ok)

lemma Chain_ok_new [simp]: "Chain_ok c (Chain_new sk)"
  by (simp add: Chain_ok_def anchored_def Chain_new_def)

lemma Chain_ok_verifies:
  assumes "Chain_ok c ch" and "base_checkpoint ch = None"
  shows "Verifier_verify_chain c (Chain_into_entries ch)
    (ed_verifying_key c (Chain.signing_key ch)) = Ok ()"
  using assms
  by (auto simp: Chain_ok_def anchored_def Chain_into_entries_def verify_chain_iff_extension_walk)

section \<open>Checkpoints\<close>

lemma sign_checkpoint_verifies:
  assumes "ed25519_correct c" and "ed25519_key_codec c"
  shows "Verifier_verify_checkpoint c (Chain_sign_checkpoint c ts ch) = Ok ()"
  using ed25519_correctD [OF assms(1)] ed25519_key_codecD(1) [OF assms(2)]
  by (simp add: Chain_sign_checkpoint_def Let_def verify_checkpoint_eq_Ok)

lemma sign_checkpoint_simps [simp]:
  "entry_count (Chain_sign_checkpoint c ts ch) = Chain_entry_count ch"
  "head_hash (Chain_sign_checkpoint c ts ch) = Chain_last_hash ch"
  "ledger_public_key (Chain_sign_checkpoint c ts ch) =
     ed_key_to_bytes c (ed_verifying_key c (Chain.signing_key ch))"
  "timestamp_unix_secs (Chain_sign_checkpoint c ts ch) = ts"
  by (simp_all add: Chain_sign_checkpoint_def Let_def)

text \<open>Below the end of the sequence space the reported count is the exact count.\<close>

lemma unat_entry_count:
  assumes "unat (base_entry_count ch) + length (Chain.entries ch) < 2 ^ 64"
  shows "unat (Chain_entry_count ch) = unat (base_entry_count ch) + length (Chain.entries ch)"
  using assms by (simp add: Chain_entry_count_def unat_saturating_add)

lemma entry_count_word:
  assumes "unat (base_entry_count ch) + length (Chain.entries ch) < 2 ^ 64"
  shows "Chain_entry_count ch = base_entry_count ch + of_nat (length (Chain.entries ch))"
  using assms by (simp add: Chain_entry_count_def saturating_add_def)

lemma chain_extends_extension:
  assumes ext: "chain_extends ch ch'" and ok: "Chain_ok c ch'"
    and lt: "unat (base_entry_count ch') + length (Chain.entries ch') < 2 ^ 64"
  defines "rest \<equiv> drop (length (Chain.entries ch)) (Chain.entries ch')"
  shows "extension_walk c (ed_verifying_key c (Chain.signing_key ch')) (Chain_entry_count ch) 0
      (Chain_last_hash ch) rest = Ok ()"
    and "Chain_last_hash ch' = head_after LedgerEntry.entry_hash (Chain_last_hash ch) rest"
    and "of_nat (length rest) = Chain_entry_count ch' - Chain_entry_count ch"
    and "Chain_entry_count ch \<le> Chain_entry_count ch'"
proof -
  have es: "Chain.entries ch' = Chain.entries ch @ rest"
    using ext by (auto simp: chain_extends_def rest_def prefix_def)
  have base: "base_entry_count ch' = base_entry_count ch" "base_head_hash ch' = base_head_hash ch"
    using ext by (simp_all add: chain_extends_def)
  have lt': "unat (base_entry_count ch) + length (Chain.entries ch) < 2 ^ 64"
    using lt es base by simp
  note counts = entry_count_word [OF lt] entry_count_word [OF lt']
  show "extension_walk c (ed_verifying_key c (Chain.signing_key ch')) (Chain_entry_count ch) 0
      (Chain_last_hash ch) rest = Ok ()"
    using ok es base counts
    by (simp add: Chain_ok_def extension_walk_append last_hash_head_after)
  show "Chain_last_hash ch' = head_after LedgerEntry.entry_hash (Chain_last_hash ch) rest"
    using es base by (simp add: last_hash_head_after head_after_simps(4))
  show "of_nat (length rest) = Chain_entry_count ch' - Chain_entry_count ch"
    using counts es base by simp
  show "Chain_entry_count ch \<le> Chain_entry_count ch'"
    using unat_entry_count [OF lt] unat_entry_count [OF lt'] es base
    by (simp add: word_le_nat_alt)
qed

lemma signed_checkpoint_extension:
  assumes "chain_extends ch ch'" and "Chain_ok c ch'"
    and "unat (base_entry_count ch') + length (Chain.entries ch') < 2 ^ 64"
    and "ed25519_correct c" and "ed25519_key_codec c" and "t \<le> t'"
  shows "Verifier_verify_checkpoint_extension c (Chain_sign_checkpoint c t ch)
    (Chain_sign_checkpoint c t' ch') (drop (length (Chain.entries ch)) (Chain.entries ch')) = Ok ()"
proof -
  have key: "Chain.signing_key ch' = Chain.signing_key ch"
    using assms(1) by (simp add: chain_extends_def)
  note ext = chain_extends_extension [OF assms(1-3)]
  have "Chain_last_hash ch = Chain_last_hash ch'" if "Chain_entry_count ch = Chain_entry_count ch'"
  proof -
    have "unat (of_nat (length (Chain.entries ch') - length (Chain.entries ch)) :: u64) = 0"
      using ext(3) that by simp
    then have "drop (length (Chain.entries ch)) (Chain.entries ch') = []"
      using assms(3) by simp
    then show ?thesis using ext(2) by (simp add: head_after_simps)
  qed
  then have "Verifier_verify_checkpoint_monotonic c (Chain_sign_checkpoint c t ch)
      (Chain_sign_checkpoint c t' ch') = Ok ()"
    using sign_checkpoint_verifies [OF assms(4,5)] ext(4) assms(6) key
    by (simp add: verify_checkpoint_monotonic_eq_Ok)
  then show ?thesis
    unfolding verify_checkpoint_extension_eq_Ok
    using ext(1-3) ed25519_key_codecD(1) [OF assms(5)] by simp
qed

lemma signed_checkpoint_prefix:
  assumes "chain_extends ch ch'" and "Chain_ok c ch'" and "base_checkpoint ch' = None"
    and "length (Chain.entries ch') < 2 ^ 64"
    and "ed25519_correct c" and "ed25519_key_codec c"
  shows "Verifier_verify_checkpoint_prefix c (Chain_sign_checkpoint c t ch) (Chain.entries ch')
    (ed_verifying_key c (Chain.signing_key ch')) = Ok ()"
proof -
  have base: "base_entry_count ch = 0" "base_head_hash ch = zeroed"
    and key: "Chain.signing_key ch' = Chain.signing_key ch"
    using assms(1-3) by (auto simp: chain_extends_def Chain_ok_def anchored_def)
  obtain es where es: "Chain.entries ch' = Chain.entries ch @ es"
    using assms(1) by (auto simp: chain_extends_def prefix_def)
  then have len: "length (Chain.entries ch) < 2 ^ 64"
    using assms(4) by simp
  then have count: "Chain_entry_count ch = of_nat (length (Chain.entries ch))"
    using base entry_count_word [of ch] by simp
  have "Chain_entry_count ch \<le> of_nat (length (Chain.entries ch'))"
    using assms(4) es len count by (simp add: word_le_nat_alt del: of_nat_add)
  moreover have "Chain_last_hash ch =
      chain_head (take (unat (Chain_entry_count ch)) (Chain.entries ch'))"
    using es len count base by (simp add: last_hash_head_after)
  ultimately show ?thesis
    using sign_checkpoint_verifies [OF assms(5,6)] Chain_ok_verifies [OF assms(2,3)] key
    by (simp add: verify_checkpoint_prefix_eq_Ok Chain_into_entries_def)
qed

section \<open>Properties\<close>

text \<open>
  C2. Every chain that any sequence of appends (plain, or transactional with any persistence
  outcome) makes from a new chain passes the verifier under the chain's own public key.
\<close>

theorem reachable_chain_verifies:
  assumes "(chain_step c)\<^sup>*\<^sup>* (Chain_new sk) ch" and "ed25519_correct c"
  shows "Verifier_verify_chain c (Chain_into_entries ch) (ed_verifying_key c sk) = Ok ()"
proof -
  have "Chain_ok c ch"
    using chain_steps_ok [OF assms] by simp
  moreover have "base_checkpoint ch = None" and "Chain.signing_key ch = sk"
    using chain_steps_extends [OF assms(1)] by (simp_all add: chain_extends_def Chain_new_def)
  ultimately show ?thesis
    using Chain_ok_verifies [of c ch] by simp
qed

definition demo_time :: SystemTime where
  "demo_time = \<lparr>secs_since_epoch = 1700000000, nanos_since_epoch = 0\<rparr>"

definition demo_event :: "ConsentKind \<Rightarrow> ConsentEventRecord" where
  "demo_event k = \<lparr>source_id = filled 1, session_id = filled 2, request_id = filled 3,
     kind = k, scope = ''view''\<rparr>"

definition demo_chain1 :: "u8_32 Chain" where
  "demo_chain1 = fst (Chain_append demo_crypto demo_time (demo_event Request) (Chain_new (filled 9)))"

definition demo_chain2 :: "u8_32 Chain" where
  "demo_chain2 = fst (Chain_append demo_crypto demo_time (demo_event Approval) demo_chain1)"

lemma demo_append_Ok:
  assumes "unat (base_entry_count ch) + length (Chain.entries ch) < 2 ^ 64"
  shows "\<exists>e. snd (Chain_append demo_crypto now ev ch) = Ok e"
proof (cases rule: Chain_append_cases [of demo_crypto now ev ch])
  case overflow
  then show ?thesis using assms by simp
next
  case (serialization msg)
  have "compute_entry_hash demo_crypto s p t e \<noteq> Err x" for s p t e x
    by (simp add: compute_entry_hash_def)
  then show ?thesis
    using serialization
    by (auto simp: Chain_append_def Let_def split: option.splits result.splits)
qed simp

lemma demo_chain_steps:
  "length (Chain.entries demo_chain1) = 1"
  "length (Chain.entries demo_chain2) = 2"
  "chain_step demo_crypto (Chain_new (filled 9)) demo_chain1"
  "chain_step demo_crypto demo_chain1 demo_chain2"
  "Chain_log demo_chain2 = [(demo_time, demo_event Request), (demo_time, demo_event Approval)]"
proof -
  obtain e1 where 1: "Chain_append demo_crypto demo_time (demo_event Request) (Chain_new (filled 9))
      = (demo_chain1, Ok e1)"
    using demo_append_Ok [of "Chain_new (filled 9)"]
    by (auto simp: demo_chain1_def Chain_new_def prod_eq_iff)
  then have es1: "Chain.entries demo_chain1 = [e1]"
    using append.reported_entry_is_last [OF 1] by (simp add: Chain_new_def)
  have "chain_extends (Chain_new (filled 9)) demo_chain1"
    using append.run_extends [of "Chain_new (filled 9)" demo_crypto demo_time "demo_event Request"] 1
    by simp
  then have "base_entry_count demo_chain1 = 0"
    by (simp add: chain_extends_def Chain_new_def)
  then obtain e2 where 2: "Chain_append demo_crypto demo_time (demo_event Approval) demo_chain1
      = (demo_chain2, Ok e2)"
    using demo_append_Ok [of demo_chain1] es1 by (auto simp: demo_chain2_def prod_eq_iff)
  then have es2: "Chain.entries demo_chain2 = [e1, e2]"
    using append.reported_entry_is_last [OF 2] es1 by simp
  show "length (Chain.entries demo_chain1) = 1" "length (Chain.entries demo_chain2) = 2"
    using es1 es2 by simp_all
  show "Chain_log demo_chain2 = [(demo_time, demo_event Request), (demo_time, demo_event Approval)]"
    using append.refines_log [of demo_crypto demo_time "demo_event Request" "Chain_new (filled 9)"]
      append.refines_log [of demo_crypto demo_time "demo_event Approval" demo_chain1] 1 2
    by (simp add: Chain_log_def Chain_new_def)
  show "chain_step demo_crypto (Chain_new (filled 9)) demo_chain1"
    by (rule chain_step.append [OF _ 1]) (simp add: vec_fits_def Chain_new_def)
  show "chain_step demo_crypto demo_chain1 demo_chain2"
    by (rule chain_step.append [OF _ 2]) (simp add: vec_fits_def es1)
qed

lemma demo_chain_reachable: "(chain_step demo_crypto)\<^sup>*\<^sup>* (Chain_new (filled 9)) demo_chain2"
  using demo_chain_steps(3,4) by (meson rtranclp.simps)

lemma demo_chain2_ok:
  "Chain_ok demo_crypto demo_chain2" "base_checkpoint demo_chain2 = None"
  "Chain.signing_key demo_chain2 = filled 9" "base_entry_count demo_chain2 = 0"
  using chain_steps_ok [OF demo_chain_reachable] chain_steps_extends [OF demo_chain_reachable]
  by (simp_all, simp_all add: chain_extends_def Chain_new_def)

lemma demo_chain2_verifies:
  "Verifier_verify_chain demo_crypto (Chain_into_entries demo_chain2) (filled 9) = Ok ()"
  using Chain_ok_verifies [OF demo_chain2_ok(1,2)] by (simp add: demo_chain2_ok)

theorem reachable_chain_verifies_witness:
  "length (Chain_into_entries demo_chain2) = 2 \<and>
   Verifier_verify_chain demo_crypto (Chain_into_entries demo_chain2) (filled 9) = Ok ()"
  using reachable_chain_verifies [OF demo_chain_reachable] demo_chain_steps(2)
  by (simp add: Chain_into_entries_def)

text \<open>
  Checkpoints a chain signs stay provable: whatever is appended between two of them, the later
  chain contains the earlier checkpoint as an exact prefix, and the entries in between prove that
  the later checkpoint extends the earlier one.
\<close>

theorem chain_checkpoints_provable:
  assumes "(chain_step c)\<^sup>*\<^sup>* (Chain_new sk) ch" and "(chain_step c)\<^sup>*\<^sup>* ch ch'"
    and "length (Chain_into_entries ch') < 2 ^ 64"
    and "ed25519_correct c" and "ed25519_key_codec c" and "t \<le> t'"
  shows "Verifier_verify_checkpoint_prefix c (Chain_sign_checkpoint c t ch) (Chain_into_entries ch')
      (ed_verifying_key c sk) = Ok () \<and>
    Verifier_verify_checkpoint_extension c (Chain_sign_checkpoint c t ch)
      (Chain_sign_checkpoint c t' ch')
      (drop (length (Chain_into_entries ch)) (Chain_into_entries ch')) = Ok ()"
proof -
  have all: "(chain_step c)\<^sup>*\<^sup>* (Chain_new sk) ch'"
    using assms(1,2) by (rule rtranclp_trans)
  have ok: "Chain_ok c ch'"
    using chain_steps_ok [OF all assms(4)] by simp
  have base: "base_checkpoint ch' = None" "base_entry_count ch' = 0" "Chain.signing_key ch' = sk"
    using chain_steps_extends [OF all] by (simp_all add: chain_extends_def Chain_new_def)
  show ?thesis
    using signed_checkpoint_prefix [OF chain_steps_extends [OF assms(2)] ok base(1) _ assms(4,5)]
      signed_checkpoint_extension [OF chain_steps_extends [OF assms(2)] ok _ assms(4-6)]
      assms(3) base
    by (simp add: Chain_into_entries_def)
qed

theorem chain_checkpoints_provable_witness:
  "Verifier_verify_checkpoint_prefix demo_crypto (Chain_sign_checkpoint demo_crypto 5 demo_chain1)
      (Chain_into_entries demo_chain2) (filled 9) = Ok () \<and>
   Verifier_verify_checkpoint_extension demo_crypto (Chain_sign_checkpoint demo_crypto 5 demo_chain1)
      (Chain_sign_checkpoint demo_crypto 6 demo_chain2)
      (drop (length (Chain_into_entries demo_chain1)) (Chain_into_entries demo_chain2)) = Ok ()"
  using chain_checkpoints_provable [of demo_crypto "filled 9" demo_chain1 demo_chain2 5 6]
    demo_chain_steps
  by (simp add: Chain_into_entries_def r_into_rtranclp [of "chain_step demo_crypto"])

text \<open>
  A transactional append is atomic. When it reports an entry, the caller's persistence closure
  has accepted exactly the state the chain now has, and the abstract log has grown by exactly
  this event. When it reports an error, from the ledger or from the closure, the chain is
  unchanged. This holds of the closure over resident entries and of the one over the whole chain.
\<close>

theorem transactional_append_atomic:
  "(case Chain_append_transactional c now ev persist ch of
      (ch', Ok e) \<Rightarrow> persist (Chain_into_entries ch') = Ok () \<and>
        Chain_into_entries ch' = Chain_into_entries ch @ [e] \<and>
        Chain_log ch' = Chain_log ch @ [(now, ev)]
    | (ch', Err e) \<Rightarrow> ch' = ch) \<and>
   (case Chain_append_transactional_chain c now ev persist_chain ch of
      (ch', Ok e) \<Rightarrow> persist_chain ch' = Ok () \<and>
        Chain_into_entries ch' = Chain_into_entries ch @ [e] \<and>
        Chain_log ch' = Chain_log ch @ [(now, ev)]
    | (ch', Err e) \<Rightarrow> ch' = ch)"
proof
  obtain ch1 r1 where 1: "Chain_append_transactional c now ev persist ch = (ch1, r1)"
    by fastforce
  have "persist (Chain.entries ch1) = Ok ()" if "r1 = Ok e" for e
    using 1 that by (auto simp: Chain_append_transactional_def split: prod.splits result.splits)
  with 1 show "case Chain_append_transactional c now ev persist ch of
      (ch', Ok e) \<Rightarrow> persist (Chain_into_entries ch') = Ok () \<and>
        Chain_into_entries ch' = Chain_into_entries ch @ [e] \<and>
        Chain_log ch' = Chain_log ch @ [(now, ev)]
    | (ch', Err e) \<Rightarrow> ch' = ch"
    using transactional.refines_log [of c now ev persist ch]
    by (auto simp: Chain_into_entries_def transactional.reported_entry_is_last
        transactional.run_Err split: result.splits)
  obtain ch2 r2 where 2: "Chain_append_transactional_chain c now ev persist_chain ch = (ch2, r2)"
    by fastforce
  have "persist_chain ch2 = Ok ()" if "r2 = Ok e" for e
    using 2 that by (auto simp: Chain_append_transactional_chain_def split: prod.splits result.splits)
  with 2 show "case Chain_append_transactional_chain c now ev persist_chain ch of
      (ch', Ok e) \<Rightarrow> persist_chain ch' = Ok () \<and>
        Chain_into_entries ch' = Chain_into_entries ch @ [e] \<and>
        Chain_log ch' = Chain_log ch @ [(now, ev)]
    | (ch', Err e) \<Rightarrow> ch' = ch"
    using transactional_chain.refines_log [of c now ev persist_chain ch]
    by (auto simp: Chain_into_entries_def transactional_chain.reported_entry_is_last
        transactional_chain.run_Err split: result.splits)
qed

end
