(* ===== verification/Ledger_MlDsa_Chain.thy ===== *)
theory Ledger_MlDsa_Chain
  imports Ledger_Chain
begin

text \<open>
  The ML-DSA evidence chain of \<open>crates/xenia-ledger/src/entry.rs\<close>, which produces only exported
  entries, and that what it produces passes the exported-chain verifier with its backend.
\<close>

section \<open>The ML-DSA evidence chain\<close>

text \<open>The type parameter \<open>P: MlDsaParams\<close> of the Rust struct is the field \<open>params\<close>.\<close>

record 'ml MlDsaEvidenceChain =
  entries :: "LedgerEntryExport list"
  signing_key :: 'ml
  suite :: SignatureSuite
  params :: MlDsaParams

definition new_ml_dsa_65_evidence_chain :: "'ml \<Rightarrow> 'ml MlDsaEvidenceChain" where
  "new_ml_dsa_65_evidence_chain sk = \<lparr>MlDsaEvidenceChain.entries = [],
     MlDsaEvidenceChain.signing_key = sk, MlDsaEvidenceChain.suite = MlDsa65Fips204, params = MlDsa65\<rparr>"

definition new_ml_dsa_87_evidence_chain :: "'ml \<Rightarrow> 'ml MlDsaEvidenceChain" where
  "new_ml_dsa_87_evidence_chain sk = \<lparr>MlDsaEvidenceChain.entries = [],
     MlDsaEvidenceChain.signing_key = sk, MlDsaEvidenceChain.suite = MlDsa87Fips204, params = MlDsa87\<rparr>"

definition MlDsaEvidenceChain_len :: "'ml MlDsaEvidenceChain \<Rightarrow> nat" where
  "MlDsaEvidenceChain_len ch = length (MlDsaEvidenceChain.entries ch)"

definition MlDsaEvidenceChain_is_empty :: "'ml MlDsaEvidenceChain \<Rightarrow> bool" where
  "MlDsaEvidenceChain_is_empty ch \<longleftrightarrow> MlDsaEvidenceChain.entries ch = []"

definition MlDsaEvidenceChain_last_hash :: "'ml MlDsaEvidenceChain \<Rightarrow> u8_32" where
  "MlDsaEvidenceChain_last_hash ch =
     (case vec_last (MlDsaEvidenceChain.entries ch) of
        Some e \<Rightarrow> LedgerEntryExport.entry_hash e | None \<Rightarrow> zeroed)"

definition MlDsaEvidenceChain_public_key_bytes ::
    "('sk, 'vk, 'ml) crypto \<Rightarrow> 'ml MlDsaEvidenceChain \<Rightarrow> bytes" where
  "MlDsaEvidenceChain_public_key_bytes c ch =
     ml_verifying_key c (params ch) (MlDsaEvidenceChain.signing_key ch)"

definition MlDsaEvidenceChain_export_entries :: "'ml MlDsaEvidenceChain \<Rightarrow> LedgerEntryExport list" where
  "MlDsaEvidenceChain_export_entries ch = MlDsaEvidenceChain.entries ch"

definition MlDsaEvidenceChain_append ::
    "('sk, 'vk, 'ml) crypto \<Rightarrow> SystemTime \<Rightarrow> ConsentEventRecord \<Rightarrow> 'ml MlDsaEvidenceChain \<Rightarrow>
     'ml MlDsaEvidenceChain \<times> (LedgerEntryExport, LedgerError) result" where
  "MlDsaEvidenceChain_append c now ev ch =
     (let entry_index = length (MlDsaEvidenceChain.entries ch);
          sq = of_nat entry_index; prev = MlDsaEvidenceChain_last_hash ch
      in case compute_entry_hash c sq prev now ev of
           Err e \<Rightarrow> (ch, Err e)
         | Ok h \<Rightarrow>
             (let sig = ml_sign c (params ch) (MlDsaEvidenceChain.signing_key ch) (slice h);
                  ch' = ch\<lparr>MlDsaEvidenceChain.entries := MlDsaEvidenceChain.entries ch @ [\<lparr>
                    LedgerEntryExport.seq = sq, LedgerEntryExport.prev_hash = prev,
                    LedgerEntryExport.timestamp = now, LedgerEntryExport.event = ev,
                    LedgerEntryExport.entry_hash = h,
                    LedgerEntryExport.signature =
                      SignatureEnvelope_new (MlDsaEvidenceChain.suite ch) sig\<rparr>]\<rparr>
              in (ch', ok_or (vec_get (MlDsaEvidenceChain.entries ch') entry_index) AppendInvariant)))"

section \<open>Its entries verify\<close>

text \<open>The backend of a parameter set.\<close>

fun ml_backend :: "('sk, 'vk, 'ml) crypto \<Rightarrow> MlDsaParams \<Rightarrow> EvidenceSignatureBackend" where
  "ml_backend c MlDsa65 = MlDsa65EvidenceSignatureBackend c"
| "ml_backend c MlDsa87 = MlDsa87EvidenceSignatureBackend c"

definition ml_chain_ok :: "('sk, 'vk, 'ml) crypto \<Rightarrow> 'ml MlDsaEvidenceChain \<Rightarrow> bool" where
  "ml_chain_ok c ch \<longleftrightarrow>
     MlDsaEvidenceChain.suite ch = EvidenceSignatureBackend.suite (ml_backend c (params ch)) \<and>
     verify_exported_loop c (MlDsaEvidenceChain_public_key_bytes c ch) (ml_backend c (params ch)) 0
       zeroed (MlDsaEvidenceChain.entries ch) = Ok ()"

inductive ml_chain_step ::
    "('sk, 'vk, 'ml) crypto \<Rightarrow> 'ml MlDsaEvidenceChain \<Rightarrow> 'ml MlDsaEvidenceChain \<Rightarrow> bool" for c where
  "vec_fits (MlDsaEvidenceChain.entries ch) \<Longrightarrow>
   MlDsaEvidenceChain_append c now ev ch = (ch', r) \<Longrightarrow> ml_chain_step c ch ch'"

lemma ml_last_hash_head_after:
  "MlDsaEvidenceChain_last_hash ch =
     head_after LedgerEntryExport.entry_hash zeroed (MlDsaEvidenceChain.entries ch)"
  by (simp add: MlDsaEvidenceChain_last_hash_def head_after_def vec_last_conv)

lemma ml_backend_accepts:
  assumes "ml_dsa_correct c P"
  shows "verify_signature (ml_backend c P) (ml_verifying_key c P sk) m (ml_sign c P sk m) = Ok ()"
    and "SignatureEnvelope_validate_shape
      (SignatureEnvelope_new (EvidenceSignatureBackend.suite (ml_backend c P)) (ml_sign c P sk m)) =
      Ok (EvidenceSignatureBackend.suite (ml_backend c P))"
  using assms
  by (cases P; auto simp: ml_dsa_correct_def verify_ml_dsa_eq_Ok validate_shape_eq_Ok
      SignatureEnvelope_new_def)+

lemma ml_append_keeps:
  assumes "MlDsaEvidenceChain_append c now ev ch = (ch', r)"
  shows "params ch' = params ch" "MlDsaEvidenceChain.suite ch' = MlDsaEvidenceChain.suite ch"
    "MlDsaEvidenceChain_public_key_bytes c ch' = MlDsaEvidenceChain_public_key_bytes c ch"
  using assms
  by (auto simp: MlDsaEvidenceChain_append_def MlDsaEvidenceChain_public_key_bytes_def Let_def
      split: result.splits)

lemma of_nat_fits_eq_0:
  "vec_fits xs \<Longrightarrow> (of_nat (length xs) :: u64) = 0 \<longleftrightarrow> xs = []"
  using of_nat_u64_eq_iff [of "length xs" 0] by (auto simp: vec_fits_def)

lemma ml_append_ok:
  assumes app: "MlDsaEvidenceChain_append c now ev ch = (ch', r)" and ok: "ml_chain_ok c ch"
    and fits: "vec_fits (MlDsaEvidenceChain.entries ch)" and ml: "ml_dsa_correct c (params ch)"
  shows "ml_chain_ok c ch'"
proof (cases "compute_entry_hash c (of_nat (length (MlDsaEvidenceChain.entries ch)))
    (MlDsaEvidenceChain_last_hash ch) now ev")
  case (Err e)
  then show ?thesis using app ok by (simp add: MlDsaEvidenceChain_append_def Let_def)
next
  case (Ok h)
  let ?e = "\<lparr>LedgerEntryExport.seq = of_nat (length (MlDsaEvidenceChain.entries ch)),
    LedgerEntryExport.prev_hash = MlDsaEvidenceChain_last_hash ch,
    LedgerEntryExport.timestamp = now, LedgerEntryExport.event = ev,
    LedgerEntryExport.entry_hash = h,
    LedgerEntryExport.signature = SignatureEnvelope_new (MlDsaEvidenceChain.suite ch)
      (ml_sign c (params ch) (MlDsaEvidenceChain.signing_key ch) (slice h))\<rparr>"
  have es: "MlDsaEvidenceChain.entries ch' = MlDsaEvidenceChain.entries ch @ [?e]"
    using Ok app by (auto simp: MlDsaEvidenceChain_append_def Let_def)
  have "verify_exported_entry c (MlDsaEvidenceChain_public_key_bytes c ch) (ml_backend c (params ch))
      (length (MlDsaEvidenceChain.entries ch))
      (head_after LedgerEntryExport.entry_hash zeroed (MlDsaEvidenceChain.entries ch)) ?e = Ok ()"
    using Ok ok fits ml_backend_accepts [OF ml]
    by (auto simp: verify_exported_entry_eq_Ok compute_entry_hash_eq_Ok export_preimage_def
        ml_chain_ok_def ml_last_hash_head_after of_nat_fits_eq_0 head_after_simps
        MlDsaEvidenceChain_public_key_bytes_def SignatureEnvelope_new_def)
  then show ?thesis
    using ok ml_append_keeps [OF app]
    by (simp add: ml_chain_ok_def es export_walk.walk_snoc)
qed

lemma ml_steps_ok:
  assumes "(ml_chain_step c)\<^sup>*\<^sup>* ch ch'" and "ml_chain_ok c ch" and "ml_dsa_correct c (params ch)"
  shows "ml_chain_ok c ch' \<and> params ch' = params ch \<and>
    MlDsaEvidenceChain_public_key_bytes c ch' = MlDsaEvidenceChain_public_key_bytes c ch"
  using assms
proof (induction rule: rtranclp_induct)
  case (step y z)
  then show ?case
    by (auto elim!: ml_chain_step.cases dest: ml_append_ok ml_append_keeps)
qed simp

section \<open>Properties\<close>

text \<open>
  C28. Whatever events are appended to a new ML-DSA-65 or ML-DSA-87 evidence chain, its exported
  entries pass the exported-chain verifier with the backend of that suite and the chain's public
  key.
\<close>

theorem reachable_ml_dsa_chain_verifies:
  assumes "(ml_chain_step c)\<^sup>*\<^sup>* ch ch'"
    and "ch = new_ml_dsa_65_evidence_chain sk \<and> b = MlDsa65EvidenceSignatureBackend c \<or>
      ch = new_ml_dsa_87_evidence_chain sk \<and> b = MlDsa87EvidenceSignatureBackend c"
    and "ml_dsa_correct c MlDsa65" and "ml_dsa_correct c MlDsa87"
  shows "Verifier_verify_exported_chain_with_backend c (MlDsaEvidenceChain_export_entries ch')
      (MlDsaEvidenceChain_public_key_bytes c ch') b = Ok ()"
proof -
  have "ml_chain_ok c ch" and "ml_dsa_correct c (params ch)" and b: "b = ml_backend c (params ch)"
    using assms(2-4)
    by (auto simp: ml_chain_ok_def new_ml_dsa_65_evidence_chain_def new_ml_dsa_87_evidence_chain_def)
  from ml_steps_ok [OF assms(1) this(1,2)] have "ml_chain_ok c ch'" and "params ch' = params ch"
    by simp_all
  then show ?thesis
    using b by (simp add: ml_chain_ok_def Verifier_verify_exported_chain_with_backend_def
        MlDsaEvidenceChain_export_entries_def)
qed

definition demo_ml_chain :: "bytes MlDsaEvidenceChain" where
  "demo_ml_chain = fst (MlDsaEvidenceChain_append demo_crypto demo_time (demo_event Approval)
     (new_ml_dsa_65_evidence_chain []))"

lemma demo_ml_chain_step:
  "ml_chain_step demo_crypto (new_ml_dsa_65_evidence_chain []) demo_ml_chain"
  by (rule ml_chain_step.intros [of _ _ demo_time "demo_event Approval"])
    (auto simp: demo_ml_chain_def vec_fits_def new_ml_dsa_65_evidence_chain_def prod_eq_iff)

theorem reachable_ml_dsa_chain_verifies_witness:
  "MlDsaEvidenceChain_len demo_ml_chain = 1 \<and>
   Verifier_verify_exported_chain_with_backend demo_crypto
     (MlDsaEvidenceChain_export_entries demo_ml_chain)
     (MlDsaEvidenceChain_public_key_bytes demo_crypto demo_ml_chain)
     (MlDsa65EvidenceSignatureBackend demo_crypto) = Ok ()"
proof
  show "MlDsaEvidenceChain_len demo_ml_chain = 1"
    by (simp add: demo_ml_chain_def MlDsaEvidenceChain_len_def MlDsaEvidenceChain_append_def Let_def
        compute_entry_hash_def new_ml_dsa_65_evidence_chain_def)
  show "Verifier_verify_exported_chain_with_backend demo_crypto
     (MlDsaEvidenceChain_export_entries demo_ml_chain)
     (MlDsaEvidenceChain_public_key_bytes demo_crypto demo_ml_chain)
     (MlDsa65EvidenceSignatureBackend demo_crypto) = Ok ()"
    by (rule reachable_ml_dsa_chain_verifies [where sk = "[]",
          OF r_into_rtranclp [of "ml_chain_step demo_crypto", OF demo_ml_chain_step]]) simp_all
qed

lemma demo_ml_chain_verifies:
  "verify_exported_loop demo_crypto (MlDsaEvidenceChain_public_key_bytes demo_crypto demo_ml_chain)
     (MlDsa65EvidenceSignatureBackend demo_crypto) 0 zeroed
     (MlDsaEvidenceChain_export_entries demo_ml_chain) = Ok ()"
proof -
  have "ml_chain_ok demo_crypto (new_ml_dsa_65_evidence_chain [])"
    and "params (new_ml_dsa_65_evidence_chain ([] :: bytes)) = MlDsa65"
    by (simp_all add: ml_chain_ok_def new_ml_dsa_65_evidence_chain_def)
  then show ?thesis
    using ml_steps_ok [OF r_into_rtranclp [of "ml_chain_step demo_crypto", OF demo_ml_chain_step]]
    by (auto simp: ml_chain_ok_def MlDsaEvidenceChain_export_entries_def)
qed

end
