(* ===== verification/Ledger_Evidence.thy ===== *)
theory Ledger_Evidence
  imports Ledger_Seal Ledger_MlDsa_Chain
begin

text \<open>
  The evidence-bundle verifiers of \<open>crates/xenia-ledger/src/verify.rs\<close>, from the plain bundle
  (manifest and exported entries) to the sealed, signed, transcript-bound one.
\<close>

datatype EvidenceBundleVerifyError =
    ManifestPolicy EvidencePolicyError
  | TranscriptBinding TranscriptBindingError
  | MissingTranscriptSignatureInFullPqc
  | TranscriptSignature TranscriptSignatureError
  | TranscriptBackendSuiteMismatch SignatureSuite SignatureSuite
  | TranscriptSignatureBackend SignatureSuite EvidenceSignatureBackendError
  | BundleSeal EvidenceBundleSealError
  | BundleSealSignatureBackend SignatureSuite EvidenceSignatureBackendError
  | PublicKeyBinding EvidencePublicKeyBindingError
  | EmptyTranscriptBoundBundle
  | TranscriptSessionMismatch u64 Uuid Uuid
  | ExportedChain VerifyError
  | LedgerBackendSuiteMismatch SignatureSuite SignatureSuite
  | LedgerSignatureSuiteMismatch u64 SignatureSuite SignatureSuite

definition Verifier_evidence_profile :: LedgerEvidenceProfile where
  "Verifier_evidence_profile = CURRENT_LEDGER_EVIDENCE_PROFILE"

definition Verifier_evidence_crypto_manifest :: EvidenceCryptoManifest where
  "Verifier_evidence_crypto_manifest = CURRENT_EVIDENCE_CRYPTO_MANIFEST"

definition Verifier_verify_evidence_crypto_manifest ::
    "EvidenceCryptoManifest \<Rightarrow> (unit, EvidencePolicyError) result" where
  "Verifier_verify_evidence_crypto_manifest manifest =
     EvidenceCryptoManifest_validate_against_policy manifest"

definition entry_signature_suite ::
    "LedgerEntryExport \<Rightarrow> (SignatureSuite, EvidenceBundleVerifyError) result" where
  "entry_signature_suite e =
     map_err (\<lambda>err. ExportedChain
         (signature_envelope_error_to_verify_error (LedgerEntryExport.seq e) err))
       (SignatureEnvelope_validate_shape (LedgerEntryExport.signature e))"

section \<open>Bundles\<close>

definition Verifier_verify_evidence_bundle_with_backend ::
    "('sk, 'vk, 'ml) crypto \<Rightarrow> EvidenceCryptoManifest \<Rightarrow> LedgerEntryExport list \<Rightarrow> bytes \<Rightarrow>
     EvidenceSignatureBackend \<Rightarrow> (unit, EvidenceBundleVerifyError) result" where
  "Verifier_verify_evidence_bundle_with_backend c manifest es pk backend =
     and_then (map_err ManifestPolicy (Verifier_verify_evidence_crypto_manifest manifest)) (\<lambda>_.
     if EvidenceSignatureBackend.suite backend \<noteq> EvidenceCryptoManifest.ledger_signature manifest
     then Err (LedgerBackendSuiteMismatch (EvidenceCryptoManifest.ledger_signature manifest)
       (EvidenceSignatureBackend.suite backend))
     else and_then (for_each (\<lambda>e. and_then (entry_signature_suite e) (\<lambda>entry_suite.
         if entry_suite \<noteq> EvidenceCryptoManifest.ledger_signature manifest
         then Err (EvidenceBundleVerifyError.LedgerSignatureSuiteMismatch (LedgerEntryExport.seq e)
           (EvidenceCryptoManifest.ledger_signature manifest) entry_suite)
         else Ok ())) es) (\<lambda>_.
     map_err ExportedChain (Verifier_verify_exported_chain_with_backend c es pk backend)))"

definition Verifier_verify_evidence_bundle ::
    "('sk, 'vk, 'ml) crypto \<Rightarrow> EvidenceCryptoManifest \<Rightarrow> LedgerEntryExport list \<Rightarrow> 'vk \<Rightarrow>
     (unit, EvidenceBundleVerifyError) result" where
  "Verifier_verify_evidence_bundle c manifest es pk =
     Verifier_verify_evidence_bundle_with_backend c manifest es
       (slice (ed_key_to_bytes c pk)) (Ed25519EvidenceSignatureBackend c)"

definition Verifier_verify_evidence_bundle_with_key_binding ::
    "('sk, 'vk, 'ml) crypto \<Rightarrow> EvidenceCryptoManifest \<Rightarrow> LedgerEntryExport list \<Rightarrow>
     EvidencePublicKeyBinding \<Rightarrow> EvidenceSignatureBackend \<Rightarrow>
     (unit, EvidenceBundleVerifyError) result" where
  "Verifier_verify_evidence_bundle_with_key_binding c manifest es key_binding backend =
     and_then (map_err ManifestPolicy (Verifier_verify_evidence_crypto_manifest manifest)) (\<lambda>_.
     and_then (map_err PublicKeyBinding
         (EvidencePublicKeyBinding_validate_against_manifest_and_backend c key_binding manifest backend))
       (\<lambda>_. Verifier_verify_evidence_bundle_with_backend c manifest es (public_key key_binding) backend))"

section \<open>Transcript-bound bundles\<close>

text \<open>The loop that ties every entry to the session of the transcript binding.\<close>

definition check_entry_sessions ::
    "SessionTranscriptBinding \<Rightarrow> LedgerEntryExport list \<Rightarrow> (unit, EvidenceBundleVerifyError) result" where
  "check_entry_sessions tb =
     for_each (\<lambda>e. if ConsentEventRecord.session_id (LedgerEntryExport.event e) \<noteq>
         SessionTranscriptBinding.session_id tb
       then Err (TranscriptSessionMismatch (LedgerEntryExport.seq e)
         (SessionTranscriptBinding.session_id tb)
         (ConsentEventRecord.session_id (LedgerEntryExport.event e)))
       else Ok ())"

definition Verifier_verify_transcript_bound_evidence_bundle_with_backend ::
    "('sk, 'vk, 'ml) crypto \<Rightarrow> EvidenceCryptoManifest \<Rightarrow> SessionTranscriptBinding \<Rightarrow>
     LedgerEntryExport list \<Rightarrow> bytes \<Rightarrow> EvidenceSignatureBackend \<Rightarrow>
     (unit, EvidenceBundleVerifyError) result" where
  "Verifier_verify_transcript_bound_evidence_bundle_with_backend c manifest tb es pk backend =
     and_then (map_err TranscriptBinding
         (SessionTranscriptBinding_validate_against_manifest tb manifest)) (\<lambda>_.
     if CryptoPolicyProfile_requires_post_quantum_signatures (EvidenceCryptoManifest.profile manifest)
     then Err MissingTranscriptSignatureInFullPqc
     else if es = [] then Err EvidenceBundleVerifyError.EmptyTranscriptBoundBundle
     else and_then (check_entry_sessions tb es) (\<lambda>_.
     Verifier_verify_evidence_bundle_with_backend c manifest es pk backend))"

definition Verifier_verify_transcript_bound_evidence_bundle ::
    "('sk, 'vk, 'ml) crypto \<Rightarrow> EvidenceCryptoManifest \<Rightarrow> SessionTranscriptBinding \<Rightarrow>
     LedgerEntryExport list \<Rightarrow> 'vk \<Rightarrow> (unit, EvidenceBundleVerifyError) result" where
  "Verifier_verify_transcript_bound_evidence_bundle c manifest tb es pk =
     Verifier_verify_transcript_bound_evidence_bundle_with_backend c manifest tb es
       (slice (ed_key_to_bytes c pk)) (Ed25519EvidenceSignatureBackend c)"

definition Verifier_verify_transcript_bound_evidence_bundle_with_key_binding ::
    "('sk, 'vk, 'ml) crypto \<Rightarrow> EvidenceCryptoManifest \<Rightarrow> SessionTranscriptBinding \<Rightarrow>
     LedgerEntryExport list \<Rightarrow> EvidencePublicKeyBinding \<Rightarrow> EvidenceSignatureBackend \<Rightarrow>
     (unit, EvidenceBundleVerifyError) result" where
  "Verifier_verify_transcript_bound_evidence_bundle_with_key_binding c manifest tb es key_binding backend =
     and_then (map_err TranscriptBinding
         (SessionTranscriptBinding_validate_against_manifest tb manifest)) (\<lambda>_.
     if CryptoPolicyProfile_requires_post_quantum_signatures (EvidenceCryptoManifest.profile manifest)
     then Err MissingTranscriptSignatureInFullPqc
     else and_then (map_err PublicKeyBinding
         (EvidencePublicKeyBinding_validate_against_manifest_and_backend c key_binding manifest backend))
       (\<lambda>_.
     if es = [] then Err EvidenceBundleVerifyError.EmptyTranscriptBoundBundle
     else and_then (check_entry_sessions tb es) (\<lambda>_.
     Verifier_verify_evidence_bundle_with_backend c manifest es (public_key key_binding) backend)))"

definition Verifier_verify_signed_transcript_bound_evidence_bundle_with_key_bindings ::
    "('sk, 'vk, 'ml) crypto \<Rightarrow> EvidenceCryptoManifest \<Rightarrow> SessionTranscriptBinding \<Rightarrow>
     SessionTranscriptSignature \<Rightarrow> EvidencePublicKeyBinding \<Rightarrow> LedgerEntryExport list \<Rightarrow>
     EvidencePublicKeyBinding \<Rightarrow> EvidenceSignatureBackend \<Rightarrow> EvidenceSignatureBackend \<Rightarrow>
     (unit, EvidenceBundleVerifyError) result" where
  "Verifier_verify_signed_transcript_bound_evidence_bundle_with_key_bindings
       c manifest tb ts tkb es lkb transcript_backend ledger_backend =
     and_then (map_err ManifestPolicy (Verifier_verify_evidence_crypto_manifest manifest)) (\<lambda>_.
     and_then (map_err TranscriptBinding
         (SessionTranscriptBinding_validate_against_manifest tb manifest)) (\<lambda>_.
     and_then (map_err TranscriptSignature
         (SessionTranscriptSignature_validate_against_binding_and_manifest ts tb manifest))
       (\<lambda>transcript_signature_suite.
     if EvidenceSignatureBackend.suite transcript_backend \<noteq>
       EvidenceCryptoManifest.transcript_signature manifest
     then Err (TranscriptBackendSuiteMismatch (EvidenceCryptoManifest.transcript_signature manifest)
       (EvidenceSignatureBackend.suite transcript_backend))
     else if transcript_signature_suite \<noteq> EvidenceSignatureBackend.suite transcript_backend
     then Err (TranscriptBackendSuiteMismatch transcript_signature_suite
       (EvidenceSignatureBackend.suite transcript_backend))
     else and_then (map_err PublicKeyBinding
         (EvidencePublicKeyBinding_validate_against_signature_suite_and_backend c tkb
           (EvidenceCryptoManifest.transcript_signature manifest) transcript_backend)) (\<lambda>_.
     and_then (map_err PublicKeyBinding
         (EvidencePublicKeyBinding_validate_against_manifest_and_backend c lkb manifest ledger_backend))
       (\<lambda>_.
     and_then (map_err (TranscriptSignatureBackend transcript_signature_suite)
         (verify_signature transcript_backend (public_key tkb)
           (session_transcript_signature_message tb)
           (SignatureEnvelope.signature (SessionTranscriptSignature.signature ts)))) (\<lambda>_.
     if es = [] then Err EvidenceBundleVerifyError.EmptyTranscriptBoundBundle
     else and_then (check_entry_sessions tb es) (\<lambda>_.
     Verifier_verify_evidence_bundle_with_key_binding c manifest es lkb ledger_backend)))))))"

definition Verifier_verify_sealed_signed_transcript_bound_evidence_bundle_with_key_bindings ::
    "('sk, 'vk, 'ml) crypto \<Rightarrow> EvidenceCryptoManifest \<Rightarrow> SessionTranscriptBinding \<Rightarrow>
     SessionTranscriptSignature \<Rightarrow> EvidenceBundleSeal \<Rightarrow> EvidencePublicKeyBinding \<Rightarrow>
     LedgerEntryExport list \<Rightarrow> EvidencePublicKeyBinding \<Rightarrow> EvidenceSignatureBackend \<Rightarrow>
     EvidenceSignatureBackend \<Rightarrow> (unit, EvidenceBundleVerifyError) result" where
  "Verifier_verify_sealed_signed_transcript_bound_evidence_bundle_with_key_bindings
       c manifest tb ts seal tkb es lkb transcript_backend ledger_backend =
     and_then (Verifier_verify_signed_transcript_bound_evidence_bundle_with_key_bindings
         c manifest tb ts tkb es lkb transcript_backend ledger_backend) (\<lambda>_.
     and_then (map_err BundleSeal
         (EvidenceBundleSeal_validate_against_bundle seal manifest tb tkb es lkb))
       (\<lambda>seal_signature_suite.
     map_err (BundleSealSignatureBackend seal_signature_suite)
       (verify_signature transcript_backend (public_key tkb) (evidence_bundle_seal_message seal)
         (SignatureEnvelope.signature (EvidenceBundleSeal.signature seal)))))"

section \<open>Characterisations\<close>

lemma entry_signature_suite_eq_Ok [result_simps]:
  "entry_signature_suite e = Ok s \<longleftrightarrow>
     SignatureEnvelope_validate_shape (LedgerEntryExport.signature e) = Ok s"
  by (simp add: entry_signature_suite_def)

lemma exported_walk_suites:
  assumes "Verifier_verify_exported_chain_with_backend c es pk b = Ok ()" and "e \<in> set es"
  shows "SignatureEnvelope_validate_shape (LedgerEntryExport.signature e) =
    Ok (EvidenceSignatureBackend.suite b)"
  using export_walk.walk_all [OF assms(1) [unfolded Verifier_verify_exported_chain_with_backend_def] assms(2)]
  by (auto simp: verify_exported_entry_eq_Ok)

text \<open>The separate pass over the envelopes adds an error code, not a condition.\<close>

lemma evidence_bundle_with_backend_eq_Ok [result_simps]:
  "Verifier_verify_evidence_bundle_with_backend c m es pk b = Ok () \<longleftrightarrow>
     EvidenceCryptoManifest_validate_against_policy m = Ok () \<and>
     EvidenceSignatureBackend.suite b = EvidenceCryptoManifest.ledger_signature m \<and>
     Verifier_verify_exported_chain_with_backend c es pk b = Ok ()"
  using exported_walk_suites [of c es pk b]
  by (auto simp: Verifier_verify_evidence_bundle_with_backend_def entry_signature_suite_eq_Ok
      Verifier_verify_evidence_crypto_manifest_def)

lemma check_entry_sessions_eq_Ok [result_simps]:
  "check_entry_sessions tb es = Ok () \<longleftrightarrow>
     (\<forall>e \<in> set es. ConsentEventRecord.session_id (LedgerEntryExport.event e) =
        SessionTranscriptBinding.session_id tb)"
  by (auto simp: check_entry_sessions_def)

lemma evidence_bundle_with_key_binding_eq_Ok [result_simps]:
  "Verifier_verify_evidence_bundle_with_key_binding c m es kb b = Ok () \<longleftrightarrow>
     EvidencePublicKeyBinding_validate_against_manifest_and_backend c kb m b = Ok () \<and>
     Verifier_verify_evidence_bundle_with_backend c m es (public_key kb) b = Ok ()"
  by (auto simp: Verifier_verify_evidence_bundle_with_key_binding_def
      Verifier_verify_evidence_crypto_manifest_def evidence_bundle_with_backend_eq_Ok)

lemma transcript_bound_with_backend_eq_Ok [result_simps]:
  "Verifier_verify_transcript_bound_evidence_bundle_with_backend c m tb es pk b = Ok () \<longleftrightarrow>
     SessionTranscriptBinding_validate_against_manifest tb m = Ok () \<and>
     EvidenceCryptoManifest.profile m \<noteq> FullPqcV1 \<and> es \<noteq> [] \<and> check_entry_sessions tb es = Ok () \<and>
     Verifier_verify_evidence_bundle_with_backend c m es pk b = Ok ()"
  by (auto simp: Verifier_verify_transcript_bound_evidence_bundle_with_backend_def
      CryptoPolicyProfile_requires_post_quantum_signatures_def)

lemma transcript_bound_with_key_binding_eq_Ok [result_simps]:
  "Verifier_verify_transcript_bound_evidence_bundle_with_key_binding c m tb es kb b = Ok () \<longleftrightarrow>
     EvidencePublicKeyBinding_validate_against_manifest_and_backend c kb m b = Ok () \<and>
     Verifier_verify_transcript_bound_evidence_bundle_with_backend c m tb es (public_key kb) b = Ok ()"
  by (auto simp: Verifier_verify_transcript_bound_evidence_bundle_with_key_binding_def
      transcript_bound_with_backend_eq_Ok CryptoPolicyProfile_requires_post_quantum_signatures_def)

lemma signed_bundle_eq_Ok [result_simps]:
  "Verifier_verify_signed_transcript_bound_evidence_bundle_with_key_bindings c m tb ts tkb es lkb bt bl =
     Ok () \<longleftrightarrow>
     SessionTranscriptBinding_validate_against_manifest tb m = Ok () \<and>
     SessionTranscriptSignature_validate_against_binding_and_manifest ts tb m =
       Ok (EvidenceSignatureBackend.suite bt) \<and>
     EvidencePublicKeyBinding_validate_against_signature_suite_and_backend c tkb
       (EvidenceCryptoManifest.transcript_signature m) bt = Ok () \<and>
     verify_signature bt (public_key tkb) (session_transcript_signature_message tb)
       (SignatureEnvelope.signature (SessionTranscriptSignature.signature ts)) = Ok () \<and>
     es \<noteq> [] \<and> check_entry_sessions tb es = Ok () \<and>
     Verifier_verify_evidence_bundle_with_key_binding c m es lkb bl = Ok ()"
proof -
  let ?V = "SessionTranscriptSignature_validate_against_binding_and_manifest ts tb m"
  let ?T = "EvidenceCryptoManifest.transcript_signature m"
  have ex: "(\<exists>t. ?V = Ok t \<and> Q t) \<longleftrightarrow> ?V = Ok ?T \<and> Q ?T" for Q
    by (metis transcript_signature_validate_eq_Ok)
  have bt: "?V = Ok (EvidenceSignatureBackend.suite bt) \<longleftrightarrow>
      ?V = Ok ?T \<and> EvidenceSignatureBackend.suite bt = ?T"
    by (metis transcript_signature_validate_eq_Ok)
  show ?thesis
    unfolding Verifier_verify_signed_transcript_bound_evidence_bundle_with_key_bindings_def
      and_then_eq_Ok map_err_eq_Ok if_Err_eq_Ok Verifier_verify_evidence_crypto_manifest_def
      evidence_bundle_with_key_binding_eq_Ok evidence_bundle_with_backend_eq_Ok ex_unit_iff not_not
      ex bt
    by (rule iffI; (elim conjE)?; (intro conjI)?; (assumption | simp))
qed

lemma sealed_bundle_eq_Ok [result_simps]:
  "Verifier_verify_sealed_signed_transcript_bound_evidence_bundle_with_key_bindings
       c m tb ts seal tkb es lkb bt bl = Ok () \<longleftrightarrow>
     Verifier_verify_signed_transcript_bound_evidence_bundle_with_key_bindings
       c m tb ts tkb es lkb bt bl = Ok () \<and>
     EvidenceBundleSeal_validate_against_bundle seal m tb tkb es lkb =
       Ok (EvidenceCryptoManifest.transcript_signature m) \<and>
     verify_signature bt (public_key tkb) (evidence_bundle_seal_message seal)
       (SignatureEnvelope.signature (EvidenceBundleSeal.signature seal)) = Ok ()"
proof -
  let ?V = "EvidenceBundleSeal_validate_against_bundle seal m tb tkb es lkb"
  have ex: "(\<exists>t. ?V = Ok t \<and> Q) \<longleftrightarrow> ?V = Ok (EvidenceCryptoManifest.transcript_signature m) \<and> Q" for Q
    by (metis seal_validate_eq_Ok)
  show ?thesis
    unfolding Verifier_verify_sealed_signed_transcript_bound_evidence_bundle_with_key_bindings_def
      and_then_eq_Ok map_err_eq_Ok ex_unit_iff ex
    by (rule refl)
qed

section \<open>Producing an accepted bundle\<close>

text \<open>
  A signer for a backend: under \<open>key\<close> the backend accepts every signature \<open>sign\<close> makes, and its
  envelopes carry the backend's suite.
\<close>

definition signs :: "EvidenceSignatureBackend \<Rightarrow> bytes \<Rightarrow> (bytes \<Rightarrow> SignatureEnvelope) \<Rightarrow> bool" where
  "signs b key sign \<longleftrightarrow> evidence_backend b \<and>
     (\<forall>m. algorithm (sign m) = SignatureSuite_stable_label (EvidenceSignatureBackend.suite b) \<and>
        verify_signature b key m (SignatureEnvelope.signature (sign m)) = Ok ())"

lemma signs_ed25519:
  assumes "ed25519_correct c" and "ed25519_key_codec c"
  shows "signs (Ed25519EvidenceSignatureBackend c) (slice (ed_key_to_bytes c (ed_verifying_key c sk)))
    (\<lambda>m. SignatureEnvelope_ed25519 (ed_sign c sk m))"
  using ed25519_correctD [OF assms(1)] ed25519_key_codecD(1) [OF assms(2)]
  by (auto simp: signs_def ed25519.evidence_backend_axioms Ed25519_verify_signature_eq_Ok
      SignatureEnvelope_ed25519_def SignatureEnvelope_new_def)

lemma signs_ml_dsa_65:
  assumes "ml_dsa_correct c MlDsa65"
  shows "signs (MlDsa65EvidenceSignatureBackend c) (ml_verifying_key c MlDsa65 sk)
    (\<lambda>m. SignatureEnvelope_new MlDsa65Fips204 (ml_sign c MlDsa65 sk m))"
  using ml_backend_accepts(1) [OF assms, of sk]
  by (auto simp: signs_def ml_dsa_65.evidence_backend_axioms SignatureEnvelope_new_def)

lemma signs_ml_dsa_87:
  assumes "ml_dsa_correct c MlDsa87"
  shows "signs (MlDsa87EvidenceSignatureBackend c) (ml_verifying_key c MlDsa87 sk)
    (\<lambda>m. SignatureEnvelope_new MlDsa87Fips204 (ml_sign c MlDsa87 sk m))"
  using ml_backend_accepts(1) [OF assms, of sk]
  by (auto simp: signs_def ml_dsa_87.evidence_backend_axioms SignatureEnvelope_new_def)

lemma signs_shape:
  assumes "signs b key sign"
  shows "SignatureEnvelope_validate_shape (sign m) = Ok (EvidenceSignatureBackend.suite b)"
  using assms evidence_backend.accepted_shape [of b key m "sign m"] by (simp add: signs_def)

lemma accepted_key_binding:
  assumes "evidence_backend b" and "verify_signature b key m sig = Ok ()"
  shows "EvidencePublicKeyBinding_validate_against_signature_suite_and_backend c
    (EvidencePublicKeyBinding_new c (EvidenceSignatureBackend.suite b) key)
    (EvidenceSignatureBackend.suite b) b = Ok ()"
proof -
  have "SignatureSuite_fixed_public_key_len (EvidenceSignatureBackend.suite b) = Some (length key)"
    using evidence_backend.accepts_lengths [OF assms] by simp
  moreover from this have "key \<noteq> []"
    by (cases "EvidenceSignatureBackend.suite b") auto
  ultimately show ?thesis
    by (simp add: key_binding_validate_eq_Ok EvidencePublicKeyBinding_new_def
        compute_evidence_public_key_fingerprint_def)
qed

lemma accepted_chain_key:
  assumes "Verifier_verify_exported_chain_with_backend c es key b = Ok ()" and "es \<noteq> []"
  shows "\<exists>m sig. verify_signature b key m sig = Ok ()"
proof -
  have "hd es \<in> set es"
    using assms(2) by simp
  from export_walk.walk_all [OF assms(1) [unfolded Verifier_verify_exported_chain_with_backend_def] this]
  show ?thesis
    by (auto simp: verify_exported_entry_eq_Ok)
qed

lemma sealed_bundle_accepted:
  assumes signer: "signs bt key sign" and "evidence_backend bl"
    and "EvidenceCryptoManifest_validate_against_policy m = Ok ()"
    and suites: "EvidenceCryptoManifest.transcript_signature m = EvidenceSignatureBackend.suite bt"
      "EvidenceCryptoManifest.ledger_signature m = EvidenceSignatureBackend.suite bl"
    and chain: "Verifier_verify_exported_chain_with_backend c es lkey bl = Ok ()" "es \<noteq> []"
    and sessions: "\<forall>e \<in> set es. ConsentEventRecord.session_id (LedgerEntryExport.event e) = sid"
    and hash: "h \<noteq> zeroed"
    and tb: "tb = SessionTranscriptBinding_from_hash sid h (EvidenceSignatureBackend.suite bt)"
    and tkb: "tkb = EvidencePublicKeyBinding_new c (EvidenceSignatureBackend.suite bt) key"
    and lkb: "lkb = EvidencePublicKeyBinding_new c (EvidenceSignatureBackend.suite bl) lkey"
    and ts: "ts = SessionTranscriptSignature_from_binding tb (sign (session_transcript_signature_message tb))"
    and seal: "evidence_bundle_seal_message_from_parts m tb tkb es lkb = Ok msg"
      "EvidenceBundleSeal_from_parts m tb tkb es lkb (sign msg) = Ok seal"
  shows "Verifier_verify_sealed_signed_transcript_bound_evidence_bundle_with_key_bindings
    c m tb ts seal tkb es lkb bt bl = Ok ()"
proof -
  have sig: "verify_signature bt key x (SignatureEnvelope.signature (sign x)) = Ok ()" for x
    using signer by (simp add: signs_def)
  have "EvidencePublicKeyBinding_validate_against_signature_suite_and_backend c tkb
      (EvidenceSignatureBackend.suite bt) bt = Ok ()"
    unfolding tkb using signer sig by (intro accepted_key_binding) (simp_all add: signs_def)
  moreover obtain x y where "verify_signature bl lkey x y = Ok ()"
    using accepted_chain_key [OF chain] by blast
  then have "EvidencePublicKeyBinding_validate_against_manifest_and_backend c lkb m bl = Ok ()"
    unfolding lkb EvidencePublicKeyBinding_validate_against_manifest_and_backend_def suites(2)
    using assms(2) by (intro accepted_key_binding)
  moreover have "SessionTranscriptBinding_validate_against_manifest tb m = Ok ()"
    using hash suites by (simp add: transcript_binding_validate_eq_Ok tb SessionTranscriptBinding_from_hash_def)
  moreover have "SessionTranscriptSignature_validate_against_binding_and_manifest ts tb m =
      Ok (EvidenceSignatureBackend.suite bt)"
    using hash suites signs_shape [OF signer]
    by (simp add: transcript_signature_validate_eq_Ok ts tb SessionTranscriptBinding_from_hash_def
        SessionTranscriptSignature_from_binding_def)
  moreover have "check_entry_sessions tb es = Ok ()"
    using sessions by (simp add: check_entry_sessions_eq_Ok tb SessionTranscriptBinding_from_hash_def)
  moreover have "verify_signature bt (public_key tkb) (session_transcript_signature_message tb)
       (SignatureEnvelope.signature (SessionTranscriptSignature.signature ts)) = Ok ()"
    using sig by (simp add: tkb ts EvidencePublicKeyBinding_new_def SessionTranscriptSignature_from_binding_def)
  moreover have "public_key lkb = lkey"
    by (simp add: lkb EvidencePublicKeyBinding_new_def)
  ultimately have signed: "Verifier_verify_signed_transcript_bound_evidence_bundle_with_key_bindings
      c m tb ts tkb es lkb bt bl = Ok ()"
    using assms(3) suites chain
    by (simp add: signed_bundle_eq_Ok evidence_bundle_with_key_binding_eq_Ok
        evidence_bundle_with_backend_eq_Ok)
  obtain n f l where anchors: "ledger_chain_anchors es = Ok (n, f, l)"
    using chain(2) by (simp add: ledger_chain_anchors_eq_Ok)
  have fields: "EvidenceBundleSeal.signature seal = sign msg" "evidence_bundle_seal_message seal = msg"
    using seal anchors
    by (auto simp: evidence_bundle_seal_message_from_parts_def EvidenceBundleSeal_from_parts_def
        evidence_bundle_seal_message_def)
  have "EvidenceBundleSeal_validate_against_bundle seal m tb tkb es lkb =
      Ok (EvidenceCryptoManifest.transcript_signature m)"
    using seal(2) anchors signs_shape [OF signer] suites
    by (auto simp: EvidenceBundleSeal_from_parts_def seal_validate_eq_Ok ledger_chain_anchors_eq_Ok)
  with signed fields sig show ?thesis
    by (simp add: sealed_bundle_eq_Ok tkb EvidencePublicKeyBinding_new_def)
qed

lemma seal_parts_Ok:
  assumes "es \<noteq> []"
  shows "\<exists>msg. evidence_bundle_seal_message_from_parts m tb tkb es lkb = Ok msg"
    and "\<exists>seal. EvidenceBundleSeal_from_parts m tb tkb es lkb sig = Ok seal"
  using assms
  by (auto simp: evidence_bundle_seal_message_from_parts_def EvidenceBundleSeal_from_parts_def
      ledger_chain_anchors_def vec_get_def vec_last_conv)

lemma exported_chain_accepted:
  assumes "Verifier_verify_chain c es pk = Ok ()" and "ed25519_key_codec c"
  shows "Verifier_verify_exported_chain_with_backend c (map LedgerEntry_to_export_entry es)
    (slice (ed_key_to_bytes c pk)) (Ed25519EvidenceSignatureBackend c) = Ok ()"
  using assms(1) verify_exported_loop_export [OF assms(2), of pk 0 zeroed es]
  by (simp add: Verifier_verify_exported_chain_with_backend_def Verifier_verify_chain_def)

lemma current_manifest_suites [simp]:
  "EvidenceCryptoManifest.transcript_signature CURRENT_EVIDENCE_CRYPTO_MANIFEST = Ed25519Rfc8032"
  "EvidenceCryptoManifest.ledger_signature CURRENT_EVIDENCE_CRYPTO_MANIFEST = Ed25519Rfc8032"
  by (simp_all add: CURRENT_EVIDENCE_CRYPTO_MANIFEST_def CURRENT_LEDGER_SIGNATURE_SUITE_def)

lemma hybrid_bundle_accepted:
  fixes c :: "('sk, 'vk, 'ml) crypto" and tsk :: 'sk
  assumes "Verifier_verify_chain c es pk = Ok ()" and "es \<noteq> []"
    and "\<forall>e \<in> set es. ConsentEventRecord.session_id (LedgerEntry.event e) = sid"
    and "h \<noteq> zeroed" and "ed25519_correct c" and "ed25519_key_codec c"
    and tb: "tb = SessionTranscriptBinding_from_hash sid h Ed25519Rfc8032"
    and tkb: "tkb = EvidencePublicKeyBinding_new c Ed25519Rfc8032
      (slice (ed_key_to_bytes c (ed_verifying_key c tsk)))"
    and lkb: "lkb = EvidencePublicKeyBinding_new c Ed25519Rfc8032 (slice (ed_key_to_bytes c pk))"
    and xs: "xs = map LedgerEntry_to_export_entry es"
  shows "\<exists>seal. sign_evidence_bundle_seal_ed25519 c CURRENT_EVIDENCE_CRYPTO_MANIFEST tb tkb xs lkb tsk =
      Ok seal \<and>
    Verifier_verify_sealed_signed_transcript_bound_evidence_bundle_with_key_bindings c
      CURRENT_EVIDENCE_CRYPTO_MANIFEST tb (sign_session_transcript_binding_ed25519 c tb tsk) seal tkb xs
      lkb (Ed25519EvidenceSignatureBackend c) (Ed25519EvidenceSignatureBackend c) = Ok ()"
proof -
  let ?sign = "\<lambda>m. SignatureEnvelope_ed25519 (ed_sign c tsk m)"
  have ne: "xs \<noteq> []"
    using assms(2) xs by simp
  obtain msg where msg: "evidence_bundle_seal_message_from_parts CURRENT_EVIDENCE_CRYPTO_MANIFEST
      tb tkb xs lkb = Ok msg"
    using seal_parts_Ok(1) [OF ne] by blast
  obtain seal where seal: "EvidenceBundleSeal_from_parts CURRENT_EVIDENCE_CRYPTO_MANIFEST tb tkb xs lkb
      (?sign msg) = Ok seal"
    using seal_parts_Ok(2) [OF ne] by blast
  have "Verifier_verify_sealed_signed_transcript_bound_evidence_bundle_with_key_bindings c
      CURRENT_EVIDENCE_CRYPTO_MANIFEST tb (sign_session_transcript_binding_ed25519 c tb tsk) seal tkb xs
      lkb (Ed25519EvidenceSignatureBackend c) (Ed25519EvidenceSignatureBackend c) = Ok ()"
    using signs_ed25519 [OF assms(5,6), of tsk] exported_chain_accepted [OF assms(1,6)] assms(3,4) ne msg seal
    by (intro sealed_bundle_accepted [where sign = ?sign and h = h and sid = sid])
      (auto simp: current_manifest_valid ed25519.evidence_backend_axioms tb tkb lkb xs
        sign_session_transcript_binding_ed25519_def)
  with msg seal show ?thesis
    by (simp add: sign_evidence_bundle_seal_ed25519_def)
qed

lemma pqc_bundle_accepted:
  fixes c :: "('sk, 'vk, 'ml) crypto" and tsk :: 'ml
  assumes "EvidenceCryptoManifest_validate_against_policy m = Ok ()"
    and "EvidenceCryptoManifest.transcript_signature m = MlDsa65Fips204"
    and "EvidenceCryptoManifest.ledger_signature m = MlDsa65Fips204"
    and "Verifier_verify_exported_chain_with_backend c es lkey (MlDsa65EvidenceSignatureBackend c) = Ok ()"
    and "es \<noteq> []"
    and "\<forall>e \<in> set es. ConsentEventRecord.session_id (LedgerEntryExport.event e) = sid"
    and "h \<noteq> zeroed" and "ml_dsa_correct c MlDsa65"
    and tb: "tb = SessionTranscriptBinding_from_hash sid h MlDsa65Fips204"
    and tkb: "tkb = EvidencePublicKeyBinding_new c MlDsa65Fips204 (ml_verifying_key c MlDsa65 tsk)"
    and lkb: "lkb = EvidencePublicKeyBinding_new c MlDsa65Fips204 lkey"
  shows "\<exists>seal. sign_evidence_bundle_seal_ml_dsa_65 c m tb tkb es lkb tsk = Ok seal \<and>
    Verifier_verify_sealed_signed_transcript_bound_evidence_bundle_with_key_bindings c m tb
      (sign_session_transcript_binding_ml_dsa_65 c tb tsk) seal tkb es lkb
      (MlDsa65EvidenceSignatureBackend c) (MlDsa65EvidenceSignatureBackend c) = Ok ()"
proof -
  let ?sign = "\<lambda>m. SignatureEnvelope_new MlDsa65Fips204 (ml_sign c MlDsa65 tsk m)"
  obtain msg where msg: "evidence_bundle_seal_message_from_parts m tb tkb es lkb = Ok msg"
    using seal_parts_Ok(1) [OF assms(5)] by blast
  obtain seal where seal: "EvidenceBundleSeal_from_parts m tb tkb es lkb (?sign msg) = Ok seal"
    using seal_parts_Ok(2) [OF assms(5)] by blast
  have "Verifier_verify_sealed_signed_transcript_bound_evidence_bundle_with_key_bindings c m tb
      (sign_session_transcript_binding_ml_dsa_65 c tb tsk) seal tkb es lkb
      (MlDsa65EvidenceSignatureBackend c) (MlDsa65EvidenceSignatureBackend c) = Ok ()"
    using signs_ml_dsa_65 [OF assms(8), of tsk] assms(1-7) msg seal
    by (intro sealed_bundle_accepted [where sign = ?sign and h = h and sid = sid])
      (auto simp: ml_dsa_65.evidence_backend_axioms tb tkb lkb
        sign_session_transcript_binding_ml_dsa_65_def)
  with msg seal show ?thesis
    by (simp add: sign_evidence_bundle_seal_ml_dsa_65_def)
qed

section \<open>Properties\<close>

text \<open>Under \<open>full-pqc-v1\<close> an accepted bundle was verified with a post-quantum suite, entry by entry.\<close>

lemma full_pqc_bundle:
  assumes "EvidenceCryptoManifest.profile m = FullPqcV1"
    and "Verifier_verify_evidence_bundle_with_backend c m es key b = Ok ()"
  shows "SignatureSuite_is_post_quantum (EvidenceSignatureBackend.suite b)"
    and "\<forall>e \<in> set es. entry_signature_suite e = Ok (EvidenceSignatureBackend.suite b)"
  using assms exported_walk_suites [of c es key b]
  by (auto simp: evidence_bundle_with_backend_eq_Ok validate_against_policy_eq_Ok entry_signature_suite_eq_Ok)

lemma full_pqc_signed_bundle:
  assumes "EvidenceCryptoManifest.profile m = FullPqcV1"
    and "Verifier_verify_signed_transcript_bound_evidence_bundle_with_key_bindings c m tb ts tkb es lkb bt bl = Ok ()"
  shows "SignatureSuite_is_post_quantum (EvidenceSignatureBackend.suite bt)"
    and "EvidenceSignatureBackend.suite bt = EvidenceCryptoManifest.transcript_signature m"
    and "SignatureEnvelope_validate_shape (SessionTranscriptSignature.signature ts) =
      Ok (EvidenceSignatureBackend.suite bt)"
    and "Verifier_verify_evidence_bundle_with_backend c m es (public_key lkb) bl = Ok ()"
  using assms
  by (auto simp: signed_bundle_eq_Ok transcript_signature_validate_eq_Ok validate_against_policy_eq_Ok
      evidence_bundle_with_key_binding_eq_Ok evidence_bundle_with_backend_eq_Ok)

text \<open>
  C20. No downgrade. Under a \<open>full-pqc-v1\<close> manifest the Ed25519 bundle verifier and every verifier that
  takes a transcript binding without a transcript signature reject every bundle. The four remaining verifiers
  (with a backend, with a key binding, signed, and sealed), whatever backends a caller selects, accept only
  when the ledger backend's suite is post-quantum and every entry is signed in that suite; the signed and the
  sealed one moreover only when the transcript backend's suite is post-quantum and the transcript signature is
  in that suite, and the sealed one when the seal's signature is too.
\<close>

theorem full_pqc_no_downgrade:
  assumes "EvidenceCryptoManifest.profile m = FullPqcV1"
  shows "Verifier_verify_evidence_bundle c m es pk \<noteq> Ok () \<and>
    Verifier_verify_transcript_bound_evidence_bundle c m tb es pk \<noteq> Ok () \<and>
    Verifier_verify_transcript_bound_evidence_bundle_with_backend c m tb es key b \<noteq> Ok () \<and>
    Verifier_verify_transcript_bound_evidence_bundle_with_key_binding c m tb es kb b \<noteq> Ok () \<and>
    (Verifier_verify_evidence_bundle_with_backend c m es key b = Ok () \<or>
     Verifier_verify_evidence_bundle_with_key_binding c m es kb b = Ok () \<or>
     Verifier_verify_signed_transcript_bound_evidence_bundle_with_key_bindings c m tb ts tkb es kb bt b = Ok () \<or>
     Verifier_verify_sealed_signed_transcript_bound_evidence_bundle_with_key_bindings
       c m tb ts seal tkb es kb bt b = Ok () \<longrightarrow>
       SignatureSuite_is_post_quantum (EvidenceSignatureBackend.suite b) \<and>
       (\<forall>e \<in> set es. entry_signature_suite e = Ok (EvidenceSignatureBackend.suite b))) \<and>
    (Verifier_verify_signed_transcript_bound_evidence_bundle_with_key_bindings c m tb ts tkb es kb bt b = Ok () \<or>
     Verifier_verify_sealed_signed_transcript_bound_evidence_bundle_with_key_bindings
       c m tb ts seal tkb es kb bt b = Ok () \<longrightarrow>
       SignatureSuite_is_post_quantum (EvidenceSignatureBackend.suite bt) \<and>
       SignatureEnvelope_validate_shape (SessionTranscriptSignature.signature ts) =
         Ok (EvidenceSignatureBackend.suite bt)) \<and>
    (Verifier_verify_sealed_signed_transcript_bound_evidence_bundle_with_key_bindings
       c m tb ts seal tkb es kb bt b = Ok () \<longrightarrow>
       SignatureEnvelope_validate_shape (EvidenceBundleSeal.signature seal) =
         Ok (EvidenceSignatureBackend.suite bt))"
proof -
  have ed: "Verifier_verify_evidence_bundle c m es pk \<noteq> Ok ()"
    using assms by (auto simp: Verifier_verify_evidence_bundle_def evidence_bundle_with_backend_eq_Ok
        validate_against_policy_eq_Ok SignatureSuite_is_post_quantum_def)
  have unsigned: "Verifier_verify_transcript_bound_evidence_bundle c m tb es pk \<noteq> Ok ()"
      "Verifier_verify_transcript_bound_evidence_bundle_with_backend c m tb es key b \<noteq> Ok ()"
      "Verifier_verify_transcript_bound_evidence_bundle_with_key_binding c m tb es kb b \<noteq> Ok ()"
    using assms by (simp_all add: Verifier_verify_transcript_bound_evidence_bundle_def
        transcript_bound_with_backend_eq_Ok transcript_bound_with_key_binding_eq_Ok)
  note signed = full_pqc_signed_bundle [OF assms, of c tb ts tkb es kb bt b]
  note entries = full_pqc_bundle [OF assms, of c es _ b]
  have seal: "SignatureEnvelope_validate_shape (EvidenceBundleSeal.signature seal) =
      Ok (EvidenceSignatureBackend.suite bt)"
    if "Verifier_verify_sealed_signed_transcript_bound_evidence_bundle_with_key_bindings
      c m tb ts seal tkb es kb bt b = Ok ()"
    using that signed(2) unfolding sealed_bundle_eq_Ok seal_validate_eq_Ok by simp
  show ?thesis
    using ed unsigned signed entries seal unfolding sealed_bundle_eq_Ok evidence_bundle_with_key_binding_eq_Ok
    by (intro conjI) blast+
qed

definition demo_pqc_manifest :: EvidenceCryptoManifest where
  "demo_pqc_manifest = CURRENT_EVIDENCE_CRYPTO_MANIFEST\<lparr>
     EvidenceCryptoManifest.profile := FullPqcV1,
     EvidenceCryptoManifest.transcript_signature := MlDsa65Fips204,
     EvidenceCryptoManifest.ledger_signature := MlDsa65Fips204,
     downgrade_policy := RejectClassicalSignatures\<rparr>"

lemma demo_pqc_manifest_simps [simp]:
  "EvidenceCryptoManifest.profile demo_pqc_manifest = FullPqcV1"
  "EvidenceCryptoManifest.transcript_signature demo_pqc_manifest = MlDsa65Fips204"
  "EvidenceCryptoManifest.ledger_signature demo_pqc_manifest = MlDsa65Fips204"
  "EvidenceCryptoManifest_validate_against_policy demo_pqc_manifest = Ok ()"
  by (simp_all add: demo_pqc_manifest_def validate_against_policy_eq_Ok
      SignatureSuite_is_post_quantum_def)

lemma demo_ml_chain_entries:
  "MlDsaEvidenceChain_export_entries demo_ml_chain \<noteq> []"
  "\<forall>e \<in> set (MlDsaEvidenceChain_export_entries demo_ml_chain).
     ConsentEventRecord.session_id (LedgerEntryExport.event e) = filled 2"
  by (simp_all add: demo_ml_chain_def MlDsaEvidenceChain_append_def Let_def compute_entry_hash_def
      new_ml_dsa_65_evidence_chain_def MlDsaEvidenceChain_export_entries_def demo_event_def)

abbreviation demo_pqc_sealed :: "EvidenceBundleSeal \<Rightarrow> (unit, EvidenceBundleVerifyError) result" where
  "demo_pqc_sealed seal \<equiv>
     Verifier_verify_sealed_signed_transcript_bound_evidence_bundle_with_key_bindings demo_crypto
      demo_pqc_manifest (SessionTranscriptBinding_new demo_crypto (filled 2) [] MlDsa65Fips204)
      (sign_session_transcript_binding_ml_dsa_65 demo_crypto
        (SessionTranscriptBinding_new demo_crypto (filled 2) [] MlDsa65Fips204) []) seal
      (EvidencePublicKeyBinding_new demo_crypto MlDsa65Fips204
        (ml_verifying_key demo_crypto MlDsa65 []))
      (MlDsaEvidenceChain_export_entries demo_ml_chain)
      (EvidencePublicKeyBinding_new demo_crypto MlDsa65Fips204
        (MlDsaEvidenceChain_public_key_bytes demo_crypto demo_ml_chain))
      (MlDsa65EvidenceSignatureBackend demo_crypto) (MlDsa65EvidenceSignatureBackend demo_crypto)"

theorem full_pqc_no_downgrade_witness:
  "\<exists>seal. demo_pqc_sealed seal = Ok () \<and> SignatureSuite_is_post_quantum MlDsa65Fips204 \<and>
     (\<forall>e \<in> set (MlDsaEvidenceChain_export_entries demo_ml_chain). entry_signature_suite e = Ok MlDsa65Fips204) \<and>
     SignatureEnvelope_validate_shape (EvidenceBundleSeal.signature seal) = Ok MlDsa65Fips204 \<and>
     Verifier_verify_evidence_bundle demo_crypto demo_pqc_manifest
       (MlDsaEvidenceChain_export_entries demo_ml_chain) (filled 9) \<noteq> Ok ()"
proof -
  have "Verifier_verify_exported_chain_with_backend demo_crypto (MlDsaEvidenceChain_export_entries demo_ml_chain)
      (MlDsaEvidenceChain_public_key_bytes demo_crypto demo_ml_chain)
      (MlDsa65EvidenceSignatureBackend demo_crypto) = Ok ()"
    using demo_ml_chain_verifies by (simp add: Verifier_verify_exported_chain_with_backend_def)
  moreover have "compute_session_transcript_hash demo_crypto [] \<noteq> zeroed"
    by (simp add: compute_session_transcript_hash_def checksum_def)
  ultimately obtain seal where seal: "demo_pqc_sealed seal = Ok ()"
    using pqc_bundle_accepted [OF _ _ _ _ demo_ml_chain_entries _ _ refl refl refl,
        of demo_pqc_manifest demo_crypto _ _ "[]"]
    by (auto simp: SessionTranscriptBinding_new_def)
  then show ?thesis
    using full_pqc_no_downgrade [OF demo_pqc_manifest_simps(1), of demo_crypto
        "MlDsaEvidenceChain_export_entries demo_ml_chain" "filled 9"] by fastforce
qed

definition demo_tb :: SessionTranscriptBinding where
  "demo_tb = SessionTranscriptBinding_new demo_crypto (filled 2) [] Ed25519Rfc8032"

definition demo_tkb :: EvidencePublicKeyBinding where
  "demo_tkb = EvidencePublicKeyBinding_new demo_crypto Ed25519Rfc8032 (slice (filled 8 :: u8_32))"

definition demo_lkb :: EvidencePublicKeyBinding where
  "demo_lkb = EvidencePublicKeyBinding_new demo_crypto Ed25519Rfc8032 (slice (filled 9 :: u8_32))"

abbreviation demo_sealed :: "EvidenceBundleSeal \<Rightarrow> (unit, EvidenceBundleVerifyError) result" where
  "demo_sealed seal \<equiv>
     Verifier_verify_sealed_signed_transcript_bound_evidence_bundle_with_key_bindings demo_crypto
       CURRENT_EVIDENCE_CRYPTO_MANIFEST demo_tb
       (sign_session_transcript_binding_ed25519 demo_crypto demo_tb (filled 8)) seal demo_tkb
       (Chain_export_entries demo_chain2) demo_lkb (Ed25519EvidenceSignatureBackend demo_crypto)
       (Ed25519EvidenceSignatureBackend demo_crypto)"

lemma demo_chain2_sessions:
  "\<forall>e \<in> set (Chain.entries demo_chain2).
     ConsentEventRecord.session_id (LedgerEntry.event e) = filled 2"
proof -
  have "map (ConsentEventRecord.session_id \<circ> snd) (Chain_log demo_chain2) = [filled 2, filled 2]"
    by (simp add: demo_chain_steps(5) demo_event_def)
  then have "set (map (\<lambda>e. ConsentEventRecord.session_id (LedgerEntry.event e))
      (Chain.entries demo_chain2)) = {filled 2}"
    by (simp add: Chain_log_def comp_def)
  then show ?thesis by auto
qed

lemma demo_sealed_bundle: "\<exists>seal. demo_sealed seal = Ok ()"
proof -
  have "Chain.entries demo_chain2 \<noteq> []"
    using demo_chain_steps(2) by auto
  moreover have "demo_tb = SessionTranscriptBinding_from_hash (filled 2) (filled 7) Ed25519Rfc8032"
    by (simp add: demo_tb_def SessionTranscriptBinding_new_def compute_session_transcript_hash_def
        checksum_def)
  ultimately show ?thesis
    using hybrid_bundle_accepted [OF demo_chain2_verifies [unfolded Chain_into_entries_def] _
        demo_chain2_sessions, where h = "filled 7" and tsk = "filled 8" and tb = demo_tb
        and tkb = demo_tkb and lkb = demo_lkb and xs = "Chain_export_entries demo_chain2"]
    by (auto simp: demo_tkb_def demo_lkb_def Chain_export_entries_def)
qed

text \<open>
  What a sealed bundle has to satisfy, in terms of its data alone. An envelope is in a suite when it carries
  the suite's label and a signature of the suite's length.
\<close>

definition envelope_in :: "SignatureSuite \<Rightarrow> SignatureEnvelope \<Rightarrow> bool" where
  "envelope_in s env \<longleftrightarrow> algorithm env = SignatureSuite_stable_label s \<and>
     (\<forall>n. SignatureSuite_fixed_signature_len s = Some n \<longrightarrow> length (SignatureEnvelope.signature env) = n)"

definition manifest_in_class :: "EvidenceCryptoManifest \<Rightarrow> bool" where
  "manifest_in_class m \<longleftrightarrow>
     (if EvidenceCryptoManifest.profile m = FullPqcV1
      then SignatureSuite_is_post_quantum (EvidenceCryptoManifest.transcript_signature m) \<and>
        SignatureSuite_is_post_quantum (EvidenceCryptoManifest.ledger_signature m) \<and>
        downgrade_policy m = RejectClassicalSignatures
      else \<not> SignatureSuite_is_post_quantum (EvidenceCryptoManifest.transcript_signature m) \<and>
        \<not> SignatureSuite_is_post_quantum (EvidenceCryptoManifest.ledger_signature m) \<and>
        downgrade_policy m \<noteq> RejectClassicalSignatures)"

definition key_bound :: "('sk, 'vk, 'ml) crypto \<Rightarrow> SignatureSuite \<Rightarrow> EvidencePublicKeyBinding \<Rightarrow> bool" where
  "key_bound c s kb \<longleftrightarrow> EvidencePublicKeyBinding.schema kb = EVIDENCE_PUBLIC_KEY_BINDING_SCHEMA \<and>
     fingerprint_algorithm kb = EVIDENCE_PUBLIC_KEY_FINGERPRINT_ALGORITHM \<and> signature_suite kb = s \<and>
     public_key kb \<noteq> [] \<and> (\<forall>n. SignatureSuite_fixed_public_key_len s = Some n \<longrightarrow> length (public_key kb) = n) \<and>
     public_key_fingerprint kb = blake3_hash c (public_key kb)"

text \<open>The transcript signature and the binding it signs name one session and one transcript hash.\<close>

definition transcript_signed ::
    "SignatureSuite \<Rightarrow> SessionTranscriptBinding \<Rightarrow> SessionTranscriptSignature \<Rightarrow> bool" where
  "transcript_signed s tb ts \<longleftrightarrow>
     SessionTranscriptBinding.schema tb = SESSION_TRANSCRIPT_BINDING_SCHEMA \<and>
     SessionTranscriptBinding.transcript_hash_algorithm tb = SESSION_TRANSCRIPT_HASH_ALGORITHM \<and>
     SessionTranscriptBinding.transcript_hash tb \<noteq> zeroed \<and>
     SessionTranscriptBinding.transcript_signature tb = s \<and>
     SessionTranscriptSignature.schema ts = SESSION_TRANSCRIPT_SIGNATURE_SCHEMA \<and>
     SessionTranscriptSignature.transcript_hash_algorithm ts = SESSION_TRANSCRIPT_HASH_ALGORITHM \<and>
     SessionTranscriptSignature.session_id ts = SessionTranscriptBinding.session_id tb \<and>
     SessionTranscriptSignature.transcript_hash ts = SessionTranscriptBinding.transcript_hash tb \<and>
     envelope_in s (SessionTranscriptSignature.signature ts)"

text \<open>
  The log: entry \<open>k\<close> has sequence number \<open>k\<close>, the hash of the entry before it (zero at the start), its own
  hash, and a signature of the ledger key on that hash. A sequence number of zero after a wrap-around of
  the 64-bit counter needs a zero previous hash.
\<close>

definition log_signed ::
    "('sk, 'vk, 'ml) crypto \<Rightarrow> bytes \<Rightarrow> EvidenceSignatureBackend \<Rightarrow> LedgerEntryExport list \<Rightarrow> bool" where
  "log_signed c key b es \<longleftrightarrow> (\<forall>k < length es. let e = es ! k in
     LedgerEntryExport.seq e = of_nat k \<and>
     LedgerEntryExport.prev_hash e = (if k = 0 then zeroed else LedgerEntryExport.entry_hash (es ! (k - 1))) \<and>
     (LedgerEntryExport.seq e = 0 \<longrightarrow> LedgerEntryExport.prev_hash e = zeroed) \<and>
     preimage_hash c (export_preimage e) = Some (LedgerEntryExport.entry_hash e) \<and>
     envelope_in (EvidenceSignatureBackend.suite b) (LedgerEntryExport.signature e) \<and>
     verify_signature b key (slice (LedgerEntryExport.entry_hash e))
       (SignatureEnvelope.signature (LedgerEntryExport.signature e)) = Ok ())"

text \<open>The seal repeats the bundle: its session, policy, transcript, keys, and the extent of its log.\<close>

definition seal_matches ::
    "EvidenceCryptoManifest \<Rightarrow> SessionTranscriptBinding \<Rightarrow> EvidencePublicKeyBinding \<Rightarrow> LedgerEntryExport list \<Rightarrow>
     EvidencePublicKeyBinding \<Rightarrow> EvidenceBundleSeal \<Rightarrow> bool" where
  "seal_matches m tb tkb es lkb seal \<longleftrightarrow>
     seal = \<lparr>EvidenceBundleSeal.schema = EVIDENCE_BUNDLE_SEAL_SCHEMA,
       session_id = SessionTranscriptBinding.session_id tb, profile = EvidenceCryptoManifest.profile m,
       transcript_signature = EvidenceCryptoManifest.transcript_signature m,
       ledger_signature = EvidenceCryptoManifest.ledger_signature m,
       transcript_hash_algorithm = SessionTranscriptBinding.transcript_hash_algorithm tb,
       transcript_hash = SessionTranscriptBinding.transcript_hash tb,
       transcript_public_key_fingerprint = public_key_fingerprint tkb,
       ledger_public_key_fingerprint = public_key_fingerprint lkb,
       ledger_entry_count = of_nat (length es),
       ledger_first_entry_hash = LedgerEntryExport.entry_hash (hd es),
       ledger_last_entry_hash = LedgerEntryExport.entry_hash (last es),
       signature = EvidenceBundleSeal.signature seal\<rparr> \<and>
     envelope_in (EvidenceCryptoManifest.transcript_signature m) (EvidenceBundleSeal.signature seal)"

lemma previous_hash:
  "k < length es \<Longrightarrow> head_after LedgerEntryExport.entry_hash zeroed (take k es) =
     (if k = 0 then zeroed else LedgerEntryExport.entry_hash (es ! (k - 1)))"
  by (auto simp: head_after_def last_conv_nth)

lemma log_signed_iff:
  "log_signed c key b es \<longleftrightarrow> Verifier_verify_exported_chain_with_backend c es key b = Ok ()"
proof -
  have "(\<forall>k < length es. verify_exported_entry c key b k
      (head_after LedgerEntryExport.entry_hash zeroed (take k es)) (es ! k) = Ok ()) \<longleftrightarrow> log_signed c key b es"
    unfolding log_signed_def Let_def verify_exported_entry_eq_Ok validate_shape_eq_Ok envelope_in_def
    by (intro all_cong1 imp_cong refl) (auto simp only: previous_hash)
  then show ?thesis
    by (simp add: Verifier_verify_exported_chain_with_backend_def export_walk.walk_iff_nth)
qed

lemma manifest_in_class_iff:
  "manifest_in_class m \<longleftrightarrow> EvidenceCryptoManifest_validate_against_policy m = Ok ()"
  by (auto simp: manifest_in_class_def validate_against_policy_eq_Ok)

lemma seal_matches_iff:
  "es \<noteq> [] \<Longrightarrow> seal_matches m tb tkb es lkb seal \<longleftrightarrow>
     EvidenceBundleSeal_validate_against_bundle seal m tb tkb es lkb =
       Ok (EvidenceCryptoManifest.transcript_signature m)"
  by (cases seal) (auto simp: seal_matches_def seal_validate_eq_Ok validate_shape_eq_Ok envelope_in_def)

text \<open>
  C4. What a sealed bundle proves, exactly. The strictest verifier accepts a bundle if and only if: the
  manifest's suites and downgrade policy are all post-quantum for \<open>full-pqc-v1\<close> and all classical otherwise;
  the two backends have the manifest's suites; both public keys are bound to their suites by length and
  fingerprint; the transcript signature and the transcript binding agree on a session and a non-zero
  transcript hash; the log is not empty, its entries are numbered from zero, linked by their hashes, belong
  to that session and are each signed by the ledger key; the seal names exactly this session, policy,
  transcript, pair of keys, entry count and first and last entry; and the transcript key has signed both the
  transcript binding and the seal.
\<close>

theorem sealed_bundle_accepted_iff:
  "Verifier_verify_sealed_signed_transcript_bound_evidence_bundle_with_key_bindings
      c m tb ts seal tkb es lkb bt bl = Ok () \<longleftrightarrow>
   manifest_in_class m \<and>
   EvidenceSignatureBackend.suite bt = EvidenceCryptoManifest.transcript_signature m \<and>
   EvidenceSignatureBackend.suite bl = EvidenceCryptoManifest.ledger_signature m \<and>
   key_bound c (EvidenceCryptoManifest.transcript_signature m) tkb \<and>
   key_bound c (EvidenceCryptoManifest.ledger_signature m) lkb \<and>
   transcript_signed (EvidenceCryptoManifest.transcript_signature m) tb ts \<and>
   es \<noteq> [] \<and> log_signed c (public_key lkb) bl es \<and>
   (\<forall>e \<in> set es. ConsentEventRecord.session_id (LedgerEntryExport.event e) =
      SessionTranscriptBinding.session_id tb) \<and>
   seal_matches m tb tkb es lkb seal \<and>
   verify_signature bt (public_key tkb) (session_transcript_signature_message tb)
     (SignatureEnvelope.signature (SessionTranscriptSignature.signature ts)) = Ok () \<and>
   verify_signature bt (public_key tkb) (evidence_bundle_seal_message seal)
     (SignatureEnvelope.signature (EvidenceBundleSeal.signature seal)) = Ok ()"
proof (cases "es = []")
  case True
  then show ?thesis unfolding sealed_bundle_eq_Ok signed_bundle_eq_Ok by simp
next
  case False
  have parts: "(SessionTranscriptBinding_validate_against_manifest tb m = Ok () \<and>
      SessionTranscriptSignature_validate_against_binding_and_manifest ts tb m =
        Ok (EvidenceSignatureBackend.suite bt)) \<longleftrightarrow>
      EvidenceSignatureBackend.suite bt = EvidenceCryptoManifest.transcript_signature m \<and>
      transcript_signed (EvidenceCryptoManifest.transcript_signature m) tb ts"
    by (auto simp: transcript_signed_def transcript_binding_validate_eq_Ok transcript_signature_validate_eq_Ok
        validate_shape_eq_Ok envelope_in_def)
  have keys: "EvidencePublicKeyBinding_validate_against_signature_suite_and_backend c kb s b = Ok () \<longleftrightarrow>
      EvidenceSignatureBackend.suite b = s \<and> key_bound c s kb" for kb s b
    unfolding key_binding_validate_eq_Ok key_bound_def by blast
  show ?thesis
    unfolding sealed_bundle_eq_Ok signed_bundle_eq_Ok evidence_bundle_with_key_binding_eq_Ok
      evidence_bundle_with_backend_eq_Ok check_entry_sessions_eq_Ok keys
      EvidencePublicKeyBinding_validate_against_manifest_and_backend_def
      manifest_in_class_iff log_signed_iff seal_matches_iff [OF False]
    using parts False by blast
qed

theorem sealed_bundle_accepted_iff_witness:
  "\<exists>seal. demo_sealed seal = Ok () \<and>
     log_signed demo_crypto (public_key demo_lkb) (Ed25519EvidenceSignatureBackend demo_crypto)
       (Chain_export_entries demo_chain2) \<and>
     seal_matches CURRENT_EVIDENCE_CRYPTO_MANIFEST demo_tb demo_tkb (Chain_export_entries demo_chain2) demo_lkb seal"
proof -
  obtain seal where seal: "demo_sealed seal = Ok ()"
    using demo_sealed_bundle by blast
  with sealed_bundle_accepted_iff [THEN iffD1, OF seal] show ?thesis by blast
qed

text \<open>
  C19. The seal commits to the bundle. Two accepted sealed bundles whose seals sign the same
  message and whose ledgers are verified with the same backend agree on the session, the profile,
  both suites, the transcript hash and both key fingerprints, and their entries agree in
  content, or two entries at one position are a hash collision.
\<close>

theorem sealed_bundles_commit:
  assumes "Verifier_verify_sealed_signed_transcript_bound_evidence_bundle_with_key_bindings
      c m tb ts seal tkb es lkb bt bl = Ok ()"
    and "Verifier_verify_sealed_signed_transcript_bound_evidence_bundle_with_key_bindings
      c m' tb' ts' seal' tkb' es' lkb' bt' bl = Ok ()"
    and "evidence_bundle_seal_message seal = evidence_bundle_seal_message seal'"
    and "length es < 2 ^ 64" and "length es' < 2 ^ 64"
  shows "SessionTranscriptBinding.session_id tb = SessionTranscriptBinding.session_id tb' \<and>
    EvidenceCryptoManifest.profile m = EvidenceCryptoManifest.profile m' \<and>
    EvidenceCryptoManifest.transcript_signature m = EvidenceCryptoManifest.transcript_signature m' \<and>
    EvidenceCryptoManifest.ledger_signature m = EvidenceCryptoManifest.ledger_signature m' \<and>
    SessionTranscriptBinding.transcript_hash tb = SessionTranscriptBinding.transcript_hash tb' \<and>
    public_key_fingerprint tkb = public_key_fingerprint tkb' \<and>
    public_key_fingerprint lkb = public_key_fingerprint lkb' \<and>
    (map export_preimage es = map export_preimage es' \<or>
     (\<exists>k < length es. entry_hash_collision c (export_preimage (es ! k)) (export_preimage (es' ! k))))"
proof -
  note sealed = assms(1,2) [unfolded sealed_bundle_eq_Ok seal_validate_eq_Ok]
  note signed = conjunct1 [OF sealed(1), unfolded signed_bundle_eq_Ok
      evidence_bundle_with_key_binding_eq_Ok evidence_bundle_with_backend_eq_Ok
      transcript_binding_validate_eq_Ok]
    conjunct1 [OF sealed(2), unfolded signed_bundle_eq_Ok
      evidence_bundle_with_key_binding_eq_Ok evidence_bundle_with_backend_eq_Ok
      transcript_binding_validate_eq_Ok]
  have "seal' = seal\<lparr>EvidenceBundleSeal.signature := EvidenceBundleSeal.signature seal'\<rparr>"
    using sealed signed assms(3)
    by (intro seal_message_inject [THEN iffD1])
      (simp_all add: EVIDENCE_BUNDLE_SEAL_SCHEMA_def SESSION_TRANSCRIPT_HASH_ALGORITHM_def)
  then obtain sig where seal': "seal' = seal\<lparr>EvidenceBundleSeal.signature := sig\<rparr>"
    by blast
  have "(of_nat (length es) :: u64) = of_nat (length es')"
    using sealed unfolding seal' by simp
  then have len: "length es = length es'"
    using assms(4,5) by (simp only: of_nat_u64_eq_iff)
  have head: "head_after LedgerEntryExport.entry_hash zeroed es =
      head_after LedgerEntryExport.entry_hash zeroed es'"
    using sealed unfolding seal' by (simp add: head_after_def)
  have "map export_preimage es = map export_preimage es' \<or>
     (\<exists>k < length es. entry_hash_collision c (export_preimage (es ! k)) (export_preimage (es' ! k)))"
    using signed export_walk.same_head_same_log [OF _ _ len head, of c]
    unfolding Verifier_verify_exported_chain_with_backend_def entry_hash_collision_def by blast
  then show ?thesis
    using sealed unfolding seal' by simp
qed

theorem sealed_bundles_commit_witness:
  "\<exists>seal. demo_sealed seal = Ok () \<and>
     (map export_preimage (Chain_export_entries demo_chain2) =
        map export_preimage (Chain_export_entries demo_chain2) \<or>
      (\<exists>k < length (Chain_export_entries demo_chain2). entry_hash_collision demo_crypto
         (export_preimage (Chain_export_entries demo_chain2 ! k))
         (export_preimage (Chain_export_entries demo_chain2 ! k))))"
proof -
  obtain seal where seal: "demo_sealed seal = Ok ()"
    using demo_sealed_bundle by blast
  have "length (Chain_export_entries demo_chain2) < 2 ^ 64"
    using demo_chain_steps(2) by (simp add: Chain_export_entries_def)
  from sealed_bundles_commit [OF seal seal refl this this] seal show ?thesis by blast
qed

text \<open>
  A hybrid evidence bundle, end to end. Take any chain that appends have made, not empty, all of
  whose events belong to one session, with a non-zero transcript hash. Signing the transcript
  binding and sealing the export with a transcript key succeeds, and the strictest verifier accepts
  the result.
\<close>

theorem hybrid_bundle_end_to_end:
  assumes "(chain_step c)\<^sup>*\<^sup>* (Chain_new sk) ch" and "Chain_log ch \<noteq> []"
    and "\<forall>ev \<in> snd ` set (Chain_log ch). ConsentEventRecord.session_id ev = sid"
    and "compute_session_transcript_hash c transcript \<noteq> zeroed"
    and "ed25519_correct c" and "ed25519_key_codec c"
  shows "let tb = SessionTranscriptBinding_new c sid transcript Ed25519Rfc8032;
      tkb = EvidencePublicKeyBinding_new c Ed25519Rfc8032
        (slice (ed_key_to_bytes c (ed_verifying_key c tsk)));
      lkb = EvidencePublicKeyBinding_new c Ed25519Rfc8032
        (slice (ed_key_to_bytes c (ed_verifying_key c sk)));
      xs = Chain_export_entries ch
    in \<exists>seal. sign_evidence_bundle_seal_ed25519 c CURRENT_EVIDENCE_CRYPTO_MANIFEST tb tkb xs lkb tsk =
        Ok seal \<and>
      Verifier_verify_sealed_signed_transcript_bound_evidence_bundle_with_key_bindings c
        CURRENT_EVIDENCE_CRYPTO_MANIFEST tb (sign_session_transcript_binding_ed25519 c tb tsk) seal
        tkb xs lkb (Ed25519EvidenceSignatureBackend c) (Ed25519EvidenceSignatureBackend c) = Ok ()"
proof -
  have ok: "Chain_ok c ch"
    using chain_steps_ok [OF assms(1,5)] by simp
  have ch: "base_checkpoint ch = None" "Chain.signing_key ch = sk"
    using chain_steps_extends [OF assms(1)] by (simp_all add: chain_extends_def Chain_new_def)
  have v: "Verifier_verify_chain c (Chain.entries ch) (ed_verifying_key c sk) = Ok ()"
    using Chain_ok_verifies [OF ok ch(1)] ch(2) by (simp add: Chain_into_entries_def)
  have es: "Chain.entries ch \<noteq> []"
      "\<forall>e \<in> set (Chain.entries ch). ConsentEventRecord.session_id (LedgerEntry.event e) = sid"
    using assms(2,3) by (auto simp: Chain_log_def)
  show ?thesis
    unfolding Let_def Chain_export_entries_def SessionTranscriptBinding_new_def
    by (rule hybrid_bundle_accepted [OF v es assms(4-6) refl refl refl refl])
qed

theorem hybrid_bundle_end_to_end_witness:
  "\<exists>seal. demo_sealed seal = Ok ()"
proof -
  have "compute_session_transcript_hash demo_crypto [] \<noteq> zeroed"
    by (simp add: compute_session_transcript_hash_def checksum_def)
  then show ?thesis
    using hybrid_bundle_end_to_end [OF demo_chain_reachable, where sid = "filled 2"
        and transcript = "[]" and tsk = "filled 8"]
    by (auto simp: demo_chain_steps(5) demo_event_def Let_def demo_tb_def demo_tkb_def demo_lkb_def)
qed

text \<open>
  C27. A full post-quantum evidence bundle, end to end: the same for an ML-DSA-65 evidence chain
  under any manifest that declares ML-DSA-65 for both authority surfaces and passes its policy.
\<close>

theorem pqc_bundle_end_to_end:
  assumes "(ml_chain_step c)\<^sup>*\<^sup>* (new_ml_dsa_65_evidence_chain sk) ch"
    and "MlDsaEvidenceChain_export_entries ch \<noteq> []"
    and "\<forall>e \<in> set (MlDsaEvidenceChain_export_entries ch).
      ConsentEventRecord.session_id (LedgerEntryExport.event e) = sid"
    and "compute_session_transcript_hash c transcript \<noteq> zeroed"
    and "EvidenceCryptoManifest_validate_against_policy m = Ok ()"
    and "EvidenceCryptoManifest.transcript_signature m = MlDsa65Fips204"
    and "EvidenceCryptoManifest.ledger_signature m = MlDsa65Fips204"
    and "ml_dsa_correct c MlDsa65"
  shows "let tb = SessionTranscriptBinding_new c sid transcript MlDsa65Fips204;
      tkb = EvidencePublicKeyBinding_new c MlDsa65Fips204 (ml_verifying_key c MlDsa65 tsk);
      lkb = EvidencePublicKeyBinding_new c MlDsa65Fips204 (MlDsaEvidenceChain_public_key_bytes c ch);
      xs = MlDsaEvidenceChain_export_entries ch
    in \<exists>seal. sign_evidence_bundle_seal_ml_dsa_65 c m tb tkb xs lkb tsk = Ok seal \<and>
      Verifier_verify_sealed_signed_transcript_bound_evidence_bundle_with_key_bindings c m tb
        (sign_session_transcript_binding_ml_dsa_65 c tb tsk) seal tkb xs lkb
        (MlDsa65EvidenceSignatureBackend c) (MlDsa65EvidenceSignatureBackend c) = Ok ()"
proof -
  have new: "ml_chain_ok c (new_ml_dsa_65_evidence_chain sk)"
      "params (new_ml_dsa_65_evidence_chain sk) = MlDsa65"
    by (simp_all add: ml_chain_ok_def new_ml_dsa_65_evidence_chain_def)
  then have "Verifier_verify_exported_chain_with_backend c (MlDsaEvidenceChain_export_entries ch)
      (MlDsaEvidenceChain_public_key_bytes c ch) (MlDsa65EvidenceSignatureBackend c) = Ok ()"
    using ml_steps_ok [OF assms(1)] assms(8)
    by (auto simp: ml_chain_ok_def MlDsaEvidenceChain_export_entries_def
        Verifier_verify_exported_chain_with_backend_def)
  from pqc_bundle_accepted [OF assms(5-7) this assms(2-4,8) refl refl refl]
  show ?thesis
    unfolding Let_def SessionTranscriptBinding_new_def .
qed

theorem pqc_bundle_end_to_end_witness:
  "\<exists>seal. demo_pqc_sealed seal = Ok ()"
proof -
  have steps: "(ml_chain_step demo_crypto)\<^sup>*\<^sup>* (new_ml_dsa_65_evidence_chain []) demo_ml_chain"
    by (rule r_into_rtranclp [of "ml_chain_step demo_crypto", OF demo_ml_chain_step])
  have "compute_session_transcript_hash demo_crypto [] \<noteq> zeroed"
    by (simp add: compute_session_transcript_hash_def checksum_def)
  then show ?thesis
    using demo_ml_chain_entries pqc_bundle_end_to_end [OF steps, where sid = "filled 2" and transcript = "[]"
        and m = demo_pqc_manifest and tsk = "[]"]
    by (auto simp: Let_def)
qed

text \<open>
  The evidence-bundle verifier and the chain verifier are one relation. Under the current
  manifest a bundle is accepted exactly when every entry of it converts back to a stored entry and
  the stored entries pass the chain verifier under the same key.
\<close>

theorem evidence_bundle_iff_chain:
  assumes "ed25519_key_codec c"
  shows "Verifier_verify_evidence_bundle c CURRENT_EVIDENCE_CRYPTO_MANIFEST xs pk = Ok () \<longleftrightarrow>
    (\<exists>es. map LedgerEntryExport_to_legacy_entry xs = map Ok es \<and>
      Verifier_verify_chain c es pk = Ok ())"
proof -
  have legacy: "map LedgerEntryExport_to_legacy_entry xs = map Ok es \<longleftrightarrow>
      xs = map LedgerEntry_to_export_entry es" for es
    by (induction xs arbitrary: es) (auto simp: Cons_eq_map_conv to_legacy_entry_eq_Ok map_eq_Cons_conv)
  have "Verifier_verify_evidence_bundle c CURRENT_EVIDENCE_CRYPTO_MANIFEST xs pk = Ok () \<longleftrightarrow>
      Verifier_verify_exported_chain c xs pk = Ok ()"
    using exported_walk_suites [of c xs "slice (ed_key_to_bytes c pk)" "Ed25519EvidenceSignatureBackend c"]
    by (auto simp: Verifier_verify_evidence_bundle_def evidence_bundle_with_backend_eq_Ok
        Verifier_verify_exported_chain_def entry_suite_eq_Ok current_manifest_valid)
  also have "\<dots> \<longleftrightarrow> (\<exists>es. xs = map LedgerEntry_to_export_entry es \<and>
      Verifier_verify_chain c es pk = Ok ())"
    using exported_chain_accepts_only_exports verify_exported_chain_export [OF assms] by metis
  finally show ?thesis
    by (simp add: legacy)
qed

theorem evidence_bundle_iff_chain_witness:
  "Verifier_verify_evidence_bundle demo_crypto CURRENT_EVIDENCE_CRYPTO_MANIFEST
     (Chain_export_entries demo_chain2) (ed_verifying_key demo_crypto (filled 9)) = Ok ()"
  unfolding evidence_bundle_iff_chain [OF demo_crypto_lawful(2)]
  by (rule exI [of _ "Chain_into_entries demo_chain2"])
    (simp add: demo_chain2_verifies [unfolded Chain_into_entries_def] Chain_export_entries_def Chain_into_entries_def
      to_legacy_entry_eq_Ok)

end
