(* ===== verification/Ledger_Archive.thy ===== *)
theory Ledger_Archive
  imports Ledger_Chain
begin

text \<open>
  \<open>crates/xenia-ledger/src/archive.rs\<close>: archive segments between two signed checkpoints, their
  digests, their construction from a chain and the verification of one segment and of a sequence.
  The incremental \<open>blake3::Hasher\<close> hashes the concatenation of what it is given.
\<close>

definition LEDGER_ARCHIVE_SEGMENT_SCHEMA :: string where
  "LEDGER_ARCHIVE_SEGMENT_SCHEMA = ''xenia-ledger-archive-segment-v1''"

definition MAX_LEDGER_ARCHIVE_SEGMENT_ENTRIES :: nat where
  "MAX_LEDGER_ARCHIVE_SEGMENT_ENTRIES = 4096"

definition MAX_LEDGER_ARCHIVE_SEQUENCE_SEGMENTS :: nat where
  "MAX_LEDGER_ARCHIVE_SEQUENCE_SEGMENTS = 256"

record LedgerArchiveSegment =
  schema :: string
  base_checkpoint :: LedgerCheckpoint
  entries :: "LedgerEntry list"
  terminal_checkpoint :: LedgerCheckpoint
  segment_digest :: u8_32

datatype LedgerArchiveError =
    UnsupportedSchema string
  | BadLedgerPublicKey
  | EntryCountOverflow
  | TooManyEntries nat nat
  | Continuity CheckpointContinuityError
  | Checkpoint CheckpointError
  | DigestMismatch
  | EmptySequence
  | TooManySegments nat nat
  | SequenceDiscontinuity nat
  | ChainNotAnchored
  | EmptyResidentSuffix

section \<open>Segment digests\<close>

text \<open>The bytes the segment hasher is given, in order.\<close>

definition archive_entry_bytes :: "LedgerEntry \<Rightarrow> bytes" where
  "archive_entry_bytes e = to_be_bytes (LedgerEntry.seq e) @ slice (LedgerEntry.entry_hash e) @
     slice (LedgerEntry.signature e)"

definition archive_segment_bytes :: "u8_32 \<Rightarrow> LedgerEntry list \<Rightarrow> u8_32 \<Rightarrow> bytes" where
  "archive_segment_bytes base es terminal =
     as_bytes ''xenia:ledger-archive-segment:v1'' @ [0] @
     as_bytes LEDGER_ARCHIVE_SEGMENT_SCHEMA @ [0] @
     slice base @ to_be_bytes (of_nat (length es)) @
     concat (map archive_entry_bytes es) @ slice terminal"

definition ledger_archive_segment_digest ::
    "('sk, 'vk, 'ml) crypto \<Rightarrow> LedgerCheckpoint \<Rightarrow> LedgerEntry list \<Rightarrow> LedgerCheckpoint \<Rightarrow>
     (u8_32, LedgerArchiveError) result" where
  "ledger_archive_segment_digest c base_cp es terminal_cp =
     and_then (map_err Checkpoint (checkpoint_fingerprint c base_cp)) (\<lambda>base.
     and_then (map_err Checkpoint (checkpoint_fingerprint c terminal_cp)) (\<lambda>terminal.
       Ok (blake3_hash c (archive_segment_bytes base es terminal))))"

section \<open>Verification\<close>

definition Verifier_verify_ledger_archive_segment ::
    "('sk, 'vk, 'ml) crypto \<Rightarrow> LedgerArchiveSegment \<Rightarrow> (unit, LedgerArchiveError) result" where
  "Verifier_verify_ledger_archive_segment c seg =
     (if LedgerArchiveSegment.schema seg \<noteq> LEDGER_ARCHIVE_SEGMENT_SCHEMA
      then Err (LedgerArchiveError.UnsupportedSchema (LedgerArchiveSegment.schema seg))
      else if length (LedgerArchiveSegment.entries seg) > MAX_LEDGER_ARCHIVE_SEGMENT_ENTRIES
      then Err (TooManyEntries (length (LedgerArchiveSegment.entries seg))
             MAX_LEDGER_ARCHIVE_SEGMENT_ENTRIES)
      else and_then (map_err Continuity (Verifier_verify_checkpoint_extension c
              (LedgerArchiveSegment.base_checkpoint seg) (terminal_checkpoint seg)
              (LedgerArchiveSegment.entries seg))) (\<lambda>_.
        and_then (ledger_archive_segment_digest c (LedgerArchiveSegment.base_checkpoint seg)
              (LedgerArchiveSegment.entries seg) (terminal_checkpoint seg)) (\<lambda>observed.
          if observed \<noteq> segment_digest seg then Err DigestMismatch else Ok ())))"

fun check_adjacent ::
    "nat \<Rightarrow> (LedgerArchiveSegment \<times> LedgerArchiveSegment) list \<Rightarrow> (unit, LedgerArchiveError) result"
where
  "check_adjacent index [] = Ok ()"
| "check_adjacent index ((a, b) # ps) =
     (if terminal_checkpoint a \<noteq> LedgerArchiveSegment.base_checkpoint b
      then Err (SequenceDiscontinuity index) else check_adjacent (Suc index) ps)"

definition Verifier_verify_ledger_archive_sequence ::
    "('sk, 'vk, 'ml) crypto \<Rightarrow> LedgerArchiveSegment list \<Rightarrow> (unit, LedgerArchiveError) result" where
  "Verifier_verify_ledger_archive_sequence c segments =
     (if length segments > MAX_LEDGER_ARCHIVE_SEQUENCE_SEGMENTS
      then Err (TooManySegments (length segments) MAX_LEDGER_ARCHIVE_SEQUENCE_SEGMENTS)
      else and_then (for_each (Verifier_verify_ledger_archive_segment c) segments)
        (\<lambda>_. check_adjacent 0 (windows2 segments)))"

section \<open>Sequence digests\<close>

fun sequence_digest_loop ::
    "('sk, 'vk, 'ml) crypto \<Rightarrow> bytes \<Rightarrow> LedgerArchiveSegment list \<Rightarrow> (bytes, LedgerArchiveError) result"
where
  "sequence_digest_loop c hashed [] = Ok hashed"
| "sequence_digest_loop c hashed (seg # segs) =
     and_then (map_err Checkpoint
         (checkpoint_fingerprint c (LedgerArchiveSegment.base_checkpoint seg))) (\<lambda>base.
     and_then (map_err Checkpoint (checkpoint_fingerprint c (terminal_checkpoint seg))) (\<lambda>terminal.
       sequence_digest_loop c
         (hashed @ slice base @ to_be_bytes (of_nat (length (LedgerArchiveSegment.entries seg))) @
          slice (segment_digest seg) @ slice terminal) segs))"

definition ledger_archive_sequence_digest ::
    "('sk, 'vk, 'ml) crypto \<Rightarrow> LedgerArchiveSegment list \<Rightarrow> (u8_32, LedgerArchiveError) result" where
  "ledger_archive_sequence_digest c segments =
     (if segments = [] then Err EmptySequence
      else if length segments > MAX_LEDGER_ARCHIVE_SEQUENCE_SEGMENTS
      then Err (TooManySegments (length segments) MAX_LEDGER_ARCHIVE_SEQUENCE_SEGMENTS)
      else and_then (Verifier_verify_ledger_archive_sequence c segments) (\<lambda>_.
        map_ok (blake3_hash c) (sequence_digest_loop c
          (as_bytes ''xenia:ledger-archive-sequence:v1'' @ [0] @
           to_be_bytes (of_nat (length segments))) segments)))"

section \<open>Construction\<close>

text \<open>
  The slice \<open>all_entries[start..]\<close> is in range: the prefix check before it bounds the
  checkpoint's count by the number of entries.
\<close>

definition LedgerArchiveSegment_from_chain ::
    "('sk, 'vk, 'ml) crypto \<Rightarrow> 'sk Chain \<Rightarrow> LedgerCheckpoint \<Rightarrow> u64 \<Rightarrow>
     (LedgerArchiveSegment, LedgerArchiveError) result" where
  "LedgerArchiveSegment_from_chain c chain base_cp terminal_timestamp_unix_secs =
     and_then (ok_or (ed_key_from_bytes c (ledger_public_key base_cp)) BadLedgerPublicKey)
       (\<lambda>public_key.
     let all_entries = Chain.entries chain in
     and_then (map_err Continuity (Verifier_verify_checkpoint_prefix c base_cp all_entries public_key))
       (\<lambda>_.
     let es = drop (unat (entry_count base_cp)) all_entries in
     if length es > MAX_LEDGER_ARCHIVE_SEGMENT_ENTRIES
     then Err (TooManyEntries (length es) MAX_LEDGER_ARCHIVE_SEGMENT_ENTRIES)
     else let terminal_cp = Chain_sign_checkpoint c terminal_timestamp_unix_secs chain in
     and_then (map_err Continuity (Verifier_verify_checkpoint_extension c base_cp terminal_cp es)) (\<lambda>_.
     and_then (ledger_archive_segment_digest c base_cp es terminal_cp) (\<lambda>digest.
     Ok \<lparr>LedgerArchiveSegment.schema = LEDGER_ARCHIVE_SEGMENT_SCHEMA,
         LedgerArchiveSegment.base_checkpoint = base_cp, LedgerArchiveSegment.entries = es,
         terminal_checkpoint = terminal_cp, segment_digest = digest\<rparr>))))"

definition LedgerArchiveSegment_from_anchored_chain ::
    "('sk, 'vk, 'ml) crypto \<Rightarrow> 'sk Chain \<Rightarrow> u64 \<Rightarrow>
     (LedgerArchiveSegment, LedgerArchiveError) result" where
  "LedgerArchiveSegment_from_anchored_chain c chain terminal_timestamp_unix_secs =
     and_then (ok_or (Chain_base_checkpoint chain) ChainNotAnchored) (\<lambda>base_cp.
     let es = Chain.entries chain in
     if es = [] then Err EmptyResidentSuffix
     else if length es > MAX_LEDGER_ARCHIVE_SEGMENT_ENTRIES
     then Err (TooManyEntries (length es) MAX_LEDGER_ARCHIVE_SEGMENT_ENTRIES)
     else let terminal_cp = Chain_sign_checkpoint c terminal_timestamp_unix_secs chain in
     and_then (map_err Continuity (Verifier_verify_checkpoint_extension c base_cp terminal_cp es)) (\<lambda>_.
     and_then (ledger_archive_segment_digest c base_cp es terminal_cp) (\<lambda>digest.
     Ok \<lparr>LedgerArchiveSegment.schema = LEDGER_ARCHIVE_SEGMENT_SCHEMA,
         LedgerArchiveSegment.base_checkpoint = base_cp, LedgerArchiveSegment.entries = es,
         terminal_checkpoint = terminal_cp, segment_digest = digest\<rparr>)))"

section \<open>Lemmas\<close>

lemma verify_archive_segment_eq_Ok [result_simps]:
  "Verifier_verify_ledger_archive_segment c seg = Ok () \<longleftrightarrow>
     LedgerArchiveSegment.schema seg = LEDGER_ARCHIVE_SEGMENT_SCHEMA \<and>
     length (LedgerArchiveSegment.entries seg) \<le> MAX_LEDGER_ARCHIVE_SEGMENT_ENTRIES \<and>
     Verifier_verify_checkpoint_extension c (LedgerArchiveSegment.base_checkpoint seg)
       (terminal_checkpoint seg) (LedgerArchiveSegment.entries seg) = Ok () \<and>
     ledger_archive_segment_digest c (LedgerArchiveSegment.base_checkpoint seg)
       (LedgerArchiveSegment.entries seg) (terminal_checkpoint seg) = Ok (segment_digest seg)"
  by (auto simp: Verifier_verify_ledger_archive_segment_def)

lemma check_adjacent_eq_Ok [result_simps]:
  "check_adjacent i ps = Ok () \<longleftrightarrow>
     (\<forall>(a, b) \<in> set ps. terminal_checkpoint a = LedgerArchiveSegment.base_checkpoint b)"
  by (induction ps arbitrary: i) auto

lemma verify_archive_sequence_eq_Ok [result_simps]:
  "Verifier_verify_ledger_archive_sequence c segs = Ok () \<longleftrightarrow>
     length segs \<le> MAX_LEDGER_ARCHIVE_SEQUENCE_SEGMENTS \<and>
     (\<forall>seg \<in> set segs. Verifier_verify_ledger_archive_segment c seg = Ok ()) \<and>
     (\<forall>(a, b) \<in> set (windows2 segs).
        terminal_checkpoint a = LedgerArchiveSegment.base_checkpoint b)"
  by (auto simp: Verifier_verify_ledger_archive_sequence_def check_adjacent_eq_Ok)

abbreviation archived_entries :: "LedgerArchiveSegment list \<Rightarrow> LedgerEntry list" where
  "archived_entries segs \<equiv> concat (map LedgerArchiveSegment.entries segs)"

lemma adjacent_segments_extend:
  assumes "\<forall>seg \<in> set segs. Verifier_verify_ledger_archive_segment c seg = Ok ()"
    and "\<forall>(a, b) \<in> set (windows2 segs).
      terminal_checkpoint a = LedgerArchiveSegment.base_checkpoint b"
    and "segs \<noteq> []"
  shows "Verifier_verify_checkpoint_extension c (LedgerArchiveSegment.base_checkpoint (hd segs))
    (terminal_checkpoint (last segs)) (archived_entries segs) = Ok ()"
  using assms
proof (induction segs rule: windows2.induct)
  case (1 x y zs)
  then have "Verifier_verify_checkpoint_extension c (terminal_checkpoint x)
      (terminal_checkpoint (last (y # zs))) (archived_entries (y # zs)) = Ok ()"
    by simp
  moreover have "Verifier_verify_checkpoint_extension c (LedgerArchiveSegment.base_checkpoint x)
      (terminal_checkpoint x) (LedgerArchiveSegment.entries x) = Ok ()"
    using "1.prems" by (simp add: verify_archive_segment_eq_Ok)
  ultimately show ?case
    by (auto dest: extension_trans)
qed (simp_all add: verify_archive_segment_eq_Ok)

lemma archived_entries_length:
  assumes "\<forall>seg \<in> set segs. length (LedgerArchiveSegment.entries seg) \<le> n"
  shows "length (archived_entries segs) \<le> length segs * n"
  using assms by (induction segs) auto

lemma verified_sequence_length:
  assumes "Verifier_verify_ledger_archive_sequence c segs = Ok ()"
  shows "length (archived_entries segs) \<le> 2 ^ 20"
proof -
  have "length (archived_entries segs) \<le> length segs * 4096"
    using assms by (intro archived_entries_length)
      (auto simp: verify_archive_sequence_eq_Ok verify_archive_segment_eq_Ok
        MAX_LEDGER_ARCHIVE_SEGMENT_ENTRIES_def)
  also have "\<dots> \<le> 256 * 4096"
    using assms by (simp add: verify_archive_sequence_eq_Ok MAX_LEDGER_ARCHIVE_SEQUENCE_SEGMENTS_def)
  finally show ?thesis by simp
qed

section \<open>What a segment digest commits to\<close>

lemma archive_entry_bytes_inject:
  "archive_entry_bytes e = archive_entry_bytes f \<longleftrightarrow>
     LedgerEntry.seq e = LedgerEntry.seq f \<and> LedgerEntry.entry_hash e = LedgerEntry.entry_hash f \<and>
     LedgerEntry.signature e = LedgerEntry.signature f"
  by (simp add: archive_entry_bytes_def)

lemma length_archive_entry_bytes: "length (archive_entry_bytes e) = 104"
  by (simp add: archive_entry_bytes_def)

lemma archive_segment_bytes_inject:
  assumes "archive_segment_bytes a es t = archive_segment_bytes b fs u"
    and "length es < 2 ^ 64" and "length fs < 2 ^ 64"
  shows "a = b \<and> t = u \<and> map archive_entry_bytes es = map archive_entry_bytes fs"
proof -
  from assms(1) have ab: "a = b"
    and len: "(of_nat (length es) :: u64) = of_nat (length fs)"
    and rest: "concat (map archive_entry_bytes es) @ slice t =
      concat (map archive_entry_bytes fs) @ slice u"
    by (simp_all add: archive_segment_bytes_def)
  from len have "length es = length fs"
    using assms(2,3) by (simp only: of_nat_u64_eq_iff)
  from concat_map_fixed_inject [of archive_entry_bytes, OF length_archive_entry_bytes this]
  have "map archive_entry_bytes es = map archive_entry_bytes fs \<and> slice t = slice u"
    using rest by (simp only:)
  then show ?thesis
    using ab by simp
qed

text \<open>The bytes whose hash is the digest of a verified segment.\<close>

definition segment_preimage :: "('sk, 'vk, 'ml) crypto \<Rightarrow> LedgerArchiveSegment \<Rightarrow> bytes" where
  "segment_preimage c seg = archive_segment_bytes
     (blake3_hash c (fingerprint_bytes (LedgerArchiveSegment.base_checkpoint seg)))
     (LedgerArchiveSegment.entries seg)
     (blake3_hash c (fingerprint_bytes (terminal_checkpoint seg)))"

lemma segment_digest_eq_Ok [result_simps]:
  "ledger_archive_segment_digest c b es t = Ok d \<longleftrightarrow>
     Verifier_verify_checkpoint c b = Ok () \<and> Verifier_verify_checkpoint c t = Ok () \<and>
     d = blake3_hash c (archive_segment_bytes (blake3_hash c (fingerprint_bytes b)) es
       (blake3_hash c (fingerprint_bytes t)))"
  by (auto simp: ledger_archive_segment_digest_def checkpoint_fingerprint_eq_Ok
      fingerprint_bytes_def)

lemma extension_entry_hashes:
  assumes "Verifier_verify_checkpoint_extension c x y es = Ok ()" and "e \<in> set es"
  shows "preimage_hash c (entry_preimage e) = Some (LedgerEntry.entry_hash e)"
proof -
  obtain vk where "extension_walk c vk (entry_count x) 0 (head_hash x) es = Ok ()"
    using assms(1) unfolding verify_checkpoint_extension_eq_Ok by blast
  from ext_walk.walk_all [OF this assms(2)] show ?thesis
    by (auto simp: verify_extension_entry_eq_Ok)
qed

lemma committed_entry_cases:
  assumes "preimage_hash c (entry_preimage e) = Some (LedgerEntry.entry_hash e)"
    and "preimage_hash c (entry_preimage f) = Some (LedgerEntry.entry_hash f)"
    and "archive_entry_bytes e = archive_entry_bytes f"
  shows "e = f \<or> entry_hash_collision c (entry_preimage e) (entry_preimage f)"
proof (cases "entry_preimage e = entry_preimage f")
  case True
  with assms(3) have "e = f"
    by (cases e; cases f) (simp add: archive_entry_bytes_inject entry_preimage_inject)
  then show ?thesis ..
next
  case False
  with assms show ?thesis
    by (simp add: entry_hash_collision_def collision_def archive_entry_bytes_inject)
qed

lemma same_hash_checkpoint_cases:
  assumes "Verifier_verify_checkpoint c a = Ok ()" and "Verifier_verify_checkpoint c b = Ok ()"
    and "blake3_hash c (fingerprint_bytes a) = blake3_hash c (fingerprint_bytes b)"
  shows "a = b \<or> bytes_collision (blake3_hash c) (fingerprint_bytes a) (fingerprint_bytes b)"
proof -
  have "LedgerCheckpoint.schema a = LedgerCheckpoint.schema b"
    using assms(1,2) by (simp add: verify_checkpoint_eq_Ok)
  then show ?thesis
    using same_hash_cases [of "blake3_hash c", OF assms(3)] fingerprint_bytes_inject by blast
qed

section \<open>Construction succeeds\<close>

lemma from_chain_eq_Ok [result_simps]:
  "LedgerArchiveSegment_from_chain c chain base_cp t = Ok seg \<longleftrightarrow>
     (\<exists>pk. ed_key_from_bytes c (ledger_public_key base_cp) = Some pk \<and>
        Verifier_verify_checkpoint_prefix c base_cp (Chain.entries chain) pk = Ok ()) \<and>
     LedgerArchiveSegment.base_checkpoint seg = base_cp \<and>
     LedgerArchiveSegment.entries seg = drop (unat (entry_count base_cp)) (Chain.entries chain) \<and>
     terminal_checkpoint seg = Chain_sign_checkpoint c t chain \<and>
     Verifier_verify_ledger_archive_segment c seg = Ok ()"
  by (cases seg)
    (auto simp: LedgerArchiveSegment_from_chain_def Let_def verify_archive_segment_eq_Ok not_less)

lemma from_anchored_chain_eq_Ok [result_simps]:
  "LedgerArchiveSegment_from_anchored_chain c chain t = Ok seg \<longleftrightarrow>
     Chain.base_checkpoint chain = Some (LedgerArchiveSegment.base_checkpoint seg) \<and>
     LedgerArchiveSegment.entries seg = Chain.entries chain \<and> Chain.entries chain \<noteq> [] \<and>
     terminal_checkpoint seg = Chain_sign_checkpoint c t chain \<and>
     Verifier_verify_ledger_archive_segment c seg = Ok ()"
  by (cases seg)
    (auto simp: LedgerArchiveSegment_from_anchored_chain_def Chain_base_checkpoint_def Let_def
      verify_archive_segment_eq_Ok not_less)

text \<open>Entries that prove an extension, within the bound, are a verified segment.\<close>

definition segment_of ::
    "('sk, 'vk, 'ml) crypto \<Rightarrow> LedgerCheckpoint \<Rightarrow> LedgerEntry list \<Rightarrow> LedgerCheckpoint \<Rightarrow>
     LedgerArchiveSegment" where
  "segment_of c base_cp es terminal_cp =
     \<lparr>LedgerArchiveSegment.schema = LEDGER_ARCHIVE_SEGMENT_SCHEMA,
      LedgerArchiveSegment.base_checkpoint = base_cp, LedgerArchiveSegment.entries = es,
      terminal_checkpoint = terminal_cp,
      segment_digest = blake3_hash c (archive_segment_bytes
        (blake3_hash c (fingerprint_bytes base_cp)) es
        (blake3_hash c (fingerprint_bytes terminal_cp)))\<rparr>"

lemma segment_of_verifies:
  assumes "Verifier_verify_checkpoint_extension c base_cp terminal_cp es = Ok ()"
    and "length es \<le> MAX_LEDGER_ARCHIVE_SEGMENT_ENTRIES"
  shows "Verifier_verify_ledger_archive_segment c (segment_of c base_cp es terminal_cp) = Ok ()"
proof -
  have "Verifier_verify_checkpoint_monotonic c base_cp terminal_cp = Ok ()"
    using assms(1) unfolding verify_checkpoint_extension_eq_Ok by blast
  then have "Verifier_verify_checkpoint c base_cp = Ok ()" "Verifier_verify_checkpoint c terminal_cp = Ok ()"
    by (simp_all add: verify_checkpoint_monotonic_eq_Ok)
  then show ?thesis
    using assms by (simp add: verify_archive_segment_eq_Ok segment_of_def segment_digest_eq_Ok)
qed

text \<open>A chain re-anchored at a checkpoint, with whatever has been appended since.\<close>

lemma anchored_steps:
  assumes "(chain_step c)\<^sup>*\<^sup>* (Chain_from_checkpoint_suffix cp [] sk) ch" and "ed25519_correct c"
  shows "Chain_ok c ch" "Chain.base_checkpoint ch = Some cp" "Chain.signing_key ch = sk"
    "base_entry_count ch = entry_count cp" "base_head_hash ch = head_hash cp"
proof -
  have "Chain_ok c (Chain_from_checkpoint_suffix cp [] sk)"
    using unat_u64_less [of "entry_count cp"]
    by (simp add: Chain_ok_def anchored_def Chain_from_checkpoint_suffix_def)
  from chain_steps_ok [OF assms this] show "Chain_ok c ch" .
  show "Chain.base_checkpoint ch = Some cp" "Chain.signing_key ch = sk"
    "base_entry_count ch = entry_count cp" "base_head_hash ch = head_hash cp"
    using chain_steps_extends [OF assms(1)]
    by (simp_all add: chain_extends_def Chain_from_checkpoint_suffix_def)
qed

lemma anchored_extension:
  assumes "(chain_step c)\<^sup>*\<^sup>* (Chain_from_checkpoint_suffix cp [] sk) ch" and "ed25519_correct c"
    and "ed25519_key_codec c" and "Verifier_verify_checkpoint c cp = Ok ()"
    and "ledger_public_key cp = ed_key_to_bytes c (ed_verifying_key c sk)"
    and "unat (entry_count cp) + length (Chain.entries ch) < 2 ^ 64"
    and "timestamp_unix_secs cp \<le> t"
  shows "Verifier_verify_checkpoint_extension c cp (Chain_sign_checkpoint c t ch)
    (Chain.entries ch) = Ok ()"
proof -
  note ch = anchored_steps [OF assms(1,2)]
  have lt: "unat (base_entry_count ch) + length (Chain.entries ch) < 2 ^ 64"
    using assms(6) ch(4) by simp
  have len: "length (Chain.entries ch) < 2 ^ 64"
    using assms(6) by simp
  have count: "Chain_entry_count ch = entry_count cp + of_nat (length (Chain.entries ch))"
    using entry_count_word [OF lt] ch(4) by simp
  have "entry_count cp \<le> Chain_entry_count ch"
    using unat_entry_count [OF lt] ch(4) by (simp add: word_le_nat_alt)
  moreover have "Chain_last_hash ch = head_hash cp" if "Chain_entry_count ch = entry_count cp"
  proof -
    have "(of_nat (length (Chain.entries ch)) :: u64) = 0"
      using that count by simp
    then have "Chain.entries ch = []"
      using len of_nat_u64_eq_iff [of "length (Chain.entries ch)" 0] by simp
    then show ?thesis using ch(5) by (simp add: last_hash_head_after head_after_simps)
  qed
  ultimately have "Verifier_verify_checkpoint_monotonic c cp (Chain_sign_checkpoint c t ch) = Ok ()"
    using assms(4,5,7) ch(3) sign_checkpoint_verifies [OF assms(2,3)]
    by (auto simp: verify_checkpoint_monotonic_eq_Ok)
  then show ?thesis
    unfolding verify_checkpoint_extension_eq_Ok
    using ch count ed25519_key_codecD(1) [OF assms(3)] last_hash_head_after [of ch]
    by (simp add: Chain_ok_def)
qed

section \<open>A concrete archive for witnesses\<close>

definition demo_cp0 :: LedgerCheckpoint where
  "demo_cp0 = Chain_sign_checkpoint demo_crypto 1 (Chain_new (filled 9))"

definition demo_cp1 :: LedgerCheckpoint where
  "demo_cp1 = Chain_sign_checkpoint demo_crypto 5 demo_chain1"

definition demo_cp2 :: LedgerCheckpoint where
  "demo_cp2 = Chain_sign_checkpoint demo_crypto 6 demo_chain2"

definition demo_seg1 :: LedgerArchiveSegment where
  "demo_seg1 = segment_of demo_crypto demo_cp0 (Chain.entries demo_chain1) demo_cp1"

definition demo_seg2 :: LedgerArchiveSegment where
  "demo_seg2 = segment_of demo_crypto demo_cp1 (drop 1 (Chain.entries demo_chain2)) demo_cp2"

lemma demo_chain1_ok:
  "Chain_ok demo_crypto demo_chain1" "base_entry_count demo_chain1 = 0"
  using chain_step_ok [OF demo_chain_steps(3)] chain_step_extends [OF demo_chain_steps(3)]
  by (simp_all add: chain_extends_def Chain_new_def Chain_ok_new [unfolded Chain_new_def])

lemma demo_segments_verify:
  "Verifier_verify_ledger_archive_segment demo_crypto demo_seg1 = Ok ()"
  "Verifier_verify_ledger_archive_segment demo_crypto demo_seg2 = Ok ()"
proof -
  have "Verifier_verify_checkpoint_extension demo_crypto demo_cp0 demo_cp1
      (Chain.entries demo_chain1) = Ok ()"
    using signed_checkpoint_extension [OF chain_step_extends [OF demo_chain_steps(3)]
        demo_chain1_ok(1), of 1 5] demo_chain1_ok(2) demo_chain_steps(1)
    by (simp add: demo_cp0_def demo_cp1_def Chain_new_def)
  then show "Verifier_verify_ledger_archive_segment demo_crypto demo_seg1 = Ok ()"
    unfolding demo_seg1_def using demo_chain_steps(1)
    by (intro segment_of_verifies) (simp_all add: MAX_LEDGER_ARCHIVE_SEGMENT_ENTRIES_def)
  have "Verifier_verify_checkpoint_extension demo_crypto demo_cp1 demo_cp2
      (drop 1 (Chain.entries demo_chain2)) = Ok ()"
    using signed_checkpoint_extension [OF chain_step_extends [OF demo_chain_steps(4)]
        demo_chain2_ok(1), of 5 6] demo_chain2_ok(4) demo_chain_steps(1,2)
    by (simp add: demo_cp1_def demo_cp2_def)
  then show "Verifier_verify_ledger_archive_segment demo_crypto demo_seg2 = Ok ()"
    unfolding demo_seg2_def using demo_chain_steps(2)
    by (intro segment_of_verifies) (simp_all add: MAX_LEDGER_ARCHIVE_SEGMENT_ENTRIES_def)
qed

lemma demo_sequence_verifies:
  "Verifier_verify_ledger_archive_sequence demo_crypto [demo_seg1, demo_seg2] = Ok ()"
  using demo_segments_verify
  by (simp add: verify_archive_sequence_eq_Ok MAX_LEDGER_ARCHIVE_SEQUENCE_SEGMENTS_def
      demo_seg1_def demo_seg2_def segment_of_def)

definition demo_anchored_chain :: "u8_32 Chain" where
  "demo_anchored_chain = fst (Chain_append demo_crypto demo_time (demo_event Revocation)
     (Chain_from_checkpoint_suffix demo_cp2 [] (filled 9)))"

lemma demo_cp2_simps:
  "entry_count demo_cp2 = 2" "ledger_public_key demo_cp2 = filled 9" "timestamp_unix_secs demo_cp2 = 6"
  using entry_count_word [of demo_chain2] demo_chain2_ok demo_chain_steps(2)
  by (simp_all add: demo_cp2_def)

lemma demo_anchored_chain_step:
  "chain_step demo_crypto (Chain_from_checkpoint_suffix demo_cp2 [] (filled 9)) demo_anchored_chain"
  "length (Chain.entries demo_anchored_chain) = 1"
proof -
  let ?ch = "Chain_from_checkpoint_suffix demo_cp2 [] (filled 9)"
  obtain e where 1: "Chain_append demo_crypto demo_time (demo_event Revocation) ?ch =
      (demo_anchored_chain, Ok e)"
    using demo_append_Ok [of ?ch] demo_cp2_simps(1)
    by (auto simp: demo_anchored_chain_def Chain_from_checkpoint_suffix_def prod_eq_iff)
  show "length (Chain.entries demo_anchored_chain) = 1"
    using append.reported_entry_is_last [OF 1] by (simp add: Chain_from_checkpoint_suffix_def)
  show "chain_step demo_crypto ?ch demo_anchored_chain"
    by (rule chain_step.append [OF _ 1]) (simp add: vec_fits_def Chain_from_checkpoint_suffix_def)
qed

section \<open>Properties\<close>

text \<open>
  C24. A verified archive sequence is one extension: all its entries, in order, prove that the last
  terminal checkpoint extends the first base checkpoint, and there are at most 2^20 of them.
\<close>

theorem archive_sequence_is_one_extension:
  assumes "Verifier_verify_ledger_archive_sequence c segs = Ok ()" and "segs \<noteq> []"
  shows "Verifier_verify_checkpoint_extension c (LedgerArchiveSegment.base_checkpoint (hd segs))
      (terminal_checkpoint (last segs)) (archived_entries segs) = Ok () \<and>
    length (archived_entries segs) \<le> 2 ^ 20"
  using adjacent_segments_extend [of segs c] verified_sequence_length [OF assms(1)] assms
  by (simp add: verify_archive_sequence_eq_Ok)

theorem archive_sequence_is_one_extension_witness:
  "Verifier_verify_checkpoint_extension demo_crypto demo_cp0 demo_cp2
      (archived_entries [demo_seg1, demo_seg2]) = Ok () \<and>
   length (archived_entries [demo_seg1, demo_seg2]) \<le> 2 ^ 20"
  using archive_sequence_is_one_extension [OF demo_sequence_verifies]
  by (simp add: demo_seg1_def demo_seg2_def segment_of_def)

text \<open>
  The segment digest commits to the whole segment: two verified segments with one digest are
  the same segment, or one of the named hash inputs is a collision (the digests' own preimages,
  the fingerprints of their base or terminal checkpoints, or two entries at one position).
\<close>

theorem archive_digest_commits:
  assumes "Verifier_verify_ledger_archive_segment c s = Ok ()"
    and "Verifier_verify_ledger_archive_segment c t = Ok ()"
    and "segment_digest s = segment_digest t"
  shows "s = t \<or>
    bytes_collision (blake3_hash c) (segment_preimage c s) (segment_preimage c t) \<or>
    bytes_collision (blake3_hash c) (fingerprint_bytes (LedgerArchiveSegment.base_checkpoint s))
      (fingerprint_bytes (LedgerArchiveSegment.base_checkpoint t)) \<or>
    bytes_collision (blake3_hash c) (fingerprint_bytes (terminal_checkpoint s))
      (fingerprint_bytes (terminal_checkpoint t)) \<or>
    (\<exists>k < length (LedgerArchiveSegment.entries s). entry_hash_collision c
       (entry_preimage (LedgerArchiveSegment.entries s ! k))
       (entry_preimage (LedgerArchiveSegment.entries t ! k)))"
    (is "_ \<or> ?digest \<or> ?base \<or> ?terminal \<or> ?entry")
proof (rule ccontr)
  let ?es = "LedgerArchiveSegment.entries s" and ?fs = "LedgerArchiveSegment.entries t"
  assume none: "\<not> (s = t \<or> ?digest \<or> ?base \<or> ?terminal \<or> ?entry)"
  note v = assms(1,2) [unfolded verify_archive_segment_eq_Ok segment_digest_eq_Ok]
  have len: "length ?es < 2 ^ 64" "length ?fs < 2 ^ 64"
    using v by (auto simp: MAX_LEDGER_ARCHIVE_SEGMENT_ENTRIES_def)
  have "blake3_hash c (segment_preimage c s) = blake3_hash c (segment_preimage c t)"
    using v assms(3) by (simp add: segment_preimage_def)
  with none have "segment_preimage c s = segment_preimage c t"
    by (simp add: bytes_collision_def)
  from archive_segment_bytes_inject [OF this [unfolded segment_preimage_def] len]
  have fp: "blake3_hash c (fingerprint_bytes (LedgerArchiveSegment.base_checkpoint s)) =
        blake3_hash c (fingerprint_bytes (LedgerArchiveSegment.base_checkpoint t))"
      "blake3_hash c (fingerprint_bytes (terminal_checkpoint s)) =
        blake3_hash c (fingerprint_bytes (terminal_checkpoint t))"
    and es: "map archive_entry_bytes ?es = map archive_entry_bytes ?fs"
    by simp_all
  have cps: "LedgerArchiveSegment.base_checkpoint s = LedgerArchiveSegment.base_checkpoint t"
      "terminal_checkpoint s = terminal_checkpoint t"
    using same_hash_checkpoint_cases [OF _ _ fp(1)] same_hash_checkpoint_cases [OF _ _ fp(2)] v none
    by blast+
  have "?es = ?fs"
  proof (rule nth_equalityI)
    show l: "length ?es = length ?fs"
      using es by (rule map_eq_imp_length_eq)
    fix k assume k: "k < length ?es"
    have "archive_entry_bytes (?es ! k) = archive_entry_bytes (?fs ! k)"
      using es k l by (metis nth_map)
    then show "?es ! k = ?fs ! k"
      using committed_entry_cases [of c "?es ! k" "?fs ! k"] extension_entry_hashes v none k l
      by (metis nth_mem)
  qed
  with cps v assms(3) none show False
    by (cases s; cases t) simp
qed

theorem archive_digest_commits_witness:
  "demo_seg2 = demo_seg2 \<or>
   bytes_collision (blake3_hash demo_crypto) (segment_preimage demo_crypto demo_seg2)
     (segment_preimage demo_crypto demo_seg2) \<or>
   bytes_collision (blake3_hash demo_crypto)
     (fingerprint_bytes (LedgerArchiveSegment.base_checkpoint demo_seg2))
     (fingerprint_bytes (LedgerArchiveSegment.base_checkpoint demo_seg2)) \<or>
   bytes_collision (blake3_hash demo_crypto) (fingerprint_bytes (terminal_checkpoint demo_seg2))
     (fingerprint_bytes (terminal_checkpoint demo_seg2)) \<or>
   (\<exists>k < length (LedgerArchiveSegment.entries demo_seg2). entry_hash_collision demo_crypto
      (entry_preimage (LedgerArchiveSegment.entries demo_seg2 ! k))
      (entry_preimage (LedgerArchiveSegment.entries demo_seg2 ! k)))"
  by (rule archive_digest_commits [OF demo_segments_verify(2) demo_segments_verify(2) refl])

text \<open>
  Archiving works: for any chain and any earlier checkpoint of it at most 4096 entries back,
  \<open>from_chain\<close> returns a segment, and the segment verifies.
\<close>

theorem archive_from_chain_succeeds:
  assumes "(chain_step c)\<^sup>*\<^sup>* (Chain_new sk) ch" and "(chain_step c)\<^sup>*\<^sup>* ch ch'"
    and "length (Chain_into_entries ch') < 2 ^ 64"
    and "length (Chain_into_entries ch') \<le> length (Chain_into_entries ch) + 4096"
    and "ed25519_correct c" and "ed25519_key_codec c" and "t \<le> t'"
  shows "\<exists>seg. LedgerArchiveSegment_from_chain c ch' (Chain_sign_checkpoint c t ch) t' = Ok seg \<and>
    Verifier_verify_ledger_archive_segment c seg = Ok ()"
proof -
  let ?cp = "Chain_sign_checkpoint c t ch"
  have all: "(chain_step c)\<^sup>*\<^sup>* (Chain_new sk) ch'"
    using assms(1,2) by (rule rtranclp_trans)
  have ok: "Chain_ok c ch'"
    using chain_steps_ok [OF all assms(5)] by simp
  note ext = chain_steps_extends [OF assms(2)]
  have base: "Chain.base_checkpoint ch' = None" "base_entry_count ch' = 0"
      "base_entry_count ch = 0"
    using chain_steps_extends [OF all] ext by (simp_all add: chain_extends_def Chain_new_def)
  have "length (Chain.entries ch) \<le> length (Chain.entries ch')"
    using ext by (auto simp: chain_extends_def prefix_def)
  then have n: "unat (Chain_entry_count ch) = length (Chain.entries ch)"
    using assms(3) base unat_entry_count [of ch] by (simp add: Chain_into_entries_def)
  have e: "Verifier_verify_checkpoint_extension c ?cp (Chain_sign_checkpoint c t' ch')
      (drop (unat (entry_count ?cp)) (Chain.entries ch')) = Ok ()"
    using signed_checkpoint_extension [OF ext ok _ assms(5-7)] assms(3) base n
    by (simp add: Chain_into_entries_def)
  have p: "Verifier_verify_checkpoint_prefix c ?cp (Chain.entries ch')
      (ed_verifying_key c (Chain.signing_key ch')) = Ok ()"
    using signed_checkpoint_prefix [OF ext ok base(1) _ assms(5,6)] assms(3)
    by (simp add: Chain_into_entries_def)
  moreover have "ed_key_from_bytes c (ledger_public_key ?cp) =
      Some (ed_verifying_key c (Chain.signing_key ch'))"
    using ext ed25519_key_codecD(1) [OF assms(6)] by (simp add: chain_extends_def)
  moreover have "Verifier_verify_ledger_archive_segment c
      (segment_of c ?cp (drop (unat (entry_count ?cp)) (Chain.entries ch'))
        (Chain_sign_checkpoint c t' ch')) = Ok ()"
    using assms(4) n e by (intro segment_of_verifies)
      (simp_all add: MAX_LEDGER_ARCHIVE_SEGMENT_ENTRIES_def Chain_into_entries_def)
  ultimately show ?thesis
    by (intro exI) (auto simp: from_chain_eq_Ok segment_of_def)
qed

theorem archive_from_chain_succeeds_witness:
  "\<exists>seg. LedgerArchiveSegment_from_chain demo_crypto demo_chain2
       (Chain_sign_checkpoint demo_crypto 5 demo_chain1) 6 = Ok seg \<and>
     Verifier_verify_ledger_archive_segment demo_crypto seg = Ok ()"
  using archive_from_chain_succeeds [of demo_crypto "filled 9" demo_chain1 demo_chain2 5 6]
    demo_chain_steps
  by (simp add: Chain_into_entries_def r_into_rtranclp [of "chain_step demo_crypto"])

text \<open>
  Archiving in rounds: after a verified archive sequence, the chain re-anchored at its last
  terminal checkpoint can take any appends; when it has between one and 4096 of them,
  \<open>from_anchored_chain\<close> returns a segment, and the sequence with that segment added verifies, as long
  as it stays within the bound on segments.
\<close>

theorem archive_rounds_compose:
  assumes "Verifier_verify_ledger_archive_sequence c segs = Ok ()" and "segs \<noteq> []"
    and "length segs < MAX_LEDGER_ARCHIVE_SEQUENCE_SEGMENTS"
    and "cp = terminal_checkpoint (last segs)"
    and "ledger_public_key cp = ed_key_to_bytes c (ed_verifying_key c sk)"
    and "(chain_step c)\<^sup>*\<^sup>* (Chain_from_checkpoint_suffix cp [] sk) ch"
    and "Chain_into_entries ch \<noteq> []" and "length (Chain_into_entries ch) \<le> 4096"
    and "unat (entry_count cp) + length (Chain_into_entries ch) < 2 ^ 64"
    and "timestamp_unix_secs cp \<le> t" and "ed25519_correct c" and "ed25519_key_codec c"
  shows "\<exists>seg. LedgerArchiveSegment_from_anchored_chain c ch t = Ok seg \<and>
    Verifier_verify_ledger_archive_sequence c (segs @ [seg]) = Ok ()"
proof -
  let ?seg = "segment_of c cp (Chain.entries ch) (Chain_sign_checkpoint c t ch)"
  have "Verifier_verify_checkpoint_extension c (LedgerArchiveSegment.base_checkpoint (last segs)) cp
      (LedgerArchiveSegment.entries (last segs)) = Ok ()"
    using assms(1,2,4) by (simp add: verify_archive_sequence_eq_Ok verify_archive_segment_eq_Ok)
  then have "Verifier_verify_checkpoint c cp = Ok ()"
    unfolding verify_checkpoint_extension_eq_Ok by (simp add: verify_checkpoint_monotonic_eq_Ok)
  then have "Verifier_verify_checkpoint_extension c cp (Chain_sign_checkpoint c t ch)
      (Chain.entries ch) = Ok ()"
    using assms by (intro anchored_extension) (simp_all add: Chain_into_entries_def)
  then have v: "Verifier_verify_ledger_archive_segment c ?seg = Ok ()"
    using assms(8) by (intro segment_of_verifies)
      (simp_all add: Chain_into_entries_def MAX_LEDGER_ARCHIVE_SEGMENT_ENTRIES_def)
  then have "LedgerArchiveSegment_from_anchored_chain c ch t = Ok ?seg"
    using assms(7) anchored_steps(2) [OF assms(6,11)]
    by (simp add: from_anchored_chain_eq_Ok segment_of_def Chain_into_entries_def)
  moreover have "Verifier_verify_ledger_archive_sequence c (segs @ [?seg]) = Ok ()"
    using assms(1-4) v by (auto simp: verify_archive_sequence_eq_Ok windows2_snoc segment_of_def)
  ultimately show ?thesis by blast
qed

theorem archive_rounds_compose_witness:
  "\<exists>seg. LedgerArchiveSegment_from_anchored_chain demo_crypto demo_anchored_chain 7 = Ok seg \<and>
     Verifier_verify_ledger_archive_sequence demo_crypto ([demo_seg1, demo_seg2] @ [seg]) = Ok ()"
proof (rule archive_rounds_compose [OF demo_sequence_verifies])
  show "(chain_step demo_crypto)\<^sup>*\<^sup>* (Chain_from_checkpoint_suffix demo_cp2 [] (filled 9))
      demo_anchored_chain"
    using demo_anchored_chain_step(1) by (rule r_into_rtranclp)
  show "Chain_into_entries demo_anchored_chain \<noteq> []"
    using demo_anchored_chain_step(2) by (auto simp: Chain_into_entries_def)
qed (use demo_anchored_chain_step(2) in \<open>simp_all add: demo_cp2_simps Chain_into_entries_def
    MAX_LEDGER_ARCHIVE_SEQUENCE_SEGMENTS_def demo_seg2_def segment_of_def\<close>)

end
