(* ===== verification/Ledger_Compaction.thy ===== *)
theory Ledger_Compaction
  imports Ledger_Archive
begin

text \<open>
  \<open>crates/xenia-ledger/src/compaction.rs\<close>: the signed preflight manifest that binds an archive
  sequence and a recovery summary to the archived boundary and the live head, its verification
  alone and against the entries of a complete or an anchored chain, and its signing.
\<close>

definition LEDGER_COMPACTION_MANIFEST_SCHEMA :: string where
  "LEDGER_COMPACTION_MANIFEST_SCHEMA = ''xenia-ledger-compaction-manifest-v1''"

record LedgerCompactionManifest =
  schema :: string
  archived_through_checkpoint :: LedgerCheckpoint
  current_checkpoint :: LedgerCheckpoint
  archive_sequence_digest :: u8_32
  recovery_summary_digest :: u8_32
  timestamp_unix_secs :: u64
  signature :: u8_64

definition ledger_compaction_manifest_message ::
    "u8_32 \<Rightarrow> u8_32 \<Rightarrow> u8_32 \<Rightarrow> u8_32 \<Rightarrow> u64 \<Rightarrow> bytes" where
  "ledger_compaction_manifest_message archived_fp current_fp archive_digest recovery_digest ts =
     as_bytes ''xenia:ledger-compaction-manifest:v1'' @ [0] @
     as_bytes LEDGER_COMPACTION_MANIFEST_SCHEMA @ [0] @
     slice archived_fp @ slice current_fp @ slice archive_digest @ slice recovery_digest @
     to_be_bytes ts"

datatype LedgerCompactionError =
    UnsupportedSchema string
  | Checkpoint CheckpointError
  | LedgerKeyMismatch
  | ManifestPredatesArchive
  | CurrentTimestampMismatch
  | CurrentBeforeArchive
  | ForkAtArchiveBoundary
  | EmptyDigest string
  | BadSignature
  | Continuity CheckpointContinuityError
  | CheckpointPrecedesAnchor

definition Verifier_verify_ledger_compaction_manifest ::
    "('sk, 'vk, 'ml) crypto \<Rightarrow> LedgerCompactionManifest \<Rightarrow> (unit, LedgerCompactionError) result" where
  "Verifier_verify_ledger_compaction_manifest c m =
     (let a = archived_through_checkpoint m; cur = current_checkpoint m;
          ts = LedgerCompactionManifest.timestamp_unix_secs m in
      if LedgerCompactionManifest.schema m \<noteq> LEDGER_COMPACTION_MANIFEST_SCHEMA
      then Err (LedgerCompactionError.UnsupportedSchema (LedgerCompactionManifest.schema m))
      else and_then (map_err LedgerCompactionError.Checkpoint (Verifier_verify_checkpoint c a)) (\<lambda>_.
        and_then (map_err LedgerCompactionError.Checkpoint (Verifier_verify_checkpoint c cur)) (\<lambda>_.
        if ledger_public_key a \<noteq> ledger_public_key cur then Err LedgerKeyMismatch
        else if ts < LedgerCheckpoint.timestamp_unix_secs a then Err ManifestPredatesArchive
        else if LedgerCheckpoint.timestamp_unix_secs cur \<noteq> ts then Err CurrentTimestampMismatch
        else if entry_count cur < entry_count a then Err CurrentBeforeArchive
        else if entry_count cur = entry_count a \<and> head_hash cur \<noteq> head_hash a
        then Err ForkAtArchiveBoundary
        else if archive_sequence_digest m = zeroed then Err (EmptyDigest ''archive_sequence'')
        else if recovery_summary_digest m = zeroed then Err (EmptyDigest ''recovery_summary'')
        else and_then (map_err LedgerCompactionError.Checkpoint (checkpoint_fingerprint c a)) (\<lambda>archived.
          and_then (map_err LedgerCompactionError.Checkpoint (checkpoint_fingerprint c cur)) (\<lambda>current.
          let message = ledger_compaction_manifest_message archived current
                (archive_sequence_digest m) (recovery_summary_digest m) ts
          in and_then (map_err LedgerCompactionError.Checkpoint
               (ok_or (ed_key_from_bytes c (ledger_public_key a)) CheckpointError.BadPublicKey))
             (\<lambda>key. if ed_verify c key message (LedgerCompactionManifest.signature m)
                then Ok () else Err LedgerCompactionError.BadSignature))))))"

definition Verifier_verify_checkpoint_extends_anchor ::
    "('sk, 'vk, 'ml) crypto \<Rightarrow> LedgerCheckpoint \<Rightarrow> LedgerCheckpoint \<Rightarrow> LedgerEntry list \<Rightarrow>
     (unit, LedgerCompactionError) result" where
  "Verifier_verify_checkpoint_extends_anchor c base cp es =
     and_then (ok_or (checked_sub (entry_count cp) (entry_count base)) CheckpointPrecedesAnchor)
       (\<lambda>relative_len.
     and_then (if unat relative_len \<le> length es then Ok (take (unat relative_len) es)
        else Err CheckpointPrecedesAnchor)
       (\<lambda>rest. map_err LedgerCompactionError.Continuity
          (Verifier_verify_checkpoint_extension c base cp rest)))"

definition Verifier_verify_ledger_compaction_manifest_against_entries ::
    "('sk, 'vk, 'ml) crypto \<Rightarrow> LedgerCompactionManifest \<Rightarrow> LedgerEntry list \<Rightarrow> 'vk \<Rightarrow>
     LedgerCheckpoint option \<Rightarrow> (unit, LedgerCompactionError) result" where
  "Verifier_verify_ledger_compaction_manifest_against_entries c m es public_key anchor =
     and_then (Verifier_verify_ledger_compaction_manifest c m) (\<lambda>_.
       case anchor of
         Some base \<Rightarrow>
           and_then (Verifier_verify_checkpoint_extends_anchor c base
               (archived_through_checkpoint m) es)
             (\<lambda>_. Verifier_verify_checkpoint_extends_anchor c base (current_checkpoint m) es)
       | None \<Rightarrow>
           and_then (map_err LedgerCompactionError.Continuity
               (Verifier_verify_checkpoint_prefix c (archived_through_checkpoint m) es public_key))
             (\<lambda>_. map_err LedgerCompactionError.Continuity
               (Verifier_verify_checkpoint_prefix c (current_checkpoint m) es public_key)))"

definition Chain_sign_compaction_manifest ::
    "('sk, 'vk, 'ml) crypto \<Rightarrow> LedgerCheckpoint \<Rightarrow> u8_32 \<Rightarrow> u8_32 \<Rightarrow> u64 \<Rightarrow> 'sk Chain \<Rightarrow>
     (LedgerCompactionManifest, LedgerCompactionError) result" where
  "Chain_sign_compaction_manifest c archived_cp archive_digest recovery_digest ts ch =
     (if archive_digest = zeroed then Err (EmptyDigest ''archive_sequence'')
      else if recovery_digest = zeroed then Err (EmptyDigest ''recovery_summary'')
      else let public_key = ed_verifying_key c (Chain.signing_key ch); es = Chain.entries ch in
      and_then
        (case Chain_base_checkpoint ch of
           Some base \<Rightarrow> Verifier_verify_checkpoint_extends_anchor c base archived_cp es
         | None \<Rightarrow> map_err LedgerCompactionError.Continuity
                     (Verifier_verify_checkpoint_prefix c archived_cp es public_key)) (\<lambda>_.
      if ts < LedgerCheckpoint.timestamp_unix_secs archived_cp then Err ManifestPredatesArchive
      else let current_cp = Chain_sign_checkpoint c ts ch in
      and_then (map_err LedgerCompactionError.Checkpoint (checkpoint_fingerprint c archived_cp))
        (\<lambda>archived.
      and_then (map_err LedgerCompactionError.Checkpoint (checkpoint_fingerprint c current_cp))
        (\<lambda>current.
      let message = ledger_compaction_manifest_message archived current archive_digest
            recovery_digest ts
      in Ok \<lparr>LedgerCompactionManifest.schema = LEDGER_COMPACTION_MANIFEST_SCHEMA,
            archived_through_checkpoint = archived_cp, current_checkpoint = current_cp,
            archive_sequence_digest = archive_digest, recovery_summary_digest = recovery_digest,
            LedgerCompactionManifest.timestamp_unix_secs = ts,
            LedgerCompactionManifest.signature = ed_sign c (Chain.signing_key ch) message\<rparr>))))"

section \<open>Characterisations\<close>

lemma compaction_message_inject [simp]:
  "ledger_compaction_manifest_message a b d r t = ledger_compaction_manifest_message a' b' d' r' t' \<longleftrightarrow>
     a = a' \<and> b = b' \<and> d = d' \<and> r = r' \<and> t = t'"
  by (simp add: ledger_compaction_manifest_message_def)

definition manifest_message :: "('sk, 'vk, 'ml) crypto \<Rightarrow> LedgerCompactionManifest \<Rightarrow> bytes" where
  "manifest_message c m = ledger_compaction_manifest_message
     (blake3_hash c (fingerprint_bytes (archived_through_checkpoint m)))
     (blake3_hash c (fingerprint_bytes (current_checkpoint m)))
     (archive_sequence_digest m) (recovery_summary_digest m)
     (LedgerCompactionManifest.timestamp_unix_secs m)"

lemma fingerprint_eq_Ok:
  "checkpoint_fingerprint c cp = Ok f \<longleftrightarrow>
     Verifier_verify_checkpoint c cp = Ok () \<and> f = blake3_hash c (fingerprint_bytes cp)"
  by (simp add: checkpoint_fingerprint_eq_Ok fingerprint_bytes_def)

lemma verify_compaction_manifest_eq_Ok [result_simps]:
  "Verifier_verify_ledger_compaction_manifest c m = Ok () \<longleftrightarrow>
     LedgerCompactionManifest.schema m = LEDGER_COMPACTION_MANIFEST_SCHEMA \<and>
     Verifier_verify_checkpoint_monotonic c (archived_through_checkpoint m) (current_checkpoint m) = Ok () \<and>
     LedgerCheckpoint.timestamp_unix_secs (current_checkpoint m) =
       LedgerCompactionManifest.timestamp_unix_secs m \<and>
     archive_sequence_digest m \<noteq> zeroed \<and> recovery_summary_digest m \<noteq> zeroed \<and>
     (\<exists>vk. ed_key_from_bytes c (ledger_public_key (archived_through_checkpoint m)) = Some vk \<and>
        ed_verify c vk (manifest_message c m) (LedgerCompactionManifest.signature m))"
proof -
  have "Verifier_verify_ledger_compaction_manifest c m = Ok () \<longleftrightarrow>
     LedgerCompactionManifest.schema m = LEDGER_COMPACTION_MANIFEST_SCHEMA \<and>
     Verifier_verify_checkpoint c (archived_through_checkpoint m) = Ok () \<and>
     Verifier_verify_checkpoint c (current_checkpoint m) = Ok () \<and>
     ledger_public_key (archived_through_checkpoint m) = ledger_public_key (current_checkpoint m) \<and>
     LedgerCheckpoint.timestamp_unix_secs (archived_through_checkpoint m) \<le>
       LedgerCompactionManifest.timestamp_unix_secs m \<and>
     LedgerCheckpoint.timestamp_unix_secs (current_checkpoint m) =
       LedgerCompactionManifest.timestamp_unix_secs m \<and>
     entry_count (archived_through_checkpoint m) \<le> entry_count (current_checkpoint m) \<and>
     (entry_count (archived_through_checkpoint m) = entry_count (current_checkpoint m) \<longrightarrow>
        head_hash (archived_through_checkpoint m) = head_hash (current_checkpoint m)) \<and>
     archive_sequence_digest m \<noteq> zeroed \<and> recovery_summary_digest m \<noteq> zeroed \<and>
     (\<exists>vk. ed_key_from_bytes c (ledger_public_key (archived_through_checkpoint m)) = Some vk \<and>
        ed_verify c vk (manifest_message c m) (LedgerCompactionManifest.signature m))"
    unfolding Verifier_verify_ledger_compaction_manifest_def Let_def if_Err_eq_Ok if_else_Err_eq_Ok
      and_then_eq_Ok map_err_eq_Ok ok_or_eq_Ok fingerprint_eq_Ok manifest_message_def not_less
      not_not de_Morgan_conj
    by (intro iffI; (elim conjE exE)?; simp; metis)
  then show ?thesis
    unfolding verify_checkpoint_monotonic_eq_Ok by metis
qed

lemma extends_anchor_eq_Ok [result_simps]:
  "Verifier_verify_checkpoint_extends_anchor c base cp es = Ok () \<longleftrightarrow>
     entry_count base \<le> entry_count cp \<and> unat (entry_count cp - entry_count base) \<le> length es \<and>
     Verifier_verify_checkpoint_extension c base cp
       (take (unat (entry_count cp - entry_count base)) es) = Ok ()"
  by (auto simp: Verifier_verify_checkpoint_extends_anchor_def checked_sub_eq_Some)

section \<open>Signed manifests verify\<close>

definition manifest_of ::
    "('sk, 'vk, 'ml) crypto \<Rightarrow> LedgerCheckpoint \<Rightarrow> u8_32 \<Rightarrow> u8_32 \<Rightarrow> u64 \<Rightarrow> 'sk Chain \<Rightarrow>
     LedgerCompactionManifest" where
  "manifest_of c archived_cp archive_digest recovery_digest ts ch =
     \<lparr>LedgerCompactionManifest.schema = LEDGER_COMPACTION_MANIFEST_SCHEMA,
      archived_through_checkpoint = archived_cp,
      current_checkpoint = Chain_sign_checkpoint c ts ch,
      archive_sequence_digest = archive_digest, recovery_summary_digest = recovery_digest,
      LedgerCompactionManifest.timestamp_unix_secs = ts,
      LedgerCompactionManifest.signature = ed_sign c (Chain.signing_key ch)
        (ledger_compaction_manifest_message (blake3_hash c (fingerprint_bytes archived_cp))
          (blake3_hash c (fingerprint_bytes (Chain_sign_checkpoint c ts ch)))
          archive_digest recovery_digest ts)\<rparr>"

lemma sign_compaction_manifest_Ok:
  assumes "Verifier_verify_checkpoint_monotonic c archived_cp (Chain_sign_checkpoint c ts ch) = Ok ()"
    and "ad \<noteq> zeroed" and "rd \<noteq> zeroed" and "ed25519_correct c" and "ed25519_key_codec c"
    and "case Chain.base_checkpoint ch of
        Some base \<Rightarrow> Verifier_verify_checkpoint_extends_anchor c base archived_cp (Chain.entries ch) = Ok ()
      | None \<Rightarrow> Verifier_verify_checkpoint_prefix c archived_cp (Chain.entries ch)
          (ed_verifying_key c (Chain.signing_key ch)) = Ok ()"
  shows "Chain_sign_compaction_manifest c archived_cp ad rd ts ch =
      Ok (manifest_of c archived_cp ad rd ts ch)"
    and "Verifier_verify_ledger_compaction_manifest c (manifest_of c archived_cp ad rd ts ch) = Ok ()"
proof -
  note mono = assms(1) [unfolded verify_checkpoint_monotonic_eq_Ok]
  have fp: "checkpoint_fingerprint c archived_cp = Ok (blake3_hash c (fingerprint_bytes archived_cp))"
    "checkpoint_fingerprint c (Chain_sign_checkpoint c ts ch) =
       Ok (blake3_hash c (fingerprint_bytes (Chain_sign_checkpoint c ts ch)))"
    using mono by (simp_all add: fingerprint_eq_Ok)
  have "LedgerCheckpoint.timestamp_unix_secs archived_cp \<le> ts"
    using mono by simp
  then show "Chain_sign_compaction_manifest c archived_cp ad rd ts ch =
      Ok (manifest_of c archived_cp ad rd ts ch)"
    using assms(2,3,6) fp
    by (auto simp: Chain_sign_compaction_manifest_def manifest_of_def Let_def
        Chain_base_checkpoint_def not_less [symmetric] split: option.splits)
  have "ed_key_from_bytes c (ledger_public_key archived_cp) =
      Some (ed_verifying_key c (Chain.signing_key ch))"
    using mono ed25519_key_codecD(1) [OF assms(5)] by simp
  then show "Verifier_verify_ledger_compaction_manifest c
      (manifest_of c archived_cp ad rd ts ch) = Ok ()"
    using assms(1-3) ed25519_correctD [OF assms(4)]
    by (simp add: verify_compaction_manifest_eq_Ok manifest_of_def manifest_message_def)
qed

lemma anchored_extends_anchor:
  assumes steps: "(chain_step c)\<^sup>*\<^sup>* (Chain_from_checkpoint_suffix cp [] sk) ch"
    and ext: "chain_extends ch ch'"
    and crypto: "ed25519_correct c" "ed25519_key_codec c"
    and cp: "Verifier_verify_checkpoint c cp = Ok ()"
      "ledger_public_key cp = ed_key_to_bytes c (ed_verifying_key c sk)"
    and lt: "unat (entry_count cp) + length (Chain.entries ch') < 2 ^ 64"
    and t: "LedgerCheckpoint.timestamp_unix_secs cp \<le> t"
  shows "Verifier_verify_checkpoint_extends_anchor c cp (Chain_sign_checkpoint c t ch)
    (Chain.entries ch') = Ok ()"
proof -
  obtain es where es: "Chain.entries ch' = Chain.entries ch @ es"
    using ext by (auto simp: chain_extends_def prefix_def)
  then have lt': "unat (entry_count cp) + length (Chain.entries ch) < 2 ^ 64"
    using lt by simp
  have base: "base_entry_count ch = entry_count cp"
    by (rule anchored_steps(4) [OF steps crypto(1)])
  then have count: "unat (Chain_entry_count ch) = unat (entry_count cp) + length (Chain.entries ch)"
    using lt' unat_entry_count [of ch] by simp
  have "Chain_entry_count ch = entry_count cp + of_nat (length (Chain.entries ch))"
    using lt' base entry_count_word [of ch] by simp
  moreover have "entry_count cp \<le> Chain_entry_count ch"
    using count by (simp add: word_le_nat_alt)
  moreover have "unat (of_nat (length (Chain.entries ch)) :: u64) = length (Chain.entries ch)"
    using lt' by (intro unat_of_nat_u64) simp
  ultimately show ?thesis
    using anchored_extension [OF steps crypto cp lt' t] es
    by (simp add: extends_anchor_eq_Ok)
qed

lemma signed_checkpoints_monotonic:
  assumes "chain_extends ch ch'" and "Chain_ok c ch'"
    and "unat (base_entry_count ch') + length (Chain.entries ch') < 2 ^ 64"
    and "ed25519_correct c" and "ed25519_key_codec c" and "t \<le> t'"
  shows "Verifier_verify_checkpoint_monotonic c (Chain_sign_checkpoint c t ch)
    (Chain_sign_checkpoint c t' ch') = Ok ()"
  using signed_checkpoint_extension [OF assms] unfolding verify_checkpoint_extension_eq_Ok by blast

section \<open>Properties\<close>

text \<open>
  Compaction preflight of a complete chain: with an earlier checkpoint of the chain as the
  archived boundary and non-zero digests, signing succeeds, and the manifest it returns verifies
  against the chain's entries, both boundaries included.
\<close>

theorem compaction_manifest_of_complete_chain:
  assumes "(chain_step c)\<^sup>*\<^sup>* (Chain_new sk) ch" and "(chain_step c)\<^sup>*\<^sup>* ch ch'"
    and "length (Chain_into_entries ch') < 2 ^ 64"
    and "ad \<noteq> zeroed" and "rd \<noteq> zeroed" and "t \<le> t'"
    and "ed25519_correct c" and "ed25519_key_codec c"
  shows "\<exists>m. Chain_sign_compaction_manifest c (Chain_sign_checkpoint c t ch) ad rd t' ch' = Ok m \<and>
    Verifier_verify_ledger_compaction_manifest_against_entries c m (Chain_into_entries ch')
      (ed_verifying_key c sk) None = Ok ()"
proof -
  have all: "(chain_step c)\<^sup>*\<^sup>* (Chain_new sk) ch'"
    using assms(1,2) by (rule rtranclp_trans)
  have ok: "Chain_ok c ch'"
    using chain_steps_ok [OF all assms(7)] by simp
  have base: "Chain.base_checkpoint ch' = None" "base_entry_count ch' = 0"
      "Chain.signing_key ch' = sk"
    using chain_steps_extends [OF all] by (simp_all add: chain_extends_def Chain_new_def)
  have len: "length (Chain.entries ch') < 2 ^ 64"
    using assms(3) by (simp add: Chain_into_entries_def)
  note pre = signed_checkpoint_prefix [OF chain_steps_extends [OF assms(2)] ok base(1) len assms(7,8)]
    signed_checkpoint_prefix [OF chain_extends_refl ok base(1) len assms(7,8)]
  have mono: "Verifier_verify_checkpoint_monotonic c (Chain_sign_checkpoint c t ch)
      (Chain_sign_checkpoint c t' ch') = Ok ()"
    using len base by (intro signed_checkpoints_monotonic chain_steps_extends [OF assms(2)] ok assms) simp
  show ?thesis
    using sign_compaction_manifest_Ok [OF mono assms(4,5,7,8)] base pre
    by (simp add: Verifier_verify_ledger_compaction_manifest_against_entries_def manifest_of_def
        Chain_into_entries_def)
qed

theorem compaction_manifest_of_complete_chain_witness:
  "\<exists>m. Chain_sign_compaction_manifest demo_crypto (Chain_sign_checkpoint demo_crypto 5 demo_chain1)
        (filled 1) (filled 2) 6 demo_chain2 = Ok m \<and>
     Verifier_verify_ledger_compaction_manifest_against_entries demo_crypto m
       (Chain_into_entries demo_chain2) (filled 9) None = Ok ()"
  using compaction_manifest_of_complete_chain
      [of demo_crypto "filled 9" demo_chain1 demo_chain2 "filled 1" "filled 2" 5 6]
    demo_chain_steps
  by (simp add: Chain_into_entries_def r_into_rtranclp [of "chain_step demo_crypto"])

text \<open>
  Compaction preflight of an anchored chain, the second or a later round: with a checkpoint
  taken since the anchor as the archived boundary, signing succeeds and the manifest verifies
  against the resident entries from the anchor.
\<close>

theorem compaction_manifest_of_anchored_chain:
  assumes "(chain_step c)\<^sup>*\<^sup>* (Chain_from_checkpoint_suffix cp [] sk) ch"
    and "(chain_step c)\<^sup>*\<^sup>* ch ch'"
    and "Verifier_verify_checkpoint c cp = Ok ()"
    and "ledger_public_key cp = ed_key_to_bytes c (ed_verifying_key c sk)"
    and "unat (entry_count cp) + length (Chain_into_entries ch') < 2 ^ 64"
    and "ad \<noteq> zeroed" and "rd \<noteq> zeroed"
    and "LedgerCheckpoint.timestamp_unix_secs cp \<le> t" and "t \<le> t'"
    and "ed25519_correct c" and "ed25519_key_codec c"
  shows "\<exists>m. Chain_sign_compaction_manifest c (Chain_sign_checkpoint c t ch) ad rd t' ch' = Ok m \<and>
    Verifier_verify_ledger_compaction_manifest_against_entries c m (Chain_into_entries ch')
      public_key (Some cp) = Ok ()"
proof -
  have all: "(chain_step c)\<^sup>*\<^sup>* (Chain_from_checkpoint_suffix cp [] sk) ch'"
    using assms(1,2) by (rule rtranclp_trans)
  note ch = anchored_steps [OF all assms(10)]
  have len: "unat (entry_count cp) + length (Chain.entries ch') < 2 ^ 64"
    using assms(5) by (simp add: Chain_into_entries_def)
  note anchor = anchored_extends_anchor [OF assms(1) chain_steps_extends [OF assms(2)] assms(10,11,3,4)
      len assms(8)]
    anchored_extends_anchor [OF all chain_extends_refl assms(10,11,3,4) len
      order.trans [OF assms(8,9)]]
  have mono: "Verifier_verify_checkpoint_monotonic c (Chain_sign_checkpoint c t ch)
      (Chain_sign_checkpoint c t' ch') = Ok ()"
    using len ch(4) by (intro signed_checkpoints_monotonic chain_steps_extends [OF assms(2)] ch(1) assms) simp
  show ?thesis
    using sign_compaction_manifest_Ok [OF mono assms(6,7,10,11)] ch(2) anchor
    by (simp add: Verifier_verify_ledger_compaction_manifest_against_entries_def manifest_of_def
        Chain_into_entries_def)
qed

theorem compaction_manifest_of_anchored_chain_witness:
  "\<exists>m. Chain_sign_compaction_manifest demo_crypto
        (Chain_sign_checkpoint demo_crypto 7 demo_anchored_chain) (filled 1) (filled 2) 8
        demo_anchored_chain = Ok m \<and>
     Verifier_verify_ledger_compaction_manifest_against_entries demo_crypto m
       (Chain_into_entries demo_anchored_chain) (filled 9) (Some demo_cp2) = Ok ()"
proof (rule compaction_manifest_of_anchored_chain [where sk = "filled 9"])
  show "(chain_step demo_crypto)\<^sup>*\<^sup>* (Chain_from_checkpoint_suffix demo_cp2 [] (filled 9))
      demo_anchored_chain"
    using demo_anchored_chain_step(1) by (rule r_into_rtranclp)
  show "Verifier_verify_checkpoint demo_crypto demo_cp2 = Ok ()"
    unfolding demo_cp2_def by (rule sign_checkpoint_verifies) simp_all
qed (use demo_anchored_chain_step(2) in \<open>simp_all add: demo_cp2_simps Chain_into_entries_def\<close>)

end
