(* ===== verification/Ledger_Key_Transition.thy ===== *)
theory Ledger_Key_Transition
  imports Ledger_Compaction
begin

text \<open>
  \<open>crates/xenia-ledger/src/key_transition.rs\<close>: the dual-signed handover of a ledger to a new key
  and the verification of the first checkpointed state of the successor epoch.
\<close>

definition LEDGER_KEY_TRANSITION_SCHEMA :: string where
  "LEDGER_KEY_TRANSITION_SCHEMA = ''xenia-ledger-key-transition-v1''"

record LedgerKeyTransition =
  schema :: string
  previous_checkpoint :: LedgerCheckpoint
  new_ledger_public_key :: u8_32
  timestamp_unix_secs :: u64
  previous_key_signature :: u8_64
  new_key_signature :: u8_64

definition ledger_key_transition_message :: "u8_32 \<Rightarrow> u8_32 \<Rightarrow> u64 \<Rightarrow> bytes" where
  "ledger_key_transition_message previous_fp new_key ts =
     as_bytes ''xenia:ledger-key-transition:v1'' @ [0] @
     as_bytes LEDGER_KEY_TRANSITION_SCHEMA @ [0] @
     slice previous_fp @ slice new_key @ to_be_bytes ts"

datatype LedgerKeyTransitionError =
    UnsupportedSchema string
  | PreviousCheckpoint CheckpointError
  | PreviousKeyMismatch
  | TransitionPredatesCheckpoint
  | KeyUnchanged
  | BadNewPublicKey
  | BadPreviousSignature
  | BadNewSignature
  | PreviousCheckpointMismatch
  | SuccessorKeyMismatch
  | CandidatePredatesTransition
  | SuccessorLedger CheckpointContinuityError

definition LedgerKeyTransition_sign ::
    "('sk, 'vk, 'ml) crypto \<Rightarrow> LedgerCheckpoint \<Rightarrow> 'sk \<Rightarrow> 'sk \<Rightarrow> u64 \<Rightarrow>
     (LedgerKeyTransition, LedgerKeyTransitionError) result" where
  "LedgerKeyTransition_sign c cp previous_signing_key new_signing_key ts =
     and_then (map_err PreviousCheckpoint (Verifier_verify_checkpoint c cp)) (\<lambda>_.
     if ledger_public_key cp \<noteq> ed_key_to_bytes c (ed_verifying_key c previous_signing_key)
     then Err PreviousKeyMismatch
     else if ts < LedgerCheckpoint.timestamp_unix_secs cp then Err TransitionPredatesCheckpoint
     else let new_key = ed_key_to_bytes c (ed_verifying_key c new_signing_key) in
     if new_key = ledger_public_key cp then Err KeyUnchanged
     else and_then (map_err PreviousCheckpoint (checkpoint_fingerprint c cp)) (\<lambda>fingerprint.
       let message = ledger_key_transition_message fingerprint new_key ts
       in Ok \<lparr>LedgerKeyTransition.schema = LEDGER_KEY_TRANSITION_SCHEMA,
             previous_checkpoint = cp, new_ledger_public_key = new_key,
             LedgerKeyTransition.timestamp_unix_secs = ts,
             previous_key_signature = ed_sign c previous_signing_key message,
             new_key_signature = ed_sign c new_signing_key message\<rparr>))"

definition Verifier_verify_ledger_key_transition ::
    "('sk, 'vk, 'ml) crypto \<Rightarrow> LedgerKeyTransition \<Rightarrow> (unit, LedgerKeyTransitionError) result" where
  "Verifier_verify_ledger_key_transition c tr =
     (let cp = previous_checkpoint tr; ts = LedgerKeyTransition.timestamp_unix_secs tr in
      if LedgerKeyTransition.schema tr \<noteq> LEDGER_KEY_TRANSITION_SCHEMA
      then Err (LedgerKeyTransitionError.UnsupportedSchema (LedgerKeyTransition.schema tr))
      else and_then (map_err PreviousCheckpoint (Verifier_verify_checkpoint c cp)) (\<lambda>_.
      if ts < LedgerCheckpoint.timestamp_unix_secs cp then Err TransitionPredatesCheckpoint
      else if new_ledger_public_key tr = ledger_public_key cp then Err KeyUnchanged
      else and_then (map_err PreviousCheckpoint
          (ok_or (ed_key_from_bytes c (ledger_public_key cp)) CheckpointError.BadPublicKey))
        (\<lambda>previous_key.
      and_then (ok_or (ed_key_from_bytes c (new_ledger_public_key tr)) BadNewPublicKey) (\<lambda>new_key.
      and_then (map_err PreviousCheckpoint (checkpoint_fingerprint c cp)) (\<lambda>fingerprint.
      let message = ledger_key_transition_message fingerprint (new_ledger_public_key tr) ts in
      if \<not> ed_verify c previous_key message (previous_key_signature tr) then Err BadPreviousSignature
      else if ed_verify c new_key message (new_key_signature tr) then Ok ()
      else Err BadNewSignature)))))"

definition Verifier_verify_ledger_key_successor ::
    "('sk, 'vk, 'ml) crypto \<Rightarrow> LedgerCheckpoint \<Rightarrow> LedgerKeyTransition \<Rightarrow> LedgerCheckpoint \<Rightarrow>
     LedgerEntry list \<Rightarrow> (unit, LedgerKeyTransitionError) result" where
  "Verifier_verify_ledger_key_successor c retained_previous tr candidate es =
     and_then (Verifier_verify_ledger_key_transition c tr) (\<lambda>_.
     if previous_checkpoint tr \<noteq> retained_previous then Err PreviousCheckpointMismatch
     else if ledger_public_key candidate \<noteq> new_ledger_public_key tr then Err SuccessorKeyMismatch
     else if LedgerCheckpoint.timestamp_unix_secs candidate <
       LedgerKeyTransition.timestamp_unix_secs tr then Err CandidatePredatesTransition
     else and_then (ok_or (ed_key_from_bytes c (new_ledger_public_key tr)) BadNewPublicKey)
       (\<lambda>new_key. map_err SuccessorLedger
          (Verifier_verify_checkpoint_prefix c candidate es new_key)))"

section \<open>Lemmas\<close>

lemma key_transition_message_inject [simp]:
  "ledger_key_transition_message a k t = ledger_key_transition_message b l u \<longleftrightarrow>
     a = b \<and> k = l \<and> t = u"
  by (simp add: ledger_key_transition_message_def)

definition transition_message :: "('sk, 'vk, 'ml) crypto \<Rightarrow> LedgerKeyTransition \<Rightarrow> bytes" where
  "transition_message c tr = ledger_key_transition_message
     (blake3_hash c (fingerprint_bytes (previous_checkpoint tr))) (new_ledger_public_key tr)
     (LedgerKeyTransition.timestamp_unix_secs tr)"

text \<open>What an accepted handover proves: both keys signed the same message about this checkpoint.\<close>

lemma verify_key_transition_eq_Ok [result_simps]:
  "Verifier_verify_ledger_key_transition c tr = Ok () \<longleftrightarrow>
     LedgerKeyTransition.schema tr = LEDGER_KEY_TRANSITION_SCHEMA \<and>
     Verifier_verify_checkpoint c (previous_checkpoint tr) = Ok () \<and>
     LedgerCheckpoint.timestamp_unix_secs (previous_checkpoint tr) \<le>
       LedgerKeyTransition.timestamp_unix_secs tr \<and>
     new_ledger_public_key tr \<noteq> ledger_public_key (previous_checkpoint tr) \<and>
     (\<exists>vk. ed_key_from_bytes c (ledger_public_key (previous_checkpoint tr)) = Some vk \<and>
        ed_verify c vk (transition_message c tr) (previous_key_signature tr)) \<and>
     (\<exists>vk. ed_key_from_bytes c (new_ledger_public_key tr) = Some vk \<and>
        ed_verify c vk (transition_message c tr) (new_key_signature tr))"
  unfolding Verifier_verify_ledger_key_transition_def Let_def if_Err_eq_Ok if_else_Err_eq_Ok
    and_then_eq_Ok map_err_eq_Ok ok_or_eq_Ok fingerprint_eq_Ok transition_message_def not_less not_not
  by (intro iffI; (elim conjE exE)?; simp; metis)

lemma verify_key_successor_eq_Ok [result_simps]:
  "Verifier_verify_ledger_key_successor c cp tr candidate es = Ok () \<longleftrightarrow>
     Verifier_verify_ledger_key_transition c tr = Ok () \<and> previous_checkpoint tr = cp \<and>
     ledger_public_key candidate = new_ledger_public_key tr \<and>
     LedgerKeyTransition.timestamp_unix_secs tr \<le> LedgerCheckpoint.timestamp_unix_secs candidate \<and>
     (\<exists>vk. ed_key_from_bytes c (new_ledger_public_key tr) = Some vk \<and>
        Verifier_verify_checkpoint_prefix c candidate es vk = Ok ())"
  by (auto simp: Verifier_verify_ledger_key_successor_def not_less)

definition transition_of ::
    "('sk, 'vk, 'ml) crypto \<Rightarrow> LedgerCheckpoint \<Rightarrow> 'sk \<Rightarrow> 'sk \<Rightarrow> u64 \<Rightarrow> LedgerKeyTransition" where
  "transition_of c cp sk sk' ts =
     (let key = ed_key_to_bytes c (ed_verifying_key c sk');
          message = ledger_key_transition_message (blake3_hash c (fingerprint_bytes cp)) key ts
      in \<lparr>LedgerKeyTransition.schema = LEDGER_KEY_TRANSITION_SCHEMA, previous_checkpoint = cp,
          new_ledger_public_key = key, LedgerKeyTransition.timestamp_unix_secs = ts,
          previous_key_signature = ed_sign c sk message, new_key_signature = ed_sign c sk' message\<rparr>)"

lemma key_transition_sign_Ok:
  assumes "Verifier_verify_checkpoint c cp = Ok ()"
    and "ledger_public_key cp = ed_key_to_bytes c (ed_verifying_key c sk)"
    and "LedgerCheckpoint.timestamp_unix_secs cp \<le> ts"
    and "ed_verifying_key c sk' \<noteq> ed_verifying_key c sk" and "ed25519_key_codec c"
  shows "LedgerKeyTransition_sign c cp sk sk' ts = Ok (transition_of c cp sk sk' ts)"
proof -
  have "checkpoint_fingerprint c cp = Ok (blake3_hash c (fingerprint_bytes cp))"
    using assms(1) by (simp add: fingerprint_eq_Ok)
  then show ?thesis
    using assms ed25519_key_codecD(3) [OF assms(5)]
    by (simp add: LedgerKeyTransition_sign_def transition_of_def Let_def not_less [symmetric])
qed

lemma transition_of_verifies:
  assumes "Verifier_verify_checkpoint c cp = Ok ()"
    and "ledger_public_key cp = ed_key_to_bytes c (ed_verifying_key c sk)"
    and "LedgerCheckpoint.timestamp_unix_secs cp \<le> ts"
    and "ed_verifying_key c sk' \<noteq> ed_verifying_key c sk"
    and "ed25519_correct c" and "ed25519_key_codec c"
  shows "Verifier_verify_ledger_key_transition c (transition_of c cp sk sk' ts) = Ok ()"
  using assms(1-4) ed25519_correctD [OF assms(5)] ed25519_key_codecD(1,3) [OF assms(6)]
  by (simp add: verify_key_transition_eq_Ok transition_of_def transition_message_def Let_def)

section \<open>Properties\<close>

text \<open>
  Key rotation: at any checkpoint of a chain its key can hand over to a different key, the
  handover verifies, and every checkpointed state of a chain begun under the new key, signed no
  earlier than the handover, is accepted as the successor epoch of that checkpoint.
\<close>

theorem key_rotation_accepted:
  assumes "(chain_step c)\<^sup>*\<^sup>* (Chain_new sk') ch'" and "length (Chain_into_entries ch') < 2 ^ 64"
    and "ed_verifying_key c sk' \<noteq> ed_verifying_key c (Chain.signing_key ch)"
    and "t \<le> t'" and "t' \<le> t''" and "ed25519_correct c" and "ed25519_key_codec c"
  shows "\<exists>tr. LedgerKeyTransition_sign c (Chain_sign_checkpoint c t ch) (Chain.signing_key ch) sk' t' =
      Ok tr \<and>
    Verifier_verify_ledger_key_transition c tr = Ok () \<and>
    Verifier_verify_ledger_key_successor c (Chain_sign_checkpoint c t ch) tr
      (Chain_sign_checkpoint c t'' ch') (Chain_into_entries ch') = Ok ()"
proof -
  let ?cp = "Chain_sign_checkpoint c t ch"
  let ?tr = "transition_of c ?cp (Chain.signing_key ch) sk' t'"
  have cp: "Verifier_verify_checkpoint c ?cp = Ok ()"
    by (rule sign_checkpoint_verifies [OF assms(6,7)])
  have tr: "LedgerKeyTransition_sign c ?cp (Chain.signing_key ch) sk' t' = Ok ?tr"
    using assms cp by (intro key_transition_sign_Ok) simp_all
  have v: "Verifier_verify_ledger_key_transition c ?tr = Ok ()"
    using assms cp by (intro transition_of_verifies) simp_all
  have ok: "Chain_ok c ch'"
    using chain_steps_ok [OF assms(1,6)] by simp
  have ch': "Chain.base_checkpoint ch' = None" "Chain.signing_key ch' = sk'"
    using chain_steps_extends [OF assms(1)] by (simp_all add: chain_extends_def Chain_new_def)
  have "Verifier_verify_checkpoint_prefix c (Chain_sign_checkpoint c t'' ch') (Chain.entries ch')
      (ed_verifying_key c sk') = Ok ()"
    using signed_checkpoint_prefix [OF chain_extends_refl ok ch'(1) _ assms(6,7)] assms(2) ch'(2)
    by (simp add: Chain_into_entries_def)
  then have "Verifier_verify_ledger_key_successor c ?cp ?tr (Chain_sign_checkpoint c t'' ch')
      (Chain_into_entries ch') = Ok ()"
    using v assms(5) ch'(2) ed25519_key_codecD(1) [OF assms(7)]
    by (simp add: verify_key_successor_eq_Ok transition_of_def Let_def Chain_into_entries_def)
  with tr v show ?thesis by blast
qed

theorem key_rotation_accepted_witness:
  "\<exists>tr. LedgerKeyTransition_sign demo_crypto
       (Chain_sign_checkpoint demo_crypto 1 (Chain_new (filled 4))) (filled 4) (filled 9) 2 = Ok tr \<and>
     Verifier_verify_ledger_key_transition demo_crypto tr = Ok () \<and>
     Verifier_verify_ledger_key_successor demo_crypto
       (Chain_sign_checkpoint demo_crypto 1 (Chain_new (filled 4))) tr
       (Chain_sign_checkpoint demo_crypto 3 demo_chain2) (Chain_into_entries demo_chain2) = Ok ()"
  using key_rotation_accepted [of demo_crypto "filled 9" demo_chain2 "Chain_new (filled 4)" 1 2 3]
    demo_chain_reachable demo_chain_steps(2)
  by (simp add: Chain_into_entries_def Chain_new_def)

end
