(* ===== verification/Ledger_Witness.thy ===== *)
theory Ledger_Witness
  imports Ledger_Key_Transition
begin

text \<open>
  \<open>crates/xenia-ledger/src/witness.rs\<close>: countersignatures over a checkpoint by independent witness
  keys, the bundle that collects them and the quorum check. The \<open>BTreeSet\<close> of observed keys is the
  list of keys inserted so far, without duplicates; its length is the set's size.
\<close>

definition CHECKPOINT_WITNESS_BUNDLE_SCHEMA :: string where
  "CHECKPOINT_WITNESS_BUNDLE_SCHEMA = ''xenia-checkpoint-witness-bundle-v1''"

definition MAX_CHECKPOINT_WITNESSES :: nat where
  "MAX_CHECKPOINT_WITNESSES = 64"

record CheckpointWitnessSignature =
  witness_public_key :: u8_32
  timestamp_unix_secs :: u64
  signature :: u8_64

record CheckpointWitnessBundle =
  schema :: string
  checkpoint :: LedgerCheckpoint
  witnesses :: "CheckpointWitnessSignature list"

definition checkpoint_witness_message :: "u8_32 \<Rightarrow> u8_32 \<Rightarrow> u64 \<Rightarrow> bytes" where
  "checkpoint_witness_message fingerprint key ts =
     as_bytes ''xenia:checkpoint-witness:v1'' @ [0] @
     as_bytes CHECKPOINT_WITNESS_BUNDLE_SCHEMA @ [0] @
     slice fingerprint @ slice key @ to_be_bytes ts"

datatype CheckpointWitnessError =
    UnsupportedSchema string
  | Checkpoint CheckpointError
  | WitnessPredatesCheckpoint
  | BadWitnessPublicKey
  | BadWitnessSignature
  | DuplicateWitness
  | UntrustedWitness
  | TooManyWitnesses nat nat
  | ZeroQuorum
  | QuorumNotMet nat nat

definition CheckpointWitnessBundle_new ::
    "('sk, 'vk, 'ml) crypto \<Rightarrow> LedgerCheckpoint \<Rightarrow>
     (CheckpointWitnessBundle, CheckpointWitnessError) result" where
  "CheckpointWitnessBundle_new c cp =
     and_then (map_err CheckpointWitnessError.Checkpoint (Verifier_verify_checkpoint c cp)) (\<lambda>_.
       Ok \<lparr>CheckpointWitnessBundle.schema = CHECKPOINT_WITNESS_BUNDLE_SCHEMA,
          checkpoint = cp, witnesses = []\<rparr>)"

definition CheckpointWitnessBundle_sign_with ::
    "('sk, 'vk, 'ml) crypto \<Rightarrow> 'sk \<Rightarrow> u64 \<Rightarrow> CheckpointWitnessBundle \<Rightarrow>
     CheckpointWitnessBundle \<times> (unit, CheckpointWitnessError) result" where
  "CheckpointWitnessBundle_sign_with c witness_signing_key ts b =
     (if ts < LedgerCheckpoint.timestamp_unix_secs (checkpoint b)
      then (b, Err WitnessPredatesCheckpoint)
      else if length (witnesses b) \<ge> MAX_CHECKPOINT_WITNESSES
      then (b, Err (TooManyWitnesses (length (witnesses b) + 1) MAX_CHECKPOINT_WITNESSES))
      else let key = ed_key_to_bytes c (ed_verifying_key c witness_signing_key) in
      if list_ex (\<lambda>w. witness_public_key w = key) (witnesses b) then (b, Err DuplicateWitness)
      else case checkpoint_fingerprint c (checkpoint b) of
          Err e \<Rightarrow> (b, Err (CheckpointWitnessError.Checkpoint e))
        | Ok fingerprint \<Rightarrow>
            (let message = checkpoint_witness_message fingerprint key ts in
             (b\<lparr>witnesses := witnesses b @ [\<lparr>witness_public_key = key,
                  CheckpointWitnessSignature.timestamp_unix_secs = ts,
                  CheckpointWitnessSignature.signature = ed_sign c witness_signing_key message\<rparr>]\<rparr>,
              Ok ())))"

definition verify_witness ::
    "('sk, 'vk, 'ml) crypto \<Rightarrow> LedgerCheckpoint \<Rightarrow> u8_32 list \<Rightarrow> u8_32 \<Rightarrow> u8_32 list \<Rightarrow>
     CheckpointWitnessSignature \<Rightarrow> (u8_32 list, CheckpointWitnessError) result" where
  "verify_witness c cp trusted fingerprint observed w =
     (if CheckpointWitnessSignature.timestamp_unix_secs w < LedgerCheckpoint.timestamp_unix_secs cp
      then Err WitnessPredatesCheckpoint
      else if witness_public_key w \<in> set observed then Err DuplicateWitness
      else if witness_public_key w \<notin> set trusted then Err UntrustedWitness
      else and_then (ok_or (ed_key_from_bytes c (witness_public_key w)) BadWitnessPublicKey) (\<lambda>key.
        let message = checkpoint_witness_message fingerprint (witness_public_key w)
              (CheckpointWitnessSignature.timestamp_unix_secs w) in
        if ed_verify c key message (CheckpointWitnessSignature.signature w)
        then Ok (witness_public_key w # observed) else Err BadWitnessSignature))"

fun verify_witness_loop ::
    "('sk, 'vk, 'ml) crypto \<Rightarrow> LedgerCheckpoint \<Rightarrow> u8_32 list \<Rightarrow> u8_32 \<Rightarrow> u8_32 list \<Rightarrow>
     CheckpointWitnessSignature list \<Rightarrow> (u8_32 list, CheckpointWitnessError) result" where
  "verify_witness_loop c cp trusted fingerprint observed [] = Ok observed"
| "verify_witness_loop c cp trusted fingerprint observed (w # ws) =
     and_then (verify_witness c cp trusted fingerprint observed w)
       (\<lambda>observed. verify_witness_loop c cp trusted fingerprint observed ws)"

definition Verifier_verify_checkpoint_witness_quorum ::
    "('sk, 'vk, 'ml) crypto \<Rightarrow> CheckpointWitnessBundle \<Rightarrow> u8_32 list \<Rightarrow> nat \<Rightarrow>
     (unit, CheckpointWitnessError) result" where
  "Verifier_verify_checkpoint_witness_quorum c b trusted_witness_keys minimum_quorum =
     (if CheckpointWitnessBundle.schema b \<noteq> CHECKPOINT_WITNESS_BUNDLE_SCHEMA
      then Err (CheckpointWitnessError.UnsupportedSchema (CheckpointWitnessBundle.schema b))
      else if minimum_quorum = 0 then Err ZeroQuorum
      else if length (witnesses b) > MAX_CHECKPOINT_WITNESSES
      then Err (TooManyWitnesses (length (witnesses b)) MAX_CHECKPOINT_WITNESSES)
      else and_then (map_err CheckpointWitnessError.Checkpoint
          (Verifier_verify_checkpoint c (checkpoint b))) (\<lambda>_.
      and_then (map_err CheckpointWitnessError.Checkpoint
          (checkpoint_fingerprint c (checkpoint b))) (\<lambda>fingerprint.
      and_then (verify_witness_loop c (checkpoint b) trusted_witness_keys fingerprint [] (witnesses b))
        (\<lambda>observed.
          if length observed < minimum_quorum
          then Err (QuorumNotMet (length observed) minimum_quorum) else Ok ()))))"

section \<open>Lemmas\<close>

lemma witness_message_inject [simp]:
  "checkpoint_witness_message a k t = checkpoint_witness_message b l u \<longleftrightarrow> a = b \<and> k = l \<and> t = u"
  by (simp add: checkpoint_witness_message_def)

text \<open>One countersignature over a fingerprint, not older than its checkpoint, is genuine.\<close>

definition genuine_witness ::
    "('sk, 'vk, 'ml) crypto \<Rightarrow> LedgerCheckpoint \<Rightarrow> CheckpointWitnessSignature \<Rightarrow> bool" where
  "genuine_witness c cp w \<longleftrightarrow>
     LedgerCheckpoint.timestamp_unix_secs cp \<le> CheckpointWitnessSignature.timestamp_unix_secs w \<and>
     (\<exists>vk. ed_key_from_bytes c (witness_public_key w) = Some vk \<and>
        ed_verify c vk (checkpoint_witness_message (blake3_hash c (fingerprint_bytes cp))
          (witness_public_key w) (CheckpointWitnessSignature.timestamp_unix_secs w))
          (CheckpointWitnessSignature.signature w))"

lemma verify_witness_eq_Ok [result_simps]:
  "verify_witness c cp trusted (blake3_hash c (fingerprint_bytes cp)) observed w = Ok obs \<longleftrightarrow>
     obs = witness_public_key w # observed \<and> witness_public_key w \<notin> set observed \<and>
     witness_public_key w \<in> set trusted \<and> genuine_witness c cp w"
  by (auto simp: verify_witness_def genuine_witness_def Let_def not_less)

lemma verify_witness_loop_eq_Ok [result_simps]:
  "verify_witness_loop c cp trusted (blake3_hash c (fingerprint_bytes cp)) observed ws = Ok obs \<longleftrightarrow>
     obs = rev (map witness_public_key ws) @ observed \<and>
     distinct (map witness_public_key ws) \<and> set (map witness_public_key ws) \<inter> set observed = {} \<and>
     (\<forall>w \<in> set ws. witness_public_key w \<in> set trusted \<and> genuine_witness c cp w)"
  by (induction ws arbitrary: observed) (auto simp: verify_witness_eq_Ok)

text \<open>The keys a bundle carries.\<close>

abbreviation witness_keys :: "CheckpointWitnessBundle \<Rightarrow> u8_32 list" where
  "witness_keys b \<equiv> map witness_public_key (witnesses b)"

lemma witness_quorum_eq_Ok [result_simps]:
  "Verifier_verify_checkpoint_witness_quorum c b trusted q = Ok () \<longleftrightarrow>
     CheckpointWitnessBundle.schema b = CHECKPOINT_WITNESS_BUNDLE_SCHEMA \<and> 0 < q \<and>
     length (witnesses b) \<le> MAX_CHECKPOINT_WITNESSES \<and>
     Verifier_verify_checkpoint c (checkpoint b) = Ok () \<and>
     distinct (witness_keys b) \<and> set (witness_keys b) \<subseteq> set trusted \<and>
     (\<forall>w \<in> set (witnesses b). genuine_witness c (checkpoint b) w) \<and>
     q \<le> length (witnesses b)"
  by (auto simp: Verifier_verify_checkpoint_witness_quorum_def fingerprint_eq_Ok
      verify_witness_loop_eq_Ok not_less)

section \<open>Building a bundle\<close>

definition bundle_ok :: "('sk, 'vk, 'ml) crypto \<Rightarrow> CheckpointWitnessBundle \<Rightarrow> bool" where
  "bundle_ok c b \<longleftrightarrow>
     CheckpointWitnessBundle.schema b = CHECKPOINT_WITNESS_BUNDLE_SCHEMA \<and>
     length (witnesses b) \<le> MAX_CHECKPOINT_WITNESSES \<and>
     Verifier_verify_checkpoint c (checkpoint b) = Ok () \<and> distinct (witness_keys b) \<and>
     (\<forall>w \<in> set (witnesses b). genuine_witness c (checkpoint b) w)"

inductive bundle_step ::
    "('sk, 'vk, 'ml) crypto \<Rightarrow> CheckpointWitnessBundle \<Rightarrow> CheckpointWitnessBundle \<Rightarrow> bool" for c where
  "CheckpointWitnessBundle_sign_with c sk ts b = (b', r) \<Longrightarrow> bundle_step c b b'"

lemma bundle_new_ok: "CheckpointWitnessBundle_new c cp = Ok b \<Longrightarrow> bundle_ok c b"
  by (auto simp: CheckpointWitnessBundle_new_def bundle_ok_def)

lemma sign_with_cases:
  assumes "CheckpointWitnessBundle_sign_with c sk ts b = (b', r)"
    and "Verifier_verify_checkpoint c (checkpoint b) = Ok ()"
  obtains (rejected) e where "b' = b" "r = Err e"
    | (signed) w where "b' = b\<lparr>witnesses := witnesses b @ [w]\<rparr>" "r = Ok ()"
      "LedgerCheckpoint.timestamp_unix_secs (checkpoint b) \<le> ts"
      "length (witnesses b) < MAX_CHECKPOINT_WITNESSES"
      "witness_public_key w \<notin> set (witness_keys b)"
      "w = \<lparr>witness_public_key = ed_key_to_bytes c (ed_verifying_key c sk),
         CheckpointWitnessSignature.timestamp_unix_secs = ts,
         CheckpointWitnessSignature.signature = ed_sign c sk (checkpoint_witness_message
           (blake3_hash c (fingerprint_bytes (checkpoint b)))
           (ed_key_to_bytes c (ed_verifying_key c sk)) ts)\<rparr>"
proof -
  have fp: "checkpoint_fingerprint c (checkpoint b) = Ok (blake3_hash c (fingerprint_bytes (checkpoint b)))"
    using assms(2) by (simp add: fingerprint_eq_Ok)
  show thesis
  proof (cases r)
    case (Ok u)
    with assms(1) show thesis
      by (intro signed [OF _ _ _ _ _ refl])
        (auto simp: CheckpointWitnessBundle_sign_with_def fp Let_def list_ex_iff split: if_split_asm)
  next
    case (Err e)
    with assms(1) show thesis
      by (intro rejected)
        (auto simp: CheckpointWitnessBundle_sign_with_def fp Let_def split: if_split_asm)
  qed
qed

lemma sign_with_ok:
  assumes "CheckpointWitnessBundle_sign_with c sk ts b = (b', r)" and "bundle_ok c b"
    and "ed25519_correct c" and "ed25519_key_codec c"
  shows "bundle_ok c b'"
proof -
  have "Verifier_verify_checkpoint c (checkpoint b) = Ok ()"
    using assms(2) by (simp add: bundle_ok_def)
  with assms(1) show ?thesis
  proof (cases rule: sign_with_cases)
    case (signed w)
    then have "genuine_witness c (checkpoint b) w"
      using ed25519_correctD [OF assms(3)] ed25519_key_codecD(1) [OF assms(4)]
      by (simp add: genuine_witness_def)
    with signed(1,4,5) assms(2) show ?thesis
      by (simp add: bundle_ok_def)
  qed (use assms(2) in simp)
qed

lemma sign_with_adds:
  assumes "Verifier_verify_checkpoint c (checkpoint b) = Ok ()"
    and "LedgerCheckpoint.timestamp_unix_secs (checkpoint b) \<le> ts"
    and "length (witnesses b) < MAX_CHECKPOINT_WITNESSES"
    and "ed_key_to_bytes c (ed_verifying_key c sk) \<notin> set (witness_keys b)"
  defines "b' \<equiv> fst (CheckpointWitnessBundle_sign_with c sk ts b)"
  shows "witness_keys b' = witness_keys b @ [ed_key_to_bytes c (ed_verifying_key c sk)]"
    and "checkpoint b' = checkpoint b" and "length (witnesses b') = Suc (length (witnesses b))"
proof -
  have "checkpoint_fingerprint c (checkpoint b) = Ok (blake3_hash c (fingerprint_bytes (checkpoint b)))"
    using assms(1) by (simp add: fingerprint_eq_Ok)
  then show "witness_keys b' = witness_keys b @ [ed_key_to_bytes c (ed_verifying_key c sk)]"
      "checkpoint b' = checkpoint b" "length (witnesses b') = Suc (length (witnesses b))"
    using assms(2-4)
    by (force simp: b'_def CheckpointWitnessBundle_sign_with_def Let_def list_ex_iff)+
qed

lemma bundle_steps_ok:
  assumes "(bundle_step c)\<^sup>*\<^sup>* b b'" and "bundle_ok c b" and "ed25519_correct c" and "ed25519_key_codec c"
  shows "bundle_ok c b'"
  using assms by (induction rule: rtranclp_induct) (auto elim!: bundle_step.cases dest: sign_with_ok)

section \<open>Properties\<close>

text \<open>
  C25. Quorum soundness and intersection. An accepted bundle has at least the required number of
  distinct trusted keys, each with a genuine countersignature over this exact checkpoint. So when
  two bundles are accepted against one trusted set and their quorums together exceed its size,
  some trusted key has genuinely countersigned both checkpoints: a host cannot have two
  conflicting checkpoints accepted unless a trusted witness signed both.
\<close>

theorem witness_quorums_intersect:
  assumes "Verifier_verify_checkpoint_witness_quorum c a trusted p = Ok ()"
    and "Verifier_verify_checkpoint_witness_quorum c b trusted q = Ok ()"
    and "card (set trusted) < p + q"
  shows "p \<le> card (set (witness_keys a)) \<and> set (witness_keys a) \<subseteq> set trusted \<and>
    (\<exists>v w. v \<in> set (witnesses a) \<and> w \<in> set (witnesses b) \<and>
       witness_public_key v = witness_public_key w \<and> witness_public_key v \<in> set trusted \<and>
       genuine_witness c (checkpoint a) v \<and> genuine_witness c (checkpoint b) w)"
proof -
  note a = assms(1) [unfolded witness_quorum_eq_Ok] and b = assms(2) [unfolded witness_quorum_eq_Ok]
  have p: "p \<le> card (set (witness_keys a))" and q: "q \<le> card (set (witness_keys b))"
    using a b by (simp_all only: distinct_card length_map)
  have "card (set (witness_keys a) \<union> set (witness_keys b)) \<le> card (set trusted)"
    using a b by (intro card_mono) auto
  with p q assms(3) have "card (set (witness_keys a) \<union> set (witness_keys b)) \<noteq>
      card (set (witness_keys a)) + card (set (witness_keys b))"
    by linarith
  then have "set (witness_keys a) \<inter> set (witness_keys b) \<noteq> {}"
    by (metis List.finite_set card_Un_disjoint)
  then obtain v w where "v \<in> set (witnesses a)" "w \<in> set (witnesses b)"
      "witness_public_key v = witness_public_key w"
    by auto
  with a b p show ?thesis
    by (metis (no_types, lifting) image_eqI list.set_map subsetD)
qed

text \<open>
  Collecting works: whatever signing attempts are made on a new bundle, in any order, with any
  keys and times, the bundle is accepted for every non-zero quorum it reaches and every trusted
  set that contains its signers.
\<close>

theorem collected_bundle_accepted:
  assumes "CheckpointWitnessBundle_new c cp = Ok b" and "(bundle_step c)\<^sup>*\<^sup>* b b'"
    and "set (witness_keys b') \<subseteq> set trusted" and "0 < q" and "q \<le> length (witnesses b')"
    and "ed25519_correct c" and "ed25519_key_codec c"
  shows "Verifier_verify_checkpoint_witness_quorum c b' trusted q = Ok ()"
  using bundle_steps_ok [OF assms(2) bundle_new_ok [OF assms(1)] assms(6,7)] assms(3-5)
  by (simp add: witness_quorum_eq_Ok bundle_ok_def)

definition demo_bundle0 :: CheckpointWitnessBundle where
  "demo_bundle0 = \<lparr>CheckpointWitnessBundle.schema = CHECKPOINT_WITNESS_BUNDLE_SCHEMA,
     checkpoint = demo_cp2, witnesses = []\<rparr>"

definition demo_bundle :: CheckpointWitnessBundle where
  "demo_bundle = fst (CheckpointWitnessBundle_sign_with demo_crypto (filled 22) 8
     (fst (CheckpointWitnessBundle_sign_with demo_crypto (filled 21) 7 demo_bundle0)))"

lemma demo_bundle:
  "CheckpointWitnessBundle_new demo_crypto demo_cp2 = Ok demo_bundle0"
  "(bundle_step demo_crypto)\<^sup>*\<^sup>* demo_bundle0 demo_bundle"
  "witness_keys demo_bundle = [filled 21, filled 22]"
proof -
  have cp: "Verifier_verify_checkpoint demo_crypto demo_cp2 = Ok ()"
    unfolding demo_cp2_def by (rule sign_checkpoint_verifies) simp_all
  then show "CheckpointWitnessBundle_new demo_crypto demo_cp2 = Ok demo_bundle0"
    by (simp add: CheckpointWitnessBundle_new_def demo_bundle0_def)
  have "bundle_step demo_crypto b (fst (CheckpointWitnessBundle_sign_with demo_crypto sk ts b))" for b sk ts
    by (rule bundle_step.intros [OF prod.collapse [symmetric]])
  then show "(bundle_step demo_crypto)\<^sup>*\<^sup>* demo_bundle0 demo_bundle"
    unfolding demo_bundle_def by (blast intro: rtranclp.rtrancl_into_rtrancl)
  let ?b1 = "fst (CheckpointWitnessBundle_sign_with demo_crypto (filled 21) 7 demo_bundle0)"
  have 1: "witness_keys ?b1 = [filled 21]" "checkpoint ?b1 = demo_cp2" "length (witnesses ?b1) = 1"
    using sign_with_adds [of demo_crypto demo_bundle0 7 "filled 21"] cp
    by (simp_all add: demo_bundle0_def demo_cp2_simps MAX_CHECKPOINT_WITNESSES_def)
  show "witness_keys demo_bundle = [filled 21, filled 22]"
    using sign_with_adds(1) [of demo_crypto ?b1 8 "filled 22"] 1 cp
    by (simp add: demo_bundle_def demo_cp2_simps MAX_CHECKPOINT_WITNESSES_def)
qed

theorem collected_bundle_accepted_witness:
  "Verifier_verify_checkpoint_witness_quorum demo_crypto demo_bundle
     [filled 21, filled 22, filled 23] 2 = Ok ()"
proof (rule collected_bundle_accepted [OF demo_bundle(1,2)])
  show "2 \<le> length (witnesses demo_bundle)"
    using arg_cong [OF demo_bundle(3), of length] by simp
qed (simp_all only: demo_bundle(3), simp_all)

theorem witness_quorums_intersect_witness:
  "2 \<le> card (set (witness_keys demo_bundle)) \<and>
   set (witness_keys demo_bundle) \<subseteq> set [filled 21, filled 22, filled 23] \<and>
   (\<exists>v w. v \<in> set (witnesses demo_bundle) \<and> w \<in> set (witnesses demo_bundle) \<and>
      witness_public_key v = witness_public_key w \<and>
      witness_public_key v \<in> set [filled 21, filled 22, filled 23] \<and>
      genuine_witness demo_crypto (checkpoint demo_bundle) v \<and>
      genuine_witness demo_crypto (checkpoint demo_bundle) w)"
proof -
  have "bundle_ok demo_crypto demo_bundle"
    by (rule bundle_steps_ok [OF demo_bundle(2) bundle_new_ok [OF demo_bundle(1)]]) simp_all
  moreover have "length (witnesses demo_bundle) = 2"
    using arg_cong [OF demo_bundle(3), of length] by simp
  moreover have "set (witness_keys demo_bundle) \<subseteq> set [filled 21, filled 22, filled 23]"
    by (simp only: demo_bundle(3)) simp
  ultimately have q: "Verifier_verify_checkpoint_witness_quorum demo_crypto demo_bundle
      [filled 21, filled 22, filled 23] 2 = Ok ()"
    by (simp add: witness_quorum_eq_Ok bundle_ok_def)
  show ?thesis
    by (rule witness_quorums_intersect [OF q q]) (simp add: card_insert_if)
qed

end
