(* ===== verification/Handshake_Keys.thy ===== *)
theory Handshake_Keys
  imports Ledger_Primitives
begin

text \<open>
  The hybrid handshake crate, \<open>crates/xenia-handshake/src/lib.rs\<close>: the crypto policy, the canonical
  transcript, the \<open>HandshakeManager\<close> with its per-peer state, the stand-alone ML-DSA identity, and the
  derivation of session, rekey and operator-channel keys.

  ML-KEM-768, HKDF-SHA-256, key generation from seeds and \<open>bincode\<close> are third-party code: the record
  \<open>prims\<close> holds them as functions, and randomness (\<open>OsRng\<close>, \<open>rand::random\<close>, the coins of the KEM) and
  the clock are arguments. Ed25519, ML-DSA and BLAKE3 are those of \<open>crypto\<close>.
\<close>

section \<open>Constants and policy\<close>

definition ML_KEM_768_PK_LEN :: nat where
  "ML_KEM_768_PK_LEN = 1184"

definition ML_KEM_768_CT_LEN :: nat where
  "ML_KEM_768_CT_LEN = 1088"

definition ML_DSA_65_PK_LEN :: nat where
  "ML_DSA_65_PK_LEN = 1952"

definition ML_DSA_65_SIG_LEN :: nat where
  "ML_DSA_65_SIG_LEN = 3309"

type_synonym ml_kem_pk = "1184 byte_array"
type_synonym ml_kem_ct = "1088 byte_array"
type_synonym ml_dsa_pk = "1952 byte_array"
type_synonym ml_dsa_sig = "3309 byte_array"

lemmas key_lengths = ML_KEM_768_PK_LEN_def ML_KEM_768_CT_LEN_def ML_DSA_65_PK_LEN_def
  ML_DSA_65_SIG_LEN_def

definition HKDF_SALT :: string where
  "HKDF_SALT = ''xenia-handshake-v1''"

definition HKDF_INFO :: string where
  "HKDF_INFO = ''xenia-session-key''"

definition KEM_SUITE_LABEL :: string where
  "KEM_SUITE_LABEL = ''ml-kem-768-fips203''"

definition TRANSCRIPT_SIGNATURE_SUITE_LABEL :: string where
  "TRANSCRIPT_SIGNATURE_SUITE_LABEL = ''ed25519-rfc8032+ml-dsa-65-fips204''"

definition KDF_SUITE_LABEL :: string where
  "KDF_SUITE_LABEL = ''hkdf-sha256''"

definition HANDSHAKE_POLICY_PROFILE :: string where
  "HANDSHAKE_POLICY_PROFILE = ''hybrid-pq-transcript-v1''"

definition HANDSHAKE_TRANSCRIPT_SCHEMA :: string where
  "HANDSHAKE_TRANSCRIPT_SCHEMA = ''xenia-handshake-transcript-v1''"

definition SESSION_KEY_SCHEDULE_SCHEMA :: string where
  "SESSION_KEY_SCHEDULE_SCHEMA = ''xenia-session-key-schedule-v1''"

definition SESSION_AEAD_KEY_LABEL :: string where
  "SESSION_AEAD_KEY_LABEL = ''xenia/session/aead''"

definition SESSION_CONTROL_KEY_LABEL :: string where
  "SESSION_CONTROL_KEY_LABEL = ''xenia/session/control''"

definition SESSION_VIDEO_KEY_LABEL :: string where
  "SESSION_VIDEO_KEY_LABEL = ''xenia/session/video''"

definition SESSION_AUDIO_KEY_LABEL :: string where
  "SESSION_AUDIO_KEY_LABEL = ''xenia/session/audio''"

definition SESSION_TELEMETRY_KEY_LABEL :: string where
  "SESSION_TELEMETRY_KEY_LABEL = ''xenia/session/telemetry''"

definition SESSION_REKEY_KEY_LABEL :: string where
  "SESSION_REKEY_KEY_LABEL = ''xenia/session/rekey''"

definition SESSION_CONTEXT_KEY_LABEL :: string where
  "SESSION_CONTEXT_KEY_LABEL = ''xenia/session/context''"

lemmas session_labels = SESSION_AEAD_KEY_LABEL_def SESSION_CONTROL_KEY_LABEL_def
  SESSION_VIDEO_KEY_LABEL_def SESSION_AUDIO_KEY_LABEL_def SESSION_TELEMETRY_KEY_LABEL_def
  SESSION_REKEY_KEY_LABEL_def SESSION_CONTEXT_KEY_LABEL_def

datatype HandshakeCryptoProfile = HybridPrePqcV1 | HybridPqTranscriptV1 | FullPqcV1

fun HandshakeCryptoProfile_stable_label :: "HandshakeCryptoProfile \<Rightarrow> string" where
  "HandshakeCryptoProfile_stable_label HybridPrePqcV1 = ''hybrid-pre-pqc-v1''"
| "HandshakeCryptoProfile_stable_label HybridPqTranscriptV1 = ''hybrid-pq-transcript-v1''"
| "HandshakeCryptoProfile_stable_label FullPqcV1 = ''full-pqc-v1''"

record HandshakeCryptoPolicy =
  profile :: HandshakeCryptoProfile
  allow_classical_transcript_signature :: bool

datatype HandshakePolicyError =
  ClassicalSignatureNotAllowed | FullPqcRequiresPostQuantumTranscriptSignature

definition HandshakeCryptoPolicy_current :: HandshakeCryptoPolicy where
  "HandshakeCryptoPolicy_current =
     \<lparr>profile = HybridPqTranscriptV1, allow_classical_transcript_signature = True\<rparr>"

definition HandshakeCryptoPolicy_full_pqc :: HandshakeCryptoPolicy where
  "HandshakeCryptoPolicy_full_pqc =
     \<lparr>profile = FullPqcV1, allow_classical_transcript_signature = False\<rparr>"

definition HandshakeCryptoPolicy_validate_current_runtime ::
    "HandshakeCryptoPolicy \<Rightarrow> (unit, HandshakePolicyError) result" where
  "HandshakeCryptoPolicy_validate_current_runtime p = (case profile p of
     HybridPrePqcV1 \<Rightarrow>
       if \<not> allow_classical_transcript_signature p then Err ClassicalSignatureNotAllowed else Ok ()
   | HybridPqTranscriptV1 \<Rightarrow> Ok ()
   | FullPqcV1 \<Rightarrow> Err FullPqcRequiresPostQuantumTranscriptSignature)"

section \<open>Errors and transcript\<close>

datatype HandshakeError =
  UnknownPeer string
| InvalidKemPublicKey nat
| InvalidKemCiphertext nat
| EncapsulationFailed
| DecapsulationFailed
| SignatureVerificationFailed
| InvalidVerifyingKey
| MlDsaSignatureVerificationFailed
| InvalidMlDsaVerifyingKey
| InvalidMlDsaSignatureEncoding
| InvalidTranscriptComponent string nat nat \<comment> \<open>name, expected, got\<close>
| TranscriptSerialization string

record HandshakeTranscriptV1 =
  schema :: string
  kem :: string
  transcript_signature :: string
  kdf :: string
  negotiated_context_hash :: "u8_32 option"
  host_ed25519_pk :: u8_32
  viewer_ed25519_pk :: u8_32
  host_ml_dsa_pk :: bytes
  viewer_ml_dsa_pk :: bytes
  host_kem_pk :: bytes
  kem_ciphertext :: bytes
  host_nonce :: u8_32
  viewer_nonce :: u8_32
  viewer_signature :: bytes
  host_signature :: bytes
  viewer_ml_dsa_signature :: bytes
  host_ml_dsa_signature :: bytes

definition validate_transcript_component :: "string \<Rightarrow> nat \<Rightarrow> nat \<Rightarrow> (unit, HandshakeError) result" where
  "validate_transcript_component name got expected =
     (if got \<noteq> expected then Err (InvalidTranscriptComponent name expected got) else Ok ())"

definition HandshakeTranscriptV1_new ::
    "u8_32 \<Rightarrow> u8_32 \<Rightarrow> bytes \<Rightarrow> bytes \<Rightarrow> bytes \<Rightarrow> bytes \<Rightarrow> u8_32 \<Rightarrow> u8_32 \<Rightarrow> bytes \<Rightarrow> bytes \<Rightarrow> bytes \<Rightarrow> bytes \<Rightarrow>
     u8_32 option \<Rightarrow> (HandshakeTranscriptV1, HandshakeError) result" where
  "HandshakeTranscriptV1_new h_ed v_ed h_ml v_ml h_kem ct h_nonce v_nonce v_sig h_sig v_ml_sig h_ml_sig
     ctx =
   and_then (validate_transcript_component ''host_ml_dsa_pk'' (length h_ml) ML_DSA_65_PK_LEN) (\<lambda>_.
   and_then (validate_transcript_component ''viewer_ml_dsa_pk'' (length v_ml) ML_DSA_65_PK_LEN) (\<lambda>_.
   and_then (validate_transcript_component ''host_kem_pk'' (length h_kem) ML_KEM_768_PK_LEN) (\<lambda>_.
   and_then (validate_transcript_component ''kem_ciphertext'' (length ct) ML_KEM_768_CT_LEN) (\<lambda>_.
   and_then (validate_transcript_component ''viewer_signature'' (length v_sig) 64) (\<lambda>_.
   and_then (validate_transcript_component ''host_signature'' (length h_sig) 64) (\<lambda>_.
   and_then (validate_transcript_component ''viewer_ml_dsa_signature'' (length v_ml_sig)
     ML_DSA_65_SIG_LEN) (\<lambda>_.
   and_then (validate_transcript_component ''host_ml_dsa_signature'' (length h_ml_sig)
     ML_DSA_65_SIG_LEN) (\<lambda>_.
   Ok \<lparr>schema = HANDSHAKE_TRANSCRIPT_SCHEMA, kem = KEM_SUITE_LABEL,
     transcript_signature = TRANSCRIPT_SIGNATURE_SUITE_LABEL, kdf = KDF_SUITE_LABEL,
     negotiated_context_hash = ctx, host_ed25519_pk = h_ed, viewer_ed25519_pk = v_ed,
     host_ml_dsa_pk = h_ml, viewer_ml_dsa_pk = v_ml, host_kem_pk = h_kem, kem_ciphertext = ct,
     host_nonce = h_nonce, viewer_nonce = v_nonce, viewer_signature = v_sig, host_signature = h_sig,
     viewer_ml_dsa_signature = v_ml_sig, host_ml_dsa_signature = h_ml_sig\<rparr>))))))))"

section \<open>Rekey contexts\<close>

datatype RekeyReason = Manual | FrameCount | ByteCount | Time | TransportChange

record RekeyEpochContextV1 =
  schema :: string
  key_epoch :: u64
  base_transcript_hash :: u8_32
  previous_epoch_hash :: u8_32
  reason :: RekeyReason

definition RekeyEpochContextV1_new ::
    "u64 \<Rightarrow> u8_32 \<Rightarrow> u8_32 \<Rightarrow> RekeyReason \<Rightarrow> RekeyEpochContextV1" where
  "RekeyEpochContextV1_new e base prev r = \<lparr>RekeyEpochContextV1.schema = ''xenia-rekey-epoch-context-v1'',
     key_epoch = e, base_transcript_hash = base, previous_epoch_hash = prev, reason = r\<rparr>"

datatype OperatorRekeyReason = Interval | Manual

record OperatorRekeyEpochContext =
  schema :: string
  key_epoch :: u64
  base_transcript_hash :: u8_32
  previous_epoch_hash :: u8_32
  reason :: OperatorRekeyReason

definition OperatorRekeyEpochContext_new ::
    "u64 \<Rightarrow> u8_32 \<Rightarrow> u8_32 \<Rightarrow> OperatorRekeyReason \<Rightarrow> OperatorRekeyEpochContext" where
  "OperatorRekeyEpochContext_new e base prev r =
     \<lparr>OperatorRekeyEpochContext.schema = ''xenia-operator-rekey-epoch-context-v1'',
       key_epoch = e, base_transcript_hash = base, previous_epoch_hash = prev, reason = r\<rparr>"

section \<open>Third-party primitives\<close>

text \<open>
  \<open>hkdf\<close> is \<open>Hkdf::<Sha256>::new(Some(salt), ikm).expand(info, &mut [0; 32])\<close>: \<open>None\<close> when \<open>expand\<close>
  reports an error. \<open>kem_encapsulate\<close> returns the ciphertext and the shared secret.
\<close>

record ('sk, 'ml, 'dk, 'ek) prims =
  ed_key_from_seed :: "u8_32 \<Rightarrow> 'sk"
  ml_key_from_seed :: "u8_32 \<Rightarrow> 'ml"
  hkdf :: "bytes \<Rightarrow> bytes \<Rightarrow> bytes \<Rightarrow> u8_32 option"
  kem_generate :: "u8_64 \<Rightarrow> 'dk \<times> 'ek"
  kem_ek_to_bytes :: "'ek \<Rightarrow> bytes"
  kem_ek_from_bytes :: "bytes \<Rightarrow> 'ek option"
  kem_encapsulate :: "u8_32 \<Rightarrow> 'ek \<Rightarrow> bytes \<times> bytes"
  kem_decapsulate :: "'dk \<Rightarrow> bytes \<Rightarrow> bytes"
  serialize_transcript :: "HandshakeTranscriptV1 \<Rightarrow> (bytes, string) result"
  serialize_rekey :: "RekeyEpochContextV1 \<Rightarrow> (bytes, string) result"
  serialize_operator_rekey :: "OperatorRekeyEpochContext \<Rightarrow> (bytes, string) result"

text \<open>
  ML-KEM-768 (FIPS 203): an encapsulation key encodes to 1184 bytes that decode to it, a ciphertext has
  1088 bytes, and decapsulating it gives the secret that was encapsulated.
\<close>

definition kem_correct :: "('sk, 'ml, 'dk, 'ek) prims \<Rightarrow> bool" where
  "kem_correct p \<longleftrightarrow> (\<forall>coins dk ek. kem_generate p coins = (dk, ek) \<longrightarrow>
     length (kem_ek_to_bytes p ek) = 1184 \<and> kem_ek_from_bytes p (kem_ek_to_bytes p ek) = Some ek \<and>
     (\<forall>r ct ss. kem_encapsulate p r ek = (ct, ss) \<longrightarrow> length ct = 1088 \<and> kem_decapsulate p dk ct = ss))"

text \<open>\<open>bincode\<close> serializes every transcript and every rekey context.\<close>

definition serializers_total :: "('sk, 'ml, 'dk, 'ek) prims \<Rightarrow> bool" where
  "serializers_total p \<longleftrightarrow> (\<forall>t. is_ok (serialize_transcript p t)) \<and> (\<forall>x. is_ok (serialize_rekey p x))"

section \<open>Canonical bytes and hashes\<close>

definition canonical_session_transcript_bytes ::
    "('sk, 'ml, 'dk, 'ek) prims \<Rightarrow> HandshakeTranscriptV1 \<Rightarrow> (bytes, HandshakeError) result" where
  "canonical_session_transcript_bytes p t = map_err TranscriptSerialization (serialize_transcript p t)"

definition compute_session_transcript_hash_from_bytes :: "('sk, 'vk, 'ml) crypto \<Rightarrow> bytes \<Rightarrow> u8_32" where
  "compute_session_transcript_hash_from_bytes c b = blake3_hash c b"

definition handshake_transcript_hash ::
    "('sk, 'vk, 'ml) crypto \<Rightarrow> ('sk, 'ml, 'dk, 'ek) prims \<Rightarrow> HandshakeTranscriptV1 \<Rightarrow>
     (u8_32, HandshakeError) result" where
  "handshake_transcript_hash c p t = and_then (canonical_session_transcript_bytes p t) (\<lambda>b.
     Ok (compute_session_transcript_hash_from_bytes c b))"

definition RekeyEpochContextV1_canonical_bytes ::
    "('sk, 'ml, 'dk, 'ek) prims \<Rightarrow> RekeyEpochContextV1 \<Rightarrow> (bytes, HandshakeError) result" where
  "RekeyEpochContextV1_canonical_bytes p x = map_err TranscriptSerialization (serialize_rekey p x)"

definition RekeyEpochContextV1_epoch_hash ::
    "('sk, 'vk, 'ml) crypto \<Rightarrow> ('sk, 'ml, 'dk, 'ek) prims \<Rightarrow> RekeyEpochContextV1 \<Rightarrow>
     (u8_32, HandshakeError) result" where
  "RekeyEpochContextV1_epoch_hash c p x = and_then (RekeyEpochContextV1_canonical_bytes p x) (\<lambda>b.
     Ok (blake3_hash c b))"

definition OperatorRekeyEpochContext_canonical_bytes ::
    "('sk, 'ml, 'dk, 'ek) prims \<Rightarrow> OperatorRekeyEpochContext \<Rightarrow> (bytes, HandshakeError) result" where
  "OperatorRekeyEpochContext_canonical_bytes p x =
     map_err TranscriptSerialization (serialize_operator_rekey p x)"

definition OperatorRekeyEpochContext_epoch_hash ::
    "('sk, 'vk, 'ml) crypto \<Rightarrow> ('sk, 'ml, 'dk, 'ek) prims \<Rightarrow> OperatorRekeyEpochContext \<Rightarrow>
     (u8_32, HandshakeError) result" where
  "OperatorRekeyEpochContext_epoch_hash c p x =
     and_then (OperatorRekeyEpochContext_canonical_bytes p x) (\<lambda>b. Ok (blake3_hash c b))"

definition host_identity_fingerprint :: "('sk, 'vk, 'ml) crypto \<Rightarrow> u8_32 \<Rightarrow> bytes \<Rightarrow> u8_32" where
  "host_identity_fingerprint c ed ml =
     blake3_hash c (as_bytes ''xenia-host-identity-fingerprint-v1'' @ slice ed @ ml)"

section \<open>Key derivation\<close>

text \<open>When \<open>expand\<close> fails a release build leaves the output zeroed.\<close>

definition hkdf_derive :: "('sk, 'ml, 'dk, 'ek) prims \<Rightarrow> bytes \<Rightarrow> bytes \<Rightarrow> u8_32" where
  "hkdf_derive p classical_nonce kem_shared_secret =
     (case hkdf p (as_bytes HKDF_SALT) (classical_nonce @ kem_shared_secret) (as_bytes HKDF_INFO) of
        Some okm \<Rightarrow> okm | None \<Rightarrow> zeroed)"

definition labeled_info :: "string \<Rightarrow> u8_32 \<Rightarrow> bytes" where
  "labeled_info label h = as_bytes label @ as_bytes '':'' @ slice h"

definition derive_labeled_session_key ::
    "('sk, 'ml, 'dk, 'ek) prims \<Rightarrow> u8_32 \<Rightarrow> u8_32 \<Rightarrow> string \<Rightarrow> u8_32" where
  "derive_labeled_session_key p root_key h label =
     (case hkdf p (as_bytes SESSION_KEY_SCHEDULE_SCHEMA) (slice root_key) (labeled_info label h) of
        Some okm \<Rightarrow> okm | None \<Rightarrow> zeroed)"

record SessionKeySchedule =
  aead :: u8_32
  control :: u8_32
  video :: u8_32
  audio :: u8_32
  telemetry :: u8_32
  rekey :: u8_32
  context_key :: u8_32

definition derive_session_key_schedule ::
    "('sk, 'ml, 'dk, 'ek) prims \<Rightarrow> u8_32 \<Rightarrow> u8_32 \<Rightarrow> SessionKeySchedule" where
  "derive_session_key_schedule p root_key h = (let k = derive_labeled_session_key p root_key h in
     \<lparr>aead = k SESSION_AEAD_KEY_LABEL, control = k SESSION_CONTROL_KEY_LABEL,
       video = k SESSION_VIDEO_KEY_LABEL, audio = k SESSION_AUDIO_KEY_LABEL,
       telemetry = k SESSION_TELEMETRY_KEY_LABEL, rekey = k SESSION_REKEY_KEY_LABEL,
       context_key = k SESSION_CONTEXT_KEY_LABEL\<rparr>)"

definition derive_negotiated_context_key ::
    "('sk, 'ml, 'dk, 'ek) prims \<Rightarrow> SessionKeySchedule \<Rightarrow> u8_32 \<Rightarrow> u8_32" where
  "derive_negotiated_context_key p schedule context_hash =
     derive_labeled_session_key p (SessionKeySchedule.context_key schedule) context_hash
       ''xenia/session/context-binding''"

record RekeyEpochKeys =
  aead :: u8_32
  control :: u8_32
  video :: u8_32
  audio :: u8_32
  telemetry :: u8_32

definition derive_rekey_epoch_keys ::
    "('sk, 'vk, 'ml) crypto \<Rightarrow> ('sk, 'ml, 'dk, 'ek) prims \<Rightarrow> SessionKeySchedule \<Rightarrow> RekeyEpochContextV1 \<Rightarrow>
     (RekeyEpochKeys, HandshakeError) result" where
  "derive_rekey_epoch_keys c p schedule x =
     and_then (RekeyEpochContextV1_epoch_hash c p x) (\<lambda>h.
       let k = derive_labeled_session_key p (SessionKeySchedule.rekey schedule) h in
       Ok \<lparr>RekeyEpochKeys.aead = k ''xenia/rekey/aead'', control = k ''xenia/rekey/control'',
         video = k ''xenia/rekey/video'', audio = k ''xenia/rekey/audio'',
         telemetry = k ''xenia/rekey/telemetry''\<rparr>)"

definition derive_operator_rekey_key :: "('sk, 'ml, 'dk, 'ek) prims \<Rightarrow> u8_32 \<Rightarrow> u8_32 \<Rightarrow> u8_32" where
  "derive_operator_rekey_key p rekey_root epoch_hash =
     derive_labeled_session_key p rekey_root epoch_hash ''xenia/operator/rekey/aead''"

section \<open>Lane separation\<close>

text \<open>The label and the hash can be read back from the HKDF info string.\<close>

lemma labeled_info_inject: "labeled_info l h = labeled_info l' h' \<longleftrightarrow> l = l' \<and> h = h'"
proof
  assume eq: "labeled_info l h = labeled_info l' h'"
  then have "as_bytes l @ as_bytes '':'' = as_bytes l' @ as_bytes '':'' \<and> slice h = slice h'"
    by (simp add: labeled_info_def append_eq_append_conv flip: append_assoc)
  then show "l = l' \<and> h = h'" by (simp add: append_eq_append_conv)
qed simp

text \<open>The inputs of one derivation.\<close>

definition hkdf_input :: "u8_32 \<Rightarrow> u8_32 \<Rightarrow> string \<Rightarrow> bytes \<times> bytes" where
  "hkdf_input root h label = (slice root, labeled_info label h)"

definition hkdf_expands :: "('sk, 'ml, 'dk, 'ek) prims \<Rightarrow> bool" where
  "hkdf_expands p \<longleftrightarrow> (\<forall>salt ikm info. hkdf p salt ikm info \<noteq> None)"

definition hkdf_collision ::
    "('sk, 'ml, 'dk, 'ek) prims \<Rightarrow> bytes \<times> bytes \<Rightarrow> bytes \<times> bytes \<Rightarrow> bool" where
  "hkdf_collision p x y \<longleftrightarrow> x \<noteq> y \<and>
     hkdf p (as_bytes SESSION_KEY_SCHEDULE_SCHEMA) (fst x) (snd x) =
     hkdf p (as_bytes SESSION_KEY_SCHEDULE_SCHEMA) (fst y) (snd y)"

lemma same_labeled_key:
  assumes "derive_labeled_session_key p r h l = derive_labeled_session_key p r' h' l'"
    and "hkdf_expands p"
  shows "(r = r' \<and> h = h' \<and> l = l') \<or> hkdf_collision p (hkdf_input r h l) (hkdf_input r' h' l')"
proof -
  obtain x y where "hkdf p (as_bytes SESSION_KEY_SCHEDULE_SCHEMA) (slice r) (labeled_info l h) = Some x"
      "hkdf p (as_bytes SESSION_KEY_SCHEDULE_SCHEMA) (slice r') (labeled_info l' h') = Some y"
    using assms(2) unfolding hkdf_expands_def by (meson option.exhaust)
  then show ?thesis
    using assms(1) by (auto simp: derive_labeled_session_key_def hkdf_collision_def hkdf_input_def
        labeled_info_inject)
qed

text \<open>The seven session lanes and the five rekey lanes with their labels.\<close>

definition session_lanes :: "(string \<times> (SessionKeySchedule \<Rightarrow> u8_32)) list" where
  "session_lanes =
     [(SESSION_AEAD_KEY_LABEL, SessionKeySchedule.aead),
      (SESSION_CONTROL_KEY_LABEL, SessionKeySchedule.control),
      (SESSION_VIDEO_KEY_LABEL, SessionKeySchedule.video),
      (SESSION_AUDIO_KEY_LABEL, SessionKeySchedule.audio),
      (SESSION_TELEMETRY_KEY_LABEL, SessionKeySchedule.telemetry),
      (SESSION_REKEY_KEY_LABEL, SessionKeySchedule.rekey),
      (SESSION_CONTEXT_KEY_LABEL, SessionKeySchedule.context_key)]"

lemma session_lane_key:
  assumes "(l, lane) \<in> set session_lanes"
  shows "lane (derive_session_key_schedule p root h) = derive_labeled_session_key p root h l"
  using assms by (auto simp: session_lanes_def derive_session_key_schedule_def Let_def)

lemma session_labels_distinct: "distinct (map fst session_lanes)"
  by (simp add: session_lanes_def session_labels)

text \<open>
  C30. Key separation. When two session lanes of two key schedules hold the same key, they are the same
  lane of schedules with the same root key and the same transcript hash, or HKDF collides on the two
  inputs named. So no lane shares a key with another one, nor with itself under another transcript.
\<close>

theorem lane_keys_separated:
  assumes "(l, lane) \<in> set session_lanes" and "(l', lane') \<in> set session_lanes"
    and "lane (derive_session_key_schedule p root h) = lane' (derive_session_key_schedule p root' h')"
    and "hkdf_expands p"
  shows "((l, lane) = (l', lane') \<and> root = root' \<and> h = h') \<or>
    hkdf_collision p (hkdf_input root h l) (hkdf_input root' h' l')"
  using same_labeled_key [of p root h l root' h' l'] assms
    eq_key_imp_eq_value [OF session_labels_distinct assms(1), of lane']
  by (auto simp: session_lane_key)

text \<open>A concrete instance: keyed checksums for HKDF, a KEM whose secret is its ciphertext.\<close>

definition demo_prims :: "(u8_32, bytes, unit, unit) prims" where
  "demo_prims = \<lparr>
     ed_key_from_seed = (\<lambda>s. s), ml_key_from_seed = (\<lambda>s. slice s),
     hkdf = (\<lambda>salt ikm info. Some (filled (checksum (salt @ ikm @ info)))),
     kem_generate = (\<lambda>_. ((), ())), kem_ek_to_bytes = (\<lambda>_. replicate 1184 5),
     kem_ek_from_bytes = (\<lambda>_. Some ()),
     kem_encapsulate = (\<lambda>r _. (replicate 1088 (hd (slice r)), [hd (slice r)])),
     kem_decapsulate = (\<lambda>_ ct. [hd ct]),
     serialize_transcript = (\<lambda>t. Ok (slice (host_nonce t) @ slice (viewer_nonce t))),
     serialize_rekey = (\<lambda>x. Ok (to_be_bytes (RekeyEpochContextV1.key_epoch x))),
     serialize_operator_rekey = (\<lambda>x. Ok (to_be_bytes (OperatorRekeyEpochContext.key_epoch x)))\<rparr>"

lemma demo_prims_lawful [simp]:
  "kem_correct demo_prims" "serializers_total demo_prims" "hkdf_expands demo_prims"
  by (simp_all add: kem_correct_def serializers_total_def hkdf_expands_def demo_prims_def)

theorem lane_keys_separated_witness:
  "(SESSION_VIDEO_KEY_LABEL, SessionKeySchedule.video) \<in> set session_lanes \<and>
   ((SESSION_VIDEO_KEY_LABEL, SessionKeySchedule.video) =
      (SESSION_VIDEO_KEY_LABEL, SessionKeySchedule.video) \<and> (filled 1 :: u8_32) = filled 1 \<and>
      (filled 2 :: u8_32) = filled 2 \<or>
    hkdf_collision demo_prims (hkdf_input (filled 1) (filled 2) SESSION_VIDEO_KEY_LABEL)
      (hkdf_input (filled 1) (filled 2) SESSION_VIDEO_KEY_LABEL))"
proof -
  have lane: "(SESSION_VIDEO_KEY_LABEL, SessionKeySchedule.video) \<in> set session_lanes"
    by (simp add: session_lanes_def)
  from lane lane_keys_separated [OF lane lane refl demo_prims_lawful(3)] show ?thesis by blast
qed

end
