(* ===== verification/Handshake_Manager.thy ===== *)
theory Handshake_Manager
  imports Handshake_Keys
begin

text \<open>
  \<open>HandshakeManager\<close> and \<open>MlDsaIdentity\<close> of \<open>crates/xenia-handshake/src/lib.rs\<close>: signing and verifying
  with both algorithms, and the per-peer KEM state. Every operation that mutates the manager returns
  the manager after it, also when it fails.
\<close>

section \<open>State\<close>

record SessionKey =
  key :: u8_32
  established_at :: SystemTime

record ('sk, 'ml, 'dk) HandshakeManager =
  signing_key :: 'sk
  ml_dsa_signing_key :: 'ml
  sessions :: "string \<rightharpoonup> SessionKey"
  pending_kem :: "string \<rightharpoonup> bytes"
  pending_decap :: "string \<rightharpoonup> 'dk"

definition HandshakeManager_from_identity_seeds ::
    "('sk, 'ml, 'dk, 'ek) prims \<Rightarrow> u8_32 \<Rightarrow> u8_32 \<Rightarrow> ('sk, 'ml, 'dk) HandshakeManager" where
  "HandshakeManager_from_identity_seeds p ed25519_secret ml_dsa_seed =
     \<lparr>signing_key = ed_key_from_seed p ed25519_secret,
       ml_dsa_signing_key = ml_key_from_seed p ml_dsa_seed,
       sessions = Map.empty, pending_kem = Map.empty, pending_decap = Map.empty\<rparr>"

text \<open>\<open>new()\<close>, with the two random seeds it draws.\<close>

definition HandshakeManager_new ::
    "('sk, 'ml, 'dk, 'ek) prims \<Rightarrow> u8_32 \<Rightarrow> u8_32 \<Rightarrow> ('sk, 'ml, 'dk) HandshakeManager" where
  "HandshakeManager_new p = HandshakeManager_from_identity_seeds p"

section \<open>Identity\<close>

definition HandshakeManager_identity_public_key_bytes ::
    "('sk, 'vk, 'ml) crypto \<Rightarrow> ('sk, 'ml, 'dk) HandshakeManager \<Rightarrow> u8_32" where
  "HandshakeManager_identity_public_key_bytes c mgr =
     ed_key_to_bytes c (ed_verifying_key c (signing_key mgr))"

definition HandshakeManager_sign ::
    "('sk, 'vk, 'ml) crypto \<Rightarrow> ('sk, 'ml, 'dk) HandshakeManager \<Rightarrow> bytes \<Rightarrow> u8_64" where
  "HandshakeManager_sign c mgr message = ed_sign c (signing_key mgr) message"

definition HandshakeManager_verify ::
    "('sk, 'vk, 'ml) crypto \<Rightarrow> 'vk \<Rightarrow> bytes \<Rightarrow> u8_64 \<Rightarrow> (unit, HandshakeError) result" where
  "HandshakeManager_verify c peer_pk message sig =
     (if ed_verify c peer_pk message sig then Ok () else Err SignatureVerificationFailed)"

definition HandshakeManager_parse_peer_public_key ::
    "('sk, 'vk, 'ml) crypto \<Rightarrow> u8_32 \<Rightarrow> ('vk, HandshakeError) result" where
  "HandshakeManager_parse_peer_public_key c b = ok_or (ed_key_from_bytes c b) InvalidVerifyingKey"

definition HandshakeManager_ml_dsa_public_key_bytes ::
    "('sk, 'vk, 'ml) crypto \<Rightarrow> ('sk, 'ml, 'dk) HandshakeManager \<Rightarrow> ml_dsa_pk" where
  "HandshakeManager_ml_dsa_public_key_bytes c mgr =
     copy_from_slice (ml_verifying_key c MlDsa65 (ml_dsa_signing_key mgr))"

definition HandshakeManager_sign_ml_dsa ::
    "('sk, 'vk, 'ml) crypto \<Rightarrow> ('sk, 'ml, 'dk) HandshakeManager \<Rightarrow> bytes \<Rightarrow> ml_dsa_sig" where
  "HandshakeManager_sign_ml_dsa c mgr message =
     copy_from_slice (ml_sign c MlDsa65 (ml_dsa_signing_key mgr) message)"

text \<open>The parsed key is represented by its encoding.\<close>

definition HandshakeManager_parse_peer_ml_dsa_public_key ::
    "('sk, 'vk, 'ml) crypto \<Rightarrow> ml_dsa_pk \<Rightarrow> (bytes, HandshakeError) result" where
  "HandshakeManager_parse_peer_ml_dsa_public_key c b =
     (if ml_key_encoding_ok c MlDsa65 (slice b) then Ok (slice b) else Err InvalidMlDsaVerifyingKey)"

definition HandshakeManager_verify_ml_dsa ::
    "('sk, 'vk, 'ml) crypto \<Rightarrow> ml_dsa_pk \<Rightarrow> bytes \<Rightarrow> ml_dsa_sig \<Rightarrow> (unit, HandshakeError) result" where
  "HandshakeManager_verify_ml_dsa c peer_pk message sig =
     and_then (HandshakeManager_parse_peer_ml_dsa_public_key c peer_pk) (\<lambda>verifying_key.
     if \<not> ml_signature_encoding_ok c MlDsa65 (slice sig) then Err InvalidMlDsaSignatureEncoding
     else if \<not> ml_signature_decodes c MlDsa65 (slice sig) then Err InvalidMlDsaSignatureEncoding
     else if ml_verify c MlDsa65 verifying_key message (slice sig) then Ok ()
     else Err MlDsaSignatureVerificationFailed)"

definition HandshakeManager_identity_fingerprint ::
    "('sk, 'vk, 'ml) crypto \<Rightarrow> ('sk, 'ml, 'dk) HandshakeManager \<Rightarrow> u8_32" where
  "HandshakeManager_identity_fingerprint c mgr =
     host_identity_fingerprint c (HandshakeManager_identity_public_key_bytes c mgr)
       (slice (HandshakeManager_ml_dsa_public_key_bytes c mgr))"

text \<open>\<open>MlDsaIdentity\<close> has the signing key as its only field.\<close>

definition MlDsaIdentity_from_seed :: "('sk, 'ml, 'dk, 'ek) prims \<Rightarrow> u8_32 \<Rightarrow> 'ml" where
  "MlDsaIdentity_from_seed p seed = ml_key_from_seed p seed"

definition MlDsaIdentity_public_key_bytes :: "('sk, 'vk, 'ml) crypto \<Rightarrow> 'ml \<Rightarrow> ml_dsa_pk" where
  "MlDsaIdentity_public_key_bytes c sk = copy_from_slice (ml_verifying_key c MlDsa65 sk)"

definition MlDsaIdentity_sign :: "('sk, 'vk, 'ml) crypto \<Rightarrow> 'ml \<Rightarrow> bytes \<Rightarrow> ml_dsa_sig" where
  "MlDsaIdentity_sign c sk message = copy_from_slice (ml_sign c MlDsa65 sk message)"

definition MlDsaIdentity_verify ::
    "('sk, 'vk, 'ml) crypto \<Rightarrow> ml_dsa_pk \<Rightarrow> bytes \<Rightarrow> ml_dsa_sig \<Rightarrow> (unit, HandshakeError) result" where
  "MlDsaIdentity_verify c peer_pk message sig = HandshakeManager_verify_ml_dsa c peer_pk message sig"

section \<open>KEM operations\<close>

definition HandshakeManager_generate_kem_public_key ::
    "('sk, 'ml, 'dk, 'ek) prims \<Rightarrow> u8_64 \<Rightarrow> string \<Rightarrow> ('sk, 'ml, 'dk) HandshakeManager \<Rightarrow>
     ('sk, 'ml, 'dk) HandshakeManager \<times> ml_kem_pk" where
  "HandshakeManager_generate_kem_public_key p coins peer_id mgr =
     (let (kem_dk, kem_ek) = kem_generate p coins in
      (mgr\<lparr>pending_decap := (pending_decap mgr)(peer_id \<mapsto> kem_dk)\<rparr>,
       copy_from_slice (kem_ek_to_bytes p kem_ek)))"

definition HandshakeManager_receive_kem_public_key ::
    "string \<Rightarrow> bytes \<Rightarrow> ('sk, 'ml, 'dk) HandshakeManager \<Rightarrow>
     ('sk, 'ml, 'dk) HandshakeManager \<times> (unit, HandshakeError) result" where
  "HandshakeManager_receive_kem_public_key peer_id kem_pk mgr =
     (if length kem_pk \<noteq> ML_KEM_768_PK_LEN then (mgr, Err (InvalidKemPublicKey (length kem_pk)))
      else (mgr\<lparr>pending_kem := (pending_kem mgr)(peer_id \<mapsto> kem_pk)\<rparr>, Ok ()))"

definition HandshakeManager_encapsulate_for_peer ::
    "('sk, 'ml, 'dk, 'ek) prims \<Rightarrow> u8_32 \<Rightarrow> SystemTime \<Rightarrow> string \<Rightarrow> bytes \<Rightarrow>
     ('sk, 'ml, 'dk) HandshakeManager \<Rightarrow>
     ('sk, 'ml, 'dk) HandshakeManager \<times> (bytes, HandshakeError) result" where
  "HandshakeManager_encapsulate_for_peer p coins now peer_id classical_nonce mgr =
     (case pending_kem mgr peer_id of
        None \<Rightarrow> (mgr, Err (UnknownPeer peer_id))
      | Some pk_bytes \<Rightarrow>
          let mgr1 = mgr\<lparr>pending_kem := (pending_kem mgr)(peer_id := None)\<rparr> in
          (case kem_ek_from_bytes p pk_bytes of
             None \<Rightarrow> (mgr1, Err (InvalidKemPublicKey (length pk_bytes)))
           | Some ek \<Rightarrow>
               let (ct, shared) = kem_encapsulate p coins ek;
                   session_key = hkdf_derive p classical_nonce shared
               in (mgr1\<lparr>sessions := (sessions mgr1)(peer_id \<mapsto>
                     \<lparr>key = session_key, established_at = now\<rparr>)\<rparr>, Ok ct)))"

definition HandshakeManager_decapsulate_and_derive ::
    "('sk, 'ml, 'dk, 'ek) prims \<Rightarrow> SystemTime \<Rightarrow> string \<Rightarrow> bytes \<Rightarrow> bytes \<Rightarrow>
     ('sk, 'ml, 'dk) HandshakeManager \<Rightarrow>
     ('sk, 'ml, 'dk) HandshakeManager \<times> (u8_32, HandshakeError) result" where
  "HandshakeManager_decapsulate_and_derive p now peer_id kem_ct classical_nonce mgr =
     (if length kem_ct \<noteq> ML_KEM_768_CT_LEN then (mgr, Err (InvalidKemCiphertext (length kem_ct)))
      else case pending_decap mgr peer_id of
        None \<Rightarrow> (mgr, Err (UnknownPeer peer_id))
      | Some kem_dk \<Rightarrow>
          let mgr1 = mgr\<lparr>pending_decap := (pending_decap mgr)(peer_id := None)\<rparr>;
              session_key = hkdf_derive p classical_nonce (kem_decapsulate p kem_dk kem_ct)
          in (mgr1\<lparr>sessions := (sessions mgr1)(peer_id \<mapsto>
                \<lparr>key = session_key, established_at = now\<rparr>)\<rparr>, Ok session_key))"

definition HandshakeManager_session_key ::
    "string \<Rightarrow> ('sk, 'ml, 'dk) HandshakeManager \<Rightarrow> SessionKey option" where
  "HandshakeManager_session_key peer_id mgr = sessions mgr peer_id"

definition HandshakeManager_remove_session ::
    "string \<Rightarrow> ('sk, 'ml, 'dk) HandshakeManager \<Rightarrow> ('sk, 'ml, 'dk) HandshakeManager" where
  "HandshakeManager_remove_session peer_id mgr =
     mgr\<lparr>sessions := (sessions mgr)(peer_id := None),
        pending_kem := (pending_kem mgr)(peer_id := None),
        pending_decap := (pending_decap mgr)(peer_id := None)\<rparr>"

lemmas manager_defs = HandshakeManager_generate_kem_public_key_def
  HandshakeManager_receive_kem_public_key_def HandshakeManager_encapsulate_for_peer_def
  HandshakeManager_decapsulate_and_derive_def HandshakeManager_remove_session_def

section \<open>Signatures verify\<close>

lemma verify_eq_Ok [result_simps]: "HandshakeManager_verify c pk m s = Ok () \<longleftrightarrow> ed_verify c pk m s"
  by (simp add: HandshakeManager_verify_def)

lemma parse_peer_public_key_eq_Ok [result_simps]:
  "HandshakeManager_parse_peer_public_key c b = Ok k \<longleftrightarrow> ed_key_from_bytes c b = Some k"
  by (simp add: HandshakeManager_parse_peer_public_key_def)

definition ml_dsa_65_accepts :: "('sk, 'vk, 'ml) crypto \<Rightarrow> ml_dsa_pk \<Rightarrow> bytes \<Rightarrow> ml_dsa_sig \<Rightarrow> bool" where
  "ml_dsa_65_accepts c pk m s \<longleftrightarrow> ml_key_encoding_ok c MlDsa65 (slice pk) \<and>
     ml_signature_encoding_ok c MlDsa65 (slice s) \<and> ml_signature_decodes c MlDsa65 (slice s) \<and>
     ml_verify c MlDsa65 (slice pk) m (slice s)"

lemma verify_ml_dsa_65_eq_Ok [result_simps]:
  "HandshakeManager_verify_ml_dsa c pk m s = Ok () \<longleftrightarrow> ml_dsa_65_accepts c pk m s"
  by (auto simp: HandshakeManager_verify_ml_dsa_def ml_dsa_65_accepts_def
      HandshakeManager_parse_peer_ml_dsa_public_key_def)

lemma ml_dsa_65_signs:
  assumes "ml_dsa_correct c MlDsa65"
  shows "ml_dsa_65_accepts c (copy_from_slice (ml_verifying_key c MlDsa65 sk)) m
    (copy_from_slice (ml_sign c MlDsa65 sk m))"
  using assms by (simp add: ml_dsa_correct_def ml_dsa_65_accepts_def)

lemma manager_signs:
  assumes "ed25519_correct c" and "ed25519_key_codec c" and "ml_dsa_correct c MlDsa65"
  shows "ed_key_from_bytes c (HandshakeManager_identity_public_key_bytes c mgr) =
      Some (ed_verifying_key c (signing_key mgr))"
    and "ed_verify c (ed_verifying_key c (signing_key mgr)) m (HandshakeManager_sign c mgr m)"
    and "ml_dsa_65_accepts c (HandshakeManager_ml_dsa_public_key_bytes c mgr) m
      (HandshakeManager_sign_ml_dsa c mgr m)"
  using assms
  by (simp_all add: HandshakeManager_identity_public_key_bytes_def ed25519_key_codecD
      HandshakeManager_sign_def ed25519_correctD HandshakeManager_ml_dsa_public_key_bytes_def
      HandshakeManager_sign_ml_dsa_def ml_dsa_65_signs)

section \<open>The KEM exchange\<close>

text \<open>
  The operations keep the identity, and each touches only the entries of its own peer.
\<close>

definition same_identity ::
    "('sk, 'ml, 'dk) HandshakeManager \<Rightarrow> ('sk, 'ml, 'dk) HandshakeManager \<Rightarrow> bool" where
  "same_identity m m' \<longleftrightarrow> signing_key m' = signing_key m \<and> ml_dsa_signing_key m' = ml_dsa_signing_key m"

text \<open>The state of one peer in a manager.\<close>

definition peer_state ::
    "('sk, 'ml, 'dk) HandshakeManager \<Rightarrow> string \<Rightarrow> SessionKey option \<times> bytes option \<times> 'dk option" where
  "peer_state m q = (sessions m q, pending_kem m q, pending_decap m q)"

text \<open>One call on the manager for the peer \<open>q\<close>.\<close>

inductive manager_step ::
    "('sk, 'ml, 'dk, 'ek) prims \<Rightarrow> string \<Rightarrow> ('sk, 'ml, 'dk) HandshakeManager \<Rightarrow>
     ('sk, 'ml, 'dk) HandshakeManager \<Rightarrow> bool" for p q where
  generate: "HandshakeManager_generate_kem_public_key p coins q m = (m', pk) \<Longrightarrow> manager_step p q m m'"
| receive: "HandshakeManager_receive_kem_public_key q pk m = (m', r) \<Longrightarrow> manager_step p q m m'"
| encapsulate: "HandshakeManager_encapsulate_for_peer p coins now q nonce m = (m', r') \<Longrightarrow>
    manager_step p q m m'"
| decapsulate: "HandshakeManager_decapsulate_and_derive p now q ct nonce m = (m', r'') \<Longrightarrow>
    manager_step p q m m'"
| remove: "manager_step p q m (HandshakeManager_remove_session q m)"

lemma manager_step_frame:
  assumes "manager_step p q m m'"
  shows "same_identity m m'" and "q' \<noteq> q \<Longrightarrow> peer_state m' q' = peer_state m q'"
  using assms
  by (induction rule: manager_step.induct)
    (auto simp: manager_defs same_identity_def peer_state_def Let_def
      split: if_splits option.splits prod.splits)

lemma decapsulate_needs_pending:
  assumes "HandshakeManager_decapsulate_and_derive p now q ct nonce m = (m', Ok k)"
  shows "\<exists>dk. pending_decap m q = Some dk" and "pending_decap m' q = None"
    and "sessions m' q = Some \<lparr>key = k, established_at = now\<rparr>"
  using assms
  by (auto simp: HandshakeManager_decapsulate_and_derive_def Let_def split: if_splits option.splits)

text \<open>
  Both ends of an exchange over an honest channel hold the same session key afterwards.
\<close>

lemma kem_agreement:
  assumes "kem_correct p"
    and gen: "HandshakeManager_generate_kem_public_key p coins q host = (host1, pk)"
    and rcv: "HandshakeManager_receive_kem_public_key q' (slice pk) viewer = (viewer1, Ok ())"
  shows "\<exists>ct k viewer2 host2. length ct = ML_KEM_768_CT_LEN \<and>
    HandshakeManager_encapsulate_for_peer p r now q' nonce viewer1 = (viewer2, Ok ct) \<and>
    HandshakeManager_decapsulate_and_derive p now' q ct nonce host1 = (host2, Ok k) \<and>
    sessions viewer2 q' = Some \<lparr>key = k, established_at = now\<rparr> \<and>
    sessions host2 q = Some \<lparr>key = k, established_at = now'\<rparr> \<and> pending_decap host2 q = None"
proof -
  obtain dk ek where g: "kem_generate p coins = (dk, ek)" by (cases "kem_generate p coins") auto
  obtain ct ss where e: "kem_encapsulate p r ek = (ct, ss)" by (cases "kem_encapsulate p r ek") auto
  have law: "length (kem_ek_to_bytes p ek) = 1184" "kem_ek_from_bytes p (kem_ek_to_bytes p ek) = Some ek"
      "length ct = 1088" "kem_decapsulate p dk ct = ss"
    using assms(1) g e unfolding kem_correct_def by blast+
  have "pk = copy_from_slice (kem_ek_to_bytes p ek)" "pending_decap host1 q = Some dk"
    using gen g by (auto simp: HandshakeManager_generate_kem_public_key_def)
  moreover have "pending_kem viewer1 q' = Some (slice pk)"
    using rcv by (auto simp: HandshakeManager_receive_kem_public_key_def split: if_splits)
  ultimately show ?thesis
    using law e by (simp add: HandshakeManager_encapsulate_for_peer_def
        HandshakeManager_decapsulate_and_derive_def key_lengths Let_def)
qed

section \<open>Decapsulation keys are used once\<close>

text \<open>Any call on the manager except generating a new KEM key for the peer \<open>q\<close>.\<close>

inductive step_without_generate ::
    "('sk, 'ml, 'dk, 'ek) prims \<Rightarrow> string \<Rightarrow> ('sk, 'ml, 'dk) HandshakeManager \<Rightarrow>
     ('sk, 'ml, 'dk) HandshakeManager \<Rightarrow> bool" for p q where
  other_peer: "manager_step p q' m m' \<Longrightarrow> q' \<noteq> q \<Longrightarrow> step_without_generate p q m m'"
| receive_key: "HandshakeManager_receive_kem_public_key q pk m = (m', r) \<Longrightarrow> step_without_generate p q m m'"
| encapsulate_key: "HandshakeManager_encapsulate_for_peer p coins now q nonce m = (m', r') \<Longrightarrow>
    step_without_generate p q m m'"
| decapsulate_key: "HandshakeManager_decapsulate_and_derive p now q ct nonce m = (m', r'') \<Longrightarrow>
    step_without_generate p q m m'"
| remove_peer: "step_without_generate p q m (HandshakeManager_remove_session q m)"

lemma no_pending_decap_kept:
  assumes "step_without_generate p q m m'" and "pending_decap m q = None"
  shows "pending_decap m' q = None"
  using assms
proof (induction rule: step_without_generate.induct)
  case (other_peer q' m m')
  then show ?case using manager_step_frame(2) [of p q' m m' q] by (simp add: peer_state_def)
qed (auto simp: manager_defs Let_def split: if_splits option.splits prod.splits)

lemma no_pending_decap_reachable:
  assumes "(step_without_generate p q)\<^sup>*\<^sup>* m m'" and "pending_decap m q = None"
  shows "pending_decap m' q = None"
  using assms by (induction rule: rtranclp_induct) (auto dest: no_pending_decap_kept)

text \<open>
  C31. A decapsulation key is used at most once. Once a ciphertext of a peer has been decapsulated, or
  the peer's session has been removed, the manager holds no decapsulation key for the peer, and however
  it is called afterwards, every further decapsulation for that peer is refused and changes nothing,
  until a new key is generated for it.
\<close>

theorem decapsulation_key_single_use:
  assumes "HandshakeManager_decapsulate_and_derive p now q ct nonce m = (m1, Ok k) \<or>
      m1 = HandshakeManager_remove_session q m"
    and "(step_without_generate p q)\<^sup>*\<^sup>* m1 m2"
  shows "pending_decap m2 q = None \<and>
    (\<exists>e. HandshakeManager_decapsulate_and_derive p now' q ct' nonce' m2 = (m2, Err e))"
proof
  have "pending_decap m1 q = None"
    using assms(1) by (auto dest: decapsulate_needs_pending simp: HandshakeManager_remove_session_def)
  then show none: "pending_decap m2 q = None"
    by (rule no_pending_decap_reachable [OF assms(2)])
  then show "\<exists>e. HandshakeManager_decapsulate_and_derive p now' q ct' nonce' m2 = (m2, Err e)"
    by (simp add: HandshakeManager_decapsulate_and_derive_def)
qed

definition demo_mgr :: "u8 \<Rightarrow> (u8_32, bytes, unit) HandshakeManager" where
  "demo_mgr b = HandshakeManager_from_identity_seeds demo_prims (filled b) (filled b)"

definition demo_instant :: SystemTime where
  "demo_instant = \<lparr>secs_since_epoch = 0, nanos_since_epoch = 0\<rparr>"

theorem decapsulation_key_single_use_witness:
  "\<exists>m1 k. HandshakeManager_decapsulate_and_derive demo_prims demo_instant ''peer'' (replicate 1088 4) []
      (fst (HandshakeManager_generate_kem_public_key demo_prims (filled 0) ''peer'' (demo_mgr 1))) =
      (m1, Ok k) \<and> pending_decap m1 ''peer'' = None"
proof -
  let ?m = "fst (HandshakeManager_generate_kem_public_key demo_prims (filled 0) ''peer'' (demo_mgr 1))"
  let ?k = "hkdf_derive demo_prims [] [4]"
  obtain m1 where d: "HandshakeManager_decapsulate_and_derive demo_prims demo_instant ''peer''
      (replicate 1088 4) [] ?m = (m1, Ok ?k)"
    by (simp add: HandshakeManager_decapsulate_and_derive_def key_lengths Let_def
        HandshakeManager_generate_kem_public_key_def demo_prims_def)
  with decapsulation_key_single_use [OF disjI1 [OF d] rtranclp.rtrancl_refl] show ?thesis by blast
qed

end
