(* ===== verification/Peer_Handshake.thy ===== *)
theory Peer_Handshake
  imports Handshake_Manager
begin

text \<open>
  The host and viewer handshakes of \<open>crates/xenia-peer-core/src/handshake.rs\<close>: the signed transcripts,
  the messages, and the two protocol roles over a transport. The transport is the trait \<open>Transport\<close>
  as a record of its two calls; \<open>bincode\<close> of the messages is a parameter of the environment.
  Each role is split where it waits for the peer, and its function composes the parts with the calls on
  the transport in the order of the source.
\<close>

section \<open>Messages and transport\<close>

definition HANDSHAKE_SIGNATURE_CONTEXT_V1 :: string where
  "HANDSHAKE_SIGNATURE_CONTEXT_V1 = ''xenia-handshake-signature-v1''"

definition MAX_HANDSHAKE_ENVELOPE_BYTES :: nat where
  "MAX_HANDSHAKE_ENVELOPE_BYTES = 16 * 1024"

text \<open>\<open>Box<dyn Error>\<close>: the errors that the functions put into it.\<close>

datatype handshake_failure =
  HandshakeFailed HandshakeError
| MessageTooLarge nat
| ComponentTooLarge nat
| BincodeFailed string
| TransportFailed string
| UnexpectedMessage string

text \<open>The fields of the three variants of \<open>HandshakeMessage\<close>.\<close>

record host_hello =
  ed25519_pk :: u8_32
  ml_dsa_pk :: ml_dsa_pk
  kem_pk :: ml_kem_pk
  nonce :: u8_32
  negotiated_context_hash :: "u8_32 option"

record viewer_response =
  ed25519_pk :: u8_32
  ml_dsa_pk :: ml_dsa_pk
  kem_ct :: ml_kem_ct
  nonce :: u8_32
  signature :: u8_64
  ml_dsa_signature :: ml_dsa_sig

record host_finalize =
  signature :: u8_64
  ml_dsa_signature :: ml_dsa_sig

datatype HandshakeMessage =
  HostHello host_hello | ViewerResponse viewer_response | HostFinalize host_finalize

record HandshakeOutcome =
  session_key :: u8_32
  transcript_hash :: u8_32
  key_schedule :: SessionKeySchedule
  negotiated_context_hash :: "u8_32 option"
  host_identity_fingerprint_of :: u8_32

record VerifiedPeerIdentity =
  ed25519_pk :: u8_32
  ml_dsa_pk :: bytes

record ('sk, 'vk, 'ml, 'dk, 'ek) handshake_env =
  env_crypto :: "('sk, 'vk, 'ml) crypto"
  env_prims :: "('sk, 'ml, 'dk, 'ek) prims"
  serialize_message :: "HandshakeMessage \<Rightarrow> (bytes, string) result"
  deserialize_message :: "bytes \<Rightarrow> (HandshakeMessage, string) result"

record 't transport =
  send_envelope :: "bytes \<Rightarrow> 't \<Rightarrow> 't \<times> (unit, string) result"
  recv_envelope :: "'t \<Rightarrow> 't \<times> (bytes, string) result"

definition ensure_handshake_message_size :: "nat \<Rightarrow> (unit, handshake_failure) result" where
  "ensure_handshake_message_size len =
     (if len > MAX_HANDSHAKE_ENVELOPE_BYTES then Err (MessageTooLarge len) else Ok ())"

definition send_handshake_envelope ::
    "'t transport \<Rightarrow> bytes \<Rightarrow> 't \<Rightarrow> 't \<times> (unit, handshake_failure) result" where
  "send_handshake_envelope tr b t =
     (case ensure_handshake_message_size (length b) of
        Err e \<Rightarrow> (t, Err e)
      | Ok _ \<Rightarrow> (case send_envelope tr b t of (t1, r) \<Rightarrow> (t1, map_err TransportFailed r)))"

definition recv_handshake_envelope :: "'t transport \<Rightarrow> 't \<Rightarrow> 't \<times> (bytes, handshake_failure) result" where
  "recv_handshake_envelope tr t =
     (case recv_envelope tr t of (t1, r) \<Rightarrow>
        (t1, and_then (map_err TransportFailed r) (\<lambda>b.
           and_then (ensure_handshake_message_size (length b)) (\<lambda>_. Ok b))))"

section \<open>Signed transcripts\<close>

definition checked_transcript_component_len :: "nat \<Rightarrow> (u32, handshake_failure) result" where
  "checked_transcript_component_len len =
     (if len < 2 ^ 32 then Ok (of_nat len) else Err (ComponentTooLarge len))"

definition append_len_prefixed :: "bytes \<Rightarrow> bytes \<Rightarrow> (bytes, handshake_failure) result" where
  "append_len_prefixed b out =
     and_then (checked_transcript_component_len (length b)) (\<lambda>len.
     Ok (out @ u32_to_be_bytes len @ b))"

definition signature_context_prefix :: "(bytes, handshake_failure) result" where
  "signature_context_prefix =
     and_then (append_len_prefixed (as_bytes HANDSHAKE_SIGNATURE_CONTEXT_V1) []) (\<lambda>o1.
     and_then (append_len_prefixed (as_bytes HANDSHAKE_TRANSCRIPT_SCHEMA) o1) (\<lambda>o2.
     and_then (append_len_prefixed (as_bytes HANDSHAKE_POLICY_PROFILE) o2) (\<lambda>o3.
     and_then (append_len_prefixed (as_bytes KEM_SUITE_LABEL) o3) (\<lambda>o4.
     and_then (append_len_prefixed (as_bytes TRANSCRIPT_SIGNATURE_SUITE_LABEL) o4) (\<lambda>o5.
     append_len_prefixed (as_bytes KDF_SUITE_LABEL) o5)))))"

definition viewer_signature_transcript ::
    "bytes \<Rightarrow> u8_32 \<Rightarrow> ml_dsa_pk \<Rightarrow> bytes \<Rightarrow> u8_32 \<Rightarrow> (bytes, handshake_failure) result" where
  "viewer_signature_transcript hello_bytes v_ed v_ml ct v_nonce =
     and_then signature_context_prefix (\<lambda>t0.
     and_then (append_len_prefixed (as_bytes ''viewer-response'') t0) (\<lambda>t1.
     and_then (append_len_prefixed hello_bytes t1) (\<lambda>t2.
     and_then (append_len_prefixed (slice v_ed) t2) (\<lambda>t3.
     and_then (append_len_prefixed (slice v_ml) t3) (\<lambda>t4.
     and_then (append_len_prefixed ct t4) (\<lambda>t5.
     append_len_prefixed (slice v_nonce) t5))))))"

definition host_signature_transcript ::
    "bytes \<Rightarrow> u8_32 \<Rightarrow> ml_dsa_pk \<Rightarrow> bytes \<Rightarrow> u8_32 \<Rightarrow> u8_64 \<Rightarrow> ml_dsa_sig \<Rightarrow>
     (bytes, handshake_failure) result" where
  "host_signature_transcript hello_bytes v_ed v_ml ct v_nonce v_sig v_ml_sig =
     and_then (viewer_signature_transcript hello_bytes v_ed v_ml ct v_nonce) (\<lambda>t0.
     and_then (append_len_prefixed (as_bytes ''host-finalize'') t0) (\<lambda>t1.
     and_then (append_len_prefixed (slice v_sig) t1) (\<lambda>t2.
     append_len_prefixed (slice v_ml_sig) t2)))"

section \<open>The host\<close>

definition host_begin ::
    "('sk, 'vk, 'ml, 'dk, 'ek) handshake_env \<Rightarrow> u8_32 \<Rightarrow> u8_64 \<Rightarrow> string \<Rightarrow> u8_32 option \<Rightarrow>
     ('sk, 'ml, 'dk) HandshakeManager \<Rightarrow> ('sk, 'ml, 'dk) HandshakeManager \<times> host_hello" where
  "host_begin env h_nonce coins peer_id ctx mgr =
     (let (mgr1, pk) = HandshakeManager_generate_kem_public_key (env_prims env) coins peer_id mgr in
      (mgr1, \<lparr>host_hello.ed25519_pk = HandshakeManager_identity_public_key_bytes (env_crypto env) mgr,
         ml_dsa_pk = HandshakeManager_ml_dsa_public_key_bytes (env_crypto env) mgr,
         kem_pk = pk, nonce = h_nonce, negotiated_context_hash = ctx\<rparr>))"

text \<open>The transcript a response is signed over, and the one the host signs after it.\<close>

definition response_transcript :: "bytes \<Rightarrow> viewer_response \<Rightarrow> (bytes, handshake_failure) result" where
  "response_transcript hello_bytes r = viewer_signature_transcript hello_bytes
     (viewer_response.ed25519_pk r) (viewer_response.ml_dsa_pk r) (slice (kem_ct r))
     (viewer_response.nonce r)"

definition final_transcript :: "bytes \<Rightarrow> viewer_response \<Rightarrow> (bytes, handshake_failure) result" where
  "final_transcript hello_bytes r = host_signature_transcript hello_bytes
     (viewer_response.ed25519_pk r) (viewer_response.ml_dsa_pk r) (slice (kem_ct r))
     (viewer_response.nonce r) (viewer_response.signature r) (viewer_response.ml_dsa_signature r)"

definition host_verify_response ::
    "('sk, 'vk, 'ml, 'dk, 'ek) handshake_env \<Rightarrow> bytes \<Rightarrow> viewer_response \<Rightarrow>
     (unit, handshake_failure) result" where
  "host_verify_response env hello_bytes r =
     and_then (map_err HandshakeFailed (HandshakeManager_parse_peer_public_key (env_crypto env)
       (viewer_response.ed25519_pk r))) (\<lambda>vk.
     and_then (response_transcript hello_bytes r) (\<lambda>transcript.
     and_then (map_err HandshakeFailed (HandshakeManager_verify (env_crypto env) vk transcript
       (viewer_response.signature r))) (\<lambda>_.
     map_err HandshakeFailed (HandshakeManager_verify_ml_dsa (env_crypto env)
       (viewer_response.ml_dsa_pk r) transcript (viewer_response.ml_dsa_signature r)))))"

text \<open>From a received response: the response, the root key and the host's two signatures.\<close>

definition host_receive ::
    "('sk, 'vk, 'ml, 'dk, 'ek) handshake_env \<Rightarrow> SystemTime \<Rightarrow> string \<Rightarrow> u8_32 \<Rightarrow> bytes \<Rightarrow> bytes \<Rightarrow>
     ('sk, 'ml, 'dk) HandshakeManager \<Rightarrow>
     ('sk, 'ml, 'dk) HandshakeManager \<times>
     (viewer_response \<times> u8_32 \<times> host_finalize, handshake_failure) result" where
  "host_receive env now peer_id h_nonce hello_bytes response_bytes mgr =
     (case deserialize_message env response_bytes of
        Err e \<Rightarrow> (mgr, Err (BincodeFailed e))
      | Ok (ViewerResponse r) \<Rightarrow>
          (case host_verify_response env hello_bytes r of
             Err e \<Rightarrow> (mgr, Err e)
           | Ok _ \<Rightarrow>
               (case HandshakeManager_decapsulate_and_derive (env_prims env) now peer_id
                       (slice (kem_ct r)) (slice h_nonce @ slice (viewer_response.nonce r)) mgr of
                  (mgr1, Err e) \<Rightarrow> (mgr1, Err (HandshakeFailed e))
                | (mgr1, Ok root_key) \<Rightarrow>
                    (mgr1, and_then (final_transcript hello_bytes r) (\<lambda>m. Ok (r, root_key,
                       \<lparr>host_finalize.signature = HandshakeManager_sign (env_crypto env) mgr1 m,
                         ml_dsa_signature = HandshakeManager_sign_ml_dsa (env_crypto env) mgr1 m\<rparr>)))))
      | Ok _ \<Rightarrow> (mgr, Err (UnexpectedMessage ''Expected ViewerResponse'')))"

text \<open>
  What both roles compute at the end from the three messages and the root key: the canonical
  transcript, its hash, the key schedule and the host's fingerprint.
\<close>

definition handshake_outcome ::
    "('sk, 'vk, 'ml, 'dk, 'ek) handshake_env \<Rightarrow> host_hello \<Rightarrow> viewer_response \<Rightarrow> host_finalize \<Rightarrow>
     u8_32 \<Rightarrow> (HandshakeOutcome, handshake_failure) result" where
  "handshake_outcome env h r f root_key =
     map_err HandshakeFailed
       (and_then (HandshakeTranscriptV1_new (host_hello.ed25519_pk h) (viewer_response.ed25519_pk r)
          (slice (host_hello.ml_dsa_pk h)) (slice (viewer_response.ml_dsa_pk r)) (slice (kem_pk h))
          (slice (kem_ct r)) (host_hello.nonce h) (viewer_response.nonce r)
          (slice (viewer_response.signature r)) (slice (host_finalize.signature f))
          (slice (viewer_response.ml_dsa_signature r)) (slice (host_finalize.ml_dsa_signature f))
          (host_hello.negotiated_context_hash h)) (\<lambda>t.
        and_then (handshake_transcript_hash (env_crypto env) (env_prims env) t) (\<lambda>hash.
        let schedule = derive_session_key_schedule (env_prims env) root_key hash in
        Ok \<lparr>session_key = SessionKeySchedule.aead schedule, transcript_hash = hash,
          key_schedule = schedule,
          HandshakeOutcome.negotiated_context_hash = host_hello.negotiated_context_hash h,
          host_identity_fingerprint_of =
            host_identity_fingerprint (env_crypto env) (host_hello.ed25519_pk h)
              (slice (host_hello.ml_dsa_pk h))\<rparr>)))"

definition response_identity :: "viewer_response \<Rightarrow> VerifiedPeerIdentity" where
  "response_identity r = \<lparr>VerifiedPeerIdentity.ed25519_pk = viewer_response.ed25519_pk r,
     ml_dsa_pk = slice (viewer_response.ml_dsa_pk r)\<rparr>"

definition perform_host_handshake_authenticating_peer ::
    "('sk, 'vk, 'ml, 'dk, 'ek) handshake_env \<Rightarrow> 't transport \<Rightarrow> u8_32 \<Rightarrow> u8_64 \<Rightarrow> SystemTime \<Rightarrow> string \<Rightarrow>
     u8_32 option \<Rightarrow> ('sk, 'ml, 'dk) HandshakeManager \<times> 't \<Rightarrow>
     (('sk, 'ml, 'dk) HandshakeManager \<times> 't) \<times>
     (HandshakeOutcome \<times> VerifiedPeerIdentity, handshake_failure) result" where
  "perform_host_handshake_authenticating_peer env tr h_nonce coins now peer_id ctx = (\<lambda>(mgr, t).
     let (mgr1, hello) = host_begin env h_nonce coins peer_id ctx mgr in
     st_then ((mgr1, t), map_err BincodeFailed (serialize_message env (HostHello hello)))
       (\<lambda>_ hello_bytes.
     st_then (apfst (Pair mgr1) (send_handshake_envelope tr hello_bytes t)) (\<lambda>(_, t1) _.
     st_then (apfst (Pair mgr1) (recv_handshake_envelope tr t1)) (\<lambda>(_, t2) response_bytes.
     st_then (apfst (\<lambda>m. (m, t2)) (host_receive env now peer_id h_nonce hello_bytes response_bytes mgr1))
       (\<lambda>(mgr2, _) (r, root_key, finalize).
     st_then ((mgr2, t2), map_err BincodeFailed (serialize_message env (HostFinalize finalize)))
       (\<lambda>_ finalize_bytes.
     st_then (apfst (Pair mgr2) (send_handshake_envelope tr finalize_bytes t2)) (\<lambda>st _.
       (st, and_then (handshake_outcome env hello r finalize root_key) (\<lambda>outcome.
            Ok (outcome, response_identity r))))))))))"

definition perform_host_handshake_with_transcript_and_context ::
    "('sk, 'vk, 'ml, 'dk, 'ek) handshake_env \<Rightarrow> 't transport \<Rightarrow> u8_32 \<Rightarrow> u8_64 \<Rightarrow> SystemTime \<Rightarrow> string \<Rightarrow>
     u8_32 option \<Rightarrow> ('sk, 'ml, 'dk) HandshakeManager \<times> 't \<Rightarrow>
     (('sk, 'ml, 'dk) HandshakeManager \<times> 't) \<times> (HandshakeOutcome, handshake_failure) result" where
  "perform_host_handshake_with_transcript_and_context env tr h_nonce coins now peer_id ctx st =
     apsnd (map_ok fst) (perform_host_handshake_authenticating_peer env tr h_nonce coins now peer_id ctx st)"

definition perform_host_handshake_with_transcript ::
    "('sk, 'vk, 'ml, 'dk, 'ek) handshake_env \<Rightarrow> 't transport \<Rightarrow> u8_32 \<Rightarrow> u8_64 \<Rightarrow> SystemTime \<Rightarrow> string \<Rightarrow>
     ('sk, 'ml, 'dk) HandshakeManager \<times> 't \<Rightarrow>
     (('sk, 'ml, 'dk) HandshakeManager \<times> 't) \<times> (HandshakeOutcome, handshake_failure) result" where
  "perform_host_handshake_with_transcript env tr h_nonce coins now peer_id st =
     perform_host_handshake_with_transcript_and_context env tr h_nonce coins now peer_id None st"

definition perform_host_handshake ::
    "('sk, 'vk, 'ml, 'dk, 'ek) handshake_env \<Rightarrow> 't transport \<Rightarrow> u8_32 \<Rightarrow> u8_64 \<Rightarrow> SystemTime \<Rightarrow> string \<Rightarrow>
     ('sk, 'ml, 'dk) HandshakeManager \<times> 't \<Rightarrow>
     (('sk, 'ml, 'dk) HandshakeManager \<times> 't) \<times> (u8_32, handshake_failure) result" where
  "perform_host_handshake env tr h_nonce coins now peer_id st =
     apsnd (map_ok session_key) (perform_host_handshake_with_transcript env tr h_nonce coins now peer_id st)"

section \<open>The viewer\<close>

text \<open>From a received hello: the parsed hello and its key, and the signed response.\<close>

definition viewer_answer ::
    "('sk, 'vk, 'ml, 'dk, 'ek) handshake_env \<Rightarrow> u8_32 \<Rightarrow> u8_32 \<Rightarrow> SystemTime \<Rightarrow> string \<Rightarrow> bytes \<Rightarrow>
     ('sk, 'ml, 'dk) HandshakeManager \<Rightarrow>
     ('sk, 'ml, 'dk) HandshakeManager \<times>
     (host_hello \<times> 'vk \<times> viewer_response, handshake_failure) result" where
  "viewer_answer env v_nonce coins now peer_id hello_bytes mgr =
     (case deserialize_message env hello_bytes of
        Err e \<Rightarrow> (mgr, Err (BincodeFailed e))
      | Ok (HostHello h) \<Rightarrow>
          st_then (mgr, map_err HandshakeFailed (HandshakeManager_parse_peer_public_key (env_crypto env)
            (host_hello.ed25519_pk h))) (\<lambda>_ host_vk.
          st_then (apsnd (map_err HandshakeFailed)
            (HandshakeManager_receive_kem_public_key peer_id (slice (kem_pk h)) mgr)) (\<lambda>mgr1 _.
          st_then (apsnd (map_err HandshakeFailed)
            (HandshakeManager_encapsulate_for_peer (env_prims env) coins now peer_id
              (slice (host_hello.nonce h) @ slice v_nonce) mgr1)) (\<lambda>mgr2 ct.
          let v_ed = HandshakeManager_identity_public_key_bytes (env_crypto env) mgr2;
              v_ml = HandshakeManager_ml_dsa_public_key_bytes (env_crypto env) mgr2
          in (mgr2, and_then (viewer_signature_transcript hello_bytes v_ed v_ml ct v_nonce) (\<lambda>m.
                and_then (ok_or (try_into ct) (UnexpectedMessage ''Invalid KEM CT length'')) (\<lambda>ct_array.
                Ok (h, host_vk, \<lparr>viewer_response.ed25519_pk = v_ed, ml_dsa_pk = v_ml, kem_ct = ct_array,
                  nonce = v_nonce, signature = HandshakeManager_sign (env_crypto env) mgr2 m,
                  ml_dsa_signature = HandshakeManager_sign_ml_dsa (env_crypto env) mgr2 m\<rparr>)))))))
      | Ok _ \<Rightarrow> (mgr, Err (UnexpectedMessage ''Expected HostHello'')))"

text \<open>From a received finalize: the outcome.\<close>

definition viewer_finish ::
    "('sk, 'vk, 'ml, 'dk, 'ek) handshake_env \<Rightarrow> string \<Rightarrow> bytes \<Rightarrow> host_hello \<Rightarrow> 'vk \<Rightarrow> viewer_response \<Rightarrow>
     bytes \<Rightarrow> ('sk, 'ml, 'dk) HandshakeManager \<Rightarrow> (HandshakeOutcome, handshake_failure) result" where
  "viewer_finish env peer_id hello_bytes h host_vk r finalize_bytes mgr =
     (case deserialize_message env finalize_bytes of
        Err e \<Rightarrow> Err (BincodeFailed e)
      | Ok (HostFinalize f) \<Rightarrow>
          and_then (final_transcript hello_bytes r) (\<lambda>m.
          and_then (map_err HandshakeFailed (HandshakeManager_verify (env_crypto env) host_vk m
            (host_finalize.signature f))) (\<lambda>_.
          and_then (map_err HandshakeFailed (HandshakeManager_verify_ml_dsa (env_crypto env)
            (host_hello.ml_dsa_pk h) m (host_finalize.ml_dsa_signature f))) (\<lambda>_.
          and_then (ok_or (HandshakeManager_session_key peer_id mgr)
            (UnexpectedMessage ''Session key missing after handshake'')) (\<lambda>sk.
          handshake_outcome env h r f (SessionKey.key sk)))))
      | Ok _ \<Rightarrow> Err (UnexpectedMessage ''Expected HostFinalize''))"

definition perform_viewer_handshake_with_transcript ::
    "('sk, 'vk, 'ml, 'dk, 'ek) handshake_env \<Rightarrow> 't transport \<Rightarrow> u8_32 \<Rightarrow> u8_32 \<Rightarrow> SystemTime \<Rightarrow> string \<Rightarrow>
     ('sk, 'ml, 'dk) HandshakeManager \<times> 't \<Rightarrow>
     (('sk, 'ml, 'dk) HandshakeManager \<times> 't) \<times> (HandshakeOutcome, handshake_failure) result" where
  "perform_viewer_handshake_with_transcript env tr v_nonce coins now peer_id = (\<lambda>(mgr, t).
     st_then (apfst (Pair mgr) (recv_handshake_envelope tr t)) (\<lambda>(_, t1) hello_bytes.
     st_then (apfst (\<lambda>m. (m, t1)) (viewer_answer env v_nonce coins now peer_id hello_bytes mgr))
       (\<lambda>(mgr1, _) (h, host_vk, r).
     st_then ((mgr1, t1), map_err BincodeFailed (serialize_message env (ViewerResponse r)))
       (\<lambda>_ response_bytes.
     st_then (apfst (Pair mgr1) (send_handshake_envelope tr response_bytes t1)) (\<lambda>(_, t2) _.
     st_then (apfst (Pair mgr1) (recv_handshake_envelope tr t2)) (\<lambda>st finalize_bytes.
       (st, viewer_finish env peer_id hello_bytes h host_vk r finalize_bytes mgr1)))))))"

definition perform_viewer_handshake ::
    "('sk, 'vk, 'ml, 'dk, 'ek) handshake_env \<Rightarrow> 't transport \<Rightarrow> u8_32 \<Rightarrow> u8_32 \<Rightarrow> SystemTime \<Rightarrow> string \<Rightarrow>
     ('sk, 'ml, 'dk) HandshakeManager \<times> 't \<Rightarrow>
     (('sk, 'ml, 'dk) HandshakeManager \<times> 't) \<times> (u8_32, handshake_failure) result" where
  "perform_viewer_handshake env tr v_nonce coins now peer_id st =
     apsnd (map_ok session_key)
       (perform_viewer_handshake_with_transcript env tr v_nonce coins now peer_id st)"

section \<open>The transcripts commit to their fields\<close>

text \<open>A length-prefixed field, and a transcript as a list of them.\<close>

definition prefixed :: "bytes \<Rightarrow> bytes" where
  "prefixed b = u32_to_be_bytes (of_nat (length b)) @ b"

definition fields_fit :: "bytes list \<Rightarrow> bool" where
  "fields_fit bs \<longleftrightarrow> (\<forall>b \<in> set bs. length b < 2 ^ 32)"

lemma append_len_prefixed_eq_Ok [result_simps]:
  "append_len_prefixed b acc = Ok t \<longleftrightarrow> length b < 2 ^ 32 \<and> t = acc @ prefixed b"
  by (auto simp: append_len_prefixed_def checked_transcript_component_len_def prefixed_def)

lemma prefixed_append_inject:
  assumes "length b < 2 ^ 32" and "length b' < 2 ^ 32"
  shows "prefixed b @ us = prefixed b' @ vs \<longleftrightarrow> b = b' \<and> us = vs"
  using u32_prefixed_inject [OF assms] unfolding prefixed_def append_assoc .

text \<open>The first field that differs tells two transcripts apart, whatever follows.\<close>

lemma prefixed_fields_inject:
  assumes "fields_fit bs" and "fields_fit bs'"
    and "concat (map prefixed bs) = concat (map prefixed bs')"
  shows "bs = bs'"
  using assms
proof (induction bs arbitrary: bs')
  case Nil
  then show ?case by (cases bs') (auto simp: prefixed_def u32_to_be_bytes_def)
next
  case (Cons b bs)
  then obtain b' cs where bs': "bs' = b' # cs"
    by (cases bs') (auto simp: prefixed_def u32_to_be_bytes_def)
  with Cons.prems have "b = b' \<and> concat (map prefixed bs) = concat (map prefixed cs)"
    by (simp add: fields_fit_def prefixed_append_inject)
  with Cons bs' show ?case by (auto simp: fields_fit_def)
qed

abbreviation context_fields :: "bytes list" where
  "context_fields \<equiv> map as_bytes [HANDSHAKE_SIGNATURE_CONTEXT_V1, HANDSHAKE_TRANSCRIPT_SCHEMA,
     HANDSHAKE_POLICY_PROFILE, KEM_SUITE_LABEL, TRANSCRIPT_SIGNATURE_SUITE_LABEL, KDF_SUITE_LABEL]"

lemmas context_labels = HANDSHAKE_SIGNATURE_CONTEXT_V1_def HANDSHAKE_TRANSCRIPT_SCHEMA_def
  HANDSHAKE_POLICY_PROFILE_def KEM_SUITE_LABEL_def TRANSCRIPT_SIGNATURE_SUITE_LABEL_def
  KDF_SUITE_LABEL_def

definition response_fields :: "bytes \<Rightarrow> viewer_response \<Rightarrow> bytes list" where
  "response_fields hello_bytes r = context_fields @ [as_bytes ''viewer-response'', hello_bytes,
     slice (viewer_response.ed25519_pk r), slice (viewer_response.ml_dsa_pk r), slice (kem_ct r),
     slice (viewer_response.nonce r)]"

definition final_fields :: "bytes \<Rightarrow> viewer_response \<Rightarrow> bytes list" where
  "final_fields hello_bytes r = response_fields hello_bytes r @ [as_bytes ''host-finalize'',
     slice (viewer_response.signature r), slice (viewer_response.ml_dsa_signature r)]"

lemma response_transcript_eq_Ok:
  "response_transcript hello_bytes r = Ok t \<longleftrightarrow>
     length hello_bytes < 2 ^ 32 \<and> t = concat (map prefixed (response_fields hello_bytes r))"
  by (auto simp: response_transcript_def viewer_signature_transcript_def signature_context_prefix_def
      append_len_prefixed_eq_Ok response_fields_def context_labels)

lemma final_transcript_eq_Ok:
  "final_transcript hello_bytes r = Ok t \<longleftrightarrow>
     length hello_bytes < 2 ^ 32 \<and> t = concat (map prefixed (final_fields hello_bytes r))"
proof -
  have "final_transcript hello_bytes r = and_then (response_transcript hello_bytes r) (\<lambda>t0.
      and_then (append_len_prefixed (as_bytes ''host-finalize'') t0) (\<lambda>t1.
      and_then (append_len_prefixed (slice (viewer_response.signature r)) t1) (\<lambda>t2.
      append_len_prefixed (slice (viewer_response.ml_dsa_signature r)) t2)))"
    by (simp add: final_transcript_def host_signature_transcript_def response_transcript_def)
  then show ?thesis
    by (auto simp: response_transcript_eq_Ok append_len_prefixed_eq_Ok final_fields_def)
qed

end
