(* ===== verification/Peer_Handshake_Agreement.thy ===== *)
theory Peer_Handshake_Agreement
  imports Peer_Handshake
begin

text \<open>
  What a completed handshake gives the two peers: over a channel that delivers what is sent, both roles
  finish with the same outcome, and whatever a channel delivers, a viewer that finishes agrees with the
  host whose signature it verified.
\<close>

section \<open>A transport of queues\<close>

text \<open>The envelopes still to be received and those sent so far.\<close>

definition queue_transport :: "(bytes list \<times> bytes list) transport" where
  "queue_transport = \<lparr>
     send_envelope = (\<lambda>b (inbox, outbox). ((inbox, outbox @ [b]), Ok ())),
     recv_envelope = (\<lambda>(inbox, outbox). case inbox of
        [] \<Rightarrow> ((inbox, outbox), Err ''closed'')
      | b # rest \<Rightarrow> ((rest, outbox), Ok b))\<rparr>"

abbreviation fits :: "bytes \<Rightarrow> bool" where
  "fits b \<equiv> length b \<le> MAX_HANDSHAKE_ENVELOPE_BYTES"

lemma send_queue_eq_Ok:
  "send_handshake_envelope queue_transport b (i, s) = (t, Ok u) \<longleftrightarrow> fits b \<and> t = (i, s @ [b])"
  by (auto simp: send_handshake_envelope_def ensure_handshake_message_size_def queue_transport_def)

lemma recv_queue_eq_Ok:
  "recv_handshake_envelope queue_transport (i, s) = (t, Ok b) \<longleftrightarrow>
     (\<exists>rest. i = b # rest \<and> fits b \<and> t = (rest, s))"
  by (auto simp: recv_handshake_envelope_def ensure_handshake_message_size_def queue_transport_def
      split: list.splits)

text \<open>\<open>bincode\<close> encodes every handshake message, within the size limit, and decodes it again.\<close>

definition message_codec_ok :: "('sk, 'vk, 'ml, 'dk, 'ek) handshake_env \<Rightarrow> bool" where
  "message_codec_ok env \<longleftrightarrow> (\<forall>m. \<exists>b. serialize_message env m = Ok b \<and> fits b \<and>
     deserialize_message env b = Ok m)"

lemma message_codec_okD:
  assumes "message_codec_ok env"
  obtains b where "serialize_message env m = Ok b" "fits b" "deserialize_message env b = Ok m"
  using assms by (auto simp: message_codec_ok_def)

section \<open>What a completed role has done\<close>

lemma apfst_eq_iff: "apfst f x = (a, b) \<longleftrightarrow> (\<exists>y. x = (y, b) \<and> a = f y)"
  by (cases x) auto

lemma apsnd_eq_iff: "apsnd f x = (a, b) \<longleftrightarrow> (\<exists>y. x = (a, y) \<and> f y = b)"
  by (cases x) auto

definition finalize_of ::
    "('sk, 'vk, 'ml, 'dk, 'ek) handshake_env \<Rightarrow> ('sk, 'ml, 'dk) HandshakeManager \<Rightarrow> bytes \<Rightarrow> host_finalize"
  where
  "finalize_of env mgr m = \<lparr>host_finalize.signature = HandshakeManager_sign (env_crypto env) mgr m,
     ml_dsa_signature = HandshakeManager_sign_ml_dsa (env_crypto env) mgr m\<rparr>"

lemma host_receive_eq_Ok:
  "host_receive env now q hn hb rb mgr = (mgr', Ok (r, root, f)) \<longleftrightarrow>
     deserialize_message env rb = Ok (ViewerResponse r) \<and> host_verify_response env hb r = Ok () \<and>
     HandshakeManager_decapsulate_and_derive (env_prims env) now q (slice (kem_ct r))
       (slice hn @ slice (viewer_response.nonce r)) mgr = (mgr', Ok root) \<and>
     (\<exists>m. final_transcript hb r = Ok m \<and> f = finalize_of env mgr' m)"
  by (auto simp: host_receive_def finalize_of_def split: result.splits HandshakeMessage.splits prod.splits)

lemma host_run_eq_Ok:
  "perform_host_handshake_authenticating_peer env queue_transport hn coins now q ctx (mgr, (inb, outb)) =
     ((mgr2, t), Ok (oc, peer)) \<longleftrightarrow>
   (\<exists>mgr1 hello hb rb rest r root f fb.
      host_begin env hn coins q ctx mgr = (mgr1, hello) \<and>
      serialize_message env (HostHello hello) = Ok hb \<and> fits hb \<and> inb = rb # rest \<and> fits rb \<and>
      host_receive env now q hn hb rb mgr1 = (mgr2, Ok (r, root, f)) \<and>
      serialize_message env (HostFinalize f) = Ok fb \<and> fits fb \<and> t = (rest, outb @ [hb, fb]) \<and>
      handshake_outcome env hello r f root = Ok oc \<and> peer = response_identity r)"
  by (fastforce simp: perform_host_handshake_authenticating_peer_def apfst_eq_iff send_queue_eq_Ok
      recv_queue_eq_Ok Let_def split: prod.splits)

definition response_of ::
    "('sk, 'vk, 'ml, 'dk, 'ek) handshake_env \<Rightarrow> ('sk, 'ml, 'dk) HandshakeManager \<Rightarrow> ml_kem_ct \<Rightarrow> u8_32 \<Rightarrow>
     bytes \<Rightarrow> viewer_response" where
  "response_of env mgr ct vn m =
     \<lparr>viewer_response.ed25519_pk = HandshakeManager_identity_public_key_bytes (env_crypto env) mgr,
       ml_dsa_pk = HandshakeManager_ml_dsa_public_key_bytes (env_crypto env) mgr, kem_ct = ct,
       nonce = vn, signature = HandshakeManager_sign (env_crypto env) mgr m,
       ml_dsa_signature = HandshakeManager_sign_ml_dsa (env_crypto env) mgr m\<rparr>"

lemma viewer_answer_eq_Ok:
  "viewer_answer env vn coins now q hb mgr = (mgr2, Ok (h, vk, r)) \<longleftrightarrow>
     deserialize_message env hb = Ok (HostHello h) \<and>
     ed_key_from_bytes (env_crypto env) (host_hello.ed25519_pk h) = Some vk \<and>
     (\<exists>mgr1 ct m. HandshakeManager_receive_kem_public_key q (slice (kem_pk h)) mgr = (mgr1, Ok ()) \<and>
        HandshakeManager_encapsulate_for_peer (env_prims env) coins now q
          (slice (host_hello.nonce h) @ slice vn) mgr1 = (mgr2, Ok (slice ct)) \<and>
        response_transcript hb (response_of env mgr2 ct vn m) = Ok m \<and> r = response_of env mgr2 ct vn m)"
  by (auto simp: viewer_answer_def response_transcript_def response_of_def Let_def apsnd_eq_iff
      try_into_eq_Some parse_peer_public_key_eq_Ok split: result.splits HandshakeMessage.splits)

lemma viewer_finish_eq_Ok:
  "viewer_finish env q hb h vk r fb mgr = Ok oc \<longleftrightarrow>
     (\<exists>f m k. deserialize_message env fb = Ok (HostFinalize f) \<and> final_transcript hb r = Ok m \<and>
        ed_verify (env_crypto env) vk m (host_finalize.signature f) \<and>
        ml_dsa_65_accepts (env_crypto env) (host_hello.ml_dsa_pk h) m (host_finalize.ml_dsa_signature f) \<and>
        sessions mgr q = Some k \<and> handshake_outcome env h r f (SessionKey.key k) = Ok oc)"
  by (auto simp: viewer_finish_def verify_eq_Ok verify_ml_dsa_65_eq_Ok HandshakeManager_session_key_def
      split: result.splits HandshakeMessage.splits)

lemma viewer_run_eq_Ok:
  "perform_viewer_handshake_with_transcript env queue_transport vn coins now q (mgr, (inb, outb)) =
     ((mgr2, t), Ok oc) \<longleftrightarrow>
   (\<exists>hb fb rest h vk r rb. inb = hb # fb # rest \<and> fits hb \<and> fits fb \<and>
      viewer_answer env vn coins now q hb mgr = (mgr2, Ok (h, vk, r)) \<and>
      serialize_message env (ViewerResponse r) = Ok rb \<and> fits rb \<and> t = (rest, outb @ [rb]) \<and>
      viewer_finish env q hb h vk r fb mgr2 = Ok oc)"
  by (fastforce simp: perform_viewer_handshake_with_transcript_def apfst_eq_iff send_queue_eq_Ok
      recv_queue_eq_Ok split: prod.splits)

section \<open>Honest runs complete\<close>

definition env_lawful :: "('sk, 'vk, 'ml, 'dk, 'ek) handshake_env \<Rightarrow> bool" where
  "env_lawful env \<longleftrightarrow> ed25519_correct (env_crypto env) \<and> ed25519_key_codec (env_crypto env) \<and>
     ml_dsa_correct (env_crypto env) MlDsa65 \<and> kem_correct (env_prims env) \<and>
     serializers_total (env_prims env) \<and> message_codec_ok env"

lemma handshake_outcome_Ok:
  assumes "serializers_total (env_prims env)"
  shows "\<exists>oc. handshake_outcome env h r f k = Ok oc"
  using assms
  by (auto simp: handshake_outcome_def HandshakeTranscriptV1_new_def validate_transcript_component_def
      key_lengths handshake_transcript_hash_def canonical_session_transcript_bytes_def
      serializers_total_def is_ok_iff Let_def)

lemma same_identity_keys:
  assumes "same_identity m m'"
  shows "HandshakeManager_identity_public_key_bytes c m' = HandshakeManager_identity_public_key_bytes c m"
    and "HandshakeManager_ml_dsa_public_key_bytes c m' = HandshakeManager_ml_dsa_public_key_bytes c m"
    and "signing_key m' = signing_key m"
  using assms
  by (simp_all add: same_identity_def HandshakeManager_identity_public_key_bytes_def
      HandshakeManager_ml_dsa_public_key_bytes_def)

lemma same_identity_trans: "same_identity a b \<Longrightarrow> same_identity b c \<Longrightarrow> same_identity a c"
  by (simp add: same_identity_def)

lemma transcripts_exist:
  assumes "fits hb"
  shows "\<exists>m. response_transcript hb r = Ok m" and "\<exists>m. final_transcript hb r = Ok m"
  using assms by (simp_all add: response_transcript_eq_Ok final_transcript_eq_Ok
      MAX_HANDSHAKE_ENVELOPE_BYTES_def)

lemma response_transcript_unsigned:
  "response_transcript hb (response_of env mgr ct vn m) = response_transcript hb (response_of env mgr ct vn m')"
  by (simp add: response_transcript_def response_of_def)

lemma signed_response_verifies:
  assumes "env_lawful env" and "response_transcript hb (response_of env mgr ct vn m) = Ok m"
  shows "host_verify_response env hb (response_of env mgr ct vn m) = Ok ()"
  using assms manager_signs [where c = "env_crypto env" and mgr = mgr]
  by (simp add: env_lawful_def host_verify_response_def result_simps response_of_def)

lemma host_begin_simps:
  assumes "host_begin env hn coins q ctx mgr = (mgr1, h)"
  shows "HandshakeManager_generate_kem_public_key (env_prims env) coins q mgr = (mgr1, kem_pk h)"
    and "host_hello.nonce h = hn" and "host_hello.negotiated_context_hash h = ctx"
    and "host_hello.ed25519_pk h = HandshakeManager_identity_public_key_bytes (env_crypto env) mgr"
    and "host_hello.ml_dsa_pk h = HandshakeManager_ml_dsa_public_key_bytes (env_crypto env) mgr"
  using assms by (auto simp: host_begin_def split: prod.splits)

text \<open>The viewer's answer to a hello, and what the host computes from it.\<close>

lemma honest_exchange:
  assumes "env_lawful env" and "host_begin env hn coins q ctx host = (host1, h)"
    and "deserialize_message env hb = Ok (HostHello h)" and "fits hb"
    and "deserialize_message env rb = Ok (ViewerResponse r)"
    and "viewer_answer env vn coins' now' q' hb viewer = (viewer2, Ok (h, vk, r))"
  shows "\<exists>k host2 m. final_transcript hb r = Ok m \<and>
    host_receive env now q hn hb rb host1 = (host2, Ok (r, k, finalize_of env host2 m)) \<and>
    sessions viewer2 q' = Some \<lparr>key = k, established_at = now'\<rparr> \<and> same_identity host host2"
proof -
  obtain viewer1 ct m where v: "HandshakeManager_receive_kem_public_key q' (slice (kem_pk h)) viewer =
        (viewer1, Ok ())"
      "HandshakeManager_encapsulate_for_peer (env_prims env) coins' now' q'
        (slice (host_hello.nonce h) @ slice vn) viewer1 = (viewer2, Ok (slice ct))"
      "response_transcript hb (response_of env viewer2 ct vn m) = Ok m"
      and r: "r = response_of env viewer2 ct vn m"
    using assms(6) unfolding viewer_answer_eq_Ok by blast
  have kem: "kem_correct (env_prims env)" using assms(1) by (simp add: env_lawful_def)
  note g = host_begin_simps [OF assms(2)]
  obtain k host2 where d: "HandshakeManager_decapsulate_and_derive (env_prims env) now q (slice ct)
        (slice hn @ slice vn) host1 = (host2, Ok k)"
      "sessions viewer2 q' = Some \<lparr>key = k, established_at = now'\<rparr>"
    using kem_agreement [OF kem g(1) v(1), where r = coins' and now = now' and now' = now
        and nonce = "slice hn @ slice vn"] v(2) g(2) by auto
  have "same_identity host host1" "same_identity host1 host2"
    using manager_step_frame(1) [OF manager_step.generate [OF g(1)]]
      manager_step_frame(1) [OF manager_step.decapsulate [OF d(1)]] by auto
  then have id: "same_identity host host2" by (rule same_identity_trans)
  obtain m' where "final_transcript hb r = Ok m'" using transcripts_exist(2) [OF assms(4)] by blast
  moreover have "host_verify_response env hb r = Ok ()"
    unfolding r by (rule signed_response_verifies [OF assms(1) v(3)])
  ultimately show ?thesis
    using d id assms(5) by (auto simp: host_receive_eq_Ok r response_of_def)
qed

lemma viewer_answers:
  assumes "env_lawful env" and "host_begin env hn coins q ctx host = (host1, h)"
    and "deserialize_message env hb = Ok (HostHello h)" and "fits hb"
  shows "\<exists>viewer2 vk r. viewer_answer env vn coins' now' q' hb viewer = (viewer2, Ok (h, vk, r)) \<and>
    same_identity viewer viewer2 \<and> ed_key_from_bytes (env_crypto env) (host_hello.ed25519_pk h) = Some vk"
proof -
  note g = host_begin_simps [OF assms(2)]
  have law: "kem_correct (env_prims env)" "ed25519_correct (env_crypto env)"
      "ed25519_key_codec (env_crypto env)" "ml_dsa_correct (env_crypto env) MlDsa65"
    using assms(1) by (simp_all add: env_lawful_def)
  obtain viewer1 where v1: "HandshakeManager_receive_kem_public_key q' (slice (kem_pk h)) viewer =
      (viewer1, Ok ())"
    by (simp add: HandshakeManager_receive_kem_public_key_def key_lengths)
  obtain ct viewer2 where v2: "HandshakeManager_encapsulate_for_peer (env_prims env) coins' now' q'
      (slice hn @ slice vn) viewer1 = (viewer2, Ok ct)" "length ct = 1088"
    using kem_agreement [OF law(1) g(1) v1, where r = coins' and now = now' and now' = now' and nonce = "slice hn @ slice vn"]
    by (auto simp: key_lengths)
  define cta :: ml_kem_ct where "cta = copy_from_slice ct"
  have cta: "ct = slice cta" using v2(2) by (simp add: cta_def)
  obtain m where "response_transcript hb (response_of env viewer2 cta vn []) = Ok m"
    using transcripts_exist(1) [OF assms(4)] by blast
  then have m: "response_transcript hb (response_of env viewer2 cta vn m) = Ok m"
    using response_transcript_unsigned by metis
  have "same_identity viewer viewer1" "same_identity viewer1 viewer2"
    using manager_step_frame(1) [OF manager_step.receive [OF v1]]
      manager_step_frame(1) [OF manager_step.encapsulate [OF v2(1)]] by auto
  then have "same_identity viewer viewer2" by (rule same_identity_trans)
  with m v1 v2 cta assms(3) g(2,4) manager_signs(1) [OF law(2-4)] show ?thesis
    by (auto simp: viewer_answer_eq_Ok)
qed

lemma honest_run:
  assumes "env_lawful env"
  shows "\<exists>hb rb fb oc host' viewer'.
    perform_host_handshake_authenticating_peer env queue_transport hn coins now q ctx
      (host, ([rb], [])) =
    ((host', ([], [hb, fb])), Ok (oc,
       \<lparr>VerifiedPeerIdentity.ed25519_pk = HandshakeManager_identity_public_key_bytes (env_crypto env) viewer,
         ml_dsa_pk = slice (HandshakeManager_ml_dsa_public_key_bytes (env_crypto env) viewer)\<rparr>)) \<and>
    perform_viewer_handshake_with_transcript env queue_transport vn coins' now' q' (viewer, ([hb, fb], [])) =
    ((viewer', ([], [rb])), Ok oc)"
proof -
  have law: "message_codec_ok env" "serializers_total (env_prims env)" "ed25519_correct (env_crypto env)"
      "ed25519_key_codec (env_crypto env)" "ml_dsa_correct (env_crypto env) MlDsa65"
    using assms by (simp_all add: env_lawful_def)
  obtain host1 h where h: "host_begin env hn coins q ctx host = (host1, h)"
    by (cases "host_begin env hn coins q ctx host") auto
  note hs = host_begin_simps [OF h]
  obtain hb where hb: "serialize_message env (HostHello h) = Ok hb" "fits hb"
      "deserialize_message env hb = Ok (HostHello h)"
    by (rule message_codec_okD [OF law(1)])
  obtain viewer2 vk r where v: "viewer_answer env vn coins' now' q' hb viewer = (viewer2, Ok (h, vk, r))"
      "same_identity viewer viewer2" "ed_key_from_bytes (env_crypto env) (host_hello.ed25519_pk h) = Some vk"
    using viewer_answers [OF assms h hb(3,2)] by blast
  obtain rb where rb: "serialize_message env (ViewerResponse r) = Ok rb" "fits rb"
      "deserialize_message env rb = Ok (ViewerResponse r)"
    by (rule message_codec_okD [OF law(1)])
  obtain k host2 m where x: "final_transcript hb r = Ok m"
      "host_receive env now q hn hb rb host1 = (host2, Ok (r, k, finalize_of env host2 m))"
      "sessions viewer2 q' = Some \<lparr>key = k, established_at = now'\<rparr>" "same_identity host host2"
    using honest_exchange [OF assms h hb(3,2) rb(3) v(1)] by blast
  obtain fb where fb: "serialize_message env (HostFinalize (finalize_of env host2 m)) = Ok fb" "fits fb"
      "deserialize_message env fb = Ok (HostFinalize (finalize_of env host2 m))"
    by (rule message_codec_okD [OF law(1)])
  obtain oc where oc: "handshake_outcome env h r (finalize_of env host2 m) k = Ok oc"
    using handshake_outcome_Ok [OF law(2)] by blast
  have vk: "vk = ed_verifying_key (env_crypto env) (signing_key host2)"
    using manager_signs(1) [OF law(3-5), of host] v(3) hs(4) same_identity_keys(3) [OF x(4)] by simp
  have "viewer_finish env q' hb h vk r fb viewer2 = Ok oc"
    using fb(3) x(1,3) oc manager_signs(2,3) [OF law(3-5), of host2 m] vk hs(5)
    by (auto simp: viewer_finish_eq_Ok finalize_of_def same_identity_keys(2) [OF x(4)])
  moreover have "response_identity r =
      \<lparr>VerifiedPeerIdentity.ed25519_pk = HandshakeManager_identity_public_key_bytes (env_crypto env) viewer,
        ml_dsa_pk = slice (HandshakeManager_ml_dsa_public_key_bytes (env_crypto env) viewer)\<rparr>"
    using v(1) same_identity_keys [OF v(2)]
    by (auto simp: viewer_answer_eq_Ok response_identity_def response_of_def)
  ultimately show ?thesis
    using h hb rb fb x(2) oc v(1) unfolding host_run_eq_Ok viewer_run_eq_Ok by (metis append_Nil)
qed

text \<open>
  C18. Honest handshakes complete and agree. Over a channel that delivers every message, for all
  identities, nonces, random coins and contexts, the host and the viewer both finish; they end with the
  same outcome (session key, transcript hash, key schedule, context hash and fingerprint), and the peer
  identity the host reports is the viewer's own pair of keys.
\<close>

theorem honest_handshake_agrees:
  assumes "env_lawful env"
  shows "\<exists>hb rb fb oc host' viewer'.
    perform_host_handshake_authenticating_peer env queue_transport hn coins now q ctx
      (host, ([rb], [])) =
    ((host', ([], [hb, fb])), Ok (oc,
       \<lparr>VerifiedPeerIdentity.ed25519_pk = HandshakeManager_identity_public_key_bytes (env_crypto env) viewer,
         ml_dsa_pk = slice (HandshakeManager_ml_dsa_public_key_bytes (env_crypto env) viewer)\<rparr>)) \<and>
    perform_viewer_handshake_with_transcript env queue_transport vn coins' now' q' (viewer, ([hb, fb], [])) =
    ((viewer', ([], [rb])), Ok oc)"
  by (rule honest_run [OF assms])

section \<open>A concrete environment\<close>

definition take_array :: "nat \<Rightarrow> bytes \<Rightarrow> 'n::len byte_array" where
  "take_array i b = copy_from_slice (take LENGTH('n) (drop i b))"

fun demo_encode :: "HandshakeMessage \<Rightarrow> bytes" where
  "demo_encode (HostHello h) = [0] @ slice (host_hello.ed25519_pk h) @ slice (host_hello.ml_dsa_pk h) @
     slice (kem_pk h) @ slice (host_hello.nonce h) @
     (case host_hello.negotiated_context_hash h of None \<Rightarrow> [] | Some x \<Rightarrow> slice x)"
| "demo_encode (ViewerResponse r) = [1] @ slice (viewer_response.ed25519_pk r) @
     slice (viewer_response.ml_dsa_pk r) @ slice (kem_ct r) @ slice (viewer_response.nonce r) @
     slice (viewer_response.signature r) @ slice (viewer_response.ml_dsa_signature r)"
| "demo_encode (HostFinalize f) = [2] @ slice (host_finalize.signature f) @
     slice (host_finalize.ml_dsa_signature f)"

definition demo_decode :: "bytes \<Rightarrow> (HandshakeMessage, string) result" where
  "demo_decode b = (case b of [] \<Rightarrow> Err ''empty'' | tag # xs \<Rightarrow>
     if tag = 0 then Ok (HostHello \<lparr>host_hello.ed25519_pk = take_array 0 xs, ml_dsa_pk = take_array 32 xs,
       kem_pk = take_array 1984 xs, nonce = take_array 3168 xs,
       negotiated_context_hash = if length xs = 3200 then None else Some (take_array 3200 xs)\<rparr>)
     else if tag = 1 then Ok (ViewerResponse \<lparr>viewer_response.ed25519_pk = take_array 0 xs,
       ml_dsa_pk = take_array 32 xs, kem_ct = take_array 1984 xs, nonce = take_array 3072 xs,
       signature = take_array 3104 xs, ml_dsa_signature = take_array 3168 xs\<rparr>)
     else Ok (HostFinalize \<lparr>host_finalize.signature = take_array 0 xs,
       ml_dsa_signature = take_array 64 xs\<rparr>))"

definition demo_env :: "(u8_32, u8_32, bytes, unit, unit) handshake_env" where
  "demo_env = \<lparr>env_crypto = demo_crypto, env_prims = demo_prims,
     serialize_message = (\<lambda>m. Ok (demo_encode m)), deserialize_message = demo_decode\<rparr>"

lemma demo_codec: "demo_decode (demo_encode m) = Ok m \<and> fits (demo_encode m)"
proof (cases m)
  case (HostHello h)
  then show ?thesis
    by (cases h) (auto simp: demo_decode_def take_array_def MAX_HANDSHAKE_ENVELOPE_BYTES_def
        split: option.splits)
next
  case (ViewerResponse r)
  then show ?thesis
    by (cases r) (simp add: demo_decode_def take_array_def MAX_HANDSHAKE_ENVELOPE_BYTES_def)
next
  case (HostFinalize f)
  then show ?thesis
    by (cases f) (simp add: demo_decode_def take_array_def MAX_HANDSHAKE_ENVELOPE_BYTES_def)
qed

lemma demo_env_lawful: "env_lawful demo_env"
  by (simp add: env_lawful_def demo_env_def message_codec_ok_def demo_codec)

theorem honest_handshake_agrees_witness:
  "\<exists>hb rb fb oc host' viewer' peer.
    perform_host_handshake_authenticating_peer demo_env queue_transport (filled 1) (filled 2) demo_instant
      ''viewer'' None (demo_mgr 3, ([rb], [])) = ((host', ([], [hb, fb])), Ok (oc, peer)) \<and>
    perform_viewer_handshake_with_transcript demo_env queue_transport (filled 4) (filled 5) demo_instant
      ''host'' (demo_mgr 6, ([hb, fb], [])) = ((viewer', ([], [rb])), Ok oc)"
  using honest_handshake_agrees [OF demo_env_lawful, of "filled 1" "filled 2" demo_instant "''viewer''"
      None "demo_mgr 3" "demo_mgr 6" "filled 4" "filled 5" demo_instant "''host''"]
  by blast

section \<open>A viewer agrees with the host it verified\<close>

lemma response_equalityI:
  assumes "final_fields hb r = final_fields hb' r'"
  shows "hb = hb' \<and> r = r'"
  using assms by (cases r; cases r') (auto simp: final_fields_def response_fields_def)

lemma final_transcript_inject:
  assumes "final_transcript hb r = Ok m" and "final_transcript hb' r' = Ok m"
  shows "hb = hb' \<and> r = r'"
proof -
  have fit: "fields_fit (final_fields hb r)" "fields_fit (final_fields hb' r')"
    using assms by (auto simp: final_transcript_eq_Ok final_fields_def response_fields_def
        fields_fit_def context_labels)
  have "final_fields hb r = final_fields hb' r'"
    using prefixed_fields_inject [OF fit] assms by (simp add: final_transcript_eq_Ok)
  then show ?thesis by (rule response_equalityI)
qed

lemma viewer_answer_identity:
  assumes "viewer_answer env vn coins now q hb mgr = (mgr2, Ok (h, vk, r))"
  shows "same_identity mgr mgr2" and "response_identity r =
    \<lparr>VerifiedPeerIdentity.ed25519_pk = HandshakeManager_identity_public_key_bytes (env_crypto env) mgr2,
      ml_dsa_pk = slice (HandshakeManager_ml_dsa_public_key_bytes (env_crypto env) mgr2)\<rparr>"
proof -
  obtain mgr1 ct m where a: "HandshakeManager_receive_kem_public_key q (slice (kem_pk h)) mgr = (mgr1, Ok ())"
      "HandshakeManager_encapsulate_for_peer (env_prims env) coins now q
        (slice (host_hello.nonce h) @ slice vn) mgr1 = (mgr2, Ok (slice ct))"
      "r = response_of env mgr2 ct vn m"
    using assms unfolding viewer_answer_eq_Ok by blast
  show "same_identity mgr mgr2"
    using same_identity_trans [OF manager_step_frame(1) [OF manager_step.receive [OF a(1)]]
        manager_step_frame(1) [OF manager_step.encapsulate [OF a(2)]]] .
  show "response_identity r =
    \<lparr>VerifiedPeerIdentity.ed25519_pk = HandshakeManager_identity_public_key_bytes (env_crypto env) mgr2,
      ml_dsa_pk = slice (HandshakeManager_ml_dsa_public_key_bytes (env_crypto env) mgr2)\<rparr>"
    by (simp add: a(3) response_identity_def response_of_def)
qed

lemma codec_roundtrip:
  assumes "env_lawful env" and "serialize_message env m = Ok b"
  shows "deserialize_message env b = Ok m"
proof -
  have "message_codec_ok env" using assms(1) by (simp add: env_lawful_def)
  then obtain b' where "serialize_message env m = Ok b'" "deserialize_message env b' = Ok m"
    by (rule message_codec_okD)
  with assms(2) show ?thesis by simp
qed

lemma outcome_fields:
  assumes "handshake_outcome env h r f k = Ok oc"
  shows "HandshakeOutcome.negotiated_context_hash oc = host_hello.negotiated_context_hash h"
    and "host_identity_fingerprint_of oc = host_identity_fingerprint (env_crypto env)
      (host_hello.ed25519_pk h) (slice (host_hello.ml_dsa_pk h))"
  using assms by (auto simp: handshake_outcome_def Let_def)

text \<open>When both sign and verify the same transcript, they share the hello, the response and the key.\<close>

lemma same_transcript_agreement:
  assumes "env_lawful env" and h: "host_begin env hn coins q ctx host = (host1, h)"
    and hb: "serialize_message env (HostHello h) = Ok hb" "fits hb"
    and rcv: "host_receive env now q hn hb rb host1 = (host2, Ok (r, root, f))"
    and oh: "handshake_outcome env h r f root = Ok oh"
    and v: "viewer_answer env vn coins' now' q' hb viewer = (viewer2, Ok (h', vk, r))"
    and fin: "viewer_finish env q' hb h' vk r fb' viewer2 = Ok ov"
  shows "HandshakeOutcome.negotiated_context_hash ov = HandshakeOutcome.negotiated_context_hash oh \<and>
    host_identity_fingerprint_of ov = host_identity_fingerprint_of oh \<and>
    (serialize_message env (HostFinalize f) = Ok fb' \<longrightarrow> ov = oh)"
proof -
  note dhb = codec_roundtrip [OF assms(1) hb(1)]
  have h': "h' = h" using v dhb by (simp add: viewer_answer_eq_Ok)
  have drb: "deserialize_message env rb = Ok (ViewerResponse r)"
    using rcv by (simp add: host_receive_eq_Ok)
  obtain k where k: "sessions viewer2 q' = Some \<lparr>key = k, established_at = now'\<rparr>" "k = root"
    using honest_exchange [OF assms(1) h dhb hb(2) drb v [unfolded h'], of now] rcv by auto
  obtain f' where f': "deserialize_message env fb' = Ok (HostFinalize f')"
      "handshake_outcome env h r f' root = Ok ov"
    using fin k h' by (auto simp: viewer_finish_eq_Ok)
  then show ?thesis
    using outcome_fields [OF f'(2)] outcome_fields [OF oh] oh
    by (auto dest: codec_roundtrip [OF assms(1)])
qed

text \<open>
  C8. Agreement. Let a host and a viewer each complete a run, over whatever a network delivers, where
  the viewer was shown the host's Ed25519 key. Then the last message the viewer received carries two
  signatures on the viewer's own transcript (the hello it was shown and the response it sent), one accepted
  under the host's Ed25519 key and one under the ML-DSA key of the hello. Moreover the viewer received the
  hello the host sent, the host accepted the response the viewer sent and authenticated the viewer's pair of
  keys, both report the same context hash and fingerprint, and when the host's last message was delivered
  unchanged their outcomes, session key included, are equal; otherwise the transcript whose signatures the
  viewer accepted differs from the one the host signed in its run.
\<close>

theorem viewer_agrees_with_host:
  assumes host: "perform_host_handshake_authenticating_peer env queue_transport hn coins now q ctx
      (host, (inb, [])) = ((host', (inb', [hb, fb])), Ok (oh, peer))"
    and viewer: "perform_viewer_handshake_with_transcript env queue_transport vn coins' now' q'
      (viewer, ([hb', fb'], [])) = ((viewer', ([], [rb'])), Ok ov)"
    and shown: "deserialize_message env hb' = Ok (HostHello h')"
      "host_hello.ed25519_pk h' = HandshakeManager_identity_public_key_bytes (env_crypto env) host"
    and "env_lawful env"
  shows "\<exists>r r' m m' f'. deserialize_message env (hd inb) = Ok (ViewerResponse r) \<and> final_transcript hb r = Ok m \<and>
    deserialize_message env rb' = Ok (ViewerResponse r') \<and> final_transcript hb' r' = Ok m' \<and>
    deserialize_message env fb' = Ok (HostFinalize f') \<and>
    ed_verify (env_crypto env) (ed_verifying_key (env_crypto env) (signing_key host)) m'
      (host_finalize.signature f') \<and>
    ml_dsa_65_accepts (env_crypto env) (host_hello.ml_dsa_pk h') m' (host_finalize.ml_dsa_signature f') \<and>
    (hb' = hb \<and> r' = r \<and>
      peer = \<lparr>VerifiedPeerIdentity.ed25519_pk =
          HandshakeManager_identity_public_key_bytes (env_crypto env) viewer,
        ml_dsa_pk = slice (HandshakeManager_ml_dsa_public_key_bytes (env_crypto env) viewer)\<rparr> \<and>
      HandshakeOutcome.negotiated_context_hash ov = HandshakeOutcome.negotiated_context_hash oh \<and>
      host_identity_fingerprint_of ov = host_identity_fingerprint_of oh \<and> (fb' = fb \<longrightarrow> ov = oh) \<or>
     m' \<noteq> m)"
proof -
  obtain host1 h rb r root f where hst: "host_begin env hn coins q ctx host = (host1, h)"
      "serialize_message env (HostHello h) = Ok hb" "fits hb" "inb = rb # inb'"
      "host_receive env now q hn hb rb host1 = (host', Ok (r, root, f))"
      "serialize_message env (HostFinalize f) = Ok fb"
      "handshake_outcome env h r f root = Ok oh" "peer = response_identity r"
    using host unfolding host_run_eq_Ok by auto
  obtain h2 vk r' where v2: "viewer_answer env vn coins' now' q' hb' viewer = (viewer', Ok (h2, vk, r'))"
      "serialize_message env (ViewerResponse r') = Ok rb'"
      "viewer_finish env q' hb' h2 vk r' fb' viewer' = Ok ov"
    using viewer unfolding viewer_run_eq_Ok by auto
  then have "h2 = h'" using shown(1) by (simp add: viewer_answer_eq_Ok)
  note vwr = v2 [unfolded this]
  have law: "ed25519_correct (env_crypto env)" "ed25519_key_codec (env_crypto env)"
      "ml_dsa_correct (env_crypto env) MlDsa65"
    using assms(5) by (simp_all add: env_lawful_def)
  have vk: "vk = ed_verifying_key (env_crypto env) (signing_key host)"
    using vwr(1) shown(2) manager_signs(1) [OF law, of host] by (simp add: viewer_answer_eq_Ok)
  obtain m where m: "final_transcript hb r = Ok m" and dr: "deserialize_message env rb = Ok (ViewerResponse r)"
    using hst(5) by (auto simp: host_receive_eq_Ok)
  obtain m' f' where m': "final_transcript hb' r' = Ok m'" "deserialize_message env fb' = Ok (HostFinalize f')"
      "ed_verify (env_crypto env) vk m' (host_finalize.signature f')"
      "ml_dsa_65_accepts (env_crypto env) (host_hello.ml_dsa_pk h') m' (host_finalize.ml_dsa_signature f')"
    using vwr(3) by (auto simp: viewer_finish_eq_Ok)
  have "hb' = hb \<and> r' = r \<and> peer = \<lparr>VerifiedPeerIdentity.ed25519_pk =
          HandshakeManager_identity_public_key_bytes (env_crypto env) viewer,
        ml_dsa_pk = slice (HandshakeManager_ml_dsa_public_key_bytes (env_crypto env) viewer)\<rparr> \<and>
      HandshakeOutcome.negotiated_context_hash ov = HandshakeOutcome.negotiated_context_hash oh \<and>
      host_identity_fingerprint_of ov = host_identity_fingerprint_of oh \<and> (fb' = fb \<longrightarrow> ov = oh)" if "m' = m"
  proof -
    from that have same: "hb' = hb" "r' = r" using final_transcript_inject m m'(1) by blast+
    have id: "same_identity viewer viewer'" and pr: "response_identity r =
        \<lparr>VerifiedPeerIdentity.ed25519_pk = HandshakeManager_identity_public_key_bytes (env_crypto env) viewer',
          ml_dsa_pk = slice (HandshakeManager_ml_dsa_public_key_bytes (env_crypto env) viewer')\<rparr>"
      using viewer_answer_identity [OF vwr(1)] same by auto
    show ?thesis
      using same_transcript_agreement [OF assms(5) hst(1-3,5,7) vwr(1,3) [unfolded same]] hst(6,8) same
      by (simp add: pr same_identity_keys [OF id])
  qed
  moreover have "deserialize_message env rb' = Ok (ViewerResponse r')"
    by (rule codec_roundtrip [OF assms(5) vwr(2)])
  ultimately show ?thesis using hst(4) dr m m' [unfolded vk] by (simp only: list.sel) blast
qed

theorem viewer_agrees_with_host_witness:
  "\<exists>inb hb fb rb oh ov peer host' viewer'.
     perform_host_handshake_authenticating_peer demo_env queue_transport (filled 1) (filled 2) demo_instant
       ''viewer'' None (demo_mgr 3, (inb, [])) = ((host', ([], [hb, fb])), Ok (oh, peer)) \<and>
     perform_viewer_handshake_with_transcript demo_env queue_transport (filled 4) (filled 5) demo_instant
       ''host'' (demo_mgr 6, ([hb, fb], [])) = ((viewer', ([], [rb])), Ok ov) \<and>
     peer = \<lparr>VerifiedPeerIdentity.ed25519_pk = HandshakeManager_identity_public_key_bytes demo_crypto (demo_mgr 6),
       ml_dsa_pk = slice (HandshakeManager_ml_dsa_public_key_bytes demo_crypto (demo_mgr 6))\<rparr> \<and>
     host_identity_fingerprint_of ov = host_identity_fingerprint_of oh"
proof -
  obtain hb rb fb oc host' viewer' peer where
    h: "perform_host_handshake_authenticating_peer demo_env queue_transport (filled 1) (filled 2)
      demo_instant ''viewer'' None (demo_mgr 3, ([rb], [])) = ((host', ([], [hb, fb])), Ok (oc, peer))"
    and v: "perform_viewer_handshake_with_transcript demo_env queue_transport (filled 4) (filled 5)
      demo_instant ''host'' (demo_mgr 6, ([hb, fb], [])) = ((viewer', ([], [rb])), Ok oc)"
    using honest_run [OF demo_env_lawful, of "filled 1" "filled 2" demo_instant "''viewer''"
        None "demo_mgr 3" "demo_mgr 6" "filled 4" "filled 5" demo_instant "''host''"]
    by blast
  obtain host1 hl where hl: "host_begin demo_env (filled 1) (filled 2) ''viewer'' None (demo_mgr 3) = (host1, hl)"
      "serialize_message demo_env (HostHello hl) = Ok hb"
    using h unfolding host_run_eq_Ok by auto
  have env: "env_crypto demo_env = demo_crypto" by (simp add: demo_env_def)
  from viewer_agrees_with_host [OF h v codec_roundtrip [OF demo_env_lawful hl(2)]
      host_begin_simps(4) [OF hl(1)] demo_env_lawful] h v
  show ?thesis unfolding list.sel env by (metis result.inject(1) HandshakeMessage.inject(2))
qed

end
