(* ===== verification/Session_Epoch.thy ===== *)
theory Session_Epoch
  imports Handshake_Keys Hash_Walk
begin

text \<open>
  Rekey epochs of a session: \<open>RekeyPolicy\<close> and \<open>SessionEpochState\<close> of
  \<open>crates/xenia-peer-core/src/handshake.rs\<close>. An epoch context names its number, the transcript of the
  handshake and the hash of the context before it, so the installed epochs form a hash chain, an
  instance of the walk that the ledger verifiers share.
\<close>

section \<open>Policy and state\<close>

record RekeyPolicy =
  max_frames_per_epoch :: u64
  max_bytes_per_epoch :: u64
  min_frames_between_rekeys :: u64
  manual_rekey_allowed :: bool

definition RekeyPolicy_smoke :: RekeyPolicy where
  "RekeyPolicy_smoke = \<lparr>max_frames_per_epoch = 4, max_bytes_per_epoch = 0,
     min_frames_between_rekeys = 1, manual_rekey_allowed = True\<rparr>"

definition RekeyPolicy_from_limits :: "u64 \<Rightarrow> u64 \<Rightarrow> RekeyPolicy" where
  "RekeyPolicy_from_limits frames nbytes = \<lparr>max_frames_per_epoch = frames, max_bytes_per_epoch = nbytes,
     min_frames_between_rekeys = 1, manual_rekey_allowed = True\<rparr>"

record SessionEpochState =
  current_epoch :: u64
  base_transcript_hash :: u8_32
  previous_epoch_hash :: u8_32
  frames_in_epoch :: u64
  bytes_in_epoch :: u64
  audio_frames_in_epoch :: u64
  rejected_rekeys :: u64
  last_rekey_reason :: "RekeyReason option"
  policy :: RekeyPolicy

definition SessionEpochState_new :: "u8_32 \<Rightarrow> RekeyPolicy \<Rightarrow> SessionEpochState" where
  "SessionEpochState_new base pol = \<lparr>current_epoch = 0, base_transcript_hash = base,
     previous_epoch_hash = base, frames_in_epoch = 0, bytes_in_epoch = 0, audio_frames_in_epoch = 0,
     rejected_rekeys = 0, last_rekey_reason = None, policy = pol\<rparr>"

section \<open>Operations\<close>

definition SessionEpochState_record_video_frame :: "nat \<Rightarrow> SessionEpochState \<Rightarrow> SessionEpochState" where
  "SessionEpochState_record_video_frame n st =
     st\<lparr>frames_in_epoch := saturating_add (frames_in_epoch st) 1,
       bytes_in_epoch := saturating_add (bytes_in_epoch st) (of_nat n)\<rparr>"

definition SessionEpochState_record_audio_frame :: "nat \<Rightarrow> SessionEpochState \<Rightarrow> SessionEpochState" where
  "SessionEpochState_record_audio_frame n st =
     st\<lparr>audio_frames_in_epoch := saturating_add (audio_frames_in_epoch st) 1,
       bytes_in_epoch := saturating_add (bytes_in_epoch st) (of_nat n)\<rparr>"

text \<open>\<open>current_epoch + 1\<close> wraps in a release build.\<close>

definition SessionEpochState_next_rekey_context :: "RekeyReason \<Rightarrow> SessionEpochState \<Rightarrow> RekeyEpochContextV1"
  where
  "SessionEpochState_next_rekey_context r st = RekeyEpochContextV1_new (current_epoch st + 1)
     (SessionEpochState.base_transcript_hash st) (SessionEpochState.previous_epoch_hash st) r"

definition SessionEpochState_next_rekey_due :: "SessionEpochState \<Rightarrow> RekeyEpochContextV1 option" where
  "SessionEpochState_next_rekey_due st =
     (if frames_in_epoch st \<ge> min_frames_between_rekeys (policy st) then
        if max_frames_per_epoch (policy st) \<noteq> 0 \<and>
           frames_in_epoch st \<ge> max_frames_per_epoch (policy st)
        then Some (SessionEpochState_next_rekey_context FrameCount st)
        else if max_bytes_per_epoch (policy st) \<noteq> 0 \<and>
           bytes_in_epoch st \<ge> max_bytes_per_epoch (policy st)
        then Some (SessionEpochState_next_rekey_context ByteCount st)
        else None
      else None)"

text \<open>The epoch number is set before the hash of the context can fail.\<close>

definition SessionEpochState_install_epoch ::
    "('sk, 'vk, 'ml) crypto \<Rightarrow> ('sk, 'ml, 'dk, 'ek) prims \<Rightarrow> RekeyEpochContextV1 \<Rightarrow> SessionEpochState \<Rightarrow>
     SessionEpochState \<times> (unit, HandshakeError) result" where
  "SessionEpochState_install_epoch c p x st =
     (if RekeyEpochContextV1.key_epoch x \<noteq> current_epoch st + 1 \<or>
         RekeyEpochContextV1.base_transcript_hash x \<noteq> SessionEpochState.base_transcript_hash st \<or>
         RekeyEpochContextV1.previous_epoch_hash x \<noteq> SessionEpochState.previous_epoch_hash st
      then (st\<lparr>rejected_rekeys := saturating_add (rejected_rekeys st) 1\<rparr>, Err SignatureVerificationFailed)
      else let st1 = st\<lparr>current_epoch := RekeyEpochContextV1.key_epoch x\<rparr> in
        (case RekeyEpochContextV1_epoch_hash c p x of
           Err e \<Rightarrow> (st1, Err e)
         | Ok h \<Rightarrow> (st1\<lparr>SessionEpochState.previous_epoch_hash := h, frames_in_epoch := 0,
             bytes_in_epoch := 0, audio_frames_in_epoch := 0,
             last_rekey_reason := Some (RekeyEpochContextV1.reason x)\<rparr>, Ok ())))"

definition SessionEpochState_validate_proposal ::
    "('sk, 'vk, 'ml) crypto \<Rightarrow> ('sk, 'ml, 'dk, 'ek) prims \<Rightarrow> u64 \<Rightarrow> u8_32 \<Rightarrow> u8_32 \<Rightarrow> RekeyReason \<Rightarrow> u8_32 \<Rightarrow>
     SessionEpochState \<Rightarrow> SessionEpochState \<times> (RekeyEpochContextV1, HandshakeError) result" where
  "SessionEpochState_validate_proposal c p e base prev r epoch_hash st =
     (let x = RekeyEpochContextV1_new e base prev r;
          reject = (st\<lparr>rejected_rekeys := saturating_add (rejected_rekeys st) 1\<rparr>,
            Err SignatureVerificationFailed)
      in if e \<noteq> current_epoch st + 1 \<or> base \<noteq> SessionEpochState.base_transcript_hash st \<or>
            prev \<noteq> SessionEpochState.previous_epoch_hash st then reject
         else case RekeyEpochContextV1_epoch_hash c p x of
           Err err \<Rightarrow> (st, Err err)
         | Ok h \<Rightarrow> if h \<noteq> epoch_hash then reject else (st, Ok x))"

definition SessionEpochState_derive_and_install ::
    "('sk, 'vk, 'ml) crypto \<Rightarrow> ('sk, 'ml, 'dk, 'ek) prims \<Rightarrow> SessionKeySchedule \<Rightarrow> RekeyEpochContextV1 \<Rightarrow>
     SessionEpochState \<Rightarrow> SessionEpochState \<times> (RekeyEpochKeys, HandshakeError) result" where
  "SessionEpochState_derive_and_install c p schedule x st =
     st_then (st, derive_rekey_epoch_keys c p schedule x) (\<lambda>st0 keys.
     st_then (SessionEpochState_install_epoch c p x st0) (\<lambda>st1 _. (st1, Ok keys)))"

section \<open>The epochs form a hash chain\<close>

text \<open>
  A history: the contexts installed since the handshake, each with its hash. \<open>epoch_walk\<close> says that it
  starts at the handshake's transcript hash, counts from the given epoch, and links.
\<close>

fun epoch_walk ::
    "('sk, 'vk, 'ml) crypto \<Rightarrow> ('sk, 'ml, 'dk, 'ek) prims \<Rightarrow> u8_32 \<Rightarrow> nat \<Rightarrow> u8_32 \<Rightarrow>
     (RekeyEpochContextV1 \<times> u8_32) list \<Rightarrow> (unit, unit) result" where
  "epoch_walk c p base i prev [] = Ok ()"
| "epoch_walk c p base i prev ((x, h) # xs) =
     (if RekeyEpochContextV1.key_epoch x = of_nat (Suc i) \<and>
         RekeyEpochContextV1.base_transcript_hash x = base \<and>
         RekeyEpochContextV1.previous_epoch_hash x = prev \<and>
         RekeyEpochContextV1_epoch_hash c p x = Ok h
      then epoch_walk c p base (Suc i) h xs else Err ())"

definition context_hash ::
    "('sk, 'vk, 'ml) crypto \<Rightarrow> ('sk, 'ml, 'dk, 'ek) prims \<Rightarrow> RekeyEpochContextV1 \<Rightarrow> u8_32 option" where
  "context_hash c p x = (case RekeyEpochContextV1_epoch_hash c p x of Ok h \<Rightarrow> Some h | Err _ \<Rightarrow> None)"

interpretation epochs: committed_walk "epoch_walk c p"
    "\<lambda>base i prev (x, h). RekeyEpochContextV1.key_epoch x = of_nat (Suc i) \<and>
       RekeyEpochContextV1.base_transcript_hash x = base \<and>
       RekeyEpochContextV1.previous_epoch_hash x = prev \<and> RekeyEpochContextV1_epoch_hash c p x = Ok h"
    "RekeyEpochContextV1.previous_epoch_hash \<circ> fst" snd fst "context_hash c p" for c p
  by unfold_locales (auto simp: context_hash_def split: if_splits)

text \<open>
  The steps of a session: frames are recorded, proposals are validated (and refused), epochs are
  installed. The history is what has been installed.
\<close>

inductive epoch_step ::
    "('sk, 'vk, 'ml) crypto \<Rightarrow> ('sk, 'ml, 'dk, 'ek) prims \<Rightarrow>
     SessionEpochState \<times> (RekeyEpochContextV1 \<times> u8_32) list \<Rightarrow>
     SessionEpochState \<times> (RekeyEpochContextV1 \<times> u8_32) list \<Rightarrow> bool" for c p where
  video: "epoch_step c p (st, hist) (SessionEpochState_record_video_frame n st, hist)"
| audio: "epoch_step c p (st, hist) (SessionEpochState_record_audio_frame n st, hist)"
| validate: "SessionEpochState_validate_proposal c p e base prev r h st = (st', res) \<Longrightarrow>
    epoch_step c p (st, hist) (st', hist)"
| install: "SessionEpochState_install_epoch c p x st = (st', Ok ()) \<Longrightarrow>
    RekeyEpochContextV1_epoch_hash c p x = Ok h \<Longrightarrow> epoch_step c p (st, hist) (st', hist @ [(x, h)])"
| refuse: "SessionEpochState_install_epoch c p x st = (st', Err SignatureVerificationFailed) \<Longrightarrow>
    epoch_step c p (st, hist) (st', hist)"

definition epoch_state_ok ::
    "('sk, 'vk, 'ml) crypto \<Rightarrow> ('sk, 'ml, 'dk, 'ek) prims \<Rightarrow> u8_32 \<Rightarrow>
     SessionEpochState \<times> (RekeyEpochContextV1 \<times> u8_32) list \<Rightarrow> bool" where
  "epoch_state_ok c p base = (\<lambda>(st, hist). SessionEpochState.base_transcript_hash st = base \<and>
     current_epoch st = of_nat (length hist) \<and>
     SessionEpochState.previous_epoch_hash st = head_after snd base hist \<and>
     epoch_walk c p base 0 base hist = Ok ())"

lemma install_epoch_cases:
  assumes "SessionEpochState_install_epoch c p x st = (st', res)"
  obtains (refused) "res = Err SignatureVerificationFailed"
      "st' = st\<lparr>rejected_rekeys := saturating_add (rejected_rekeys st) 1\<rparr>"
    | (unhashed) e where "res = Err e" "RekeyEpochContextV1_epoch_hash c p x = Err e"
    | (installed) h where "res = Ok ()" "RekeyEpochContextV1_epoch_hash c p x = Ok h"
      "RekeyEpochContextV1.key_epoch x = current_epoch st + 1"
      "RekeyEpochContextV1.base_transcript_hash x = SessionEpochState.base_transcript_hash st"
      "RekeyEpochContextV1.previous_epoch_hash x = SessionEpochState.previous_epoch_hash st"
      "current_epoch st' = current_epoch st + 1"
      "SessionEpochState.base_transcript_hash st' = SessionEpochState.base_transcript_hash st"
      "SessionEpochState.previous_epoch_hash st' = h"
      "frames_in_epoch st' = 0" "bytes_in_epoch st' = 0" "audio_frames_in_epoch st' = 0"
  using assms
  by (auto simp: SessionEpochState_install_epoch_def Let_def split: if_splits result.splits)

lemma epoch_hash_never_refuses:
  "RekeyEpochContextV1_epoch_hash c p x \<noteq> Err SignatureVerificationFailed"
  by (cases "serialize_rekey p x")
    (simp_all add: RekeyEpochContextV1_epoch_hash_def RekeyEpochContextV1_canonical_bytes_def)

lemma epoch_step_ok:
  assumes "epoch_step c p s s'" and "epoch_state_ok c p base s"
  shows "epoch_state_ok c p base s'"
  using assms
proof (induction rule: epoch_step.induct)
  case (install x st st' h hist)
  from install(1) show ?case
    by (cases rule: install_epoch_cases)
      (use install in \<open>auto simp: epoch_state_ok_def head_after_simps epochs.walk_snoc\<close>)
next
  case (refuse x st st' hist)
  from refuse(1) show ?case
    by (cases rule: install_epoch_cases)
      (use refuse epoch_hash_never_refuses [of c p x] in \<open>auto simp: epoch_state_ok_def\<close>)
qed (auto simp: epoch_state_ok_def SessionEpochState_record_video_frame_def
    SessionEpochState_record_audio_frame_def SessionEpochState_validate_proposal_def Let_def
    split: if_splits result.splits)

lemma epoch_steps_ok:
  assumes "(epoch_step c p)\<^sup>*\<^sup>* (SessionEpochState_new base pol, []) s"
  shows "epoch_state_ok c p base s"
  using assms
proof (induction rule: rtranclp_induct)
  case base
  then show ?case by (simp add: epoch_state_ok_def SessionEpochState_new_def head_after_simps)
next
  case (step s s')
  then show ?case by (blast intro: epoch_step_ok)
qed

section \<open>Properties\<close>

text \<open>
  C12. The epoch hash commits to the rekey history. Two sessions that started from one handshake
  transcript, went through any frames, refused proposals and installed epochs, and stand at the same
  epoch hash after the same number of rekeys, have installed the same contexts in the same order, or the
  context hash collides at one position.
\<close>

theorem epoch_history_committed:
  assumes "(epoch_step c p)\<^sup>*\<^sup>* (SessionEpochState_new base pol, []) (st, hist)"
    and "(epoch_step c p)\<^sup>*\<^sup>* (SessionEpochState_new base pol', []) (st', hist')"
    and "length hist = length hist'"
    and "SessionEpochState.previous_epoch_hash st = SessionEpochState.previous_epoch_hash st'"
  shows "map fst hist = map fst hist' \<or>
    (\<exists>k < length hist. collision (context_hash c p) (fst (hist ! k)) (fst (hist' ! k)))"
proof -
  have "epoch_state_ok c p base (st, hist)" "epoch_state_ok c p base (st', hist')"
    using epoch_steps_ok [OF assms(1)] epoch_steps_ok [OF assms(2)] .
  then show ?thesis
    using epochs.same_head_same_log [of c p base 0 base hist base 0 base hist'] assms(3,4)
    by (auto simp: epoch_state_ok_def)
qed

text \<open>Two peers at the same point of one epoch chain.\<close>

definition in_sync :: "SessionEpochState \<Rightarrow> SessionEpochState \<Rightarrow> bool" where
  "in_sync a b \<longleftrightarrow> current_epoch a = current_epoch b \<and>
     SessionEpochState.base_transcript_hash a = SessionEpochState.base_transcript_hash b \<and>
     SessionEpochState.previous_epoch_hash a = SessionEpochState.previous_epoch_hash b"

text \<open>What a refused proposal or context leaves behind: one more rejected rekey.\<close>

definition rekey_rejected :: "SessionEpochState \<Rightarrow> SessionEpochState" where
  "rekey_rejected st = st\<lparr>rejected_rekeys := saturating_add (rejected_rekeys st) 1\<rparr>"

lemma validate_proposal_eq_Ok:
  "SessionEpochState_validate_proposal c p e base prev r h st = (st', Ok x) \<longleftrightarrow>
     st' = st \<and> x = SessionEpochState_next_rekey_context r st \<and> e = RekeyEpochContextV1.key_epoch x \<and>
     base = RekeyEpochContextV1.base_transcript_hash x \<and> prev = RekeyEpochContextV1.previous_epoch_hash x \<and>
     RekeyEpochContextV1_epoch_hash c p x = Ok h"
  by (auto simp: SessionEpochState_validate_proposal_def SessionEpochState_next_rekey_context_def
      RekeyEpochContextV1_new_def Let_def split: result.splits if_splits)

lemma stale_epoch_refused:
  "RekeyEpochContextV1.key_epoch x \<noteq> current_epoch st + 1 \<Longrightarrow>
     SessionEpochState_install_epoch c p x st = (rekey_rejected st, Err SignatureVerificationFailed)"
  "e \<noteq> current_epoch st + 1 \<Longrightarrow>
     SessionEpochState_validate_proposal c p e base prev r h st =
       (rekey_rejected st, Err SignatureVerificationFailed)"
  by (simp_all add: SessionEpochState_install_epoch_def SessionEpochState_validate_proposal_def
      rekey_rejected_def Let_def)

lemma next_context_installs:
  assumes "RekeyEpochContextV1_epoch_hash c p x = Ok h" and "x = SessionEpochState_next_rekey_context r st"
    and "derive_rekey_epoch_keys c p schedule x = Ok keys"
  shows "SessionEpochState_derive_and_install c p schedule x st =
    (st\<lparr>current_epoch := current_epoch st + 1, SessionEpochState.previous_epoch_hash := h, frames_in_epoch := 0,
      bytes_in_epoch := 0, audio_frames_in_epoch := 0, last_rekey_reason := Some r\<rparr>, Ok keys)"
  using assms by (simp add: SessionEpochState_derive_and_install_def SessionEpochState_install_epoch_def
      SessionEpochState_next_rekey_context_def RekeyEpochContextV1_new_def Let_def)

text \<open>
  C29. A rekey keeps two peers in lockstep. Let two peers be at the same epoch. A proposal passes the
  validation of either exactly when its epoch, base hash and previous hash are those of that peer's own next
  context and the epoch hash it carries is that context's. So the context one of them proposes passes the
  other's validation unchanged; both derive the same lane keys and install it, and both are at the same
  epoch again, one further, with their counters reset. From then on every proposal for that epoch, whatever
  else it carries, is refused by the validation of both, and the context itself by the installation of both;
  a refusal only counts the rejected rekey.
\<close>

theorem rekey_lockstep:
  assumes "in_sync a b" and "RekeyEpochContextV1_epoch_hash c p x = Ok h"
    and "x = SessionEpochState_next_rekey_context r a"
  shows "(\<forall>st \<in> {a, b}. \<forall>e base prev r' h' st' y.
      SessionEpochState_validate_proposal c p e base prev r' h' st = (st', Ok y) \<longleftrightarrow>
      st' = st \<and> y = SessionEpochState_next_rekey_context r' st \<and> e = RekeyEpochContextV1.key_epoch y \<and>
      base = RekeyEpochContextV1.base_transcript_hash y \<and> prev = RekeyEpochContextV1.previous_epoch_hash y \<and>
      RekeyEpochContextV1_epoch_hash c p y = Ok h') \<and>
    (\<exists>keys a' b'.
    SessionEpochState_validate_proposal c p (RekeyEpochContextV1.key_epoch x)
      (RekeyEpochContextV1.base_transcript_hash x) (RekeyEpochContextV1.previous_epoch_hash x) r h b =
      (b, Ok x) \<and>
    SessionEpochState_derive_and_install c p schedule x a = (a', Ok keys) \<and>
    SessionEpochState_derive_and_install c p schedule x b = (b', Ok keys) \<and>
    in_sync a' b' \<and> current_epoch a' = current_epoch a + 1 \<and>
    (\<forall>st \<in> {a', b'}. frames_in_epoch st = 0 \<and> bytes_in_epoch st = 0 \<and> audio_frames_in_epoch st = 0 \<and>
      SessionEpochState_install_epoch c p x st = (rekey_rejected st, Err SignatureVerificationFailed) \<and>
      (\<forall>base prev r' h'. SessionEpochState_validate_proposal c p (RekeyEpochContextV1.key_epoch x) base prev r' h' st =
        (rekey_rejected st, Err SignatureVerificationFailed))))"
proof -
  obtain keys where k: "derive_rekey_epoch_keys c p schedule x = Ok keys"
    using assms(2) by (simp add: derive_rekey_epoch_keys_def Let_def)
  have xb: "x = SessionEpochState_next_rekey_context r b"
    using assms(1,3) by (simp add: SessionEpochState_next_rekey_context_def in_sync_def)
  have e: "RekeyEpochContextV1.key_epoch x = current_epoch a + 1"
    using assms(3) by (simp add: SessionEpochState_next_rekey_context_def RekeyEpochContextV1_new_def)
  have "SessionEpochState_validate_proposal c p (RekeyEpochContextV1.key_epoch x)
      (RekeyEpochContextV1.base_transcript_hash x) (RekeyEpochContextV1.previous_epoch_hash x) r h b = (b, Ok x)"
    using assms(2) xb by (simp add: validate_proposal_eq_Ok)
  then show ?thesis
    using next_context_installs [OF assms(2,3) k] next_context_installs [OF assms(2) xb k] assms(1) e
    by (auto simp: in_sync_def validate_proposal_eq_Ok stale_epoch_refused)
qed

definition demo_epoch :: SessionEpochState where
  "demo_epoch = SessionEpochState_new (filled 1) RekeyPolicy_smoke"

theorem rekey_lockstep_witness:
  "\<exists>keys a' b'.
    SessionEpochState_derive_and_install demo_crypto demo_prims
      (derive_session_key_schedule demo_prims (filled 2) (filled 1))
      (SessionEpochState_next_rekey_context FrameCount demo_epoch) demo_epoch = (a', Ok keys) \<and>
    current_epoch a' = 1 \<and> in_sync a' b' \<and>
    SessionEpochState_validate_proposal demo_crypto demo_prims 1 (filled 1) (filled 1) FrameCount (filled 7) b' =
      (rekey_rejected b', Err SignatureVerificationFailed)"
proof -
  let ?x = "SessionEpochState_next_rekey_context FrameCount demo_epoch"
  have h: "RekeyEpochContextV1_epoch_hash demo_crypto demo_prims ?x =
      Ok (filled (checksum (to_be_bytes (RekeyEpochContextV1.key_epoch ?x))))"
    by (simp add: RekeyEpochContextV1_epoch_hash_def RekeyEpochContextV1_canonical_bytes_def demo_prims_def)
  have "in_sync demo_epoch demo_epoch" "current_epoch demo_epoch = 0" "RekeyEpochContextV1.key_epoch ?x = 1"
    by (simp_all add: in_sync_def demo_epoch_def SessionEpochState_new_def
        SessionEpochState_next_rekey_context_def RekeyEpochContextV1_new_def)
  then show ?thesis
    using rekey_lockstep [OF _ h refl, of demo_epoch
        "derive_session_key_schedule demo_prims (filled 2) (filled 1)"]
    by fastforce
qed

theorem epoch_history_committed_witness:
  "\<exists>st hist. (epoch_step demo_crypto demo_prims)\<^sup>*\<^sup>* (SessionEpochState_new (filled 1) RekeyPolicy_smoke, [])
      (st, hist) \<and> length hist = 1 \<and>
    (map fst hist = map fst hist \<or> (\<exists>k < length hist.
       collision (context_hash demo_crypto demo_prims) (fst (hist ! k)) (fst (hist ! k))))"
proof -
  let ?x = "SessionEpochState_next_rekey_context FrameCount demo_epoch"
  obtain h where h: "RekeyEpochContextV1_epoch_hash demo_crypto demo_prims ?x = Ok h"
    by (simp add: RekeyEpochContextV1_epoch_hash_def RekeyEpochContextV1_canonical_bytes_def demo_prims_def)
  then obtain st where st: "SessionEpochState_install_epoch demo_crypto demo_prims ?x demo_epoch = (st, Ok ())"
    by (simp add: SessionEpochState_install_epoch_def SessionEpochState_next_rekey_context_def
        RekeyEpochContextV1_new_def Let_def)
  have "epoch_step demo_crypto demo_prims (demo_epoch, []) (st, [] @ [(?x, h)])"
    by (rule epoch_step.install [OF st h])
  then have run: "(epoch_step demo_crypto demo_prims)\<^sup>*\<^sup>* (demo_epoch, []) (st, [(?x, h)])"
    by (simp add: r_into_rtranclp [of "epoch_step demo_crypto demo_prims"])
  with epoch_history_committed [OF run [unfolded demo_epoch_def] run [unfolded demo_epoch_def] refl refl]
  show ?thesis unfolding demo_epoch_def by (metis length_Cons list.size(3) One_nat_def)
qed

end
