(* ===== verification/Operator_Proto.thy ===== *)
theory Operator_Proto
  imports Ledger_Primitives
begin

text \<open>
  The operator protocol shared by the daemon and the console,
  \<open>crates/xenia-operator-proto/src/lib.rs\<close>: roles and actions, and the bytes that operators, the daemon
  and the host sign. The seven kinds of signed bytes are gathered in one type, \<open>operator_message\<close>, to
  state that no byte string is a message of two kinds or two messages of one kind.
\<close>

section \<open>Roles and actions\<close>

datatype OperatorRole = Viewer | Approver | Operator | Admin

fun OperatorRole_rank :: "OperatorRole \<Rightarrow> u8" where
  "OperatorRole_rank Viewer = 0"
| "OperatorRole_rank Approver = 1"
| "OperatorRole_rank Operator = 2"
| "OperatorRole_rank Admin = 3"

text \<open>The hierarchy as an order.\<close>

instantiation OperatorRole :: linorder
begin

definition less_eq_OperatorRole :: "OperatorRole \<Rightarrow> OperatorRole \<Rightarrow> bool" where
  "less_eq_OperatorRole a b \<longleftrightarrow> OperatorRole_rank a \<le> OperatorRole_rank b"

definition less_OperatorRole :: "OperatorRole \<Rightarrow> OperatorRole \<Rightarrow> bool" where
  "less_OperatorRole a b \<longleftrightarrow> OperatorRole_rank a < OperatorRole_rank b"

instance
proof
  fix a b :: OperatorRole
  assume "a \<le> b" and "b \<le> a"
  then show "a = b" by (cases a; cases b) (simp_all add: less_eq_OperatorRole_def word_le_nat_alt)
qed (auto simp: less_eq_OperatorRole_def less_OperatorRole_def)

end

fun OperatorRole_as_str :: "OperatorRole \<Rightarrow> string" where
  "OperatorRole_as_str Viewer = ''Viewer''"
| "OperatorRole_as_str Approver = ''Approver''"
| "OperatorRole_as_str Operator = ''Operator''"
| "OperatorRole_as_str Admin = ''Admin''"

datatype OperatorAction =
  ViewInventory | ReadAudit | ApproveConsent | DenyConsent | RevokeConsent | InitiateSession
| ChangePolicy | EnrollOperator | RotateKeys

fun OperatorAction_min_role :: "OperatorAction \<Rightarrow> OperatorRole" where
  "OperatorAction_min_role ViewInventory = Viewer"
| "OperatorAction_min_role ReadAudit = Viewer"
| "OperatorAction_min_role ApproveConsent = Approver"
| "OperatorAction_min_role DenyConsent = Approver"
| "OperatorAction_min_role RevokeConsent = Approver"
| "OperatorAction_min_role InitiateSession = Operator"
| "OperatorAction_min_role ChangePolicy = Admin"
| "OperatorAction_min_role EnrollOperator = Admin"
| "OperatorAction_min_role RotateKeys = Admin"

definition OperatorRole_permits :: "OperatorRole \<Rightarrow> OperatorAction \<Rightarrow> bool" where
  "OperatorRole_permits role action \<longleftrightarrow>
     OperatorRole_rank role \<ge> OperatorRole_rank (OperatorAction_min_role action)"

definition role_permits :: "OperatorRole \<Rightarrow> OperatorAction \<Rightarrow> bool" where
  "role_permits role action = OperatorRole_permits role action"

lemma role_permits_iff: "role_permits role action \<longleftrightarrow> OperatorAction_min_role action \<le> role"
  by (simp add: role_permits_def OperatorRole_permits_def less_eq_OperatorRole_def)

datatype ConsentAction = Approve | Deny | Revoke

fun ConsentAction_tag :: "ConsentAction \<Rightarrow> u8" where
  "ConsentAction_tag Approve = 1"
| "ConsentAction_tag Deny = 2"
| "ConsentAction_tag Revoke = 3"

fun ConsentAction_required_permission :: "ConsentAction \<Rightarrow> OperatorAction" where
  "ConsentAction_required_permission Approve = ApproveConsent"
| "ConsentAction_required_permission Deny = DenyConsent"
| "ConsentAction_required_permission Revoke = RevokeConsent"

fun ConsentAction_as_str :: "ConsentAction \<Rightarrow> string" where
  "ConsentAction_as_str Approve = ''Approve''"
| "ConsentAction_as_str Deny = ''Deny''"
| "ConsentAction_as_str Revoke = ''Revoke''"

definition ConsentAction_from_wire :: "string \<Rightarrow> ConsentAction option" where
  "ConsentAction_from_wire s = (if s = ''Approve'' then Some Approve else if s = ''Deny'' then Some Deny
     else if s = ''Revoke'' then Some Revoke else None)"

lemma from_wire_eq_Some: "ConsentAction_from_wire s = Some a \<longleftrightarrow> s = ConsentAction_as_str a"
  by (cases a) (auto simp: ConsentAction_from_wire_def)

section \<open>Transcripts\<close>

definition CHALLENGE_DOMAIN :: string where
  "CHALLENGE_DOMAIN = ''xenia-operator-auth-challenge-v1''"

definition CONSENT_ACTION_DOMAIN :: string where
  "CONSENT_ACTION_DOMAIN = ''xenia-operator-consent-action-v2''"

definition REVOKE_OPERATOR_DOMAIN :: string where
  "REVOKE_OPERATOR_DOMAIN = ''xenia-operator-revoke-operator-v1''"

definition DAEMON_DELEGATION_DOMAIN :: string where
  "DAEMON_DELEGATION_DOMAIN = ''xenia-daemon-identity-delegation-v1''"

definition CHALLENGE_HOST_ATTESTATION_DOMAIN :: string where
  "CHALLENGE_HOST_ATTESTATION_DOMAIN = ''xenia-challenge-host-attestation-v1''"

definition OPERATOR_TOKEN_DOMAIN :: string where
  "OPERATOR_TOKEN_DOMAIN = ''xenia-operator-token-v1''"

definition REPLACE_OPERATOR_KEY_DOMAIN :: string where
  "REPLACE_OPERATOR_KEY_DOMAIN = ''xenia-operator-replace-key-v1''"

lemmas domain_defs = CHALLENGE_DOMAIN_def CONSENT_ACTION_DOMAIN_def REVOKE_OPERATOR_DOMAIN_def
  DAEMON_DELEGATION_DOMAIN_def CHALLENGE_HOST_ATTESTATION_DOMAIN_def OPERATOR_TOKEN_DOMAIN_def
  REPLACE_OPERATOR_KEY_DOMAIN_def

definition challenge_transcript :: "u8_32 \<Rightarrow> u8_32 \<Rightarrow> bytes \<Rightarrow> bytes" where
  "challenge_transcript nonce ed_pubkey ml_dsa_pubkey =
     as_bytes CHALLENGE_DOMAIN @ slice nonce @ slice ed_pubkey @ ml_dsa_pubkey"

definition consent_action_transcript :: "ConsentAction \<Rightarrow> Uuid \<Rightarrow> u8_16 \<Rightarrow> u8_32 \<Rightarrow> bytes" where
  "consent_action_transcript action sid token_nonce digest =
     as_bytes CONSENT_ACTION_DOMAIN @ [ConsentAction_tag action] @ slice sid @ slice token_nonce @
     slice digest"

definition scope_digest :: "('sk, 'vk, 'ml) crypto \<Rightarrow> string \<Rightarrow> u8_32" where
  "scope_digest c scp = blake3_hash c (as_bytes ''xenia-operator-consent-scope-v1'' @ as_bytes scp)"

definition revoke_operator_transcript :: "string \<Rightarrow> u8_16 \<Rightarrow> bytes" where
  "revoke_operator_transcript target token_nonce =
     as_bytes REVOKE_OPERATOR_DOMAIN @ u32_to_be_bytes (of_nat (length (as_bytes target))) @
     as_bytes target @ slice token_nonce"

definition replace_operator_key_transcript ::
    "string \<Rightarrow> bytes \<Rightarrow> bytes \<Rightarrow> bytes option \<Rightarrow> u8_16 \<Rightarrow> bytes" where
  "replace_operator_key_transcript target new_ed new_ml new_ml_87 token_nonce =
     as_bytes REPLACE_OPERATOR_KEY_DOMAIN @
     u32_to_be_bytes (of_nat (length (as_bytes target))) @ as_bytes target @
     u32_to_be_bytes (of_nat (length new_ed)) @ new_ed @
     u32_to_be_bytes (of_nat (length new_ml)) @ new_ml @
     (case new_ml_87 of
        Some k \<Rightarrow> [1] @ u32_to_be_bytes (of_nat (length k)) @ k
      | None \<Rightarrow> [0]) @
     slice token_nonce"

definition daemon_delegation_transcript :: "u8_32 \<Rightarrow> bytes \<Rightarrow> bytes" where
  "daemon_delegation_transcript ed ml = as_bytes DAEMON_DELEGATION_DOMAIN @ slice ed @ ml"

definition challenge_host_attestation_transcript :: "u8_32 \<Rightarrow> bytes" where
  "challenge_host_attestation_transcript nonce =
     as_bytes CHALLENGE_HOST_ATTESTATION_DOMAIN @ slice nonce"

fun role_tag :: "OperatorRole \<Rightarrow> u8" where
  "role_tag Viewer = 0"
| "role_tag Approver = 1"
| "role_tag Operator = 2"
| "role_tag Admin = 3"

definition operator_token_canonical_bytes :: "string \<Rightarrow> OperatorRole \<Rightarrow> u64 \<Rightarrow> u64 \<Rightarrow> u8_16 \<Rightarrow> bytes" where
  "operator_token_canonical_bytes operator_id role issued_at expires_at token_nonce =
     as_bytes OPERATOR_TOKEN_DOMAIN @ to_le_bytes (of_nat (length (as_bytes operator_id))) @
     as_bytes operator_id @ [role_tag role] @ to_le_bytes issued_at @ to_le_bytes expires_at @
     slice token_nonce"

lemmas transcript_defs = challenge_transcript_def consent_action_transcript_def
  revoke_operator_transcript_def replace_operator_key_transcript_def daemon_delegation_transcript_def
  challenge_host_attestation_transcript_def operator_token_canonical_bytes_def

section \<open>Each transcript determines its fields\<close>

lemma ConsentAction_tag_inject [simp]: "ConsentAction_tag a = ConsentAction_tag b \<longleftrightarrow> a = b"
  by (cases a; cases b) simp_all

lemma role_tag_inject [simp]: "role_tag a = role_tag b \<longleftrightarrow> a = b"
  by (cases a; cases b) simp_all

lemma challenge_transcript_inject:
  "challenge_transcript n e m = challenge_transcript n' e' m' \<longleftrightarrow> n = n' \<and> e = e' \<and> m = m'"
  by (simp add: challenge_transcript_def)

lemma consent_action_transcript_inject:
  "consent_action_transcript a s n d = consent_action_transcript a' s' n' d' \<longleftrightarrow>
     a = a' \<and> s = s' \<and> n = n' \<and> d = d'"
  by (auto simp: consent_action_transcript_def)

lemma revoke_operator_transcript_inject:
  assumes "length t < 2 ^ 32" and "length t' < 2 ^ 32"
  shows "revoke_operator_transcript t n = revoke_operator_transcript t' n' \<longleftrightarrow> t = t' \<and> n = n'"
  using u32_prefixed_inject [of "as_bytes t" "as_bytes t'" "slice n" "slice n'"] assms
  by (simp add: revoke_operator_transcript_def)

lemma optional_key_inject:
  assumes "\<forall>k \<in> set_option x. length k < 2 ^ 32" and "\<forall>k \<in> set_option y. length k < 2 ^ 32"
  shows "(case x of Some k \<Rightarrow> [1] @ u32_to_be_bytes (of_nat (length k)) @ k | None \<Rightarrow> [0]) @ us =
      (case y of Some k \<Rightarrow> [1] @ u32_to_be_bytes (of_nat (length k)) @ k | None \<Rightarrow> [0 :: u8]) @ vs \<longleftrightarrow>
    x = y \<and> us = vs"
proof (cases "(x, y)" rule: prod.exhaust)
  case (Pair a b)
  then show ?thesis
    using assms u32_prefixed_inject [of _ _ us vs] by (cases a; cases b) fastforce+
qed

lemma replace_operator_key_transcript_inject:
  assumes "length t < 2 ^ 32" "length e < 2 ^ 32" "length m < 2 ^ 32" "\<forall>k \<in> set_option x. length k < 2 ^ 32"
    and "length t' < 2 ^ 32" "length e' < 2 ^ 32" "length m' < 2 ^ 32" "\<forall>k \<in> set_option x'. length k < 2 ^ 32"
  shows "replace_operator_key_transcript t e m x n = replace_operator_key_transcript t' e' m' x' n' \<longleftrightarrow>
    t = t' \<and> e = e' \<and> m = m' \<and> x = x' \<and> n = n'"
proof -
  have a: "length (as_bytes t) < 2 ^ 32" "length (as_bytes t') < 2 ^ 32" using assms by simp_all
  show ?thesis
    unfolding replace_operator_key_transcript_def same_append_eq u32_prefixed_inject [OF a]
      u32_prefixed_inject [OF assms(2,6)] u32_prefixed_inject [OF assms(3,7)]
      optional_key_inject [OF assms(4,8)]
    by auto
qed

lemma operator_token_canonical_bytes_inject:
  assumes "length i < 2 ^ 64" and "length i' < 2 ^ 64"
  shows "operator_token_canonical_bytes i r a b n = operator_token_canonical_bytes i' r' a' b' n' \<longleftrightarrow>
    i = i' \<and> r = r' \<and> a = a' \<and> b = b' \<and> n = n'"
proof
  assume eq: "operator_token_canonical_bytes i r a b n = operator_token_canonical_bytes i' r' a' b' n'"
  then have "length i = length i'"
    using assms by (simp add: operator_token_canonical_bytes_def of_nat_u64_eq_iff)
  with eq show "i = i' \<and> r = r' \<and> a = a' \<and> b = b' \<and> n = n'"
    by (auto simp: operator_token_canonical_bytes_def append_eq_append_conv)
qed simp

section \<open>No two messages have the same signed bytes\<close>

datatype operator_message =
  ChallengeMsg u8_32 u8_32 bytes
| ConsentMsg ConsentAction Uuid u8_16 u8_32
| RevokeMsg string u8_16
| ReplaceMsg string bytes bytes "bytes option" u8_16
| DelegationMsg u8_32 bytes
| AttestationMsg u8_32
| TokenMsg string OperatorRole u64 u64 u8_16

fun signed_bytes :: "operator_message \<Rightarrow> bytes" where
  "signed_bytes (ChallengeMsg n e m) = challenge_transcript n e m"
| "signed_bytes (ConsentMsg a s n d) = consent_action_transcript a s n d"
| "signed_bytes (RevokeMsg t n) = revoke_operator_transcript t n"
| "signed_bytes (ReplaceMsg t e m x n) = replace_operator_key_transcript t e m x n"
| "signed_bytes (DelegationMsg e m) = daemon_delegation_transcript e m"
| "signed_bytes (AttestationMsg n) = challenge_host_attestation_transcript n"
| "signed_bytes (TokenMsg i r a b n) = operator_token_canonical_bytes i r a b n"

fun domain_of :: "operator_message \<Rightarrow> string" where
  "domain_of (ChallengeMsg n e m) = CHALLENGE_DOMAIN"
| "domain_of (ConsentMsg a s n d) = CONSENT_ACTION_DOMAIN"
| "domain_of (RevokeMsg t n) = REVOKE_OPERATOR_DOMAIN"
| "domain_of (ReplaceMsg t e m x n) = REPLACE_OPERATOR_KEY_DOMAIN"
| "domain_of (DelegationMsg e m) = DAEMON_DELEGATION_DOMAIN"
| "domain_of (AttestationMsg n) = CHALLENGE_HOST_ATTESTATION_DOMAIN"
| "domain_of (TokenMsg i r a b n) = OPERATOR_TOKEN_DOMAIN"

text \<open>The length prefixes hold the lengths: no identifier or key of four gigabytes.\<close>

fun message_fits :: "operator_message \<Rightarrow> bool" where
  "message_fits (RevokeMsg t n) \<longleftrightarrow> length t < 2 ^ 32"
| "message_fits (ReplaceMsg t e m x n) \<longleftrightarrow> length t < 2 ^ 32 \<and> length e < 2 ^ 32 \<and> length m < 2 ^ 32 \<and>
     (\<forall>k \<in> set_option x. length k < 2 ^ 32)"
| "message_fits (TokenMsg i r a b n) \<longleftrightarrow> length i < 2 ^ 64"
| "message_fits _ \<longleftrightarrow> True"

lemma signed_bytes_domain: "\<exists>rest. signed_bytes m = as_bytes (domain_of m) @ rest"
  by (cases m) (simp_all add: transcript_defs)

lemma as_bytes_prefix_eq:
  assumes "as_bytes d @ x = as_bytes d' @ y" and "k \<le> length d" and "k \<le> length d'"
  shows "take k d = take k d'"
proof -
  have "take k (as_bytes d @ x) = take k (as_bytes d' @ y)" using assms(1) by simp
  then have "as_bytes (take k d) = as_bytes (take k d')"
    using assms(2,3) by (simp add: as_bytes_def take_map)
  then show ?thesis by simp
qed

text \<open>The first nineteen characters of a domain tell the seven apart.\<close>

lemma same_bytes_same_kind:
  assumes "signed_bytes m = signed_bytes m'"
  shows "take 19 (domain_of m) = take 19 (domain_of m')"
proof -
  have "19 \<le> length (domain_of m)" for m by (cases m) (simp_all add: domain_defs)
  then show ?thesis
    using as_bytes_prefix_eq [of "domain_of m" _ "domain_of m'" _ 19] signed_bytes_domain [of m]
      signed_bytes_domain [of m'] assms by metis
qed

text \<open>
  C32. Signed bytes are unambiguous. Of the seven kinds of messages the operator protocol signs
  (challenges, consent actions, revocations, key replacements, delegations, host attestations and
  tokens), no byte string is two different messages, whether of different kinds or of one: a signature
  over one can never be taken for a signature over another.
\<close>

theorem operator_messages_unambiguous:
  assumes "signed_bytes m = signed_bytes m'" and "message_fits m" and "message_fits m'"
  shows "m = m'"
  using same_bytes_same_kind [OF assms(1)] assms
  by (cases m; cases m')
    (simp_all add: domain_defs challenge_transcript_inject consent_action_transcript_inject
      revoke_operator_transcript_inject replace_operator_key_transcript_inject
      operator_token_canonical_bytes_inject daemon_delegation_transcript_def
      challenge_host_attestation_transcript_def)

theorem operator_messages_unambiguous_witness:
  "message_fits (RevokeMsg ''alice'' (filled 7)) \<and>
   RevokeMsg ''alice'' (filled 7) = RevokeMsg (''al'' @ ''ice'') (filled 7)"
  using operator_messages_unambiguous [of "RevokeMsg ''alice'' (filled 7)"
      "RevokeMsg (''al'' @ ''ice'') (filled 7)"]
  by simp

end
