(* ===== verification/Rust_Strings.thy ===== *)
theory Rust_Strings
  imports Xenia_Prelude "HOL-Library.List_Lexorder" "HOL-Library.Char_ord"
begin

text \<open>
  The operations of Rust's \<open>str\<close> that the sources use, on UTF-8 byte strings: \<open>trim\<close>, which removes
  the code points with the Unicode property \<open>White_Space\<close> at both ends, and \<open>lines\<close>. Strings are compared
  byte by byte, the order of \<open>List_Lexorder\<close>.
\<close>

section \<open>Order of byte arrays\<close>

instantiation byte_array :: (len) linorder
begin

definition less_eq_byte_array :: "'a byte_array \<Rightarrow> 'a byte_array \<Rightarrow> bool" where
  "less_eq_byte_array a b \<longleftrightarrow> slice a \<le> slice b"

definition less_byte_array :: "'a byte_array \<Rightarrow> 'a byte_array \<Rightarrow> bool" where
  "less_byte_array a b \<longleftrightarrow> slice a < slice b"

instance
  by standard (auto simp: less_eq_byte_array_def less_byte_array_def order.strict_iff_order)

end

section \<open>Whitespace\<close>

text \<open>The UTF-8 encodings of the code points with the property \<open>White_Space\<close>.\<close>

definition whitespace :: "string list" where
  "whitespace = map (\<lambda>n. [char_of n]) [9 :: nat, 10, 11, 12, 13, 32] @
     map (map char_of) [[194 :: nat, 133], [194, 160], [225, 154, 128]] @
     map (\<lambda>n. map char_of [226 :: nat, 128, n]) ([128..<139] @ [168, 169, 175]) @
     map (map char_of) [[226 :: nat, 129, 159], [227, 128, 128]]"

text \<open>The rest of a string after the first pattern it starts with.\<close>

fun strip_any :: "string list \<Rightarrow> string \<Rightarrow> string option" where
  "strip_any [] s = None"
| "strip_any (w # ws) s = (if w \<noteq> [] \<and> take (length w) s = w then Some (drop (length w) s)
     else strip_any ws s)"

lemma strip_any_length: "strip_any ws s = Some t \<Longrightarrow> length t < length s"
proof (induction ws)
  case (Cons w ws)
  show ?case
  proof (cases "w \<noteq> [] \<and> take (length w) s = w")
    case True
    then have "s \<noteq> []" by auto
    with True Cons.prems show ?thesis by (auto simp: less_diff_conv)
  next
    case False
    with Cons show ?thesis by auto
  qed
qed simp

function trim_with :: "string list \<Rightarrow> string \<Rightarrow> string" where
  "trim_with ws s = (case strip_any ws s of None \<Rightarrow> s | Some t \<Rightarrow> trim_with ws t)"
  by auto

termination
  by (relation "measure (length \<circ> snd)") (auto simp: strip_any_length)

declare trim_with.simps [simp del]

definition trim_start :: "string \<Rightarrow> string" where
  "trim_start s = trim_with whitespace s"

definition trim_end :: "string \<Rightarrow> string" where
  "trim_end s = rev (trim_with (map rev whitespace) (rev s))"

definition trim :: "string \<Rightarrow> string" where
  "trim s = trim_end (trim_start s)"

text \<open>A string whose bytes are letters, digits and the like has nothing to trim.\<close>

definition plain_char :: "char \<Rightarrow> bool" where
  "plain_char ch \<longleftrightarrow> 32 < (of_char ch :: nat) \<and> (of_char ch :: nat) < 127"

lemma strip_any_plain:
  assumes "\<forall>w \<in> set ws. w = [] \<or> \<not> plain_char (hd w)" and "s = [] \<or> plain_char (hd s)"
  shows "strip_any ws s = None"
  using assms
proof (induction ws)
  case (Cons w ws)
  have "\<not> (w \<noteq> [] \<and> take (length w) s = w)"
  proof
    assume a: "w \<noteq> [] \<and> take (length w) s = w"
    then have "s \<noteq> []" by auto
    with a have "hd s = hd w" by (metis hd_take length_greater_0_conv)
    with a Cons.prems \<open>s \<noteq> []\<close> show False by auto
  qed
  with Cons show ?case by simp
qed simp

lemma whitespace_not_plain:
  "\<forall>w \<in> set whitespace. w = [] \<or> \<not> plain_char (hd w)"
  "\<forall>w \<in> set (map rev whitespace). w = [] \<or> \<not> plain_char (hd w)"
  by (auto simp: whitespace_def plain_char_def)

lemma trim_with_plain:
  assumes "\<forall>w \<in> set ws. w = [] \<or> \<not> plain_char (hd w)" and "\<forall>ch \<in> set s. plain_char ch"
  shows "trim_with ws s = s"
proof -
  have "s = [] \<or> plain_char (hd s)" using assms(2) by (cases s) auto
  then have "strip_any ws s = None" by (rule strip_any_plain [OF assms(1)])
  then show ?thesis by (simp add: trim_with.simps)
qed

lemma trim_plain [simp]: "\<forall>ch \<in> set s. plain_char ch \<Longrightarrow> trim s = s"
  by (simp add: trim_def trim_start_def trim_end_def trim_with_plain [OF whitespace_not_plain(1)]
      trim_with_plain [OF whitespace_not_plain(2)])

section \<open>Lines and numbers\<close>

text \<open>\<open>str::lines\<close>: a line ends at a line feed, and a carriage return before it is dropped.\<close>

definition strip_cr :: "string \<Rightarrow> string" where
  "strip_cr s = (if s \<noteq> [] \<and> last s = CHR 0x0D then butlast s else s)"

fun lines_with :: "string \<Rightarrow> string \<Rightarrow> string list" where
  "lines_with acc [] = (if acc = [] then [] else [rev acc])"
| "lines_with acc (ch # s) =
     (if ch = CHR 0x0A then strip_cr (rev acc) # lines_with [] s else lines_with (ch # acc) s)"

definition str_lines :: "string \<Rightarrow> string list" where
  "str_lines s = lines_with [] s"

text \<open>Unsigned integers in decimal, as \<open>format!\<close> prints them.\<close>

fun decimal :: "nat \<Rightarrow> string" where
  "decimal n = (if n < 10 then [char_of (48 + n)] else decimal (n div 10) @ [char_of (48 + n mod 10)])"

declare decimal.simps [simp del]

lemma lines_with_plain:
  assumes "CHR 0x0A \<notin> set l"
  shows "lines_with acc (l @ CHR 0x0A # s) = strip_cr (rev acc @ l) # lines_with [] s"
  using assms by (induction l arbitrary: acc) auto

end
