(* ===== verification/Operator_Policy.thy ===== *)
theory Operator_Policy
  imports Operator_Proto Handshake_Keys Rust_Strings "HOL-Library.Multiset"
begin

text \<open>
  Operator enrollment, \<open>apps/xenia-peer/src/operator.rs\<close>: the policy and its file, authorization by key,
  live key replacement, and the atomic file replacement that makes it durable.

  The \<open>HashMap\<close> is a finite map; where the code iterates over it, the order is an argument \<open>it\<close> that
  lists the keys, since Rust leaves it unspecified. \<open>poisoned\<close> is the state of the lock after a panic in a
  writer. The \<open>hex\<close> and \<open>serde_json\<close> crates and the key length of \<open>xenia_wire\<close> are the record \<open>codec\<close>.
\<close>

section \<open>Data\<close>

datatype AuthzDecision =
  Allowed string OperatorRole | NotEnrolled | RoleDenied string OperatorRole

record OperatorRecord =
  operator_id :: string
  ed25519_pubkey :: string
  ml_dsa_pubkey :: string
  ml_dsa_87_pubkey :: "string option"
  role :: OperatorRole

record EnrolledOperator =
  operator_id :: string
  ed25519_pubkey :: u8_32
  ml_dsa_pubkey :: bytes
  ml_dsa_87_pubkey :: "bytes option"
  role :: OperatorRole

record OperatorPolicy =
  by_ed25519 :: "u8_32 \<rightharpoonup> EnrolledOperator"
  poisoned :: bool

datatype OperatorPolicyError =
  PolicyIo string | PolicyParse string | BadKey string | DuplicateKey string | UnknownOperator string

text \<open>\<open>OperatorPolicyFile\<close> has the list of records as its only field.\<close>

record codec =
  hex_encode :: "bytes \<Rightarrow> string"
  hex_decode :: "string \<Rightarrow> bytes option"
  policy_from_json :: "bytes \<Rightarrow> (OperatorRecord list, string) result"
  policy_to_json :: "OperatorRecord list \<Rightarrow> (bytes, string) result"
  ml_dsa_87_pk_len :: nat

text \<open>
  \<open>hex\<close>: decoding undoes encoding, which uses only digits and letters. \<open>serde_json\<close>: what was printed
  parses to the same records.
\<close>

definition codec_lawful :: "codec \<Rightarrow> bool" where
  "codec_lawful cd \<longleftrightarrow> (\<forall>b. hex_decode cd (hex_encode cd b) = Some b \<and>
       (\<forall>ch \<in> set (hex_encode cd b). plain_char ch)) \<and>
     (\<forall>f. \<exists>b. policy_to_json cd f = Ok b \<and> policy_from_json cd b = Ok f)"

section \<open>Building a policy\<close>

fun insert_operators ::
    "(u8_32 \<rightharpoonup> EnrolledOperator) \<Rightarrow> EnrolledOperator list \<Rightarrow>
     (u8_32 \<rightharpoonup> EnrolledOperator, OperatorPolicyError) result" where
  "insert_operators m [] = Ok m"
| "insert_operators m (op # ops) =
     (if m (EnrolledOperator.ed25519_pubkey op) \<noteq> None
      then Err (DuplicateKey (EnrolledOperator.operator_id op))
      else insert_operators (m(EnrolledOperator.ed25519_pubkey op \<mapsto> op)) ops)"

definition OperatorPolicy_from_operators ::
    "EnrolledOperator list \<Rightarrow> (OperatorPolicy, OperatorPolicyError) result" where
  "OperatorPolicy_from_operators ops = and_then (insert_operators Map.empty ops) (\<lambda>m.
     Ok \<lparr>by_ed25519 = m, poisoned = False\<rparr>)"

definition decode_fixed_hex :: "codec \<Rightarrow> string \<Rightarrow> 'n::len byte_array option" where
  "decode_fixed_hex cd s = Option.bind (hex_decode cd (trim s)) try_into"

text \<open>\<open>hex::decode(s.trim()).ok().filter(|b| b.len() == n)\<close>\<close>

definition decode_sized_hex :: "codec \<Rightarrow> nat \<Rightarrow> string \<Rightarrow> bytes option" where
  "decode_sized_hex cd n s = (case hex_decode cd (trim s) of
     Some b \<Rightarrow> if length b = n then Some b else None | None \<Rightarrow> None)"

definition decode_record :: "codec \<Rightarrow> OperatorRecord \<Rightarrow> (EnrolledOperator, OperatorPolicyError) result" where
  "decode_record cd rec =
     (let bad = BadKey (OperatorRecord.operator_id rec) in
      and_then (ok_or (decode_fixed_hex cd (OperatorRecord.ed25519_pubkey rec)) bad) (\<lambda>ed.
      and_then (ok_or (decode_sized_hex cd ML_DSA_65_PK_LEN (OperatorRecord.ml_dsa_pubkey rec)) bad) (\<lambda>ml.
      and_then (case OperatorRecord.ml_dsa_87_pubkey rec of
          None \<Rightarrow> Ok None
        | Some h \<Rightarrow> map_ok Some (ok_or (decode_sized_hex cd (ml_dsa_87_pk_len cd) h) bad)) (\<lambda>ml_87.
      Ok \<lparr>EnrolledOperator.operator_id = OperatorRecord.operator_id rec, ed25519_pubkey = ed,
        ml_dsa_pubkey = ml, ml_dsa_87_pubkey = ml_87, role = OperatorRecord.role rec\<rparr>))))"

fun decode_records :: "codec \<Rightarrow> OperatorRecord list \<Rightarrow> (EnrolledOperator list, OperatorPolicyError) result"
  where
  "decode_records cd [] = Ok []"
| "decode_records cd (rec # recs) = and_then (decode_record cd rec) (\<lambda>op.
     map_ok (Cons op) (decode_records cd recs))"

definition OperatorPolicy_from_json :: "codec \<Rightarrow> bytes \<Rightarrow> (OperatorPolicy, OperatorPolicyError) result" where
  "OperatorPolicy_from_json cd b =
     and_then (map_err PolicyParse (policy_from_json cd b)) (\<lambda>recs.
     and_then (decode_records cd recs) (\<lambda>ops. OperatorPolicy_from_operators ops))"

text \<open>A file system as a map from paths to contents.\<close>

type_synonym files = "string \<rightharpoonup> bytes"

definition OperatorPolicy_load ::
    "codec \<Rightarrow> string \<Rightarrow> files \<Rightarrow> (OperatorPolicy, OperatorPolicyError) result" where
  "OperatorPolicy_load cd path fs =
     and_then (ok_or (fs path) (PolicyIo ''not found'')) (OperatorPolicy_from_json cd)"

section \<open>Lookups\<close>

definition OperatorPolicy_read_map :: "OperatorPolicy \<Rightarrow> (u8_32 \<rightharpoonup> EnrolledOperator) option" where
  "OperatorPolicy_read_map pol = (if poisoned pol then None else Some (by_ed25519 pol))"

definition OperatorPolicy_lookup :: "OperatorPolicy \<Rightarrow> u8_32 \<Rightarrow> EnrolledOperator option" where
  "OperatorPolicy_lookup pol ed = Option.bind (OperatorPolicy_read_map pol) (\<lambda>m. m ed)"

definition OperatorPolicy_lookup_verified ::
    "OperatorPolicy \<Rightarrow> u8_32 \<Rightarrow> bytes \<Rightarrow> EnrolledOperator option" where
  "OperatorPolicy_lookup_verified pol ed ml = Option.bind (OperatorPolicy_read_map pol) (\<lambda>m.
     Option.bind (m ed) (\<lambda>op. if EnrolledOperator.ml_dsa_pubkey op = ml then Some op else None))"

definition OperatorPolicy_lookup_verified_highsec ::
    "OperatorPolicy \<Rightarrow> u8_32 \<Rightarrow> bytes \<Rightarrow> EnrolledOperator option" where
  "OperatorPolicy_lookup_verified_highsec pol ed ml_87 = Option.bind (OperatorPolicy_read_map pol) (\<lambda>m.
     Option.bind (m ed) (\<lambda>op.
       if EnrolledOperator.ml_dsa_87_pubkey op = Some ml_87 then Some op else None))"

type_synonym iteration = "(u8_32 \<rightharpoonup> EnrolledOperator) \<Rightarrow> u8_32 list"

definition iteration_ok :: "iteration \<Rightarrow> bool" where
  "iteration_ok it \<longleftrightarrow> (\<forall>m. finite (dom m) \<longrightarrow> set (it m) = dom m \<and> distinct (it m))"

definition map_values :: "iteration \<Rightarrow> (u8_32 \<rightharpoonup> EnrolledOperator) \<Rightarrow> EnrolledOperator list" where
  "map_values it m = List.map_filter m (it m)"

definition OperatorPolicy_lookup_by_id :: "iteration \<Rightarrow> OperatorPolicy \<Rightarrow> string \<Rightarrow> EnrolledOperator option"
  where
  "OperatorPolicy_lookup_by_id it pol oid = Option.bind (OperatorPolicy_read_map pol) (\<lambda>m.
     find (\<lambda>op. EnrolledOperator.operator_id op = oid) (map_values it m))"

definition OperatorPolicy_authorize :: "OperatorPolicy \<Rightarrow> u8_32 \<Rightarrow> OperatorAction \<Rightarrow> AuthzDecision" where
  "OperatorPolicy_authorize pol ed action = (case OperatorPolicy_lookup pol ed of
     None \<Rightarrow> NotEnrolled
   | Some op \<Rightarrow>
       if role_permits (EnrolledOperator.role op) action
       then Allowed (EnrolledOperator.operator_id op) (EnrolledOperator.role op)
       else RoleDenied (EnrolledOperator.operator_id op) (EnrolledOperator.role op))"

section \<open>Key replacement\<close>

definition enrolled_as :: "(u8_32 \<rightharpoonup> EnrolledOperator) \<Rightarrow> string \<Rightarrow> u8_32 \<Rightarrow> bool" where
  "enrolled_as m oid k = (case m k of None \<Rightarrow> False | Some op \<Rightarrow> EnrolledOperator.operator_id op = oid)"

definition OperatorPolicy_replace_operator_key ::
    "iteration \<Rightarrow> string \<Rightarrow> u8_32 \<Rightarrow> bytes \<Rightarrow> bytes option \<Rightarrow> OperatorPolicy \<Rightarrow>
     OperatorPolicy \<times> (unit, OperatorPolicyError) result" where
  "OperatorPolicy_replace_operator_key it oid new_ed new_ml new_ml_87 pol =
     (if poisoned pol then (pol, Err (PolicyIo ''operator policy lock poisoned''))
      else let m = by_ed25519 pol in
        case find (enrolled_as m oid) (it m) of
          None \<Rightarrow> (pol, Err (UnknownOperator oid))
        | Some old_key \<Rightarrow>
            if m new_ed \<noteq> None \<and> \<not> enrolled_as m oid new_ed
            then (pol, Err (DuplicateKey oid))
            else case m old_key of
              None \<Rightarrow> (pol, Err (PolicyIo ''operator disappeared while the policy write lock was held''))
            | Some old_operator \<Rightarrow>
                (pol\<lparr>by_ed25519 := (m(old_key := None))(new_ed \<mapsto>
                   \<lparr>EnrolledOperator.operator_id = oid, ed25519_pubkey = new_ed, ml_dsa_pubkey = new_ml,
                     ml_dsa_87_pubkey = new_ml_87, role = EnrolledOperator.role old_operator\<rparr>)\<rparr>, Ok ()))"

section \<open>Persistence\<close>

text \<open>Which of the calls of \<open>write_atomic\<close> succeed; a failed write leaves some prefix in the file.\<close>

record io_outcome =
  mkdir_ok :: bool
  open_ok :: bool
  written :: "nat option" \<comment> \<open>\<open>None\<close> when all of it is written\<close>
  sync_ok :: bool
  rename_ok :: bool
  dir_sync_ok :: bool
  remove_ok :: bool

definition write_and_rename ::
    "io_outcome \<Rightarrow> string \<Rightarrow> string \<Rightarrow> bytes \<Rightarrow> files \<Rightarrow> files \<times> (unit, string) result" where
  "write_and_rename io temp path b fs =
     (if \<not> open_ok io \<or> fs temp \<noteq> None then (fs, Err ''open'')
      else case written io of
        Some n \<Rightarrow> (fs(temp \<mapsto> take n b), Err ''write'')
      | None \<Rightarrow>
          if \<not> sync_ok io then (fs(temp \<mapsto> b), Err ''sync'')
          else if \<not> rename_ok io then (fs(temp \<mapsto> b), Err ''rename'')
          else if \<not> dir_sync_ok io then (fs(path \<mapsto> b), Err ''sync directory'')
          else (fs(path \<mapsto> b), Ok ()))"

definition write_atomic ::
    "io_outcome \<Rightarrow> string \<Rightarrow> string \<Rightarrow> bytes \<Rightarrow> files \<Rightarrow> files \<times> (unit, string) result" where
  "write_atomic io temp path b fs =
     (if \<not> mkdir_ok io then (fs, Err ''create_dir_all'')
      else let (fs1, write_result) = write_and_rename io temp path b fs in
        (if \<not> is_ok write_result \<and> remove_ok io then fs1(temp := None) else fs1, write_result))"

definition operator_record :: "codec \<Rightarrow> EnrolledOperator \<Rightarrow> OperatorRecord" where
  "operator_record cd op = \<lparr>OperatorRecord.operator_id = EnrolledOperator.operator_id op,
     ed25519_pubkey = hex_encode cd (slice (EnrolledOperator.ed25519_pubkey op)),
     ml_dsa_pubkey = hex_encode cd (EnrolledOperator.ml_dsa_pubkey op),
     ml_dsa_87_pubkey = map_option (hex_encode cd) (EnrolledOperator.ml_dsa_87_pubkey op),
     role = EnrolledOperator.role op\<rparr>"

definition policy_records :: "codec \<Rightarrow> iteration \<Rightarrow> (u8_32 \<rightharpoonup> EnrolledOperator) \<Rightarrow> OperatorRecord list" where
  "policy_records cd it m =
     sort_key OperatorRecord.operator_id (map (operator_record cd) (map_values it m))"

definition OperatorPolicy_persist_to ::
    "codec \<Rightarrow> iteration \<Rightarrow> io_outcome \<Rightarrow> string \<Rightarrow> string \<Rightarrow> OperatorPolicy \<Rightarrow> files \<Rightarrow>
     files \<times> (unit, string) result" where
  "OperatorPolicy_persist_to cd it io temp path pol fs =
     (case OperatorPolicy_read_map pol of
        None \<Rightarrow> (fs, Err ''operator policy lock poisoned'')
      | Some m \<Rightarrow>
          (case policy_to_json cd (policy_records cd it m) of
             Err e \<Rightarrow> (fs, Err e)
           | Ok b \<Rightarrow> write_atomic io temp path b fs))"

section \<open>Invariant\<close>

text \<open>Every operator is filed under its own key, and the keys have the lengths of their algorithms.\<close>

definition operator_ok :: "codec \<Rightarrow> EnrolledOperator \<Rightarrow> bool" where
  "operator_ok cd op \<longleftrightarrow> length (EnrolledOperator.ml_dsa_pubkey op) = ML_DSA_65_PK_LEN \<and>
     (\<forall>k \<in> set_option (EnrolledOperator.ml_dsa_87_pubkey op). length k = ml_dsa_87_pk_len cd)"

definition policy_ok :: "codec \<Rightarrow> OperatorPolicy \<Rightarrow> bool" where
  "policy_ok cd pol \<longleftrightarrow> finite (dom (by_ed25519 pol)) \<and> (\<forall>k op. by_ed25519 pol k = Some op \<longrightarrow>
     EnrolledOperator.ed25519_pubkey op = k \<and> operator_ok cd op)"

definition unique_ids :: "OperatorPolicy \<Rightarrow> bool" where
  "unique_ids pol \<longleftrightarrow> (\<forall>k k' oid. enrolled_as (by_ed25519 pol) oid k \<longrightarrow>
     enrolled_as (by_ed25519 pol) oid k' \<longrightarrow> k = k')"

lemma enrolled_as_iff: "enrolled_as m oid k \<longleftrightarrow> (\<exists>op. m k = Some op \<and> EnrolledOperator.operator_id op = oid)"
  by (auto simp: enrolled_as_def split: option.splits)

lemma set_map_values:
  assumes "iteration_ok it" and "finite (dom m)"
  shows "set (map_values it m) = ran m"
proof -
  have "set (it m) = dom m" using assms by (simp add: iteration_ok_def)
  then show ?thesis by (force simp: map_values_def List.map_filter_def ran_def dom_def)
qed

lemma lookup_by_id_eq_Some:
  assumes "iteration_ok it" and "finite (dom (by_ed25519 pol))" and "unique_ids pol"
  shows "OperatorPolicy_lookup_by_id it pol oid = Some op \<longleftrightarrow> \<not> poisoned pol \<and>
    (\<exists>k. by_ed25519 pol k = Some op) \<and> EnrolledOperator.operator_id op = oid"
proof -
  let ?vs = "map_values it (by_ed25519 pol)"
  have vs: "x \<in> set ?vs \<longleftrightarrow> (\<exists>k. by_ed25519 pol k = Some x)" for x
    using set_map_values [OF assms(1,2)] by (auto simp: ran_def)
  have uniq: "x = y" if "x \<in> set ?vs" "y \<in> set ?vs"
      "EnrolledOperator.operator_id x = EnrolledOperator.operator_id y" for x y
    using that assms(3) unfolding vs unique_ids_def enrolled_as_iff by (metis option.inject)
  have "find (\<lambda>op. EnrolledOperator.operator_id op = oid) ?vs = Some op \<longleftrightarrow>
      op \<in> set ?vs \<and> EnrolledOperator.operator_id op = oid"
  proof (cases "find (\<lambda>op. EnrolledOperator.operator_id op = oid) ?vs")
    case None
    moreover from None have "\<forall>x \<in> set ?vs. EnrolledOperator.operator_id x \<noteq> oid"
      by (simp add: find_None_iff)
    ultimately show ?thesis by auto
  next
    case (Some x)
    then have x: "x \<in> set ?vs" "EnrolledOperator.operator_id x = oid"
      unfolding find_Some_iff by auto
    show ?thesis unfolding Some option.inject using x uniq [OF x(1), of op] by blast
  qed
  then show ?thesis
    by (auto simp: OperatorPolicy_lookup_by_id_def OperatorPolicy_read_map_def vs)
qed

lemma find_enrolled:
  assumes "iteration_ok it" and "finite (dom m)"
  shows "find (enrolled_as m oid) (it m) = None \<longleftrightarrow> (\<forall>k. \<not> enrolled_as m oid k)"
    and "find (enrolled_as m oid) (it m) = Some k \<Longrightarrow> enrolled_as m oid k"
proof -
  have "set (it m) = dom m" using assms by (simp add: iteration_ok_def)
  then show "find (enrolled_as m oid) (it m) = None \<longleftrightarrow> (\<forall>k. \<not> enrolled_as m oid k)"
    by (auto simp: find_None_iff enrolled_as_iff)
  show "find (enrolled_as m oid) (it m) = Some k \<Longrightarrow> enrolled_as m oid k"
    by (auto simp: find_Some_iff)
qed

section \<open>Key replacement\<close>

definition replaced :: "EnrolledOperator \<Rightarrow> u8_32 \<Rightarrow> bytes \<Rightarrow> bytes option \<Rightarrow> EnrolledOperator" where
  "replaced op ed ml ml_87 = op\<lparr>EnrolledOperator.ed25519_pubkey := ed, EnrolledOperator.ml_dsa_pubkey := ml,
     EnrolledOperator.ml_dsa_87_pubkey := ml_87\<rparr>"

lemma replace_cases:
  assumes "iteration_ok it" and "finite (dom (by_ed25519 pol))"
    and "OperatorPolicy_replace_operator_key it oid ed ml ml_87 pol = (pol', r)"
  obtains (refused) e where "r = Err e" "pol' = pol"
  | (replaced) k op where "r = Ok ()" "\<not> poisoned pol" "by_ed25519 pol k = Some op"
      "EnrolledOperator.operator_id op = oid" "by_ed25519 pol ed = None \<or> enrolled_as (by_ed25519 pol) oid ed"
      "pol' = pol\<lparr>by_ed25519 := ((by_ed25519 pol)(k := None))(ed \<mapsto> replaced op ed ml ml_87)\<rparr>"
proof -
  have make: "\<lparr>EnrolledOperator.operator_id = oid, ed25519_pubkey = ed, ml_dsa_pubkey = ml,
      ml_dsa_87_pubkey = ml_87, role = EnrolledOperator.role op\<rparr> = replaced op ed ml ml_87"
    if "EnrolledOperator.operator_id op = oid" for op
    using that by (cases op) (simp add: replaced_def)
  show thesis
  proof (cases "find (enrolled_as (by_ed25519 pol) oid) (it (by_ed25519 pol))")
    case None
    then show thesis
      using assms(3) refused
      by (auto simp: OperatorPolicy_replace_operator_key_def Let_def split: if_splits)
  next
    case (Some k)
    then obtain op where op: "by_ed25519 pol k = Some op" "EnrolledOperator.operator_id op = oid"
      using find_enrolled(2) [OF assms(1,2)] by (auto simp: enrolled_as_iff)
    show thesis
      using Some op assms(3) refused replaced [OF _ _ op]
      by (auto simp: OperatorPolicy_replace_operator_key_def Let_def make [OF op(2)] split: if_splits)
  qed
qed

lemma enrolled_as_replaced:
  "enrolled_as ((m(k := None))(ed \<mapsto> x)) oid k' \<longleftrightarrow>
     (if k' = ed then EnrolledOperator.operator_id x = oid else k' \<noteq> k \<and> enrolled_as m oid k')"
  by (auto simp: enrolled_as_def)

lemma replace_keeps_invariants:
  assumes it: "iteration_ok it" and ok: "policy_ok cd pol" and ids: "unique_ids pol"
    and new: "length ml = ML_DSA_65_PK_LEN" "\<forall>k \<in> set_option ml_87. length k = ml_dsa_87_pk_len cd"
    and rep: "OperatorPolicy_replace_operator_key it oid ed ml ml_87 pol = (pol', r)"
  shows "policy_ok cd pol'" and "unique_ids pol'"
proof -
  have fin: "finite (dom (by_ed25519 pol))" using ok by (simp add: policy_ok_def)
  have "policy_ok cd pol' \<and> unique_ids pol'"
  proof (cases rule: replace_cases [OF it fin rep])
    case (1 e)
    with ok ids show ?thesis by simp
  next
    case (2 k op)
    have op: "EnrolledOperator.operator_id (replaced op ed ml ml_87) = oid"
        "EnrolledOperator.ed25519_pubkey (replaced op ed ml ml_87) = ed"
        "operator_ok cd (replaced op ed ml ml_87)"
      using 2(4) new by (simp_all add: replaced_def operator_ok_def)
    have "policy_ok cd pol'"
      using ok op 2(6) by (auto simp: policy_ok_def)
    moreover have "unique_ids pol'"
      unfolding unique_ids_def
    proof (intro allI impI)
      fix a b i
      assume a: "enrolled_as (by_ed25519 pol') i a" and b: "enrolled_as (by_ed25519 pol') i b"
      have "enrolled_as (by_ed25519 pol) oid k" using 2(3,4) by (simp add: enrolled_as_iff)
      then have only: "enrolled_as (by_ed25519 pol) oid j \<Longrightarrow> j = k" for j
        using ids by (simp add: unique_ids_def)
      have same: "enrolled_as (by_ed25519 pol) i a \<Longrightarrow> enrolled_as (by_ed25519 pol) i b \<Longrightarrow> a = b"
        using ids by (simp add: unique_ids_def)
      show "a = b"
        using a b only [of a] only [of b] same op(1) 2(6) by (auto simp: enrolled_as_replaced split: if_splits)
    qed
    ultimately show ?thesis ..
  qed
  then show "policy_ok cd pol'" "unique_ids pol'" by simp_all
qed

lemma replaced_lookup:
  assumes it: "iteration_ok it" and ok: "policy_ok cd pol" and ids: "unique_ids pol"
    and fin': "finite (dom (by_ed25519 pol'))" and ids': "unique_ids pol'"
    and k: "\<not> poisoned pol" "by_ed25519 pol k = Some op" "EnrolledOperator.operator_id op = oid"
      "by_ed25519 pol ed = None \<or> enrolled_as (by_ed25519 pol) oid ed"
    and pol': "pol' = pol\<lparr>by_ed25519 := ((by_ed25519 pol)(k := None))(ed \<mapsto> replaced op ed ml ml_87)\<rparr>"
  shows "OperatorPolicy_lookup_by_id it pol oid = Some op"
    and "OperatorPolicy_lookup_by_id it pol' = (OperatorPolicy_lookup_by_id it pol)(oid \<mapsto> replaced op ed ml ml_87)"
proof -
  have fin: "finite (dom (by_ed25519 pol))" using ok by (simp add: policy_ok_def)
  note old = lookup_by_id_eq_Some [OF it fin ids]
  note new = lookup_by_id_eq_Some [OF it fin' ids']
  have psn: "poisoned pol' = poisoned pol" by (simp add: pol')
  show "OperatorPolicy_lookup_by_id it pol oid = Some op" using k by (auto simp: old)
  have only: "by_ed25519 pol j = Some x \<Longrightarrow> EnrolledOperator.operator_id x = oid \<Longrightarrow> j = k" for j x
    using ids k(2,3) by (auto simp: unique_ids_def enrolled_as_iff)
  have id: "EnrolledOperator.operator_id (replaced op ed ml ml_87) = oid" using k(3) by (simp add: replaced_def)
  have "OperatorPolicy_lookup_by_id it pol' i = Some x \<longleftrightarrow>
      ((OperatorPolicy_lookup_by_id it pol)(oid \<mapsto> replaced op ed ml ml_87)) i = Some x" for i x
  proof (cases "i = oid")
    case True
    have "(\<exists>j. by_ed25519 pol' j = Some x) \<and> EnrolledOperator.operator_id x = oid \<longleftrightarrow>
        x = replaced op ed ml ml_87"
    proof
      assume "(\<exists>j. by_ed25519 pol' j = Some x) \<and> EnrolledOperator.operator_id x = oid"
      then show "x = replaced op ed ml ml_87" using only [of _ x] by (auto simp: pol' split: if_splits)
    next
      assume "x = replaced op ed ml ml_87"
      moreover have "by_ed25519 pol' ed = Some (replaced op ed ml ml_87)" by (simp add: pol')
      ultimately show "(\<exists>j. by_ed25519 pol' j = Some x) \<and> EnrolledOperator.operator_id x = oid"
        using id by blast
    qed
    then show ?thesis using True k(1) psn by (auto simp: new)
  next
    case False
    have "by_ed25519 pol' j = Some x \<longleftrightarrow> by_ed25519 pol j = Some x"
      if "EnrolledOperator.operator_id x = i" for j
      using that False k id by (cases "j = ed"; cases "j = k") (auto simp: pol' enrolled_as_iff)
    then show ?thesis using False psn by (auto simp: new old)
  qed
  then show "OperatorPolicy_lookup_by_id it pol' =
      (OperatorPolicy_lookup_by_id it pol)(oid \<mapsto> replaced op ed ml ml_87)"
    by (intro ext) (metis not_None_eq)
qed

text \<open>
  C34. Replacing a key refines an update of the enrollment by operator id. On a well-formed policy with
  one enrollment per id, a refused replacement changes nothing; a successful one gives the operator the
  new keys under its id and role, leaves what every other id looks up as it was, and keeps the policy
  well-formed.
\<close>

theorem replace_operator_key_refines:
  assumes "iteration_ok it" and "policy_ok cd pol" and "unique_ids pol"
    and "length ml = ML_DSA_65_PK_LEN" and "\<forall>k \<in> set_option ml_87. length k = ml_dsa_87_pk_len cd"
    and "OperatorPolicy_replace_operator_key it oid ed ml ml_87 pol = (pol', r)"
  shows "policy_ok cd pol' \<and> unique_ids pol' \<and> (case r of
      Err e \<Rightarrow> pol' = pol
    | Ok _ \<Rightarrow> \<exists>op. OperatorPolicy_lookup_by_id it pol oid = Some op \<and>
        OperatorPolicy_lookup_by_id it pol' =
          (OperatorPolicy_lookup_by_id it pol)(oid \<mapsto> replaced op ed ml ml_87))"
proof -
  have fin: "finite (dom (by_ed25519 pol))" using assms(2) by (simp add: policy_ok_def)
  note inv = replace_keeps_invariants [OF assms]
  have fin': "finite (dom (by_ed25519 pol'))" using inv(1) by (simp add: policy_ok_def)
  show ?thesis
  proof (cases rule: replace_cases [OF assms(1) fin assms(6)])
    case (1 e)
    then show ?thesis using inv by simp
  next
    case (2 k op)
    then show ?thesis
      using replaced_lookup [OF assms(1-3) fin' inv(2) 2(2-6)] inv by auto
  qed
qed

section \<open>Atomic replacement of a file\<close>

text \<open>
  C40. Replacing a file is all or nothing. Whatever call fails, the target holds its old contents or the
  new ones in full, and no other file but the temporary one changes; success means the new contents. An
  error means the old contents, except that a failure to sync the directory after the rename reports an
  error with the new contents in place.
\<close>

theorem write_atomic_all_or_nothing:
  assumes "write_atomic io temp path b fs = (fs', r)" and "temp \<noteq> path"
  shows "fs' path \<in> {fs path, Some b} \<and> (\<forall>q. q \<noteq> path \<longrightarrow> q \<noteq> temp \<longrightarrow> fs' q = fs q) \<and>
    (r = Ok () \<longrightarrow> fs' path = Some b) \<and>
    (r \<noteq> Ok () \<longrightarrow> fs' path = fs path \<or> (rename_ok io \<and> \<not> dir_sync_ok io))"
  using assms
  by (auto simp: write_atomic_def write_and_rename_def Let_def split: if_splits option.splits)

definition all_io_ok :: io_outcome where
  "all_io_ok = \<lparr>mkdir_ok = True, open_ok = True, written = None, sync_ok = True, rename_ok = True,
     dir_sync_ok = True, remove_ok = True\<rparr>"

theorem write_atomic_all_or_nothing_witness:
  "fst (write_atomic all_io_ok ''t'' ''p'' [1] Map.empty) ''p'' \<in> {None, Some [1]}"
  using write_atomic_all_or_nothing [of all_io_ok "''t''" "''p''" "[1]" Map.empty
      "fst (write_atomic all_io_ok ''t'' ''p'' [1] Map.empty)"
      "snd (write_atomic all_io_ok ''t'' ''p'' [1] Map.empty)"]
  by simp

text \<open>The comment on \<open>write_atomic\<close> says that a failed write leaves the previous file untouched.\<close>

lemma write_atomic_error_after_rename:
  "write_atomic (all_io_ok\<lparr>dir_sync_ok := False\<rparr>) ''t'' ''p'' [1] [''p'' \<mapsto> [0]] =
     ([''p'' \<mapsto> [1]], Err ''sync directory'')"
  by (auto simp: write_atomic_def write_and_rename_def all_io_ok_def Let_def)

section \<open>What is persisted is what is loaded\<close>

lemma decode_operator_record:
  assumes "codec_lawful cd" and "operator_ok cd op"
  shows "decode_record cd (operator_record cd op) = Ok op"
proof -
  have hex: "hex_decode cd (trim (hex_encode cd b)) = Some b" for b
    using assms(1) by (simp add: codec_lawful_def)
  show ?thesis
    using assms(2) by (cases op) (auto simp: decode_record_def operator_record_def Let_def hex
        decode_fixed_hex_def decode_sized_hex_def operator_ok_def key_lengths split: option.splits)
qed

lemma decode_operator_records:
  assumes "\<forall>rec \<in> set recs. decode_record cd rec = Ok (f rec)"
  shows "decode_records cd recs = Ok (map f recs)"
  using assms by (induction recs) auto

lemma insert_operators_Ok:
  assumes "distinct (map EnrolledOperator.ed25519_pubkey ops)"
    and "\<forall>op \<in> set ops. m (EnrolledOperator.ed25519_pubkey op) = None"
  shows "insert_operators m ops =
    Ok (m ++ map_of (map (\<lambda>op. (EnrolledOperator.ed25519_pubkey op, op)) ops))"
  using assms
proof (induction ops arbitrary: m)
  case (Cons op ops)
  let ?k = "EnrolledOperator.ed25519_pubkey op"
  have "insert_operators (m(?k \<mapsto> op)) ops =
      Ok ((m(?k \<mapsto> op)) ++ map_of (map (\<lambda>op. (EnrolledOperator.ed25519_pubkey op, op)) ops))"
    using Cons.prems by (intro Cons.IH) (auto, metis image_eqI)
  moreover have "map_of (map (\<lambda>op. (EnrolledOperator.ed25519_pubkey op, op)) ops) ?k = None"
    using Cons.prems(1) by (simp add: map_of_eq_None_iff image_image)
  then have "(m(?k \<mapsto> op)) ++ map_of (map (\<lambda>op. (EnrolledOperator.ed25519_pubkey op, op)) ops) =
      m ++ map_of (map (\<lambda>op. (EnrolledOperator.ed25519_pubkey op, op)) (op # ops))"
    by (auto simp: map_add_def split: option.splits intro!: ext)
  moreover have "insert_operators m (op # ops) = insert_operators (m(?k \<mapsto> op)) ops"
    using Cons.prems(2) by simp
  ultimately show ?case by (simp only:)
qed simp

text \<open>The values of the map in any order, filed again, give the map.\<close>

lemma refiled_values:
  assumes "policy_ok cd pol" and "iteration_ok it"
    and "mset ops = mset (map_values it (by_ed25519 pol))"
  shows "insert_operators Map.empty ops = Ok (by_ed25519 pol)"
proof -
  let ?m = "by_ed25519 pol"
  let ?ed = EnrolledOperator.ed25519_pubkey
  have ok: "?m k = Some op \<Longrightarrow> ?ed op = k" for k op using assms(1) by (simp add: policy_ok_def)
  have it: "set (it ?m) = dom ?m" "distinct (it ?m)"
    using assms(1,2) by (simp_all add: policy_ok_def iteration_ok_def)
  have "map ?ed (map_values it ?m) = it ?m"
  proof -
    have "map ?ed (List.map_filter ?m ks) = ks" if "set ks \<subseteq> dom ?m" for ks
      using that by (induction ks) (auto simp: List.map_filter_simps ok)
    then show ?thesis using it(1) by (simp add: map_values_def)
  qed
  then have keys: "distinct (map ?ed ops)"
    using it(2) assms(3) by (metis mset_eq_imp_distinct_iff mset_map)
  have set: "set ops = ran ?m"
    using set_map_values [OF assms(2)] assms(1,3) by (metis mset_eq_setD policy_ok_def)
  have "map_of (map (\<lambda>op. (?ed op, op)) ops) k = ?m k" for k
  proof (cases "?m k")
    case None
    then have "k \<notin> ?ed ` set ops" using ok by (auto simp: set ran_def)
    then show ?thesis using None by (simp add: map_of_eq_None_iff image_image)
  next
    case (Some op)
    then have "op \<in> set ops" by (auto simp: set ran_def)
    then show ?thesis
      using Some ok [OF Some] keys
      by (auto intro!: map_of_is_SomeI simp: comp_def image_iff)
  qed
  then have "map_of (map (\<lambda>op. (?ed op, op)) ops) = ?m" by auto
  with insert_operators_Ok [OF keys, of Map.empty] show ?thesis by simp
qed

text \<open>
  C35. Persisting and loading a policy is lossless. For a well-formed policy, whatever order the hash map
  is iterated in, writing the operators file and loading it again gives the same enrollments.
\<close>

theorem policy_persist_load:
  assumes "codec_lawful cd" and "policy_ok cd pol" and "iteration_ok it" and "\<not> poisoned pol"
    and "OperatorPolicy_persist_to cd it io temp path pol fs = (fs', Ok ())"
  shows "OperatorPolicy_load cd path fs' = Ok pol"
proof -
  let ?vs = "map_values it (by_ed25519 pol)"
  let ?recs = "policy_records cd it (by_ed25519 pol)"
  let ?dec = "\<lambda>rec. case decode_record cd rec of Ok op \<Rightarrow> op"
  obtain b where b: "policy_to_json cd ?recs = Ok b" "policy_from_json cd b = Ok ?recs"
    using assms(1) unfolding codec_lawful_def by blast
  have "write_atomic io temp path b fs = (fs', Ok ())"
    using assms(4,5) b(1) by (simp add: OperatorPolicy_persist_to_def OperatorPolicy_read_map_def)
  then have fs': "fs' path = Some b"
    by (auto simp: write_atomic_def write_and_rename_def Let_def split: if_splits option.splits)
  have fin: "finite (dom (by_ed25519 pol))" using assms(2) by (simp add: policy_ok_def)
  have dec: "decode_record cd (operator_record cd op) = Ok op" if "op \<in> set ?vs" for op
    using that assms(2) set_map_values [OF assms(3) fin]
    by (auto intro!: decode_operator_record [OF assms(1)] simp: policy_ok_def ran_def)
  have recs: "mset ?recs = image_mset (operator_record cd) (mset ?vs)"
    by (simp add: policy_records_def)
  then have "set ?recs = operator_record cd ` set ?vs"
    by (metis set_image_mset set_mset_mset)
  then have "decode_records cd ?recs = Ok (map ?dec ?recs)"
    using dec by (intro decode_operator_records) auto
  moreover have "mset (map ?dec ?recs) = mset ?vs"
  proof -
    have "mset (map ?dec ?recs) = image_mset (?dec \<circ> operator_record cd) (mset ?vs)"
      by (simp add: recs image_mset.compositionality)
    also have "\<dots> = image_mset id (mset ?vs)"
      by (rule image_mset_cong) (simp add: dec)
    finally show ?thesis by simp
  qed
  then have "insert_operators Map.empty (map ?dec ?recs) = Ok (by_ed25519 pol)"
    by (rule refiled_values [OF assms(2,3)])
  ultimately show ?thesis
    using fs' b(2) assms(4)
    by (simp add: OperatorPolicy_load_def OperatorPolicy_from_json_def OperatorPolicy_from_operators_def)
qed

section \<open>A concrete instance\<close>

text \<open>
  A codec with the properties assumed of the two crates: hexadecimal digits from \<open>A\<close> to \<open>P\<close>, and
  records whose fields are preceded by their lengths in unary.
\<close>

definition demo_hex :: "bytes \<Rightarrow> string" where
  "demo_hex bs = concat (map (\<lambda>b. [char_of (65 + unat b div 16), char_of (65 + unat b mod 16)]) bs)"

fun demo_unhex :: "string \<Rightarrow> bytes option" where
  "demo_unhex [] = Some []"
| "demo_unhex [_] = None"
| "demo_unhex (h # l # s) =
     map_option (Cons (of_nat (16 * (of_char h - 65) + (of_char l - 65)))) (demo_unhex s)"

definition put :: "bytes \<Rightarrow> bytes" where
  "put b = replicate (length b) 1 @ 0 # b"

definition unary :: "bytes \<Rightarrow> nat \<times> bytes" where
  "unary b = (let n = length (takeWhile (\<lambda>x. x = 1) b) in (n, drop (Suc n) b))"

definition get :: "bytes \<Rightarrow> bytes \<times> bytes" where
  "get b = (let (n, c) = unary b in (take n c, drop n c))"

definition put_record :: "OperatorRecord \<Rightarrow> bytes" where
  "put_record rec = put (as_bytes (OperatorRecord.operator_id rec)) @
     put (as_bytes (OperatorRecord.ed25519_pubkey rec)) @ put (as_bytes (OperatorRecord.ml_dsa_pubkey rec)) @
     (case OperatorRecord.ml_dsa_87_pubkey rec of None \<Rightarrow> [0] | Some h \<Rightarrow> 1 # put (as_bytes h)) @
     [OperatorRole_rank (OperatorRecord.role rec)]"

definition chars :: "bytes \<Rightarrow> string" where
  "chars = map (\<lambda>b. char_of (unat b))"

definition get_record :: "bytes \<Rightarrow> OperatorRecord \<times> bytes" where
  "get_record b =
     (let (i, b1) = get b; (e, b2) = get b1; (m, b3) = get b2;
          (h, b4) = (if hd b3 = 0 then (None, tl b3) else let (h, c) = get (tl b3) in (Some (chars h), c))
      in (\<lparr>OperatorRecord.operator_id = chars i, ed25519_pubkey = chars e, ml_dsa_pubkey = chars m,
           ml_dsa_87_pubkey = h,
           role = (if hd b4 = 0 then Viewer else if hd b4 = 1 then Approver
                   else if hd b4 = 2 then Operator else Admin)\<rparr>, tl b4))"

fun get_records :: "nat \<Rightarrow> bytes \<Rightarrow> OperatorRecord list" where
  "get_records 0 b = []"
| "get_records (Suc n) b = (let (rec, c) = get_record b in rec # get_records n c)"

definition demo_codec :: codec where
  "demo_codec = \<lparr>hex_encode = demo_hex, hex_decode = demo_unhex,
     policy_from_json = (\<lambda>b. let (n, c) = unary b in Ok (get_records n c)),
     policy_to_json = (\<lambda>recs. Ok (replicate (length recs) 1 @ 0 # concat (map put_record recs))),
     ml_dsa_87_pk_len = 2592\<rparr>"

definition demo_iteration :: iteration where
  "demo_iteration m = sorted_list_of_set (dom m)"

definition reverse_iteration :: iteration where
  "reverse_iteration m = rev (sorted_list_of_set (dom m))"

lemma demo_iterations_ok: "iteration_ok demo_iteration" "iteration_ok reverse_iteration"
  by (simp_all add: iteration_ok_def demo_iteration_def reverse_iteration_def)

lemma unary_replicate [simp]: "unary (replicate n 1 @ 0 # b) = (n, b)"
proof -
  have "takeWhile (\<lambda>x. x = (1 :: u8)) (replicate n 1 @ 0 # b) = replicate n 1"
    by (induction n) auto
  then show ?thesis by (simp add: unary_def)
qed

lemma get_put [simp]: "get (put b @ c) = (b, c)"
  by (simp add: get_def put_def)

lemma chars_as_bytes [simp]: "chars (as_bytes s) = s"
  by (induction s) (simp_all add: chars_def as_bytes_def unat_of_nat)

lemma get_put_record [simp]: "get_record (put_record rec @ b) = (rec, b)"
  by (cases rec; cases "OperatorRecord.role rec"; cases "OperatorRecord.ml_dsa_87_pubkey rec")
    (simp_all add: get_record_def put_record_def Let_def)

lemma get_put_records [simp]: "get_records (length recs) (concat (map put_record recs)) = recs"
  by (induction recs) simp_all

lemma demo_unhex_demo_hex [simp]: "demo_unhex (demo_hex b) = Some b"
proof (induction b)
  case (Cons x b)
  have "unat x < 256" using unsigned_less [of x] by simp
  moreover from this have "unat x div 16 < 16" by simp
  ultimately show ?case using Cons by (simp add: demo_hex_def)
qed (simp add: demo_hex_def)

lemma demo_hex_plain: "ch \<in> set (demo_hex b) \<Longrightarrow> plain_char ch"
proof (induction b)
  case (Cons x b)
  have "unat x < 256" using unsigned_less [of x] by simp
  moreover from this have "unat x div 16 < 16" by simp
  moreover have "unat x mod 16 < 16" by simp
  ultimately have "plain_char (char_of (65 + unat x div 16))" "plain_char (char_of (65 + unat x mod 16))"
    by (auto simp: plain_char_def)
  with Cons show ?case by (auto simp: demo_hex_def)
qed (simp add: demo_hex_def)

lemma demo_codec_lawful: "codec_lawful demo_codec"
  by (auto simp: codec_lawful_def demo_codec_def demo_hex_plain)

definition demo_operator :: "string \<Rightarrow> u8 \<Rightarrow> OperatorRole \<Rightarrow> EnrolledOperator" where
  "demo_operator oid b r = \<lparr>EnrolledOperator.operator_id = oid, ed25519_pubkey = filled b,
     ml_dsa_pubkey = replicate ML_DSA_65_PK_LEN b, ml_dsa_87_pubkey = None, role = r\<rparr>"

definition demo_policy :: OperatorPolicy where
  "demo_policy = \<lparr>by_ed25519 = [filled 1 \<mapsto> demo_operator ''alice'' 1 Admin,
     filled 2 \<mapsto> demo_operator ''bob'' 2 Viewer], poisoned = False\<rparr>"

lemma demo_operator_simps [simp]:
  "EnrolledOperator.operator_id (demo_operator oid b r) = oid"
  "EnrolledOperator.ed25519_pubkey (demo_operator oid b r) = filled b"
  "EnrolledOperator.ml_dsa_pubkey (demo_operator oid b r) = replicate ML_DSA_65_PK_LEN b"
  "EnrolledOperator.ml_dsa_87_pubkey (demo_operator oid b r) = None"
  "EnrolledOperator.role (demo_operator oid b r) = r"
  by (simp_all add: demo_operator_def)

lemma demo_policy_ok: "policy_ok demo_codec demo_policy" "unique_ids demo_policy" "\<not> poisoned demo_policy"
  by (auto simp: policy_ok_def unique_ids_def enrolled_as_iff demo_policy_def operator_ok_def split: if_splits)

theorem policy_persist_load_witness:
  "OperatorPolicy_load demo_codec ''p''
     (fst (OperatorPolicy_persist_to demo_codec demo_iteration all_io_ok ''t'' ''p'' demo_policy Map.empty)) =
     Ok demo_policy"
proof (rule policy_persist_load [OF demo_codec_lawful demo_policy_ok(1) demo_iterations_ok(1) demo_policy_ok(3)])
  let ?r = "OperatorPolicy_persist_to demo_codec demo_iteration all_io_ok ''t'' ''p'' demo_policy Map.empty"
  have "snd ?r = Ok ()"
    by (simp add: OperatorPolicy_persist_to_def OperatorPolicy_read_map_def demo_policy_ok(3)
        demo_codec_def write_atomic_def write_and_rename_def all_io_ok_def)
  then show "?r = (fst ?r, Ok ())" by (metis prod.collapse)
qed

theorem replace_operator_key_refines_witness:
  "policy_ok demo_codec (fst (OperatorPolicy_replace_operator_key demo_iteration ''bob'' (filled 3)
     (replicate ML_DSA_65_PK_LEN 3) None demo_policy))"
  using replace_operator_key_refines [of demo_iteration demo_codec demo_policy "replicate ML_DSA_65_PK_LEN 3"
      None "''bob''" "filled 3"] demo_iterations_ok(1) demo_policy_ok
  by (metis length_replicate option.set(1) empty_iff prod.collapse)

section \<open>Operator ids\<close>

text \<open>
  \<open>from_operators\<close> rejects a key that occurs twice, not an operator id that does. With two enrollments
  under one id, which of them a lookup by id finds, and hence whose role a token is re-checked against
  and whose key is replaced, depends on the iteration order of the map.
\<close>

lemma duplicate_ids_depend_on_order:
  fixes ops
  defines "ops \<equiv> [demo_operator ''alice'' 1 Admin, demo_operator ''alice'' 2 Viewer]"
  shows "\<exists>pol. OperatorPolicy_from_operators ops = Ok pol \<and>
    map_option EnrolledOperator.role (OperatorPolicy_lookup_by_id demo_iteration pol ''alice'') = Some Admin \<and>
    map_option EnrolledOperator.role (OperatorPolicy_lookup_by_id reverse_iteration pol ''alice'') = Some Viewer"
proof -
  let ?m = "[filled 1 :: u8_32 \<mapsto> demo_operator ''alice'' 1 Admin, filled 2 \<mapsto> demo_operator ''alice'' 2 Viewer]"
  have less: "(filled 1 :: u8_32) < filled 2"
    by (simp add: less_byte_array_def numeral_eq_Suc)
  have "OperatorPolicy_from_operators ops = Ok \<lparr>by_ed25519 = ?m, poisoned = False\<rparr>"
    by (simp add: ops_def OperatorPolicy_from_operators_def)
  moreover have "sorted_list_of_set (dom ?m) = [filled 1, filled 2]"
    using less less_imp_le [OF less] by (simp add: insert_commute sorted_list_of_set_insert)
  ultimately show ?thesis
    by (simp add: OperatorPolicy_lookup_by_id_def OperatorPolicy_read_map_def map_values_def
        demo_iteration_def reverse_iteration_def List.map_filter_simps)
qed
end
