(* ===== verification/Operator_Auth.thy ===== *)
theory Operator_Auth
  imports Operator_Policy Handshake_Manager
begin

text \<open>
  Operator authentication, \<open>apps/xenia-peer/src/operator_auth.rs\<close>: the rate limiter, single-use
  challenges, the verification of a challenge response, session tokens, and the authorization of consent
  actions, ledger reads, revocations and key replacements. Every function takes the time as an argument,
  as the code does. A signature that verifies over bytes its holder never signed is named in the
  conclusions where it matters, as a forgery.
\<close>

definition CHALLENGE_TTL_SECS :: u64 where
  "CHALLENGE_TTL_SECS = 60"

definition TOKEN_TTL_SECS :: u64 where
  "TOKEN_TTL_SECS = 15 * 60"

definition AUTH_RATE_MAX :: u32 where
  "AUTH_RATE_MAX = 30"

definition AUTH_RATE_WINDOW_SECS :: u64 where
  "AUTH_RATE_WINDOW_SECS = 60"

section \<open>The rate limiter\<close>

record RateLimiter =
  window_secs :: u64
  max_attempts :: u32
  window_start :: u64
  attempts :: u32

definition RateLimiter_new :: "u32 \<Rightarrow> u64 \<Rightarrow> RateLimiter" where
  "RateLimiter_new m w = \<lparr>window_secs = w, max_attempts = m, window_start = 0, attempts = 0\<rparr>"

definition RateLimiter_allow :: "u64 \<Rightarrow> RateLimiter \<Rightarrow> RateLimiter \<times> bool" where
  "RateLimiter_allow now rl =
     (let rl1 = (if saturating_sub now (window_start rl) \<ge> window_secs rl
                 then rl\<lparr>window_start := now, attempts := 0\<rparr> else rl)
      in if attempts rl1 < max_attempts rl1 then (rl1\<lparr>attempts := attempts rl1 + 1\<rparr>, True)
         else (rl1, False))"

section \<open>Challenges\<close>

type_synonym ChallengeStore = "u8_32 \<rightharpoonup> u64" \<comment> \<open>\<open>outstanding\<close>, its only field\<close>

definition ChallengeStore_issue :: "u8_32 \<Rightarrow> u64 \<Rightarrow> u64 \<Rightarrow> ChallengeStore \<Rightarrow> ChallengeStore" where
  "ChallengeStore_issue n now ttl_secs st = st(n \<mapsto> saturating_add now ttl_secs)"

definition ChallengeStore_consume :: "u8_32 \<Rightarrow> u64 \<Rightarrow> ChallengeStore \<Rightarrow> ChallengeStore \<times> bool" where
  "ChallengeStore_consume n now st = (st(n := None), case st n of
     Some expires \<Rightarrow> now \<le> expires | None \<Rightarrow> False)"

definition ChallengeStore_gc :: "u64 \<Rightarrow> ChallengeStore \<Rightarrow> ChallengeStore" where
  "ChallengeStore_gc now st n = (case st n of
     Some expires \<Rightarrow> if now \<le> expires then Some expires else None | None \<Rightarrow> None)"

record ChallengeResponse =
  nonce :: u8_32
  ed_pubkey :: u8_32
  response_ml_dsa_pubkey :: bytes
  ed_signature :: u8_64
  response_ml_dsa_signature :: ml_dsa_sig

datatype AuthError =
  UnknownOrExpiredChallenge | MalformedKey | Ed25519VerifyFailed | MlDsaVerifyFailed
| AuthNotEnrolled | InvalidToken | RoleNotPermitted

fun AuthError_to_string :: "AuthError \<Rightarrow> string" where
  "AuthError_to_string UnknownOrExpiredChallenge = ''unknown, used, or expired challenge''"
| "AuthError_to_string MalformedKey = ''malformed operator public key''"
| "AuthError_to_string Ed25519VerifyFailed = ''Ed25519 signature verification failed''"
| "AuthError_to_string MlDsaVerifyFailed = ''ML-DSA signature verification failed''"
| "AuthError_to_string AuthNotEnrolled = ''operator key is not enrolled''"
| "AuthError_to_string InvalidToken = ''invalid or expired operator token''"
| "AuthError_to_string RoleNotPermitted = ''operator role does not permit this action''"

record AuthenticatedOperator =
  authed_operator_id :: string
  authed_role :: OperatorRole

text \<open>
  The signature checks every function below makes: the Ed25519 key parses and accepts, the ML-DSA key
  has its length and accepts.
\<close>

definition verify_both ::
    "('sk, 'vk, 'ml) crypto \<Rightarrow> u8_32 \<Rightarrow> bytes \<Rightarrow> bytes \<Rightarrow> u8_64 \<Rightarrow> ml_dsa_sig \<Rightarrow> (unit, AuthError) result" where
  "verify_both c ed_pk ml_pk transcript ed_sig ml_sig =
     and_then (map_err (\<lambda>_. MalformedKey) (HandshakeManager_parse_peer_public_key c ed_pk)) (\<lambda>ed_vk.
     and_then (map_err (\<lambda>_. Ed25519VerifyFailed) (HandshakeManager_verify c ed_vk transcript ed_sig)) (\<lambda>_.
     and_then (ok_or (try_into ml_pk) MalformedKey) (\<lambda>ml_vk.
     map_err (\<lambda>_. MlDsaVerifyFailed) (HandshakeManager_verify_ml_dsa c ml_vk transcript ml_sig))))"

definition verify_challenge_response ::
    "('sk, 'vk, 'ml) crypto \<Rightarrow> OperatorPolicy \<Rightarrow> u64 \<Rightarrow> ChallengeResponse \<Rightarrow> ChallengeStore \<Rightarrow>
     ChallengeStore \<times> (AuthenticatedOperator, AuthError) result" where
  "verify_challenge_response c pol now resp st =
     (let (st1, fresh) = ChallengeStore_consume (nonce resp) now st;
          ml_pk = response_ml_dsa_pubkey resp
      in (st1,
        if \<not> fresh then Err UnknownOrExpiredChallenge
        else if length ml_pk \<noteq> ML_DSA_65_PK_LEN then Err MalformedKey
        else
          and_then (verify_both c (ed_pubkey resp) ml_pk
              (challenge_transcript (nonce resp) (ed_pubkey resp) ml_pk)
              (ed_signature resp) (response_ml_dsa_signature resp)) (\<lambda>_.
          case OperatorPolicy_lookup_verified pol (ed_pubkey resp) ml_pk of
            Some op \<Rightarrow> Ok \<lparr>authed_operator_id = EnrolledOperator.operator_id op,
              authed_role = EnrolledOperator.role op\<rparr>
          | None \<Rightarrow> Err AuthNotEnrolled)))"

section \<open>Tokens\<close>

record OperatorToken =
  token_operator_id :: string
  token_role :: OperatorRole
  issued_at :: u64
  expires_at :: u64
  token_nonce :: u8_16

definition OperatorToken_canonical_bytes :: "OperatorToken \<Rightarrow> bytes" where
  "OperatorToken_canonical_bytes t = operator_token_canonical_bytes (token_operator_id t) (token_role t)
     (issued_at t) (expires_at t) (token_nonce t)"

record SignedOperatorToken =
  token :: OperatorToken
  token_signature :: u8_64
  token_ml_dsa_signature :: ml_dsa_sig

definition issue_token ::
    "('sk, 'vk, 'ml) crypto \<Rightarrow> 'sk \<Rightarrow> 'ml \<Rightarrow> AuthenticatedOperator \<Rightarrow> u64 \<Rightarrow> u64 \<Rightarrow> u8_16 \<Rightarrow>
     SignedOperatorToken" where
  "issue_token c daemon_key daemon_ml_dsa operator now ttl_secs tn =
     (let t = \<lparr>token_operator_id = authed_operator_id operator, token_role = authed_role operator,
            issued_at = now, expires_at = saturating_add now ttl_secs, token_nonce = tn\<rparr>;
          b = OperatorToken_canonical_bytes t
      in \<lparr>token = t, token_signature = ed_sign c daemon_key b,
          token_ml_dsa_signature = MlDsaIdentity_sign c daemon_ml_dsa b\<rparr>)"

definition verify_token ::
    "('sk, 'vk, 'ml) crypto \<Rightarrow> 'vk \<Rightarrow> ml_dsa_pk \<Rightarrow> u64 \<Rightarrow> SignedOperatorToken \<Rightarrow>
     (OperatorToken, AuthError) result" where
  "verify_token c daemon_pubkey daemon_ml_dsa_pubkey now st =
     (let b = OperatorToken_canonical_bytes (token st) in
      and_then (map_err (\<lambda>_. InvalidToken)
        (HandshakeManager_verify c daemon_pubkey b (token_signature st))) (\<lambda>_.
      and_then (map_err (\<lambda>_. InvalidToken)
        (MlDsaIdentity_verify c daemon_ml_dsa_pubkey b (token_ml_dsa_signature st))) (\<lambda>_.
      if now > expires_at (token st) then Err InvalidToken else Ok (token st))))"

section \<open>Authorization\<close>

record AuthenticatedConsentAction =
  ca_token :: SignedOperatorToken
  ca_action :: ConsentAction
  ca_action_signature :: u8_64
  ca_ml_dsa_action_signature :: ml_dsa_sig

record AuthorizedConsentAction =
  authorized_action :: ConsentAction
  authorized_operator_id :: string
  authorized_role :: OperatorRole
  authorized_ed25519_pubkey :: u8_32

definition authorize_consent_action ::
    "('sk, 'vk, 'ml) crypto \<Rightarrow> iteration \<Rightarrow> OperatorPolicy \<Rightarrow> 'vk \<Rightarrow> ml_dsa_pk \<Rightarrow> u64 \<Rightarrow> Uuid \<Rightarrow> u8_32 \<Rightarrow>
     AuthenticatedConsentAction \<Rightarrow> (AuthorizedConsentAction, AuthError) result" where
  "authorize_consent_action c it pol daemon_pk daemon_ml_pk now sid digest req =
     and_then (verify_token c daemon_pk daemon_ml_pk now (ca_token req)) (\<lambda>t.
     if \<not> role_permits (token_role t) (ConsentAction_required_permission (ca_action req))
     then Err RoleNotPermitted
     else
       and_then (ok_or (OperatorPolicy_lookup_by_id it pol (token_operator_id t)) AuthNotEnrolled) (\<lambda>op.
       and_then (verify_both c (EnrolledOperator.ed25519_pubkey op) (EnrolledOperator.ml_dsa_pubkey op)
           (consent_action_transcript (ca_action req) sid (token_nonce t) digest)
           (ca_action_signature req) (ca_ml_dsa_action_signature req)) (\<lambda>_.
       Ok \<lparr>authorized_action = ca_action req, authorized_operator_id = token_operator_id t,
         authorized_role = token_role t,
         authorized_ed25519_pubkey = EnrolledOperator.ed25519_pubkey op\<rparr>)))"

definition authorize_ledger_read ::
    "('sk, 'vk, 'ml) crypto \<Rightarrow> iteration \<Rightarrow> OperatorPolicy \<Rightarrow> 'vk \<Rightarrow> ml_dsa_pk \<Rightarrow> u64 \<Rightarrow>
     SignedOperatorToken \<Rightarrow> (OperatorToken, AuthError) result" where
  "authorize_ledger_read c it pol daemon_pk daemon_ml_pk now st =
     and_then (verify_token c daemon_pk daemon_ml_pk now st) (\<lambda>t.
     if \<not> role_permits (token_role t) ReadAudit then Err RoleNotPermitted
     else
       and_then (ok_or (OperatorPolicy_lookup_by_id it pol (token_operator_id t)) AuthNotEnrolled) (\<lambda>_.
       Ok t))"

record AuthenticatedRevocation =
  rv_token :: SignedOperatorToken
  rv_target_operator_id :: string
  rv_action_signature :: u8_64
  rv_ml_dsa_action_signature :: ml_dsa_sig

record AuthorizedRevocation =
  revoked_target_operator_id :: string
  revoking_operator_id :: string
  revoking_ed25519_pubkey :: u8_32

definition authorize_operator_revocation ::
    "('sk, 'vk, 'ml) crypto \<Rightarrow> iteration \<Rightarrow> OperatorPolicy \<Rightarrow> 'vk \<Rightarrow> ml_dsa_pk \<Rightarrow> u64 \<Rightarrow>
     AuthenticatedRevocation \<Rightarrow> (AuthorizedRevocation, AuthError) result" where
  "authorize_operator_revocation c it pol daemon_pk daemon_ml_pk now req =
     and_then (verify_token c daemon_pk daemon_ml_pk now (rv_token req)) (\<lambda>t.
     if \<not> role_permits (token_role t) EnrollOperator then Err RoleNotPermitted
     else
       and_then (ok_or (OperatorPolicy_lookup_by_id it pol (token_operator_id t)) AuthNotEnrolled) (\<lambda>op.
       and_then (verify_both c (EnrolledOperator.ed25519_pubkey op) (EnrolledOperator.ml_dsa_pubkey op)
           (revoke_operator_transcript (rv_target_operator_id req) (token_nonce t))
           (rv_action_signature req) (rv_ml_dsa_action_signature req)) (\<lambda>_.
       Ok \<lparr>revoked_target_operator_id = rv_target_operator_id req,
         revoking_operator_id = token_operator_id t,
         revoking_ed25519_pubkey = EnrolledOperator.ed25519_pubkey op\<rparr>)))"

record AuthenticatedKeyReplacement =
  kr_token :: SignedOperatorToken
  kr_target_operator_id :: string
  kr_new_ed25519_pubkey :: u8_32
  kr_new_ml_dsa_pubkey :: bytes
  kr_new_ml_dsa_87_pubkey :: "bytes option"
  kr_action_signature :: u8_64
  kr_ml_dsa_action_signature :: ml_dsa_sig

record AuthorizedKeyReplacement =
  replaced_target_operator_id :: string
  replaced_new_ed25519_pubkey :: u8_32
  replaced_new_ml_dsa_pubkey :: bytes
  replaced_new_ml_dsa_87_pubkey :: "bytes option"
  replacing_operator_id :: string

definition authorize_operator_key_replacement ::
    "('sk, 'vk, 'ml) crypto \<Rightarrow> iteration \<Rightarrow> OperatorPolicy \<Rightarrow> 'vk \<Rightarrow> ml_dsa_pk \<Rightarrow> u64 \<Rightarrow>
     AuthenticatedKeyReplacement \<Rightarrow> (AuthorizedKeyReplacement, AuthError) result" where
  "authorize_operator_key_replacement c it pol daemon_pk daemon_ml_pk now req =
     and_then (verify_token c daemon_pk daemon_ml_pk now (kr_token req)) (\<lambda>t.
     if \<not> role_permits (token_role t) EnrollOperator then Err RoleNotPermitted
     else
       and_then (ok_or (OperatorPolicy_lookup_by_id it pol (token_operator_id t)) AuthNotEnrolled) (\<lambda>op.
       and_then (verify_both c (EnrolledOperator.ed25519_pubkey op) (EnrolledOperator.ml_dsa_pubkey op)
           (replace_operator_key_transcript (kr_target_operator_id req) (slice (kr_new_ed25519_pubkey req))
             (kr_new_ml_dsa_pubkey req) (kr_new_ml_dsa_87_pubkey req) (token_nonce t))
           (kr_action_signature req) (kr_ml_dsa_action_signature req)) (\<lambda>_.
       Ok \<lparr>replaced_target_operator_id = kr_target_operator_id req,
         replaced_new_ed25519_pubkey = kr_new_ed25519_pubkey req,
         replaced_new_ml_dsa_pubkey = kr_new_ml_dsa_pubkey req,
         replaced_new_ml_dsa_87_pubkey = kr_new_ml_dsa_87_pubkey req,
         replacing_operator_id = token_operator_id t\<rparr>)))"

lemmas authorize_defs = authorize_consent_action_def authorize_ledger_read_def
  authorize_operator_revocation_def authorize_operator_key_replacement_def

section \<open>What success means\<close>

text \<open>Both keys of the pair accept their signature over the bytes.\<close>

definition both_accept ::
    "('sk, 'vk, 'ml) crypto \<Rightarrow> u8_32 \<Rightarrow> bytes \<Rightarrow> bytes \<Rightarrow> u8_64 \<Rightarrow> ml_dsa_sig \<Rightarrow> bool" where
  "both_accept c ed ml m ed_sig ml_sig \<longleftrightarrow>
     (\<exists>vk. ed_key_from_bytes c ed = Some vk \<and> ed_verify c vk m ed_sig) \<and>
     (\<exists>pk. ml = slice pk \<and> ml_dsa_65_accepts c pk m ml_sig)"

lemma verify_both_eq_Ok [result_simps]:
  "verify_both c ed ml m ed_sig ml_sig = Ok () \<longleftrightarrow> both_accept c ed ml m ed_sig ml_sig"
  by (auto simp: verify_both_def both_accept_def result_simps array_simps)

lemma verify_token_eq_Ok [result_simps]:
  "verify_token c pk ml_pk now st = Ok t \<longleftrightarrow> t = token st \<and> now \<le> expires_at t \<and>
     ed_verify c pk (OperatorToken_canonical_bytes t) (token_signature st) \<and>
     ml_dsa_65_accepts c ml_pk (OperatorToken_canonical_bytes t) (token_ml_dsa_signature st)"
  by (auto simp: verify_token_def Let_def result_simps MlDsaIdentity_verify_def)

lemma lookup_verified_eq_Some:
  "OperatorPolicy_lookup_verified pol ed ml = Some op \<longleftrightarrow> \<not> poisoned pol \<and>
     by_ed25519 pol ed = Some op \<and> EnrolledOperator.ml_dsa_pubkey op = ml"
  by (auto simp: OperatorPolicy_lookup_verified_def OperatorPolicy_read_map_def bind_eq_Some_conv)

lemma verify_challenge_response_eq_Ok:
  "snd (verify_challenge_response c pol now resp st) = Ok a \<longleftrightarrow>
     (\<exists>expires. st (nonce resp) = Some expires \<and> now \<le> expires) \<and>
     both_accept c (ed_pubkey resp) (response_ml_dsa_pubkey resp)
       (challenge_transcript (nonce resp) (ed_pubkey resp) (response_ml_dsa_pubkey resp))
       (ed_signature resp) (response_ml_dsa_signature resp) \<and>
     (\<exists>op. \<not> poisoned pol \<and> by_ed25519 pol (ed_pubkey resp) = Some op \<and>
        EnrolledOperator.ml_dsa_pubkey op = response_ml_dsa_pubkey resp \<and>
        a = \<lparr>authed_operator_id = EnrolledOperator.operator_id op, authed_role = EnrolledOperator.role op\<rparr>)"
proof -
  have "length (response_ml_dsa_pubkey resp) = ML_DSA_65_PK_LEN"
    if "both_accept c (ed_pubkey resp) (response_ml_dsa_pubkey resp) m s s'" for m s s'
    using that by (auto simp: both_accept_def key_lengths)
  moreover have "(case look of Some op \<Rightarrow> Ok (f op) | None \<Rightarrow> Err AuthNotEnrolled) = Ok a \<longleftrightarrow>
      (\<exists>op. look = Some op \<and> a = f op)" for look and f :: "EnrolledOperator \<Rightarrow> AuthenticatedOperator"
    by (cases look) auto
  moreover have "(case st (nonce resp) of Some e \<Rightarrow> now \<le> e | None \<Rightarrow> False) \<longleftrightarrow>
      (\<exists>e. st (nonce resp) = Some e \<and> now \<le> e)"
    by (cases "st (nonce resp)") auto
  ultimately show ?thesis
    by (auto simp: verify_challenge_response_def ChallengeStore_consume_def Let_def result_simps
        lookup_verified_eq_Some)
qed

lemma verify_challenge_response_consumes:
  "fst (verify_challenge_response c pol now resp st) = st(nonce resp := None)"
  by (simp add: verify_challenge_response_def ChallengeStore_consume_def Let_def)

section \<open>The rate limit\<close>

text \<open>The times of the attempts that a sequence of calls allows.\<close>

fun allowed_times :: "RateLimiter \<Rightarrow> u64 list \<Rightarrow> u64 list" where
  "allowed_times rl [] = []"
| "allowed_times rl (t # ts) = (let (rl', ok) = RateLimiter_allow t rl in
     if ok then t # allowed_times rl' ts else allowed_times rl' ts)"

definition allowed_within :: "nat \<Rightarrow> nat \<Rightarrow> RateLimiter \<Rightarrow> u64 list \<Rightarrow> nat" where
  "allowed_within a w rl ts = length (filter (\<lambda>t. a \<le> unat t \<and> unat t < a + w) (allowed_times rl ts))"

lemma allowed_within_Nil [simp]: "allowed_within a w rl [] = 0"
  by (simp add: allowed_within_def)

lemma allowed_within_Cons:
  assumes "RateLimiter_allow t rl = (rl', ok)"
  shows "allowed_within a w rl (t # ts) =
    (if ok \<and> a \<le> unat t \<and> unat t < a + w then 1 else 0) + allowed_within a w rl' ts"
  using assms by (simp add: allowed_within_def)

lemma set_allowed_times: "set (allowed_times rl ts) \<subseteq> set ts"
proof (induction ts arbitrary: rl)
  case (Cons t ts)
  then show ?case
    by (cases "RateLimiter_allow t rl") (simp add: subset_insertI2)
qed simp

lemma allowed_within_after:
  assumes "\<forall>t \<in> set ts. a + w \<le> unat t"
  shows "allowed_within a w rl ts = 0"
  using assms set_allowed_times [of rl ts] by (force simp: allowed_within_def filter_empty_conv)

text \<open>One call: in the window it takes a slot; after the window it starts a new one.\<close>

lemma allow_cases:
  assumes "RateLimiter_allow t rl = (rl', ok)"
  obtains (full) "\<not> ok" "unat t - unat (window_start rl) < unat (window_secs rl)" "rl' = rl"
      "\<not> attempts rl < max_attempts rl"
  | (slot) "ok" "unat t - unat (window_start rl) < unat (window_secs rl)"
      "unat (attempts rl) < unat (max_attempts rl)" "window_secs rl' = window_secs rl"
      "max_attempts rl' = max_attempts rl" "window_start rl' = window_start rl"
      "unat (attempts rl') = Suc (unat (attempts rl))"
  | (reset) "unat (window_secs rl) \<le> unat t - unat (window_start rl)" "window_secs rl' = window_secs rl"
      "max_attempts rl' = max_attempts rl" "window_start rl' = t"
      "unat (attempts rl') = (if ok then 1 else 0)" "ok \<longleftrightarrow> 0 < unat (max_attempts rl)"
proof -
  have elapsed: "window_secs rl \<le> saturating_sub t (window_start rl) \<longleftrightarrow>
      unat (window_secs rl) \<le> unat t - unat (window_start rl)"
    by (simp add: word_le_nat_alt unat_saturating_sub)
  have "unat (max_attempts rl) < 2 ^ 32" using unsigned_less [of "max_attempts rl"] by simp
  then have succ: "unat (attempts rl + 1) = Suc (unat (attempts rl))" if "attempts rl < max_attempts rl"
    using that unat_add_less [of "attempts rl" 1]
    by (simp add: word_less_nat_alt)
  show thesis
  proof (cases "unat (window_secs rl) \<le> unat t - unat (window_start rl)")
    case True
    then have "(rl', ok) = (if 0 < max_attempts rl
        then (rl\<lparr>window_start := t, attempts := 1\<rparr>, True) else (rl\<lparr>window_start := t, attempts := 0\<rparr>, False))"
      using assms by (simp add: RateLimiter_allow_def Let_def elapsed split: if_splits)
    then show thesis
      by (intro reset [OF True]) (simp_all add: word_less_nat_alt split: if_splits)
  next
    case False
    then have rl': "(rl', ok) = (if attempts rl < max_attempts rl
        then (rl\<lparr>attempts := attempts rl + 1\<rparr>, True) else (rl, False))"
      using assms by (simp add: RateLimiter_allow_def Let_def elapsed split: if_splits)
    show thesis
    proof (cases "attempts rl < max_attempts rl")
      case True
      with rl' False succ show thesis by (intro slot) (simp_all add: word_less_nat_alt)
    next
      case out: False
      with rl' False show thesis by (intro full) simp_all
    qed
  qed
qed

text \<open>Once the window has started in the interval, only its free slots remain.\<close>

lemma allowed_within_window:
  assumes "sorted ts" and "\<forall>t \<in> set ts. window_start rl \<le> t" and "a \<le> unat (window_start rl)"
  shows "allowed_within a (unat (window_secs rl)) rl ts \<le> unat (max_attempts rl) - unat (attempts rl)"
  using assms
proof (induction ts arbitrary: rl)
  case (Cons t ts)
  obtain rl' ok where rl': "RateLimiter_allow t rl = (rl', ok)" by fastforce
  have start: "unat (window_start rl) \<le> unat t" using Cons.prems(2) by (simp add: word_le_nat_alt)
  from rl' show ?case
  proof (cases rule: allow_cases)
    case full
    then show ?thesis using Cons by (simp add: allowed_within_Cons [OF rl'])
  next
    case slot
    then have "allowed_within a (unat (window_secs rl)) rl' ts \<le> unat (max_attempts rl') - unat (attempts rl')"
      using Cons.IH [of rl'] Cons.prems by simp
    then show ?thesis using slot unfolding allowed_within_Cons [OF rl'] by (auto split: if_splits)
  next
    case reset
    have late: "\<forall>u \<in> set (t # ts). a + unat (window_secs rl) \<le> unat u"
      using reset(1) start Cons.prems by (auto simp: word_le_nat_alt)
    then show ?thesis by (simp only: allowed_within_after)
  qed
qed simp

lemma allowed_within_next_window:
  assumes "sorted ts" and "\<forall>t \<in> set ts. window_start rl \<le> t \<and> a \<le> unat t"
  shows "allowed_within a (unat (window_secs rl)) rl ts \<le>
    (unat (max_attempts rl) - unat (attempts rl)) + unat (max_attempts rl)"
  using assms
proof (induction ts arbitrary: rl)
  case (Cons t ts)
  obtain rl' ok where rl': "RateLimiter_allow t rl = (rl', ok)" by fastforce
  from rl' show ?case
  proof (cases rule: allow_cases)
    case full
    then show ?thesis using Cons by (simp add: allowed_within_Cons [OF rl'])
  next
    case slot
    then have "allowed_within a (unat (window_secs rl)) rl' ts \<le>
        (unat (max_attempts rl') - unat (attempts rl')) + unat (max_attempts rl')"
      using Cons.IH [of rl'] Cons.prems by simp
    then show ?thesis using slot unfolding allowed_within_Cons [OF rl'] by (auto split: if_splits)
  next
    case reset
    then have "allowed_within a (unat (window_secs rl)) rl' ts \<le> unat (max_attempts rl') - unat (attempts rl')"
      using allowed_within_window [of ts rl' a] Cons.prems by simp
    then show ?thesis using reset unfolding allowed_within_Cons [OF rl'] by (auto split: if_splits)
  qed
qed simp

lemma allowed_within_two_windows:
  assumes "sorted ts" and "\<forall>t \<in> set ts. window_start rl \<le> t"
  shows "allowed_within a (unat (window_secs rl)) rl ts \<le> 2 * unat (max_attempts rl)"
  using assms
proof (induction ts arbitrary: rl)
  case (Cons t ts)
  obtain rl' ok where rl': "RateLimiter_allow t rl = (rl', ok)" by fastforce
  show ?case
  proof (cases "a \<le> unat t")
    case True
    then have "\<forall>u \<in> set (t # ts). window_start rl \<le> u \<and> a \<le> unat u"
      using Cons.prems by (auto simp: word_le_nat_alt)
    then show ?thesis using allowed_within_next_window [OF Cons.prems(1)] by fastforce
  next
    case False
    from rl' have keep: "window_secs rl' = window_secs rl" "max_attempts rl' = max_attempts rl"
        "\<forall>u \<in> set ts. window_start rl' \<le> u"
      by (cases rule: allow_cases; use Cons.prems in auto)+
    then show ?thesis
      using Cons.IH [of rl'] Cons.prems(1) False by (simp add: allowed_within_Cons [OF rl'])
  qed
qed simp

text \<open>
  C33. The rate limit. While the clock does not go back, the limiter allows at most twice its maximum of
  attempts in any interval as long as its window: the code's fixed windows make it one maximum per
  window, and an interval meets two. An attempt made a full window after the current one started is
  always allowed.
\<close>

theorem rate_limit_bound:
  assumes "sorted ts"
  shows "allowed_within a (unat w) (RateLimiter_new m w) ts \<le> 2 * unat m \<and>
    (\<forall>rl t. 0 < max_attempts rl \<and> unat (window_start rl) + unat (window_secs rl) \<le> unat t \<longrightarrow>
      snd (RateLimiter_allow t rl))"
proof (intro conjI allI impI)
  show "allowed_within a (unat w) (RateLimiter_new m w) ts \<le> 2 * unat m"
    using allowed_within_two_windows [OF assms, of "RateLimiter_new m w" a]
    by (simp add: RateLimiter_new_def)
next
  fix rl :: RateLimiter and t :: u64
  assume "0 < max_attempts rl \<and> unat (window_start rl) + unat (window_secs rl) \<le> unat t"
  then show "snd (RateLimiter_allow t rl)"
    by (auto simp: RateLimiter_allow_def Let_def word_le_nat_alt unat_saturating_sub)
qed

theorem rate_limit_bound_witness:
  "allowed_within 50 (unat AUTH_RATE_WINDOW_SECS) (RateLimiter_new AUTH_RATE_MAX AUTH_RATE_WINDOW_SECS)
     [50, 51, 60, 110] \<le> 60"
  using rate_limit_bound [of "[50, 51, 60, 110]" 50 AUTH_RATE_WINDOW_SECS AUTH_RATE_MAX]
  by (simp add: AUTH_RATE_MAX_def word_le_nat_alt)

section \<open>Challenges are used once\<close>

datatype challenge_op = Issue u8_32 u64 u64 | Consume u8_32 u64 | Gc u64

fun challenge_step :: "challenge_op \<Rightarrow> ChallengeStore \<Rightarrow> ChallengeStore" where
  "challenge_step (Issue n now ttl) st = ChallengeStore_issue n now ttl st"
| "challenge_step (Consume n now) st = fst (ChallengeStore_consume n now st)"
| "challenge_step (Gc now) st = ChallengeStore_gc now st"

definition challenges_after :: "challenge_op list \<Rightarrow> ChallengeStore" where
  "challenges_after ops = fold challenge_step ops Map.empty"

lemma challenge_step_keeps:
  assumes "challenge_step op st n = Some expires" and "\<nexists>t ttl. op = Issue n t ttl"
  shows "st n = Some expires \<and> (\<forall>now. op \<noteq> Consume n now) \<and> (\<forall>now. op = Gc now \<longrightarrow> now \<le> expires)"
proof (cases op)
  case (Issue m t ttl)
  with assms have "m \<noteq> n" by blast
  with assms(1) Issue show ?thesis by (simp add: ChallengeStore_issue_def)
next
  case (Consume m t)
  with assms(1) show ?thesis by (cases "m = n") (simp_all add: ChallengeStore_consume_def)
next
  case (Gc t)
  with assms(1) show ?thesis
    by (cases "st n") (simp_all add: ChallengeStore_gc_def split: if_splits)
qed

lemma challenge_provenance:
  assumes "challenges_after ops n = Some expires"
  shows "\<exists>pre t ttl post. ops = pre @ Issue n t ttl # post \<and> expires = saturating_add t ttl \<and>
    (\<forall>now. Consume n now \<notin> set post) \<and> (\<forall>now. Gc now \<in> set post \<longrightarrow> now \<le> expires)"
  using assms
proof (induction ops rule: rev_induct)
  case (snoc op ops)
  have after: "challenges_after (ops @ [op]) = challenge_step op (challenges_after ops)"
    by (simp add: challenges_after_def)
  show ?case
  proof (cases "\<exists>t ttl. op = Issue n t ttl")
    case True
    then obtain t ttl where op: "op = Issue n t ttl" by blast
    with snoc.prems have "expires = saturating_add t ttl"
      by (simp add: after [unfolded op] ChallengeStore_issue_def)
    then have "ops @ [op] = ops @ Issue n t ttl # [] \<and> expires = saturating_add t ttl \<and>
        (\<forall>now. Consume n now \<notin> set []) \<and> (\<forall>now. Gc now \<in> set [] \<longrightarrow> now \<le> expires)"
      using op by simp
    then show ?thesis by blast
  next
    case False
    with snoc.prems have "challenges_after ops n = Some expires \<and> (\<forall>now. op \<noteq> Consume n now) \<and>
        (\<forall>now. op = Gc now \<longrightarrow> now \<le> expires)"
      by (intro challenge_step_keeps) (simp_all add: after)
    then have old: "challenges_after ops n = Some expires" "\<forall>now. op \<noteq> Consume n now"
        "\<forall>now. op = Gc now \<longrightarrow> now \<le> expires"
      by simp_all
    from snoc.IH [OF old(1)] obtain pre t ttl post where
      "ops = pre @ Issue n t ttl # post" "expires = saturating_add t ttl"
      "\<forall>now. Consume n now \<notin> set post" "\<forall>now. Gc now \<in> set post \<longrightarrow> now \<le> expires" by blast
    with old(2,3) have "ops @ [op] = pre @ Issue n t ttl # (post @ [op]) \<and> expires = saturating_add t ttl \<and>
        (\<forall>now. Consume n now \<notin> set (post @ [op])) \<and> (\<forall>now. Gc now \<in> set (post @ [op]) \<longrightarrow> now \<le> expires)"
      by auto
    then show ?thesis by blast
  qed
qed (simp add: challenges_after_def)

text \<open>
  C23. A challenge is used once, in time, by a full key pair. If a login succeeds after any sequence of
  operations on the challenge store, then the store issued this nonce, the login comes no later than the
  lifetime after that, and no other login has presented the nonce since; both signatures verify over the
  challenge; and the operator enrolled under that Ed25519 key has that very ML-DSA key. Whatever the
  outcome, the nonce is spent.
\<close>

theorem login_uses_challenge_once:
  assumes "verify_challenge_response c pol now resp (challenges_after ops) = (st', r)"
  shows "st' (nonce resp) = None \<and> (\<forall>a. r = Ok a \<longrightarrow>
    (\<exists>pre t ttl post. ops = pre @ Issue (nonce resp) t ttl # post \<and> unat now \<le> unat t + unat ttl \<and>
      (\<forall>u. Consume (nonce resp) u \<notin> set post)) \<and>
    both_accept c (ed_pubkey resp) (response_ml_dsa_pubkey resp)
      (challenge_transcript (nonce resp) (ed_pubkey resp) (response_ml_dsa_pubkey resp))
      (ed_signature resp) (response_ml_dsa_signature resp) \<and>
    (\<exists>op. by_ed25519 pol (ed_pubkey resp) = Some op \<and>
      EnrolledOperator.ml_dsa_pubkey op = response_ml_dsa_pubkey resp \<and>
      authed_operator_id a = EnrolledOperator.operator_id op \<and> authed_role a = EnrolledOperator.role op))"
proof (intro conjI allI impI)
  show "st' (nonce resp) = None"
    using verify_challenge_response_consumes [of c pol now resp "challenges_after ops"] assms by simp
  fix a
  assume "r = Ok a"
  then have ok: "snd (verify_challenge_response c pol now resp (challenges_after ops)) = Ok a"
    using assms by simp
  note success = ok [unfolded verify_challenge_response_eq_Ok]
  then obtain expires where e: "challenges_after ops (nonce resp) = Some expires" "now \<le> expires" by blast
  from challenge_provenance [OF e(1)] obtain pre t ttl post where
    "ops = pre @ Issue (nonce resp) t ttl # post" "expires = saturating_add t ttl"
    "\<forall>u. Consume (nonce resp) u \<notin> set post" by blast
  moreover from this(2) e(2) have "unat now \<le> unat t + unat ttl"
    by (simp add: word_le_nat_alt unat_saturating_add)
  ultimately show "\<exists>pre t ttl post. ops = pre @ Issue (nonce resp) t ttl # post \<and> unat now \<le> unat t + unat ttl \<and>
      (\<forall>u. Consume (nonce resp) u \<notin> set post)"
    by blast
  show "both_accept c (ed_pubkey resp) (response_ml_dsa_pubkey resp)
      (challenge_transcript (nonce resp) (ed_pubkey resp) (response_ml_dsa_pubkey resp))
      (ed_signature resp) (response_ml_dsa_signature resp)"
    using success by blast
  show "\<exists>op. by_ed25519 pol (ed_pubkey resp) = Some op \<and>
      EnrolledOperator.ml_dsa_pubkey op = response_ml_dsa_pubkey resp \<and>
      authed_operator_id a = EnrolledOperator.operator_id op \<and> authed_role a = EnrolledOperator.role op"
    using success by auto
qed

text \<open>An operator that answers a challenge with its enrolled pair, as the witness below does.\<close>

definition answer_challenge ::
    "('sk, 'vk, 'ml) crypto \<Rightarrow> ('sk, 'ml, 'dk) HandshakeManager \<Rightarrow> u8_32 \<Rightarrow> ChallengeResponse" where
  "answer_challenge c mgr n =
     (let ed = HandshakeManager_identity_public_key_bytes c mgr;
          ml = slice (HandshakeManager_ml_dsa_public_key_bytes c mgr);
          m = challenge_transcript n ed ml
      in \<lparr>nonce = n, ed_pubkey = ed, response_ml_dsa_pubkey = ml,
          ed_signature = HandshakeManager_sign c mgr m,
          response_ml_dsa_signature = HandshakeManager_sign_ml_dsa c mgr m\<rparr>)"

definition enroll ::
    "('sk, 'vk, 'ml) crypto \<Rightarrow> ('sk, 'ml, 'dk) HandshakeManager \<Rightarrow> string \<Rightarrow> OperatorRole \<Rightarrow> EnrolledOperator" where
  "enroll c mgr oid r = \<lparr>EnrolledOperator.operator_id = oid,
     ed25519_pubkey = HandshakeManager_identity_public_key_bytes c mgr,
     ml_dsa_pubkey = slice (HandshakeManager_ml_dsa_public_key_bytes c mgr), ml_dsa_87_pubkey = None,
     role = r\<rparr>"

lemma enrolled_operator_logs_in:
  assumes "ed25519_correct c" and "ed25519_key_codec c" and "ml_dsa_correct c MlDsa65"
    and "\<not> poisoned pol" and "by_ed25519 pol (HandshakeManager_identity_public_key_bytes c mgr) = Some (enroll c mgr oid r)"
    and "st n = Some expires" and "now \<le> expires"
  shows "snd (verify_challenge_response c pol now (answer_challenge c mgr n) st) =
    Ok \<lparr>authed_operator_id = oid, authed_role = r\<rparr>"
  unfolding verify_challenge_response_eq_Ok
  using assms manager_signs [OF assms(1-3)]
  by (auto simp: answer_challenge_def enroll_def Let_def both_accept_def)

text \<open>
  An enrolled operator gets in and its token is honoured. When an operator enrolled with its own key
  pair answers an unexpired challenge, the login succeeds with the enrolled id and role; the token then
  issued is accepted until it expires and by no later time; and when its role permits a consent action,
  the operator's own signatures over that action authorize it, under the enrolled id, role and key.
\<close>

theorem login_token_action:
  fixes c :: "('sk, 'vk, 'ml) crypto" and mgr :: "('sk, 'ml, 'dk) HandshakeManager" and dk :: 'sk and dml :: 'ml
    and ttl :: u64 and tn :: u8_16 and sid :: Uuid and digest :: u8_32 and act :: ConsentAction
    and r :: OperatorRole and oid :: string and now :: u64
  assumes "ed25519_correct c" and "ed25519_key_codec c" and "ml_dsa_correct c MlDsa65"
    and "iteration_ok it" and "policy_ok cd pol" and "unique_ids pol" and "\<not> poisoned pol"
    and "by_ed25519 pol (HandshakeManager_identity_public_key_bytes c mgr) = Some (enroll c mgr oid r)"
    and "st n = Some expires" and "now \<le> expires"
    and "role_permits r (ConsentAction_required_permission act)"
  defines "t \<equiv> issue_token c dk dml \<lparr>authed_operator_id = oid, authed_role = r\<rparr> now ttl tn"
    and "dpk \<equiv> ed_verifying_key c dk" and "dml_pk \<equiv> MlDsaIdentity_public_key_bytes c dml"
    and "m \<equiv> consent_action_transcript act sid tn digest"
  shows "snd (verify_challenge_response c pol now (answer_challenge c mgr n) st) =
      Ok \<lparr>authed_operator_id = oid, authed_role = r\<rparr> \<and>
    (\<forall>later. is_ok (verify_token c dpk dml_pk later t) \<longleftrightarrow> later \<le> saturating_add now ttl) \<and>
    (\<forall>later \<le> saturating_add now ttl. authorize_consent_action c it pol dpk dml_pk later sid digest
        \<lparr>ca_token = t, ca_action = act, ca_action_signature = HandshakeManager_sign c mgr m,
          ca_ml_dsa_action_signature = HandshakeManager_sign_ml_dsa c mgr m\<rparr> =
      Ok \<lparr>authorized_action = act, authorized_operator_id = oid, authorized_role = r,
        authorized_ed25519_pubkey = HandshakeManager_identity_public_key_bytes c mgr\<rparr>)"
proof -
  have tok: "verify_token c dpk dml_pk later t = Ok (token t) \<longleftrightarrow> later \<le> saturating_add now ttl" for later
    using assms(1,3) ml_dsa_65_signs [OF assms(3)]
    by (simp add: verify_token_eq_Ok t_def issue_token_def Let_def dpk_def dml_pk_def ed25519_correctD
        MlDsaIdentity_public_key_bytes_def MlDsaIdentity_sign_def)
  have fin: "finite (dom (by_ed25519 pol))" using assms(5) by (simp add: policy_ok_def)
  have "EnrolledOperator.operator_id (enroll c mgr oid r) = oid" by (simp add: enroll_def)
  then have look: "OperatorPolicy_lookup_by_id it pol oid = Some (enroll c mgr oid r)"
    using lookup_by_id_eq_Some [OF assms(4) fin assms(6)] assms(7,8) by auto
  have sig: "verify_both c (EnrolledOperator.ed25519_pubkey (enroll c mgr oid r))
      (EnrolledOperator.ml_dsa_pubkey (enroll c mgr oid r)) m (HandshakeManager_sign c mgr m)
      (HandshakeManager_sign_ml_dsa c mgr m) = Ok ()"
    using manager_signs [OF assms(1-3)] by (auto simp: verify_both_eq_Ok both_accept_def enroll_def)
  have fields: "token_role (token t) = r" "token_operator_id (token t) = oid" "token_nonce (token t) = tn"
    by (simp_all add: t_def issue_token_def Let_def)
  have is_ok: "is_ok (verify_token c dpk dml_pk later t) \<longleftrightarrow> verify_token c dpk dml_pk later t = Ok (token t)"
    for later by (cases "verify_token c dpk dml_pk later t") (auto dest: verify_token_eq_Ok [THEN iffD1])
  have "authorize_consent_action c it pol dpk dml_pk later sid digest
        \<lparr>ca_token = t, ca_action = act, ca_action_signature = HandshakeManager_sign c mgr m,
          ca_ml_dsa_action_signature = HandshakeManager_sign_ml_dsa c mgr m\<rparr> =
      Ok \<lparr>authorized_action = act, authorized_operator_id = oid, authorized_role = r,
        authorized_ed25519_pubkey = HandshakeManager_identity_public_key_bytes c mgr\<rparr>"
    if "later \<le> saturating_add now ttl" for later
  proof -
    from that have "verify_token c dpk dml_pk later t = Ok (token t)" by (simp add: tok)
    then show ?thesis
      using look sig fields assms(11) by (simp add: authorize_consent_action_def m_def enroll_def)
  qed
  then show ?thesis
    using enrolled_operator_logs_in [OF assms(1-3,7,8), of st n expires now] assms(9,10) tok is_ok by simp
qed

definition demo_operators :: OperatorPolicy where
  "demo_operators = \<lparr>by_ed25519 = [HandshakeManager_identity_public_key_bytes demo_crypto (demo_mgr 1) \<mapsto>
     enroll demo_crypto (demo_mgr 1) ''alice'' Approver], poisoned = False\<rparr>"

lemma demo_operators_ok:
  "policy_ok demo_codec demo_operators" "unique_ids demo_operators" "\<not> poisoned demo_operators"
  "by_ed25519 demo_operators (HandshakeManager_identity_public_key_bytes demo_crypto (demo_mgr 1)) =
     Some (enroll demo_crypto (demo_mgr 1) ''alice'' Approver)"
  by (auto simp: policy_ok_def unique_ids_def enrolled_as_iff demo_operators_def operator_ok_def enroll_def
      key_lengths split: if_splits)

theorem login_token_action_witness:
  "snd (verify_challenge_response demo_crypto demo_operators 100
     (answer_challenge demo_crypto (demo_mgr 1) (filled 9)) [filled 9 \<mapsto> 160]) =
     Ok \<lparr>authed_operator_id = ''alice'', authed_role = Approver\<rparr>"
proof -
  have "role_permits Approver (ConsentAction_required_permission Approve)" by (simp add: role_permits_iff)
  moreover have "(100 :: u64) \<le> 160" by (simp add: word_le_nat_alt)
  ultimately show ?thesis
    using login_token_action [of demo_crypto demo_iteration demo_codec demo_operators "demo_mgr 1" "''alice''"
        Approver "[filled 9 \<mapsto> 160]" "filled 9" 160 100 Approve] demo_operators_ok demo_iterations_ok(1)
    by simp
qed

theorem login_uses_challenge_once_witness:
  "is_ok (snd (verify_challenge_response demo_crypto demo_operators 100
     (answer_challenge demo_crypto (demo_mgr 1) (filled 9)) (challenges_after [Issue (filled 9) 100 60]))) \<and>
   fst (verify_challenge_response demo_crypto demo_operators 100
     (answer_challenge demo_crypto (demo_mgr 1) (filled 9)) (challenges_after [Issue (filled 9) 100 60]))
     (filled 9) = None"
proof -
  let ?resp = "answer_challenge demo_crypto (demo_mgr 1) (filled 9)"
  let ?st = "challenges_after [Issue (filled 9) 100 60]"
  have n: "nonce ?resp = filled 9" by (simp add: answer_challenge_def Let_def)
  have "(100 :: u64) \<le> saturating_add 100 60" by (simp add: saturating_add_def word_le_nat_alt)
  then have "snd (verify_challenge_response demo_crypto demo_operators 100 ?resp ?st) =
      Ok \<lparr>authed_operator_id = ''alice'', authed_role = Approver\<rparr>"
    using demo_operators_ok
    by (intro enrolled_operator_logs_in) (simp_all add: challenges_after_def ChallengeStore_issue_def)
  then show ?thesis
    using login_uses_challenge_once [OF surjective_pairing, of demo_crypto demo_operators 100 ?resp
        "[Issue (filled 9) 100 60]"] n by simp
qed

end
