(* ===== verification/Operator_Revocations.thy ===== *)
theory Operator_Revocations
  imports Rust_Strings "HOL-Library.Sublist"
begin

text \<open>
  Live operator revocation, \<open>apps/xenia-peer/src/operator_revocations.rs\<close>: a set of operator ids shared
  by every channel, reloadable from a file. Reading a file is an argument that returns its text or an
  error; \<open>revocations_poisoned\<close> is the state of the lock after a panic in a writer.
\<close>

datatype io_error = NotFound | OtherIo string

type_synonym read_to_string = "string \<Rightarrow> (string, io_error) result"

record OperatorRevocations =
  revoked :: "string set"
  revocations_poisoned :: bool
  revocations_path :: "string option"

definition OperatorRevocations_empty :: OperatorRevocations where
  "OperatorRevocations_empty = \<lparr>revoked = {}, revocations_poisoned = False, revocations_path = None\<rparr>"

definition parse_revocations :: "string \<Rightarrow> string set" where
  "parse_revocations text = set (filter (\<lambda>l. l \<noteq> [] \<and> \<not> prefix ''#'' l) (map trim (str_lines text)))"

definition read_revocations :: "read_to_string \<Rightarrow> string \<Rightarrow> (string set, io_error) result" where
  "read_revocations read path = (case read path of
     Ok t \<Rightarrow> Ok (parse_revocations t)
   | Err NotFound \<Rightarrow> Ok {}
   | Err e \<Rightarrow> Err e)"

definition OperatorRevocations_from_file ::
    "read_to_string \<Rightarrow> string \<Rightarrow> (OperatorRevocations, io_error) result" where
  "OperatorRevocations_from_file read path = and_then (read_revocations read path) (\<lambda>set.
     Ok \<lparr>revoked = set, revocations_poisoned = False, revocations_path = Some path\<rparr>)"

definition OperatorRevocations_is_revoked :: "string \<Rightarrow> OperatorRevocations \<Rightarrow> bool" where
  "OperatorRevocations_is_revoked oid rv \<longleftrightarrow>
     (if revocations_poisoned rv then True else oid \<in> revoked rv)"

definition OperatorRevocations_revoke :: "string \<Rightarrow> OperatorRevocations \<Rightarrow> OperatorRevocations" where
  "OperatorRevocations_revoke oid rv =
     (if revocations_poisoned rv then rv else rv\<lparr>revoked := insert oid (revoked rv)\<rparr>)"

definition OperatorRevocations_len :: "OperatorRevocations \<Rightarrow> nat" where
  "OperatorRevocations_len rv = (if revocations_poisoned rv then 0 else card (revoked rv))"

definition OperatorRevocations_reload ::
    "read_to_string \<Rightarrow> OperatorRevocations \<Rightarrow> OperatorRevocations \<times> (nat, io_error) result" where
  "OperatorRevocations_reload read rv = (case revocations_path rv of
     None \<Rightarrow> (rv, Ok (OperatorRevocations_len rv))
   | Some path \<Rightarrow> (case read path of
       Err e \<Rightarrow> (rv, Err e)
     | Ok t \<Rightarrow>
         (let fresh = parse_revocations t in
          (if revocations_poisoned rv then rv else rv\<lparr>revoked := fresh\<rparr>, Ok (card fresh)))))"

section \<open>Behaviour\<close>

lemma is_revoked_revoke [simp]:
  "OperatorRevocations_is_revoked oid (OperatorRevocations_revoke oid' rv) \<longleftrightarrow>
     oid = oid' \<or> OperatorRevocations_is_revoked oid rv"
  by (auto simp: OperatorRevocations_is_revoked_def OperatorRevocations_revoke_def)

text \<open>An operator that stays revoked across a reload is in the file, or the file could not be read.\<close>

lemma is_revoked_reload:
  "OperatorRevocations_is_revoked oid (fst (OperatorRevocations_reload read rv)) \<longleftrightarrow>
     (case revocations_path rv of
        Some path \<Rightarrow> (case read path of
          Ok t \<Rightarrow> revocations_poisoned rv \<or> oid \<in> parse_revocations t
        | Err _ \<Rightarrow> OperatorRevocations_is_revoked oid rv)
      | None \<Rightarrow> OperatorRevocations_is_revoked oid rv)"
  by (auto simp: OperatorRevocations_is_revoked_def OperatorRevocations_reload_def Let_def
      split: option.splits result.splits)

text \<open>A file with one plain id on each line is read back as that set.\<close>

lemma lines_of_plain:
  assumes "\<forall>l \<in> set ls. \<forall>ch \<in> set l. plain_char ch"
  shows "str_lines (concat (map (\<lambda>l. l @ [CHR 0x0A]) ls)) = ls"
  using assms
proof (induction ls)
  case (Cons l ls)
  have "CHR 0x0A \<notin> set l" "strip_cr l = l"
    using Cons.prems by (auto simp: plain_char_def strip_cr_def dest!: last_in_set)
  then show ?case using Cons by (simp add: str_lines_def lines_with_plain)
qed (simp add: str_lines_def)

lemma parse_revocations_plain:
  assumes "\<forall>l \<in> set ls. l \<noteq> [] \<and> hd l \<noteq> CHR ''#'' \<and> (\<forall>ch \<in> set l. plain_char ch)"
  shows "parse_revocations (concat (map (\<lambda>l. l @ [CHR 0x0A]) ls)) = set ls"
proof -
  have "map trim ls = ls" using assms by (simp add: map_idI)
  moreover have "filter (\<lambda>l. l \<noteq> [] \<and> \<not> prefix ''#'' l) ls = ls"
    using assms by (intro filter_True) (auto simp: prefix_def)
  ultimately show ?thesis
    using lines_of_plain [of ls] assms by (simp add: parse_revocations_def)
qed

end
