(* ===== verification/Operator_Http.thy ===== *)
theory Operator_Http
  imports Operator_Auth Operator_Revocations Ledger_Chain
begin

text \<open>
  The HTTP surface of operator authentication, \<open>apps/xenia-peer/src/operator_http.rs\<close>: the state behind
  the routes, the wire forms and their parsers, and the handlers. A handler is one step of the daemon:
  it takes the parts of the state it locks, the times it reads and the random values it draws, and
  returns the parts it changes with its response. \<open>serde_json\<close> is the record of parsers \<open>dto_json\<close>.
\<close>

section \<open>State\<close>

record DaemonIdentityCertificate =
  host_ed25519_pubkey :: string
  host_ml_dsa_pubkey :: string
  http_auth_ed25519_pubkey :: string
  http_auth_ml_dsa_pubkey :: string
  host_ed_signature :: string
  host_ml_dsa_signature :: string

record ('sk, 'ml, 'dk) OperatorAuthState =
  auth_policy :: OperatorPolicy
  auth_challenges :: ChallengeStore
  daemon_key :: 'sk
  daemon_ml_dsa :: 'ml
  auth_rate_limiter :: RateLimiter
  host_identity :: "('sk, 'ml, 'dk) HandshakeManager"
  daemon_certificate :: DaemonIdentityCertificate

definition OperatorAuthState_new ::
    "('sk, 'vk, 'ml) crypto \<Rightarrow> codec \<Rightarrow> OperatorPolicy \<Rightarrow> 'sk \<Rightarrow> 'ml \<Rightarrow> ('sk, 'ml, 'dk) HandshakeManager \<Rightarrow>
     u32 \<Rightarrow> u64 \<Rightarrow> ('sk, 'ml, 'dk) OperatorAuthState" where
  "OperatorAuthState_new c cd pol dk dml host rate_max rate_window =
     (let http_ed = ed_key_to_bytes c (ed_verifying_key c dk);
          http_ml = MlDsaIdentity_public_key_bytes c dml;
          transcript = daemon_delegation_transcript http_ed (slice http_ml);
          cert = \<lparr>host_ed25519_pubkey = hex_encode cd (slice (HandshakeManager_identity_public_key_bytes c host)),
            host_ml_dsa_pubkey = hex_encode cd (slice (HandshakeManager_ml_dsa_public_key_bytes c host)),
            http_auth_ed25519_pubkey = hex_encode cd (slice http_ed),
            http_auth_ml_dsa_pubkey = hex_encode cd (slice http_ml),
            host_ed_signature = hex_encode cd (slice (HandshakeManager_sign c host transcript)),
            host_ml_dsa_signature = hex_encode cd (slice (HandshakeManager_sign_ml_dsa c host transcript))\<rparr>
      in \<lparr>auth_policy = pol, auth_challenges = Map.empty, daemon_key = dk, daemon_ml_dsa = dml,
          auth_rate_limiter = RateLimiter_new rate_max rate_window, host_identity = host,
          daemon_certificate = cert\<rparr>)"

section \<open>Wire forms\<close>

datatype StatusCode = BAD_REQUEST | UNAUTHORIZED | FORBIDDEN | TOO_MANY_REQUESTS | NO_CONTENT

type_synonym http_error = "StatusCode \<times> string"

record ChallengeResponseDto =
  dto_nonce :: string
  dto_expires_at :: u64
  host_ed_attestation_hex :: string
  host_ml_dsa_attestation_hex :: string

record VerifyRequestDto =
  req_nonce :: string
  req_ed_pubkey :: string
  req_ml_dsa_pubkey :: string
  req_ed_signature :: string
  req_ml_dsa_signature :: string

record TokenDto =
  dto_operator_id :: string
  dto_role :: OperatorRole
  dto_issued_at :: u64
  dto_token_expires_at :: u64
  dto_token_nonce :: string
  dto_signature :: string
  dto_ml_dsa_signature :: string

definition TokenDto_from_signed :: "codec \<Rightarrow> SignedOperatorToken \<Rightarrow> TokenDto" where
  "TokenDto_from_signed cd st = \<lparr>dto_operator_id = token_operator_id (token st),
     dto_role = token_role (token st), dto_issued_at = issued_at (token st),
     dto_token_expires_at = expires_at (token st),
     dto_token_nonce = hex_encode cd (slice (token_nonce (token st))),
     dto_signature = hex_encode cd (slice (token_signature st)),
     dto_ml_dsa_signature = hex_encode cd (slice (token_ml_dsa_signature st))\<rparr>"

definition decode_fixed :: "codec \<Rightarrow> string \<Rightarrow> ('n::len byte_array, http_error) result" where
  "decode_fixed cd s =
     ok_or (decode_fixed_hex cd s) (BAD_REQUEST, ''expected '' @ decimal LENGTH('n) @ '' hex bytes'')"

definition TokenDto_into_signed :: "codec \<Rightarrow> TokenDto \<Rightarrow> (SignedOperatorToken, string) result" where
  "TokenDto_into_signed cd dto =
     and_then (map_err snd (decode_fixed cd (dto_token_nonce dto))) (\<lambda>tn.
     and_then (map_err snd (decode_fixed cd (dto_signature dto))) (\<lambda>sig.
     and_then (map_err snd (decode_fixed cd (dto_ml_dsa_signature dto))) (\<lambda>ml_sig.
     Ok \<lparr>token = \<lparr>token_operator_id = dto_operator_id dto, token_role = dto_role dto,
           issued_at = dto_issued_at dto, expires_at = dto_token_expires_at dto, token_nonce = tn\<rparr>,
         token_signature = sig, token_ml_dsa_signature = ml_sig\<rparr>)))"

record AuthenticatedConsentActionDto =
  cad_token :: TokenDto
  cad_action :: string
  cad_action_signature :: string
  cad_ml_dsa_action_signature :: string

record AuthenticatedRevocationDto =
  rvd_token :: TokenDto
  rvd_target_operator_id :: string
  rvd_action_signature :: string
  rvd_ml_dsa_action_signature :: string

record AuthenticatedKeyReplacementDto =
  krd_token :: TokenDto
  krd_target_operator_id :: string
  krd_new_ed25519_pubkey :: string
  krd_new_ml_dsa_pubkey :: string
  krd_new_ml_dsa_87_pubkey :: "string option"
  krd_action_signature :: string
  krd_ml_dsa_action_signature :: string

text \<open>
  \<open>serde_json::from_str\<close> at the four types, with the message of its error; and how \<open>{:?}\<close> prints a
  string, whose escapes follow the Unicode tables of the standard library.
\<close>

record dto_json =
  consent_action_from_json :: "string \<Rightarrow> (AuthenticatedConsentActionDto, string) result"
  revocation_from_json :: "string \<Rightarrow> (AuthenticatedRevocationDto, string) result"
  key_replacement_from_json :: "string \<Rightarrow> (AuthenticatedKeyReplacementDto, string) result"
  token_from_json :: "string \<Rightarrow> (TokenDto, string) result"
  debug_str :: "string \<Rightarrow> string"

definition parse_authenticated_consent_action ::
    "codec \<Rightarrow> dto_json \<Rightarrow> string \<Rightarrow> (AuthenticatedConsentAction, string) result" where
  "parse_authenticated_consent_action cd js json =
     and_then (consent_action_from_json js json) (\<lambda>dto.
     and_then (if cad_action dto = ''Approve'' then Ok Approve
               else if cad_action dto = ''Deny'' then Ok Deny
               else if cad_action dto = ''Revoke'' then Ok Revoke
               else Err (''unknown consent action: '' @ debug_str js (cad_action dto))) (\<lambda>action.
     and_then (map_err snd (decode_fixed cd (cad_action_signature dto))) (\<lambda>sig.
     and_then (map_err snd (decode_fixed cd (cad_ml_dsa_action_signature dto))) (\<lambda>ml_sig.
     and_then (TokenDto_into_signed cd (cad_token dto)) (\<lambda>t.
     Ok \<lparr>ca_token = t, ca_action = action, ca_action_signature = sig,
       ca_ml_dsa_action_signature = ml_sig\<rparr>)))))"

definition parse_authenticated_revocation ::
    "codec \<Rightarrow> dto_json \<Rightarrow> string \<Rightarrow> (AuthenticatedRevocation, string) result" where
  "parse_authenticated_revocation cd js json =
     and_then (revocation_from_json js json) (\<lambda>dto.
     and_then (map_err snd (decode_fixed cd (rvd_action_signature dto))) (\<lambda>sig.
     and_then (map_err snd (decode_fixed cd (rvd_ml_dsa_action_signature dto))) (\<lambda>ml_sig.
     and_then (TokenDto_into_signed cd (rvd_token dto)) (\<lambda>t.
     Ok \<lparr>rv_token = t, rv_target_operator_id = rvd_target_operator_id dto, rv_action_signature = sig,
       rv_ml_dsa_action_signature = ml_sig\<rparr>))))"

definition parse_authenticated_key_replacement ::
    "codec \<Rightarrow> dto_json \<Rightarrow> string \<Rightarrow> (AuthenticatedKeyReplacement, string) result" where
  "parse_authenticated_key_replacement cd js json =
     and_then (key_replacement_from_json js json) (\<lambda>dto.
     and_then (map_err snd (decode_fixed cd (krd_new_ed25519_pubkey dto))) (\<lambda>ed.
     and_then (map_err snd (decode_fixed cd (krd_new_ml_dsa_pubkey dto))) (\<lambda>ml :: ml_dsa_pk.
     and_then (case krd_new_ml_dsa_87_pubkey dto of
         None \<Rightarrow> Ok None
       | Some h \<Rightarrow> map_ok Some (ok_or (decode_sized_hex cd (ml_dsa_87_pk_len cd) h)
           (''expected '' @ decimal (ml_dsa_87_pk_len cd) @ '' hex bytes''))) (\<lambda>ml_87.
     and_then (map_err snd (decode_fixed cd (krd_action_signature dto))) (\<lambda>sig.
     and_then (map_err snd (decode_fixed cd (krd_ml_dsa_action_signature dto))) (\<lambda>ml_sig.
     and_then (TokenDto_into_signed cd (krd_token dto)) (\<lambda>t.
     Ok \<lparr>kr_token = t, kr_target_operator_id = krd_target_operator_id dto, kr_new_ed25519_pubkey = ed,
       kr_new_ml_dsa_pubkey = slice ml, kr_new_ml_dsa_87_pubkey = ml_87, kr_action_signature = sig,
       kr_ml_dsa_action_signature = ml_sig\<rparr>)))))))"

section \<open>Handlers\<close>

text \<open>\<open>POST /auth/challenge\<close>, with the nonce it draws.\<close>

definition challenge_handler ::
    "('sk, 'vk, 'ml) crypto \<Rightarrow> codec \<Rightarrow> u64 \<Rightarrow> u8_32 \<Rightarrow> ('sk, 'ml, 'dk) OperatorAuthState \<Rightarrow>
     ('sk, 'ml, 'dk) OperatorAuthState \<times> ChallengeResponseDto" where
  "challenge_handler c cd now n auth =
     (let st = ChallengeStore_issue n now CHALLENGE_TTL_SECS (ChallengeStore_gc now (auth_challenges auth));
          transcript = challenge_host_attestation_transcript n
      in (auth\<lparr>auth_challenges := st\<rparr>,
          \<lparr>dto_nonce = hex_encode cd (slice n), dto_expires_at = now + CHALLENGE_TTL_SECS,
            host_ed_attestation_hex = hex_encode cd (slice (HandshakeManager_sign c (host_identity auth) transcript)),
            host_ml_dsa_attestation_hex =
              hex_encode cd (slice (HandshakeManager_sign_ml_dsa c (host_identity auth) transcript))\<rparr>))"

definition daemon_identity_handler :: "('sk, 'ml, 'dk) OperatorAuthState \<Rightarrow> DaemonIdentityCertificate" where
  "daemon_identity_handler auth = daemon_certificate auth"

definition decode_verify_request ::
    "codec \<Rightarrow> VerifyRequestDto \<Rightarrow> (ChallengeResponse, http_error) result" where
  "decode_verify_request cd req =
     and_then (decode_fixed cd (req_nonce req)) (\<lambda>n.
     and_then (decode_fixed cd (req_ed_pubkey req)) (\<lambda>ed.
     and_then (decode_fixed cd (req_ed_signature req)) (\<lambda>ed_sig.
     and_then (decode_fixed cd (req_ml_dsa_signature req)) (\<lambda>ml_sig.
     and_then (ok_or (decode_sized_hex cd ML_DSA_65_PK_LEN (req_ml_dsa_pubkey req))
         (BAD_REQUEST, ''ml_dsa_pubkey must be '' @ decimal ML_DSA_65_PK_LEN @ '' hex bytes'')) (\<lambda>ml_pk.
     Ok \<lparr>nonce = n, ed_pubkey = ed, response_ml_dsa_pubkey = ml_pk, ed_signature = ed_sig,
       response_ml_dsa_signature = ml_sig\<rparr>)))))"

text \<open>
  \<open>POST /auth/verify\<close>: the time of the rate limit, the time of the verification and the token nonce
  are arguments.
\<close>

definition verify_handler ::
    "('sk, 'vk, 'ml) crypto \<Rightarrow> codec \<Rightarrow> u64 \<Rightarrow> u64 \<Rightarrow> u8_16 \<Rightarrow> OperatorRevocations \<Rightarrow> VerifyRequestDto \<Rightarrow>
     ('sk, 'ml, 'dk) OperatorAuthState \<Rightarrow>
     ('sk, 'ml, 'dk) OperatorAuthState \<times> (TokenDto, http_error) result" where
  "verify_handler c cd rate_now now tn rv req auth =
     (let (rl, allowed) = RateLimiter_allow rate_now (auth_rate_limiter auth);
          auth1 = auth\<lparr>auth_rate_limiter := rl\<rparr>
      in if \<not> allowed
         then (auth1, Err (TOO_MANY_REQUESTS, ''too many authentication attempts; slow down''))
         else case decode_verify_request cd req of
           Err e \<Rightarrow> (auth1, Err e)
         | Ok resp \<Rightarrow>
             (let (st, authed) = verify_challenge_response c (auth_policy auth1) now resp (auth_challenges auth1);
                  auth2 = auth1\<lparr>auth_challenges := st\<rparr>
              in case authed of
                Err e \<Rightarrow> (auth2, Err (UNAUTHORIZED, AuthError_to_string e))
              | Ok a \<Rightarrow>
                  if OperatorRevocations_is_revoked (authed_operator_id a) rv
                  then (auth2, Err (UNAUTHORIZED, ''operator is revoked''))
                  else (auth2, Ok (TokenDto_from_signed cd (issue_token c (daemon_key auth)
                    (daemon_ml_dsa auth) a now TOKEN_TTL_SECS tn)))))"

text \<open>\<open>POST /operator/revoke\<close>\<close>

definition revoke_operator_handler ::
    "('sk, 'vk, 'ml) crypto \<Rightarrow> codec \<Rightarrow> dto_json \<Rightarrow> iteration \<Rightarrow> u64 \<Rightarrow> string \<Rightarrow>
     ('sk, 'ml, 'dk) OperatorAuthState \<Rightarrow> OperatorRevocations \<Rightarrow>
     OperatorRevocations \<times> (StatusCode, http_error) result" where
  "revoke_operator_handler c cd js it now body auth rv =
     (case parse_authenticated_revocation cd js body of
        Err e \<Rightarrow> (rv, Err (BAD_REQUEST, ''malformed revocation request: '' @ e))
      | Ok req \<Rightarrow>
          (case authorize_operator_revocation c it (auth_policy auth) (ed_verifying_key c (daemon_key auth))
              (MlDsaIdentity_public_key_bytes c (daemon_ml_dsa auth)) now req of
             Err e \<Rightarrow> (rv, Err (FORBIDDEN, ''revocation refused''))
           | Ok a \<Rightarrow>
               if OperatorRevocations_is_revoked (revoking_operator_id a) rv
               then (rv, Err (FORBIDDEN, ''revocation refused''))
               else (OperatorRevocations_revoke (revoked_target_operator_id a) rv, Ok NO_CONTENT)))"

text \<open>
  \<open>POST /operator/replace-key\<close>. A failure to persist is only logged: the live policy is replaced.
\<close>

definition replace_operator_key_handler ::
    "('sk, 'vk, 'ml) crypto \<Rightarrow> codec \<Rightarrow> dto_json \<Rightarrow> iteration \<Rightarrow> io_outcome \<Rightarrow> string \<Rightarrow> string option \<Rightarrow> u64 \<Rightarrow>
     string \<Rightarrow> OperatorRevocations \<Rightarrow> ('sk, 'ml, 'dk) OperatorAuthState \<Rightarrow> files \<Rightarrow>
     ('sk, 'ml, 'dk) OperatorAuthState \<times> files \<times> (StatusCode, http_error) result" where
  "replace_operator_key_handler c cd js it io temp operators_file now body rv auth fs =
     (let refused = Err (FORBIDDEN, ''key replacement refused'') in
      case parse_authenticated_key_replacement cd js body of
        Err e \<Rightarrow> (auth, fs, Err (BAD_REQUEST, ''malformed key-replacement request: '' @ e))
      | Ok req \<Rightarrow>
          (case authorize_operator_key_replacement c it (auth_policy auth)
              (ed_verifying_key c (daemon_key auth))
              (MlDsaIdentity_public_key_bytes c (daemon_ml_dsa auth)) now req of
             Err e \<Rightarrow> (auth, fs, refused)
           | Ok a \<Rightarrow>
               if OperatorRevocations_is_revoked (replacing_operator_id a) rv then (auth, fs, refused)
               else
                 (case OperatorPolicy_replace_operator_key it (replaced_target_operator_id a)
                     (replaced_new_ed25519_pubkey a) (replaced_new_ml_dsa_pubkey a)
                     (replaced_new_ml_dsa_87_pubkey a) (auth_policy auth) of
                    (pol, Err e) \<Rightarrow> (auth\<lparr>auth_policy := pol\<rparr>, fs, refused)
                  | (pol, Ok _) \<Rightarrow>
                      (auth\<lparr>auth_policy := pol\<rparr>,
                       (case operators_file of
                          None \<Rightarrow> fs
                        | Some path \<Rightarrow> fst (OperatorPolicy_persist_to cd it io temp path pol fs)),
                       Ok NO_CONTENT))))"

definition audit_checkpoint_handler :: "('sk, 'vk, 'ml) crypto \<Rightarrow> u64 \<Rightarrow> 'sk Chain \<Rightarrow> LedgerCheckpoint" where
  "audit_checkpoint_handler c now ledger = Chain_sign_checkpoint c now ledger"

record AuditLedgerExportDto =
  export_entries :: "LedgerEntry list"
  export_checkpoint :: LedgerCheckpoint

text \<open>
  \<open>GET /v1/audit/ledger\<close>: the value of the \<open>X-Operator-Token\<close> header, \<open>None\<close> when it is missing or not
  text, the time of the authorization and the time of the checkpoint.
\<close>

definition audit_ledger_handler ::
    "('sk, 'vk, 'ml) crypto \<Rightarrow> codec \<Rightarrow> dto_json \<Rightarrow> iteration \<Rightarrow> u64 \<Rightarrow> u64 \<Rightarrow> string option \<Rightarrow>
     ('sk, 'ml, 'dk) OperatorAuthState \<Rightarrow> OperatorRevocations \<Rightarrow> 'sk Chain \<Rightarrow>
     (AuditLedgerExportDto, http_error) result" where
  "audit_ledger_handler c cd js it now checkpoint_now header auth rv ledger =
     and_then (ok_or header (UNAUTHORIZED, ''missing X-Operator-Token header'')) (\<lambda>token_header.
     and_then (map_err (\<lambda>e. (BAD_REQUEST, ''malformed X-Operator-Token: '' @ e))
       (token_from_json js token_header)) (\<lambda>dto.
     and_then (map_err (Pair BAD_REQUEST) (TokenDto_into_signed cd dto)) (\<lambda>st.
     and_then (map_err (\<lambda>_. (FORBIDDEN, ''ledger read refused''))
       (authorize_ledger_read c it (auth_policy auth) (ed_verifying_key c (daemon_key auth))
          (MlDsaIdentity_public_key_bytes c (daemon_ml_dsa auth)) now st)) (\<lambda>t.
     if OperatorRevocations_is_revoked (token_operator_id t) rv
     then Err (FORBIDDEN, ''ledger read refused'')
     else Ok \<lparr>export_entries = entries ledger,
       export_checkpoint = Chain_sign_checkpoint c checkpoint_now ledger\<rparr>))))"

record HealthResponse =
  health_status :: string
  uptime_secs :: u64
  ledger_entry_count :: u64

definition health_handler :: "u64 \<Rightarrow> 'sk Chain \<Rightarrow> HealthResponse" where
  "health_handler elapsed ledger =
     \<lparr>health_status = ''ok'', uptime_secs = elapsed, ledger_entry_count = of_nat (Chain_len ledger)\<rparr>"

text \<open>
  The CORS layer around every route. A response is its headers and its body; \<open>valid\<close> is
  \<open>HeaderValue::from_str\<close> succeeding, and a preflight request is answered without running the route.
\<close>

type_synonym 'b http_response = "(string \<rightharpoonup> string) \<times> 'b option"

definition with_cors_headers ::
    "(string \<Rightarrow> bool) \<Rightarrow> string option \<Rightarrow> 'b http_response \<Rightarrow> 'b http_response" where
  "with_cors_headers valid origin resp = (case origin of
     None \<Rightarrow> resp
   | Some o1 \<Rightarrow>
       ((if valid o1 then (fst resp)(''access-control-allow-origin'' \<mapsto> o1) else fst resp)
          (''access-control-allow-headers'' \<mapsto> ''x-operator-token, content-type'',
           ''access-control-allow-methods'' \<mapsto> ''GET, POST, OPTIONS''), snd resp))"

definition cors_middleware ::
    "(string \<Rightarrow> bool) \<Rightarrow> string list \<Rightarrow> string \<Rightarrow> string option \<Rightarrow> ('s \<Rightarrow> 's \<times> 'b http_response) \<Rightarrow> 's \<Rightarrow>
     's \<times> 'b http_response" where
  "cors_middleware valid allowed_origins meth origin_header run st =
     (let origin = (case origin_header of
            Some o1 \<Rightarrow> if o1 \<in> set allowed_origins then Some o1 else None | None \<Rightarrow> None)
      in if meth = ''OPTIONS'' then (st, with_cors_headers valid origin (Map.empty, None))
         else apsnd (with_cors_headers valid origin) (run st))"

section \<open>Wire forms are lossless\<close>

lemma decode_fixed_hex_encode [simp]:
  assumes "codec_lawful cd"
  shows "decode_fixed_hex cd (hex_encode cd (slice a)) = Some a"
  using assms by (simp add: codec_lawful_def decode_fixed_hex_def)

lemma decode_fixed_encode [simp]:
  assumes "codec_lawful cd"
  shows "decode_fixed cd (hex_encode cd (slice a)) = Ok a"
  using assms by (simp add: decode_fixed_def)

lemma token_dto_roundtrip:
  assumes "codec_lawful cd"
  shows "TokenDto_into_signed cd (TokenDto_from_signed cd st) = Ok st"
  using assms by (simp add: TokenDto_into_signed_def TokenDto_from_signed_def)

section \<open>What each handler needs to act\<close>

text \<open>The daemon's public keys, under which its tokens verify.\<close>

abbreviation daemon_vk :: "('sk, 'vk, 'ml) crypto \<Rightarrow> ('sk, 'ml, 'dk) OperatorAuthState \<Rightarrow> 'vk" where
  "daemon_vk c auth \<equiv> ed_verifying_key c (daemon_key auth)"

abbreviation daemon_ml_vk :: "('sk, 'vk, 'ml) crypto \<Rightarrow> ('sk, 'ml, 'dk) OperatorAuthState \<Rightarrow> ml_dsa_pk" where
  "daemon_ml_vk c auth \<equiv> MlDsaIdentity_public_key_bytes c (daemon_ml_dsa auth)"

lemma authorize_revocation_eq_Ok:
  "authorize_operator_revocation c it pol vk ml_vk now req = Ok a \<longleftrightarrow>
     (\<exists>t op. verify_token c vk ml_vk now (rv_token req) = Ok t \<and> role_permits (token_role t) EnrollOperator \<and>
        OperatorPolicy_lookup_by_id it pol (token_operator_id t) = Some op \<and>
        both_accept c (EnrolledOperator.ed25519_pubkey op) (EnrolledOperator.ml_dsa_pubkey op)
          (revoke_operator_transcript (rv_target_operator_id req) (token_nonce t))
          (rv_action_signature req) (rv_ml_dsa_action_signature req) \<and>
        a = \<lparr>revoked_target_operator_id = rv_target_operator_id req, revoking_operator_id = token_operator_id t,
          revoking_ed25519_pubkey = EnrolledOperator.ed25519_pubkey op\<rparr>)"
  by (auto simp: authorize_operator_revocation_def verify_both_eq_Ok)

lemma authorize_key_replacement_eq_Ok:
  "authorize_operator_key_replacement c it pol vk ml_vk now req = Ok a \<longleftrightarrow>
     (\<exists>t op. verify_token c vk ml_vk now (kr_token req) = Ok t \<and> role_permits (token_role t) EnrollOperator \<and>
        OperatorPolicy_lookup_by_id it pol (token_operator_id t) = Some op \<and>
        both_accept c (EnrolledOperator.ed25519_pubkey op) (EnrolledOperator.ml_dsa_pubkey op)
          (replace_operator_key_transcript (kr_target_operator_id req) (slice (kr_new_ed25519_pubkey req))
            (kr_new_ml_dsa_pubkey req) (kr_new_ml_dsa_87_pubkey req) (token_nonce t))
          (kr_action_signature req) (kr_ml_dsa_action_signature req) \<and>
        a = \<lparr>replaced_target_operator_id = kr_target_operator_id req,
          replaced_new_ed25519_pubkey = kr_new_ed25519_pubkey req,
          replaced_new_ml_dsa_pubkey = kr_new_ml_dsa_pubkey req,
          replaced_new_ml_dsa_87_pubkey = kr_new_ml_dsa_87_pubkey req,
          replacing_operator_id = token_operator_id t\<rparr>)"
  by (auto simp: authorize_operator_key_replacement_def verify_both_eq_Ok)

lemma authorize_ledger_read_eq_Ok:
  "authorize_ledger_read c it pol vk ml_vk now st = Ok t \<longleftrightarrow>
     verify_token c vk ml_vk now st = Ok t \<and> role_permits (token_role t) ReadAudit \<and>
     OperatorPolicy_lookup_by_id it pol (token_operator_id t) \<noteq> None"
  by (auto simp: authorize_ledger_read_def)

end
