(* ===== verification/Operator_Daemon.thy ===== *)
theory Operator_Daemon
  imports Operator_Http
begin

text \<open>
  The daemon behind the routes of \<open>apps/xenia-peer/src/operator_http.rs\<close> as a labelled transition
  system: one step per request, with every outcome, and one for the \<open>SIGHUP\<close> reload of the revocation
  list. The label says who acted on whose behalf; the tokens issued so far are kept beside the state.
\<close>

record ('sk, 'vk, 'ml) daemon_env =
  d_crypto :: "('sk, 'vk, 'ml) crypto"
  d_codec :: codec
  d_json :: dto_json
  d_iteration :: iteration
  d_operators_file :: "string option"

record ('sk, 'ml, 'dk) daemon =
  d_auth :: "('sk, 'ml, 'dk) OperatorAuthState"
  d_revocations :: OperatorRevocations
  d_ledger :: "'sk Chain"
  d_files :: files

datatype act =
  Login OperatorToken
| Revokes u64 AuthenticatedRevocation
| Replaces u64 AuthenticatedKeyReplacement
| Reads u64 OperatorToken AuditLedgerExportDto
| Reload
| Silent

fun actor :: "act \<Rightarrow> string option" where
  "actor (Login t) = Some (token_operator_id t)"
| "actor (Revokes now req) = Some (token_operator_id (token (rv_token req)))"
| "actor (Replaces now req) = Some (token_operator_id (token (kr_token req)))"
| "actor (Reads now t x) = Some (token_operator_id t)"
| "actor Reload = None"
| "actor Silent = None"

text \<open>The strings of a request are values in memory.\<close>

definition string_fits :: "string \<Rightarrow> bool" where
  "string_fits s \<longleftrightarrow> length s < 2 ^ 64"

type_synonym ('sk, 'ml, 'dk) daemon_state = "('sk, 'ml, 'dk) daemon \<times> OperatorToken list"

inductive daemon_step ::
    "('sk, 'vk, 'ml) daemon_env \<Rightarrow> ('sk, 'ml, 'dk) daemon_state \<Rightarrow> act \<Rightarrow> ('sk, 'ml, 'dk) daemon_state \<Rightarrow> bool"
  for env where
  challenge: "challenge_handler (d_crypto env) (d_codec env) now n (d_auth d) = (auth', dto) \<Longrightarrow>
    daemon_step env (d, ts) Silent (d\<lparr>d_auth := auth'\<rparr>, ts)"
| login: "verify_handler (d_crypto env) (d_codec env) rate_now now tn (d_revocations d) req (d_auth d) =
      (auth', Ok dto) \<Longrightarrow>
    TokenDto_into_signed (d_codec env) dto = Ok st \<Longrightarrow> string_fits (token_operator_id (token st)) \<Longrightarrow>
    daemon_step env (d, ts) (Login (token st)) (d\<lparr>d_auth := auth'\<rparr>, token st # ts)"
| login_refused: "verify_handler (d_crypto env) (d_codec env) rate_now now tn (d_revocations d) req (d_auth d) =
      (auth', Err e) \<Longrightarrow>
    daemon_step env (d, ts) Silent (d\<lparr>d_auth := auth'\<rparr>, ts)"
| revoke: "revoke_operator_handler (d_crypto env) (d_codec env) (d_json env) (d_iteration env) now body
      (d_auth d) (d_revocations d) = (rv', Ok code) \<Longrightarrow>
    parse_authenticated_revocation (d_codec env) (d_json env) body = Ok rreq \<Longrightarrow>
    string_fits (token_operator_id (token (rv_token rreq))) \<Longrightarrow>
    daemon_step env (d, ts) (Revokes now rreq) (d\<lparr>d_revocations := rv'\<rparr>, ts)"
| revoke_refused: "revoke_operator_handler (d_crypto env) (d_codec env) (d_json env) (d_iteration env) now body
      (d_auth d) (d_revocations d) = (rv', Err e) \<Longrightarrow>
    daemon_step env (d, ts) Silent (d\<lparr>d_revocations := rv'\<rparr>, ts)"
| replace: "replace_operator_key_handler (d_crypto env) (d_codec env) (d_json env) (d_iteration env) io temp
      (d_operators_file env) now body (d_revocations d) (d_auth d) (d_files d) = (auth', fs', Ok code) \<Longrightarrow>
    parse_authenticated_key_replacement (d_codec env) (d_json env) body = Ok kreq \<Longrightarrow>
    string_fits (token_operator_id (token (kr_token kreq))) \<Longrightarrow>
    daemon_step env (d, ts) (Replaces now kreq) (d\<lparr>d_auth := auth', d_files := fs'\<rparr>, ts)"
| replace_refused: "replace_operator_key_handler (d_crypto env) (d_codec env) (d_json env) (d_iteration env) io
      temp (d_operators_file env) now body (d_revocations d) (d_auth d) (d_files d) = (auth', fs', Err e) \<Longrightarrow>
    daemon_step env (d, ts) Silent (d\<lparr>d_auth := auth', d_files := fs'\<rparr>, ts)"
| audit: "audit_ledger_handler (d_crypto env) (d_codec env) (d_json env) (d_iteration env) now ck_now
      (Some header) (d_auth d) (d_revocations d) (d_ledger d) = Ok export \<Longrightarrow>
    token_from_json (d_json env) header = Ok tdto \<Longrightarrow> TokenDto_into_signed (d_codec env) tdto = Ok st \<Longrightarrow>
    string_fits (token_operator_id (token st)) \<Longrightarrow>
    daemon_step env (d, ts) (Reads now (token st) export) (d, ts)"
| ledger: "chain_step (d_crypto env) (d_ledger d) ch' \<Longrightarrow> daemon_step env (d, ts) Silent (d\<lparr>d_ledger := ch'\<rparr>, ts)"
| reload: "OperatorRevocations_reload read (d_revocations d) = (rv', r) \<Longrightarrow>
    daemon_step env (d, ts) Reload (d\<lparr>d_revocations := rv'\<rparr>, ts)"

inductive daemon_run ::
    "('sk, 'vk, 'ml) daemon_env \<Rightarrow> ('sk, 'ml, 'dk) daemon_state \<Rightarrow> act list \<Rightarrow> ('sk, 'ml, 'dk) daemon_state \<Rightarrow> bool"
  for env where
  nil: "daemon_run env s [] s"
| snoc: "daemon_run env s ls s1 \<Longrightarrow> daemon_step env s1 l s2 \<Longrightarrow> daemon_run env s (ls @ [l]) s2"

section \<open>What a step changes\<close>

lemma revoke_handler_Ok:
  assumes "revoke_operator_handler c cd js it now body auth rv = (rv', Ok code)"
    and "parse_authenticated_revocation cd js body = Ok req"
  obtains a where "authorize_operator_revocation c it (auth_policy auth) (daemon_vk c auth)
      (daemon_ml_vk c auth) now req = Ok a" "\<not> OperatorRevocations_is_revoked (revoking_operator_id a) rv"
    "rv' = OperatorRevocations_revoke (revoked_target_operator_id a) rv"
  using assms by (auto simp: revoke_operator_handler_def split: result.splits if_splits)

lemma revoke_handler_Err:
  "revoke_operator_handler c cd js it now body auth rv = (rv', Err e) \<Longrightarrow> rv' = rv"
  by (auto simp: revoke_operator_handler_def split: result.splits if_splits)

lemma replace_handler_Ok:
  assumes "replace_operator_key_handler c cd js it io temp file now body rv auth fs = (auth', fs', Ok code)"
    and "parse_authenticated_key_replacement cd js body = Ok req"
  obtains a pol where "authorize_operator_key_replacement c it (auth_policy auth) (daemon_vk c auth)
      (daemon_ml_vk c auth) now req = Ok a" "\<not> OperatorRevocations_is_revoked (replacing_operator_id a) rv"
    "OperatorPolicy_replace_operator_key it (replaced_target_operator_id a) (replaced_new_ed25519_pubkey a)
      (replaced_new_ml_dsa_pubkey a) (replaced_new_ml_dsa_87_pubkey a) (auth_policy auth) = (pol, Ok ())"
    "auth' = auth\<lparr>auth_policy := pol\<rparr>"
  using assms
  by (auto simp: replace_operator_key_handler_def Let_def split: result.splits if_splits prod.splits)

lemma replace_operator_key_Err:
  "OperatorPolicy_replace_operator_key it oid ed ml ml_87 pol = (pol', Err e) \<Longrightarrow> pol' = pol"
  by (auto simp: OperatorPolicy_replace_operator_key_def Let_def split: if_splits option.splits)

lemma replace_handler_Err:
  assumes "replace_operator_key_handler c cd js it io temp file now body rv auth fs = (auth', fs', Err e)"
  shows "auth' = auth \<and> fs' = fs"
  using assms
  by (auto simp: replace_operator_key_handler_def Let_def dest: replace_operator_key_Err
      split: result.splits if_splits prod.splits)

lemma verify_handler_keeps:
  assumes "verify_handler c cd rate_now now tn rv req auth = (auth', r)"
  shows "auth_policy auth' = auth_policy auth \<and> daemon_key auth' = daemon_key auth \<and>
    daemon_ml_dsa auth' = daemon_ml_dsa auth"
  using assms by (auto simp: verify_handler_def Let_def split: result.splits if_splits prod.splits)

lemma verify_handler_Ok:
  assumes "verify_handler c cd rate_now now tn rv req auth = (auth', Ok dto)"
  obtains a where "dto = TokenDto_from_signed cd
      (issue_token c (daemon_key auth) (daemon_ml_dsa auth) a now TOKEN_TTL_SECS tn)"
    "\<not> OperatorRevocations_is_revoked (authed_operator_id a) rv"
  using assms by (auto simp: verify_handler_def Let_def split: result.splits if_splits prod.splits)

lemma audit_handler_Ok:
  assumes "audit_ledger_handler c cd js it now ck_now (Some header) auth rv ledger = Ok x"
    and "token_from_json js header = Ok dto" and "TokenDto_into_signed cd dto = Ok st"
  shows "authorize_ledger_read c it (auth_policy auth) (daemon_vk c auth) (daemon_ml_vk c auth) now st =
      Ok (token st)" "\<not> OperatorRevocations_is_revoked (token_operator_id (token st)) rv"
    "x = \<lparr>export_entries = Chain.entries ledger, export_checkpoint = Chain_sign_checkpoint c ck_now ledger\<rparr>"
  using assms
  by (auto simp: audit_ledger_handler_def authorize_ledger_read_eq_Ok verify_token_eq_Ok split: if_splits)

section \<open>A revoked operator is locked out\<close>

text \<open>A step acts only for operators that are not revoked, and only a reload can take a revocation back.\<close>

lemma step_revocations:
  assumes "daemon_step env (d, ts) l (d', ts')" and "codec_lawful (d_codec env)"
  shows "(\<forall>x. actor l = Some x \<longrightarrow> \<not> OperatorRevocations_is_revoked x (d_revocations d)) \<and>
    (\<forall>x. l \<noteq> Reload \<longrightarrow> OperatorRevocations_is_revoked x (d_revocations d) \<longrightarrow>
       OperatorRevocations_is_revoked x (d_revocations d'))"
  using assms(1)
proof (cases rule: daemon_step.cases)
  case (login rate_now now tn req auth' dto st)
  then show ?thesis
    using assms(2) by (auto elim!: verify_handler_Ok simp: token_dto_roundtrip issue_token_def Let_def)
next
  case (revoke now body rv' code rreq)
  then show ?thesis
    by (auto elim!: revoke_handler_Ok simp: authorize_revocation_eq_Ok verify_token_eq_Ok)
next
  case (replace io temp now body auth' fs' code kreq)
  then show ?thesis
    by (auto elim!: replace_handler_Ok simp: authorize_key_replacement_eq_Ok verify_token_eq_Ok)
next
  case (audit now ck_now header export tdto st)
  then show ?thesis using audit_handler_Ok(2) [OF audit(4-6)] by simp
qed (auto dest: revoke_handler_Err)

lemma run_revocations:
  assumes "daemon_run env s ls s'" and "codec_lawful (d_codec env)" and "Reload \<notin> set ls"
    and "OperatorRevocations_is_revoked x (d_revocations (fst s))"
  shows "(\<forall>l \<in> set ls. actor l \<noteq> Some x) \<and> OperatorRevocations_is_revoked x (d_revocations (fst s'))"
  using assms
proof (induction rule: daemon_run.induct)
  case (snoc s ls s1 l s2)
  then show ?case
    using step_revocations [of env "fst s1" "snd s1" l "fst s2" "snd s2"] by auto
qed simp

text \<open>
  C10. Revocation is a kill switch. Once an administrator's revocation of an operator has been carried out,
  then for every sequence of requests afterwards, in whatever order and with whatever contents, until the
  revocation list is reloaded from its file, no request acts on that operator's behalf: it is issued no
  token, revokes nobody, replaces no key and reads no ledger, although its enrollment and its tokens stay
  valid.
\<close>

theorem revocation_locks_out:
  assumes "codec_lawful (d_codec env)" and "daemon_step env s (Revokes now req) s1"
    and "daemon_run env s1 ls s2" and "Reload \<notin> set ls" and "l \<in> set ls"
  shows "actor l \<noteq> Some (rv_target_operator_id req)"
proof -
  obtain d ts d1 ts1 where s: "s = (d, ts)" "s1 = (d1, ts1)" by fastforce
  from assms(2) [unfolded s]
  have "OperatorRevocations_is_revoked (rv_target_operator_id req) (d_revocations d1)"
    by (cases rule: daemon_step.cases) (auto elim!: revoke_handler_Ok simp: authorize_revocation_eq_Ok)
  then show ?thesis
    using run_revocations [OF assms(3,1,4)] assms(5) s by auto
qed

section \<open>Privileged changes are traced to a login\<close>

text \<open>Both of the daemon's keys accept the signatures the presented token carries.\<close>

definition daemon_signed :: "('sk, 'vk, 'ml) crypto \<Rightarrow> ('sk, 'ml, 'dk) OperatorAuthState \<Rightarrow> SignedOperatorToken \<Rightarrow> bool" where
  "daemon_signed c auth st \<longleftrightarrow>
     ed_verify c (daemon_vk c auth) (OperatorToken_canonical_bytes (token st)) (token_signature st) \<and>
     ml_dsa_65_accepts c (daemon_ml_vk c auth) (OperatorToken_canonical_bytes (token st)) (token_ml_dsa_signature st)"

text \<open>The daemon's key also signs ledger entries and checkpoints, whose bytes are never a token's.\<close>

lemma ledger_signatures_are_not_tokens:
  "OperatorToken_canonical_bytes t \<noteq> slice (h :: u8_32)"
  "OperatorToken_canonical_bytes t \<noteq> checkpoint_message n hh pk at"
proof -
  have "length (OperatorToken_canonical_bytes t) > 32"
    by (simp add: OperatorToken_canonical_bytes_def operator_token_canonical_bytes_def domain_defs)
  moreover have "length (slice h) = 32" by simp
  ultimately show "OperatorToken_canonical_bytes t \<noteq> slice h" by force
  show "OperatorToken_canonical_bytes t \<noteq> checkpoint_message n hh pk at"
  proof
    assume eq: "OperatorToken_canonical_bytes t = checkpoint_message n hh pk at"
    have "OperatorToken_canonical_bytes t ! 5 \<noteq> checkpoint_message n hh pk at ! 5"
      by (simp add: OperatorToken_canonical_bytes_def operator_token_canonical_bytes_def domain_defs
          checkpoint_message_def as_bytes_def nth_append)
    with eq show False by simp
  qed
qed

text \<open>The invariant of a run: the daemon's keys stay, and tokens are short-lived.\<close>

definition run_ok :: "('sk, 'ml, 'dk) daemon \<Rightarrow> act list \<Rightarrow> ('sk, 'ml, 'dk) daemon_state \<Rightarrow> bool" where
  "run_ok d0 ls s \<longleftrightarrow> daemon_key (d_auth (fst s)) = daemon_key (d_auth d0) \<and>
     daemon_ml_dsa (d_auth (fst s)) = daemon_ml_dsa (d_auth d0) \<and>
     (\<forall>t \<in> set (snd s). Login t \<in> set ls \<and> string_fits (token_operator_id t) \<and>
        unat (expires_at t) \<le> unat (issued_at t) + unat TOKEN_TTL_SECS)"

lemma step_run_ok:
  assumes "daemon_step env (d, ts) l (d', ts')" and "codec_lawful (d_codec env)" and "run_ok d0 ls (d, ts)"
  shows "run_ok d0 (ls @ [l]) (d', ts')"
  using assms(1)
proof (cases rule: daemon_step.cases)
  case (challenge now n auth' dto)
  then show ?thesis using assms(3) by (auto simp: run_ok_def challenge_handler_def Let_def)
next
  case (login rate_now now tn req auth' dto st)
  from login(4) obtain a where
    "dto = TokenDto_from_signed (d_codec env) (issue_token (d_crypto env) (daemon_key (d_auth d))
      (daemon_ml_dsa (d_auth d)) a now TOKEN_TTL_SECS tn)" by (rule verify_handler_Ok)
  then have "unat (expires_at (token st)) \<le> unat (issued_at (token st)) + unat TOKEN_TTL_SECS"
    using login(5) assms(2)
    by (auto simp: token_dto_roundtrip issue_token_def Let_def unat_saturating_add)
  then show ?thesis
    using assms(3) login verify_handler_keeps [OF login(4)] by (auto simp: run_ok_def)
next
  case (login_refused rate_now now tn req auth' e)
  then show ?thesis using assms(3) verify_handler_keeps [OF login_refused(4)] by (auto simp: run_ok_def)
next
  case (replace io temp now body auth' fs' code kreq)
  then show ?thesis using assms(3) by (auto elim!: replace_handler_Ok simp: run_ok_def)
next
  case (replace_refused io temp now body auth' fs' e)
  then show ?thesis using assms(3) replace_handler_Err [OF replace_refused(4)] by (auto simp: run_ok_def)
qed (use assms(3) in \<open>auto simp: run_ok_def\<close>)

lemma daemon_run_ok:
  assumes "daemon_run env s ls s'" and "codec_lawful (d_codec env)" and "snd s = []"
  shows "run_ok (fst s) ls s'"
  using assms
proof (induction rule: daemon_run.induct)
  case (snoc s ls s1 l s2)
  then show ?case using step_run_ok [of env "fst s1" "snd s1" l "fst s2" "snd s2" "fst s" ls] by simp
qed (simp add: run_ok_def)

text \<open>
  The request at time \<open>now\<close> carries the token \<open>t\<close>, unexpired, of an administrator that is enrolled and not
  revoked, and both of the administrator's keys accept the request's signatures over \<open>m\<close>.
\<close>

definition admin_request ::
    "('sk, 'vk, 'ml) daemon_env \<Rightarrow> ('sk, 'ml, 'dk) daemon \<Rightarrow> u64 \<Rightarrow> OperatorToken \<Rightarrow> bytes \<Rightarrow> u8_64 \<Rightarrow> ml_dsa_sig \<Rightarrow> bool"
where
  "admin_request env d now t m sig ml_sig \<longleftrightarrow>
     token_role t = Admin \<and> now \<le> expires_at t \<and>
     \<not> OperatorRevocations_is_revoked (token_operator_id t) (d_revocations d) \<and>
     (\<exists>op. OperatorPolicy_lookup_by_id (d_iteration env) (auth_policy (d_auth d)) (token_operator_id t) = Some op \<and>
        both_accept (d_crypto env) (EnrolledOperator.ed25519_pubkey op) (EnrolledOperator.ml_dsa_pubkey op)
          m sig ml_sig)"

fun privileged_request :: "('sk, 'vk, 'ml) daemon_env \<Rightarrow> ('sk, 'ml, 'dk) daemon \<Rightarrow> act \<Rightarrow> SignedOperatorToken \<Rightarrow> bool" where
  "privileged_request env d (Revokes now req) st \<longleftrightarrow> st = rv_token req \<and>
     admin_request env d now (token st)
       (revoke_operator_transcript (rv_target_operator_id req) (token_nonce (token st)))
       (rv_action_signature req) (rv_ml_dsa_action_signature req)"
| "privileged_request env d (Replaces now req) st \<longleftrightarrow> st = kr_token req \<and>
     admin_request env d now (token st) (replace_operator_key_transcript (kr_target_operator_id req)
         (slice (kr_new_ed25519_pubkey req)) (kr_new_ml_dsa_pubkey req) (kr_new_ml_dsa_87_pubkey req)
         (token_nonce (token st)))
       (kr_action_signature req) (kr_ml_dsa_action_signature req)"
| "privileged_request env d _ st \<longleftrightarrow> False"

lemma role_permits_enroll: "role_permits r EnrollOperator \<longleftrightarrow> r = Admin"
  by (cases r) (simp_all add: role_permits_def OperatorRole_permits_def word_le_nat_alt)

text \<open>A step that changes the policy or the revocation list is a reload or a privileged request.\<close>

lemma change_is_privileged:
  assumes "daemon_step env (d, ts) l (d', ts')" and "l \<noteq> Reload"
    and "auth_policy (d_auth d') \<noteq> auth_policy (d_auth d) \<or> d_revocations d' \<noteq> d_revocations d"
  shows "\<exists>st. privileged_request env d l st \<and> string_fits (token_operator_id (token st)) \<and>
    daemon_signed (d_crypto env) (d_auth d) st"
  using assms(1)
proof (cases rule: daemon_step.cases)
  case (challenge now n auth' dto)
  then show ?thesis using assms(3) by (auto simp: challenge_handler_def Let_def)
next
  case (login rate_now now tn req auth' dto st)
  then show ?thesis using assms(3) verify_handler_keeps [OF login(4)] by simp
next
  case (login_refused rate_now now tn req auth' e)
  then show ?thesis using assms(3) verify_handler_keeps [OF login_refused(4)] by simp
next
  case (revoke now body rv' code rreq)
  from revoke(4,5) show ?thesis
    by (rule revoke_handler_Ok) (use revoke in \<open>auto simp: authorize_revocation_eq_Ok verify_token_eq_Ok
        admin_request_def daemon_signed_def role_permits_enroll\<close>)
next
  case (replace io temp now body auth' fs' code kreq)
  from replace(4,5) show ?thesis
    by (rule replace_handler_Ok) (use replace in \<open>auto simp: authorize_key_replacement_eq_Ok
        verify_token_eq_Ok admin_request_def daemon_signed_def role_permits_enroll\<close>)
next
  case (replace_refused io temp now body auth' fs' e)
  then show ?thesis using assms(3) replace_handler_Err [OF replace_refused(4)] by simp
qed (use assms(2,3) in \<open>auto dest: revoke_handler_Err\<close>)

text \<open>
  C11. Every privileged change goes back to a login. Take any run of the daemon from its start. If a
  request changes the policy or the revocation list, then the token it presents names an administrator that
  is enrolled and not revoked and has not expired, both of the administrator's keys signed exactly that
  change, and both of the daemon's keys accept the token's own signatures. Moreover that very token was
  issued to that administrator at a login of this run, for fifteen minutes at most; otherwise the request
  itself presents signatures of both of the daemon's keys on bytes that are no token of this run, so the
  token is of an earlier process with the same keys or the daemon's signatures are forged.
\<close>

theorem privileged_changes_traced:
  assumes "codec_lawful (d_codec env)" and "daemon_run env (d0, []) ls (d, ts)"
    and "daemon_step env (d, ts) l (d', ts')" and "l \<noteq> Reload"
    and "auth_policy (d_auth d') \<noteq> auth_policy (d_auth d) \<or> d_revocations d' \<noteq> d_revocations d"
  shows "\<exists>st. privileged_request env d l st \<and> daemon_signed (d_crypto env) (d_auth d0) st \<and>
    (Login (token st) \<in> set ls \<and> unat (expires_at (token st)) \<le> unat (issued_at (token st)) + 900 \<or>
     OperatorToken_canonical_bytes (token st) \<notin> OperatorToken_canonical_bytes ` set ts)"
proof -
  have ok: "run_ok d0 ls (d, ts)" using daemon_run_ok [OF assms(2,1)] by simp
  obtain st where st: "privileged_request env d l st" "string_fits (token_operator_id (token st))"
      "daemon_signed (d_crypto env) (d_auth d0) st"
    using change_is_privileged [OF assms(3-5)] ok by (auto simp: run_ok_def daemon_signed_def)
  have "Login (token st) \<in> set ls \<and> unat (expires_at (token st)) \<le> unat (issued_at (token st)) + 900"
    if "OperatorToken_canonical_bytes (token st) \<in> OperatorToken_canonical_bytes ` set ts"
  proof -
    from that obtain u where u: "u \<in> set ts"
        "OperatorToken_canonical_bytes (token st) = OperatorToken_canonical_bytes u"
      by auto
    with ok have "string_fits (token_operator_id u)" by (simp add: run_ok_def)
    with u(2) st(2) have "token st = u"
      by (simp add: OperatorToken_canonical_bytes_def string_fits_def operator_token_canonical_bytes_inject)
    with u(1) ok show ?thesis by (auto simp: run_ok_def TOKEN_TTL_SECS_def)
  qed
  with st show ?thesis by blast
qed

section \<open>A concrete run\<close>

text \<open>An administrator logs in and revokes an operator.\<close>

definition sign_revocation ::
    "('sk, 'vk, 'ml) crypto \<Rightarrow> ('sk, 'ml, 'dk) HandshakeManager \<Rightarrow> SignedOperatorToken \<Rightarrow> string \<Rightarrow> AuthenticatedRevocation"
where
  "sign_revocation c mgr st target =
     (let m = revoke_operator_transcript target (token_nonce (token st)) in
      \<lparr>rv_token = st, rv_target_operator_id = target, rv_action_signature = HandshakeManager_sign c mgr m,
        rv_ml_dsa_action_signature = HandshakeManager_sign_ml_dsa c mgr m\<rparr>)"

definition revocation_dto :: "codec \<Rightarrow> AuthenticatedRevocation \<Rightarrow> AuthenticatedRevocationDto" where
  "revocation_dto cd req = \<lparr>rvd_token = TokenDto_from_signed cd (rv_token req),
     rvd_target_operator_id = rv_target_operator_id req,
     rvd_action_signature = hex_encode cd (slice (rv_action_signature req)),
     rvd_ml_dsa_action_signature = hex_encode cd (slice (rv_ml_dsa_action_signature req))\<rparr>"

definition verify_dto :: "codec \<Rightarrow> ChallengeResponse \<Rightarrow> VerifyRequestDto" where
  "verify_dto cd resp = \<lparr>req_nonce = hex_encode cd (slice (nonce resp)),
     req_ed_pubkey = hex_encode cd (slice (ed_pubkey resp)),
     req_ml_dsa_pubkey = hex_encode cd (response_ml_dsa_pubkey resp),
     req_ed_signature = hex_encode cd (slice (ed_signature resp)),
     req_ml_dsa_signature = hex_encode cd (slice (response_ml_dsa_signature resp))\<rparr>"

lemma parse_revocation_dto:
  assumes "codec_lawful cd" and "revocation_from_json js body = Ok (revocation_dto cd req)"
  shows "parse_authenticated_revocation cd js body = Ok req"
  using assms by (simp add: parse_authenticated_revocation_def revocation_dto_def token_dto_roundtrip)

lemma decode_verify_dto:
  assumes "codec_lawful cd" and "length (response_ml_dsa_pubkey resp) = ML_DSA_65_PK_LEN"
  shows "decode_verify_request cd (verify_dto cd resp) = Ok resp"
  using assms by (simp add: decode_verify_request_def verify_dto_def decode_sized_hex_def codec_lawful_def)

lemma issued_token_verifies:
  assumes "ed25519_correct c" and "ml_dsa_correct c MlDsa65" and "now' \<le> saturating_add now ttl"
  shows "verify_token c (ed_verifying_key c dk) (MlDsaIdentity_public_key_bytes c dml) now'
      (issue_token c dk dml a now ttl tn) = Ok (token (issue_token c dk dml a now ttl tn))"
  using assms ml_dsa_65_signs [OF assms(2)]
  by (simp add: verify_token_eq_Ok issue_token_def Let_def ed25519_correctD
      MlDsaIdentity_public_key_bytes_def MlDsaIdentity_sign_def)

lemma admin_revokes:
  assumes "ed25519_correct c" and "ed25519_key_codec c" and "ml_dsa_correct c MlDsa65"
    and "codec_lawful cd" and "revocation_from_json js body = Ok (revocation_dto cd req)"
    and "req = sign_revocation c mgr (issue_token c (daemon_key auth) (daemon_ml_dsa auth)
          \<lparr>authed_operator_id = oid, authed_role = Admin\<rparr> now TOKEN_TTL_SECS tn) target"
    and "OperatorPolicy_lookup_by_id it (auth_policy auth) oid = Some (enroll c mgr oid Admin)"
    and "\<not> OperatorRevocations_is_revoked oid rv" and "now' \<le> saturating_add now TOKEN_TTL_SECS"
  shows "revoke_operator_handler c cd js it now' body auth rv =
    (OperatorRevocations_revoke target rv, Ok NO_CONTENT)"
proof -
  let ?st = "issue_token c (daemon_key auth) (daemon_ml_dsa auth)
    \<lparr>authed_operator_id = oid, authed_role = Admin\<rparr> now TOKEN_TTL_SECS tn"
  have fields: "token_role (token ?st) = Admin" "token_operator_id (token ?st) = oid"
      "token_nonce (token ?st) = tn"
    by (simp_all add: issue_token_def Let_def)
  have "authorize_operator_revocation c it (auth_policy auth) (daemon_vk c auth) (daemon_ml_vk c auth) now' req =
      Ok \<lparr>revoked_target_operator_id = target, revoking_operator_id = oid,
        revoking_ed25519_pubkey = HandshakeManager_identity_public_key_bytes c mgr\<rparr>"
    unfolding authorize_revocation_eq_Ok
    using manager_signs [OF assms(1-3), of mgr] assms(7) fields issued_token_verifies [OF assms(1,3,9)]
    by (intro exI [of _ "token ?st"] exI [of _ "enroll c mgr oid Admin"])
      (auto simp: assms(6) sign_revocation_def Let_def enroll_def both_accept_def role_permits_enroll)
  then show ?thesis
    using parse_revocation_dto [OF assms(4,5)] assms(8) by (simp add: revoke_operator_handler_def)
qed

definition demo_admin :: EnrolledOperator where
  "demo_admin = enroll demo_crypto (demo_mgr 1) ''alice'' Admin"

definition demo_admin_policy :: OperatorPolicy where
  "demo_admin_policy = \<lparr>by_ed25519 = [HandshakeManager_identity_public_key_bytes demo_crypto (demo_mgr 1) \<mapsto>
     demo_admin], poisoned = False\<rparr>"

definition demo_token :: SignedOperatorToken where
  "demo_token = issue_token demo_crypto (filled 5) [] \<lparr>authed_operator_id = ''alice'', authed_role = Admin\<rparr>
     100 TOKEN_TTL_SECS (filled 3)"

definition demo_http_env :: "(u8_32, u8_32, bytes) daemon_env" where
  "demo_http_env = \<lparr>d_crypto = demo_crypto, d_codec = demo_codec,
     d_json = \<lparr>consent_action_from_json = (\<lambda>_. Err []),
       revocation_from_json = (\<lambda>b. Ok (revocation_dto demo_codec
         (sign_revocation demo_crypto (demo_mgr 1) demo_token b))),
       key_replacement_from_json = (\<lambda>_. Err []), token_from_json = (\<lambda>_. Err []), debug_str = id\<rparr>,
     d_iteration = demo_iteration, d_operators_file = None\<rparr>"

definition demo_daemon :: "(u8_32, bytes, unit) daemon" where
  "demo_daemon = \<lparr>d_auth = OperatorAuthState_new demo_crypto demo_codec demo_admin_policy (filled 5) []
       (demo_mgr 2) AUTH_RATE_MAX AUTH_RATE_WINDOW_SECS,
     d_revocations = OperatorRevocations_empty, d_ledger = Chain_new (filled 5), d_files = Map.empty\<rparr>"

abbreviation demo_revocation :: "string \<Rightarrow> AuthenticatedRevocation" where
  "demo_revocation target \<equiv> sign_revocation demo_crypto (demo_mgr 1) demo_token target"

lemma demo_http_env_simps [simp]:
  "d_crypto demo_http_env = demo_crypto" "d_codec demo_http_env = demo_codec" "d_iteration demo_http_env = demo_iteration"
  "revocation_from_json (d_json demo_http_env) b = Ok (revocation_dto demo_codec (demo_revocation b))"
  by (simp_all add: demo_http_env_def)

lemma demo_admin_lookup:
  "OperatorPolicy_lookup_by_id demo_iteration demo_admin_policy ''alice'' = Some demo_admin"
  by (simp add: OperatorPolicy_lookup_by_id_def OperatorPolicy_read_map_def demo_admin_policy_def
      map_values_def demo_iteration_def List.map_filter_simps demo_admin_def enroll_def)

lemma demo_daemon_simps [simp]:
  "daemon_key (d_auth demo_daemon) = filled 5" "daemon_ml_dsa (d_auth demo_daemon) = []"
  "auth_policy (d_auth demo_daemon) = demo_admin_policy" "auth_challenges (d_auth demo_daemon) = Map.empty"
  "auth_rate_limiter (d_auth demo_daemon) = RateLimiter_new AUTH_RATE_MAX AUTH_RATE_WINDOW_SECS"
  "d_revocations demo_daemon = OperatorRevocations_empty"
  by (simp_all add: demo_daemon_def OperatorAuthState_new_def Let_def)

lemma demo_revokes:
  assumes "daemon_key (d_auth d) = filled 5" and "daemon_ml_dsa (d_auth d) = []"
    and "auth_policy (d_auth d) = demo_admin_policy"
    and "\<not> OperatorRevocations_is_revoked ''alice'' (d_revocations d)"
  shows "daemon_step demo_http_env (d, ts) (Revokes 200 (demo_revocation target))
    (d\<lparr>d_revocations := OperatorRevocations_revoke target (d_revocations d)\<rparr>, ts)"
proof (rule daemon_step.revoke)
  have "(200 :: u64) \<le> saturating_add 100 TOKEN_TTL_SECS"
    by (simp add: saturating_add_def TOKEN_TTL_SECS_def word_le_nat_alt)
  then show "revoke_operator_handler (d_crypto demo_http_env) (d_codec demo_http_env) (d_json demo_http_env)
      (d_iteration demo_http_env) 200 target (d_auth d) (d_revocations d) =
      (OperatorRevocations_revoke target (d_revocations d), Ok NO_CONTENT)"
    using assms demo_admin_lookup demo_codec_lawful
    by (simp, intro admin_revokes) (simp_all add: demo_token_def demo_admin_def)
  show "parse_authenticated_revocation (d_codec demo_http_env) (d_json demo_http_env) target = Ok (demo_revocation target)"
    using demo_codec_lawful by (simp add: parse_revocation_dto)
  show "string_fits (token_operator_id (token (rv_token (demo_revocation target))))"
    by (simp add: string_fits_def sign_revocation_def demo_token_def issue_token_def Let_def)
qed

theorem revocation_locks_out_witness:
  "actor (Revokes 200 (demo_revocation ''carol'')) \<noteq> Some (rv_target_operator_id (demo_revocation ''bob''))"
proof -
  let ?rv = "OperatorRevocations_revoke ''bob'' OperatorRevocations_empty"
  have free: "\<not> OperatorRevocations_is_revoked ''alice'' OperatorRevocations_empty"
      "\<not> OperatorRevocations_is_revoked ''alice'' ?rv"
    by (simp_all add: OperatorRevocations_is_revoked_def OperatorRevocations_empty_def
        OperatorRevocations_revoke_def)
  have one: "daemon_step demo_http_env (demo_daemon, []) (Revokes 200 (demo_revocation ''bob''))
      (demo_daemon\<lparr>d_revocations := ?rv\<rparr>, [])"
    using demo_revokes [of demo_daemon "[]" "''bob''"] free(1) by simp
  have "daemon_step demo_http_env (demo_daemon\<lparr>d_revocations := ?rv\<rparr>, []) (Revokes 200 (demo_revocation ''carol''))
      (demo_daemon\<lparr>d_revocations := OperatorRevocations_revoke ''carol'' ?rv\<rparr>, [])"
    using demo_revokes [of "demo_daemon\<lparr>d_revocations := ?rv\<rparr>" "[]" "''carol''"] free(2) by simp
  from daemon_run.snoc [OF daemon_run.nil this]
  have run: "daemon_run demo_http_env (demo_daemon\<lparr>d_revocations := ?rv\<rparr>, [])
      [Revokes 200 (demo_revocation ''carol'')]
      (demo_daemon\<lparr>d_revocations := OperatorRevocations_revoke ''carol'' ?rv\<rparr>, [])" by simp
  have "codec_lawful (d_codec demo_http_env)" by (simp add: demo_codec_lawful)
  then show ?thesis by (rule revocation_locks_out [OF _ one run]) simp_all
qed

lemma demo_allow: "RateLimiter_allow 100 (RateLimiter_new AUTH_RATE_MAX AUTH_RATE_WINDOW_SECS) =
   (\<lparr>window_secs = AUTH_RATE_WINDOW_SECS, max_attempts = AUTH_RATE_MAX, window_start = 100, attempts = 1\<rparr>, True)"
  by (simp add: RateLimiter_allow_def RateLimiter_new_def AUTH_RATE_MAX_def AUTH_RATE_WINDOW_SECS_def
      saturating_sub_def word_le_nat_alt word_less_nat_alt)

lemma demo_login:
  defines "d1 \<equiv> demo_daemon\<lparr>d_auth := fst (challenge_handler demo_crypto demo_codec 100 (filled 9) (d_auth demo_daemon))\<rparr>"
  shows "\<exists>auth'. daemon_run demo_http_env (demo_daemon, []) [Silent, Login (token demo_token)]
      (d1\<lparr>d_auth := auth'\<rparr>, [token demo_token]) \<and>
    daemon_key auth' = filled 5 \<and> daemon_ml_dsa auth' = [] \<and> auth_policy auth' = demo_admin_policy"
proof -
  let ?resp = "answer_challenge demo_crypto (demo_mgr 1) (filled 9)"
  have one: "daemon_step demo_http_env (demo_daemon, []) Silent (d1, [])"
    unfolding d1_def
    by (rule daemon_step.challenge [where now = 100 and n = "filled 9"]) (simp, rule surjective_pairing)
  have auth: "auth_policy (d_auth d1) = demo_admin_policy" "daemon_key (d_auth d1) = filled 5"
      "daemon_ml_dsa (d_auth d1) = []" "d_revocations d1 = OperatorRevocations_empty"
      "auth_rate_limiter (d_auth d1) = RateLimiter_new AUTH_RATE_MAX AUTH_RATE_WINDOW_SECS"
      "auth_challenges (d_auth d1) (filled 9) = Some (saturating_add 100 CHALLENGE_TTL_SECS)"
    by (simp_all add: d1_def challenge_handler_def Let_def ChallengeStore_issue_def)
  have "(100 :: u64) \<le> saturating_add 100 CHALLENGE_TTL_SECS"
    by (simp add: saturating_add_def CHALLENGE_TTL_SECS_def word_le_nat_alt)
  with auth(6) have "snd (verify_challenge_response demo_crypto demo_admin_policy 100 ?resp
      (auth_challenges (d_auth d1))) = Ok \<lparr>authed_operator_id = ''alice'', authed_role = Admin\<rparr>"
    by (intro enrolled_operator_logs_in) (simp_all add: demo_admin_policy_def demo_admin_def)
  then obtain st where ok: "verify_challenge_response demo_crypto demo_admin_policy 100 ?resp
      (auth_challenges (d_auth d1)) = (st, Ok \<lparr>authed_operator_id = ''alice'', authed_role = Admin\<rparr>)"
    by (metis prod.collapse)
  have len: "length (response_ml_dsa_pubkey ?resp) = ML_DSA_65_PK_LEN"
    by (simp add: answer_challenge_def Let_def key_lengths)
  let ?r = "verify_handler demo_crypto demo_codec 100 100 (filled 3) OperatorRevocations_empty
    (verify_dto demo_codec ?resp) (d_auth d1)"
  have "snd ?r = Ok (TokenDto_from_signed demo_codec demo_token)"
    using ok auth decode_verify_dto [OF demo_codec_lawful len]
    by (simp add: verify_handler_def Let_def demo_allow demo_token_def OperatorRevocations_is_revoked_def
        OperatorRevocations_empty_def)
  have fits: "string_fits (token_operator_id (token demo_token))"
    by (simp add: string_fits_def demo_token_def issue_token_def Let_def)
  from \<open>snd ?r = _\<close> have r: "?r = (fst ?r, Ok (TokenDto_from_signed demo_codec demo_token))" by (metis prod.collapse)
  then have "daemon_step demo_http_env (d1, []) (Login (token demo_token))
      (d1\<lparr>d_auth := fst ?r\<rparr>, [token demo_token])"
    using auth fits token_dto_roundtrip [OF demo_codec_lawful, of demo_token]
    by (intro daemon_step.login) simp_all
  from daemon_run.snoc [OF daemon_run.snoc [OF daemon_run.nil one] this]
  show ?thesis using verify_handler_keeps [OF r] auth by auto
qed

theorem privileged_changes_traced_witness:
  "\<exists>d. daemon_run demo_http_env (demo_daemon, []) [Silent, Login (token demo_token)] (d, [token demo_token]) \<and>
    privileged_request demo_http_env d (Revokes 200 (demo_revocation ''bob'')) demo_token \<and>
    daemon_signed demo_crypto (d_auth demo_daemon) demo_token \<and>
    unat (expires_at (token demo_token)) \<le> unat (issued_at (token demo_token)) + 900"
proof -
  obtain auth' d where d: "daemon_run demo_http_env (demo_daemon, []) [Silent, Login (token demo_token)]
      (d, [token demo_token])" "d_revocations d = OperatorRevocations_empty" "d_auth d = auth'"
      "daemon_key auth' = filled 5" "daemon_ml_dsa auth' = []" "auth_policy auth' = demo_admin_policy"
    using demo_login by force
  let ?d' = "d\<lparr>d_revocations := OperatorRevocations_revoke ''bob'' (d_revocations d)\<rparr>"
  have "\<not> OperatorRevocations_is_revoked ''alice'' (d_revocations d)"
    by (simp add: d OperatorRevocations_is_revoked_def OperatorRevocations_empty_def)
  then have step: "daemon_step demo_http_env (d, [token demo_token]) (Revokes 200 (demo_revocation ''bob''))
      (?d', [token demo_token])"
    using d by (intro demo_revokes) simp_all
  have "d_revocations ?d' \<noteq> d_revocations d"
    by (simp add: d OperatorRevocations_revoke_def OperatorRevocations_empty_def)
  with privileged_changes_traced [OF _ d(1) step] d(1) demo_codec_lawful show ?thesis
    by (auto simp: sign_revocation_def Let_def)
qed

end
