(* ===== verification/Consent_Recovery.thy ===== *)
theory Consent_Recovery
  imports Ledger_Compaction Rust_Strings
begin

text \<open>
  The recovery summary of an archived prefix of the consent ledger, the first half of
  \<open>apps/xenia-peer/src/consent_compaction.rs\<close>: the scan of the archived entries that keeps every signed
  decision's id and follows every consent session to its end, the digest of the summary, and the check
  that a live suffix neither replays a decision nor reopens a session. \<open>hex::encode\<close> is the argument \<open>hex\<close>.
  A \<open>BTreeMap\<close> or \<open>BTreeSet\<close> is a map or set that iterates in the order of its keys.
\<close>

definition CONSENT_RECOVERY_SUMMARY_SCHEMA :: string where
  "CONSENT_RECOVERY_SUMMARY_SCHEMA = ''xenia-consent-recovery-summary-v1''"

definition MAX_RECOVERY_ACTION_IDS :: nat where
  "MAX_RECOVERY_ACTION_IDS = 100000"

definition MAX_RECOVERY_SESSIONS :: nat where
  "MAX_RECOVERY_SESSIONS = 100000"

record ConsentRecoverySessionV1 =
  recovered_session_id :: Uuid
  terminal_event :: string
  terminal_sequence :: u64
  approving_operator_key :: "u8_32 option"
  approval_action_id :: "Uuid option"

record ConsentRecoverySummaryV1 =
  summary_schema :: string
  summary_archive_sequence_digest :: u8_32
  through_checkpoint :: LedgerCheckpoint
  archived_entry_count :: u64
  replay_action_ids :: "Uuid list"
  recovered_sessions :: "ConsentRecoverySessionV1 list"
  summary_digest :: u8_32

datatype SessionPhase = Pending | Approved | Terminal

record SessionAccumulator =
  phase :: SessionPhase
  acc_approving_operator_key :: "u8_32 option"
  acc_approval_action_id :: "Uuid option"
  acc_terminal_event :: "string option"
  acc_terminal_sequence :: "u64 option"

definition SessionAccumulator_pending :: SessionAccumulator where
  "SessionAccumulator_pending = \<lparr>phase = Pending, acc_approving_operator_key = None,
     acc_approval_action_id = None, acc_terminal_event = None, acc_terminal_sequence = None\<rparr>"

datatype (plugins only:) ConsentRecoveryError =
    Archive LedgerArchiveError
  | NonGenesisBase
  | DuplicateActionId string
  | InvalidTransition string u64
  | IncompleteSession string
  | TooManyActionIds nat nat
  | TooManySessions nat nat
  | SummaryDigestMismatch
  | SummaryMismatch
  | UnsupportedBundleSchema string
  | ManifestArchiveMismatch
  | ManifestRecoveryMismatch
  | ManifestBoundaryMismatch
  | ArchivedEntryCountOverflow
  | TooManySuffixEntries nat nat
  | UnsupportedSnapshotSchema string
  | SnapshotDigestMismatch
  | RestoreSigningKeyMismatch
  | SignedDecisionReplay string u64
  | ArchivedSessionReused string u64
  | UnsupportedActiveStateSchema string
  | ActiveStateDigestMismatch
  | ActiveReplayIndexMismatch
  | ActiveTerminalIndexMismatch
  | ActivationSuffixMismatch
  | ActiveAnchorMismatch
  | UnsupportedCutoverReceiptSchema string
  | InvalidCutoverReceiptSignature
  | CutoverHeadMismatch
  | CrossEpochCutover
  | CutoverTimestampRegressed
  | CutoverSnapshotMismatch
  | UnsupportedStatePinSchema string
  | InvalidStatePinSignature
  | StatePinIdentityMismatch
  | StatePinGenerationRollback u64 u64
  | StatePinSameGenerationMismatch
  | StatePinPredatesAnchor
  | StatePinTimestampRegressed
  | ActiveGenerationMismatch
  | ActiveGenerationOverflow
  | UnsupportedGcCertificateSchema string
  | InvalidGcCertificateSignature
  | GcCertificateStateMismatch
  | GcCertificateArchiveMismatch
  | GcCertificateTimestampRegressed
  | Manifest LedgerCompactionError
  | RecoveryCheckpoint CheckpointError
  | RecoveryContinuity CheckpointContinuityError

section \<open>The scan\<close>

abbreviation entry_session :: "LedgerEntry \<Rightarrow> Uuid" where
  "entry_session e \<equiv> ConsentEventRecord.session_id (LedgerEntry.event e)"

abbreviation entry_request :: "LedgerEntry \<Rightarrow> Uuid" where
  "entry_request e \<equiv> ConsentEventRecord.request_id (LedgerEntry.event e)"

abbreviation entry_kind :: "LedgerEntry \<Rightarrow> ConsentKind" where
  "entry_kind e \<equiv> ConsentEventRecord.kind (LedgerEntry.event e)"

definition is_signed_decision :: "LedgerEntry \<Rightarrow> bool" where
  "is_signed_decision e \<longleftrightarrow> entry_kind e \<in> {Approval, Denial, Revocation}"

definition invalid_transition :: "(bytes \<Rightarrow> string) \<Rightarrow> Uuid \<Rightarrow> u64 \<Rightarrow> ConsentRecoveryError" where
  "invalid_transition hex sid sq = InvalidTransition (hex (slice sid)) sq"

definition end_session :: "LedgerEntry \<Rightarrow> SessionAccumulator \<Rightarrow> SessionAccumulator" where
  "end_session e st = st\<lparr>phase := Terminal,
     acc_terminal_event := Some (ConsentEventRecord_stable_name (LedgerEntry.event e)),
     acc_terminal_sequence := Some (LedgerEntry.seq e)\<rparr>"

text \<open>The \<open>match\<close> on the kind of an entry, for the accumulator of its session.\<close>

definition advance_session ::
    "(bytes \<Rightarrow> string) \<Rightarrow> LedgerEntry \<Rightarrow> SessionAccumulator \<Rightarrow> (SessionAccumulator, ConsentRecoveryError) result"
where
  "advance_session hex e st =
     (let invalid = Err (invalid_transition hex (entry_session e) (LedgerEntry.seq e)) in
      case entry_kind e of
        Request \<Rightarrow> if phase st \<noteq> Pending then invalid else Ok st
      | Approval \<Rightarrow> if phase st \<noteq> Pending then invalid
          else Ok (st\<lparr>phase := Approved,
            acc_approving_operator_key := Some (ConsentEventRecord.source_id (LedgerEntry.event e)),
            acc_approval_action_id := Some (entry_request e)\<rparr>)
      | Denial \<Rightarrow> if phase st \<noteq> Pending then invalid else Ok (end_session e st)
      | Revocation \<Rightarrow> if phase st = Terminal then invalid else Ok (end_session e st)
      | Violation \<Rightarrow> if phase st = Terminal then invalid else Ok (end_session e st)
      | AthenaTriage \<Rightarrow> Ok st)"

type_synonym recovery_state = "Uuid set \<times> (Uuid \<rightharpoonup> SessionAccumulator)"

definition recover_entry ::
    "(bytes \<Rightarrow> string) \<Rightarrow> LedgerEntry \<Rightarrow> recovery_state \<Rightarrow> (recovery_state, ConsentRecoveryError) result" where
  "recover_entry hex e st =
     (let ids = fst st; accs = snd st; rid = entry_request e; sid = entry_session e;
          ids' = (if is_signed_decision e then insert rid ids else ids)
      in if is_signed_decision e \<and> rid \<in> ids then Err (DuplicateActionId (hex (slice rid)))
         else if card ids' > MAX_RECOVERY_ACTION_IDS
         then Err (TooManyActionIds (card ids') MAX_RECOVERY_ACTION_IDS)
         else
           and_then (if entry_kind e = AthenaTriage then Ok accs
             else map_ok (\<lambda>acc. accs(sid \<mapsto> acc))
               (advance_session hex e
                  (case accs sid of Some acc \<Rightarrow> acc | None \<Rightarrow> SessionAccumulator_pending))) (\<lambda>accs'.
           if card (dom accs') > MAX_RECOVERY_SESSIONS
           then Err (TooManySessions (card (dom accs')) MAX_RECOVERY_SESSIONS)
           else Ok (ids', accs')))"

fun recover_entries ::
    "(bytes \<Rightarrow> string) \<Rightarrow> LedgerEntry list \<Rightarrow> recovery_state \<Rightarrow> (recovery_state, ConsentRecoveryError) result"
where
  "recover_entries hex [] st = Ok st"
| "recover_entries hex (e # es) st = and_then (recover_entry hex e st) (recover_entries hex es)"

definition complete_session ::
    "(bytes \<Rightarrow> string) \<Rightarrow> Uuid \<Rightarrow> SessionAccumulator \<Rightarrow> (ConsentRecoverySessionV1, ConsentRecoveryError) result"
where
  "complete_session hex sid st =
     (let incomplete = IncompleteSession (hex (slice sid)) in
      if phase st \<noteq> Terminal then Err incomplete
      else
        and_then (ok_or (acc_terminal_event st) incomplete) (\<lambda>ev.
        and_then (ok_or (acc_terminal_sequence st) incomplete) (\<lambda>sq.
        Ok \<lparr>recovered_session_id = sid, terminal_event = ev, terminal_sequence = sq,
          approving_operator_key = acc_approving_operator_key st,
          approval_action_id = acc_approval_action_id st\<rparr>)))"

fun complete_sessions ::
    "(bytes \<Rightarrow> string) \<Rightarrow> (Uuid \<rightharpoonup> SessionAccumulator) \<Rightarrow> Uuid list \<Rightarrow>
     (ConsentRecoverySessionV1 list, ConsentRecoveryError) result" where
  "complete_sessions hex accs [] = Ok []"
| "complete_sessions hex accs (sid # sids) =
     (case accs sid of
        None \<Rightarrow> complete_sessions hex accs sids
      | Some st \<Rightarrow> and_then (complete_session hex sid st) (\<lambda>s.
          map_ok (Cons s) (complete_sessions hex accs sids)))"

section \<open>The summary and its digest\<close>

definition optional_bytes :: "bytes option \<Rightarrow> bytes" where
  "optional_bytes x = (case x of Some b \<Rightarrow> [1] @ b | None \<Rightarrow> [0])"

definition recovery_session_bytes :: "ConsentRecoverySessionV1 \<Rightarrow> bytes" where
  "recovery_session_bytes s =
     slice (recovered_session_id s) @ to_be_bytes (of_nat (length (as_bytes (terminal_event s)))) @
     as_bytes (terminal_event s) @ to_be_bytes (terminal_sequence s) @
     optional_bytes (map_option slice (approving_operator_key s)) @
     optional_bytes (map_option slice (approval_action_id s))"

definition recovery_summary_bytes :: "u8_32 \<Rightarrow> ConsentRecoverySummaryV1 \<Rightarrow> bytes" where
  "recovery_summary_bytes cp s =
     as_bytes ''xenia:consent-recovery-summary:v1'' @ [0] @ as_bytes (summary_schema s) @ [0] @
     slice (summary_archive_sequence_digest s) @ slice cp @ to_be_bytes (archived_entry_count s) @
     to_be_bytes (of_nat (length (replay_action_ids s))) @ concat (map slice (replay_action_ids s)) @
     to_be_bytes (of_nat (length (recovered_sessions s))) @
     concat (map recovery_session_bytes (recovered_sessions s))"

definition consent_recovery_summary_digest ::
    "('sk, 'vk, 'ml) crypto \<Rightarrow> ConsentRecoverySummaryV1 \<Rightarrow> (u8_32, ConsentRecoveryError) result" where
  "consent_recovery_summary_digest c s =
     (if summary_schema s \<noteq> CONSENT_RECOVERY_SUMMARY_SCHEMA then Err SummaryMismatch
      else and_then (map_err RecoveryCheckpoint (checkpoint_fingerprint c (through_checkpoint s))) (\<lambda>cp.
        Ok (blake3_hash c (recovery_summary_bytes cp s))))"

definition ConsentRecoverySummaryV1_from_archive_sequence ::
    "('sk, 'vk, 'ml) crypto \<Rightarrow> (bytes \<Rightarrow> string) \<Rightarrow> LedgerArchiveSegment list \<Rightarrow>
     (ConsentRecoverySummaryV1, ConsentRecoveryError) result" where
  "ConsentRecoverySummaryV1_from_archive_sequence c hex segments =
     and_then (map_err Archive (ledger_archive_sequence_digest c segments)) (\<lambda>digest.
     case segments of
       [] \<Rightarrow> Err (Archive EmptySequence)
     | first # _ \<Rightarrow>
         let base = LedgerArchiveSegment.base_checkpoint first; through = terminal_checkpoint (last segments) in
         if entry_count base \<noteq> 0 \<or> head_hash base \<noteq> zeroed then Err NonGenesisBase
         else
           and_then (recover_entries hex (archived_entries segments) ({}, Map.empty)) (\<lambda>(ids, accs).
           and_then (complete_sessions hex accs (sorted_list_of_set (dom accs))) (\<lambda>completed.
           let summary = \<lparr>summary_schema = CONSENT_RECOVERY_SUMMARY_SCHEMA,
                 summary_archive_sequence_digest = digest, through_checkpoint = through,
                 archived_entry_count = entry_count through,
                 replay_action_ids = sorted_list_of_set ids, recovered_sessions = completed,
                 summary_digest = zeroed\<rparr>
           in map_ok (\<lambda>d. summary\<lparr>summary_digest := d\<rparr>) (consent_recovery_summary_digest c summary))))"

definition ConsentRecoverySummaryV1_verify_against_archive ::
    "('sk, 'vk, 'ml) crypto \<Rightarrow> (bytes \<Rightarrow> string) \<Rightarrow> LedgerArchiveSegment list \<Rightarrow> ConsentRecoverySummaryV1 \<Rightarrow>
     (unit, ConsentRecoveryError) result" where
  "ConsentRecoverySummaryV1_verify_against_archive c hex segments s =
     and_then (consent_recovery_summary_digest c s) (\<lambda>observed.
     if observed \<noteq> summary_digest s then Err SummaryDigestMismatch
     else and_then (ConsentRecoverySummaryV1_from_archive_sequence c hex segments) (\<lambda>expected.
       if expected \<noteq> s then Err SummaryMismatch else Ok ()))"

definition ConsentRecoverySummaryV1_verify_self ::
    "('sk, 'vk, 'ml) crypto \<Rightarrow> ConsentRecoverySummaryV1 \<Rightarrow> (unit, ConsentRecoveryError) result" where
  "ConsentRecoverySummaryV1_verify_self c s =
     (if summary_schema s \<noteq> CONSENT_RECOVERY_SUMMARY_SCHEMA then Err SummaryMismatch
      else if length (replay_action_ids s) > MAX_RECOVERY_ACTION_IDS
      then Err (TooManyActionIds (length (replay_action_ids s)) MAX_RECOVERY_ACTION_IDS)
      else if length (recovered_sessions s) > MAX_RECOVERY_SESSIONS
      then Err (TooManySessions (length (recovered_sessions s)) MAX_RECOVERY_SESSIONS)
      else if \<not> (\<forall>(a, b) \<in> set (windows2 (replay_action_ids s)). a < b) then Err SummaryMismatch
      else if \<not> (\<forall>(a, b) \<in> set (windows2 (recovered_sessions s)).
          recovered_session_id a < recovered_session_id b) then Err SummaryMismatch
      else if archived_entry_count s \<noteq> entry_count (through_checkpoint s) then Err SummaryMismatch
      else and_then (consent_recovery_summary_digest c s) (\<lambda>observed.
        if observed \<noteq> summary_digest s then Err SummaryDigestMismatch else Ok ()))"

section \<open>The live suffix\<close>

fun suffix_compatible ::
    "(bytes \<Rightarrow> string) \<Rightarrow> Uuid set \<Rightarrow> Uuid set \<Rightarrow> LedgerEntry list \<Rightarrow> (unit, ConsentRecoveryError) result" where
  "suffix_compatible hex archived seen [] = Ok ()"
| "suffix_compatible hex archived seen (e # es) =
     (if entry_session e \<in> archived
      then Err (ArchivedSessionReused (hex (slice (entry_session e))) (LedgerEntry.seq e))
      else if is_signed_decision e \<and> entry_request e \<in> seen
      then Err (SignedDecisionReplay (hex (slice (entry_request e))) (LedgerEntry.seq e))
      else suffix_compatible hex archived
        (if is_signed_decision e then insert (entry_request e) seen else seen) es)"

definition verify_recovery_suffix_compatibility ::
    "(bytes \<Rightarrow> string) \<Rightarrow> ConsentRecoverySummaryV1 \<Rightarrow> LedgerEntry list \<Rightarrow> (unit, ConsentRecoveryError) result" where
  "verify_recovery_suffix_compatibility hex s suff =
     suffix_compatible hex (set (map recovered_session_id (recovered_sessions s)))
       (set (replay_action_ids s)) suff"

section \<open>What the scan computes\<close>

text \<open>
  The reference the scan is compared with reads the archived entries session by session: the kinds of a
  session's entries are any number of requests and then an optional approval and an optional end.
\<close>

definition session_entries :: "Uuid \<Rightarrow> LedgerEntry list \<Rightarrow> LedgerEntry list" where
  "session_entries x es = filter (\<lambda>e. entry_session e = x \<and> entry_kind e \<noteq> AthenaTriage) es"

definition session_ids :: "LedgerEntry list \<Rightarrow> Uuid set" where
  "session_ids es = {x \<in> set (map entry_session es). session_entries x es \<noteq> []}"

definition decision_ids :: "LedgerEntry list \<Rightarrow> Uuid list" where
  "decision_ids es = map entry_request (filter is_signed_decision es)"

definition after_requests :: "LedgerEntry list \<Rightarrow> ConsentKind list" where
  "after_requests ks = dropWhile (\<lambda>k. k = Request) (map entry_kind ks)"

definition ceremony :: "LedgerEntry list \<Rightarrow> bool" where
  "ceremony ks \<longleftrightarrow> after_requests ks \<in>
     {[], [Approval], [Denial], [Revocation], [Violation], [Approval, Revocation], [Approval, Violation]}"

definition ended_ceremony :: "LedgerEntry list \<Rightarrow> bool" where
  "ended_ceremony ks \<longleftrightarrow> after_requests ks \<in>
     {[Denial], [Revocation], [Violation], [Approval, Revocation], [Approval, Violation]}"

definition approval_of :: "LedgerEntry list \<Rightarrow> LedgerEntry option" where
  "approval_of ks = List.find (\<lambda>e. entry_kind e = Approval) ks"

definition ending_of :: "LedgerEntry list \<Rightarrow> LedgerEntry option" where
  "ending_of ks = List.find (\<lambda>e. entry_kind e \<in> {Denial, Revocation, Violation}) ks"

definition session_acc :: "LedgerEntry list \<Rightarrow> SessionAccumulator" where
  "session_acc ks =
     \<lparr>phase = (if ending_of ks \<noteq> None then Terminal else if approval_of ks \<noteq> None then Approved else Pending),
      acc_approving_operator_key = map_option (\<lambda>e. ConsentEventRecord.source_id (LedgerEntry.event e)) (approval_of ks),
      acc_approval_action_id = map_option entry_request (approval_of ks),
      acc_terminal_event = map_option (\<lambda>e. ConsentEventRecord_stable_name (LedgerEntry.event e)) (ending_of ks),
      acc_terminal_sequence = map_option LedgerEntry.seq (ending_of ks)\<rparr>"

lemma find_snoc:
  "List.find P (xs @ [x]) = (case List.find P xs of None \<Rightarrow> if P x then Some x else None | Some y \<Rightarrow> Some y)"
  by (induction xs) auto

lemma after_requests_snoc:
  "after_requests (ks @ [e]) =
     (if after_requests ks = [] then (if entry_kind e = Request then [] else [entry_kind e])
      else after_requests ks @ [entry_kind e])"
  by (auto simp: after_requests_def dropWhile_append dropWhile_eq_Nil_conv)

lemma after_requests_memb:
  "k \<noteq> Request \<Longrightarrow> (\<exists>e \<in> set ks. entry_kind e = k) \<longleftrightarrow> k \<in> set (after_requests ks)"
  by (induction ks) (auto simp: after_requests_def)

lemma approval_of_None: "approval_of ks = None \<longleftrightarrow> Approval \<notin> set (after_requests ks)"
  using after_requests_memb [of Approval ks] by (auto simp: approval_of_def find_None_iff)

lemma ending_of_None:
  "ending_of ks = None \<longleftrightarrow> {Denial, Revocation, Violation} \<inter> set (after_requests ks) = {}"
  using after_requests_memb [of Denial ks] after_requests_memb [of Revocation ks]
    after_requests_memb [of Violation ks]
  by (auto simp: ending_of_def find_None_iff)

lemma session_acc_phase:
  "phase (session_acc ks) =
     (if {Denial, Revocation, Violation} \<inter> set (after_requests ks) \<noteq> {} then Terminal
      else if Approval \<in> set (after_requests ks) then Approved else Pending)"
  by (simp add: session_acc_def approval_of_None ending_of_None)

lemma session_acc_Nil [simp]: "session_acc [] = SessionAccumulator_pending"
  by (simp add: session_acc_def SessionAccumulator_pending_def approval_of_def ending_of_def)

lemma ceremony_Nil [simp]: "ceremony []"
  by (simp add: ceremony_def after_requests_def)

lemma ceremony_snocD: "ceremony (ks @ [e]) \<Longrightarrow> ceremony ks"
  by (auto simp: ceremony_def after_requests_snoc append_eq_Cons_conv split: if_splits)

lemma ended_ceremony_iff: "ended_ceremony ks \<longleftrightarrow> ceremony ks \<and> phase (session_acc ks) = Terminal"
  by (auto simp: ended_ceremony_def ceremony_def session_acc_phase)

lemma session_acc_snoc:
  "session_acc (ks @ [e]) =
     (let acc = session_acc ks in
      if entry_kind e = Approval \<and> approval_of ks = None
      then acc\<lparr>phase := (if ending_of ks = None then Approved else Terminal),
        acc_approving_operator_key := Some (ConsentEventRecord.source_id (LedgerEntry.event e)),
        acc_approval_action_id := Some (entry_request e)\<rparr>
      else if entry_kind e \<in> {Denial, Revocation, Violation} \<and> ending_of ks = None then end_session e acc
      else acc)"
  by (auto simp: session_acc_def end_session_def approval_of_def ending_of_def find_snoc Let_def
      split: option.splits)

lemma advance_session_acc:
  assumes "ceremony ks" and "entry_kind e \<noteq> AthenaTriage"
  shows "advance_session hex e (session_acc ks) =
    (if ceremony (ks @ [e]) then Ok (session_acc (ks @ [e]))
     else Err (invalid_transition hex (entry_session e) (LedgerEntry.seq e)))"
proof (cases "entry_kind e")
  case AthenaTriage
  then show ?thesis using assms(2) by simp
qed (use assms(1) in \<open>auto simp: advance_session_def session_acc_snoc session_acc_phase ceremony_def
    after_requests_snoc approval_of_None ending_of_None Let_def\<close>)

lemma session_entries_snoc:
  "session_entries x (es @ [e]) =
     (if entry_session e = x \<and> entry_kind e \<noteq> AthenaTriage then session_entries x es @ [e]
      else session_entries x es)"
  by (simp add: session_entries_def)

lemma session_ids_iff: "x \<in> session_ids es \<longleftrightarrow> session_entries x es \<noteq> []"
  by (auto simp: session_ids_def session_entries_def filter_empty_conv)

lemma finite_session_ids [simp]: "finite (session_ids es)"
  by (simp add: session_ids_def)

lemma session_ids_snoc:
  "session_ids (es @ [e]) =
     (if entry_kind e = AthenaTriage then session_ids es else insert (entry_session e) (session_ids es))"
  by (auto simp: session_ids_iff session_entries_snoc split: if_splits)

lemma decision_ids_snoc:
  "decision_ids (es @ [e]) = decision_ids es @ (if is_signed_decision e then [entry_request e] else [])"
  by (simp add: decision_ids_def)

definition session_accs :: "LedgerEntry list \<Rightarrow> Uuid \<rightharpoonup> SessionAccumulator" where
  "session_accs es x = (if x \<in> session_ids es then Some (session_acc (session_entries x es)) else None)"

definition well_formed_log :: "LedgerEntry list \<Rightarrow> bool" where
  "well_formed_log es \<longleftrightarrow> distinct (decision_ids es) \<and>
     length (decision_ids es) \<le> MAX_RECOVERY_ACTION_IDS \<and>
     (\<forall>x \<in> session_ids es. ceremony (session_entries x es)) \<and>
     card (session_ids es) \<le> MAX_RECOVERY_SESSIONS"

lemma dom_session_accs [simp]: "dom (session_accs es) = session_ids es"
  by (auto simp: session_accs_def split: if_splits)

lemma session_accs_get:
  "(case session_accs es x of Some acc \<Rightarrow> acc | None \<Rightarrow> SessionAccumulator_pending) =
     session_acc (session_entries x es)"
  by (auto simp: session_accs_def session_ids_iff)

lemma session_accs_upd:
  "entry_kind e \<noteq> AthenaTriage \<Longrightarrow>
     (session_accs es)(entry_session e \<mapsto> session_acc (session_entries (entry_session e) es @ [e])) =
     session_accs (es @ [e])"
  by (rule ext) (auto simp: session_accs_def session_ids_snoc session_entries_snoc)

lemma well_formed_log_snoc:
  "well_formed_log (es @ [e]) \<longleftrightarrow> well_formed_log es \<and>
     (is_signed_decision e \<longrightarrow> entry_request e \<notin> set (decision_ids es)) \<and>
     length (decision_ids (es @ [e])) \<le> MAX_RECOVERY_ACTION_IDS \<and>
     (entry_kind e \<noteq> AthenaTriage \<longrightarrow> ceremony (session_entries (entry_session e) es @ [e])) \<and>
     card (session_ids (es @ [e])) \<le> MAX_RECOVERY_SESSIONS"
proof -
  have "card (session_ids es) \<le> card (session_ids (es @ [e]))"
    by (rule card_mono) (auto simp: session_ids_snoc)
  moreover have "(\<forall>x \<in> session_ids (es @ [e]). ceremony (session_entries x (es @ [e]))) \<longleftrightarrow>
      (\<forall>x \<in> session_ids es. ceremony (session_entries x es)) \<and>
      (entry_kind e \<noteq> AthenaTriage \<longrightarrow> ceremony (session_entries (entry_session e) es @ [e]))"
    by (auto simp: session_ids_snoc session_entries_snoc dest: ceremony_snocD)
  ultimately show ?thesis
    by (auto simp: well_formed_log_def decision_ids_snoc)
qed

lemma recover_entries_snoc:
  "recover_entries hex (es @ [e]) st = and_then (recover_entries hex es st) (recover_entry hex e)"
proof (induction es arbitrary: st)
  case Nil
  then show ?case by (cases "recover_entry hex e st") simp_all
next
  case (Cons a es)
  then show ?case by (cases "recover_entry hex a st") simp_all
qed

lemma recover_entry_of_log:
  assumes "well_formed_log es"
  shows "recover_entry hex e (set (decision_ids es), session_accs es) = Ok st \<longleftrightarrow>
    well_formed_log (es @ [e]) \<and> st = (set (decision_ids (es @ [e])), session_accs (es @ [e]))"
proof -
  let ?ids = "if is_signed_decision e then insert (entry_request e) (set (decision_ids es)) else set (decision_ids es)"
  have ids: "?ids = set (decision_ids (es @ [e]))" by (simp add: decision_ids_snoc)
  have card: "card ?ids = length (decision_ids (es @ [e]))"
    if "\<not> (is_signed_decision e \<and> entry_request e \<in> set (decision_ids es))"
    using that assms unfolding ids
    by (intro distinct_card) (auto simp: decision_ids_snoc well_formed_log_def)
  have cer: "ceremony (session_entries (entry_session e) es)"
    using assms by (cases "entry_session e \<in> session_ids es") (auto simp: well_formed_log_def session_ids_iff)
  have triage: "entry_kind e = AthenaTriage \<Longrightarrow> session_accs (es @ [e]) = session_accs es"
    by (rule ext) (simp add: session_accs_def session_ids_snoc session_entries_snoc)
  have accs: "(if entry_kind e = AthenaTriage then Ok (session_accs es)
      else map_ok (\<lambda>acc. (session_accs es)(entry_session e \<mapsto> acc))
        (advance_session hex e (session_acc (session_entries (entry_session e) es)))) = Ok accs' \<longleftrightarrow>
    (entry_kind e \<noteq> AthenaTriage \<longrightarrow> ceremony (session_entries (entry_session e) es @ [e])) \<and>
    accs' = session_accs (es @ [e])" for accs'
    by (auto simp: advance_session_acc [OF cer] session_accs_upd triage)
  show ?thesis
  proof (cases "is_signed_decision e \<and> entry_request e \<in> set (decision_ids es)")
    case True
    then show ?thesis by (simp add: recover_entry_def well_formed_log_snoc)
  next
    case False
    note [simp] = card [OF this, unfolded ids]
    show ?thesis
      unfolding recover_entry_def Let_def fst_conv snd_conv session_accs_get ids
      using False assms
      by (auto simp: accs well_formed_log_snoc)
  qed
qed

lemma recover_entries_iff:
  "recover_entries hex es ({}, Map.empty) = Ok st \<longleftrightarrow>
     well_formed_log es \<and> st = (set (decision_ids es), session_accs es)"
proof (induction es arbitrary: st rule: rev_induct)
  case Nil
  have "session_accs [] = Map.empty" by (rule ext) (simp add: session_accs_def session_ids_def)
  then show ?case by (auto simp: well_formed_log_def decision_ids_def session_ids_def)
next
  case (snoc e es)
  show ?case
    using recover_entry_of_log [of es hex e st] by (auto simp: recover_entries_snoc snoc well_formed_log_snoc)
qed

text \<open>An ended ceremony as the summary keeps it: its last entry is what ended it.\<close>

definition recovered_session :: "LedgerEntry list \<Rightarrow> Uuid \<Rightarrow> ConsentRecoverySessionV1" where
  "recovered_session es x =
     (let ks = session_entries x es in
      \<lparr>recovered_session_id = x,
       terminal_event = ConsentEventRecord_stable_name (LedgerEntry.event (last ks)),
       terminal_sequence = LedgerEntry.seq (last ks),
       approving_operator_key = map_option (\<lambda>e. ConsentEventRecord.source_id (LedgerEntry.event e)) (approval_of ks),
       approval_action_id = map_option entry_request (approval_of ks)\<rparr>)"

lemma ended_ceremony_last:
  assumes "ended_ceremony ks"
  shows "ending_of ks = Some (last ks)"
proof (cases ks rule: rev_cases)
  case Nil
  then show ?thesis using assms by (simp add: ended_ceremony_def after_requests_def)
next
  case (snoc ks' e)
  have "ending_of ks' = None" and "entry_kind e \<in> {Denial, Revocation, Violation}"
    using assms unfolding snoc ending_of_None
    by (auto simp: ended_ceremony_def after_requests_snoc append_eq_Cons_conv split: if_splits)
  then show ?thesis by (simp add: snoc ending_of_def find_snoc)
qed

lemma complete_session_iff:
  assumes "ceremony (session_entries x es)"
  shows "complete_session hex x (session_acc (session_entries x es)) = Ok s \<longleftrightarrow>
    ended_ceremony (session_entries x es) \<and> s = recovered_session es x"
proof (cases "ended_ceremony (session_entries x es)")
  case True
  then show ?thesis
    using ended_ceremony_last [OF True]
    by (auto simp: complete_session_def recovered_session_def session_acc_def Let_def)
next
  case False
  then show ?thesis using assms by (simp add: ended_ceremony_iff complete_session_def)
qed

lemma complete_sessions_iff:
  assumes "\<forall>x \<in> session_ids es. ceremony (session_entries x es)" and "set xs \<subseteq> session_ids es"
  shows "complete_sessions hex (session_accs es) xs = Ok ss \<longleftrightarrow>
    (\<forall>x \<in> set xs. ended_ceremony (session_entries x es)) \<and> ss = map (recovered_session es) xs"
  using assms(2)
proof (induction xs arbitrary: ss)
  case (Cons x xs)
  then have x: "session_accs es x = Some (session_acc (session_entries x es))"
      "ceremony (session_entries x es)"
    using assms(1) by (auto simp: session_accs_def)
  show ?case using Cons by (auto simp: x complete_session_iff [OF x(2)])
qed auto

definition recoverable :: "LedgerEntry list \<Rightarrow> bool" where
  "recoverable es \<longleftrightarrow> distinct (decision_ids es) \<and> length (decision_ids es) \<le> MAX_RECOVERY_ACTION_IDS \<and>
     (\<forall>x \<in> session_ids es. ended_ceremony (session_entries x es)) \<and>
     card (session_ids es) \<le> MAX_RECOVERY_SESSIONS"

definition recovered_summary :: "u8_32 \<Rightarrow> LedgerCheckpoint \<Rightarrow> LedgerEntry list \<Rightarrow> ConsentRecoverySummaryV1" where
  "recovered_summary digest through es =
     \<lparr>summary_schema = CONSENT_RECOVERY_SUMMARY_SCHEMA, summary_archive_sequence_digest = digest,
      through_checkpoint = through, archived_entry_count = entry_count through,
      replay_action_ids = sorted_list_of_set (set (decision_ids es)),
      recovered_sessions = map (recovered_session es) (sorted_list_of_set (session_ids es)),
      summary_digest = zeroed\<rparr>"

lemma scan_iff:
  "and_then (recover_entries hex es ({}, Map.empty)) (\<lambda>(ids, accs).
     and_then (complete_sessions hex accs (sorted_list_of_set (dom accs))) (f ids)) = Ok s \<longleftrightarrow>
   recoverable es \<and>
   f (set (decision_ids es)) (map (recovered_session es) (sorted_list_of_set (session_ids es))) = Ok s"
proof -
  have "recoverable es \<longleftrightarrow> well_formed_log es \<and> (\<forall>x \<in> session_ids es. ended_ceremony (session_entries x es))"
    by (auto simp: recoverable_def well_formed_log_def ended_ceremony_iff)
  then show ?thesis
    by (auto simp: recover_entries_iff complete_sessions_iff well_formed_log_def)
qed

lemma from_archive_sequence_iff:
  "ConsentRecoverySummaryV1_from_archive_sequence c hex segs = Ok s \<longleftrightarrow>
     (\<exists>digest fp. segs \<noteq> [] \<and> ledger_archive_sequence_digest c segs = Ok digest \<and>
       genesis_checkpoint (LedgerArchiveSegment.base_checkpoint (hd segs)) \<and>
       recoverable (archived_entries segs) \<and>
       checkpoint_fingerprint c (terminal_checkpoint (last segs)) = Ok fp \<and>
       s = (let s0 = recovered_summary digest (terminal_checkpoint (last segs)) (archived_entries segs)
            in s0\<lparr>summary_digest := blake3_hash c (recovery_summary_bytes fp s0)\<rparr>))"
proof (cases segs)
  case (Cons first rest)
  define es where "es = archived_entries segs"
  show ?thesis
  proof (cases "ledger_archive_sequence_digest c segs")
    case (Ok digest)
    show ?thesis
      unfolding ConsentRecoverySummaryV1_from_archive_sequence_def Ok map_err.simps and_then.simps Let_def
        es_def [symmetric]
      by (simp only: Cons list.case if_Err_eq_Ok scan_iff)
        (auto simp: Cons genesis_checkpoint_def recovered_summary_def consent_recovery_summary_digest_def)
  qed (simp add: ConsentRecoverySummaryV1_from_archive_sequence_def)
qed (simp add: ConsentRecoverySummaryV1_from_archive_sequence_def)

lemma summary_digest_irrelevant [simp]:
  "recovery_summary_bytes fp (s\<lparr>summary_digest := d\<rparr>) = recovery_summary_bytes fp s"
  by (simp add: recovery_summary_bytes_def)

lemma from_archive_sequence_digest:
  assumes "ConsentRecoverySummaryV1_from_archive_sequence c hex segs = Ok s"
  shows "consent_recovery_summary_digest c s = Ok (summary_digest s)"
  using assms
  by (auto simp: from_archive_sequence_iff recovered_summary_def consent_recovery_summary_digest_def
      recovery_summary_bytes_def Let_def)

lemma verify_against_archive_iff:
  "ConsentRecoverySummaryV1_verify_against_archive c hex segs s = Ok () \<longleftrightarrow>
     ConsentRecoverySummaryV1_from_archive_sequence c hex segs = Ok s"
  by (auto simp: ConsentRecoverySummaryV1_verify_against_archive_def from_archive_sequence_digest)

lemma windows2_less_iff:
  fixes f :: "'a \<Rightarrow> 'b::linorder"
  shows "(\<forall>(a, b) \<in> set (windows2 xs). f a < f b) \<longleftrightarrow> sorted_wrt (<) (map f xs)"
  by (induction xs rule: windows2.induct) (auto intro: less_trans)

lemma recovered_session_id [simp]: "recovered_session_id (recovered_session es x) = x"
  by (simp add: recovered_session_def Let_def)

lemma from_archive_sequence_verify_self:
  assumes "ConsentRecoverySummaryV1_from_archive_sequence c hex segs = Ok s"
  shows "ConsentRecoverySummaryV1_verify_self c s = Ok ()"
proof -
  have *: "\<forall>(a, b) \<in> set (windows2 (replay_action_ids s)). a < b"
      "\<forall>(a, b) \<in> set (windows2 (recovered_sessions s)). recovered_session_id a < recovered_session_id b"
    using assms windows2_less_iff [of "replay_action_ids s" id]
      windows2_less_iff [of "recovered_sessions s" recovered_session_id]
    by (auto simp: from_archive_sequence_iff recovered_summary_def Let_def comp_def)
  show ?thesis
    using assms from_archive_sequence_digest [OF assms] *
    by (auto simp: ConsentRecoverySummaryV1_verify_self_def from_archive_sequence_iff recovered_summary_def
        Let_def recoverable_def distinct_card)
qed

lemma suffix_compatible_iff:
  "suffix_compatible hex archived seen es = Ok () \<longleftrightarrow>
     (\<forall>e \<in> set es. entry_session e \<notin> archived) \<and> distinct (decision_ids es) \<and>
     set (decision_ids es) \<inter> seen = {}"
  by (induction es arbitrary: seen) (auto simp: decision_ids_def)

lemma verify_recovery_suffix_compatibility_iff:
  "verify_recovery_suffix_compatibility hex s suff = Ok () \<longleftrightarrow>
     (\<forall>e \<in> set suff. entry_session e \<notin> recovered_session_id ` set (recovered_sessions s)) \<and>
     distinct (decision_ids suff) \<and> set (decision_ids suff) \<inter> set (replay_action_ids s) = {}"
  by (simp add: verify_recovery_suffix_compatibility_def suffix_compatible_iff)

lemma decision_ids_append [simp]: "decision_ids (es @ fs) = decision_ids es @ decision_ids fs"
  by (simp add: decision_ids_def)

lemma recovered_history:
  assumes "ConsentRecoverySummaryV1_from_archive_sequence c hex segs = Ok s"
    and "verify_recovery_suffix_compatibility hex s suff = Ok ()"
  shows "distinct (decision_ids (archived_entries segs @ suff))"
    and "\<forall>x \<in> session_ids (archived_entries segs).
      ended_ceremony (session_entries x (archived_entries segs @ suff))"
proof -
  have s: "recoverable (archived_entries segs)"
      "set (replay_action_ids s) = set (decision_ids (archived_entries segs))"
      "recovered_session_id ` set (recovered_sessions s) = session_ids (archived_entries segs)"
    using assms(1) by (auto simp: from_archive_sequence_iff recovered_summary_def Let_def image_comp comp_def)
  show "distinct (decision_ids (archived_entries segs @ suff))"
    using s assms(2) by (auto simp: verify_recovery_suffix_compatibility_iff recoverable_def)
  show "\<forall>x \<in> session_ids (archived_entries segs).
      ended_ceremony (session_entries x (archived_entries segs @ suff))"
  proof
    fix x assume x: "x \<in> session_ids (archived_entries segs)"
    have "session_entries x suff = []"
      using assms(2) x s(3) by (auto simp: verify_recovery_suffix_compatibility_iff session_entries_def filter_empty_conv)
    then show "ended_ceremony (session_entries x (archived_entries segs @ suff))"
      using s(1) x by (simp add: session_entries_def recoverable_def)
  qed
qed

text \<open>
  C5. The recovery summary is exactly what the archive says. A summary comes out of the scan if and only
  if the archive sequence verifies and starts at genesis, no decision id occurs twice, every session is
  some requests, then an optional approval, then what ended it, and the two limits hold; and then it
  holds the decision ids in order and, for each session in order, its last entry and its approval. A
  summary verifies against an archive if and only if the scan of that archive gives it.
\<close>

theorem recovery_summary_exact:
  "(ConsentRecoverySummaryV1_from_archive_sequence c hex segs = Ok s \<longleftrightarrow>
     (\<exists>digest fp. segs \<noteq> [] \<and> ledger_archive_sequence_digest c segs = Ok digest \<and>
       genesis_checkpoint (LedgerArchiveSegment.base_checkpoint (hd segs)) \<and>
       recoverable (archived_entries segs) \<and>
       checkpoint_fingerprint c (terminal_checkpoint (last segs)) = Ok fp \<and>
       s = (let s0 = recovered_summary digest (terminal_checkpoint (last segs)) (archived_entries segs)
            in s0\<lparr>summary_digest := blake3_hash c (recovery_summary_bytes fp s0)\<rparr>))) \<and>
   (ConsentRecoverySummaryV1_verify_against_archive c hex segs s = Ok () \<longleftrightarrow>
     ConsentRecoverySummaryV1_from_archive_sequence c hex segs = Ok s)"
  by (rule conjI [OF from_archive_sequence_iff verify_against_archive_iff])

end
