(* ===== verification/Consent_Compaction.thy ===== *)
theory Consent_Compaction
  imports Consent_Recovery
begin

text \<open>
  Compaction of the consent ledger, the second half of \<open>apps/xenia-peer/src/consent_compaction.rs\<close>:
  the preflight bundle of an archived prefix, the snapshot that keeps only the resident suffix, the
  signed cutover receipt, the active state that later appends advance, the state pins an observer keeps
  against rollback, and the certificate that precedes deletion of the archived prefix.
\<close>

definition CONSENT_COMPACTION_BUNDLE_SCHEMA :: string where
  "CONSENT_COMPACTION_BUNDLE_SCHEMA = ''xenia-consent-compaction-bundle-v1''"

definition CONSENT_COMPACTED_SNAPSHOT_SCHEMA :: string where
  "CONSENT_COMPACTED_SNAPSHOT_SCHEMA = ''xenia-consent-compacted-snapshot-v1''"

definition MAX_CONSENT_COMPACTED_SUFFIX_ENTRIES :: nat where
  "MAX_CONSENT_COMPACTED_SUFFIX_ENTRIES = 100000"

definition CONSENT_COMPACTED_ACTIVE_STATE_SCHEMA :: string where
  "CONSENT_COMPACTED_ACTIVE_STATE_SCHEMA = ''xenia-consent-compacted-active-state-v2''"

definition CONSENT_COMPACTED_CUTOVER_RECEIPT_SCHEMA :: string where
  "CONSENT_COMPACTED_CUTOVER_RECEIPT_SCHEMA = ''xenia-consent-compacted-cutover-receipt-v1''"

definition CONSENT_COMPACTED_STATE_PIN_SCHEMA :: string where
  "CONSENT_COMPACTED_STATE_PIN_SCHEMA = ''xenia-consent-compacted-state-pin-v1''"

definition CONSENT_COMPACTION_GC_CERTIFICATE_SCHEMA :: string where
  "CONSENT_COMPACTION_GC_CERTIFICATE_SCHEMA = ''xenia-consent-compaction-gc-certificate-v1''"

record ConsentCompactionBundleV1 =
  bundle_schema :: string
  archive_segments :: "LedgerArchiveSegment list"
  bundle_recovery_summary :: ConsentRecoverySummaryV1
  bundle_manifest :: LedgerCompactionManifest

record ConsentCompactedSnapshotV1 =
  snapshot_schema :: string
  recovery_summary :: ConsentRecoverySummaryV1
  manifest :: LedgerCompactionManifest
  suffix_entries :: "LedgerEntry list"
  snapshot_digest :: u8_32

record ConsentCompactedCutoverReceiptV1 =
  receipt_schema :: string
  receipt_ledger_epoch_id :: u8_32
  activation_snapshot_digest :: u8_32
  receipt_archive_sequence_digest :: u8_32
  receipt_recovery_summary_digest :: u8_32
  source_complete_checkpoint :: LedgerCheckpoint
  activated_checkpoint :: LedgerCheckpoint
  activated_at_unix_secs :: u64
  receipt_signature :: u8_64

record ConsentCompactedStatePinV1 =
  pin_schema :: string
  pin_ledger_epoch_id :: u8_32
  pin_cutover_receipt_fingerprint :: u8_32
  pin_generation :: u64
  pin_active_state_digest :: u8_32
  pin_checkpoint :: LedgerCheckpoint
  pin_created_at_unix_secs :: u64
  pin_signature :: u8_64

record ConsentCompactionGcCertificateV1 =
  gc_schema :: string
  gc_ledger_epoch_id :: u8_32
  gc_cutover_receipt_fingerprint :: u8_32
  gc_archive_sequence_digest :: u8_32
  gc_recovery_summary_digest :: u8_32
  gc_active_state_digest :: u8_32
  gc_state_pin_fingerprint :: u8_32
  gc_archive_through_checkpoint :: LedgerCheckpoint
  gc_current_checkpoint :: LedgerCheckpoint
  gc_issued_at_unix_secs :: u64
  gc_signature :: u8_64

record ConsentCompactedActiveStateV1 =
  active_schema :: string
  activation_snapshot :: ConsentCompactedSnapshotV1
  cutover_receipt :: ConsentCompactedCutoverReceiptV1
  generation :: u64
  previous_state_digest :: u8_32
  active_checkpoint :: LedgerCheckpoint
  resident_entries :: "LedgerEntry list"
  archived_replay_action_ids :: "Uuid list"
  archived_terminal_sessions :: "Uuid list"
  state_digest :: u8_32

record 'sk RestoredConsentStateV1 =
  restored_chain :: "'sk Chain"
  restored_replay_action_ids :: "Uuid set"
  restored_terminal_sessions :: "Uuid set"

definition RestoredConsentStateV1_archived_replay_action_count :: "'sk RestoredConsentStateV1 \<Rightarrow> nat" where
  "RestoredConsentStateV1_archived_replay_action_count r = card (restored_replay_action_ids r)"

definition RestoredConsentStateV1_archived_terminal_session_count :: "'sk RestoredConsentStateV1 \<Rightarrow> nat" where
  "RestoredConsentStateV1_archived_terminal_session_count r = card (restored_terminal_sessions r)"

definition RestoredConsentStateV1_into_parts ::
    "'sk RestoredConsentStateV1 \<Rightarrow> 'sk Chain \<times> Uuid set \<times> Uuid set" where
  "RestoredConsentStateV1_into_parts r =
     (restored_chain r, restored_replay_action_ids r, restored_terminal_sessions r)"

section \<open>Digests and signed messages\<close>

definition resident_entry_bytes :: "LedgerEntry \<Rightarrow> bytes" where
  "resident_entry_bytes e =
     to_be_bytes (LedgerEntry.seq e) @ slice (LedgerEntry.entry_hash e) @ slice (LedgerEntry.signature e)"

definition consent_compacted_snapshot_digest ::
    "('sk, 'vk, 'ml) crypto \<Rightarrow> ConsentCompactedSnapshotV1 \<Rightarrow> (u8_32, ConsentRecoveryError) result" where
  "consent_compacted_snapshot_digest c s =
     (if snapshot_schema s \<noteq> CONSENT_COMPACTED_SNAPSHOT_SCHEMA
      then Err (UnsupportedSnapshotSchema (snapshot_schema s))
      else
        and_then (map_err RecoveryCheckpoint (checkpoint_fingerprint c (archived_through_checkpoint (manifest s)))) (\<lambda>archived.
        and_then (map_err RecoveryCheckpoint (checkpoint_fingerprint c (current_checkpoint (manifest s)))) (\<lambda>current.
        Ok (blake3_hash c (as_bytes ''xenia:consent-compacted-snapshot:v1'' @ [0] @
          as_bytes (snapshot_schema s) @ [0] @ slice (summary_digest (recovery_summary s)) @
          slice (summary_archive_sequence_digest (recovery_summary s)) @ slice archived @ slice current @
          slice (LedgerCompactionManifest.signature (manifest s)) @
          to_be_bytes (of_nat (length (suffix_entries s))) @
          concat (map resident_entry_bytes (suffix_entries s)))))))"

definition consent_ledger_epoch_id :: "('sk, 'vk, 'ml) crypto \<Rightarrow> u8_32 \<Rightarrow> u8_32" where
  "consent_ledger_epoch_id c pk =
     blake3_hash c (as_bytes ''xenia:consent-ledger-epoch:v1'' @ [0] @ slice pk)"

definition consent_compacted_cutover_receipt_message ::
    "('sk, 'vk, 'ml) crypto \<Rightarrow> ConsentCompactedCutoverReceiptV1 \<Rightarrow> (bytes, ConsentRecoveryError) result" where
  "consent_compacted_cutover_receipt_message c r =
     (if receipt_schema r \<noteq> CONSENT_COMPACTED_CUTOVER_RECEIPT_SCHEMA
      then Err (UnsupportedCutoverReceiptSchema (receipt_schema r))
      else
        and_then (map_err RecoveryCheckpoint (checkpoint_fingerprint c (source_complete_checkpoint r))) (\<lambda>source.
        and_then (map_err RecoveryCheckpoint (checkpoint_fingerprint c (activated_checkpoint r))) (\<lambda>activated.
        Ok (as_bytes ''xenia:consent-compacted-cutover-receipt:v1'' @ [0] @ as_bytes (receipt_schema r) @ [0] @
          slice (receipt_ledger_epoch_id r) @ slice (activation_snapshot_digest r) @
          slice (receipt_archive_sequence_digest r) @ slice (receipt_recovery_summary_digest r) @
          slice source @ slice activated @ to_be_bytes (activated_at_unix_secs r)))))"

definition consent_compacted_cutover_receipt_fingerprint ::
    "('sk, 'vk, 'ml) crypto \<Rightarrow> ConsentCompactedCutoverReceiptV1 \<Rightarrow> (u8_32, ConsentRecoveryError) result" where
  "consent_compacted_cutover_receipt_fingerprint c r =
     map_ok (\<lambda>message. blake3_hash c (message @ slice (receipt_signature r)))
       (consent_compacted_cutover_receipt_message c r)"

definition consent_compacted_state_pin_message ::
    "('sk, 'vk, 'ml) crypto \<Rightarrow> ConsentCompactedStatePinV1 \<Rightarrow> (bytes, ConsentRecoveryError) result" where
  "consent_compacted_state_pin_message c p =
     (if pin_schema p \<noteq> CONSENT_COMPACTED_STATE_PIN_SCHEMA then Err (UnsupportedStatePinSchema (pin_schema p))
      else
        and_then (map_err RecoveryCheckpoint (checkpoint_fingerprint c (pin_checkpoint p))) (\<lambda>checkpoint.
        Ok (as_bytes ''xenia:consent-compacted-state-pin:v1'' @ [0] @ as_bytes (pin_schema p) @ [0] @
          slice (pin_ledger_epoch_id p) @ slice (pin_cutover_receipt_fingerprint p) @
          to_be_bytes (pin_generation p) @ slice (pin_active_state_digest p) @ slice checkpoint @
          to_be_bytes (pin_created_at_unix_secs p))))"

definition consent_compacted_state_pin_fingerprint ::
    "('sk, 'vk, 'ml) crypto \<Rightarrow> ConsentCompactedStatePinV1 \<Rightarrow> (u8_32, ConsentRecoveryError) result" where
  "consent_compacted_state_pin_fingerprint c p =
     map_ok (\<lambda>message. blake3_hash c (message @ slice (pin_signature p)))
       (consent_compacted_state_pin_message c p)"

definition consent_compaction_gc_certificate_message ::
    "('sk, 'vk, 'ml) crypto \<Rightarrow> ConsentCompactionGcCertificateV1 \<Rightarrow> (bytes, ConsentRecoveryError) result" where
  "consent_compaction_gc_certificate_message c g =
     (if gc_schema g \<noteq> CONSENT_COMPACTION_GC_CERTIFICATE_SCHEMA
      then Err (UnsupportedGcCertificateSchema (gc_schema g))
      else
        and_then (map_err RecoveryCheckpoint (checkpoint_fingerprint c (gc_archive_through_checkpoint g))) (\<lambda>archive.
        and_then (map_err RecoveryCheckpoint (checkpoint_fingerprint c (gc_current_checkpoint g))) (\<lambda>current.
        Ok (as_bytes ''xenia:consent-compaction-gc-certificate:v1'' @ [0] @ as_bytes (gc_schema g) @ [0] @
          slice (gc_ledger_epoch_id g) @ slice (gc_cutover_receipt_fingerprint g) @
          slice (gc_archive_sequence_digest g) @ slice (gc_recovery_summary_digest g) @
          slice (gc_active_state_digest g) @ slice (gc_state_pin_fingerprint g) @
          slice archive @ slice current @ to_be_bytes (gc_issued_at_unix_secs g)))))"

definition consent_compaction_gc_certificate_fingerprint ::
    "('sk, 'vk, 'ml) crypto \<Rightarrow> ConsentCompactionGcCertificateV1 \<Rightarrow> (u8_32, ConsentRecoveryError) result" where
  "consent_compaction_gc_certificate_fingerprint c g =
     map_ok (\<lambda>message. blake3_hash c (as_bytes ''xenia:consent-compaction-gc-certificate-fingerprint:v1'' @
         message @ slice (gc_signature g)))
       (consent_compaction_gc_certificate_message c g)"

definition consent_compacted_active_state_digest ::
    "('sk, 'vk, 'ml) crypto \<Rightarrow> ConsentCompactedActiveStateV1 \<Rightarrow> (u8_32, ConsentRecoveryError) result" where
  "consent_compacted_active_state_digest c st =
     (if active_schema st \<noteq> CONSENT_COMPACTED_ACTIVE_STATE_SCHEMA
      then Err (UnsupportedActiveStateSchema (active_schema st))
      else
        and_then (map_err RecoveryCheckpoint
          (checkpoint_fingerprint c (current_checkpoint (manifest (activation_snapshot st))))) (\<lambda>activation.
        and_then (map_err RecoveryCheckpoint (checkpoint_fingerprint c (active_checkpoint st))) (\<lambda>current.
        and_then (consent_compacted_cutover_receipt_fingerprint c (cutover_receipt st)) (\<lambda>receipt.
        Ok (blake3_hash c (as_bytes ''xenia:consent-compacted-active-state:v1'' @ [0] @
          as_bytes (active_schema st) @ [0] @ slice (snapshot_digest (activation_snapshot st)) @
          slice receipt @ to_be_bytes (generation st) @ slice (previous_state_digest st) @
          slice activation @ slice current @
          to_be_bytes (of_nat (length (resident_entries st))) @
          concat (map resident_entry_bytes (resident_entries st)) @
          to_be_bytes (of_nat (length (archived_replay_action_ids st))) @
          concat (map slice (archived_replay_action_ids st)) @
          to_be_bytes (of_nat (length (archived_terminal_sessions st))) @
          concat (map slice (archived_terminal_sessions st))))))))"

section \<open>The preflight bundle\<close>

text \<open>\<open>usize\<close> is 64 bits wide, so the conversions of \<open>local_suffix_start\<close> do not fail.\<close>

definition local_suffix_start :: "u64 \<Rightarrow> LedgerCheckpoint option \<Rightarrow> (nat, ConsentRecoveryError) result" where
  "local_suffix_start absolute anchor =
     (let offset = (case anchor of Some cp \<Rightarrow> unat (entry_count cp) | None \<Rightarrow> 0) in
      if offset \<le> unat absolute then Ok (unat absolute - offset) else Err SummaryMismatch)"

definition suffix_from :: "'a list \<Rightarrow> nat \<Rightarrow> ConsentRecoveryError \<Rightarrow> ('a list, ConsentRecoveryError) result" where
  "suffix_from xs i err = (if i \<le> length xs then Ok (drop i xs) else Err err)"

definition ConsentCompactionBundleV1_verify_suffix_compatibility ::
    "(bytes \<Rightarrow> string) \<Rightarrow> LedgerEntry list \<Rightarrow> LedgerCheckpoint option \<Rightarrow> ConsentCompactionBundleV1 \<Rightarrow>
     (unit, ConsentRecoveryError) result" where
  "ConsentCompactionBundleV1_verify_suffix_compatibility hex es anchor b =
     and_then (local_suffix_start (archived_entry_count (bundle_recovery_summary b)) anchor) (\<lambda>start.
     and_then (suffix_from es start SummaryMismatch) (\<lambda>suff.
     verify_recovery_suffix_compatibility hex (bundle_recovery_summary b) suff))"

definition ConsentCompactionBundleV1_build ::
    "('sk, 'vk, 'ml) crypto \<Rightarrow> (bytes \<Rightarrow> string) \<Rightarrow> 'sk Chain \<Rightarrow> LedgerArchiveSegment list \<Rightarrow> u64 \<Rightarrow>
     (ConsentCompactionBundleV1, ConsentRecoveryError) result" where
  "ConsentCompactionBundleV1_build c hex ch segments ts =
     and_then (ConsentRecoverySummaryV1_from_archive_sequence c hex segments) (\<lambda>summary.
     and_then (map_err Manifest (Chain_sign_compaction_manifest c (through_checkpoint summary)
       (summary_archive_sequence_digest summary) (summary_digest summary) ts ch)) (\<lambda>m.
     let bundle = \<lparr>bundle_schema = CONSENT_COMPACTION_BUNDLE_SCHEMA, archive_segments = segments,
           bundle_recovery_summary = summary, bundle_manifest = m\<rparr>
     in map_ok (\<lambda>_. bundle)
          (ConsentCompactionBundleV1_verify_suffix_compatibility hex (Chain.entries ch)
             (Chain_base_checkpoint ch) bundle)))"

text \<open>The three comparisons of a manifest with the summary it signs, the same in every verifier.\<close>

definition manifest_binds ::
    "LedgerCompactionManifest \<Rightarrow> ConsentRecoverySummaryV1 \<Rightarrow> (unit, ConsentRecoveryError) result" where
  "manifest_binds m s =
     (if archive_sequence_digest m \<noteq> summary_archive_sequence_digest s then Err ManifestArchiveMismatch
      else if recovery_summary_digest m \<noteq> summary_digest s then Err ManifestRecoveryMismatch
      else if archived_through_checkpoint m \<noteq> through_checkpoint s then Err ManifestBoundaryMismatch
      else Ok ())"

definition ConsentCompactionBundleV1_verify_against_live_ledger ::
    "('sk, 'vk, 'ml) crypto \<Rightarrow> (bytes \<Rightarrow> string) \<Rightarrow> LedgerEntry list \<Rightarrow> 'vk \<Rightarrow> LedgerCheckpoint option \<Rightarrow>
     ConsentCompactionBundleV1 \<Rightarrow> (unit, ConsentRecoveryError) result" where
  "ConsentCompactionBundleV1_verify_against_live_ledger c hex es pk anchor b =
     (if bundle_schema b \<noteq> CONSENT_COMPACTION_BUNDLE_SCHEMA then Err (UnsupportedBundleSchema (bundle_schema b))
      else
        and_then (ConsentRecoverySummaryV1_verify_against_archive c hex (archive_segments b)
          (bundle_recovery_summary b)) (\<lambda>_.
        and_then (manifest_binds (bundle_manifest b) (bundle_recovery_summary b)) (\<lambda>_.
        and_then (map_err Manifest (Verifier_verify_ledger_compaction_manifest_against_entries c
          (bundle_manifest b) es pk anchor)) (\<lambda>_.
        ConsentCompactionBundleV1_verify_suffix_compatibility hex es anchor b))))"

section \<open>The snapshot\<close>

definition check_suffix_len :: "LedgerEntry list \<Rightarrow> (unit, ConsentRecoveryError) result" where
  "check_suffix_len es =
     (if length es > MAX_CONSENT_COMPACTED_SUFFIX_ENTRIES
      then Err (TooManySuffixEntries (length es) MAX_CONSENT_COMPACTED_SUFFIX_ENTRIES) else Ok ())"

definition ConsentCompactedSnapshotV1_build ::
    "('sk, 'vk, 'ml) crypto \<Rightarrow> (bytes \<Rightarrow> string) \<Rightarrow> ConsentCompactionBundleV1 \<Rightarrow> LedgerEntry list \<Rightarrow> 'vk \<Rightarrow>
     LedgerCheckpoint option \<Rightarrow> (ConsentCompactedSnapshotV1, ConsentRecoveryError) result" where
  "ConsentCompactedSnapshotV1_build c hex b es pk anchor =
     and_then (ConsentCompactionBundleV1_verify_against_live_ledger c hex es pk anchor b) (\<lambda>_.
     and_then (local_suffix_start (archived_entry_count (bundle_recovery_summary b)) anchor) (\<lambda>start.
     and_then (suffix_from es start SummaryMismatch) (\<lambda>suff.
     and_then (check_suffix_len suff) (\<lambda>_.
     let snapshot = \<lparr>snapshot_schema = CONSENT_COMPACTED_SNAPSHOT_SCHEMA,
           recovery_summary = bundle_recovery_summary b, manifest = bundle_manifest b,
           suffix_entries = suff, snapshot_digest = zeroed\<rparr>
     in map_ok (\<lambda>d. snapshot\<lparr>snapshot_digest := d\<rparr>) (consent_compacted_snapshot_digest c snapshot)))))"

text \<open>
  \<open>verify\<close> and \<open>verify_signed_frontier\<close> are one function of how the summary itself is checked: against
  the archive, or by its own digest.
\<close>

definition verify_snapshot_with ::
    "('sk, 'vk, 'ml) crypto \<Rightarrow> (bytes \<Rightarrow> string) \<Rightarrow>
     (ConsentRecoverySummaryV1 \<Rightarrow> (unit, ConsentRecoveryError) result) \<Rightarrow> 'vk \<Rightarrow> ConsentCompactedSnapshotV1 \<Rightarrow>
     (unit, ConsentRecoveryError) result" where
  "verify_snapshot_with c hex check_summary pk s =
     (if snapshot_schema s \<noteq> CONSENT_COMPACTED_SNAPSHOT_SCHEMA
      then Err (UnsupportedSnapshotSchema (snapshot_schema s))
      else
        and_then (check_suffix_len (suffix_entries s)) (\<lambda>_.
        and_then (consent_compacted_snapshot_digest c s) (\<lambda>d.
        if d \<noteq> snapshot_digest s then Err SnapshotDigestMismatch
        else
          and_then (check_summary (recovery_summary s)) (\<lambda>_.
          and_then (manifest_binds (manifest s) (recovery_summary s)) (\<lambda>_.
          and_then (map_err Manifest (Verifier_verify_ledger_compaction_manifest c (manifest s))) (\<lambda>_.
          if ledger_public_key (current_checkpoint (manifest s)) \<noteq> ed_key_to_bytes c pk then Err SummaryMismatch
          else
            and_then (map_err RecoveryContinuity (Verifier_verify_checkpoint_extension c
              (through_checkpoint (recovery_summary s)) (current_checkpoint (manifest s)) (suffix_entries s))) (\<lambda>_.
            verify_recovery_suffix_compatibility hex (recovery_summary s) (suffix_entries s))))))))"

definition ConsentCompactedSnapshotV1_verify ::
    "('sk, 'vk, 'ml) crypto \<Rightarrow> (bytes \<Rightarrow> string) \<Rightarrow> LedgerArchiveSegment list \<Rightarrow> 'vk \<Rightarrow>
     ConsentCompactedSnapshotV1 \<Rightarrow> (unit, ConsentRecoveryError) result" where
  "ConsentCompactedSnapshotV1_verify c hex segments pk s =
     verify_snapshot_with c hex (ConsentRecoverySummaryV1_verify_against_archive c hex segments) pk s"

definition ConsentCompactedSnapshotV1_verify_signed_frontier ::
    "('sk, 'vk, 'ml) crypto \<Rightarrow> (bytes \<Rightarrow> string) \<Rightarrow> 'vk \<Rightarrow> ConsentCompactedSnapshotV1 \<Rightarrow>
     (unit, ConsentRecoveryError) result" where
  "ConsentCompactedSnapshotV1_verify_signed_frontier c hex pk s =
     verify_snapshot_with c hex (ConsentRecoverySummaryV1_verify_self c) pk s"

definition ConsentCompactedSnapshotV1_restore_state ::
    "('sk, 'vk, 'ml) crypto \<Rightarrow> (bytes \<Rightarrow> string) \<Rightarrow> LedgerArchiveSegment list \<Rightarrow> 'sk \<Rightarrow>
     ConsentCompactedSnapshotV1 \<Rightarrow> ('sk RestoredConsentStateV1, ConsentRecoveryError) result" where
  "ConsentCompactedSnapshotV1_restore_state c hex segments sk s =
     (let pk = ed_verifying_key c sk; summary = recovery_summary s in
      if ledger_public_key (current_checkpoint (manifest s)) \<noteq> ed_key_to_bytes c pk
      then Err RestoreSigningKeyMismatch
      else map_ok (\<lambda>_. \<lparr>restored_chain = Chain_from_checkpoint_suffix (through_checkpoint summary) (suffix_entries s) sk,
            restored_replay_action_ids = set (replay_action_ids summary),
            restored_terminal_sessions = set (map recovered_session_id (recovered_sessions summary))\<rparr>)
          (ConsentCompactedSnapshotV1_verify c hex segments pk s))"

section \<open>The cutover receipt\<close>

definition ConsentCompactedCutoverReceiptV1_verify ::
    "('sk, 'vk, 'ml) crypto \<Rightarrow> 'vk \<Rightarrow> ConsentCompactedSnapshotV1 \<Rightarrow> ConsentCompactedCutoverReceiptV1 \<Rightarrow>
     (unit, ConsentRecoveryError) result" where
  "ConsentCompactedCutoverReceiptV1_verify c pk snapshot r =
     (let source = source_complete_checkpoint r; activated = activated_checkpoint r;
          pkb = ed_key_to_bytes c pk in
      if receipt_schema r \<noteq> CONSENT_COMPACTED_CUTOVER_RECEIPT_SCHEMA
      then Err (UnsupportedCutoverReceiptSchema (receipt_schema r))
      else
        and_then (map_err RecoveryCheckpoint (Verifier_verify_checkpoint c source)) (\<lambda>_.
        and_then (map_err RecoveryCheckpoint (Verifier_verify_checkpoint c activated)) (\<lambda>_.
        if ledger_public_key source \<noteq> pkb \<or> ledger_public_key activated \<noteq> pkb \<or>
           ledger_public_key source \<noteq> ledger_public_key activated then Err CrossEpochCutover
        else if receipt_ledger_epoch_id r \<noteq> consent_ledger_epoch_id c pkb then Err CrossEpochCutover
        else if entry_count source \<noteq> entry_count activated \<or> head_hash source \<noteq> head_hash activated
        then Err CutoverHeadMismatch
        else if activated_at_unix_secs r < LedgerCheckpoint.timestamp_unix_secs source \<or>
          LedgerCheckpoint.timestamp_unix_secs activated < LedgerCheckpoint.timestamp_unix_secs source
        then Err CutoverTimestampRegressed
        else if activation_snapshot_digest r \<noteq> snapshot_digest snapshot \<or>
          receipt_archive_sequence_digest r \<noteq> summary_archive_sequence_digest (recovery_summary snapshot) \<or>
          receipt_recovery_summary_digest r \<noteq> summary_digest (recovery_summary snapshot) \<or>
          source \<noteq> current_checkpoint (manifest snapshot)
        then Err CutoverSnapshotMismatch
        else and_then (consent_compacted_cutover_receipt_message c r) (\<lambda>message.
          if ed_verify c pk message (receipt_signature r) then Ok ()
          else Err InvalidCutoverReceiptSignature))))"

definition ConsentCompactedCutoverReceiptV1_sign ::
    "('sk, 'vk, 'ml) crypto \<Rightarrow> ConsentCompactedSnapshotV1 \<Rightarrow> LedgerCheckpoint \<Rightarrow> 'sk \<Rightarrow> u64 \<Rightarrow>
     (ConsentCompactedCutoverReceiptV1, ConsentRecoveryError) result" where
  "ConsentCompactedCutoverReceiptV1_sign c snapshot activated sk at =
     (let source = current_checkpoint (manifest snapshot);
          receipt = \<lparr>receipt_schema = CONSENT_COMPACTED_CUTOVER_RECEIPT_SCHEMA,
            receipt_ledger_epoch_id = consent_ledger_epoch_id c (ledger_public_key source),
            activation_snapshot_digest = snapshot_digest snapshot,
            receipt_archive_sequence_digest = summary_archive_sequence_digest (recovery_summary snapshot),
            receipt_recovery_summary_digest = summary_digest (recovery_summary snapshot),
            source_complete_checkpoint = source, activated_checkpoint = activated,
            activated_at_unix_secs = at, receipt_signature = zeroed\<rparr>
      in and_then (consent_compacted_cutover_receipt_message c receipt) (\<lambda>message.
         let receipt = receipt\<lparr>receipt_signature := ed_sign c sk message\<rparr>
         in map_ok (\<lambda>_. receipt)
              (ConsentCompactedCutoverReceiptV1_verify c (ed_verifying_key c sk) snapshot receipt)))"

section \<open>The active state\<close>

definition ConsentCompactedActiveStateV1_verify ::
    "('sk, 'vk, 'ml) crypto \<Rightarrow> (bytes \<Rightarrow> string) \<Rightarrow> 'vk \<Rightarrow> ConsentCompactedActiveStateV1 \<Rightarrow>
     (unit, ConsentRecoveryError) result" where
  "ConsentCompactedActiveStateV1_verify c hex pk st =
     (let snapshot = activation_snapshot st; summary = recovery_summary snapshot;
          base = through_checkpoint summary; n = length (suffix_entries snapshot) in
      if active_schema st \<noteq> CONSENT_COMPACTED_ACTIVE_STATE_SCHEMA
      then Err (UnsupportedActiveStateSchema (active_schema st))
      else
        and_then (check_suffix_len (resident_entries st)) (\<lambda>_.
        and_then (consent_compacted_active_state_digest c st) (\<lambda>d.
        if d \<noteq> state_digest st then Err ActiveStateDigestMismatch
        else if (generation st = 0 \<and> previous_state_digest st \<noteq> zeroed) \<or>
          (generation st > 0 \<and> previous_state_digest st = zeroed) then Err ActiveGenerationMismatch
        else
          and_then (ConsentCompactedSnapshotV1_verify_signed_frontier c hex pk snapshot) (\<lambda>_.
          and_then (ConsentCompactedCutoverReceiptV1_verify c pk snapshot (cutover_receipt st)) (\<lambda>_.
          if ledger_public_key (active_checkpoint st) \<noteq> ed_key_to_bytes c pk
          then Err RestoreSigningKeyMismatch
          else if archived_replay_action_ids st \<noteq> replay_action_ids summary then Err ActiveReplayIndexMismatch
          else if archived_terminal_sessions st \<noteq> map recovered_session_id (recovered_sessions summary)
          then Err ActiveTerminalIndexMismatch
          else if entry_count (active_checkpoint st) < entry_count base then Err ActiveAnchorMismatch
          else
            and_then (map_err RecoveryContinuity
              (Verifier_verify_checkpoint_extension c base (active_checkpoint st) (resident_entries st))) (\<lambda>_.
            if n > length (resident_entries st) then Err ActivationSuffixMismatch
            else if take n (resident_entries st) \<noteq> suffix_entries snapshot then Err ActivationSuffixMismatch
            else verify_recovery_suffix_compatibility hex summary (resident_entries st)))))))"

definition ConsentCompactedActiveStateV1_activate ::
    "('sk, 'vk, 'ml) crypto \<Rightarrow> (bytes \<Rightarrow> string) \<Rightarrow> ConsentCompactedSnapshotV1 \<Rightarrow> LedgerArchiveSegment list \<Rightarrow>
     'sk \<Rightarrow> u64 \<Rightarrow> (ConsentCompactedActiveStateV1, ConsentRecoveryError) result" where
  "ConsentCompactedActiveStateV1_activate c hex snapshot segments sk ts =
     and_then (ConsentCompactedSnapshotV1_restore_state c hex segments sk snapshot) (\<lambda>restored.
     let cp = Chain_sign_checkpoint c ts (restored_chain restored) in
     and_then (ConsentCompactedCutoverReceiptV1_sign c snapshot cp sk ts) (\<lambda>receipt.
     let st = \<lparr>active_schema = CONSENT_COMPACTED_ACTIVE_STATE_SCHEMA, activation_snapshot = snapshot,
           cutover_receipt = receipt, generation = 0, previous_state_digest = zeroed,
           active_checkpoint = cp, resident_entries = Chain.entries (restored_chain restored),
           archived_replay_action_ids = sorted_list_of_set (restored_replay_action_ids restored),
           archived_terminal_sessions = sorted_list_of_set (restored_terminal_sessions restored),
           state_digest = zeroed\<rparr>
     in and_then (consent_compacted_active_state_digest c st) (\<lambda>d.
        let st = st\<lparr>state_digest := d\<rparr>
        in map_ok (\<lambda>_. st) (ConsentCompactedActiveStateV1_verify c hex (ed_verifying_key c sk) st))))"

definition ConsentCompactedActiveStateV1_advance_from_chain ::
    "('sk, 'vk, 'ml) crypto \<Rightarrow> (bytes \<Rightarrow> string) \<Rightarrow> 'sk Chain \<Rightarrow> u64 \<Rightarrow> ConsentCompactedActiveStateV1 \<Rightarrow>
     (ConsentCompactedActiveStateV1, ConsentRecoveryError) result" where
  "ConsentCompactedActiveStateV1_advance_from_chain c hex ch ts st =
     (if Chain_base_checkpoint ch \<noteq> Some (through_checkpoint (recovery_summary (activation_snapshot st)))
      then Err ActiveAnchorMismatch
      else
        and_then (ok_or (checked_add (generation st) 1) ActiveGenerationOverflow) (\<lambda>gen.
        let nxt = \<lparr>active_schema = CONSENT_COMPACTED_ACTIVE_STATE_SCHEMA,
              activation_snapshot = activation_snapshot st, cutover_receipt = cutover_receipt st,
              generation = gen, previous_state_digest = state_digest st,
              active_checkpoint = Chain_sign_checkpoint c ts ch, resident_entries = Chain.entries ch,
              archived_replay_action_ids = archived_replay_action_ids st,
              archived_terminal_sessions = archived_terminal_sessions st, state_digest = zeroed\<rparr>
        in and_then (consent_compacted_active_state_digest c nxt) (\<lambda>d.
           let nxt = nxt\<lparr>state_digest := d\<rparr>
           in and_then (ok_or (ed_key_from_bytes c (ledger_public_key (active_checkpoint nxt))) SummaryMismatch) (\<lambda>pk.
              map_ok (\<lambda>_. nxt) (ConsentCompactedActiveStateV1_verify c hex pk nxt)))))"

definition ConsentCompactedActiveStateV1_restore_state ::
    "('sk, 'vk, 'ml) crypto \<Rightarrow> (bytes \<Rightarrow> string) \<Rightarrow> 'sk \<Rightarrow> ConsentCompactedActiveStateV1 \<Rightarrow>
     ('sk RestoredConsentStateV1, ConsentRecoveryError) result" where
  "ConsentCompactedActiveStateV1_restore_state c hex sk st =
     map_ok (\<lambda>_. \<lparr>restored_chain = Chain_from_checkpoint_suffix
           (through_checkpoint (recovery_summary (activation_snapshot st))) (resident_entries st) sk,
         restored_replay_action_ids = set (archived_replay_action_ids st),
         restored_terminal_sessions = set (archived_terminal_sessions st)\<rparr>)
       (ConsentCompactedActiveStateV1_verify c hex (ed_verifying_key c sk) st)"

section \<open>State pins\<close>

definition ConsentCompactedStatePinV1_verify_against_state ::
    "('sk, 'vk, 'ml) crypto \<Rightarrow> (bytes \<Rightarrow> string) \<Rightarrow> ConsentCompactedActiveStateV1 \<Rightarrow> 'vk \<Rightarrow>
     ConsentCompactedStatePinV1 \<Rightarrow> (unit, ConsentRecoveryError) result" where
  "ConsentCompactedStatePinV1_verify_against_state c hex st pk p =
     (let cp = pin_checkpoint p; base = through_checkpoint (recovery_summary (activation_snapshot st)) in
      if pin_schema p \<noteq> CONSENT_COMPACTED_STATE_PIN_SCHEMA then Err (UnsupportedStatePinSchema (pin_schema p))
      else
        and_then (ConsentCompactedActiveStateV1_verify c hex pk st) (\<lambda>_.
        and_then (map_err RecoveryCheckpoint (Verifier_verify_checkpoint c cp)) (\<lambda>_.
        if ledger_public_key cp \<noteq> ed_key_to_bytes c pk \<or>
           pin_ledger_epoch_id p \<noteq> receipt_ledger_epoch_id (cutover_receipt st) then Err StatePinIdentityMismatch
        else
          and_then (consent_compacted_cutover_receipt_fingerprint c (cutover_receipt st)) (\<lambda>fp.
          if pin_cutover_receipt_fingerprint p \<noteq> fp then Err StatePinIdentityMismatch
          else if pin_created_at_unix_secs p < LedgerCheckpoint.timestamp_unix_secs cp
          then Err StatePinTimestampRegressed
          else
            and_then (consent_compacted_state_pin_message c p) (\<lambda>message.
            if \<not> ed_verify c pk message (pin_signature p) then Err InvalidStatePinSignature
            else if pin_generation p > generation st
            then Err (StatePinGenerationRollback (pin_generation p) (generation st))
            else if pin_generation p = generation st
            then (if pin_active_state_digest p \<noteq> state_digest st \<or> cp \<noteq> active_checkpoint st
              then Err StatePinSameGenerationMismatch else Ok ())
            else if entry_count cp < entry_count base then Err StatePinPredatesAnchor
            else
              and_then (suffix_from (resident_entries st) (unat (entry_count cp - entry_count base))
                StatePinPredatesAnchor) (\<lambda>suff.
              map_err RecoveryContinuity
                (Verifier_verify_checkpoint_extension c cp (active_checkpoint st) suff)))))))"

definition ConsentCompactedStatePinV1_sign_for_state ::
    "('sk, 'vk, 'ml) crypto \<Rightarrow> (bytes \<Rightarrow> string) \<Rightarrow> ConsentCompactedActiveStateV1 \<Rightarrow> 'sk \<Rightarrow> u64 \<Rightarrow>
     (ConsentCompactedStatePinV1, ConsentRecoveryError) result" where
  "ConsentCompactedStatePinV1_sign_for_state c hex st sk at =
     and_then (ConsentCompactedActiveStateV1_verify c hex (ed_verifying_key c sk) st) (\<lambda>_.
     if at < LedgerCheckpoint.timestamp_unix_secs (active_checkpoint st) then Err StatePinTimestampRegressed
     else
       and_then (consent_compacted_cutover_receipt_fingerprint c (cutover_receipt st)) (\<lambda>fp.
       let pin = \<lparr>pin_schema = CONSENT_COMPACTED_STATE_PIN_SCHEMA,
             pin_ledger_epoch_id = receipt_ledger_epoch_id (cutover_receipt st),
             pin_cutover_receipt_fingerprint = fp, pin_generation = generation st,
             pin_active_state_digest = state_digest st, pin_checkpoint = active_checkpoint st,
             pin_created_at_unix_secs = at, pin_signature = zeroed\<rparr>
       in and_then (consent_compacted_state_pin_message c pin) (\<lambda>message.
          let pin = pin\<lparr>pin_signature := ed_sign c sk message\<rparr>
          in map_ok (\<lambda>_. pin)
               (ConsentCompactedStatePinV1_verify_against_state c hex st (ed_verifying_key c sk) pin))))"

section \<open>The certificate for removing the archived prefix\<close>

definition last_terminal_checkpoint ::
    "LedgerArchiveSegment list \<Rightarrow> (LedgerCheckpoint, ConsentRecoveryError) result" where
  "last_terminal_checkpoint segments =
     (if segments = [] then Err (Archive EmptySequence) else Ok (terminal_checkpoint (last segments)))"

definition ConsentCompactionGcCertificateV1_verify ::
    "('sk, 'vk, 'ml) crypto \<Rightarrow> (bytes \<Rightarrow> string) \<Rightarrow> ConsentCompactedActiveStateV1 \<Rightarrow>
     ConsentCompactedStatePinV1 \<Rightarrow> LedgerArchiveSegment list \<Rightarrow> 'vk \<Rightarrow> ConsentCompactionGcCertificateV1 \<Rightarrow>
     (unit, ConsentRecoveryError) result" where
  "ConsentCompactionGcCertificateV1_verify c hex st pin segments pk g =
     (if gc_schema g \<noteq> CONSENT_COMPACTION_GC_CERTIFICATE_SCHEMA
      then Err (UnsupportedGcCertificateSchema (gc_schema g))
      else
        and_then (ConsentCompactedActiveStateV1_verify c hex pk st) (\<lambda>_.
        and_then (ConsentCompactedSnapshotV1_verify c hex segments pk (activation_snapshot st)) (\<lambda>_.
        and_then (ConsentCompactedStatePinV1_verify_against_state c hex st pk pin) (\<lambda>_.
        and_then (last_terminal_checkpoint segments) (\<lambda>through.
        and_then (map_err Archive (ledger_archive_sequence_digest c segments)) (\<lambda>digest.
        if gc_archive_sequence_digest g \<noteq> digest \<or> gc_archive_through_checkpoint g \<noteq> through \<or>
          gc_archive_through_checkpoint g \<noteq> through_checkpoint (recovery_summary (activation_snapshot st))
        then Err GcCertificateArchiveMismatch
        else if gc_ledger_epoch_id g \<noteq> receipt_ledger_epoch_id (cutover_receipt st)
        then Err GcCertificateStateMismatch
        else
          and_then (consent_compacted_cutover_receipt_fingerprint c (cutover_receipt st)) (\<lambda>receipt.
          if gc_cutover_receipt_fingerprint g \<noteq> receipt \<or>
            gc_recovery_summary_digest g \<noteq> summary_digest (recovery_summary (activation_snapshot st)) \<or>
            gc_active_state_digest g \<noteq> state_digest st then Err GcCertificateStateMismatch
          else
            and_then (consent_compacted_state_pin_fingerprint c pin) (\<lambda>pin_fp.
            if gc_state_pin_fingerprint g \<noteq> pin_fp \<or> gc_current_checkpoint g \<noteq> active_checkpoint st
            then Err GcCertificateStateMismatch
            else if gc_issued_at_unix_secs g < LedgerCheckpoint.timestamp_unix_secs (gc_current_checkpoint g)
            then Err GcCertificateTimestampRegressed
            else
              and_then (consent_compaction_gc_certificate_message c g) (\<lambda>message.
              if ed_verify c pk message (gc_signature g) then Ok ()
              else Err InvalidGcCertificateSignature)))))))))"

definition ConsentCompactionGcCertificateV1_sign_for_state ::
    "('sk, 'vk, 'ml) crypto \<Rightarrow> (bytes \<Rightarrow> string) \<Rightarrow> ConsentCompactedActiveStateV1 \<Rightarrow>
     ConsentCompactedStatePinV1 \<Rightarrow> LedgerArchiveSegment list \<Rightarrow> 'sk \<Rightarrow> u64 \<Rightarrow>
     (ConsentCompactionGcCertificateV1, ConsentRecoveryError) result" where
  "ConsentCompactionGcCertificateV1_sign_for_state c hex st pin segments sk at =
     (let pk = ed_verifying_key c sk in
      and_then (ConsentCompactedActiveStateV1_verify c hex pk st) (\<lambda>_.
      and_then (ConsentCompactedSnapshotV1_verify c hex segments pk (activation_snapshot st)) (\<lambda>_.
      and_then (ConsentCompactedStatePinV1_verify_against_state c hex st pk pin) (\<lambda>_.
      if at < LedgerCheckpoint.timestamp_unix_secs (active_checkpoint st) then Err GcCertificateTimestampRegressed
      else
        and_then (last_terminal_checkpoint segments) (\<lambda>through.
        and_then (consent_compacted_cutover_receipt_fingerprint c (cutover_receipt st)) (\<lambda>receipt.
        and_then (map_err Archive (ledger_archive_sequence_digest c segments)) (\<lambda>digest.
        and_then (consent_compacted_state_pin_fingerprint c pin) (\<lambda>pin_fp.
        let g = \<lparr>gc_schema = CONSENT_COMPACTION_GC_CERTIFICATE_SCHEMA,
              gc_ledger_epoch_id = receipt_ledger_epoch_id (cutover_receipt st),
              gc_cutover_receipt_fingerprint = receipt, gc_archive_sequence_digest = digest,
              gc_recovery_summary_digest = summary_digest (recovery_summary (activation_snapshot st)),
              gc_active_state_digest = state_digest st, gc_state_pin_fingerprint = pin_fp,
              gc_archive_through_checkpoint = through, gc_current_checkpoint = active_checkpoint st,
              gc_issued_at_unix_secs = at, gc_signature = zeroed\<rparr>
        in and_then (consent_compaction_gc_certificate_message c g) (\<lambda>message.
           let g = g\<lparr>gc_signature := ed_sign c sk message\<rparr>
           in map_ok (\<lambda>_. g)
                (ConsentCompactionGcCertificateV1_verify c hex st pin segments pk g))))))))))"

section \<open>Characterisations\<close>

text \<open>What each digest and each signature covers, with the checkpoints' fingerprints worked out.\<close>

definition cp_fp :: "('sk, 'vk, 'ml) crypto \<Rightarrow> LedgerCheckpoint \<Rightarrow> u8_32" where
  "cp_fp c cp = blake3_hash c (fingerprint_bytes cp)"

lemma fingerprint_Ok [simp]:
  "checkpoint_fingerprint c cp = Ok f \<longleftrightarrow> Verifier_verify_checkpoint c cp = Ok () \<and> f = cp_fp c cp"
  by (simp add: fingerprint_eq_Ok cp_fp_def)

definition snapshot_bytes :: "('sk, 'vk, 'ml) crypto \<Rightarrow> ConsentCompactedSnapshotV1 \<Rightarrow> bytes" where
  "snapshot_bytes c s =
     as_bytes ''xenia:consent-compacted-snapshot:v1'' @ [0] @ as_bytes (snapshot_schema s) @ [0] @
     slice (summary_digest (recovery_summary s)) @ slice (summary_archive_sequence_digest (recovery_summary s)) @
     slice (cp_fp c (archived_through_checkpoint (manifest s))) @ slice (cp_fp c (current_checkpoint (manifest s))) @
     slice (LedgerCompactionManifest.signature (manifest s)) @
     to_be_bytes (of_nat (length (suffix_entries s))) @ concat (map resident_entry_bytes (suffix_entries s))"

definition receipt_bytes :: "('sk, 'vk, 'ml) crypto \<Rightarrow> ConsentCompactedCutoverReceiptV1 \<Rightarrow> bytes" where
  "receipt_bytes c r =
     as_bytes ''xenia:consent-compacted-cutover-receipt:v1'' @ [0] @ as_bytes (receipt_schema r) @ [0] @
     slice (receipt_ledger_epoch_id r) @ slice (activation_snapshot_digest r) @
     slice (receipt_archive_sequence_digest r) @ slice (receipt_recovery_summary_digest r) @
     slice (cp_fp c (source_complete_checkpoint r)) @ slice (cp_fp c (activated_checkpoint r)) @
     to_be_bytes (activated_at_unix_secs r)"

definition receipt_fp :: "('sk, 'vk, 'ml) crypto \<Rightarrow> ConsentCompactedCutoverReceiptV1 \<Rightarrow> u8_32" where
  "receipt_fp c r = blake3_hash c (receipt_bytes c r @ slice (receipt_signature r))"

definition pin_bytes :: "('sk, 'vk, 'ml) crypto \<Rightarrow> ConsentCompactedStatePinV1 \<Rightarrow> bytes" where
  "pin_bytes c p =
     as_bytes ''xenia:consent-compacted-state-pin:v1'' @ [0] @ as_bytes (pin_schema p) @ [0] @
     slice (pin_ledger_epoch_id p) @ slice (pin_cutover_receipt_fingerprint p) @
     to_be_bytes (pin_generation p) @ slice (pin_active_state_digest p) @ slice (cp_fp c (pin_checkpoint p)) @
     to_be_bytes (pin_created_at_unix_secs p)"

definition gc_bytes :: "('sk, 'vk, 'ml) crypto \<Rightarrow> ConsentCompactionGcCertificateV1 \<Rightarrow> bytes" where
  "gc_bytes c g =
     as_bytes ''xenia:consent-compaction-gc-certificate:v1'' @ [0] @ as_bytes (gc_schema g) @ [0] @
     slice (gc_ledger_epoch_id g) @ slice (gc_cutover_receipt_fingerprint g) @
     slice (gc_archive_sequence_digest g) @ slice (gc_recovery_summary_digest g) @
     slice (gc_active_state_digest g) @ slice (gc_state_pin_fingerprint g) @
     slice (cp_fp c (gc_archive_through_checkpoint g)) @ slice (cp_fp c (gc_current_checkpoint g)) @
     to_be_bytes (gc_issued_at_unix_secs g)"

definition active_bytes :: "('sk, 'vk, 'ml) crypto \<Rightarrow> ConsentCompactedActiveStateV1 \<Rightarrow> bytes" where
  "active_bytes c st =
     as_bytes ''xenia:consent-compacted-active-state:v1'' @ [0] @
     as_bytes (active_schema st) @ [0] @ slice (snapshot_digest (activation_snapshot st)) @
     slice (receipt_fp c (cutover_receipt st)) @ to_be_bytes (generation st) @ slice (previous_state_digest st) @
     slice (cp_fp c (current_checkpoint (manifest (activation_snapshot st)))) @
     slice (cp_fp c (active_checkpoint st)) @
     to_be_bytes (of_nat (length (resident_entries st))) @
     concat (map resident_entry_bytes (resident_entries st)) @
     to_be_bytes (of_nat (length (archived_replay_action_ids st))) @
     concat (map slice (archived_replay_action_ids st)) @
     to_be_bytes (of_nat (length (archived_terminal_sessions st))) @
     concat (map slice (archived_terminal_sessions st))"

lemma snapshot_digest_eq_Ok [simp]:
  "consent_compacted_snapshot_digest c s = Ok d \<longleftrightarrow>
     snapshot_schema s = CONSENT_COMPACTED_SNAPSHOT_SCHEMA \<and>
     Verifier_verify_checkpoint c (archived_through_checkpoint (manifest s)) = Ok () \<and>
     Verifier_verify_checkpoint c (current_checkpoint (manifest s)) = Ok () \<and>
     d = blake3_hash c (snapshot_bytes c s)"
  by (auto simp: consent_compacted_snapshot_digest_def snapshot_bytes_def)

lemma receipt_message_eq_Ok [simp]:
  "consent_compacted_cutover_receipt_message c r = Ok m \<longleftrightarrow>
     receipt_schema r = CONSENT_COMPACTED_CUTOVER_RECEIPT_SCHEMA \<and>
     Verifier_verify_checkpoint c (source_complete_checkpoint r) = Ok () \<and>
     Verifier_verify_checkpoint c (activated_checkpoint r) = Ok () \<and> m = receipt_bytes c r"
  by (auto simp: consent_compacted_cutover_receipt_message_def receipt_bytes_def)

lemma receipt_fingerprint_eq_Ok [simp]:
  "consent_compacted_cutover_receipt_fingerprint c r = Ok f \<longleftrightarrow>
     receipt_schema r = CONSENT_COMPACTED_CUTOVER_RECEIPT_SCHEMA \<and>
     Verifier_verify_checkpoint c (source_complete_checkpoint r) = Ok () \<and>
     Verifier_verify_checkpoint c (activated_checkpoint r) = Ok () \<and> f = receipt_fp c r"
  by (auto simp: consent_compacted_cutover_receipt_fingerprint_def receipt_fp_def)

lemma pin_message_eq_Ok [simp]:
  "consent_compacted_state_pin_message c p = Ok m \<longleftrightarrow>
     pin_schema p = CONSENT_COMPACTED_STATE_PIN_SCHEMA \<and>
     Verifier_verify_checkpoint c (pin_checkpoint p) = Ok () \<and> m = pin_bytes c p"
  by (auto simp: consent_compacted_state_pin_message_def pin_bytes_def)

lemma gc_message_eq_Ok [simp]:
  "consent_compaction_gc_certificate_message c g = Ok m \<longleftrightarrow>
     gc_schema g = CONSENT_COMPACTION_GC_CERTIFICATE_SCHEMA \<and>
     Verifier_verify_checkpoint c (gc_archive_through_checkpoint g) = Ok () \<and>
     Verifier_verify_checkpoint c (gc_current_checkpoint g) = Ok () \<and> m = gc_bytes c g"
  by (auto simp: consent_compaction_gc_certificate_message_def gc_bytes_def)

lemma active_digest_eq_Ok [simp]:
  "consent_compacted_active_state_digest c st = Ok d \<longleftrightarrow>
     active_schema st = CONSENT_COMPACTED_ACTIVE_STATE_SCHEMA \<and>
     Verifier_verify_checkpoint c (current_checkpoint (manifest (activation_snapshot st))) = Ok () \<and>
     Verifier_verify_checkpoint c (active_checkpoint st) = Ok () \<and>
     consent_compacted_cutover_receipt_fingerprint c (cutover_receipt st) = Ok (receipt_fp c (cutover_receipt st)) \<and>
     d = blake3_hash c (active_bytes c st)"
  by (auto simp: consent_compacted_active_state_digest_def active_bytes_def)

lemma digest_fields_irrelevant [simp]:
  "snapshot_bytes c (s\<lparr>snapshot_digest := d\<rparr>) = snapshot_bytes c s"
  "receipt_bytes c (r\<lparr>receipt_signature := g\<rparr>) = receipt_bytes c r"
  "pin_bytes c (p\<lparr>pin_signature := g\<rparr>) = pin_bytes c p"
  "gc_bytes c (k\<lparr>gc_signature := g\<rparr>) = gc_bytes c k"
  "active_bytes c (st\<lparr>state_digest := d\<rparr>) = active_bytes c st"
  by (simp_all add: snapshot_bytes_def receipt_bytes_def pin_bytes_def gc_bytes_def active_bytes_def)

lemma check_suffix_len_eq_Ok [simp]:
  "check_suffix_len es = Ok () \<longleftrightarrow> length es \<le> MAX_CONSENT_COMPACTED_SUFFIX_ENTRIES"
  by (auto simp: check_suffix_len_def)

lemma suffix_from_eq_Ok [simp]: "suffix_from xs i err = Ok ys \<longleftrightarrow> i \<le> length xs \<and> ys = drop i xs"
  by (auto simp: suffix_from_def)

lemma manifest_binds_eq_Ok [simp]:
  "manifest_binds m s = Ok () \<longleftrightarrow> archive_sequence_digest m = summary_archive_sequence_digest s \<and>
     recovery_summary_digest m = summary_digest s \<and> archived_through_checkpoint m = through_checkpoint s"
  by (auto simp: manifest_binds_def)

lemma verify_snapshot_with_eq_Ok:
  "verify_snapshot_with c hex check pk s = Ok () \<longleftrightarrow>
     snapshot_schema s = CONSENT_COMPACTED_SNAPSHOT_SCHEMA \<and>
     length (suffix_entries s) \<le> MAX_CONSENT_COMPACTED_SUFFIX_ENTRIES \<and>
     snapshot_digest s = blake3_hash c (snapshot_bytes c s) \<and>
     check (recovery_summary s) = Ok () \<and>
     manifest_binds (manifest s) (recovery_summary s) = Ok () \<and>
     Verifier_verify_ledger_compaction_manifest c (manifest s) = Ok () \<and>
     ledger_public_key (current_checkpoint (manifest s)) = ed_key_to_bytes c pk \<and>
     Verifier_verify_checkpoint_extension c (through_checkpoint (recovery_summary s))
       (current_checkpoint (manifest s)) (suffix_entries s) = Ok () \<and>
     verify_recovery_suffix_compatibility hex (recovery_summary s) (suffix_entries s) = Ok ()"
proof -
  have "Verifier_verify_checkpoint c (archived_through_checkpoint (manifest s)) = Ok () \<and>
      Verifier_verify_checkpoint c (current_checkpoint (manifest s)) = Ok ()"
    if "Verifier_verify_ledger_compaction_manifest c (manifest s) = Ok ()"
    using that by (simp add: verify_compaction_manifest_eq_Ok verify_checkpoint_monotonic_eq_Ok)
  then show ?thesis
    by (auto simp: verify_snapshot_with_def)
qed

lemma receipt_verify_eq_Ok:
  "ConsentCompactedCutoverReceiptV1_verify c pk s r = Ok () \<longleftrightarrow>
     receipt_schema r = CONSENT_COMPACTED_CUTOVER_RECEIPT_SCHEMA \<and>
     Verifier_verify_checkpoint c (source_complete_checkpoint r) = Ok () \<and>
     Verifier_verify_checkpoint c (activated_checkpoint r) = Ok () \<and>
     ledger_public_key (source_complete_checkpoint r) = ed_key_to_bytes c pk \<and>
     ledger_public_key (activated_checkpoint r) = ed_key_to_bytes c pk \<and>
     receipt_ledger_epoch_id r = consent_ledger_epoch_id c (ed_key_to_bytes c pk) \<and>
     entry_count (source_complete_checkpoint r) = entry_count (activated_checkpoint r) \<and>
     head_hash (source_complete_checkpoint r) = head_hash (activated_checkpoint r) \<and>
     LedgerCheckpoint.timestamp_unix_secs (source_complete_checkpoint r) \<le> activated_at_unix_secs r \<and>
     LedgerCheckpoint.timestamp_unix_secs (source_complete_checkpoint r) \<le>
       LedgerCheckpoint.timestamp_unix_secs (activated_checkpoint r) \<and>
     activation_snapshot_digest r = snapshot_digest s \<and>
     receipt_archive_sequence_digest r = summary_archive_sequence_digest (recovery_summary s) \<and>
     receipt_recovery_summary_digest r = summary_digest (recovery_summary s) \<and>
     source_complete_checkpoint r = current_checkpoint (manifest s) \<and>
     ed_verify c pk (receipt_bytes c r) (receipt_signature r)"
  by (auto simp: ConsentCompactedCutoverReceiptV1_verify_def Let_def not_less)

lemma active_verify_eq_Ok:
  "ConsentCompactedActiveStateV1_verify c hex pk st = Ok () \<longleftrightarrow>
     active_schema st = CONSENT_COMPACTED_ACTIVE_STATE_SCHEMA \<and>
     length (resident_entries st) \<le> MAX_CONSENT_COMPACTED_SUFFIX_ENTRIES \<and>
     state_digest st = blake3_hash c (active_bytes c st) \<and>
     (generation st = 0 \<longleftrightarrow> previous_state_digest st = zeroed) \<and>
     ConsentCompactedSnapshotV1_verify_signed_frontier c hex pk (activation_snapshot st) = Ok () \<and>
     ConsentCompactedCutoverReceiptV1_verify c pk (activation_snapshot st) (cutover_receipt st) = Ok () \<and>
     ledger_public_key (active_checkpoint st) = ed_key_to_bytes c pk \<and>
     archived_replay_action_ids st = replay_action_ids (recovery_summary (activation_snapshot st)) \<and>
     archived_terminal_sessions st =
       map recovered_session_id (recovered_sessions (recovery_summary (activation_snapshot st))) \<and>
     Verifier_verify_checkpoint_extension c
       (through_checkpoint (recovery_summary (activation_snapshot st))) (active_checkpoint st)
       (resident_entries st) = Ok () \<and>
     prefix (suffix_entries (activation_snapshot st)) (resident_entries st) \<and>
     verify_recovery_suffix_compatibility hex (recovery_summary (activation_snapshot st))
       (resident_entries st) = Ok ()"
  (is "?V \<longleftrightarrow> ?R")
proof -
  let ?s = "activation_snapshot st" and ?base = "through_checkpoint (recovery_summary (activation_snapshot st))"
  have frontier: "Verifier_verify_checkpoint c (current_checkpoint (manifest ?s)) = Ok ()"
    if "ConsentCompactedSnapshotV1_verify_signed_frontier c hex pk ?s = Ok ()"
    using that by (simp add: ConsentCompactedSnapshotV1_verify_signed_frontier_def verify_snapshot_with_eq_Ok
        verify_compaction_manifest_eq_Ok verify_checkpoint_monotonic_eq_Ok)
  have ext: "Verifier_verify_checkpoint c (active_checkpoint st) = Ok ()"
      "\<not> entry_count (active_checkpoint st) < entry_count ?base"
    if "Verifier_verify_checkpoint_extension c ?base (active_checkpoint st) (resident_entries st) = Ok ()"
    using that by (simp_all add: verify_checkpoint_extension_eq_Ok verify_checkpoint_monotonic_eq_Ok not_less)
  have receipt: "consent_compacted_cutover_receipt_fingerprint c (cutover_receipt st) =
      Ok (receipt_fp c (cutover_receipt st))"
    if "ConsentCompactedCutoverReceiptV1_verify c pk ?s (cutover_receipt st) = Ok ()"
    using that by (auto simp: receipt_verify_eq_Ok)
  have prefix: "prefix (suffix_entries ?s) (resident_entries st) \<longleftrightarrow>
      length (suffix_entries ?s) \<le> length (resident_entries st) \<and>
      take (length (suffix_entries ?s)) (resident_entries st) = suffix_entries ?s"
    by (metis prefix_def append_eq_conv_conj length_append le_add1 append_take_drop_id)
  have gen: "\<not> ((generation st = 0 \<and> previous_state_digest st \<noteq> zeroed) \<or>
      (generation st > 0 \<and> previous_state_digest st = zeroed)) \<longleftrightarrow>
    (generation st = 0 \<longleftrightarrow> previous_state_digest st = zeroed)"
    by (auto simp: word_gt_0)
  show ?thesis
  proof
    assume ?V
    then show ?R
      unfolding ConsentCompactedActiveStateV1_verify_def Let_def
      by (simp only: if_Err_eq_Ok and_then_eq_Ok map_err_eq_Ok gen prefix not_less check_suffix_len_eq_Ok
          active_digest_eq_Ok) auto
  next
    assume ?R
    then show ?V
      using frontier ext receipt unfolding ConsentCompactedActiveStateV1_verify_def Let_def
      by (simp only: if_Err_eq_Ok and_then_eq_Ok map_err_eq_Ok gen prefix not_less check_suffix_len_eq_Ok
          active_digest_eq_Ok) auto
  qed
qed

lemma pin_verify_eq_Ok:
  "ConsentCompactedStatePinV1_verify_against_state c hex st pk p = Ok () \<longleftrightarrow>
     pin_schema p = CONSENT_COMPACTED_STATE_PIN_SCHEMA \<and>
     ConsentCompactedActiveStateV1_verify c hex pk st = Ok () \<and>
     Verifier_verify_checkpoint c (pin_checkpoint p) = Ok () \<and>
     ledger_public_key (pin_checkpoint p) = ed_key_to_bytes c pk \<and>
     pin_ledger_epoch_id p = receipt_ledger_epoch_id (cutover_receipt st) \<and>
     pin_cutover_receipt_fingerprint p = receipt_fp c (cutover_receipt st) \<and>
     LedgerCheckpoint.timestamp_unix_secs (pin_checkpoint p) \<le> pin_created_at_unix_secs p \<and>
     ed_verify c pk (pin_bytes c p) (pin_signature p) \<and>
     (pin_generation p = generation st \<and> pin_active_state_digest p = state_digest st \<and>
        pin_checkpoint p = active_checkpoint st \<or>
      pin_generation p < generation st \<and>
        (let base = through_checkpoint (recovery_summary (activation_snapshot st));
             offset = unat (entry_count (pin_checkpoint p) - entry_count base)
         in entry_count base \<le> entry_count (pin_checkpoint p) \<and> offset \<le> length (resident_entries st) \<and>
            Verifier_verify_checkpoint_extension c (pin_checkpoint p) (active_checkpoint st)
              (drop offset (resident_entries st)) = Ok ()))"
proof -
  have "consent_compacted_cutover_receipt_fingerprint c (cutover_receipt st) =
      Ok (receipt_fp c (cutover_receipt st))"
    if "ConsentCompactedActiveStateV1_verify c hex pk st = Ok ()"
    using that by (auto simp: active_verify_eq_Ok receipt_verify_eq_Ok)
  then show ?thesis
    by (auto simp: ConsentCompactedStatePinV1_verify_against_state_def Let_def not_less not_le
        less_le split: if_splits)
qed

section \<open>The whole history of a compacted ledger\<close>

lemma verified_archive_extension:
  assumes "ConsentRecoverySummaryV1_from_archive_sequence c hex segs = Ok s"
  shows "segs \<noteq> []" and "through_checkpoint s = terminal_checkpoint (last segs)"
    and "genesis_checkpoint (LedgerArchiveSegment.base_checkpoint (hd segs))"
    and "Verifier_verify_checkpoint_extension c (LedgerArchiveSegment.base_checkpoint (hd segs))
      (through_checkpoint s) (archived_entries segs) = Ok ()"
    and "length (archived_entries segs) \<le> 2 ^ 20"
proof -
  have s: "segs \<noteq> [] \<and> through_checkpoint s = terminal_checkpoint (last segs) \<and>
      genesis_checkpoint (LedgerArchiveSegment.base_checkpoint (hd segs))"
    using assms by (auto simp: from_archive_sequence_iff recovered_summary_def Let_def)
  have v: "Verifier_verify_ledger_archive_sequence c segs = Ok ()"
    using assms by (auto simp: from_archive_sequence_iff ledger_archive_sequence_digest_def)
  show "segs \<noteq> []" "through_checkpoint s = terminal_checkpoint (last segs)"
    "genesis_checkpoint (LedgerArchiveSegment.base_checkpoint (hd segs))"
    using s by blast+
  show "Verifier_verify_checkpoint_extension c (LedgerArchiveSegment.base_checkpoint (hd segs))
      (through_checkpoint s) (archived_entries segs) = Ok ()"
    using s adjacent_segments_extend [of segs c] v by (simp add: verify_archive_sequence_eq_Ok)
  show "length (archived_entries segs) \<le> 2 ^ 20"
    by (rule verified_sequence_length [OF v])
qed

lemma archive_counts:
  assumes "ConsentRecoverySummaryV1_from_archive_sequence c hex segs = Ok s"
  shows "entry_count (through_checkpoint s) = of_nat (length (archived_entries segs))"
    and "head_hash (through_checkpoint s) = chain_head (archived_entries segs)"
  using verified_archive_extension(3,4) [OF assms]
  unfolding verify_checkpoint_extension_eq_Ok genesis_checkpoint_def by auto

text \<open>The archive that a snapshot was verified against, followed by what the state keeps resident.\<close>

definition whole_history :: "LedgerArchiveSegment list \<Rightarrow> ConsentCompactedActiveStateV1 \<Rightarrow> LedgerEntry list" where
  "whole_history segs st = archived_entries segs @ resident_entries st"

lemma archived_summary:
  assumes "ConsentCompactedSnapshotV1_verify c hex segs pk s = Ok ()"
  shows "ConsentRecoverySummaryV1_from_archive_sequence c hex segs = Ok (recovery_summary s)"
  using assms
  by (simp add: ConsentCompactedSnapshotV1_verify_def verify_snapshot_with_eq_Ok verify_against_archive_iff)

lemma active_history:
  assumes "ConsentCompactedSnapshotV1_verify c hex segs pk (activation_snapshot st) = Ok ()"
    and "ConsentCompactedActiveStateV1_verify c hex pk st = Ok ()" and "ed25519_key_codec c"
  shows "Verifier_verify_checkpoint_prefix c (active_checkpoint st) (whole_history segs st) pk = Ok ()"
    and "entry_count (active_checkpoint st) = of_nat (length (whole_history segs st))"
    and "length (whole_history segs st) < 2 ^ 21"
    and "distinct (decision_ids (whole_history segs st))"
    and "\<forall>x \<in> session_ids (archived_entries segs). ended_ceremony (session_entries x (whole_history segs st))"
proof -
  note summary = archived_summary [OF assms(1)]
  note arch = verified_archive_extension [OF summary]
  note active = assms(2) [unfolded active_verify_eq_Ok]
  have ext: "Verifier_verify_checkpoint_extension c (LedgerArchiveSegment.base_checkpoint (hd segs))
      (active_checkpoint st) (whole_history segs st) = Ok ()"
    unfolding whole_history_def using arch(4) active by (intro extension_trans) auto
  show len: "length (whole_history segs st) < 2 ^ 21"
    using arch(5) active by (simp add: whole_history_def MAX_CONSENT_COMPACTED_SUFFIX_ENTRIES_def)
  have "ed_key_from_bytes c (ledger_public_key (active_checkpoint st)) = Some pk"
    using active ed25519_key_codecD(1) [OF assms(3)] by simp
  then show "Verifier_verify_checkpoint_prefix c (active_checkpoint st) (whole_history segs st) pk = Ok ()"
    using len by (intro extension_of_genesis [OF ext arch(3) _ _ assms(3)]) simp_all
  show "entry_count (active_checkpoint st) = of_nat (length (whole_history segs st))"
    using ext arch(3) unfolding verify_checkpoint_extension_eq_Ok genesis_checkpoint_def by simp
  have compat: "verify_recovery_suffix_compatibility hex (recovery_summary (activation_snapshot st))
      (resident_entries st) = Ok ()"
    using active by blast
  show "distinct (decision_ids (whole_history segs st))"
    "\<forall>x \<in> session_ids (archived_entries segs). ended_ceremony (session_entries x (whole_history segs st))"
    unfolding whole_history_def using recovered_history [OF summary compat] by blast+
qed

section \<open>Appending to a compacted ledger\<close>

text \<open>
  A complete chain and its compacted form: the archived entries are gone, their count and last hash are
  the anchor.
\<close>

definition compacts :: "LedgerEntry list \<Rightarrow> 'sk Chain \<Rightarrow> 'sk Chain \<Rightarrow> bool" where
  "compacts arch full ch \<longleftrightarrow> base_entry_count full = 0 \<and> base_head_hash full = zeroed \<and>
     base_entry_count ch = of_nat (length arch) \<and> base_head_hash ch = chain_head arch \<and>
     Chain.entries full = arch @ Chain.entries ch \<and> Chain.signing_key full = Chain.signing_key ch"

fun append_all ::
    "('sk, 'vk, 'ml) crypto \<Rightarrow> (SystemTime \<times> ConsentEventRecord) list \<Rightarrow> 'sk Chain \<Rightarrow>
     'sk Chain \<times> (LedgerEntry, LedgerError) result list" where
  "append_all c [] ch = (ch, [])"
| "append_all c ((now, ev) # evs) ch =
     (let (ch1, r) = Chain_append c now ev ch; (ch2, rs) = append_all c evs ch1 in (ch2, r # rs))"

lemma compacts_simps:
  assumes "compacts arch full ch" and "length (Chain.entries full) < 2 ^ 64"
  shows "Chain_last_hash full = Chain_last_hash ch" and "Chain_entry_count full = Chain_entry_count ch"
proof -
  show "Chain_last_hash full = Chain_last_hash ch"
    using assms(1) by (simp add: compacts_def last_hash_head_after head_after_simps(4))
  have "length arch < 2 ^ 64" using assms by (simp add: compacts_def)
  then have "unat (of_nat (length arch) :: u64) = length arch" by (intro unat_of_nat_u64) simp
  then show "Chain_entry_count full = Chain_entry_count ch"
    using assms entry_count_word [of full] entry_count_word [of ch] by (simp add: compacts_def)
qed

lemma compacts_append:
  assumes "compacts arch full ch" and "length (Chain.entries full) < 2 ^ 64"
  shows "snd (Chain_append c now ev full) = snd (Chain_append c now ev ch)"
    and "compacts arch (fst (Chain_append c now ev full)) (fst (Chain_append c now ev ch))"
    and "length (Chain.entries (fst (Chain_append c now ev full))) \<le> Suc (length (Chain.entries full))"
proof -
  have lt: "length arch < 2 ^ 64" "length (Chain.entries ch) < 2 ^ 64"
      "length arch + length (Chain.entries ch) < 2 ^ 64"
    using assms by (simp_all add: compacts_def)
  then have un: "unat (of_nat (length arch) :: u64) = length arch"
      "unat (of_nat (length (Chain.entries ch)) :: u64) = length (Chain.entries ch)"
      "unat (of_nat (length arch + length (Chain.entries ch)) :: u64) = length arch + length (Chain.entries ch)"
    by (intro unat_of_nat_u64; simp)+
  have sq: "checked_add (base_entry_count full) (of_nat (length (Chain.entries full))) =
      checked_add (base_entry_count ch) (of_nat (length (Chain.entries ch)))"
    using assms(1) lt un by (simp add: compacts_def checked_add_def)
  note * = sq compacts_simps(1) [OF assms]
  show "snd (Chain_append c now ev full) = snd (Chain_append c now ev ch)"
    "compacts arch (fst (Chain_append c now ev full)) (fst (Chain_append c now ev ch))"
    "length (Chain.entries (fst (Chain_append c now ev full))) \<le> Suc (length (Chain.entries full))"
    using assms(1) unfolding Chain_append_def Let_def *
    by (auto simp: compacts_def vec_get_def nth_append split: option.splits result.splits)
qed

lemma compacts_append_all:
  assumes "compacts arch full ch" and "length (Chain.entries full) + length evs < 2 ^ 64"
  shows "snd (append_all c evs full) = snd (append_all c evs ch) \<and>
    compacts arch (fst (append_all c evs full)) (fst (append_all c evs ch)) \<and>
    length (Chain.entries (fst (append_all c evs full))) < 2 ^ 64"
  using assms
proof (induction evs arbitrary: full ch)
  case (Cons e evs)
  obtain now ev where e: "e = (now, ev)" by fastforce
  have lt: "length (Chain.entries full) < 2 ^ 64" using Cons.prems(2) by simp
  note step = compacts_append [OF Cons.prems(1) lt, of c now ev]
  have lt': "length (Chain.entries (fst (Chain_append c now ev full))) + length evs < 2 ^ 64"
    using step(3) Cons.prems(2) by simp
  show ?case using Cons.IH [OF step(2) lt'] step(1) by (simp add: e Let_def case_prod_beta)
qed simp

lemma restored_compacts:
  assumes "ConsentCompactedSnapshotV1_verify c hex segs pk (activation_snapshot st) = Ok ()"
    and "ConsentCompactedActiveStateV1_restore_state c hex sk st = Ok r"
  shows "compacts (archived_entries segs) (Chain_from_entries (whole_history segs st) sk) (restored_chain r)"
  using archive_counts [OF archived_summary [OF assms(1)]] assms(2)
  by (auto simp: compacts_def ConsentCompactedActiveStateV1_restore_state_def Chain_from_entries_def
      Chain_from_checkpoint_suffix_def whole_history_def)

section \<open>What a pin commits to\<close>

definition activation_collision ::
    "('sk, 'vk, 'ml) crypto \<Rightarrow> ConsentCompactedActiveStateV1 \<Rightarrow> ConsentCompactedActiveStateV1 \<Rightarrow> bool" where
  "activation_collision c st st' \<longleftrightarrow>
     bytes_collision (blake3_hash c)
       (receipt_bytes c (cutover_receipt st) @ slice (receipt_signature (cutover_receipt st)))
       (receipt_bytes c (cutover_receipt st') @ slice (receipt_signature (cutover_receipt st'))) \<or>
     bytes_collision (blake3_hash c)
       (snapshot_bytes c (activation_snapshot st)) (snapshot_bytes c (activation_snapshot st')) \<or>
     bytes_collision (blake3_hash c)
       (fingerprint_bytes (through_checkpoint (recovery_summary (activation_snapshot st))))
       (fingerprint_bytes (through_checkpoint (recovery_summary (activation_snapshot st'))))"

lemma frontier_facts:
  assumes "ConsentCompactedActiveStateV1_verify c hex pk st = Ok ()"
  defines "s \<equiv> activation_snapshot st"
  shows "snapshot_schema s = CONSENT_COMPACTED_SNAPSHOT_SCHEMA"
    and "snapshot_digest s = blake3_hash c (snapshot_bytes c s)"
    and "archived_through_checkpoint (manifest s) = through_checkpoint (recovery_summary s)"
    and "Verifier_verify_checkpoint c (through_checkpoint (recovery_summary s)) = Ok ()"
    and "receipt_schema (cutover_receipt st) = CONSENT_COMPACTED_CUTOVER_RECEIPT_SCHEMA"
    and "activation_snapshot_digest (cutover_receipt st) = snapshot_digest s"
  using assms(1) unfolding s_def active_verify_eq_Ok receipt_verify_eq_Ok
    ConsentCompactedSnapshotV1_verify_signed_frontier_def verify_snapshot_with_eq_Ok
    verify_compaction_manifest_eq_Ok verify_checkpoint_monotonic_eq_Ok manifest_binds_eq_Ok
  by auto

lemma same_activation:
  assumes "ConsentCompactedActiveStateV1_verify c hex pk st = Ok ()"
    and "ConsentCompactedActiveStateV1_verify c hex pk' st' = Ok ()"
    and "receipt_fp c (cutover_receipt st) = receipt_fp c (cutover_receipt st')"
    and "\<not> activation_collision c st st'"
  shows "through_checkpoint (recovery_summary (activation_snapshot st)) =
    through_checkpoint (recovery_summary (activation_snapshot st'))"
proof -
  note f = frontier_facts [OF assms(1)] and f' = frontier_facts [OF assms(2)]
  have "receipt_bytes c (cutover_receipt st) @ slice (receipt_signature (cutover_receipt st)) =
      receipt_bytes c (cutover_receipt st') @ slice (receipt_signature (cutover_receipt st'))"
    using same_hash_cases [OF assms(3) [unfolded receipt_fp_def]] assms(4)
    by (auto simp: activation_collision_def)
  then have "activation_snapshot_digest (cutover_receipt st) = activation_snapshot_digest (cutover_receipt st')"
    by (simp add: receipt_bytes_def f(5) f'(5))
  then have "blake3_hash c (snapshot_bytes c (activation_snapshot st)) =
      blake3_hash c (snapshot_bytes c (activation_snapshot st'))"
    using f(2,6) f'(2,6) by simp
  then have "snapshot_bytes c (activation_snapshot st) = snapshot_bytes c (activation_snapshot st')"
    using assms(4) by (auto simp: activation_collision_def dest: same_hash_cases)
  then have "cp_fp c (through_checkpoint (recovery_summary (activation_snapshot st))) =
      cp_fp c (through_checkpoint (recovery_summary (activation_snapshot st')))"
    using f(3) f'(3) by (simp add: snapshot_bytes_def f(1) f'(1))
  then show ?thesis
    using same_hash_checkpoint_cases [OF f(4) f'(4)] assms(4)
    by (auto simp: cp_fp_def activation_collision_def)
qed

lemma extension_split_head:
  assumes "Verifier_verify_checkpoint_extension c a b es = Ok ()"
    and "Verifier_verify_checkpoint_extension c x b (drop n es) = Ok ()"
  shows "head_after LedgerEntry.entry_hash (head_hash a) (take n es) = head_hash x"
proof (cases "drop n es")
  case Nil
  then show ?thesis
    using assms unfolding verify_checkpoint_extension_eq_Ok by (simp add: head_after_simps)
next
  case (Cons e rest)
  from assms(1) obtain vk where "extension_walk c vk (entry_count a) 0 (head_hash a) (take n es @ drop n es) = Ok ()"
    unfolding verify_checkpoint_extension_eq_Ok by auto
  then have "LedgerEntry.prev_hash e = head_after LedgerEntry.entry_hash (head_hash a) (take n es)"
    unfolding Cons extension_walk_append by (simp add: verify_extension_entry_eq_Ok)
  moreover from assms(2) have "LedgerEntry.prev_hash e = head_hash x"
    unfolding Cons verify_checkpoint_extension_eq_Ok by (auto simp: verify_extension_entry_eq_Ok)
  ultimately show ?thesis by simp
qed

lemma extensions_same_head:
  assumes "Verifier_verify_checkpoint_extension c a b es = Ok ()"
    and "Verifier_verify_checkpoint_extension c a b' fs = Ok ()"
    and "n \<le> length es" and "length fs = n"
    and "head_after LedgerEntry.entry_hash (head_hash a) (take n es) = head_hash b'"
  shows "map entry_preimage (take n es) = map entry_preimage fs \<or>
    (\<exists>k < n. entry_hash_collision c (entry_preimage (es ! k)) (entry_preimage (fs ! k)))"
proof -
  obtain vk where "extension_walk c vk (entry_count a) 0 (head_hash a) (take n es @ drop n es) = Ok ()"
    using assms(1) unfolding verify_checkpoint_extension_eq_Ok by auto
  then have e: "extension_walk c vk (entry_count a) 0 (head_hash a) (take n es) = Ok ()"
    unfolding extension_walk_append by blast
  obtain vk' where f: "extension_walk c vk' (entry_count a) 0 (head_hash a) fs = Ok ()"
      "head_hash b' = head_after LedgerEntry.entry_hash (head_hash a) fs"
    using assms(2) unfolding verify_checkpoint_extension_eq_Ok by auto
  show ?thesis
    using ext_walk.same_head_same_log [OF e f(1)] f(2) assms(3-5)
    by (fastforce simp: entry_hash_collision_def)
qed

lemma resident_count:
  assumes "Verifier_verify_checkpoint_extension c a b es = Ok ()"
    and "length es \<le> MAX_CONSENT_COMPACTED_SUFFIX_ENTRIES"
  shows "length es = unat (entry_count b - entry_count a)"
proof -
  have "of_nat (length es) = entry_count b - entry_count a"
    using assms(1) unfolding verify_checkpoint_extension_eq_Ok by blast
  moreover have "unat (of_nat (length es) :: u64) = length es"
    using assms(2) by (intro unat_of_nat_u64) (simp add: MAX_CONSENT_COMPACTED_SUFFIX_ENTRIES_def)
  ultimately show ?thesis by simp
qed

lemma pinned_state_kept:
  assumes "ConsentCompactedStatePinV1_sign_for_state c hex st sk at = Ok pin"
    and "ConsentCompactedStatePinV1_verify_against_state c hex st' pk pin = Ok ()"
    and "\<not> activation_collision c st st'"
  defines "n \<equiv> length (resident_entries st)"
  shows "generation st \<le> generation st'" and "n \<le> length (resident_entries st')"
    and "map entry_preimage (take n (resident_entries st')) = map entry_preimage (resident_entries st) \<or>
      (\<exists>k < n. entry_hash_collision c (entry_preimage (resident_entries st' ! k))
         (entry_preimage (resident_entries st ! k)))"
proof -
  have pin: "pin_checkpoint pin = active_checkpoint st" "pin_generation pin = generation st"
      "pin_cutover_receipt_fingerprint pin = receipt_fp c (cutover_receipt st)"
    and st: "ConsentCompactedActiveStateV1_verify c hex (ed_verifying_key c sk) st = Ok ()"
    using assms(1) by (auto simp: ConsentCompactedStatePinV1_sign_for_state_def Let_def)
  note v = assms(2) [unfolded pin_verify_eq_Ok Let_def pin]
  have base: "through_checkpoint (recovery_summary (activation_snapshot st)) =
      through_checkpoint (recovery_summary (activation_snapshot st'))" (is "?a = ?a'")
    using v by (intro same_activation [OF st _ _ assms(3)]) auto
  have ext: "Verifier_verify_checkpoint_extension c ?a' (active_checkpoint st) (resident_entries st) = Ok ()"
      "n \<le> MAX_CONSENT_COMPACTED_SUFFIX_ENTRIES"
    using st unfolding active_verify_eq_Ok base n_def by auto
  have ext': "Verifier_verify_checkpoint_extension c ?a' (active_checkpoint st') (resident_entries st') = Ok ()"
      "length (resident_entries st') \<le> MAX_CONSENT_COMPACTED_SUFFIX_ENTRIES"
    using v unfolding active_verify_eq_Ok by auto
  note n = resident_count [OF ext [unfolded n_def], folded n_def] and n' = resident_count [OF ext']
  show "generation st \<le> generation st'" using v by auto
  show len: "n \<le> length (resident_entries st')" using v n n' by auto
  have "head_after LedgerEntry.entry_hash (head_hash ?a') (take n (resident_entries st')) =
      head_hash (active_checkpoint st)"
    using v
  proof (elim conjE disjE)
    assume "active_checkpoint st = active_checkpoint st'"
    then show ?thesis using ext'(1) n n' unfolding verify_checkpoint_extension_eq_Ok by simp
  next
    assume "Verifier_verify_checkpoint_extension c (active_checkpoint st) (active_checkpoint st')
        (drop (unat (entry_count (active_checkpoint st) - entry_count ?a')) (resident_entries st')) = Ok ()"
    then show ?thesis using extension_split_head [OF ext'(1)] n by simp
  qed
  then show "map entry_preimage (take n (resident_entries st')) = map entry_preimage (resident_entries st) \<or>
      (\<exists>k < n. entry_hash_collision c (entry_preimage (resident_entries st' ! k))
         (entry_preimage (resident_entries st ! k)))"
    by (intro extensions_same_head [OF ext'(1) ext(1) len]) (simp_all add: n_def)
qed

end
