(* ===== verification/Compaction_Lifecycle.thy ===== *)
theory Compaction_Lifecycle
  imports Consent_Compaction
begin

text \<open>
  The life of a compacted consent ledger: that the steps from an archive to an active state succeed, and
  what a verified active state, its pins and its deletion certificate mean for the whole history.
\<close>

section \<open>Compaction succeeds\<close>

lemma anchored_suffix_checkpoint:
  assumes "Verifier_verify_checkpoint_extension c a b es = Ok ()"
    and "length es \<le> MAX_CONSENT_COMPACTED_SUFFIX_ENTRIES"
  shows "Chain_entry_count (Chain_from_checkpoint_suffix a es sk) = entry_count b"
    and "Chain_last_hash (Chain_from_checkpoint_suffix a es sk) = head_hash b"
proof -
  have le: "entry_count a \<le> entry_count b" and h: "head_hash b = head_after LedgerEntry.entry_hash (head_hash a) es"
    using assms(1) unfolding verify_checkpoint_extension_eq_Ok verify_checkpoint_monotonic_eq_Ok by auto
  have "unat (entry_count a) + length es < 2 ^ 64"
    using resident_count [OF assms] le unsigned_less [of "entry_count b"]
    by (simp add: word_le_nat_alt unat_sub)
  then show "Chain_entry_count (Chain_from_checkpoint_suffix a es sk) = entry_count b"
    using entry_count_word [of "Chain_from_checkpoint_suffix a es sk"] resident_count [OF assms]
    by (simp add: Chain_from_checkpoint_suffix_def)
  show "Chain_last_hash (Chain_from_checkpoint_suffix a es sk) = head_hash b"
    using h by (simp add: last_hash_head_after Chain_from_checkpoint_suffix_def)
qed

lemma resigned_extension:
  assumes "Verifier_verify_checkpoint_extension c a b es = Ok ()"
    and "length es \<le> MAX_CONSENT_COMPACTED_SUFFIX_ENTRIES"
    and "ledger_public_key b = ed_key_to_bytes c (ed_verifying_key c sk)"
    and "LedgerCheckpoint.timestamp_unix_secs b \<le> ts"
    and "ed25519_correct c" and "ed25519_key_codec c"
  shows "Verifier_verify_checkpoint_extension c a
    (Chain_sign_checkpoint c ts (Chain_from_checkpoint_suffix a es sk)) es = Ok ()"
proof -
  have key: "Chain.signing_key (Chain_from_checkpoint_suffix a es sk) = sk"
    by (simp add: Chain_from_checkpoint_suffix_def)
  note ext = assms(1) [unfolded verify_checkpoint_extension_eq_Ok]
  have mono: "Verifier_verify_checkpoint_monotonic c a b = Ok ()" using ext by blast
  have "LedgerCheckpoint.timestamp_unix_secs a \<le> ts"
    using mono assms(4) unfolding verify_checkpoint_monotonic_eq_Ok by (blast intro: order_trans)
  then have "Verifier_verify_checkpoint_monotonic c a
      (Chain_sign_checkpoint c ts (Chain_from_checkpoint_suffix a es sk)) = Ok ()"
    using mono anchored_suffix_checkpoint [OF assms(1,2), of sk] sign_checkpoint_verifies [OF assms(5,6)] assms(3)
    by (simp add: verify_checkpoint_monotonic_eq_Ok key)
  then show ?thesis
    using ext anchored_suffix_checkpoint [OF assms(1,2), of sk] assms(3)
    by (simp add: verify_checkpoint_extension_eq_Ok key)
qed

lemma cutover_receipt_Ok:
  assumes "ConsentCompactedSnapshotV1_verify c hex segs (ed_verifying_key c sk) s = Ok ()"
    and "LedgerCheckpoint.timestamp_unix_secs (current_checkpoint (manifest s)) \<le> ts"
    and "ed25519_correct c" and "ed25519_key_codec c"
  defines "cp \<equiv> Chain_sign_checkpoint c ts
    (Chain_from_checkpoint_suffix (through_checkpoint (recovery_summary s)) (suffix_entries s) sk)"
  shows "\<exists>r. ConsentCompactedCutoverReceiptV1_sign c s cp sk ts = Ok r \<and>
    ConsentCompactedCutoverReceiptV1_verify c (ed_verifying_key c sk) s r = Ok ()"
proof -
  note v = assms(1) [unfolded ConsentCompactedSnapshotV1_verify_def verify_snapshot_with_eq_Ok]
  have ext: "Verifier_verify_checkpoint_extension c (through_checkpoint (recovery_summary s))
      (current_checkpoint (manifest s)) (suffix_entries s) = Ok ()"
      "length (suffix_entries s) \<le> MAX_CONSENT_COMPACTED_SUFFIX_ENTRIES"
    using v by auto
  have cp: "Verifier_verify_checkpoint c cp = Ok ()"
    "entry_count cp = entry_count (current_checkpoint (manifest s))"
    "head_hash cp = head_hash (current_checkpoint (manifest s))"
    "ledger_public_key cp = ed_key_to_bytes c (ed_verifying_key c sk)"
    "LedgerCheckpoint.timestamp_unix_secs cp = ts"
    using anchored_suffix_checkpoint [OF ext] sign_checkpoint_verifies [OF assms(3,4)]
    by (simp_all add: cp_def Chain_from_checkpoint_suffix_def)
  have current: "Verifier_verify_checkpoint c (current_checkpoint (manifest s)) = Ok ()"
    using ext(1) unfolding verify_checkpoint_extension_eq_Ok verify_checkpoint_monotonic_eq_Ok by auto
  define r0 where "r0 = \<lparr>receipt_schema = CONSENT_COMPACTED_CUTOVER_RECEIPT_SCHEMA,
      receipt_ledger_epoch_id = consent_ledger_epoch_id c (ledger_public_key (current_checkpoint (manifest s))),
      activation_snapshot_digest = snapshot_digest s,
      receipt_archive_sequence_digest = summary_archive_sequence_digest (recovery_summary s),
      receipt_recovery_summary_digest = summary_digest (recovery_summary s),
      source_complete_checkpoint = current_checkpoint (manifest s), activated_checkpoint = cp,
      activated_at_unix_secs = ts, receipt_signature = zeroed\<rparr>"
  define r where "r = r0\<lparr>receipt_signature := ed_sign c sk (receipt_bytes c r0)\<rparr>"
  have msg: "consent_compacted_cutover_receipt_message c r0 = Ok (receipt_bytes c r0)"
    using cp(1) current by (simp add: r0_def)
  have "receipt_bytes c r = receipt_bytes c r0" by (simp add: r_def)
  then have "ed_verify c (ed_verifying_key c sk) (receipt_bytes c r) (receipt_signature r)"
    using ed25519_correctD [OF assms(3)] by (simp add: r_def)
  then have ver: "ConsentCompactedCutoverReceiptV1_verify c (ed_verifying_key c sk) s r = Ok ()"
    unfolding receipt_verify_eq_Ok using v cp assms(2) current by (simp add: r_def r0_def)
  have "ConsentCompactedCutoverReceiptV1_sign c s cp sk ts = Ok r"
    unfolding ConsentCompactedCutoverReceiptV1_sign_def Let_def r0_def [symmetric]
    by (simp only: msg and_then.simps r_def [symmetric] ver map_ok.simps)
  with ver show ?thesis by blast
qed

lemma summary_indexes_sorted:
  assumes "ConsentRecoverySummaryV1_from_archive_sequence c hex segs = Ok s"
  shows "sorted_list_of_set (set (replay_action_ids s)) = replay_action_ids s"
    and "sorted_list_of_set (set (map recovered_session_id (recovered_sessions s))) =
      map recovered_session_id (recovered_sessions s)"
  using assms by (auto simp: from_archive_sequence_iff recovered_summary_def Let_def comp_def image_image)

lemma activate_Ok:
  assumes "ConsentCompactedSnapshotV1_verify c hex segs (ed_verifying_key c sk) s = Ok ()"
    and "LedgerCheckpoint.timestamp_unix_secs (current_checkpoint (manifest s)) \<le> ts"
    and "ed25519_correct c" and "ed25519_key_codec c"
  shows "\<exists>st. ConsentCompactedActiveStateV1_activate c hex s segs sk ts = Ok st \<and>
    ConsentCompactedActiveStateV1_verify c hex (ed_verifying_key c sk) st = Ok () \<and>
    activation_snapshot st = s \<and> resident_entries st = suffix_entries s \<and> generation st = 0 \<and>
    LedgerCheckpoint.timestamp_unix_secs (active_checkpoint st) = ts"
proof -
  let ?pk = "ed_verifying_key c sk"
  let ?ch = "Chain_from_checkpoint_suffix (through_checkpoint (recovery_summary s)) (suffix_entries s) sk"
  let ?cp = "Chain_sign_checkpoint c ts ?ch"
  note v = assms(1) [unfolded ConsentCompactedSnapshotV1_verify_def verify_snapshot_with_eq_Ok]
  note summary = archived_summary [OF assms(1)]
  have key: "Chain.signing_key ?ch = sk" "Chain.entries ?ch = suffix_entries s"
    by (simp_all add: Chain_from_checkpoint_suffix_def)
  obtain r where r: "ConsentCompactedCutoverReceiptV1_sign c s ?cp sk ts = Ok r"
      "ConsentCompactedCutoverReceiptV1_verify c ?pk s r = Ok ()"
    using cutover_receipt_Ok [OF assms] by blast
  have ext: "Verifier_verify_checkpoint_extension c (through_checkpoint (recovery_summary s)) ?cp
      (suffix_entries s) = Ok ()"
    using v assms(2-4) by (intro resigned_extension [where b = "current_checkpoint (manifest s)"]) auto
  have frontier: "ConsentCompactedSnapshotV1_verify_signed_frontier c hex ?pk s = Ok ()"
    using v from_archive_sequence_verify_self [OF summary]
    by (simp add: ConsentCompactedSnapshotV1_verify_signed_frontier_def verify_snapshot_with_eq_Ok)
  define st0 where "st0 = \<lparr>active_schema = CONSENT_COMPACTED_ACTIVE_STATE_SCHEMA, activation_snapshot = s,
      cutover_receipt = r, generation = 0, previous_state_digest = zeroed, active_checkpoint = ?cp,
      resident_entries = suffix_entries s, archived_replay_action_ids = replay_action_ids (recovery_summary s),
      archived_terminal_sessions = map recovered_session_id (recovered_sessions (recovery_summary s)),
      state_digest = zeroed\<rparr>"
  define st where "st = st0\<lparr>state_digest := blake3_hash c (active_bytes c st0)\<rparr>"
  have dig: "state_digest st = blake3_hash c (active_bytes c st)" by (simp add: st_def)
  have flds: "active_schema st = CONSENT_COMPACTED_ACTIVE_STATE_SCHEMA" "activation_snapshot st = s"
      "cutover_receipt st = r" "generation st = 0" "previous_state_digest st = zeroed"
      "active_checkpoint st = ?cp" "resident_entries st = suffix_entries s"
      "archived_replay_action_ids st = replay_action_ids (recovery_summary s)"
      "archived_terminal_sessions st = map recovered_session_id (recovered_sessions (recovery_summary s))"
    by (simp_all add: st_def st0_def)
  have ver: "ConsentCompactedActiveStateV1_verify c hex ?pk st = Ok ()"
    unfolding active_verify_eq_Ok flds dig using v r(2) ext frontier by (simp add: key)
  have cps: "Verifier_verify_checkpoint c (current_checkpoint (manifest s)) = Ok ()"
      "Verifier_verify_checkpoint c ?cp = Ok ()"
      "consent_compacted_cutover_receipt_fingerprint c r = Ok (receipt_fp c r)"
    using r(2) sign_checkpoint_verifies [OF assms(3,4)] by (auto simp: receipt_verify_eq_Ok)
  have digest: "consent_compacted_active_state_digest c st0 = Ok (blake3_hash c (active_bytes c st0))"
    unfolding active_digest_eq_Ok using cps by (simp add: st0_def del: receipt_fingerprint_eq_Ok)
  have restore: "ConsentCompactedSnapshotV1_restore_state c hex segs sk s = Ok
      \<lparr>restored_chain = ?ch, restored_replay_action_ids = set (replay_action_ids (recovery_summary s)),
       restored_terminal_sessions = set (map recovered_session_id (recovered_sessions (recovery_summary s)))\<rparr>"
    using v assms(1) by (simp add: ConsentCompactedSnapshotV1_restore_state_def Let_def)
  have "ConsentCompactedActiveStateV1_activate c hex s segs sk ts = Ok st"
    unfolding ConsentCompactedActiveStateV1_activate_def Let_def restore and_then.simps
      RestoredConsentStateV1.simps key summary_indexes_sorted [OF summary] r(1) st0_def [symmetric]
      digest st_def [symmetric] ver map_ok.simps ..
  then show ?thesis using ver flds by auto
qed

lemma state_pin_Ok:
  assumes "ConsentCompactedActiveStateV1_verify c hex (ed_verifying_key c sk) st = Ok ()"
    and "LedgerCheckpoint.timestamp_unix_secs (active_checkpoint st) \<le> ts" and "ed25519_correct c"
  shows "\<exists>p. ConsentCompactedStatePinV1_sign_for_state c hex st sk ts = Ok p \<and>
    ConsentCompactedStatePinV1_verify_against_state c hex st (ed_verifying_key c sk) p = Ok ()"
proof -
  note v = assms(1) [unfolded active_verify_eq_Ok]
  have fp: "consent_compacted_cutover_receipt_fingerprint c (cutover_receipt st) =
      Ok (receipt_fp c (cutover_receipt st))"
    using v by (auto simp: receipt_verify_eq_Ok)
  have cp: "Verifier_verify_checkpoint c (active_checkpoint st) = Ok ()"
    using v unfolding verify_checkpoint_extension_eq_Ok verify_checkpoint_monotonic_eq_Ok by blast
  define p0 where "p0 = \<lparr>pin_schema = CONSENT_COMPACTED_STATE_PIN_SCHEMA,
      pin_ledger_epoch_id = receipt_ledger_epoch_id (cutover_receipt st),
      pin_cutover_receipt_fingerprint = receipt_fp c (cutover_receipt st), pin_generation = generation st,
      pin_active_state_digest = state_digest st, pin_checkpoint = active_checkpoint st,
      pin_created_at_unix_secs = ts, pin_signature = zeroed\<rparr>"
  define p where "p = p0\<lparr>pin_signature := ed_sign c sk (pin_bytes c p0)\<rparr>"
  have msg: "consent_compacted_state_pin_message c p0 = Ok (pin_bytes c p0)"
    using cp by (simp add: p0_def)
  have "pin_bytes c p = pin_bytes c p0" by (simp add: p_def)
  then have "ed_verify c (ed_verifying_key c sk) (pin_bytes c p) (pin_signature p)"
    using ed25519_correctD [OF assms(3)] by (simp add: p_def)
  then have ver: "ConsentCompactedStatePinV1_verify_against_state c hex st (ed_verifying_key c sk) p = Ok ()"
    unfolding pin_verify_eq_Ok using v cp assms(1,2) by (simp add: p_def p0_def)
  have "ConsentCompactedStatePinV1_sign_for_state c hex st sk ts = Ok p"
    using assms(2) unfolding ConsentCompactedStatePinV1_sign_for_state_def Let_def assms(1) fp and_then.simps
    by (simp only: p0_def [symmetric] msg and_then.simps p_def [symmetric] ver map_ok.simps not_less [symmetric] if_False)
  with ver show ?thesis by blast
qed

lemma gc_certificate_Ok:
  assumes "ConsentCompactedActiveStateV1_verify c hex (ed_verifying_key c sk) st = Ok ()"
    and "ConsentCompactedSnapshotV1_verify c hex segs (ed_verifying_key c sk) (activation_snapshot st) = Ok ()"
    and "ConsentCompactedStatePinV1_verify_against_state c hex st (ed_verifying_key c sk) p = Ok ()"
    and "LedgerCheckpoint.timestamp_unix_secs (active_checkpoint st) \<le> ts" and "ed25519_correct c"
  shows "\<exists>g. ConsentCompactionGcCertificateV1_sign_for_state c hex st p segs sk ts = Ok g \<and>
    ConsentCompactionGcCertificateV1_verify c hex st p segs (ed_verifying_key c sk) g = Ok ()"
proof -
  let ?pk = "ed_verifying_key c sk"
  note v = assms(1) [unfolded active_verify_eq_Ok]
  note arch = verified_archive_extension [OF archived_summary [OF assms(2)]]
  obtain digest where digest: "ledger_archive_sequence_digest c segs = Ok digest"
    using archived_summary [OF assms(2)] by (auto simp: from_archive_sequence_iff)
  have fp: "consent_compacted_cutover_receipt_fingerprint c (cutover_receipt st) =
      Ok (receipt_fp c (cutover_receipt st))"
    using v by (auto simp: receipt_verify_eq_Ok)
  obtain pin_fp where pin: "consent_compacted_state_pin_fingerprint c p = Ok pin_fp"
    using assms(3) by (auto simp: pin_verify_eq_Ok consent_compacted_state_pin_fingerprint_def)
  have through: "last_terminal_checkpoint segs = Ok (terminal_checkpoint (last segs))"
    using arch(1) by (simp add: last_terminal_checkpoint_def)
  have cp: "Verifier_verify_checkpoint c (active_checkpoint st) = Ok ()"
    using v unfolding verify_checkpoint_extension_eq_Ok verify_checkpoint_monotonic_eq_Ok by blast
  have cp': "Verifier_verify_checkpoint c (terminal_checkpoint (last segs)) = Ok ()"
    using arch(4) arch(2) unfolding verify_checkpoint_extension_eq_Ok verify_checkpoint_monotonic_eq_Ok by simp
  define g0 where "g0 = \<lparr>gc_schema = CONSENT_COMPACTION_GC_CERTIFICATE_SCHEMA,
      gc_ledger_epoch_id = receipt_ledger_epoch_id (cutover_receipt st),
      gc_cutover_receipt_fingerprint = receipt_fp c (cutover_receipt st), gc_archive_sequence_digest = digest,
      gc_recovery_summary_digest = summary_digest (recovery_summary (activation_snapshot st)),
      gc_active_state_digest = state_digest st, gc_state_pin_fingerprint = pin_fp,
      gc_archive_through_checkpoint = terminal_checkpoint (last segs),
      gc_current_checkpoint = active_checkpoint st, gc_issued_at_unix_secs = ts, gc_signature = zeroed\<rparr>"
  define g where "g = g0\<lparr>gc_signature := ed_sign c sk (gc_bytes c g0)\<rparr>"
  have msg: "consent_compaction_gc_certificate_message c g0 = Ok (gc_bytes c g0)"
    using cp cp' by (simp add: g0_def)
  have "gc_bytes c g = gc_bytes c g0" by (simp add: g_def)
  then have sig: "ed_verify c ?pk (gc_bytes c g) (gc_signature g)"
    using ed25519_correctD [OF assms(5)] by (simp add: g_def)
  have msg': "consent_compaction_gc_certificate_message c g = Ok (gc_bytes c g)"
    using cp cp' by (simp add: g_def g0_def)
  have ver: "ConsentCompactionGcCertificateV1_verify c hex st p segs ?pk g = Ok ()"
    unfolding ConsentCompactionGcCertificateV1_verify_def assms(1-3) through digest fp pin msg' map_err.simps and_then.simps
    using sig arch(2) assms(4) by (simp add: g_def g0_def not_less)
  have "ConsentCompactionGcCertificateV1_sign_for_state c hex st p segs sk ts = Ok g"
    using assms(4) unfolding ConsentCompactionGcCertificateV1_sign_for_state_def Let_def assms(1-3) through digest fp
      pin map_err.simps and_then.simps
    by (simp only: g0_def [symmetric] msg and_then.simps g_def [symmetric] ver map_ok.simps not_less [symmetric] if_False)
  with ver show ?thesis by blast
qed

lemma first_round_bundle:
  assumes steps: "(chain_step c)\<^sup>*\<^sup>* (Chain_new sk) ch" "(chain_step c)\<^sup>*\<^sup>* ch ch'"
    and summary: "ConsentRecoverySummaryV1_from_archive_sequence c hex segs = Ok s"
      "through_checkpoint s = Chain_sign_checkpoint c t ch"
      "summary_archive_sequence_digest s \<noteq> zeroed" "summary_digest s \<noteq> zeroed"
    and suff: "verify_recovery_suffix_compatibility hex s (drop (length (Chain.entries ch)) (Chain.entries ch')) = Ok ()"
    and len: "length (Chain.entries ch') < 2 ^ 64" and t: "t \<le> ts"
    and crypto: "ed25519_correct c" "ed25519_key_codec c"
  defines "m \<equiv> manifest_of c (Chain_sign_checkpoint c t ch) (summary_archive_sequence_digest s) (summary_digest s) ts ch'"
  defines "b \<equiv> \<lparr>bundle_schema = CONSENT_COMPACTION_BUNDLE_SCHEMA, archive_segments = segs,
    bundle_recovery_summary = s, bundle_manifest = m\<rparr>"
  shows "ConsentCompactionBundleV1_build c hex ch' segs ts = Ok b"
    and "ConsentCompactionBundleV1_verify_against_live_ledger c hex (Chain.entries ch') (ed_verifying_key c sk) None b = Ok ()"
    and "local_suffix_start (archived_entry_count s) None = Ok (length (Chain.entries ch))"
    and "Verifier_verify_ledger_compaction_manifest c m = Ok ()"
    and "Verifier_verify_checkpoint_extension c (through_checkpoint s) (Chain_sign_checkpoint c ts ch')
      (drop (length (Chain.entries ch)) (Chain.entries ch')) = Ok ()"
proof -
  have all: "(chain_step c)\<^sup>*\<^sup>* (Chain_new sk) ch'" using steps by (rule rtranclp_trans)
  have ok: "Chain_ok c ch'" using chain_steps_ok [OF all crypto(1)] by simp
  note ext = chain_steps_extends [OF steps(2)]
  have base: "Chain.base_checkpoint ch' = None" "base_entry_count ch' = 0" "Chain.signing_key ch' = sk"
    using chain_steps_extends [OF all] by (simp_all add: chain_extends_def Chain_new_def)
  have lt: "length (Chain.entries ch) \<le> length (Chain.entries ch')"
    using ext by (auto simp: chain_extends_def dest: prefix_length_le)
  note pre = signed_checkpoint_prefix [OF ext ok base(1) len crypto]
    signed_checkpoint_prefix [OF chain_extends_refl ok base(1) len crypto]
  have room: "unat (base_entry_count ch') + length (Chain.entries ch') < 2 ^ 64" using len base by simp
  have mono: "Verifier_verify_checkpoint_monotonic c (Chain_sign_checkpoint c t ch)
      (Chain_sign_checkpoint c ts ch') = Ok ()"
    by (rule signed_checkpoints_monotonic [OF ext ok room crypto t])
  have count: "unat (Chain_entry_count ch) = length (Chain.entries ch)"
    using unat_entry_count [of ch] ext base len lt by (simp add: chain_extends_def)
  have "archived_entry_count s = Chain_entry_count ch"
    using summary(1,2) by (auto simp: from_archive_sequence_iff recovered_summary_def Let_def)
  then show start: "local_suffix_start (archived_entry_count s) None = Ok (length (Chain.entries ch))"
    using count by (simp add: local_suffix_start_def)
  have "Chain_sign_compaction_manifest c (Chain_sign_checkpoint c t ch) (summary_archive_sequence_digest s)
      (summary_digest s) ts ch' = Ok m" and m: "Verifier_verify_ledger_compaction_manifest c m = Ok ()"
    unfolding m_def using base pre
    by (simp_all add: sign_compaction_manifest_Ok [OF mono summary(3,4) crypto])
  then show "ConsentCompactionBundleV1_build c hex ch' segs ts = Ok b"
    using summary suff base lt
    by (simp add: ConsentCompactionBundleV1_build_def b_def Let_def start
        ConsentCompactionBundleV1_verify_suffix_compatibility_def Chain_base_checkpoint_def suffix_from_def)
  show "Verifier_verify_ledger_compaction_manifest c m = Ok ()" by (rule m)
  have "Verifier_verify_ledger_compaction_manifest_against_entries c m (Chain.entries ch')
      (ed_verifying_key c sk) None = Ok ()"
    using m pre base
    by (simp add: Verifier_verify_ledger_compaction_manifest_against_entries_def m_def manifest_of_def)
  then show "ConsentCompactionBundleV1_verify_against_live_ledger c hex (Chain.entries ch') (ed_verifying_key c sk) None b = Ok ()"
    using summary suff lt
    by (simp add: ConsentCompactionBundleV1_verify_against_live_ledger_def b_def start verify_against_archive_iff
        ConsentCompactionBundleV1_verify_suffix_compatibility_def suffix_from_def)
      (simp add: m_def manifest_of_def)
  show "Verifier_verify_checkpoint_extension c (through_checkpoint s) (Chain_sign_checkpoint c ts ch')
      (drop (length (Chain.entries ch)) (Chain.entries ch')) = Ok ()"
    unfolding summary(2) by (rule signed_checkpoint_extension [OF ext ok room crypto t])
qed

lemma first_round_snapshot:
  assumes "(chain_step c)\<^sup>*\<^sup>* (Chain_new sk) ch" "(chain_step c)\<^sup>*\<^sup>* ch ch'"
    and "ConsentRecoverySummaryV1_from_archive_sequence c hex segs = Ok s"
      "through_checkpoint s = Chain_sign_checkpoint c t ch"
      "summary_archive_sequence_digest s \<noteq> zeroed" "summary_digest s \<noteq> zeroed"
    and "verify_recovery_suffix_compatibility hex s (drop (length (Chain.entries ch)) (Chain.entries ch')) = Ok ()"
    and "length (Chain.entries ch') < 2 ^ 64" and "t \<le> ts"
    and "ed25519_correct c" "ed25519_key_codec c"
    and "length (Chain.entries ch') \<le> length (Chain.entries ch) + MAX_CONSENT_COMPACTED_SUFFIX_ENTRIES"
  shows "\<exists>b snap. ConsentCompactionBundleV1_build c hex ch' segs ts = Ok b \<and>
    ConsentCompactedSnapshotV1_build c hex b (Chain.entries ch') (ed_verifying_key c sk) None = Ok snap \<and>
    ConsentCompactedSnapshotV1_verify c hex segs (ed_verifying_key c sk) snap = Ok () \<and>
    suffix_entries snap = drop (length (Chain.entries ch)) (Chain.entries ch') \<and>
    current_checkpoint (manifest snap) = Chain_sign_checkpoint c ts ch'"
proof -
  let ?m = "manifest_of c (Chain_sign_checkpoint c t ch) (summary_archive_sequence_digest s) (summary_digest s) ts ch'"
  let ?suff = "drop (length (Chain.entries ch)) (Chain.entries ch')"
  define b where "b = \<lparr>bundle_schema = CONSENT_COMPACTION_BUNDLE_SCHEMA, archive_segments = segs,
    bundle_recovery_summary = s, bundle_manifest = ?m\<rparr>"
  note round = first_round_bundle [OF assms(1-11), folded b_def]
  have ext: "prefix (Chain.entries ch) (Chain.entries ch')" and key: "Chain.signing_key ch' = sk"
    using chain_steps_extends [OF assms(2)] chain_steps_extends [OF rtranclp_trans [OF assms(1,2)]]
    by (simp_all add: chain_extends_def Chain_new_def)
  define s0 where "s0 = \<lparr>snapshot_schema = CONSENT_COMPACTED_SNAPSHOT_SCHEMA, recovery_summary = s, manifest = ?m,
    suffix_entries = ?suff, snapshot_digest = zeroed\<rparr>"
  define snap where "snap = s0\<lparr>snapshot_digest := blake3_hash c (snapshot_bytes c s0)\<rparr>"
  have "snapshot_bytes c snap = snapshot_bytes c s0" by (simp add: snap_def)
  then have dig: "snapshot_digest snap = blake3_hash c (snapshot_bytes c snap)" by (simp add: snap_def)
  have m: "archived_through_checkpoint ?m = through_checkpoint s" "current_checkpoint ?m = Chain_sign_checkpoint c ts ch'"
      "archive_sequence_digest ?m = summary_archive_sequence_digest s" "recovery_summary_digest ?m = summary_digest s"
    by (simp_all add: manifest_of_def assms(4))
  have flds: "snapshot_schema snap = CONSENT_COMPACTED_SNAPSHOT_SCHEMA" "recovery_summary snap = s"
      "manifest snap = ?m" "suffix_entries snap = ?suff"
    by (simp_all add: snap_def s0_def)
  have digest: "consent_compacted_snapshot_digest c s0 = Ok (blake3_hash c (snapshot_bytes c s0))"
    using sign_checkpoint_verifies [OF assms(10,11)] m assms(4) by (simp add: s0_def)
  have b: "bundle_recovery_summary b = s" "bundle_manifest b = ?m" by (simp_all add: b_def)
  have suff: "suffix_from (Chain.entries ch') (length (Chain.entries ch)) SummaryMismatch = Ok ?suff"
      "check_suffix_len ?suff = Ok ()"
    using prefix_length_le [OF ext] assms(12) by simp_all
  have "ConsentCompactedSnapshotV1_build c hex b (Chain.entries ch') (ed_verifying_key c sk) None = Ok snap"
    unfolding ConsentCompactedSnapshotV1_build_def round(2) b round(3) and_then.simps suff Let_def
      s0_def [symmetric] digest map_ok.simps snap_def ..
  moreover have "ConsentCompactedSnapshotV1_verify c hex segs (ed_verifying_key c sk) snap = Ok ()"
    unfolding ConsentCompactedSnapshotV1_verify_def verify_snapshot_with_eq_Ok flds dig
    using round(4,5) assms(3,7,12) m key by (simp add: verify_against_archive_iff)
  moreover have "current_checkpoint (manifest snap) = Chain_sign_checkpoint c ts ch'" by (simp add: flds m)
  ultimately show ?thesis using round(1) flds(4) by blast
qed

lemma first_round:
  assumes "(chain_step c)\<^sup>*\<^sup>* (Chain_new sk) ch" "(chain_step c)\<^sup>*\<^sup>* ch ch'"
    and "ConsentRecoverySummaryV1_from_archive_sequence c hex segs = Ok s"
      "through_checkpoint s = Chain_sign_checkpoint c t ch"
      "summary_archive_sequence_digest s \<noteq> zeroed" "summary_digest s \<noteq> zeroed"
    and "verify_recovery_suffix_compatibility hex s (drop (length (Chain.entries ch)) (Chain.entries ch')) = Ok ()"
    and "length (Chain.entries ch') < 2 ^ 64" and "t \<le> t1"
    and "ed25519_correct c" "ed25519_key_codec c"
    and "length (Chain.entries ch') \<le> length (Chain.entries ch) + MAX_CONSENT_COMPACTED_SUFFIX_ENTRIES"
    and "t1 \<le> t2" and "t2 \<le> t3"
  shows "\<exists>b snap st pin g. ConsentCompactionBundleV1_build c hex ch' segs t1 = Ok b \<and>
    ConsentCompactedSnapshotV1_build c hex b (Chain.entries ch') (ed_verifying_key c sk) None = Ok snap \<and>
    ConsentCompactedActiveStateV1_activate c hex snap segs sk t2 = Ok st \<and>
    resident_entries st = drop (length (Chain.entries ch)) (Chain.entries ch') \<and>
    ConsentCompactedStatePinV1_sign_for_state c hex st sk t3 = Ok pin \<and>
    ConsentCompactionGcCertificateV1_sign_for_state c hex st pin segs sk t3 = Ok g \<and>
    ConsentCompactionGcCertificateV1_verify c hex st pin segs (ed_verifying_key c sk) g = Ok ()"
proof -
  obtain b snap where 1: "ConsentCompactionBundleV1_build c hex ch' segs t1 = Ok b"
      "ConsentCompactedSnapshotV1_build c hex b (Chain.entries ch') (ed_verifying_key c sk) None = Ok snap"
      "ConsentCompactedSnapshotV1_verify c hex segs (ed_verifying_key c sk) snap = Ok ()"
      "suffix_entries snap = drop (length (Chain.entries ch)) (Chain.entries ch')"
      "current_checkpoint (manifest snap) = Chain_sign_checkpoint c t1 ch'"
    using first_round_snapshot [OF assms(1-12)] by blast
  obtain st where 2: "ConsentCompactedActiveStateV1_activate c hex snap segs sk t2 = Ok st"
      "ConsentCompactedActiveStateV1_verify c hex (ed_verifying_key c sk) st = Ok ()"
      "activation_snapshot st = snap" "resident_entries st = suffix_entries snap"
      "LedgerCheckpoint.timestamp_unix_secs (active_checkpoint st) = t2"
    using activate_Ok [OF 1(3) _ assms(10,11), of t2] 1(5) assms(13) by auto
  obtain pin where 3: "ConsentCompactedStatePinV1_sign_for_state c hex st sk t3 = Ok pin"
      "ConsentCompactedStatePinV1_verify_against_state c hex st (ed_verifying_key c sk) pin = Ok ()"
    using state_pin_Ok [OF 2(2) _ assms(10), of t3] 2(5) assms(14) by auto
  obtain g where 4: "ConsentCompactionGcCertificateV1_sign_for_state c hex st pin segs sk t3 = Ok g"
      "ConsentCompactionGcCertificateV1_verify c hex st pin segs (ed_verifying_key c sk) g = Ok ()"
    using gc_certificate_Ok [OF 2(2) 1(3) [folded 2(3)] 3(2) _ assms(10), of t3] 2(5) assms(14) by auto
  show ?thesis
    using 1(1,2) 2(1) 3(1) 4 2(4) 1(4) by metis
qed

section \<open>A concrete round for witnesses\<close>

text \<open>The demo primitives with a hash that is never zero, as the manifest requires of its digests.\<close>

definition demo_crypto1 :: "(u8_32, u8_32, bytes) crypto" where
  "demo_crypto1 = demo_crypto\<lparr>blake3_hash := (\<lambda>m. filled (if checksum m = 0 then 1 else checksum m))\<rparr>"

lemma demo_crypto1_lawful:
  "ed25519_correct demo_crypto1" "ed25519_key_codec demo_crypto1"
  by (simp_all add: demo_crypto1_def ed25519_correct_def ed25519_key_codec_def demo_crypto_def)

lemma demo_crypto1_simps [simp]:
  "blake3_hash demo_crypto1 m \<noteq> zeroed" "bincode_serialize demo_crypto1 p = Ok (demo_serialize p)"
  "ed_verifying_key demo_crypto1 k = k" "ed_key_to_bytes demo_crypto1 k = k"
  by (simp_all add: demo_crypto1_def demo_crypto_def)

definition demo_denied :: "u8_32 Chain" where
  "demo_denied = fst (Chain_append demo_crypto1 demo_time (demo_event Denial) (Chain_new (filled 9)))"

definition demo_resumed :: "u8_32 Chain" where
  "demo_resumed = fst (Chain_append demo_crypto1 demo_time
     ((demo_event Approval)\<lparr>session_id := filled 5, request_id := filled 6\<rparr>) demo_denied)"

lemma demo_round_chains:
  obtains e f where "demo_denied = (Chain_new (filled 9))\<lparr>Chain.entries := [e]\<rparr>"
    "demo_resumed = (Chain_new (filled 9))\<lparr>Chain.entries := [e, f]\<rparr>"
    "LedgerEntry.event e = demo_event Denial"
    "LedgerEntry.event f = (demo_event Approval)\<lparr>session_id := filled 5, request_id := filled 6\<rparr>"
    "chain_step demo_crypto1 (Chain_new (filled 9)) demo_denied" "chain_step demo_crypto1 demo_denied demo_resumed"
proof -
  obtain e where e: "Chain_append demo_crypto1 demo_time (demo_event Denial) (Chain_new (filled 9)) =
      ((Chain_new (filled 9))\<lparr>Chain.entries := [e]\<rparr>, Ok e)" "LedgerEntry.event e = demo_event Denial"
    using append_serialized [of demo_crypto1 "Chain_new (filled 9)"] by (auto simp: Chain_new_def)
  let ?ev = "(demo_event Approval)\<lparr>session_id := filled 5, request_id := filled 6\<rparr>"
  obtain f where f: "Chain_append demo_crypto1 demo_time ?ev demo_denied =
      ((Chain_new (filled 9))\<lparr>Chain.entries := [e, f]\<rparr>, Ok f)" "LedgerEntry.event f = ?ev"
    using append_serialized [of demo_crypto1 demo_denied] e by (auto simp: demo_denied_def Chain_new_def)
  show thesis
  proof (rule that [of e f])
    show "demo_denied = (Chain_new (filled 9))\<lparr>Chain.entries := [e]\<rparr>"
      "demo_resumed = (Chain_new (filled 9))\<lparr>Chain.entries := [e, f]\<rparr>"
      using e f by (simp_all add: demo_denied_def demo_resumed_def)
    show "chain_step demo_crypto1 (Chain_new (filled 9)) demo_denied"
      by (rule chain_step.append [where now = demo_time and ev = "demo_event Denial" and r = "Ok e"])
        (use e in \<open>simp_all add: vec_fits_def Chain_new_def demo_denied_def\<close>)
    show "chain_step demo_crypto1 demo_denied demo_resumed"
      by (rule chain_step.append [where ch = demo_denied and ch' = demo_resumed and r = "Ok f" and now = demo_time and ev = ?ev])
        (use e f in \<open>simp_all add: vec_fits_def Chain_new_def demo_denied_def demo_resumed_def\<close>)
  qed (use e f in simp_all)
qed

definition demo_cold :: LedgerArchiveSegment where
  "demo_cold = segment_of demo_crypto1 (Chain_sign_checkpoint demo_crypto1 1 (Chain_new (filled 9)))
     (Chain.entries demo_denied) (Chain_sign_checkpoint demo_crypto1 5 demo_denied)"

lemma demo_cold_entries [simp]: "LedgerArchiveSegment.entries demo_cold = Chain.entries demo_denied"
  by (simp add: demo_cold_def segment_of_def)

lemma demo_summary:
  "\<exists>s. ConsentRecoverySummaryV1_from_archive_sequence demo_crypto1 hex [demo_cold] = Ok s \<and>
     through_checkpoint s = Chain_sign_checkpoint demo_crypto1 5 demo_denied \<and>
     summary_archive_sequence_digest s \<noteq> zeroed \<and> summary_digest s \<noteq> zeroed \<and>
     verify_recovery_suffix_compatibility hex s (drop (length (Chain.entries demo_denied)) (Chain.entries demo_resumed)) = Ok ()"
proof -
  obtain e f where ef: "demo_denied = (Chain_new (filled 9))\<lparr>Chain.entries := [e]\<rparr>"
      "demo_resumed = (Chain_new (filled 9))\<lparr>Chain.entries := [e, f]\<rparr>"
      "LedgerEntry.event e = demo_event Denial"
      "LedgerEntry.event f = (demo_event Approval)\<lparr>session_id := filled 5, request_id := filled 6\<rparr>"
      "chain_step demo_crypto1 (Chain_new (filled 9)) demo_denied"
    by (rule demo_round_chains)
  let ?a = "Chain_sign_checkpoint demo_crypto1 1 (Chain_new (filled 9))"
  let ?b = "Chain_sign_checkpoint demo_crypto1 5 demo_denied"
  note cps = sign_checkpoint_verifies [OF demo_crypto1_lawful]
  have ok: "Chain_ok demo_crypto1 demo_denied"
    by (rule chain_step_ok [OF ef(5) demo_crypto1_lawful(1) Chain_ok_new])
  have es: "Chain.entries demo_denied = [e]" "Chain.entries demo_resumed = [e, f]"
    by (simp_all add: ef(1,2))
  have room: "unat (base_entry_count demo_denied) + length (Chain.entries demo_denied) < 2 ^ 64"
    by (simp add: ef(1) Chain_new_def)
  have "Verifier_verify_checkpoint_extension demo_crypto1 ?a ?b (Chain.entries demo_denied) = Ok ()"
    using signed_checkpoint_extension [OF chain_step_extends [OF ef(5)] ok room demo_crypto1_lawful, of 1 5]
    by (simp add: Chain_new_def)
  then have seg: "Verifier_verify_ledger_archive_segment demo_crypto1 demo_cold = Ok ()"
    unfolding demo_cold_def using es
    by (intro segment_of_verifies) (simp_all add: MAX_LEDGER_ARCHIVE_SEGMENT_ENTRIES_def)
  have seq: "Verifier_verify_ledger_archive_sequence demo_crypto1 [demo_cold] = Ok ()"
    using seg by (simp add: verify_archive_sequence_eq_Ok MAX_LEDGER_ARCHIVE_SEQUENCE_SEGMENTS_def)
  have fp: "checkpoint_fingerprint demo_crypto1 ?a = Ok (cp_fp demo_crypto1 ?a)"
      "checkpoint_fingerprint demo_crypto1 ?b = Ok (cp_fp demo_crypto1 ?b)"
    using cps by simp_all
  have ab: "LedgerArchiveSegment.base_checkpoint demo_cold = ?a" "terminal_checkpoint demo_cold = ?b"
    by (simp_all add: demo_cold_def segment_of_def)
  have "\<exists>h. ledger_archive_sequence_digest demo_crypto1 [demo_cold] = Ok (blake3_hash demo_crypto1 h)"
    using fp seq by (auto simp: ledger_archive_sequence_digest_def MAX_LEDGER_ARCHIVE_SEQUENCE_SEGMENTS_def
        ab simp del: fingerprint_Ok)
  then obtain h where digest:
    "ledger_archive_sequence_digest demo_crypto1 [demo_cold] = Ok (blake3_hash demo_crypto1 h)" by blast
  have log: "decision_ids [e] = [filled 3]" "session_ids [e] = {filled 2}"
      "session_entries (filled 2) [e] = [e]" "ended_ceremony [e]"
    using ef(3) by (auto simp: decision_ids_def is_signed_decision_def session_ids_def session_entries_def
        ended_ceremony_def after_requests_def demo_event_def)
  have rec: "recoverable (archived_entries [demo_cold])"
    using log es by (simp add: recoverable_def MAX_RECOVERY_ACTION_IDS_def MAX_RECOVERY_SESSIONS_def)
  have gen: "genesis_checkpoint (LedgerArchiveSegment.base_checkpoint (hd [demo_cold]))"
      and thru: "terminal_checkpoint (last [demo_cold]) = ?b"
    by (simp_all add: demo_cold_def segment_of_def genesis_checkpoint_def Chain_new_def Chain_entry_count_def
        Chain_last_hash_def saturating_add_def)
  define s0 where "s0 = recovered_summary (blake3_hash demo_crypto1 h) ?b (archived_entries [demo_cold])"
  define s where "s = s0\<lparr>summary_digest := blake3_hash demo_crypto1 (recovery_summary_bytes (cp_fp demo_crypto1 ?b) s0)\<rparr>"
  have "ConsentRecoverySummaryV1_from_archive_sequence demo_crypto1 hex [demo_cold] = Ok s"
    unfolding from_archive_sequence_iff thru Let_def
    using digest rec gen fp(2) by (auto simp: s_def s0_def)
  moreover have "through_checkpoint s = ?b" "summary_archive_sequence_digest s \<noteq> zeroed" "summary_digest s \<noteq> zeroed"
    by (simp_all add: s_def s0_def recovered_summary_def)
  moreover have "verify_recovery_suffix_compatibility hex s (drop (length (Chain.entries demo_denied)) (Chain.entries demo_resumed)) = Ok ()"
    unfolding verify_recovery_suffix_compatibility_iff
    using log es ef(4) by (simp add: s_def s0_def recovered_summary_def image_image decision_ids_def [of "[f]"]
        is_signed_decision_def demo_event_def)
  ultimately show ?thesis by blast
qed

abbreviation no_hex :: "bytes \<Rightarrow> string" where "no_hex \<equiv> \<lambda>_. []"

lemma demo_round_steps:
  "(chain_step demo_crypto1)\<^sup>*\<^sup>* (Chain_new (filled 9)) demo_denied"
  "(chain_step demo_crypto1)\<^sup>*\<^sup>* demo_denied demo_resumed"
  "length (Chain.entries demo_denied) = 1" "length (Chain.entries demo_resumed) = 2"
proof -
  obtain e f where ef: "demo_denied = (Chain_new (filled 9))\<lparr>Chain.entries := [e]\<rparr>"
      "demo_resumed = (Chain_new (filled 9))\<lparr>Chain.entries := [e, f]\<rparr>"
      "chain_step demo_crypto1 (Chain_new (filled 9)) demo_denied" "chain_step demo_crypto1 demo_denied demo_resumed"
    by (rule demo_round_chains)
  show "(chain_step demo_crypto1)\<^sup>*\<^sup>* (Chain_new (filled 9)) demo_denied"
    "(chain_step demo_crypto1)\<^sup>*\<^sup>* demo_denied demo_resumed"
    by (rule r_into_rtranclp, rule ef)+
  show "length (Chain.entries demo_denied) = 1" "length (Chain.entries demo_resumed) = 2"
    by (simp_all add: ef(1,2))
qed

lemma demo_first_round:
  "\<exists>b snap st pin g. ConsentCompactionBundleV1_build demo_crypto1 no_hex demo_resumed [demo_cold] 6 = Ok b \<and>
    ConsentCompactedSnapshotV1_build demo_crypto1 no_hex b (Chain.entries demo_resumed) (filled 9) None = Ok snap \<and>
    ConsentCompactedActiveStateV1_activate demo_crypto1 no_hex snap [demo_cold] (filled 9) 7 = Ok st \<and>
    resident_entries st = drop 1 (Chain.entries demo_resumed) \<and>
    ConsentCompactedStatePinV1_sign_for_state demo_crypto1 no_hex st (filled 9) 8 = Ok pin \<and>
    ConsentCompactionGcCertificateV1_sign_for_state demo_crypto1 no_hex st pin [demo_cold] (filled 9) 8 = Ok g \<and>
    ConsentCompactionGcCertificateV1_verify demo_crypto1 no_hex st pin [demo_cold] (filled 9) g = Ok ()"
proof -
  obtain s where s: "ConsentRecoverySummaryV1_from_archive_sequence demo_crypto1 no_hex [demo_cold] = Ok s"
      "through_checkpoint s = Chain_sign_checkpoint demo_crypto1 5 demo_denied"
      "summary_archive_sequence_digest s \<noteq> zeroed" "summary_digest s \<noteq> zeroed"
      "verify_recovery_suffix_compatibility no_hex s
         (drop (length (Chain.entries demo_denied)) (Chain.entries demo_resumed)) = Ok ()"
    using demo_summary by blast
  show ?thesis
    using first_round [OF demo_round_steps(1,2) s _ _ demo_crypto1_lawful, of 6 7 8]
    by (simp add: demo_round_steps(3,4) MAX_CONSENT_COMPACTED_SUFFIX_ENTRIES_def)
qed

section \<open>Properties\<close>

lemma gc_verify_parts:
  assumes "ConsentCompactionGcCertificateV1_verify c hex st pin segs pk g = Ok ()"
  shows "ConsentCompactedSnapshotV1_verify c hex segs pk (activation_snapshot st) = Ok ()"
    and "ConsentCompactedActiveStateV1_verify c hex pk st = Ok ()"
    and "ConsentCompactedStatePinV1_verify_against_state c hex st pk pin = Ok ()"
  using assms unfolding ConsentCompactionGcCertificateV1_verify_def if_Err_eq_Ok and_then_eq_Ok by auto

text \<open>
  C6. What a deletion certificate proves. If the certificate for removing an archived prefix verifies,
  then the archive followed by the resident entries is one chain from genesis that verifies under the
  ledger key and ends at the state's checkpoint; no decision id occurs twice in it; every session of the
  archive is ended and does not go on in the resident part; and the state keeps exactly the decision ids
  and the sessions of the archive.
\<close>

theorem gc_certificate_safe:
  assumes "ConsentCompactionGcCertificateV1_verify c hex st pin segs pk g = Ok ()" and "ed25519_key_codec c"
  shows "Verifier_verify_checkpoint_prefix c (active_checkpoint st) (whole_history segs st) pk = Ok () \<and>
    entry_count (active_checkpoint st) = of_nat (length (whole_history segs st)) \<and>
    distinct (decision_ids (whole_history segs st)) \<and>
    (\<forall>x \<in> session_ids (archived_entries segs). ended_ceremony (session_entries x (whole_history segs st))) \<and>
    set (archived_replay_action_ids st) = set (decision_ids (archived_entries segs)) \<and>
    set (archived_terminal_sessions st) = session_ids (archived_entries segs)"
proof -
  note parts = gc_verify_parts [OF assms(1)]
  note summary = archived_summary [OF parts(1)]
  have "archived_replay_action_ids st = replay_action_ids (recovery_summary (activation_snapshot st))"
    "archived_terminal_sessions st =
       map recovered_session_id (recovered_sessions (recovery_summary (activation_snapshot st)))"
    using parts(2) unfolding active_verify_eq_Ok by blast+
  then have "set (archived_replay_action_ids st) = set (decision_ids (archived_entries segs))"
    "set (archived_terminal_sessions st) = session_ids (archived_entries segs)"
    using summary by (auto simp: from_archive_sequence_iff recovered_summary_def Let_def image_image)
  then show ?thesis using active_history [OF parts(1,2) assms(2)] by blast
qed

theorem gc_certificate_safe_witness:
  "\<exists>st pin g. ConsentCompactionGcCertificateV1_verify demo_crypto1 no_hex st pin [demo_cold] (filled 9) g = Ok () \<and>
     Verifier_verify_checkpoint_prefix demo_crypto1 (active_checkpoint st) (whole_history [demo_cold] st) (filled 9) = Ok () \<and>
     distinct (decision_ids (whole_history [demo_cold] st))"
proof -
  obtain st pin g where "ConsentCompactionGcCertificateV1_verify demo_crypto1 no_hex st pin [demo_cold] (filled 9) g = Ok ()"
    using demo_first_round by blast
  with gc_certificate_safe [OF this demo_crypto1_lawful(2)] show ?thesis by blast
qed

text \<open>
  C7. Compaction does not show. Restore an active state whose snapshot was verified against its archive,
  and append any events: every append gives the entry or the error that it gives on the complete ledger,
  and a checkpoint signed afterwards is the checkpoint of the complete ledger.
\<close>

theorem compaction_transparent:
  assumes "ConsentCompactedSnapshotV1_verify c hex segs (ed_verifying_key c sk) (activation_snapshot st) = Ok ()"
    and "ConsentCompactedActiveStateV1_restore_state c hex sk st = Ok r"
    and "length evs < 2 ^ 63" and "ed25519_key_codec c"
  defines "full \<equiv> append_all c evs (Chain_from_entries (whole_history segs st) sk)"
    and "compact \<equiv> append_all c evs (restored_chain r)"
  shows "snd compact = snd full \<and> Chain.entries (fst full) = archived_entries segs @ Chain.entries (fst compact) \<and>
    Chain_sign_checkpoint c ts (fst compact) = Chain_sign_checkpoint c ts (fst full)"
proof -
  have "ConsentCompactedActiveStateV1_verify c hex (ed_verifying_key c sk) st = Ok ()"
    using assms(2) by (auto simp: ConsentCompactedActiveStateV1_restore_state_def)
  then have "length (whole_history segs st) < 2 ^ 21"
    using active_history(3) [OF assms(1) _ assms(4)] by blast
  then have len: "length (Chain.entries (Chain_from_entries (whole_history segs st) sk)) + length evs < 2 ^ 64"
    using assms(3) by (simp add: Chain_from_entries_def)
  note run = compacts_append_all [OF restored_compacts [OF assms(1,2)] len, of c, folded full_def compact_def]
  have rel: "compacts (archived_entries segs) (fst full) (fst compact)"
      "length (Chain.entries (fst full)) < 2 ^ 64"
    using run by blast+
  have "Chain.signing_key (fst full) = Chain.signing_key (fst compact)"
    using rel(1) by (simp add: compacts_def)
  then show ?thesis using run compacts_simps [OF rel] by (simp add: Chain_sign_checkpoint_def Let_def compacts_def)
qed

lemma activated_facts:
  assumes "ConsentCompactedActiveStateV1_activate c hex snap segs sk ts = Ok st"
  shows "ConsentCompactedSnapshotV1_verify c hex segs (ed_verifying_key c sk) (activation_snapshot st) = Ok ()"
    and "ConsentCompactedActiveStateV1_verify c hex (ed_verifying_key c sk) st = Ok ()"
  using assms
  by (auto simp: ConsentCompactedActiveStateV1_activate_def Let_def ConsentCompactedSnapshotV1_restore_state_def
      simp del: active_digest_eq_Ok)

theorem compaction_transparent_witness:
  "\<exists>st r. ConsentCompactedActiveStateV1_restore_state demo_crypto1 no_hex (filled 9) st = Ok r \<and>
     snd (append_all demo_crypto1 [(demo_time, demo_event Request)] (restored_chain r)) =
     snd (append_all demo_crypto1 [(demo_time, demo_event Request)]
       (Chain_from_entries (whole_history [demo_cold] st) (filled 9)))"
proof -
  obtain snap st where "ConsentCompactedActiveStateV1_activate demo_crypto1 no_hex snap [demo_cold] (filled 9) 7 = Ok st"
    using demo_first_round by blast
  note st = activated_facts [OF this]
  obtain r where r: "ConsentCompactedActiveStateV1_restore_state demo_crypto1 no_hex (filled 9) st = Ok r"
    using st(2) by (simp add: ConsentCompactedActiveStateV1_restore_state_def)
  show ?thesis
    using r compaction_transparent [OF st(1) r _ demo_crypto1_lawful(2), of "[(demo_time, demo_event Request)]"]
    by auto
qed

text \<open>
  C21. A state pin detects rollback. A pin signed for one state verifies against another only if that one
  has at least its generation and its resident entries begin with the same entries, or the two cutovers
  or two entries at one position are an explicit hash collision.
\<close>

theorem state_pin_detects_rollback:
  assumes "ConsentCompactedStatePinV1_sign_for_state c hex st sk at = Ok pin"
    and "ConsentCompactedStatePinV1_verify_against_state c hex st' pk pin = Ok ()"
  defines "n \<equiv> length (resident_entries st)"
  shows "generation st \<le> generation st' \<and> n \<le> length (resident_entries st') \<and>
      map entry_preimage (take n (resident_entries st')) = map entry_preimage (resident_entries st) \<or>
    (\<exists>k < n. entry_hash_collision c (entry_preimage (resident_entries st' ! k))
       (entry_preimage (resident_entries st ! k))) \<or>
    activation_collision c st st'"
  using pinned_state_kept [OF assms(1,2)] unfolding n_def by blast

theorem state_pin_detects_rollback_witness:
  "\<exists>st pin. ConsentCompactedStatePinV1_sign_for_state demo_crypto1 no_hex st (filled 9) 8 = Ok pin \<and>
     ConsentCompactedStatePinV1_verify_against_state demo_crypto1 no_hex st (filled 9) pin = Ok () \<and>
     length (resident_entries st) = 1 \<and>
     (generation st \<le> generation st \<and> 1 \<le> length (resident_entries st) \<and>
        map entry_preimage (take 1 (resident_entries st)) = map entry_preimage (resident_entries st) \<or>
      (\<exists>k < 1. entry_hash_collision demo_crypto1 (entry_preimage (resident_entries st ! k))
         (entry_preimage (resident_entries st ! k))) \<or>
      activation_collision demo_crypto1 st st)"
proof -
  obtain st pin g where st: "resident_entries st = drop 1 (Chain.entries demo_resumed)"
      "ConsentCompactedStatePinV1_sign_for_state demo_crypto1 no_hex st (filled 9) 8 = Ok pin"
      "ConsentCompactionGcCertificateV1_verify demo_crypto1 no_hex st pin [demo_cold] (filled 9) g = Ok ()"
    using demo_first_round by blast
  have len: "length (resident_entries st) = 1" using st(1) demo_round_steps(4) by simp
  note pin = gc_verify_parts(3) [OF st(3)]
  have "generation st \<le> generation st \<and> 1 \<le> length (resident_entries st) \<and>
        map entry_preimage (take 1 (resident_entries st)) = map entry_preimage (resident_entries st) \<or>
      (\<exists>k < 1. entry_hash_collision demo_crypto1 (entry_preimage (resident_entries st ! k))
         (entry_preimage (resident_entries st ! k))) \<or>
      activation_collision demo_crypto1 st st"
    using state_pin_detects_rollback [OF st(2) pin] unfolding len .
  then show ?thesis using st(2) pin len by blast
qed

text \<open>The archive of a whole ledger in one segment, and its recovery summary.\<close>

lemma genesis_archive:
  assumes "(chain_step c)\<^sup>*\<^sup>* (Chain_new sk) ch" and "length (Chain.entries ch) \<le> MAX_LEDGER_ARCHIVE_SEGMENT_ENTRIES"
    and "ed25519_correct c" and "ed25519_key_codec c" and "t0 \<le> t"
  obtains seg digest where "LedgerArchiveSegment_from_chain c ch (Chain_sign_checkpoint c t0 (Chain_new sk)) t = Ok seg"
    "archived_entries [seg] = Chain.entries ch" "terminal_checkpoint seg = Chain_sign_checkpoint c t ch"
    "genesis_checkpoint (LedgerArchiveSegment.base_checkpoint seg)"
    "ledger_archive_sequence_digest c [seg] = Ok digest"
proof -
  let ?cp = "Chain_sign_checkpoint c t0 (Chain_new sk)"
  obtain seg where seg: "LedgerArchiveSegment_from_chain c ch ?cp t = Ok seg"
      "Verifier_verify_ledger_archive_segment c seg = Ok ()"
    using archive_from_chain_succeeds [OF rtranclp.rtrancl_refl assms(1), of t0 t] assms(2-5)
    by (auto simp: Chain_into_entries_def Chain_new_def MAX_LEDGER_ARCHIVE_SEGMENT_ENTRIES_def)
  have gen: "genesis_checkpoint ?cp"
    by (simp add: genesis_checkpoint_def Chain_new_def Chain_entry_count_def Chain_last_hash_def saturating_add_def)
  have f: "LedgerArchiveSegment.base_checkpoint seg = ?cp" "terminal_checkpoint seg = Chain_sign_checkpoint c t ch"
      "archived_entries [seg] = Chain.entries ch"
    using seg(1) gen by (simp_all add: from_chain_eq_Ok genesis_checkpoint_def)
  have "Verifier_verify_ledger_archive_sequence c [seg] = Ok ()"
    using seg(2) by (simp add: verify_archive_sequence_eq_Ok MAX_LEDGER_ARCHIVE_SEQUENCE_SEGMENTS_def)
  moreover have "checkpoint_fingerprint c (Chain_sign_checkpoint c u ch0) =
      Ok (cp_fp c (Chain_sign_checkpoint c u ch0))" for u and ch0 :: "'a Chain"
    using sign_checkpoint_verifies [OF assms(3,4)] by simp
  ultimately have "\<exists>digest. ledger_archive_sequence_digest c [seg] = Ok digest"
    by (auto simp: ledger_archive_sequence_digest_def MAX_LEDGER_ARCHIVE_SEQUENCE_SEGMENTS_def f simp del: fingerprint_Ok)
  with that [OF seg(1)] f gen show thesis by auto
qed

lemma few_decisions:
  assumes "length es \<le> MAX_LEDGER_ARCHIVE_SEGMENT_ENTRIES" and "distinct (decision_ids es)"
    and "\<forall>x \<in> session_ids es. ended_ceremony (session_entries x es)"
  shows "recoverable es"
proof -
  have "length (decision_ids es) \<le> length es" by (simp add: decision_ids_def)
  moreover have "card (session_ids es) \<le> card (set (map entry_session es))"
    by (rule card_mono) (auto simp: session_ids_def)
  moreover have "card (set (map entry_session es)) \<le> length es" using card_length [of "map entry_session es"] by simp
  ultimately show ?thesis
    using assms by (simp add: recoverable_def MAX_RECOVERY_ACTION_IDS_def MAX_RECOVERY_SESSIONS_def
        MAX_LEDGER_ARCHIVE_SEGMENT_ENTRIES_def)
qed

lemma genesis_summary:
  assumes "ledger_archive_sequence_digest c [seg] = Ok digest" "genesis_checkpoint (LedgerArchiveSegment.base_checkpoint seg)"
    and "terminal_checkpoint seg = Chain_sign_checkpoint c t ch" and "recoverable (archived_entries [seg])"
    and "ed25519_correct c" and "ed25519_key_codec c"
  obtains s where "ConsentRecoverySummaryV1_from_archive_sequence c hex [seg] = Ok s"
    "through_checkpoint s = Chain_sign_checkpoint c t ch"
    "set (replay_action_ids s) = set (decision_ids (archived_entries [seg]))"
    "recovered_session_id ` set (recovered_sessions s) = session_ids (archived_entries [seg])"
proof -
  let ?cp = "Chain_sign_checkpoint c t ch"
  have fp: "checkpoint_fingerprint c ?cp = Ok (cp_fp c ?cp)" using sign_checkpoint_verifies [OF assms(5,6)] by simp
  define s0 where "s0 = recovered_summary digest ?cp (archived_entries [seg])"
  define s where "s = s0\<lparr>summary_digest := blake3_hash c (recovery_summary_bytes (cp_fp c ?cp) s0)\<rparr>"
  have "ConsentRecoverySummaryV1_from_archive_sequence c hex [seg] = Ok s"
    unfolding from_archive_sequence_iff Let_def using assms fp by (auto simp: s_def s0_def)
  then show thesis by (rule that) (simp_all add: s_def s0_def recovered_summary_def image_image)
qed

text \<open>
  C36. The first compaction of a ledger succeeds. Take a ledger and any later state of it with at most
  \<open>MAX_CONSENT_COMPACTED_SUFFIX_ENTRIES\<close> further entries. Let the earlier one have at most 4096 entries, let each
  of its sessions be ended and not go on in the later entries, and let no decision id occur twice in the later
  state. Then, with timestamps that do not go back, archiving the earlier ledger as one segment from genesis
  and summarising that segment succeed; and unless one of the summary's two BLAKE3 digests is all zeros, the
  bundle, the snapshot, the active state, its pin and the deletion certificate are all built, the certificate
  verifies, and the state keeps exactly the entries after the archive.
\<close>

theorem first_compaction_succeeds:
  assumes "(chain_step c)\<^sup>*\<^sup>* (Chain_new sk) ch" "(chain_step c)\<^sup>*\<^sup>* ch ch'"
    and "length (Chain.entries ch) \<le> MAX_LEDGER_ARCHIVE_SEGMENT_ENTRIES"
    and "length (Chain.entries ch') \<le> length (Chain.entries ch) + MAX_CONSENT_COMPACTED_SUFFIX_ENTRIES"
    and "\<forall>x \<in> session_ids (Chain.entries ch). ended_ceremony (session_entries x (Chain.entries ch))"
    and "\<forall>e \<in> set (drop (length (Chain.entries ch)) (Chain.entries ch')). entry_session e \<notin> session_ids (Chain.entries ch)"
    and "distinct (decision_ids (Chain.entries ch'))"
    and "t0 \<le> t" "t \<le> t1" "t1 \<le> t2" "t2 \<le> t3" and "ed25519_correct c" "ed25519_key_codec c"
  shows "\<exists>seg s. LedgerArchiveSegment_from_chain c ch (Chain_sign_checkpoint c t0 (Chain_new sk)) t = Ok seg \<and>
    ConsentRecoverySummaryV1_from_archive_sequence c hex [seg] = Ok s \<and>
    (summary_archive_sequence_digest s \<noteq> zeroed \<and> summary_digest s \<noteq> zeroed \<longrightarrow>
     (\<exists>b snap st pin g. ConsentCompactionBundleV1_build c hex ch' [seg] t1 = Ok b \<and>
      ConsentCompactedSnapshotV1_build c hex b (Chain.entries ch') (ed_verifying_key c sk) None = Ok snap \<and>
      ConsentCompactedActiveStateV1_activate c hex snap [seg] sk t2 = Ok st \<and>
      resident_entries st = drop (length (Chain.entries ch)) (Chain.entries ch') \<and>
      ConsentCompactedStatePinV1_sign_for_state c hex st sk t3 = Ok pin \<and>
      ConsentCompactionGcCertificateV1_sign_for_state c hex st pin [seg] sk t3 = Ok g \<and>
      ConsentCompactionGcCertificateV1_verify c hex st pin [seg] (ed_verifying_key c sk) g = Ok ()))"
proof -
  let ?es = "Chain.entries ch" and ?suff = "drop (length (Chain.entries ch)) (Chain.entries ch')"
  have "Chain.entries ch' = ?es @ ?suff"
    using chain_steps_extends [OF assms(2)] by (auto simp: chain_extends_def prefix_def)
  then have ids: "decision_ids (Chain.entries ch') = decision_ids ?es @ decision_ids ?suff"
    by (metis decision_ids_append)
  have len: "length (Chain.entries ch') < 2 ^ 64"
    using assms(3,4) by (simp add: MAX_LEDGER_ARCHIVE_SEGMENT_ENTRIES_def MAX_CONSENT_COMPACTED_SUFFIX_ENTRIES_def)
  obtain seg digest where seg: "LedgerArchiveSegment_from_chain c ch (Chain_sign_checkpoint c t0 (Chain_new sk)) t = Ok seg"
      "archived_entries [seg] = ?es" "terminal_checkpoint seg = Chain_sign_checkpoint c t ch"
      "genesis_checkpoint (LedgerArchiveSegment.base_checkpoint seg)" "ledger_archive_sequence_digest c [seg] = Ok digest"
    by (rule genesis_archive [OF assms(1,3,12,13,8)])
  have rec: "recoverable (archived_entries [seg])"
    unfolding seg(2) using assms(3,5,7) ids by (intro few_decisions) simp_all
  obtain s where s: "ConsentRecoverySummaryV1_from_archive_sequence c hex [seg] = Ok s"
      "through_checkpoint s = Chain_sign_checkpoint c t ch"
      "set (replay_action_ids s) = set (decision_ids ?es)"
      "recovered_session_id ` set (recovered_sessions s) = session_ids ?es"
    by (rule genesis_summary [OF seg(5,4,3) rec assms(12,13), where hex = hex, unfolded seg(2)])
  have compat: "verify_recovery_suffix_compatibility hex s ?suff = Ok ()"
    unfolding verify_recovery_suffix_compatibility_iff s(3,4) using assms(6,7) ids by auto
  show ?thesis
    using first_round [OF assms(1,2) s(1,2) _ _ compat len assms(9,12,13,4,10,11)] seg(1) s(1) by blast
qed

theorem first_compaction_succeeds_witness:
  "\<exists>seg b snap st. ConsentCompactionBundleV1_build demo_crypto1 no_hex demo_resumed [seg] 6 = Ok b \<and>
    ConsentCompactedSnapshotV1_build demo_crypto1 no_hex b (Chain.entries demo_resumed) (filled 9) None = Ok snap \<and>
    ConsentCompactedActiveStateV1_activate demo_crypto1 no_hex snap [seg] (filled 9) 7 = Ok st"
proof -
  obtain e f where chains: "demo_denied = (Chain_new (filled 9))\<lparr>Chain.entries := [e]\<rparr>"
      "demo_resumed = (Chain_new (filled 9))\<lparr>Chain.entries := [e, f]\<rparr>"
    and ev: "LedgerEntry.event e = demo_event Denial"
      "LedgerEntry.event f = (demo_event Approval)\<lparr>session_id := filled 5, request_id := filled 6\<rparr>"
    by (rule demo_round_chains)
  have ef: "Chain.entries demo_denied = [e]" "Chain.entries demo_resumed = [e, f]" by (simp_all add: chains)
  have log: "session_ids [e] = {filled 2}" "session_entries (filled 2) [e] = [e]" "ended_ceremony [e]"
      "decision_ids [e, f] = [filled 3, filled 6]" "entry_session f = filled 5"
    using ev by (auto simp: decision_ids_def is_signed_decision_def session_ids_def session_entries_def
        ended_ceremony_def after_requests_def demo_event_def)
  obtain seg s where "ConsentRecoverySummaryV1_from_archive_sequence demo_crypto1 no_hex [seg] = Ok s"
      "summary_archive_sequence_digest s \<noteq> zeroed \<and> summary_digest s \<noteq> zeroed \<longrightarrow>
       (\<exists>b snap st. ConsentCompactionBundleV1_build demo_crypto1 no_hex demo_resumed [seg] 6 = Ok b \<and>
        ConsentCompactedSnapshotV1_build demo_crypto1 no_hex b (Chain.entries demo_resumed) (filled 9) None = Ok snap \<and>
        ConsentCompactedActiveStateV1_activate demo_crypto1 no_hex snap [seg] (filled 9) 7 = Ok st)"
    using first_compaction_succeeds [OF demo_round_steps(1,2) _ _ _ _ _ _ _ _ _ demo_crypto1_lawful, of 1 5 6 7 8 no_hex]
    by (simp add: ef log MAX_LEDGER_ARCHIVE_SEGMENT_ENTRIES_def MAX_CONSENT_COMPACTED_SUFFIX_ENTRIES_def) blast
  then show ?thesis
    by (auto simp: from_archive_sequence_iff recovered_summary_def Let_def ledger_archive_sequence_digest_def)
qed

end
