(* ===== verification/Byte_Codec.thy ===== *)
theory Byte_Codec
  imports Xenia_Prelude
begin

text \<open>
  Reading fixed-width integers back from bytes: the inverse of the encoders of the prelude, used where
  the code parses a file or a frame header.
\<close>

definition be_value :: "bytes \<Rightarrow> nat" where
  "be_value bs = foldl (\<lambda>n b. n * 256 + unat b) 0 bs"

definition le_value :: "bytes \<Rightarrow> nat" where
  "le_value bs = be_value (rev bs)"

type_synonym u16 = "16 word"

definition u16_to_be_bytes :: "u16 \<Rightarrow> bytes" where
  "u16_to_be_bytes w = map (\<lambda>i. ucast (drop_bit (8 * i) w)) (rev [0..<2])"

lemma unat_byte:
  "unat (ucast (drop_bit (8 * i) w) :: u8) = unat (w :: 'n::len word) div 256 ^ i mod 256"
proof -
  have "unat (ucast (drop_bit (8 * i) w) :: u8) = unat (drop_bit (8 * i) w) mod 2 ^ 8"
    by (simp add: unsigned_ucast_eq take_bit_eq_mod)
  also have "unat (drop_bit (8 * i) w) = unat w div 2 ^ (8 * i)"
    unfolding unat_drop_bit_eq by (rule drop_bit_eq_div)
  finally show ?thesis by (simp add: power_mult)
qed

lemma foldl_bytes:
  "foldl (\<lambda>n b. n * 256 + unat b) a (map (\<lambda>i. ucast (drop_bit (8 * i) w) :: u8) (rev [0..<k])) =
     a * 256 ^ k + unat (w :: 'n::len word) mod 256 ^ k"
proof (induction k arbitrary: a)
  case (Suc k)
  let ?f = "\<lambda>n (b :: u8). n * 256 + unat b" and ?g = "\<lambda>i. ucast (drop_bit (8 * i) w) :: u8"
  have m: "unat w mod 256 ^ Suc k = unat w div 256 ^ k mod 256 * 256 ^ k + unat w mod 256 ^ k"
    using mod_mult2_eq [of "unat w" "256 ^ k" 256] by (simp add: mult.commute)
  have "foldl ?f a (map ?g (rev [0..<Suc k])) = foldl ?f (?f a (?g k)) (map ?g (rev [0..<k]))" by simp
  also have "\<dots> = ?f a (?g k) * 256 ^ k + unat w mod 256 ^ k" by (rule Suc)
  also have "\<dots> = a * 256 ^ Suc k + unat w mod 256 ^ Suc k"
    unfolding m unat_byte by (simp add: add_mult_distrib)
  finally show ?case .
qed simp

lemma be_value_to_be_bytes [simp]: "be_value (to_be_bytes w) = unat w"
  using foldl_bytes [of 0 w 8] unsigned_less [of w, where ?'a = nat] by (simp add: be_value_def to_be_bytes_def)

lemma be_value_u16 [simp]: "be_value (u16_to_be_bytes w) = unat w"
  using foldl_bytes [of 0 w 2] unsigned_less [of w, where ?'a = nat] by (simp add: be_value_def u16_to_be_bytes_def)

lemma le_value_to_le_bytes [simp]: "le_value (to_le_bytes w) = unat w"
proof -
  have "rev (to_le_bytes w) = to_be_bytes w"
    by (simp add: to_le_bytes_def to_be_bytes_def rev_map)
  then show ?thesis by (simp add: le_value_def)
qed

lemma length_u16_to_be_bytes [simp]: "length (u16_to_be_bytes w) = 2"
  by (simp add: u16_to_be_bytes_def)

end
