(* ===== verification/Audit_Ledger_Store.thy ===== *)
theory Audit_Ledger_Store
  imports Consent_Compaction Operator_Policy Ledger_Witness Byte_Codec
begin

text \<open>
  The file of the consent ledger, \<open>apps/xenia-peer/src/audit_ledger_store.rs\<close>: the versioned envelope with
  its limits, loading with full verification, atomic replacement, and the checkpoints, witness bundles,
  key transitions and archive segments that are kept beside it. The encodings of \<open>bincode\<close> and
  \<open>serde_json\<close> and the clock are arguments; a read that fails is a flag of the read, a write follows
  \<open>io_outcome\<close>, and a temporary path is an argument.
\<close>

record store_codec =
  entries_serialize :: "LedgerEntry list \<Rightarrow> (bytes, string) result"
  entries_deserialize :: "bytes \<Rightarrow> (LedgerEntry list, string) result"
  checkpoint_to_json :: "LedgerCheckpoint \<Rightarrow> (bytes, string) result"
  checkpoint_from_json :: "bytes \<Rightarrow> (LedgerCheckpoint, string) result"
  witness_bundle_from_json :: "bytes \<Rightarrow> (CheckpointWitnessBundle, string) result"
  key_transition_from_json :: "bytes \<Rightarrow> (LedgerKeyTransition, string) result"
  segment_to_json :: "LedgerArchiveSegment \<Rightarrow> (bytes, string) result"
  segment_from_json :: "bytes \<Rightarrow> (LedgerArchiveSegment, string) result"
  active_state_to_json :: "ConsentCompactedActiveStateV1 \<Rightarrow> (bytes, string) result"
  active_state_from_json :: "bytes \<Rightarrow> (ConsentCompactedActiveStateV1, string) result"

text \<open>
  \<open>bincode\<close> with its default configuration: a vector is its length as a little-endian \<open>u64\<close> and then its
  items, and decoding undoes encoding. \<open>serde_json\<close>: what was printed is read back, a newline after it
  included.
\<close>

definition newline :: u8 where
  "newline = 10"

definition store_codec_lawful :: "store_codec \<Rightarrow> bool" where
  "store_codec_lawful sc \<longleftrightarrow>
     (\<forall>es b. entries_serialize sc es = Ok b \<longrightarrow> entries_deserialize sc b = Ok es \<and>
        (\<exists>rest. b = to_le_bytes (of_nat (length es)) @ rest)) \<and>
     (\<forall>cp b. checkpoint_to_json sc cp = Ok b \<longrightarrow> checkpoint_from_json sc (b @ [newline]) = Ok cp) \<and>
     (\<forall>seg b. segment_to_json sc seg = Ok b \<longrightarrow> segment_from_json sc (b @ [newline]) = Ok seg) \<and>
     (\<forall>st b. active_state_to_json sc st = Ok b \<longrightarrow> active_state_from_json sc (b @ [newline]) = Ok st)"

datatype (plugins only:) AuditLedgerStoreError =
    Io string
  | LimitExceeded string
  | UnsupportedSchemaVersion u16
  | MetadataMismatch string
  | Codec string
  | Verify VerifyError
  | ContinuityJson string
  | CheckpointContinuity CheckpointContinuityError
  | KeyTransition LedgerKeyTransitionError
  | CheckpointWitness CheckpointWitnessError
  | LedgerArchive LedgerArchiveError
  | CompactedState ConsentRecoveryError

definition PERSISTED_AUDIT_LEDGER_MAGIC :: bytes where
  "PERSISTED_AUDIT_LEDGER_MAGIC = as_bytes ''XENIA-AUDIT-LEDGER'' @ [0]"

definition PERSISTED_AUDIT_LEDGER_SCHEMA_V1 :: u16 where
  "PERSISTED_AUDIT_LEDGER_SCHEMA_V1 = 1"

definition PERSISTED_AUDIT_LEDGER_HEADER_LEN :: nat where
  "PERSISTED_AUDIT_LEDGER_HEADER_LEN = length PERSISTED_AUDIT_LEDGER_MAGIC + 2 + 8 + 32"

definition MAX_AUDIT_LEDGER_BYTES :: nat where
  "MAX_AUDIT_LEDGER_BYTES = 64 * 1024 * 1024"

definition MAX_AUDIT_LEDGER_ENTRIES :: nat where
  "MAX_AUDIT_LEDGER_ENTRIES = 100000"

definition MAX_RETAINED_CHECKPOINT_BYTES :: nat where
  "MAX_RETAINED_CHECKPOINT_BYTES = 64 * 1024"

definition MAX_CONTINUITY_ARTIFACT_BYTES :: nat where
  "MAX_CONTINUITY_ARTIFACT_BYTES = 1024 * 1024"

section \<open>Loading the ledger\<close>

definition entries_head_hash :: "LedgerEntry list \<Rightarrow> u8_32" where
  "entries_head_hash es = (case vec_last es of Some e \<Rightarrow> LedgerEntry.entry_hash e | None \<Rightarrow> zeroed)"

definition validate_entry_count :: "nat \<Rightarrow> (unit, AuditLedgerStoreError) result" where
  "validate_entry_count n =
     (if n > MAX_AUDIT_LEDGER_ENTRIES
      then Err (LimitExceeded (decimal n @ '' entries exceeds maximum '' @ decimal MAX_AUDIT_LEDGER_ENTRIES))
      else Ok ())"

definition read_u64_be :: "bytes \<Rightarrow> u64 option" where
  "read_u64_be b = (if length b = 8 then Some (of_nat (be_value b)) else None)"

definition read_u16_be :: "bytes \<Rightarrow> u16 option" where
  "read_u16_be b = (if length b = 2 then Some (of_nat (be_value b)) else None)"

text \<open>\<open>usize\<close> is 64 bits wide, so the conversion of a \<open>u64\<close> count does not fail.\<close>

definition declared_bincode_vec_len :: "bytes \<Rightarrow> (nat, AuditLedgerStoreError) result" where
  "declared_bincode_vec_len b =
     (if length b < 8 then Err (MetadataMismatch ''truncated bincode vector length'')
      else let count = le_value (take 8 b) in map_ok (\<lambda>_. count) (validate_entry_count count))"

definition decode_v1 :: "store_codec \<Rightarrow> bytes \<Rightarrow> (LedgerEntry list, AuditLedgerStoreError) result" where
  "decode_v1 sc b =
     (let o1 = length PERSISTED_AUDIT_LEDGER_MAGIC; o2 = o1 + 2; o3 = o2 + 8; o4 = o3 + 32 in
      if length b < PERSISTED_AUDIT_LEDGER_HEADER_LEN then Err (MetadataMismatch ''truncated header'')
      else
        and_then (ok_or (read_u16_be (take 2 (drop o1 b))) (MetadataMismatch ''schema_version'')) (\<lambda>version.
        if version \<noteq> PERSISTED_AUDIT_LEDGER_SCHEMA_V1 then Err (UnsupportedSchemaVersion version)
        else
          and_then (ok_or (read_u64_be (take 8 (drop o2 b))) (MetadataMismatch ''entry_count'')) (\<lambda>count.
          and_then (validate_entry_count (unat count)) (\<lambda>_.
          let expected_head_hash = copy_from_slice (take 32 (drop o3 b)) in
          and_then (declared_bincode_vec_len (drop o4 b)) (\<lambda>encoded.
          if encoded \<noteq> unat count then Err (MetadataMismatch ''encoded_entry_count'')
          else
            and_then (map_err Codec (entries_deserialize sc (drop o4 b))) (\<lambda>es.
            if unat count \<noteq> length es then Err (MetadataMismatch ''entry_count'')
            else if expected_head_hash \<noteq> entries_head_hash es then Err (MetadataMismatch ''head_hash'')
            else Ok es))))))"

definition decode_legacy :: "store_codec \<Rightarrow> bytes \<Rightarrow> (LedgerEntry list, AuditLedgerStoreError) result" where
  "decode_legacy sc b =
     and_then (declared_bincode_vec_len b) (\<lambda>declared.
     and_then (map_err Codec (entries_deserialize sc b)) (\<lambda>es.
     if length es \<noteq> declared then Err (MetadataMismatch ''legacy encoded_entry_count'') else Ok es))"

text \<open>Whether the calls of a read succeed.\<close>

record read_outcome =
  metadata_ok :: bool
  read_ok :: bool

definition load_verified ::
    "('sk, 'vk, 'ml) crypto \<Rightarrow> store_codec \<Rightarrow> read_outcome \<Rightarrow> string \<Rightarrow> 'sk \<Rightarrow> files \<Rightarrow>
     ('sk Chain, AuditLedgerStoreError) result" where
  "load_verified c sc io path sk fs =
     (case fs path of
        None \<Rightarrow> Ok (Chain_new sk)
      | Some b \<Rightarrow>
          if \<not> metadata_ok io then Err (Io ''metadata'')
          else if length b > MAX_AUDIT_LEDGER_BYTES
          then Err (LimitExceeded (decimal (length b) @ '' bytes exceeds maximum '' @ decimal MAX_AUDIT_LEDGER_BYTES))
          else if \<not> read_ok io then Err (Io ''read'')
          else
            and_then (if prefix PERSISTED_AUDIT_LEDGER_MAGIC b then decode_v1 sc b else decode_legacy sc b) (\<lambda>es.
            and_then (map_err Verify (Verifier_verify_chain c es (ed_verifying_key c sk))) (\<lambda>_.
            Ok (Chain_from_entries es sk))))"

section \<open>Replacing a file\<close>

definition persist_owner_only_atomic ::
    "io_outcome \<Rightarrow> string \<Rightarrow> string \<Rightarrow> bytes \<Rightarrow> files \<Rightarrow> files \<times> (unit, AuditLedgerStoreError) result" where
  "persist_owner_only_atomic io temp path b fs = apsnd (map_err Io) (write_atomic io temp path b fs)"

definition v1_envelope :: "LedgerEntry list \<Rightarrow> bytes \<Rightarrow> bytes" where
  "v1_envelope es payload =
     PERSISTED_AUDIT_LEDGER_MAGIC @ u16_to_be_bytes PERSISTED_AUDIT_LEDGER_SCHEMA_V1 @
     to_be_bytes (of_nat (length es)) @ slice (entries_head_hash es) @ payload"

definition encode_entries :: "store_codec \<Rightarrow> LedgerEntry list \<Rightarrow> (bytes, AuditLedgerStoreError) result" where
  "encode_entries sc es =
     and_then (validate_entry_count (length es)) (\<lambda>_.
     and_then (map_err Codec (entries_serialize sc es)) (\<lambda>payload.
     let b = v1_envelope es payload in
     if length b > MAX_AUDIT_LEDGER_BYTES
     then Err (LimitExceeded (decimal (length b) @ '' serialized bytes exceeds maximum '' @
       decimal MAX_AUDIT_LEDGER_BYTES))
     else Ok b))"

definition persist_entries_atomic ::
    "store_codec \<Rightarrow> io_outcome \<Rightarrow> string \<Rightarrow> string \<Rightarrow> LedgerEntry list \<Rightarrow> files \<Rightarrow>
     files \<times> (unit, AuditLedgerStoreError) result" where
  "persist_entries_atomic sc io temp path es fs =
     (case encode_entries sc es of
        Err e \<Rightarrow> (fs, Err e)
      | Ok b \<Rightarrow> persist_owner_only_atomic io temp path b fs)"

section \<open>Artifacts beside the ledger\<close>

text \<open>
  \<open>take(maximum + 1)\<close> bounds what is read; the length check refuses the rest. The label only enters the
  message.
\<close>

definition read_bounded_json_with_size ::
    "(bytes \<Rightarrow> ('a, string) result) \<Rightarrow> bool \<Rightarrow> string \<Rightarrow> nat \<Rightarrow> string \<Rightarrow> files \<Rightarrow>
     ('a \<times> nat, AuditLedgerStoreError) result" where
  "read_bounded_json_with_size from_slice ok path maximum label fs =
     (case fs path of
        None \<Rightarrow> Err (Io ''open'')
      | Some file \<Rightarrow>
          if \<not> ok then Err (Io ''read'')
          else let b = take (maximum + 1) file in
            if length b > maximum
            then Err (LimitExceeded (label @ '' is larger than '' @ decimal maximum @ '' bytes''))
            else map_ok (\<lambda>x. (x, length b)) (map_err ContinuityJson (from_slice b)))"

definition read_bounded_json ::
    "(bytes \<Rightarrow> ('a, string) result) \<Rightarrow> bool \<Rightarrow> string \<Rightarrow> nat \<Rightarrow> string \<Rightarrow> files \<Rightarrow>
     ('a, AuditLedgerStoreError) result" where
  "read_bounded_json from_slice ok path maximum label fs =
     map_ok fst (read_bounded_json_with_size from_slice ok path maximum label fs)"

definition verify_checkpoint_against_chain ::
    "('sk, 'vk, 'ml) crypto \<Rightarrow> u64 \<Rightarrow> LedgerCheckpoint \<Rightarrow> 'sk Chain \<Rightarrow> 'vk \<Rightarrow>
     (unit, AuditLedgerStoreError) result" where
  "verify_checkpoint_against_chain c now cp ch pk =
     (case Chain_base_checkpoint ch of
        None \<Rightarrow> map_err CheckpointContinuity (Verifier_verify_checkpoint_prefix c cp (Chain.entries ch) pk)
      | Some base \<Rightarrow>
          and_then (map_err (CheckpointContinuity \<circ> InvalidCheckpoint) (Verifier_verify_checkpoint c cp)) (\<lambda>_.
          if ledger_public_key cp \<noteq> ed_key_to_bytes c pk then Err (CheckpointContinuity TrustedKeyMismatch)
          else
            and_then (map_err (CheckpointContinuity \<circ> InvalidCheckpoint) (Verifier_verify_checkpoint c base)) (\<lambda>_.
            if entry_count cp < entry_count base
            then Err (MetadataMismatch ''retained checkpoint predates compacted ledger anchor'')
            else if entry_count cp > Chain_entry_count ch
            then Err (CheckpointContinuity (CheckpointAheadOfLedger (entry_count cp) (Chain_entry_count ch)))
            else
              and_then (if entry_count cp = entry_count base then Ok (head_hash base)
                else ok_or (map_option LedgerEntry.entry_hash
                    (vec_get (Chain.entries ch) (unat (entry_count cp - entry_count base - 1))))
                  (CheckpointContinuity (CheckpointAheadOfLedger (entry_count cp) (Chain_entry_count ch)))) (\<lambda>head.
              if head \<noteq> head_hash cp then Err (CheckpointContinuity (PrefixHeadMismatch (entry_count cp)))
              else
                let ts = max now (LedgerCheckpoint.timestamp_unix_secs base) in
                map_err CheckpointContinuity (Verifier_verify_checkpoint_extension c base
                  (Chain_sign_checkpoint c ts ch) (Chain.entries ch))))))"

definition verify_retained_checkpoint_with_policy ::
    "('sk, 'vk, 'ml) crypto \<Rightarrow> store_codec \<Rightarrow> bool \<Rightarrow> string \<Rightarrow> 'sk Chain \<Rightarrow> 'vk \<Rightarrow> u64 \<Rightarrow>
     CheckpointFreshnessPolicy \<Rightarrow> u64 \<Rightarrow> files \<Rightarrow> (LedgerCheckpoint, AuditLedgerStoreError) result" where
  "verify_retained_checkpoint_with_policy c sc ok path ch pk now_unix_secs freshness now fs =
     and_then (read_bounded_json (checkpoint_from_json sc) ok path MAX_RETAINED_CHECKPOINT_BYTES
       ''retained checkpoint'' fs) (\<lambda>cp.
     and_then (map_err CheckpointContinuity (Verifier_verify_checkpoint_freshness c cp now_unix_secs freshness)) (\<lambda>_.
     map_ok (\<lambda>_. cp) (verify_checkpoint_against_chain c now cp ch pk)))"

definition verify_retained_checkpoint ::
    "('sk, 'vk, 'ml) crypto \<Rightarrow> store_codec \<Rightarrow> bool \<Rightarrow> string \<Rightarrow> 'sk Chain \<Rightarrow> 'vk \<Rightarrow> u64 \<Rightarrow> u64 \<Rightarrow> files \<Rightarrow>
     (LedgerCheckpoint, AuditLedgerStoreError) result" where
  "verify_retained_checkpoint c sc ok path ch pk now1 now2 fs =
     verify_retained_checkpoint_with_policy c sc ok path ch pk now1 CheckpointFreshnessPolicy_default now2 fs"

definition verify_retained_witness_bundle ::
    "('sk, 'vk, 'ml) crypto \<Rightarrow> store_codec \<Rightarrow> bool \<Rightarrow> string \<Rightarrow> 'sk Chain \<Rightarrow> 'vk \<Rightarrow> u8_32 list \<Rightarrow> nat \<Rightarrow> u64 \<Rightarrow>
     CheckpointFreshnessPolicy \<Rightarrow> u64 \<Rightarrow> files \<Rightarrow> (CheckpointWitnessBundle, AuditLedgerStoreError) result" where
  "verify_retained_witness_bundle c sc ok path ch pk trusted quorum now_unix_secs freshness now fs =
     and_then (read_bounded_json (witness_bundle_from_json sc) ok path MAX_CONTINUITY_ARTIFACT_BYTES
       ''checkpoint witness bundle'' fs) (\<lambda>bundle.
     and_then (map_err CheckpointContinuity (Verifier_verify_checkpoint_freshness c
       (CheckpointWitnessBundle.checkpoint bundle) now_unix_secs freshness)) (\<lambda>_.
     and_then (verify_checkpoint_against_chain c now (CheckpointWitnessBundle.checkpoint bundle) ch pk) (\<lambda>_.
     map_ok (\<lambda>_. bundle) (map_err CheckpointWitness
       (Verifier_verify_checkpoint_witness_quorum c bundle trusted quorum)))))"

definition verify_retained_key_successor ::
    "('sk, 'vk, 'ml) crypto \<Rightarrow> store_codec \<Rightarrow> bool \<Rightarrow> bool \<Rightarrow> string \<Rightarrow> string \<Rightarrow> 'sk Chain \<Rightarrow> 'vk \<Rightarrow> u64 \<Rightarrow>
     files \<Rightarrow> (LedgerKeyTransition, AuditLedgerStoreError) result" where
  "verify_retained_key_successor c sc ok1 ok2 checkpoint_path transition_path ch pk now fs =
     and_then (read_bounded_json (checkpoint_from_json sc) ok1 checkpoint_path MAX_RETAINED_CHECKPOINT_BYTES
       ''retained checkpoint'' fs) (\<lambda>retained.
     and_then (read_bounded_json (key_transition_from_json sc) ok2 transition_path MAX_CONTINUITY_ARTIFACT_BYTES
       ''ledger key transition'' fs) (\<lambda>transition.
     let candidate = Chain_sign_checkpoint c now ch in
     and_then (map_err KeyTransition
       (Verifier_verify_ledger_key_successor c retained transition candidate (Chain.entries ch))) (\<lambda>_.
     if ledger_public_key candidate \<noteq> ed_key_to_bytes c pk
     then Err (MetadataMismatch ''successor checkpoint key'') else Ok transition)))"

definition export_archive_segment_atomic ::
    "('sk, 'vk, 'ml) crypto \<Rightarrow> store_codec \<Rightarrow> bool \<Rightarrow> io_outcome \<Rightarrow> string \<Rightarrow> string \<Rightarrow> string \<Rightarrow> 'sk Chain \<Rightarrow> u64 \<Rightarrow>
     files \<Rightarrow> files \<times> (LedgerArchiveSegment, AuditLedgerStoreError) result" where
  "export_archive_segment_atomic c sc ok io temp output base_path ch ts fs =
     (case and_then (read_bounded_json (checkpoint_from_json sc) ok base_path MAX_RETAINED_CHECKPOINT_BYTES
              ''archive base checkpoint'' fs) (\<lambda>base.
            and_then (map_err LedgerArchive (LedgerArchiveSegment_from_chain c ch base ts)) (\<lambda>seg.
            and_then (map_err ContinuityJson (segment_to_json sc seg)) (\<lambda>json.
            let b = json @ [newline] in
            if length b > MAX_AUDIT_LEDGER_BYTES
            then Err (LimitExceeded (''serialized archive segment is '' @ decimal (length b) @
              '' bytes; maximum is '' @ decimal MAX_AUDIT_LEDGER_BYTES))
            else Ok (seg, b)))) of
        Err e \<Rightarrow> (fs, Err e)
      | Ok (seg, b) \<Rightarrow> apsnd (map_ok (\<lambda>_. seg)) (persist_owner_only_atomic io temp output b fs))"

definition advance_retained_checkpoint ::
    "('sk, 'vk, 'ml) crypto \<Rightarrow> store_codec \<Rightarrow> bool \<Rightarrow> io_outcome \<Rightarrow> string \<Rightarrow> string \<Rightarrow> 'sk Chain \<Rightarrow> 'vk \<Rightarrow>
     u64 \<Rightarrow> u64 \<Rightarrow> u64 \<Rightarrow> files \<Rightarrow> files \<times> (LedgerCheckpoint, AuditLedgerStoreError) result" where
  "advance_retained_checkpoint c sc ok io temp path ch pk ts now1 now2 fs =
     (case and_then (if fs path \<noteq> None
              then map_ok Some (verify_retained_checkpoint c sc ok path ch pk now1 now2 fs) else Ok None) (\<lambda>previous.
            let candidate = Chain_sign_checkpoint c ts ch in
            and_then (case previous of
                None \<Rightarrow> Ok ()
              | Some p \<Rightarrow> map_err CheckpointContinuity (Verifier_verify_checkpoint_monotonic c p candidate)) (\<lambda>_.
            and_then (map_err ContinuityJson (checkpoint_to_json sc candidate)) (\<lambda>json.
            let b = json @ [newline] in
            if length b > MAX_RETAINED_CHECKPOINT_BYTES
            then Err (LimitExceeded (''serialized retained checkpoint is '' @ decimal (length b) @
              '' bytes; maximum is '' @ decimal MAX_RETAINED_CHECKPOINT_BYTES))
            else Ok (candidate, b)))) of
        Err e \<Rightarrow> (fs, Err e)
      | Ok (candidate, b) \<Rightarrow> apsnd (map_ok (\<lambda>_. candidate)) (persist_owner_only_atomic io temp path b fs))"

section \<open>What is written is what is loaded\<close>

definition reads_ok :: read_outcome where
  "reads_ok = \<lparr>metadata_ok = True, read_ok = True\<rparr>"

lemma validate_entry_count_eq_Ok [simp]: "validate_entry_count n = Ok () \<longleftrightarrow> n \<le> MAX_AUDIT_LEDGER_ENTRIES"
  by (auto simp: validate_entry_count_def)

lemma encode_entries_eq_Ok:
  "encode_entries sc es = Ok b \<longleftrightarrow> length es \<le> MAX_AUDIT_LEDGER_ENTRIES \<and>
     (\<exists>payload. entries_serialize sc es = Ok payload \<and> b = v1_envelope es payload) \<and>
     length b \<le> MAX_AUDIT_LEDGER_BYTES"
  by (auto simp: encode_entries_def Let_def not_less)

lemma v1_envelope_fields:
  fixes es payload
  defines "b \<equiv> v1_envelope es payload" and "n \<equiv> length PERSISTED_AUDIT_LEDGER_MAGIC"
  shows "take 2 (drop n b) = u16_to_be_bytes PERSISTED_AUDIT_LEDGER_SCHEMA_V1"
    and "take 8 (drop (n + 2) b) = to_be_bytes (of_nat (length es))"
    and "take 32 (drop (n + 2 + 8) b) = slice (entries_head_hash es)"
    and "drop (n + 2 + 8 + 32) b = payload"
    and "prefix PERSISTED_AUDIT_LEDGER_MAGIC b"
    and "PERSISTED_AUDIT_LEDGER_HEADER_LEN \<le> length b"
  by (simp_all add: b_def n_def v1_envelope_def PERSISTED_AUDIT_LEDGER_HEADER_LEN_def)

lemma decode_v1_envelope:
  assumes "store_codec_lawful sc" and "entries_serialize sc es = Ok payload"
    and "length es \<le> MAX_AUDIT_LEDGER_ENTRIES"
  shows "decode_v1 sc (v1_envelope es payload) = Ok es"
proof -
  have un: "unat (of_nat (length es) :: u64) = length es"
    using assms(3) by (intro unat_of_nat_u64) (simp add: MAX_AUDIT_LEDGER_ENTRIES_def)
  obtain rest where payload: "payload = to_le_bytes (of_nat (length es)) @ rest" "entries_deserialize sc payload = Ok es"
    using assms(1,2) unfolding store_codec_lawful_def by blast
  have "declared_bincode_vec_len payload = Ok (length es)"
    using assms(3) un by (simp add: declared_bincode_vec_len_def payload(1) Let_def)
  moreover have "read_u16_be (u16_to_be_bytes PERSISTED_AUDIT_LEDGER_SCHEMA_V1) = Some PERSISTED_AUDIT_LEDGER_SCHEMA_V1"
    "read_u64_be (to_be_bytes (of_nat (length es))) = Some (of_nat (length es))"
    by (simp_all add: read_u16_be_def read_u64_be_def)
  moreover have "copy_from_slice (slice (entries_head_hash es)) = entries_head_hash es"
    by (simp add: copy_from_slice_def)
  ultimately show ?thesis
    using assms(3) payload(2) un unfolding decode_v1_def Let_def v1_envelope_fields
    by (simp add: v1_envelope_fields(6) not_less)
qed

lemma load_envelope:
  assumes "store_codec_lawful sc" and "encode_entries sc es = Ok b" and "fs path = Some b"
    and "Verifier_verify_chain c es (ed_verifying_key c sk) = Ok ()"
  shows "load_verified c sc reads_ok path sk fs = Ok (Chain_from_entries es sk)"
  using assms decode_v1_envelope [OF assms(1)]
  by (auto simp: load_verified_def encode_entries_eq_Ok reads_ok_def v1_envelope_fields(5) not_less)

text \<open>A chain that was loaded verifies, whatever is in the file.\<close>

lemma loaded_chain:
  assumes "load_verified c sc io path sk fs = Ok ch"
  shows "Verifier_verify_chain c (Chain.entries ch) (ed_verifying_key c sk) = Ok ()"
    and "ch = Chain_from_entries (Chain.entries ch) sk"
  using assms
  by (auto simp: load_verified_def Chain_new_def Chain_from_entries_def Verifier_verify_chain_def
      split: option.splits if_splits)

lemma persist_owner_only_effect:
  assumes "persist_owner_only_atomic io temp path b fs = (fs', r)" and "temp \<noteq> path"
  shows "r = Ok () \<Longrightarrow> fs' path = Some b"
    and "r \<noteq> Ok () \<Longrightarrow> dir_sync_ok io \<Longrightarrow> fs' path = fs path"
    and "q \<noteq> path \<Longrightarrow> q \<noteq> temp \<Longrightarrow> fs' q = fs q"
  using assms
  by (auto simp: persist_owner_only_atomic_def write_atomic_def write_and_rename_def Let_def
      split: if_splits option.splits)

lemma persist_entries_effect:
  assumes "persist_entries_atomic sc io temp path es fs = (fs', r)" and "temp \<noteq> path"
  shows "r = Ok () \<Longrightarrow> \<exists>b. encode_entries sc es = Ok b \<and> fs' path = Some b"
    and "r \<noteq> Ok () \<Longrightarrow> dir_sync_ok io \<Longrightarrow> fs' path = fs path"
  using assms persist_owner_only_effect [of io temp path _ fs fs' r]
  by (auto simp: persist_entries_atomic_def split: result.splits)

text \<open>A write that reports an error has changed nothing, or only the sync of the directory failed.\<close>

lemma persist_entries_failed:
  assumes "persist_entries_atomic sc io temp path es fs = (fs', Err x)" and "temp \<noteq> path"
  shows "fs' path = fs path \<or> \<not> dir_sync_ok io \<and> (\<exists>b. encode_entries sc es = Ok b \<and> fs' path = Some b)"
  using assms
  by (auto simp: persist_entries_atomic_def persist_owner_only_atomic_def write_atomic_def write_and_rename_def Let_def
      split: if_splits option.splits result.splits)

end
