(* ===== verification/Consent_Server.thy ===== *)
theory Consent_Server
  imports Audit_Ledger_Store Operator_Http
begin

text \<open>
  Deciding consent: \<open>decode_consent_decision\<close> of \<open>apps/xenia-peer/src/main.rs\<close>, the audit event of
  \<open>operator_audit.rs\<close>, the two persisters of \<open>consent_ledger_persistence.rs\<close> and the server of
  \<open>consent_server.rs\<close>. Clocks, fresh uuids and the outcome of each write come with the message that uses
  them. The oneshot sender of the grant is a flag that it is still held and the value that was sent.
\<close>

section \<open>Decoding a decision\<close>

record DecodedConsent =
  decoded_action :: ConsentAction
  decoded_authorized :: "AuthorizedConsentAction option"

definition decode_consent_decision ::
    "('sk, 'vk, 'ml) crypto \<Rightarrow> codec \<Rightarrow> dto_json \<Rightarrow> iteration \<Rightarrow> u64 \<Rightarrow> string \<Rightarrow> bool \<Rightarrow>
     ('sk, 'ml, 'dk) OperatorAuthState \<Rightarrow> Uuid \<Rightarrow> u8_32 \<Rightarrow> OperatorRevocations \<Rightarrow> DecodedConsent option" where
  "decode_consent_decision c cd js it now txt require_auth auth sid digest rv =
     (if \<not> require_auth
      then if txt = ''Approve'' then Some \<lparr>decoded_action = Approve, decoded_authorized = None\<rparr>
        else if txt = ''Deny'' then Some \<lparr>decoded_action = Deny, decoded_authorized = None\<rparr>
        else if txt = ''Revoke'' then Some \<lparr>decoded_action = Revoke, decoded_authorized = None\<rparr>
        else None
      else
        case parse_authenticated_consent_action cd js txt of
          Err _ \<Rightarrow> None
        | Ok req \<Rightarrow>
            (case authorize_consent_action c it (auth_policy auth) (ed_verifying_key c (daemon_key auth))
               (MlDsaIdentity_public_key_bytes c (daemon_ml_dsa auth)) now sid digest req of
               Err _ \<Rightarrow> None
             | Ok a \<Rightarrow>
                 if OperatorRevocations_is_revoked (authorized_operator_id a) rv then None
                 else Some \<lparr>decoded_action = authorized_action a, decoded_authorized = Some a\<rparr>))"

section \<open>The audit event\<close>

fun OperatorRole_debug :: "OperatorRole \<Rightarrow> string" where
  "OperatorRole_debug Viewer = ''Viewer''"
| "OperatorRole_debug Approver = ''Approver''"
| "OperatorRole_debug Operator = ''Operator''"
| "OperatorRole_debug Admin = ''Admin''"

fun ConsentAction_debug :: "ConsentAction \<Rightarrow> string" where
  "ConsentAction_debug Approve = ''Approve''"
| "ConsentAction_debug Deny = ''Deny''"
| "ConsentAction_debug Revoke = ''Revoke''"

fun consent_kind :: "ConsentAction \<Rightarrow> ConsentKind" where
  "consent_kind Approve = Approval"
| "consent_kind Deny = Denial"
| "consent_kind Revoke = Revocation"

definition operator_consent_audit_event ::
    "dto_json \<Rightarrow> AuthorizedConsentAction \<Rightarrow> Uuid \<Rightarrow> Uuid \<Rightarrow> ConsentEventRecord" where
  "operator_consent_audit_event js a sid rid =
     \<lparr>source_id = authorized_ed25519_pubkey a, session_id = sid, request_id = rid,
      kind = consent_kind (authorized_action a),
      scope = ''operator '' @ debug_str js (authorized_operator_id a) @ '' (role '' @
        OperatorRole_debug (authorized_role a) @ '') authorized '' @ ConsentAction_debug (authorized_action a)\<rparr>"

section \<open>Persisting the chain\<close>

text \<open>What a write depends on: the outcome of its calls, its temporary path, and the clock.\<close>

record persist_env =
  pe_io :: io_outcome
  pe_temp :: string
  pe_now :: u64

definition CompleteConsentLedgerPersister_persist ::
    "store_codec \<Rightarrow> string \<Rightarrow> persist_env \<Rightarrow> 'sk Chain \<Rightarrow> files \<Rightarrow> files \<times> (unit, AuditLedgerStoreError) result" where
  "CompleteConsentLedgerPersister_persist sc path e ch fs =
     (if Chain_base_checkpoint ch \<noteq> None
      then (fs, Err (MetadataMismatch ''complete ledger persister received an anchored suffix''))
      else persist_entries_atomic sc (pe_io e) (pe_temp e) path (Chain.entries ch) fs)"

definition persist_compacted_active_state_atomic ::
    "store_codec \<Rightarrow> io_outcome \<Rightarrow> string \<Rightarrow> string \<Rightarrow> ConsentCompactedActiveStateV1 \<Rightarrow> files \<Rightarrow>
     files \<times> (unit, AuditLedgerStoreError) result" where
  "persist_compacted_active_state_atomic sc io temp path st fs =
     (case active_state_to_json sc st of
        Err e \<Rightarrow> (fs, Err (ContinuityJson e))
      | Ok json \<Rightarrow>
          let b = json @ [newline] in
          if length b > MAX_AUDIT_LEDGER_BYTES
          then (fs, Err (LimitExceeded (decimal (length b) @ '' serialized bytes exceeds maximum '' @
            decimal MAX_AUDIT_LEDGER_BYTES)))
          else persist_owner_only_atomic io temp path b fs)"

definition CompactedConsentLedgerPersister_persist ::
    "('sk, 'vk, 'ml) crypto \<Rightarrow> (bytes \<Rightarrow> string) \<Rightarrow> store_codec \<Rightarrow> string \<Rightarrow> persist_env \<Rightarrow> 'sk Chain \<Rightarrow>
     ConsentCompactedActiveStateV1 \<times> files \<Rightarrow>
     (ConsentCompactedActiveStateV1 \<times> files) \<times> (unit, AuditLedgerStoreError) result" where
  "CompactedConsentLedgerPersister_persist c hex sc path e ch s =
     (let (activation, fs) = s in
      case ConsentCompactedActiveStateV1_advance_from_chain c hex ch (pe_now e) activation of
        Err x \<Rightarrow> ((activation, fs), Err (CompactedState x))
      | Ok nxt \<Rightarrow>
          (case persist_compacted_active_state_atomic sc (pe_io e) (pe_temp e) path nxt fs of
             (fs', Err x) \<Rightarrow> ((activation, fs'), Err x)
           | (fs', Ok _) \<Rightarrow> ((nxt, fs'), Ok ())))"

definition load_compacted_active_state ::
    "('sk, 'vk, 'ml) crypto \<Rightarrow> (bytes \<Rightarrow> string) \<Rightarrow> store_codec \<Rightarrow> bool \<Rightarrow> string \<Rightarrow> 'sk \<Rightarrow> files \<Rightarrow>
     (ConsentCompactedActiveStateV1 \<times> 'sk RestoredConsentStateV1, AuditLedgerStoreError) result" where
  "load_compacted_active_state c hex sc ok path sk fs =
     and_then (read_bounded_json (active_state_from_json sc) ok path MAX_AUDIT_LEDGER_BYTES
       ''compacted consent active state'' fs) (\<lambda>st.
     map_ok (\<lambda>r. (st, r)) (map_err CompactedState (ConsentCompactedActiveStateV1_restore_state c hex sk st)))"

section \<open>Applying a decision\<close>

datatype ConsentFollowup = KeepServing | Stop

record ('sk, 's) consent_session =
  grant_tx :: bool
  grant :: "bool option"
  revoked_flag :: bool
  live_ledger :: "'sk Chain"
  store :: 's

type_synonym ('sk, 's) persister =
  "persist_env \<Rightarrow> 'sk Chain \<Rightarrow> 's \<Rightarrow> 's \<times> (unit, AuditLedgerStoreError) result"

text \<open>
  \<open>append_transactional_chain\<close> with a persister that has an effect: it runs once, on the extended chain,
  and not at all when there is no entry to persist.
\<close>

definition append_persisted ::
    "('sk, 'vk, 'ml) crypto \<Rightarrow> SystemTime \<Rightarrow> ConsentEventRecord \<Rightarrow> ('sk, 's) persister \<Rightarrow> persist_env \<Rightarrow>
     ('sk, 's) consent_session \<Rightarrow>
     ('sk, 's) consent_session \<times> (LedgerEntry, AuditLedgerStoreError TransactionalAppendError) result" where
  "append_persisted c now ev persist e s =
     (let (ch', r) = Chain_append_transactional_chain c now ev (\<lambda>ch. snd (persist e ch (store s))) (live_ledger s);
          store' = (case Chain_append c now ev (live_ledger s) of
             (ch1, Ok _) \<Rightarrow> fst (persist e ch1 (store s)) | (_, Err _) \<Rightarrow> store s)
      in (s\<lparr>live_ledger := ch', store := store'\<rparr>, r))"

definition send_grant :: "bool \<Rightarrow> ('sk, 's) consent_session \<Rightarrow> ('sk, 's) consent_session" where
  "send_grant b s = (if grant_tx s then s\<lparr>grant_tx := False, grant := Some b\<rparr> else s)"

definition apply_consent_decision ::
    "('sk, 'vk, 'ml) crypto \<Rightarrow> dto_json \<Rightarrow> SystemTime \<Rightarrow> Uuid \<Rightarrow> ('sk, 's) persister \<Rightarrow> persist_env \<Rightarrow> Uuid \<Rightarrow>
     DecodedConsent \<Rightarrow> ('sk, 's) consent_session \<Rightarrow> ('sk, 's) consent_session \<times> ConsentFollowup" where
  "apply_consent_decision c js now rid persist e session_uuid d s =
     (let (s1, committed) = (case decoded_authorized d of
            None \<Rightarrow> (s, Ok ())
          | Some a \<Rightarrow> apsnd (map_ok (\<lambda>_. ()))
              (append_persisted c now (operator_consent_audit_event js a session_uuid rid) persist e s))
      in case committed of
           Err _ \<Rightarrow> (s1, Stop)
         | Ok _ \<Rightarrow>
             (case decoded_action d of
                Approve \<Rightarrow> (send_grant True s1, KeepServing)
              | Deny \<Rightarrow> (send_grant False s1, Stop)
              | Revoke \<Rightarrow> (s1\<lparr>revoked_flag := True\<rparr>, Stop)))"

section \<open>The server\<close>

text \<open>
  The fields of the server that only it has. The operator policy and the revocation list are shared with
  the other services, which may change them between two messages; the ledger, the persister's store, the
  grant and the revoked flag are the \<open>consent_session\<close>.
\<close>

record ConsentServer =
  require_operator_auth :: bool
  server_session_id :: Uuid
  server_scope_digest :: u8_32
  server_session_uuid :: Uuid

text \<open>
  What the sockets deliver: a connection that fails to be accepted or to shake hands, or its frames up
  to its end. A text frame comes with the shared state at that moment and with the clocks, the uuid and
  the write that serving it uses.
\<close>

record ('sk, 'ml, 'dk) text_frame =
  frame_text :: string
  frame_auth_state :: "('sk, 'ml, 'dk) OperatorAuthState"
  frame_revocations :: OperatorRevocations
  frame_now :: u64
  frame_time :: SystemTime
  frame_uuid :: Uuid
  frame_env :: persist_env

datatype ('sk, 'ml, 'dk) frame = ReceiveFailed | NotText | Text "('sk, 'ml, 'dk) text_frame"

datatype ('sk, 'ml, 'dk) connection = AcceptFailed | HandshakeFailed | Connected "('sk, 'ml, 'dk) frame list"

record ('sk, 'vk, 'ml) server_env =
  sv_crypto :: "('sk, 'vk, 'ml) crypto"
  sv_codec :: codec
  sv_json :: dto_json
  sv_iteration :: iteration

definition serve_text ::
    "('sk, 'vk, 'ml) server_env \<Rightarrow> ConsentServer \<Rightarrow> ('sk, 's) persister \<Rightarrow> ('sk, 'ml, 'dk) text_frame \<Rightarrow>
     ('sk, 's) consent_session \<Rightarrow> ('sk, 's) consent_session \<times> ConsentFollowup" where
  "serve_text env sv persist f s =
     (case decode_consent_decision (sv_crypto env) (sv_codec env) (sv_json env) (sv_iteration env) (frame_now f)
        (frame_text f) (require_operator_auth sv) (frame_auth_state f) (server_session_id sv)
        (server_scope_digest sv) (frame_revocations f) of
        None \<Rightarrow> (s, KeepServing)
      | Some d \<Rightarrow> apply_consent_decision (sv_crypto env) (sv_json env) (frame_time f) (frame_uuid f) persist
          (frame_env f) (server_session_uuid sv) d s)"

fun serve_connection ::
    "('sk, 'vk, 'ml) server_env \<Rightarrow> ConsentServer \<Rightarrow> ('sk, 's) persister \<Rightarrow> ('sk, 'ml, 'dk) frame list \<Rightarrow>
     ('sk, 's) consent_session \<Rightarrow> ('sk, 's) consent_session \<times> ConsentFollowup" where
  "serve_connection env sv persist [] s = (s, KeepServing)"
| "serve_connection env sv persist (ReceiveFailed # fs) s = (s, KeepServing)"
| "serve_connection env sv persist (NotText # fs) s = serve_connection env sv persist fs s"
| "serve_connection env sv persist (Text f # fs) s =
     (case serve_text env sv persist f s of
        (s', Stop) \<Rightarrow> (s', Stop)
      | (s', KeepServing) \<Rightarrow> serve_connection env sv persist fs s')"

text \<open>\<open>Stop\<close> is a server that has returned, \<open>KeepServing\<close> one that waits for the next connection.\<close>

fun ConsentServer_run ::
    "('sk, 'vk, 'ml) server_env \<Rightarrow> ConsentServer \<Rightarrow> ('sk, 's) persister \<Rightarrow> ('sk, 'ml, 'dk) connection list \<Rightarrow>
     ('sk, 's) consent_session \<Rightarrow> ('sk, 's) consent_session \<times> ConsentFollowup" where
  "ConsentServer_run env sv persist [] s = (s, KeepServing)"
| "ConsentServer_run env sv persist (AcceptFailed # cs) s = (s, Stop)"
| "ConsentServer_run env sv persist (HandshakeFailed # cs) s = ConsentServer_run env sv persist cs s"
| "ConsentServer_run env sv persist (Connected fs # cs) s =
     (case serve_connection env sv persist fs s of
        (s', Stop) \<Rightarrow> (s', Stop)
      | (s', KeepServing) \<Rightarrow> ConsentServer_run env sv persist cs s')"

section \<open>An append through a persister\<close>

text \<open>The text frames among what is received.\<close>

fun texts :: "('sk, 'ml, 'dk) frame list \<Rightarrow> ('sk, 'ml, 'dk) text_frame list" where
  "texts [] = []"
| "texts (Text f # fs) = f # texts fs"
| "texts (_ # fs) = texts fs"

fun received :: "('sk, 'ml, 'dk) connection list \<Rightarrow> ('sk, 'ml, 'dk) text_frame list" where
  "received [] = []"
| "received (Connected fs # cs) = texts fs @ received cs"
| "received (_ # cs) = received cs"

lemma append_persisted_cases:
  assumes "append_persisted c now ev persist e s = (s', r)"
  obtains (refused) x where "s' = s" "r = Err x"
    | (rolled_back) ch1 y x where "Chain_append c now ev (live_ledger s) = (ch1, Ok y)"
      "persist e ch1 (store s) = (store s', Err x)" "s' = s\<lparr>store := store s'\<rparr>" "r = Err (Persist x)"
    | (committed) y u where
      "Chain_append c now ev (live_ledger s) = (live_ledger s', Ok y)"
      "persist e (live_ledger s') (store s) = (store s', Ok u)"
      "s' = s\<lparr>live_ledger := live_ledger s', store := store s'\<rparr>" "r = Ok y"
      "Chain.entries (live_ledger s') = Chain.entries (live_ledger s) @ [y]" "LedgerEntry.event y = ev"
proof (cases rule: Chain_append_cases [of c now ev "live_ledger s"])
  case overflow
  then show thesis
    using assms refused by (auto simp: append_persisted_def Chain_append_transactional_chain_def)
next
  case (serialization msg)
  then show thesis
    using assms refused by (auto simp: append_persisted_def Chain_append_transactional_chain_def)
next
  case (appended h)
  let ?y = "next_entry c now ev (live_ledger s) h"
  let ?ch = "(live_ledger s)\<lparr>Chain.entries := Chain.entries (live_ledger s) @ [?y]\<rparr>"
  obtain st' p where p: "persist e ?ch (store s) = (st', p)" by fastforce
  show thesis
  proof (cases p)
    case (Err x)
    then have "s' = s\<lparr>store := st'\<rparr>" "r = Err (Persist x)"
      using assms appended(1) p by (auto simp: append_persisted_def Chain_append_transactional_chain_def Let_def)
    then show thesis using rolled_back [of ?ch ?y x] appended(1) p Err by simp
  next
    case (Ok u)
    then have "s' = s\<lparr>live_ledger := ?ch, store := st'\<rparr>" "r = Ok ?y"
      using assms appended(1) p
      by (auto simp: append_persisted_def Chain_append_transactional_chain_def Let_def vec_last_conv)
    then show thesis using committed [of ?y u] appended(1) p Ok by (simp add: next_entry_def)
  qed
qed

text \<open>What every served text frame keeps, a run of the server keeps.\<close>

lemma connection_invariant:
  assumes step: "\<And>f s. f \<in> F \<Longrightarrow> P s \<Longrightarrow> P (fst (serve_text env sv persist f s))"
  shows "set (texts fs) \<subseteq> F \<Longrightarrow> P s \<Longrightarrow> P (fst (serve_connection env sv persist fs s))"
proof (induction fs arbitrary: s)
  case (Cons f fs)
  show ?case
  proof (cases f)
    case (Text x)
    then show ?thesis
      using Cons step [of x s] by (auto split: prod.splits ConsentFollowup.splits)
  qed (use Cons in auto)
qed simp

lemma run_invariant:
  assumes step: "\<And>f s. f \<in> F \<Longrightarrow> P s \<Longrightarrow> P (fst (serve_text env sv persist f s))"
  shows "set (received cs) \<subseteq> F \<Longrightarrow> P s \<Longrightarrow> P (fst (ConsentServer_run env sv persist cs s))"
proof (induction cs arbitrary: s)
  case (Cons co cs)
  show ?case
  proof (cases co)
    case (Connected fs)
    then show ?thesis
      using Cons connection_invariant [of F P, OF step, of fs s] by (auto split: prod.splits ConsentFollowup.splits)
  qed (use Cons in auto)
qed simp

text \<open>The same when a frame may break \<open>P\<close>, provided that it stops the server.\<close>

lemma connection_until_stop:
  assumes step: "\<And>f s s' r. f \<in> F \<Longrightarrow> P s \<Longrightarrow> serve_text env sv persist f s = (s', r) \<Longrightarrow> P s' \<or> r = Stop \<and> Q s'"
  shows "set (texts fs) \<subseteq> F \<Longrightarrow> P s \<Longrightarrow> serve_connection env sv persist fs s = (s', r) \<Longrightarrow> P s' \<or> r = Stop \<and> Q s'"
proof (induction fs arbitrary: s)
  case (Cons f fs)
  show ?case
  proof (cases f)
    case (Text x)
    obtain s1 q where 1: "serve_text env sv persist x s = (s1, q)" by fastforce
    then have "P s1 \<or> q = Stop \<and> Q s1" using Cons.prems Text by (intro step [of x s]) auto
    then show ?thesis using Cons.prems Cons.IH [of s1] Text 1 by (cases q) auto
  qed (use Cons in auto)
qed simp

lemma run_until_stop:
  assumes step: "\<And>f s s' r. f \<in> F \<Longrightarrow> P s \<Longrightarrow> serve_text env sv persist f s = (s', r) \<Longrightarrow> P s' \<or> r = Stop \<and> Q s'"
  shows "set (received cs) \<subseteq> F \<Longrightarrow> P s \<Longrightarrow> ConsentServer_run env sv persist cs s = (s', r) \<Longrightarrow> P s' \<or> r = Stop \<and> Q s'"
proof (induction cs arbitrary: s)
  case (Cons co cs)
  show ?case
  proof (cases co)
    case (Connected fs)
    obtain s1 q where 1: "serve_connection env sv persist fs s = (s1, q)" by fastforce
    from step _ Cons.prems(2) 1 have "P s1 \<or> q = Stop \<and> Q s1"
      by (rule connection_until_stop) (use Cons.prems(1) Connected in auto)
    then show ?thesis using Cons.prems Cons.IH [of s1] Connected 1 by (cases q) auto
  qed (use Cons in auto)
qed simp

text \<open>\<open>ch1\<close> is the ledger \<open>ch\<close> with the entry of the decision that the frame \<open>f\<close> carries.\<close>

definition decision_appended ::
    "('sk, 'vk, 'ml) server_env \<Rightarrow> ConsentServer \<Rightarrow> ('sk, 'ml, 'dk) text_frame \<Rightarrow> 'sk Chain \<Rightarrow> 'sk Chain \<Rightarrow> bool" where
  "decision_appended env sv f ch ch1 \<longleftrightarrow>
     (\<exists>d a y. decode_consent_decision (sv_crypto env) (sv_codec env) (sv_json env) (sv_iteration env) (frame_now f)
          (frame_text f) (require_operator_auth sv) (frame_auth_state f) (server_session_id sv)
          (server_scope_digest sv) (frame_revocations f) = Some d \<and>
        decoded_authorized d = Some a \<and>
        Chain_append (sv_crypto env) (frame_time f)
          (operator_consent_audit_event (sv_json env) a (server_session_uuid sv) (frame_uuid f)) ch = (ch1, Ok y))"

text \<open>
  The contract of a persister. \<open>loads\<close> says which chain a restart gets from the store, \<open>inv\<close> is what the
  persister needs of the chain it is given, and \<open>env_ok\<close> is a write whose errors are real. A write that
  reports success has stored the chain, and one that reports a failure has not changed what a restart gets.
\<close>

locale durable_store =
  fixes c :: "('sk, 'vk, 'ml) crypto"
    and persist :: "('sk, 's) persister"
    and inv :: "'sk Chain \<Rightarrow> bool"
    and loads :: "'s \<Rightarrow> 'sk Chain \<Rightarrow> bool"
    and env_ok :: "persist_env \<Rightarrow> bool"
  assumes persist_Ok: "env_ok e \<Longrightarrow> persist e ch s = (s', Ok u) \<Longrightarrow> inv ch \<Longrightarrow> loads s' ch"
    and persist_Err: "env_ok e \<Longrightarrow> persist e ch s = (s', Err x) \<Longrightarrow> loads s ch0 \<Longrightarrow> loads s' ch0"
    and inv_append: "env_ok e \<Longrightarrow> loads s ch \<Longrightarrow> inv (fst (Chain_append c now ev ch))"
begin

lemma append_durable:
  assumes "append_persisted c now ev persist e s = (s', r)" and "env_ok e"
    and "loads (store s) (live_ledger s)"
  shows "loads (store s') (live_ledger s')"
  using assms(1)
proof (cases rule: append_persisted_cases)
  case (rolled_back ch1 y x)
  then have "live_ledger s' = live_ledger s"
    by (metis consent_session.select_convs(4) consent_session.update_convs(5) consent_session.surjective)
  then show ?thesis using persist_Err [OF assms(2) rolled_back(2) assms(3)] by simp
next
  case (committed y u)
  then have "inv (live_ledger s')" using inv_append [OF assms(2,3), of now ev] by simp
  then show ?thesis using persist_Ok [OF assms(2) committed(2)] by blast
qed (use assms in simp)

lemma decision_durable:
  assumes "apply_consent_decision c js now rid persist e uuid d s = (s', f)" and "env_ok e"
    and "loads (store s) (live_ledger s)"
  shows "loads (store s') (live_ledger s')"
proof (cases "decoded_authorized d")
  case None
  then show ?thesis using assms
    by (auto simp: apply_consent_decision_def send_grant_def split: ConsentAction.splits)
next
  case (Some a)
  obtain s1 r where 1: "append_persisted c now (operator_consent_audit_event js a uuid rid) persist e s = (s1, r)"
    by fastforce
  have "live_ledger s' = live_ledger s1" "store s' = store s1"
    using assms(1) Some 1
    by (cases r; auto simp: apply_consent_decision_def send_grant_def split: ConsentAction.splits)+
  then show ?thesis using append_durable [OF 1 assms(2-3)] by simp
qed

lemma text_durable:
  assumes "env_ok (frame_env f)" and "sv_crypto env = c" and "loads (store s) (live_ledger s)"
    and "serve_text env sv persist f s = (s', r)"
  shows "loads (store s') (live_ledger s')"
  using assms decision_durable [OF _ assms(1,3)]
  by (auto simp: serve_text_def split: option.splits)

lemma run_durable:
  assumes "sv_crypto env = c" and "\<forall>f\<in>set (received cs). env_ok (frame_env f)"
    and "loads (store s) (live_ledger s)" and "ConsentServer_run env sv persist cs s = (s', r)"
  shows "loads (store s') (live_ledger s')"
proof -
  have "loads (store (fst (ConsentServer_run env sv persist cs s))) (live_ledger (fst (ConsentServer_run env sv persist cs s)))"
  proof (rule run_invariant [where P = "\<lambda>s. loads (store s) (live_ledger s)"])
    fix f and s :: "('sk, 's) consent_session" assume "f \<in> set (received cs)" "loads (store s) (live_ledger s)"
    then show "loads (store (fst (serve_text env sv persist f s))) (live_ledger (fst (serve_text env sv persist f s)))"
      using assms(1,2) text_durable [of f env s sv] by (metis prod.collapse)
  qed (use assms(3) in simp_all)
  then show ?thesis by (simp add: assms(4))
qed

end

text \<open>
  The contract without that restriction: a write that fails may have stored the chain all the same, when
  what failed is the sync that follows the rename. Restricted to the writes that are \<open>synced\<close> it gives the
  contract above.
\<close>

locale unsynced_store =
  fixes c :: "('sk, 'vk, 'ml) crypto"
    and persist :: "('sk, 's) persister"
    and inv :: "'sk Chain \<Rightarrow> bool"
    and loads :: "'s \<Rightarrow> 'sk Chain \<Rightarrow> bool"
    and write_ok :: "persist_env \<Rightarrow> bool"
    and synced :: "persist_env \<Rightarrow> bool"
  assumes write_Ok: "write_ok e \<Longrightarrow> persist e ch s = (s', Ok u) \<Longrightarrow> inv ch \<Longrightarrow> loads s' ch"
    and write_Err: "write_ok e \<Longrightarrow> persist e ch s = (s', Err x) \<Longrightarrow> loads s ch0 \<Longrightarrow>
      loads s' ch0 \<or> \<not> synced e \<and> (inv ch \<longrightarrow> loads s' ch)"
    and write_inv: "write_ok e \<Longrightarrow> loads s ch \<Longrightarrow> inv (fst (Chain_append c now ev ch))"
begin

lemma append_unsynced:
  assumes "append_persisted c now ev persist e s = (s', r)" and "write_ok e"
    and "loads (store s) (live_ledger s)"
  shows "loads (store s') (live_ledger s') \<or>
    \<not> synced e \<and> (\<exists>x. r = Err x) \<and> (\<exists>ch1 y. Chain_append c now ev (live_ledger s') = (ch1, Ok y) \<and> loads (store s') ch1)"
  using assms(1)
proof (cases rule: append_persisted_cases)
  case (rolled_back ch1 y x)
  then have "live_ledger s' = live_ledger s"
    by (metis consent_session.select_convs(4) consent_session.update_convs(5) consent_session.surjective)
  moreover have "inv ch1" using write_inv [OF assms(2,3), of now ev] rolled_back(1) by simp
  ultimately show ?thesis using write_Err [OF assms(2) rolled_back(2) assms(3)] rolled_back by auto
next
  case (committed y u)
  then have "inv (live_ledger s')" using write_inv [OF assms(2,3), of now ev] by simp
  then show ?thesis using write_Ok [OF assms(2) committed(2)] by blast
qed (use assms in simp)

lemma text_unsynced:
  assumes "write_ok (frame_env f)" and "sv_crypto env = c" and "loads (store s) (live_ledger s)"
    and "serve_text env sv persist f s = (s', r)"
  shows "loads (store s') (live_ledger s') \<or> r = Stop \<and>
    \<not> synced (frame_env f) \<and> (\<exists>ch1. decision_appended env sv f (live_ledger s') ch1 \<and> loads (store s') ch1)"
proof (cases "decode_consent_decision (sv_crypto env) (sv_codec env) (sv_json env) (sv_iteration env) (frame_now f)
        (frame_text f) (require_operator_auth sv) (frame_auth_state f) (server_session_id sv)
        (server_scope_digest sv) (frame_revocations f)")
  case None
  then show ?thesis using assms(3,4) by (simp add: serve_text_def)
next
  case d: (Some d)
  show ?thesis
  proof (cases "decoded_authorized d")
    case None
    then have "live_ledger s' = live_ledger s" "store s' = store s"
      using assms(4) d
      by (auto simp: serve_text_def apply_consent_decision_def send_grant_def split: ConsentAction.splits)
    then show ?thesis using assms(3) by simp
  next
    case (Some a)
    let ?ev = "operator_consent_audit_event (sv_json env) a (server_session_uuid sv) (frame_uuid f)"
    obtain s1 q where 1: "append_persisted c (frame_time f) ?ev persist (frame_env f) s = (s1, q)" by fastforce
    have s': "live_ledger s' = live_ledger s1" "store s' = store s1" "(\<exists>x. q = Err x) \<longrightarrow> r = Stop"
      using assms(2,4) d Some 1
      by (cases q; auto simp: serve_text_def apply_consent_decision_def send_grant_def split: ConsentAction.splits)+
    show ?thesis
      using append_unsynced [OF 1 assms(1,3)] s' d Some assms(2)
      by (auto simp del: split_paired_Ex simp: decision_appended_def)
  qed
qed

lemma run_unsynced:
  assumes "sv_crypto env = c" and "\<forall>f\<in>set (received cs). write_ok (frame_env f)"
    and "loads (store s) (live_ledger s)" and "ConsentServer_run env sv persist cs s = (s', r)"
  shows "loads (store s') (live_ledger s') \<or> r = Stop \<and> (\<exists>f\<in>set (received cs). \<not> synced (frame_env f) \<and>
    (\<exists>ch1. decision_appended env sv f (live_ledger s') ch1 \<and> loads (store s') ch1))"
  by (rule run_until_stop [where P = "\<lambda>s. loads (store s) (live_ledger s)", OF _ subset_refl assms(3,4)])
    (use assms(1,2) text_unsynced in blast)

end

sublocale unsynced_store \<subseteq> durable_store c persist inv loads "\<lambda>e. write_ok e \<and> synced e"
  by unfold_locales (use write_Ok write_Err write_inv in blast)+

text \<open>
  The write that the two persisters make, with correct primitives and a temporary path of its own, and the
  same with errors that are real: only a failed sync of the directory leaves the new file in place.
\<close>

definition store_write :: "('sk, 'vk, 'ml) crypto \<Rightarrow> store_codec \<Rightarrow> string \<Rightarrow> persist_env \<Rightarrow> bool" where
  "store_write c sc path e \<longleftrightarrow> ed25519_correct c \<and> ed25519_key_codec c \<and> store_codec_lawful sc \<and> pe_temp e \<noteq> path"

definition sound_write :: "('sk, 'vk, 'ml) crypto \<Rightarrow> store_codec \<Rightarrow> string \<Rightarrow> persist_env \<Rightarrow> bool" where
  "sound_write c sc path e \<longleftrightarrow> store_write c sc path e \<and> dir_sync_ok (pe_io e)"

definition complete_chain :: "('sk, 'vk, 'ml) crypto \<Rightarrow> 'sk \<Rightarrow> 'sk Chain \<Rightarrow> bool" where
  "complete_chain c sk ch \<longleftrightarrow> Chain_ok c ch \<and> Chain.base_checkpoint ch = None \<and> Chain.signing_key ch = sk"

definition compacted_chain :: "'sk \<Rightarrow> 'sk Chain \<Rightarrow> bool" where
  "compacted_chain sk ch \<longleftrightarrow> (\<exists>cp. ch = Chain_from_checkpoint_suffix cp (Chain.entries ch) sk)"

definition restored_from ::
    "('sk, 'vk, 'ml) crypto \<Rightarrow> (bytes \<Rightarrow> string) \<Rightarrow> store_codec \<Rightarrow> string \<Rightarrow> 'sk \<Rightarrow>
     ConsentCompactedActiveStateV1 \<times> files \<Rightarrow> 'sk Chain \<Rightarrow> bool" where
  "restored_from c hex sc path sk st ch \<longleftrightarrow>
     (\<exists>r. load_compacted_active_state c hex sc True path sk (snd st) = Ok (fst st, r) \<and> restored_chain r = ch)"

lemma loaded_count:
  assumes "load_verified c sc io path sk fs = Ok ch"
  shows "length (Chain.entries ch) \<le> MAX_AUDIT_LEDGER_ENTRIES"
  using assms
  by (auto simp: load_verified_def Chain_new_def Chain_from_entries_def decode_v1_def decode_legacy_def
      declared_bincode_vec_len_def Let_def split: option.splits if_splits)

lemma loaded_complete:
  assumes "load_verified c sc io path sk fs = Ok ch"
  shows "complete_chain c sk ch" and "vec_fits (Chain.entries ch)"
proof -
  obtain es where es: "ch = Chain_from_entries es sk" using loaded_chain(2) [OF assms] by blast
  then show "complete_chain c sk ch" "vec_fits (Chain.entries ch)"
    using loaded_chain(1) [OF assms] loaded_count [OF assms]
    by (simp_all add: complete_chain_def Chain_ok_def anchored_def Chain_from_entries_def vec_fits_def
        MAX_AUDIT_LEDGER_ENTRIES_def verify_chain_iff_extension_walk)
qed

lemma complete_append:
  assumes "ed25519_correct c" and "load_verified c sc io path sk fs = Ok ch"
  shows "complete_chain c sk (fst (Chain_append c now ev ch))"
  using Chain_append_ok [OF assms(1), of ch now ev] loaded_complete [OF assms(2)] Chain_append_effect [of c now ev ch]
  by (auto simp: complete_chain_def)

lemma complete_written:
  assumes "store_write c sc path e" and "complete_chain c sk ch" and "encode_entries sc (Chain.entries ch) = Ok b"
    and "fs path = Some b"
  shows "load_verified c sc reads_ok path sk fs = Ok ch"
proof -
  have "Verifier_verify_chain c (Chain.entries ch) (ed_verifying_key c sk) = Ok ()"
    using assms(2) Chain_ok_verifies [of c ch] by (simp add: complete_chain_def Chain_into_entries_def)
  then have "load_verified c sc reads_ok path sk fs = Ok (Chain_from_entries (Chain.entries ch) sk)"
    using load_envelope [of sc _ b fs path c sk] assms(1,3,4) by (simp add: store_write_def)
  then show ?thesis
    using assms(2) by (cases ch) (auto simp: complete_chain_def Chain_ok_def anchored_def Chain_from_entries_def)
qed

lemma load_verified_cong: "fs' path = fs path \<Longrightarrow> load_verified c sc io path sk fs' = load_verified c sc io path sk fs"
  by (simp add: load_verified_def)

lemma complete_persist:
  assumes "store_write c sc path e" and "CompleteConsentLedgerPersister_persist sc path e ch fs = (fs', r)"
  shows "r = Ok () \<Longrightarrow> complete_chain c sk ch \<Longrightarrow> load_verified c sc reads_ok path sk fs' = Ok ch"
    and "r = Err x \<Longrightarrow> fs' path = fs path \<or> \<not> dir_sync_ok (pe_io e) \<and>
      (complete_chain c sk ch \<longrightarrow> load_verified c sc reads_ok path sk fs' = Ok ch)"
proof -
  assume "r = Ok ()" and ch: "complete_chain c sk ch"
  then obtain b where "encode_entries sc (Chain.entries ch) = Ok b" "fs' path = Some b"
    using assms persist_entries_effect(1) [of sc "pe_io e" "pe_temp e" path "Chain.entries ch" fs fs' r]
    by (auto simp: CompleteConsentLedgerPersister_persist_def store_write_def split: if_splits)
  then show "load_verified c sc reads_ok path sk fs' = Ok ch" by (rule complete_written [OF assms(1) ch])
next
  assume "r = Err x"
  then have "fs' path = fs path \<or> \<not> dir_sync_ok (pe_io e) \<and>
      (\<exists>b. encode_entries sc (Chain.entries ch) = Ok b \<and> fs' path = Some b)"
    using assms persist_entries_failed [of sc "pe_io e" "pe_temp e" path "Chain.entries ch" fs fs' x]
    by (auto simp: CompleteConsentLedgerPersister_persist_def store_write_def split: if_splits)
  then show "fs' path = fs path \<or> \<not> dir_sync_ok (pe_io e) \<and>
      (complete_chain c sk ch \<longrightarrow> load_verified c sc reads_ok path sk fs' = Ok ch)"
    using complete_written [OF assms(1)] by blast
qed

interpretation complete_store: unsynced_store "c :: ('sk, 'vk, 'ml) crypto" "CompleteConsentLedgerPersister_persist sc path" "complete_chain c sk"
    "\<lambda>fs ch. load_verified c sc reads_ok path sk fs = Ok ch" "store_write c sc path" "\<lambda>e. dir_sync_ok (pe_io e)"
proof unfold_locales
  show "load_verified c sc reads_ok path sk fs' = Ok ch"
    if "store_write c sc path e" "CompleteConsentLedgerPersister_persist sc path e ch fs = (fs', Ok u)"
      "complete_chain c sk ch" for e ch fs fs' u
    using complete_persist(1) [OF that(1,2)] that(3) by simp
  show "load_verified c sc reads_ok path sk fs' = Ok ch0 \<or> \<not> dir_sync_ok (pe_io e) \<and>
      (complete_chain c sk ch \<longrightarrow> load_verified c sc reads_ok path sk fs' = Ok ch)"
    if "store_write c sc path e" "CompleteConsentLedgerPersister_persist sc path e ch fs = (fs', Err x)"
      "load_verified c sc reads_ok path sk fs = Ok ch0" for e fs fs' x ch0 and ch :: "'sk Chain"
    using load_verified_cong [of fs' path fs c sc reads_ok sk] complete_persist(2) [OF that(1,2) refl] that(3) by auto
  show "complete_chain c sk (fst (Chain_append c now ev ch))"
    if "store_write c sc path e" "load_verified c sc reads_ok path sk fs = Ok ch" for e fs ch now ev
    using complete_append [OF _ that(2)] that(1) by (simp add: store_write_def)
qed

lemma load_compacted_cong:
  "fs' path = fs path \<Longrightarrow> load_compacted_active_state c hex sc ok path sk fs' = load_compacted_active_state c hex sc ok path sk fs"
  by (simp add: load_compacted_active_state_def read_bounded_json_def read_bounded_json_with_size_def)

lemma persist_compacted_effect:
  assumes "persist_compacted_active_state_atomic sc io temp path st fs = (fs', r)" and "temp \<noteq> path"
  shows "r = Ok () \<Longrightarrow> \<exists>b. active_state_to_json sc st = Ok b \<and> length (b @ [newline]) \<le> MAX_AUDIT_LEDGER_BYTES \<and>
      fs' path = Some (b @ [newline])"
    and "r \<noteq> Ok () \<Longrightarrow> dir_sync_ok io \<Longrightarrow> fs' path = fs path"
  using assms persist_owner_only_effect [of io temp path _ fs fs' r]
  by (auto simp: persist_compacted_active_state_atomic_def Let_def split: result.splits if_splits)

lemma advance_verifies:
  assumes "ConsentCompactedActiveStateV1_advance_from_chain c hex ch ts st = Ok nxt"
    and "ed25519_key_codec c" and "compacted_chain sk ch"
  shows "\<exists>r. ConsentCompactedActiveStateV1_restore_state c hex sk nxt = Ok r \<and> restored_chain r = ch"
proof -
  obtain cp es where ch: "ch = Chain_from_checkpoint_suffix cp es sk"
    using assms(3) by (auto simp: compacted_chain_def)
  have "ledger_public_key (Chain_sign_checkpoint c ts ch) = ed_key_to_bytes c (ed_verifying_key c sk)"
    by (simp add: ch Chain_sign_checkpoint_def Let_def Chain_from_checkpoint_suffix_def)
  then have pk: "ed_key_from_bytes c (ledger_public_key (Chain_sign_checkpoint c ts ch)) = Some (ed_verifying_key c sk)"
    using assms(2) by (simp add: ed25519_key_codec_def)
  have "resident_entries nxt = es" "through_checkpoint (recovery_summary (activation_snapshot nxt)) = cp"
    and "ConsentCompactedActiveStateV1_verify c hex (ed_verifying_key c sk) nxt = Ok ()"
    using assms(1) pk
    by (auto simp: ConsentCompactedActiveStateV1_advance_from_chain_def Let_def ch Chain_from_checkpoint_suffix_def
        Chain_base_checkpoint_def split: if_splits)
  then show ?thesis by (simp add: ConsentCompactedActiveStateV1_restore_state_def ch)
qed

lemma compacted_persist_Ok:
  assumes "sound_write c sc path e" and "compacted_chain sk ch"
    and "CompactedConsentLedgerPersister_persist c hex sc path e ch st = (st', Ok ())"
  shows "restored_from c hex sc path sk st' ch"
proof -
  obtain nxt fs' where nxt: "ConsentCompactedActiveStateV1_advance_from_chain c hex ch (pe_now e) (fst st) = Ok nxt"
    and w: "persist_compacted_active_state_atomic sc (pe_io e) (pe_temp e) path nxt (snd st) = (fs', Ok ())"
    and st': "st' = (nxt, fs')"
    using assms(3) by (auto simp: CompactedConsentLedgerPersister_persist_def split: result.splits prod.splits)
  obtain r where r: "ConsentCompactedActiveStateV1_restore_state c hex sk nxt = Ok r" "restored_chain r = ch"
    using advance_verifies [OF nxt _ assms(2)] assms(1) by (auto simp: sound_write_def store_write_def)
  obtain b where b: "active_state_to_json sc nxt = Ok b" "length (b @ [newline]) \<le> MAX_AUDIT_LEDGER_BYTES"
      "fs' path = Some (b @ [newline])"
    using persist_compacted_effect(1) [OF w] assms(1) by (auto simp: sound_write_def store_write_def)
  have "active_state_from_json sc (b @ [newline]) = Ok nxt"
    using assms(1) b(1) by (auto simp: sound_write_def store_write_def store_codec_lawful_def)
  then show ?thesis
    using b(2,3) r st'
    by (simp add: restored_from_def load_compacted_active_state_def read_bounded_json_def read_bounded_json_with_size_def)
qed

lemma compacted_persist_Err:
  assumes "sound_write c sc path e"
    and "CompactedConsentLedgerPersister_persist c hex sc path e ch st = (st', Err x)"
  shows "restored_from c hex sc path sk st' = restored_from c hex sc path sk st"
proof -
  have "fst st' = fst st \<and> snd st' path = snd st path"
    using assms persist_compacted_effect(2) [of sc "pe_io e" "pe_temp e" path _ "snd st" _ "Err x"]
    by (auto simp: CompactedConsentLedgerPersister_persist_def sound_write_def store_write_def split: result.splits prod.splits)
  then show ?thesis by (simp add: fun_eq_iff restored_from_def load_compacted_cong [of "snd st'" path "snd st"])
qed

lemma compacted_append:
  "restored_from c hex sc path sk st ch \<Longrightarrow> compacted_chain sk (fst (Chain_append c now ev ch))"
  using Chain_append_effect [of c now ev ch]
  by (auto simp: restored_from_def load_compacted_active_state_def ConsentCompactedActiveStateV1_restore_state_def
      compacted_chain_def Chain_from_checkpoint_suffix_def)

interpretation compacted_store: durable_store c "CompactedConsentLedgerPersister_persist c hex sc path"
    "compacted_chain sk" "restored_from c hex sc path sk" "sound_write c sc path"
  by unfold_locales (use compacted_persist_Ok compacted_persist_Err compacted_append in \<open>fastforce+\<close>)

end
