(* ===== verification/Consent_Decisions.thy ===== *)
theory Consent_Decisions
  imports Consent_Server Compaction_Lifecycle Operator_Daemon
begin

text \<open>
  What the consent server promises: the ledger in memory and the one a restart reads are the same after
  every message, whichever persister is used; and a session's grant or revocation rests on an entry of
  that ledger which names the enrolled operator whose signatures authorised it.
\<close>

section \<open>What a decision rests on\<close>

text \<open>
  The entry of the ledger for a decision \<open>act\<close> that the frame \<open>f\<close> carries: its token is a token of this
  daemon that has not expired, its role permits the decision, its operator is enrolled and not revoked,
  and the operator has signed this decision for this session and scope under both keys of its enrolment.
\<close>

definition signed_decision ::
    "('sk, 'vk, 'ml) server_env \<Rightarrow> ConsentServer \<Rightarrow> ('sk, 'ml, 'dk) text_frame \<Rightarrow> ConsentAction \<Rightarrow> LedgerEntry \<Rightarrow> bool" where
  "signed_decision env sv f act x \<longleftrightarrow>
     (\<exists>req t op. parse_authenticated_consent_action (sv_codec env) (sv_json env) (frame_text f) = Ok req \<and>
        verify_token (sv_crypto env) (ed_verifying_key (sv_crypto env) (daemon_key (frame_auth_state f)))
          (MlDsaIdentity_public_key_bytes (sv_crypto env) (daemon_ml_dsa (frame_auth_state f))) (frame_now f)
          (ca_token req) = Ok t \<and>
        role_permits (token_role t) (ConsentAction_required_permission act) \<and>
        OperatorPolicy_lookup_by_id (sv_iteration env) (auth_policy (frame_auth_state f)) (token_operator_id t) = Some op \<and>
        verify_both (sv_crypto env) (EnrolledOperator.ed25519_pubkey op) (EnrolledOperator.ml_dsa_pubkey op)
          (consent_action_transcript act (server_session_id sv) (token_nonce t) (server_scope_digest sv))
          (ca_action_signature req) (ca_ml_dsa_action_signature req) = Ok () \<and>
        \<not> OperatorRevocations_is_revoked (token_operator_id t) (frame_revocations f) \<and>
        source_id (LedgerEntry.event x) = EnrolledOperator.ed25519_pubkey op \<and>
        session_id (LedgerEntry.event x) = server_session_uuid sv \<and>
        kind (LedgerEntry.event x) = consent_kind act)"

lemma decoded_signed:
  assumes "require_operator_auth sv" and "LedgerEntry.event x = operator_consent_audit_event (sv_json env) a (server_session_uuid sv) rid"
    and "decode_consent_decision (sv_crypto env) (sv_codec env) (sv_json env) (sv_iteration env) (frame_now f)
        (frame_text f) (require_operator_auth sv) (frame_auth_state f) (server_session_id sv)
        (server_scope_digest sv) (frame_revocations f) = Some d"
    and "decoded_authorized d = Some a"
  shows "signed_decision env sv f (decoded_action d) x"
proof -
  let ?c = "sv_crypto env" and ?auth = "frame_auth_state f"
  obtain req where req: "parse_authenticated_consent_action (sv_codec env) (sv_json env) (frame_text f) = Ok req"
    and az: "authorize_consent_action ?c (sv_iteration env) (auth_policy ?auth) (ed_verifying_key ?c (daemon_key ?auth))
      (MlDsaIdentity_public_key_bytes ?c (daemon_ml_dsa ?auth)) (frame_now f) (server_session_id sv)
      (server_scope_digest sv) req = Ok a"
    and d: "\<not> OperatorRevocations_is_revoked (authorized_operator_id a) (frame_revocations f)"
      "decoded_action d = authorized_action a"
    using assms(1,3,4) by (auto simp: decode_consent_decision_def split: result.splits if_splits)
  obtain t op where t: "verify_token ?c (ed_verifying_key ?c (daemon_key ?auth))
        (MlDsaIdentity_public_key_bytes ?c (daemon_ml_dsa ?auth)) (frame_now f) (ca_token req) = Ok t"
      "role_permits (token_role t) (ConsentAction_required_permission (authorized_action a))"
      "OperatorPolicy_lookup_by_id (sv_iteration env) (auth_policy ?auth) (token_operator_id t) = Some op"
      "verify_both ?c (EnrolledOperator.ed25519_pubkey op) (EnrolledOperator.ml_dsa_pubkey op)
        (consent_action_transcript (authorized_action a) (server_session_id sv) (token_nonce t) (server_scope_digest sv))
        (ca_action_signature req) (ca_ml_dsa_action_signature req) = Ok ()"
      "authorized_operator_id a = token_operator_id t" "authorized_ed25519_pubkey a = EnrolledOperator.ed25519_pubkey op"
    using az by (auto simp: authorize_consent_action_def split: if_splits)
  show ?thesis
    unfolding signed_decision_def
    by (intro exI [of _ req] exI [of _ t] exI [of _ op])
      (use req t d in \<open>simp add: assms(2) operator_consent_audit_event_def\<close>)
qed

lemma decoded_authenticated:
  "decode_consent_decision c cd js it now txt True auth sid digest rv = Some d \<Longrightarrow> \<exists>a. decoded_authorized d = Some a"
  by (auto simp: decode_consent_decision_def split: result.splits if_splits)

text \<open>Every decision the session has taken has such an entry.\<close>

definition decisions_recorded ::
    "('sk, 'vk, 'ml) server_env \<Rightarrow> ConsentServer \<Rightarrow> ('sk, 'ml, 'dk) text_frame set \<Rightarrow> ('sk, 's) consent_session \<Rightarrow> bool" where
  "decisions_recorded env sv F s \<longleftrightarrow>
     (\<forall>b. grant s = Some b \<longrightarrow> (\<exists>x\<in>set (Chain.entries (live_ledger s)). \<exists>f\<in>F.
        signed_decision env sv f (if b then Approve else Deny) x)) \<and>
     (revoked_flag s \<longrightarrow> (\<exists>x\<in>set (Chain.entries (live_ledger s)). \<exists>f\<in>F. signed_decision env sv f Revoke x))"

lemma decisions_recorded_mono:
  assumes "decisions_recorded env sv F s" and "set (Chain.entries (live_ledger s)) \<subseteq> set (Chain.entries (live_ledger s'))"
    and "grant s' = grant s" and "revoked_flag s' = revoked_flag s"
  shows "decisions_recorded env sv F s'"
  using assms(1) unfolding decisions_recorded_def assms(3,4) using assms(2) by blast

lemma append_persisted_keeps:
  assumes "append_persisted c now ev persist e s = (s', r)"
  shows "grant s' = grant s" "revoked_flag s' = revoked_flag s" "grant_tx s' = grant_tx s"
  using assms by (auto simp: append_persisted_def Let_def split: prod.splits result.splits)

lemma text_recorded:
  assumes auth: "require_operator_auth sv" and "f \<in> F" and rec: "decisions_recorded env sv F s"
    and serve: "serve_text env sv persist f s = (s', r)"
  shows "decisions_recorded env sv F s'"
proof (cases "decode_consent_decision (sv_crypto env) (sv_codec env) (sv_json env) (sv_iteration env) (frame_now f)
        (frame_text f) (require_operator_auth sv) (frame_auth_state f) (server_session_id sv)
        (server_scope_digest sv) (frame_revocations f)")
  case None
  then show ?thesis using rec serve by (simp add: serve_text_def)
next
  case (Some d)
  obtain a where a: "decoded_authorized d = Some a" using decoded_authenticated Some auth by fastforce
  let ?ev = "operator_consent_audit_event (sv_json env) a (server_session_uuid sv) (frame_uuid f)"
  obtain s1 p where 1: "append_persisted (sv_crypto env) (frame_time f) ?ev persist (frame_env f) s = (s1, p)" by fastforce
  note serve = serve [unfolded serve_text_def Some option.case apply_consent_decision_def Let_def a 1]
  from 1 show ?thesis
  proof (cases rule: append_persisted_cases)
    case (refused x)
    then show ?thesis using serve rec by simp
  next
    case (rolled_back ch1 y x)
    then have "s' = s1" "live_ledger s1 = live_ledger s" using serve by (simp, metis consent_session.select_convs(4)
          consent_session.update_convs(5) consent_session.surjective)
    then show ?thesis using decisions_recorded_mono [OF rec _ append_persisted_keeps(1,2) [OF 1]] by simp
  next
    case (committed y u)
    have "decisions_recorded env sv F s1"
      by (rule decisions_recorded_mono [OF rec _ append_persisted_keeps(1,2) [OF 1]]) (use committed(5) in auto)
    moreover have "y \<in> set (Chain.entries (live_ledger s1))" "signed_decision env sv f (decoded_action d) y"
      using committed(5,6) decoded_signed [OF auth _ Some a] by auto
    ultimately show ?thesis
      using serve committed(4) assms(2)
      by (auto simp: decisions_recorded_def send_grant_def split: ConsentAction.splits if_splits)
  qed
qed

lemma run_recorded:
  assumes "require_operator_auth sv" and "grant s = None" and "\<not> revoked_flag s"
    and "ConsentServer_run env sv persist cs s = (s', r)"
  shows "decisions_recorded env sv (set (received cs)) s'"
proof -
  have "decisions_recorded env sv (set (received cs)) (fst (ConsentServer_run env sv persist cs s))"
  proof (rule run_invariant)
    show "decisions_recorded env sv (set (received cs)) (fst (serve_text env sv persist f s))"
      if "f \<in> set (received cs)" "decisions_recorded env sv (set (received cs)) s" for f s
      using text_recorded [OF assms(1) that] by (metis prod.collapse)
  qed (use assms(2,3) in \<open>simp_all add: decisions_recorded_def\<close>)
  then show ?thesis by (simp add: assms(4))
qed

text \<open>A run only appends to the ledger.\<close>

lemma text_extends:
  "prefix (Chain.entries (live_ledger s)) (Chain.entries (live_ledger (fst (serve_text env sv persist f s))))"
proof -
  have app: "prefix (Chain.entries (live_ledger s)) (Chain.entries (live_ledger s1))"
    if "append_persisted c now ev persist e s = (s1, p)" for c now ev e s1 p
    using that
  proof (cases rule: append_persisted_cases)
    case (rolled_back ch1 y x)
    then show ?thesis
      by (metis consent_session.select_convs(4) consent_session.update_convs(5) consent_session.surjective prefix_order.refl)
  qed auto
  show ?thesis
    by (auto simp: serve_text_def apply_consent_decision_def Let_def send_grant_def apsnd_def map_prod_def
        split: option.splits prod.splits result.splits ConsentAction.splits dest!: app)
qed

lemma server_run_extends:
  "prefix (Chain.entries (live_ledger s)) (Chain.entries (live_ledger (fst (ConsentServer_run env sv persist cs s))))"
  by (rule run_invariant [where F = UNIV and P = "\<lambda>s'. prefix (Chain.entries (live_ledger s)) (Chain.entries (live_ledger s'))"])
    (use text_extends prefix_order.trans in blast)+

lemma decision_appended_extends:
  assumes "decision_appended env sv f ch ch1"
  shows "set (Chain.entries ch) \<subseteq> set (Chain.entries ch1)"
proof -
  obtain now ev y where "Chain_append (sv_crypto env) now ev ch = (ch1, Ok y)"
    using assms by (auto simp: decision_appended_def)
  then show ?thesis using Chain_append_effect [of "sv_crypto env" now ev ch] by auto
qed

section \<open>The properties\<close>

text \<open>
  C9. The ledger survives a restart. Start the consent server on a ledger that \<open>load_verified\<close> read from
  its file, and let it serve any connections with any frames, whatever calls of its writes fail. The ledger in
  memory continues the one that was read at the start. The file then loads, with every signature and link
  verified again, and gives exactly the ledger in memory, with one exception: when the sync of the directory
  failed after the rename of the last write, the server has stopped, and the file gives the ledger in memory
  and after it the one entry of the decision that the frame of that write carried.
\<close>

theorem consent_ledger_survives_restart:
  assumes "load_verified (sv_crypto env) sc reads_ok path sk (store s) = Ok (live_ledger s)"
    and "\<forall>f\<in>set (received cs). store_write (sv_crypto env) sc path (frame_env f)"
    and "ConsentServer_run env sv (CompleteConsentLedgerPersister_persist sc path) cs s = (s', r)"
  shows "prefix (Chain.entries (live_ledger s)) (Chain.entries (live_ledger s')) \<and>
    (load_verified (sv_crypto env) sc reads_ok path sk (store s') = Ok (live_ledger s') \<or>
     r = Stop \<and> (\<exists>f\<in>set (received cs). \<not> dir_sync_ok (pe_io (frame_env f)) \<and>
       (\<exists>ch1. decision_appended env sv f (live_ledger s') ch1 \<and>
          load_verified (sv_crypto env) sc reads_ok path sk (store s') = Ok ch1)))"
  using complete_store.run_unsynced [OF refl assms(2,1,3)]
    server_run_extends [of s env sv "CompleteConsentLedgerPersister_persist sc path" cs] assms(3) by simp

text \<open>
  C22. The same for a compacted ledger, as long as no write fails in the sync of the directory after its
  rename. What a restart gets from the file is the active state that the persister holds in memory, verified
  again, and it restores exactly the ledger in memory: no append loses the signed checkpoint that stands for
  the archived entries, and a refused one changes nothing.
\<close>

theorem compacted_ledger_survives_restart:
  assumes "restored_from (sv_crypto env) hex sc path sk (store s) (live_ledger s)"
    and "\<forall>f\<in>set (received cs). sound_write (sv_crypto env) sc path (frame_env f)"
    and "ConsentServer_run env sv (CompactedConsentLedgerPersister_persist (sv_crypto env) hex sc path) cs s = (s', r)"
  shows "restored_from (sv_crypto env) hex sc path sk (store s') (live_ledger s') \<and>
    prefix (Chain.entries (live_ledger s)) (Chain.entries (live_ledger s'))"
  using compacted_store.run_durable [OF refl assms(2,1,3)]
    server_run_extends [of s env sv "CompactedConsentLedgerPersister_persist (sv_crypto env) hex sc path" cs] assms(3) by simp

text \<open>
  C1. No decision without a signed and durable record. When the server requires operators to
  authenticate, then whatever calls of its writes fail, a session whose grant was resolved or which was
  revoked has, in the ledger that a restart reads, an entry of that decision under the key of an operator who
  was enrolled and not revoked when its frame arrived, whose role permitted it, and who signed it for this
  session and scope with both keys.
\<close>

theorem decisions_signed_and_durable:
  assumes "load_verified (sv_crypto env) sc reads_ok path sk (store s) = Ok (live_ledger s)"
    and "\<forall>f\<in>set (received cs). store_write (sv_crypto env) sc path (frame_env f)"
    and "require_operator_auth sv" and "grant s = None" and "\<not> revoked_flag s"
    and "ConsentServer_run env sv (CompleteConsentLedgerPersister_persist sc path) cs s = (s', r)"
  shows "\<exists>ch. load_verified (sv_crypto env) sc reads_ok path sk (store s') = Ok ch \<and>
    (\<forall>b. grant s' = Some b \<longrightarrow> (\<exists>x\<in>set (Chain.entries ch). \<exists>f\<in>set (received cs).
       signed_decision env sv f (if b then Approve else Deny) x)) \<and>
    (revoked_flag s' \<longrightarrow> (\<exists>x\<in>set (Chain.entries ch). \<exists>f\<in>set (received cs). signed_decision env sv f Revoke x))"
proof -
  obtain ch where ch: "load_verified (sv_crypto env) sc reads_ok path sk (store s') = Ok ch"
      "set (Chain.entries (live_ledger s')) \<subseteq> set (Chain.entries ch)"
    using complete_store.run_unsynced [OF refl assms(2,1,6)] decision_appended_extends by blast
  show ?thesis
    using ch run_recorded [OF assms(3-6)] unfolding decisions_recorded_def by blast
qed

section \<open>A signed decision takes effect\<close>

definition sign_consent_action ::
    "('sk, 'vk, 'ml) crypto \<Rightarrow> ('sk, 'ml, 'dk) HandshakeManager \<Rightarrow> SignedOperatorToken \<Rightarrow> ConsentServer \<Rightarrow>
     ConsentAction \<Rightarrow> AuthenticatedConsentAction" where
  "sign_consent_action c mgr st sv act =
     (let m = consent_action_transcript act (server_session_id sv) (token_nonce (token st)) (server_scope_digest sv) in
      \<lparr>ca_token = st, ca_action = act, ca_action_signature = HandshakeManager_sign c mgr m,
        ca_ml_dsa_action_signature = HandshakeManager_sign_ml_dsa c mgr m\<rparr>)"

definition consent_dto :: "codec \<Rightarrow> AuthenticatedConsentAction \<Rightarrow> AuthenticatedConsentActionDto" where
  "consent_dto cd req = \<lparr>cad_token = TokenDto_from_signed cd (ca_token req),
     cad_action = ConsentAction_debug (ca_action req),
     cad_action_signature = hex_encode cd (slice (ca_action_signature req)),
     cad_ml_dsa_action_signature = hex_encode cd (slice (ca_ml_dsa_action_signature req))\<rparr>"

lemma parse_consent_dto:
  assumes "codec_lawful cd" and "consent_action_from_json js body = Ok (consent_dto cd req)"
  shows "parse_authenticated_consent_action cd js body = Ok req"
  using assms by (cases "ca_action req")
    (simp_all add: parse_authenticated_consent_action_def consent_dto_def token_dto_roundtrip)

lemma signed_action_authorized:
  assumes "ed25519_correct c" and "ed25519_key_codec c" and "ml_dsa_correct c MlDsa65"
    and "OperatorPolicy_lookup_by_id it pol oid = Some (enroll c mgr oid r0)"
    and "role_permits rl (ConsentAction_required_permission act)" and "now' \<le> saturating_add now ttl"
  shows "authorize_consent_action c it pol (ed_verifying_key c dk) (MlDsaIdentity_public_key_bytes c dml) now'
      (server_session_id sv) (server_scope_digest sv)
      (sign_consent_action c mgr (issue_token c dk dml \<lparr>authed_operator_id = oid, authed_role = rl\<rparr> now ttl tn) sv act) =
    Ok \<lparr>authorized_action = act, authorized_operator_id = oid, authorized_role = rl,
      authorized_ed25519_pubkey = HandshakeManager_identity_public_key_bytes c mgr\<rparr>"
proof -
  let ?st = "issue_token c dk dml \<lparr>authed_operator_id = oid, authed_role = rl\<rparr> now ttl tn"
  have fields: "token_role (token ?st) = rl" "token_operator_id (token ?st) = oid" "token_nonce (token ?st) = tn"
    by (simp_all add: issue_token_def Let_def)
  show ?thesis
    using manager_signs [OF assms(1-3), of mgr] assms(4,5) fields issued_token_verifies [OF assms(1,3,6)]
    by (simp add: authorize_consent_action_def sign_consent_action_def Let_def enroll_def verify_both_eq_Ok both_accept_def)
qed

lemma signed_decision_decoded:
  assumes "ed25519_correct c" and "ed25519_key_codec c" and "ml_dsa_correct c MlDsa65"
    and "codec_lawful cd" and "require_operator_auth sv"
    and "consent_action_from_json js txt = Ok (consent_dto cd
      (sign_consent_action c mgr (issue_token c dk dml \<lparr>authed_operator_id = oid, authed_role = rl\<rparr> now ttl tn) sv act))"
    and "daemon_key auth = dk" and "daemon_ml_dsa auth = dml"
    and "OperatorPolicy_lookup_by_id it (auth_policy auth) oid = Some (enroll c mgr oid r0)"
    and "role_permits rl (ConsentAction_required_permission act)" and "now' \<le> saturating_add now ttl"
    and "\<not> OperatorRevocations_is_revoked oid rv"
  shows "decode_consent_decision c cd js it now' txt (require_operator_auth sv) auth (server_session_id sv)
      (server_scope_digest sv) rv = Some \<lparr>decoded_action = act, decoded_authorized = Some
        \<lparr>authorized_action = act, authorized_operator_id = oid, authorized_role = rl,
         authorized_ed25519_pubkey = HandshakeManager_identity_public_key_bytes c mgr\<rparr>\<rparr>"
  using parse_consent_dto [OF assms(4,6)] signed_action_authorized [OF assms(1-3,9-11)] assms(5,7,8,12)
  by (simp add: decode_consent_decision_def)

lemma append_committed:
  assumes "Chain_append c now ev (live_ledger s) = (ch', Ok y)" and "persist e ch' (store s) = (st', Ok u)"
  shows "append_persisted c now ev persist e s = (s\<lparr>live_ledger := ch', store := st'\<rparr>, Ok y)"
    and "LedgerEntry.event y = ev" and "Chain.entries ch' = Chain.entries (live_ledger s) @ [y]"
proof -
  obtain h where "ch' = (live_ledger s)\<lparr>Chain.entries := Chain.entries (live_ledger s) @ [y]\<rparr>"
      "y = next_entry c now ev (live_ledger s) h"
    using assms(1) by (cases rule: Chain_append_cases [of c now ev "live_ledger s"]) auto
  then show "LedgerEntry.event y = ev" "Chain.entries ch' = Chain.entries (live_ledger s) @ [y]"
    by (simp_all add: next_entry_def)
  then show "append_persisted c now ev persist e s = (s\<lparr>live_ledger := ch', store := st'\<rparr>, Ok y)"
    using assms by (simp add: append_persisted_def Chain_append_transactional_chain_def vec_last_conv)
qed

text \<open>
  C26. A signed decision takes effect. When the frame carries a decision signed by an enrolled and
  unrevoked operator with a token of this daemon that has not expired and a role that permits it, and
  the ledger entry can be appended and written, the entry is in the ledger and in the store, an approval
  or a denial resolves the grant unless it was resolved before, a revocation sets the flag, and the
  server goes on serving after an approval only.
\<close>

theorem signed_decision_takes_effect:
  fixes env :: "('sk, 'vk, 'ml) server_env" and f :: "('sk, 'ml, 'dk) text_frame" and mgr :: "('sk, 'ml, 'dk) HandshakeManager"
    and persist :: "('sk, 's) persister" and sv act oid rl
  defines "c \<equiv> sv_crypto env" and "auth \<equiv> frame_auth_state f"
  defines "ev \<equiv> operator_consent_audit_event (sv_json env) \<lparr>authorized_action = act, authorized_operator_id = oid,
      authorized_role = rl, authorized_ed25519_pubkey = HandshakeManager_identity_public_key_bytes c mgr\<rparr>
      (server_session_uuid sv) (frame_uuid f)"
  assumes "ed25519_correct c" and "ed25519_key_codec c" and "ml_dsa_correct c MlDsa65"
    and "codec_lawful (sv_codec env)" and "require_operator_auth sv"
    and "consent_action_from_json (sv_json env) (frame_text f) = Ok (consent_dto (sv_codec env)
      (sign_consent_action c mgr (issue_token c (daemon_key auth) (daemon_ml_dsa auth)
        \<lparr>authed_operator_id = oid, authed_role = rl\<rparr> now ttl tn) sv act))"
    and "OperatorPolicy_lookup_by_id (sv_iteration env) (auth_policy auth) oid = Some (enroll c mgr oid r0)"
    and "role_permits rl (ConsentAction_required_permission act)" and "frame_now f \<le> saturating_add now ttl"
    and "\<not> OperatorRevocations_is_revoked oid (frame_revocations f)"
    and "Chain_append c (frame_time f) ev (live_ledger s) = (ch', Ok y)"
    and "persist (frame_env f) ch' (store s) = (st', Ok u)"
  shows "serve_text env sv persist f s =
    (let s1 = s\<lparr>live_ledger := ch', store := st'\<rparr> in
     case act of
       Approve \<Rightarrow> (if grant_tx s then s1\<lparr>grant_tx := False, grant := Some True\<rparr> else s1, KeepServing)
     | Deny \<Rightarrow> (if grant_tx s then s1\<lparr>grant_tx := False, grant := Some False\<rparr> else s1, Stop)
     | Revoke \<Rightarrow> (s1\<lparr>revoked_flag := True\<rparr>, Stop)) \<and>
    LedgerEntry.event y = ev \<and> Chain.entries ch' = Chain.entries (live_ledger s) @ [y]"
proof -
  have app: "append_persisted c (frame_time f) ev persist (frame_env f) s = (s\<lparr>live_ledger := ch', store := st'\<rparr>, Ok y)"
    and y: "LedgerEntry.event y = ev" "Chain.entries ch' = Chain.entries (live_ledger s) @ [y]"
    using append_committed [of c "frame_time f" ev s ch' y persist "frame_env f", OF assms(14,15)] by simp_all
  note decoded = signed_decision_decoded [of "sv_crypto env" "sv_codec env" sv "sv_json env" "frame_text f" mgr
      "daemon_key (frame_auth_state f)" "daemon_ml_dsa (frame_auth_state f)"]
  have "decode_consent_decision c (sv_codec env) (sv_json env) (sv_iteration env) (frame_now f)
        (frame_text f) (require_operator_auth sv) auth (server_session_id sv)
        (server_scope_digest sv) (frame_revocations f) = Some \<lparr>decoded_action = act, decoded_authorized = Some
          \<lparr>authorized_action = act, authorized_operator_id = oid, authorized_role = rl,
           authorized_ed25519_pubkey = HandshakeManager_identity_public_key_bytes c mgr\<rparr>\<rparr>"
    using assms(4-13) unfolding c_def auth_def by (intro decoded) simp_all
  then show ?thesis
    using app y
    by (cases act) (simp_all add: serve_text_def apply_consent_decision_def send_grant_def c_def auth_def ev_def Let_def)
qed

section \<open>A concrete session\<close>

text \<open>An administrator approves a session, on an empty ledger, with a write that succeeds.\<close>

definition demo_server :: ConsentServer where
  "demo_server = \<lparr>require_operator_auth = True, server_session_id = filled 1, server_scope_digest = filled 2,
     server_session_uuid = filled 4\<rparr>"

definition demo_server_env :: "(u8_32, u8_32, bytes) server_env" where
  "demo_server_env = \<lparr>sv_crypto = demo_crypto, sv_codec = demo_codec,
     sv_json = \<lparr>consent_action_from_json = (\<lambda>_. Ok (consent_dto demo_codec
         (sign_consent_action demo_crypto (demo_mgr 1) demo_token demo_server Approve))),
       revocation_from_json = (\<lambda>_. Err []), key_replacement_from_json = (\<lambda>_. Err []),
       token_from_json = (\<lambda>_. Err []), debug_str = id\<rparr>,
     sv_iteration = demo_iteration\<rparr>"

definition demo_frame :: "(u8_32, bytes, unit) text_frame" where
  "demo_frame = \<lparr>frame_text = [], frame_auth_state = d_auth demo_daemon, frame_revocations = OperatorRevocations_empty,
     frame_now = 200, frame_time = demo_time, frame_uuid = filled 6,
     frame_env = \<lparr>pe_io = all_io_ok, pe_temp = ''t'', pe_now = 200\<rparr>\<rparr>"

definition demo_approval :: ConsentEventRecord where
  "demo_approval = operator_consent_audit_event (sv_json demo_server_env) \<lparr>authorized_action = Approve,
     authorized_operator_id = ''alice'', authorized_role = Admin,
     authorized_ed25519_pubkey = HandshakeManager_identity_public_key_bytes demo_crypto (demo_mgr 1)\<rparr> (filled 4) (filled 6)"

definition demo_approved :: "u8_32 Chain" where
  "demo_approved = fst (Chain_append demo_crypto demo_time demo_approval (Chain_new (filled 9)))"

definition demo_store_codec :: store_codec where
  "demo_store_codec = \<lparr>
     entries_serialize = (\<lambda>es. if es = Chain.entries demo_approved then Ok (to_le_bytes (of_nat (length es))) else Err []),
     entries_deserialize = (\<lambda>_. Ok (Chain.entries demo_approved)),
     checkpoint_to_json = (\<lambda>_. Err []), checkpoint_from_json = (\<lambda>_. Err []),
     witness_bundle_from_json = (\<lambda>_. Err []), key_transition_from_json = (\<lambda>_. Err []),
     segment_to_json = (\<lambda>_. Err []), segment_from_json = (\<lambda>_. Err []),
     active_state_to_json = (\<lambda>_. Err []), active_state_from_json = (\<lambda>_. Err [])\<rparr>"

definition demo_session :: "(u8_32, files) consent_session" where
  "demo_session = \<lparr>grant_tx = True, grant = None, revoked_flag = False, live_ledger = Chain_new (filled 9), store = Map.empty\<rparr>"

abbreviation demo_persist :: "(u8_32, files) persister" where
  "demo_persist \<equiv> CompleteConsentLedgerPersister_persist demo_store_codec ''p''"

lemma demo_server_simps [simp]:
  "require_operator_auth demo_server" "server_session_uuid demo_server = filled 4"
  "sv_crypto demo_server_env = demo_crypto" "sv_codec demo_server_env = demo_codec" "sv_iteration demo_server_env = demo_iteration"
  "consent_action_from_json (sv_json demo_server_env) b =
     Ok (consent_dto demo_codec (sign_consent_action demo_crypto (demo_mgr 1) demo_token demo_server Approve))"
  "frame_auth_state demo_frame = d_auth demo_daemon" "frame_revocations demo_frame = OperatorRevocations_empty"
  "frame_now demo_frame = 200" "frame_time demo_frame = demo_time" "frame_uuid demo_frame = filled 6"
  "frame_env demo_frame = \<lparr>pe_io = all_io_ok, pe_temp = ''t'', pe_now = 200\<rparr>"
  "grant_tx demo_session" "grant demo_session = None" "\<not> revoked_flag demo_session"
  "live_ledger demo_session = Chain_new (filled 9)" "store demo_session = Map.empty"
  by (simp_all add: demo_server_def demo_server_env_def demo_frame_def demo_session_def)

lemma demo_approved_append:
  obtains y where "Chain_append demo_crypto demo_time demo_approval (Chain_new (filled 9)) = (demo_approved, Ok y)"
    and "Chain.entries demo_approved = [y]" and "Chain.base_checkpoint demo_approved = None"
  using append_serialized [of demo_crypto "Chain_new (filled 9)" demo_time demo_approval]
  by (auto simp: demo_approved_def Chain_new_def)

lemma demo_write:
  "sound_write demo_crypto demo_store_codec ''p'' (frame_env demo_frame)"
  "load_verified demo_crypto demo_store_codec reads_ok ''p'' (filled 9) Map.empty = Ok (Chain_new (filled 9))"
  "\<exists>fs. demo_persist (frame_env demo_frame) demo_approved Map.empty = (fs, Ok ())"
proof -
  obtain y where y: "Chain.entries demo_approved = [y]" "Chain.base_checkpoint demo_approved = None"
    using demo_approved_append by blast
  have lawful: "store_codec_lawful demo_store_codec"
    by (auto simp: store_codec_lawful_def demo_store_codec_def split: if_splits)
  then show "sound_write demo_crypto demo_store_codec ''p'' (frame_env demo_frame)"
    by (simp add: sound_write_def store_write_def all_io_ok_def)
  show "load_verified demo_crypto demo_store_codec reads_ok ''p'' (filled 9) Map.empty = Ok (Chain_new (filled 9))"
    by (simp add: load_verified_def)
  have "encode_entries demo_store_codec (Chain.entries demo_approved) =
      Ok (v1_envelope (Chain.entries demo_approved) (to_le_bytes (of_nat (length (Chain.entries demo_approved)))))"
    using y by (simp add: encode_entries_eq_Ok demo_store_codec_def MAX_AUDIT_LEDGER_ENTRIES_def MAX_AUDIT_LEDGER_BYTES_def
        v1_envelope_def PERSISTED_AUDIT_LEDGER_MAGIC_def as_bytes_def)
  then show "\<exists>fs. demo_persist (frame_env demo_frame) demo_approved Map.empty = (fs, Ok ())"
    using y(2) by (simp add: CompleteConsentLedgerPersister_persist_def persist_entries_atomic_def Chain_base_checkpoint_def
        persist_owner_only_atomic_def write_atomic_def write_and_rename_def all_io_ok_def Let_def)
qed

lemma demo_time_left: "(200 :: u64) \<le> saturating_add 100 TOKEN_TTL_SECS"
  by (simp add: saturating_add_def TOKEN_TTL_SECS_def word_le_nat_alt)

lemma demo_admin_permits: "role_permits Admin (ConsentAction_required_permission Approve)"
  by code_simp

lemma demo_not_revoked: "\<not> OperatorRevocations_is_revoked oid OperatorRevocations_empty"
  by (simp add: OperatorRevocations_is_revoked_def OperatorRevocations_empty_def)

lemma demo_served:
  obtains fs where "ConsentServer_run demo_server_env demo_server demo_persist [HandshakeFailed, Connected [Text demo_frame]]
      demo_session = (demo_session\<lparr>live_ledger := demo_approved, store := fs, grant_tx := False, grant := Some True\<rparr>, KeepServing)"
proof -
  obtain y where y: "Chain_append demo_crypto demo_time demo_approval (live_ledger demo_session) = (demo_approved, Ok y)"
    using demo_approved_append by auto
  obtain fs where fs: "demo_persist (frame_env demo_frame) demo_approved (store demo_session) = (fs, Ok ())"
    using demo_write(3) by auto
  have "decode_consent_decision demo_crypto demo_codec (sv_json demo_server_env) demo_iteration 200 (frame_text demo_frame)
      (require_operator_auth demo_server) (d_auth demo_daemon) (server_session_id demo_server)
      (server_scope_digest demo_server) OperatorRevocations_empty = Some \<lparr>decoded_action = Approve, decoded_authorized = Some
        \<lparr>authorized_action = Approve, authorized_operator_id = ''alice'', authorized_role = Admin,
         authorized_ed25519_pubkey = HandshakeManager_identity_public_key_bytes demo_crypto (demo_mgr 1)\<rparr>\<rparr>"
    by (rule signed_decision_decoded [where now = 100 and ttl = TOKEN_TTL_SECS and tn = "filled 3" and ?r0.0 = Admin])
      (use demo_time_left demo_admin_permits demo_not_revoked demo_admin_lookup demo_codec_lawful in
        \<open>simp_all add: demo_admin_def demo_token_def\<close>)
  then have "serve_text demo_server_env demo_server demo_persist demo_frame demo_session =
      (demo_session\<lparr>live_ledger := demo_approved, store := fs, grant_tx := False, grant := Some True\<rparr>, KeepServing)"
    using append_committed(1) [of demo_crypto demo_time demo_approval demo_session demo_approved y demo_persist
        "frame_env demo_frame" fs "()", OF y fs]
    by (simp add: serve_text_def apply_consent_decision_def send_grant_def demo_approval_def)
  then show thesis using that by simp
qed

theorem signed_decision_takes_effect_witness:
  "\<exists>y fs. fst (serve_text demo_server_env demo_server demo_persist demo_frame demo_session) =
     demo_session\<lparr>live_ledger := demo_approved, store := fs, grant_tx := False, grant := Some True\<rparr> \<and>
   Chain.entries demo_approved = [y] \<and> kind (LedgerEntry.event y) = Approval"
proof -
  obtain y where y: "Chain_append demo_crypto demo_time demo_approval (live_ledger demo_session) = (demo_approved, Ok y)"
    using demo_approved_append by auto
  obtain fs where fs: "demo_persist (frame_env demo_frame) demo_approved (store demo_session) = (fs, Ok ())"
    using demo_write(3) by auto
  show ?thesis
    using signed_decision_takes_effect [where env = demo_server_env and sv = demo_server and f = demo_frame
        and s = demo_session and persist = demo_persist and mgr = "demo_mgr 1" and act = Approve and oid = "''alice''"
        and rl = Admin and now = 100 and ttl = TOKEN_TTL_SECS and tn = "filled 3" and ?r0.0 = Admin and ch' = demo_approved
        and y = y and st' = fs and u = "()"]
      y fs demo_time_left demo_admin_permits demo_not_revoked demo_admin_lookup demo_codec_lawful
    by (auto simp: demo_admin_def demo_token_def demo_approval_def Chain_new_def operator_consent_audit_event_def)
qed

theorem consent_ledger_survives_restart_witness:
  "\<exists>fs y. load_verified demo_crypto demo_store_codec reads_ok ''p'' (filled 9) fs = Ok demo_approved \<and>
     Chain.entries demo_approved = [y]"
proof -
  obtain fs where run: "ConsentServer_run demo_server_env demo_server demo_persist [HandshakeFailed, Connected [Text demo_frame]]
      demo_session = (demo_session\<lparr>live_ledger := demo_approved, store := fs, grant_tx := False, grant := Some True\<rparr>, KeepServing)"
    using demo_served by blast
  show ?thesis
    using consent_ledger_survives_restart [OF _ _ run, of "filled 9"] demo_write(1,2) demo_approved_append
    by (fastforce simp: sound_write_def)
qed

theorem decisions_signed_and_durable_witness:
  "\<exists>fs x. load_verified demo_crypto demo_store_codec reads_ok ''p'' (filled 9) fs = Ok demo_approved \<and>
     x \<in> set (Chain.entries demo_approved) \<and> signed_decision demo_server_env demo_server demo_frame Approve x"
proof -
  obtain fs where run: "ConsentServer_run demo_server_env demo_server demo_persist [HandshakeFailed, Connected [Text demo_frame]]
      demo_session = (demo_session\<lparr>live_ledger := demo_approved, store := fs, grant_tx := False, grant := Some True\<rparr>, KeepServing)"
    using demo_served by blast
  have load: "load_verified demo_crypto demo_store_codec reads_ok ''p'' (filled 9) fs = Ok demo_approved"
    using complete_store.run_durable [OF _ _ _ run, of demo_crypto "filled 9"] demo_write(1,2)
    by (simp add: sound_write_def)
  show ?thesis
    using decisions_signed_and_durable [OF _ _ _ _ _ run, of "filled 9"] demo_write(1,2) load
    by (auto simp: sound_write_def)
qed

theorem compacted_ledger_survives_restart_witness:
  "\<exists>sc st ch s'. restored_from demo_crypto1 no_hex sc ''p'' (filled 9) st ch \<and>
     s' = fst (ConsentServer_run (demo_server_env\<lparr>sv_crypto := demo_crypto1\<rparr>) demo_server
       (CompactedConsentLedgerPersister_persist demo_crypto1 no_hex sc ''p'') [Connected [Text demo_frame]]
       \<lparr>grant_tx = True, grant = None, revoked_flag = False, live_ledger = ch, store = st\<rparr>) \<and>
     restored_from demo_crypto1 no_hex sc ''p'' (filled 9) (store s') (live_ledger s')"
proof -
  obtain snap st where "ConsentCompactedActiveStateV1_activate demo_crypto1 no_hex snap [demo_cold] (filled 9) 7 = Ok st"
    using demo_first_round by blast
  then obtain r where r: "ConsentCompactedActiveStateV1_restore_state demo_crypto1 no_hex (filled 9) st = Ok r"
    using activated_facts(2) by (fastforce simp: ConsentCompactedActiveStateV1_restore_state_def)
  define sc where "sc = demo_store_codec\<lparr>active_state_to_json := (\<lambda>x. if x = st then Ok [] else Err []),
    active_state_from_json := (\<lambda>_. Ok st)\<rparr>"
  have "store_codec_lawful sc"
    by (auto simp: store_codec_lawful_def sc_def demo_store_codec_def split: if_splits)
  then have w: "sound_write demo_crypto1 sc ''p'' (frame_env demo_frame)"
    by (simp add: sound_write_def store_write_def all_io_ok_def demo_crypto1_lawful)
  have from0: "restored_from demo_crypto1 no_hex sc ''p'' (filled 9) (st, [''p'' \<mapsto> []]) (restored_chain r)"
    using r by (simp add: restored_from_def load_compacted_active_state_def read_bounded_json_def
        read_bounded_json_with_size_def sc_def)
  let ?s = "\<lparr>grant_tx = True, grant = None, revoked_flag = False, live_ledger = restored_chain r, store = (st, [''p'' \<mapsto> []])\<rparr>"
  obtain s' fu where run: "ConsentServer_run (demo_server_env\<lparr>sv_crypto := demo_crypto1\<rparr>) demo_server
      (CompactedConsentLedgerPersister_persist demo_crypto1 no_hex sc ''p'') [Connected [Text demo_frame]] ?s = (s', fu)"
    by fastforce
  show ?thesis
    using compacted_ledger_survives_restart [of "demo_server_env\<lparr>sv_crypto := demo_crypto1\<rparr>" no_hex sc "''p''"
        "filled 9" ?s "[Connected [Text demo_frame]]" demo_server s' fu] from0 w run
    by (intro exI [of _ sc] exI [of _ "(st, [''p'' \<mapsto> []])"] exI [of _ "restored_chain r"] exI [of _ s']) simp
qed

end
