(* ===== verification/Rust_Paths.thy ===== *)
theory Rust_Paths
  imports Rust_Strings
begin

text \<open>
  What the sources use of \<open>std::path\<close> on Unix: a path is a string, its components are what stands between
  slashes without the empty ones and the dots, and the file system is a map from paths to contents.
\<close>

type_synonym disk = "string \<rightharpoonup> bytes"

fun split_path :: "string \<Rightarrow> string list" where
  "split_path [] = [[]]"
| "split_path (ch # p) =
     (if ch = CHR ''/'' then [] # split_path p
      else (case split_path p of [] \<Rightarrow> [[ch]] | s # ss \<Rightarrow> (ch # s) # ss))"

definition path_names :: "string \<Rightarrow> string list" where
  "path_names p = filter (\<lambda>s. s \<noteq> [] \<and> s \<noteq> ''.'') (split_path p)"

text \<open>\<open>Path::file_name\<close>: the last component, unless it is \<open>..\<close>.\<close>

definition file_name :: "string \<Rightarrow> string option" where
  "file_name p =
     (let ns = path_names p in if ns = [] \<or> last ns = ''..'' then None else Some (last ns))"

text \<open>\<open>Path::join\<close>.\<close>

definition path_join :: "string \<Rightarrow> string \<Rightarrow> string" where
  "path_join dir p =
     (if p \<noteq> [] \<and> hd p = CHR ''/'' then p
      else if dir = [] \<or> last dir = CHR ''/'' then dir @ p
      else dir @ ''/'' @ p)"

text \<open>\<open>Path::parent\<close> of a path with a file name, on the reversed string: trailing slashes and dots do not count.\<close>

fun trim_rev :: "string \<Rightarrow> string" where
  "trim_rev [] = []"
| "trim_rev (ch # r) =
     (if ch = CHR ''/'' then (if r = [] then [ch] else trim_rev r)
      else if ch = CHR ''.'' \<and> r \<noteq> [] \<and> hd r = CHR ''/'' then trim_rev r
      else ch # r)"

definition path_parent :: "string \<Rightarrow> string" where
  "path_parent p = rev (trim_rev (dropWhile (\<lambda>ch. ch \<noteq> CHR ''/'') (trim_rev (rev p))))"

text \<open>\<open>{:016x}\<close>.\<close>

definition hex_digit :: "nat \<Rightarrow> char" where
  "hex_digit n = ''0123456789abcdef'' ! n"

definition hex16 :: "u64 \<Rightarrow> string" where
  "hex16 w = map (\<lambda>i. hex_digit (unat (drop_bit (4 * (15 - i)) w) mod 16)) [0..<16]"

section \<open>File names have no slash\<close>

lemma split_path_not_Nil [simp]: "split_path p \<noteq> []"
  by (induction p) (auto split: list.splits)

lemma split_path_no_slash: "s \<in> set (split_path p) \<Longrightarrow> CHR ''/'' \<notin> set s"
  by (induction p arbitrary: s) (fastforce split: list.splits if_splits)+

lemma file_name_plain:
  assumes "file_name p = Some s"
  shows "CHR ''/'' \<notin> set s" and "s \<noteq> []" and "s \<noteq> ''.''" and "s \<noteq> ''..''"
proof -
  have "s \<in> set (path_names p)" and "s \<noteq> ''..''"
    using assms by (auto simp: file_name_def Let_def split: if_splits)
  then show "CHR ''/'' \<notin> set s" "s \<noteq> []" "s \<noteq> ''.''" "s \<noteq> ''..''"
    by (auto simp: path_names_def dest: split_path_no_slash)
qed

lemma split_path_plain: "CHR ''/'' \<notin> set s \<Longrightarrow> split_path s = [s]"
  by (induction s) auto

lemma file_name_of_plain: "CHR ''/'' \<notin> set s \<Longrightarrow> s \<notin> {[], ''.'', ''..''} \<Longrightarrow> file_name s = Some s"
  by (simp add: file_name_def path_names_def split_path_plain)

section \<open>Names and paths\<close>

lemma split_path_slash: "split_path (x @ CHR ''/'' # s) = split_path x @ split_path s"
  by (induction x) (auto split: list.splits simp: append_eq_Cons_conv)

lemma path_join_plain:
  assumes "CHR ''/'' \<notin> set s"
  shows "dir = [] \<and> path_join dir s = s \<or> (\<exists>x. path_join dir s = x @ CHR ''/'' # s)"
proof (cases "dir = []")
  case False
  have "hd s \<noteq> CHR ''/''" if "s \<noteq> []" using assms that by (cases s) auto
  moreover have "dir = butlast dir @ [last dir]" using False by simp
  ultimately show ?thesis
    by (cases "last dir = CHR ''/''") (force simp: path_join_def intro: exI [of _ "butlast dir"] exI [of _ dir])+
qed (use assms in \<open>cases s; auto simp: path_join_def\<close>)

lemma file_name_join:
  assumes "CHR ''/'' \<notin> set s" and "s \<notin> {[], ''.'', ''..''}"
  shows "file_name (path_join dir s) = Some s"
  using path_join_plain [OF assms(1), of dir] assms
  by (auto simp: file_name_def path_names_def split_path_slash split_path_plain)

lemma path_join_name:
  assumes "path_join dir s = path_join dir' t" and "CHR ''/'' \<notin> set s" and "CHR ''/'' \<notin> set t"
  shows "s = t"
proof -
  have tail: "rev (takeWhile (\<lambda>ch. ch \<noteq> CHR ''/'') (rev (path_join d u))) = u" if "CHR ''/'' \<notin> set u" for d u
  proof -
    have u: "\<And>ch. ch \<in> set (rev u) \<Longrightarrow> ch \<noteq> CHR ''/''" using that by auto
    have "takeWhile (\<lambda>ch. ch \<noteq> CHR ''/'') (rev u @ CHR ''/'' # x) = rev u" for x
      using takeWhile_append2 [of "rev u" "\<lambda>ch. ch \<noteq> CHR ''/''", OF u] by simp
    moreover have "rev (takeWhile (\<lambda>ch. ch \<noteq> CHR ''/'') (rev u)) = u"
      using takeWhile_append2 [of "rev u" "\<lambda>ch. ch \<noteq> CHR ''/''" "[]", OF u]
      by (simp only: append_Nil2 takeWhile.simps rev_rev_ident)
    ultimately show ?thesis using path_join_plain [OF that, of d] by (elim disjE conjE exE) simp_all
  qed
  show ?thesis using tail [OF assms(2), of dir] tail [OF assms(3), of dir'] assms(1) by simp
qed

lemma decimal_plain: "CHR ''/'' \<notin> set (decimal n)"
proof (induction n rule: decimal.induct)
  case (1 n)
  have d: "char_of (48 + k) \<noteq> CHR ''/''" if "k < 10" for k :: nat
  proof
    assume "char_of (48 + k) = CHR ''/''"
    then have "of_char (char_of (48 + k)) = (47 :: nat)" by simp
    then show False using that by simp
  qed
  show ?case using 1 d [of n] d [of "n mod 10"] by (subst decimal.simps) auto
qed

lemma hex16_plain: "CHR ''/'' \<notin> set (hex16 w)"
proof -
  have "hex_digit n \<in> set ''0123456789abcdef''" if "n < 16" for n
    using that unfolding hex_digit_def by (intro nth_mem) simp
  then have "set (hex16 w) \<subseteq> set ''0123456789abcdef''" unfolding hex16_def by (auto simp only: set_map image_iff subset_iff)
  moreover have "CHR ''/'' \<notin> set ''0123456789abcdef''" by simp
  ultimately show ?thesis by blast
qed

end
