(* ===== verification/File_Staging.thy ===== *)
theory File_Staging
  imports Rust_Paths Ledger_Primitives
begin

text \<open>
  Receiving a file, \<open>crates/xenia-peer-core/src/file_transfer.rs\<close>: a private staging file in the directory of
  the destination, chunks appended strictly in sequence, a check of size and hash, and publication by a
  hard link that never replaces anything. What the calls of the operating system return and the random
  numbers are arguments; a hash state is the bytes that were fed to it.
\<close>

definition STAGING_ATTEMPTS :: nat where
  "STAGING_ATTEMPTS = 32"

definition RECEIVE_STAGING_PREFIX :: string where
  "RECEIVE_STAGING_PREFIX = ''.xenia-receive-''"

definition RECEIVE_STAGING_SUFFIX :: string where
  "RECEIVE_STAGING_SUFFIX = ''.tmp''"

datatype io_error = InvalidInput | AlreadyExists | NotFound | BrokenPipe | OtherIo

definition receive_parent :: "string \<Rightarrow> (string, io_error) result" where
  "receive_parent path =
     (if file_name path = None then Err InvalidInput
      else if path_parent path \<noteq> [] then Ok (path_parent path) else Ok ''.'')"

text \<open>The process, the random numbers of each attempt, and the attempts whose open fails for another reason.\<close>

record staging_env =
  process_id :: u32
  random_pair :: "nat \<Rightarrow> u64 \<times> u64"
  open_fails :: "nat \<Rightarrow> bool"

definition staging_name :: "u32 \<Rightarrow> u64 \<times> u64 \<Rightarrow> string" where
  "staging_name pid r = RECEIVE_STAGING_PREFIX @ decimal (unat pid) @ ''-'' @ hex16 (fst r) @ hex16 (snd r) @
     RECEIVE_STAGING_SUFFIX"

fun open_staging_loop :: "staging_env \<Rightarrow> string \<Rightarrow> nat \<Rightarrow> nat \<Rightarrow> disk \<Rightarrow> disk \<times> (string, io_error) result" where
  "open_staging_loop env parent 0 i fs = (fs, Err AlreadyExists)"
| "open_staging_loop env parent (Suc n) i fs =
     (let staging_path = path_join parent (staging_name (process_id env) (random_pair env i)) in
      if fs staging_path \<noteq> None then open_staging_loop env parent n (Suc i) fs
      else if open_fails env i then (fs, Err OtherIo)
      else (fs(staging_path \<mapsto> []), Ok staging_path))"

definition open_staging_file :: "staging_env \<Rightarrow> string \<Rightarrow> disk \<Rightarrow> disk \<times> (string, io_error) result" where
  "open_staging_file env parent = open_staging_loop env parent STAGING_ATTEMPTS 0"

lemma staging_name_plain: "CHR ''/'' \<notin> set (staging_name pid r)"
  using decimal_plain hex16_plain by (simp add: staging_name_def RECEIVE_STAGING_PREFIX_def RECEIVE_STAGING_SUFFIX_def)

section \<open>Orphaned staging files\<close>

definition strip_prefix :: "string \<Rightarrow> string \<Rightarrow> string option" where
  "strip_prefix p s = (if take (length p) s = p then Some (drop (length p) s) else None)"

definition strip_suffix :: "string \<Rightarrow> string \<Rightarrow> string option" where
  "strip_suffix p s = map_option rev (strip_prefix (rev p) (rev s))"

definition split_once :: "char \<Rightarrow> string \<Rightarrow> (string \<times> string) option" where
  "split_once ch s =
     (if ch \<in> set s then Some (takeWhile (\<lambda>x. x \<noteq> ch) s, tl (dropWhile (\<lambda>x. x \<noteq> ch) s)) else None)"

definition is_ascii_digit :: "char \<Rightarrow> bool" where
  "is_ascii_digit ch \<longleftrightarrow> ch \<in> set ''0123456789''"

definition is_ascii_hexdigit :: "char \<Rightarrow> bool" where
  "is_ascii_hexdigit ch \<longleftrightarrow> ch \<in> set ''0123456789abcdefABCDEF''"

text \<open>\<open>str::parse::<u32>\<close> of digits.\<close>

definition parse_u32 :: "string \<Rightarrow> u32 option" where
  "parse_u32 s =
     (let n = foldl (\<lambda>n ch. 10 * n + (of_char ch - 48 :: nat)) 0 s in if n < 2 ^ 32 then Some (of_nat n) else None)"

definition owned_receive_staging_pid :: "string \<Rightarrow> u32 option" where
  "owned_receive_staging_pid name =
     Option.bind (Option.bind (strip_prefix RECEIVE_STAGING_PREFIX name) (strip_suffix RECEIVE_STAGING_SUFFIX)) (\<lambda>body.
     Option.bind (split_once (CHR ''-'') body) (\<lambda>(pid, token).
       if pid = [] \<or> \<not> list_all is_ascii_digit pid \<or> length token \<noteq> 32 \<or> \<not> list_all is_ascii_hexdigit token
       then None else parse_u32 pid))"

text \<open>
  The entries of the directory, each with its name when that is readable as a string, and whether its
  removal works.
\<close>

fun cleanup_entries :: "u32 \<Rightarrow> string \<Rightarrow> (string option \<times> bool) list \<Rightarrow> disk \<Rightarrow> disk \<times> nat" where
  "cleanup_entries pid dir [] fs = (fs, 0)"
| "cleanup_entries pid dir ((entry, remove_ok) # es) fs =
     (case Option.bind entry (\<lambda>name. map_option (Pair name) (owned_receive_staging_pid name)) of
        None \<Rightarrow> cleanup_entries pid dir es fs
      | Some (name, owner) \<Rightarrow>
          if owner = pid \<or> \<not> remove_ok \<or> fs (path_join dir name) = None then cleanup_entries pid dir es fs
          else apsnd Suc (cleanup_entries pid dir es (fs(path_join dir name := None))))"

definition cleanup_orphaned_receive_staging ::
    "u32 \<Rightarrow> string \<Rightarrow> ((string option \<times> bool) list, io_error) result \<Rightarrow> disk \<Rightarrow> disk \<times> (nat, io_error) result" where
  "cleanup_orphaned_receive_staging pid dir read_dir fs =
     (case read_dir of
        Err NotFound \<Rightarrow> (fs, Ok 0)
      | Err e \<Rightarrow> (fs, Err e)
      | Ok es \<Rightarrow> apsnd Ok (cleanup_entries pid dir es fs))"

section \<open>The stager\<close>

datatype IncomingFileStageError =
    UnexpectedOffset u64 u64
  | SizeExceeded u64 u64
  | SizeMismatch u64 u64
  | HashMismatch
  | StageIo io_error

record IncomingFileStager =
  final_path :: string
  staging_path :: string
  file_open :: bool
  hashed :: bytes
  expected_size :: u64
  expected_hash :: u8_32
  received_count :: u64

definition IncomingFileStager_create ::
    "staging_env \<Rightarrow> string \<Rightarrow> u64 \<Rightarrow> u8_32 \<Rightarrow> disk \<Rightarrow> disk \<times> (IncomingFileStager, IncomingFileStageError) result" where
  "IncomingFileStager_create env final sz h fs =
     (case receive_parent final of
        Err e \<Rightarrow> (fs, Err (StageIo e))
      | Ok parent \<Rightarrow>
          (case open_staging_file env parent fs of
             (fs', Err e) \<Rightarrow> (fs', Err (StageIo e))
           | (fs', Ok staging) \<Rightarrow>
               (fs', Ok \<lparr>final_path = final, staging_path = staging, file_open = True, hashed = [],
                 expected_size = sz, expected_hash = h, received_count = 0\<rparr>)))"

text \<open>\<open>written\<close> is \<open>None\<close> when all the bytes are written, and otherwise how many are before the error.\<close>

definition IncomingFileStager_append ::
    "nat option \<Rightarrow> u64 \<Rightarrow> bytes \<Rightarrow> IncomingFileStager \<Rightarrow> disk \<Rightarrow>
     (IncomingFileStager \<times> disk) \<times> (u64, IncomingFileStageError) result" where
  "IncomingFileStager_append written offset data st fs =
     (if offset \<noteq> received_count st then ((st, fs), Err (UnexpectedOffset (received_count st) offset))
      else if length data \<ge> 2 ^ 64 then ((st, fs), Err (SizeExceeded (expected_size st) (- 1)))
      else
        (case checked_add (received_count st) (of_nat (length data)) of
           None \<Rightarrow> ((st, fs), Err (SizeExceeded (expected_size st) (- 1)))
         | Some attempted_end \<Rightarrow>
             if attempted_end > expected_size st then ((st, fs), Err (SizeExceeded (expected_size st) attempted_end))
             else if \<not> file_open st then ((st, fs), Err (StageIo BrokenPipe))
             else
               (let old = (case fs (staging_path st) of Some b \<Rightarrow> b | None \<Rightarrow> []) in
                case written of
                  Some n \<Rightarrow> ((st, fs(staging_path st \<mapsto> old @ take n data)), Err (StageIo OtherIo))
                | None \<Rightarrow> ((st\<lparr>hashed := hashed st @ data, received_count := attempted_end\<rparr>,
                    fs(staging_path st \<mapsto> old @ data)), Ok attempted_end))))"

definition IncomingFileStager_drop :: "bool \<Rightarrow> IncomingFileStager \<Rightarrow> disk \<Rightarrow> disk" where
  "IncomingFileStager_drop remove_ok st fs = (if remove_ok then fs(staging_path st := None) else fs)"

record finish_env =
  sync_works :: bool
  link_works :: bool
  unlink_works :: bool

text \<open>\<open>finish\<close> consumes the stager, which is dropped however it ends.\<close>

definition IncomingFileStager_finish ::
    "('sk, 'vk, 'ml) crypto \<Rightarrow> finish_env \<Rightarrow> IncomingFileStager \<Rightarrow> disk \<Rightarrow> disk \<times> (unit, IncomingFileStageError) result" where
  "IncomingFileStager_finish c env st fs =
     apfst (IncomingFileStager_drop (unlink_works env) st)
       (if received_count st \<noteq> expected_size st then (fs, Err (SizeMismatch (expected_size st) (received_count st)))
        else if blake3_hash c (hashed st) \<noteq> expected_hash st then (fs, Err HashMismatch)
        else if file_open st \<and> \<not> sync_works env then (fs, Err (StageIo OtherIo))
        else if \<not> link_works env then (fs, Err (StageIo OtherIo))
        else if fs (final_path st) \<noteq> None then (fs, Err (StageIo AlreadyExists))
        else (case fs (staging_path st) of
                None \<Rightarrow> (fs, Err (StageIo NotFound))
              | Some b \<Rightarrow> (fs(final_path st \<mapsto> b), Ok ())))"

section \<open>Delivering bytes that are all there\<close>

definition persist_received_file ::
    "staging_env \<Rightarrow> finish_env \<Rightarrow> nat option \<Rightarrow> string \<Rightarrow> bytes \<Rightarrow> disk \<Rightarrow> disk \<times> (unit, io_error) result" where
  "persist_received_file env fenv written path contents fs =
     (case receive_parent path of
        Err e \<Rightarrow> (fs, Err e)
      | Ok parent \<Rightarrow>
          (case open_staging_file env parent fs of
             (fs1, Err e) \<Rightarrow> (fs1, Err e)
           | (fs1, Ok staging) \<Rightarrow>
               (let remove = (\<lambda>fs. if unlink_works fenv then fs(staging := None) else fs);
                    content = (case written of None \<Rightarrow> contents | Some n \<Rightarrow> take n contents);
                    fs2 = fs1(staging \<mapsto> content) in
                if written \<noteq> None \<or> \<not> sync_works fenv then (remove fs2, Err OtherIo)
                else if \<not> link_works fenv then (remove fs2, Err OtherIo)
                else if fs2 path \<noteq> None then (remove fs2, Err AlreadyExists)
                else (remove (fs2(path \<mapsto> content)), Ok ()))))"

end
