(* ===== verification/Transfer_Source.thy ===== *)
theory Transfer_Source
  imports Ledger_Primitives
begin

text \<open>
  Sending a file, \<open>crates/xenia-peer-core/src/transfer_source.rs\<close>: the size and hash of the offer, and the
  chunks with the second hash that is compared at the end. What reading the file returns is an argument of
  every call, so the file may change between any two; a hash state is the bytes that were fed to it.
\<close>

definition FILE_TRANSFER_CHUNK_SIZE :: nat where
  "FILE_TRANSFER_CHUNK_SIZE = 64 * 1024"

datatype TransferSourceKind = Memory bytes | OpenFile

record TransferChunk =
  chunk_offset :: u64
  chunk_data :: bytes

datatype TransferSourceError =
    SourceIo
  | SizeLimitExceeded u64 u64
  | LengthChanged u64 u64
  | HashChanged
  | ZeroChunkSize

record TransferSource =
  source_kind :: TransferSourceKind
  source_size :: u64
  source_hash :: u8_32
  source_offset :: u64
  send_hashed :: bytes
  end_verified :: bool

definition TransferSource_from_memory :: "('sk, 'vk, 'ml) crypto \<Rightarrow> bytes \<Rightarrow> TransferSource" where
  "TransferSource_from_memory c data = \<lparr>source_kind = Memory data, source_size = of_nat (length data),
     source_hash = blake3_hash c data, source_offset = 0, send_hashed = [], end_verified = False\<rparr>"

text \<open>Hashing the file: what each read returns, in order, up to the first that is empty.\<close>

fun hash_reads :: "u64 \<Rightarrow> u64 \<Rightarrow> bytes \<Rightarrow> (bytes, unit) result list \<Rightarrow> (u64 \<times> bytes, TransferSourceError) result" where
  "hash_reads max_bytes sz fed [] = Ok (sz, fed)"
| "hash_reads max_bytes sz fed (Err _ # _) = Err SourceIo"
| "hash_reads max_bytes sz fed (Ok data # reads) =
     (if data = [] then Ok (sz, fed)
      else (case checked_add sz (of_nat (length data)) of
              None \<Rightarrow> Err (SizeLimitExceeded max_bytes (- 1))
            | Some n \<Rightarrow>
                if n > max_bytes then Err (SizeLimitExceeded max_bytes n)
                else hash_reads max_bytes n (fed @ data) reads))"

definition TransferSource_open_file_limited ::
    "('sk, 'vk, 'ml) crypto \<Rightarrow> (u64, unit) result \<Rightarrow> (bytes, unit) result list \<Rightarrow> bool \<Rightarrow> u64 \<Rightarrow>
     (TransferSource, TransferSourceError) result" where
  "TransferSource_open_file_limited c metadata_len reads seek_ok max_bytes =
     (case metadata_len of
        Err _ \<Rightarrow> Err SourceIo
      | Ok len \<Rightarrow>
          if len > max_bytes then Err (SizeLimitExceeded max_bytes len)
          else and_then (hash_reads max_bytes 0 [] reads) (\<lambda>(sz, fed).
            if \<not> seek_ok then Err SourceIo
            else Ok \<lparr>source_kind = OpenFile, source_size = sz, source_hash = blake3_hash c fed,
              source_offset = 0, send_hashed = [], end_verified = False\<rparr>))"

definition TransferSource_open_prehashed_file ::
    "(u64, unit) result \<Rightarrow> u64 \<Rightarrow> u8_32 \<Rightarrow> (TransferSource, TransferSourceError) result" where
  "TransferSource_open_prehashed_file metadata_len sz h =
     (case metadata_len of
        Err _ \<Rightarrow> Err SourceIo
      | Ok observed \<Rightarrow>
          if observed \<noteq> sz then Err (LengthChanged sz observed)
          else Ok \<lparr>source_kind = OpenFile, source_size = sz, source_hash = h,
            source_offset = 0, send_hashed = [], end_verified = False\<rparr>)"

text \<open>
  What the file has at the current position, or an error: the loop of \<open>next_chunk\<close> fills its buffer from
  it and ends early at the end of the file.
\<close>

type_synonym file_rest = "(bytes, unit) result"

definition read_chunk :: "file_rest \<Rightarrow> nat \<Rightarrow> TransferSource \<Rightarrow> (bytes, TransferSourceError) result" where
  "read_chunk rest want src =
     (let offset = source_offset src in
      case source_kind src of
        Memory data \<Rightarrow>
          if unat offset + want > length data then Err (LengthChanged (source_size src) (of_nat (length data)))
          else Ok (take want (drop (unat offset) data))
      | OpenFile \<Rightarrow>
          (case rest of
             Err _ \<Rightarrow> Err SourceIo
           | Ok b \<Rightarrow>
               if length b < want then Err (LengthChanged (source_size src) (saturating_add offset (of_nat (length b))))
               else Ok (take want b)))"

definition TransferSource_verify_end ::
    "('sk, 'vk, 'ml) crypto \<Rightarrow> file_rest \<Rightarrow> TransferSource \<Rightarrow> (unit, TransferSourceError) result" where
  "TransferSource_verify_end c rest src =
     and_then (case source_kind src of
         Memory _ \<Rightarrow> Ok ()
       | OpenFile \<Rightarrow>
           (case rest of
              Err _ \<Rightarrow> Err SourceIo
            | Ok b \<Rightarrow> if b \<noteq> [] then Err (LengthChanged (source_size src) (saturating_add (source_size src) 1)) else Ok ())) (\<lambda>_.
     if blake3_hash c (send_hashed src) \<noteq> source_hash src then Err HashChanged else Ok ())"

definition TransferSource_next_chunk ::
    "('sk, 'vk, 'ml) crypto \<Rightarrow> file_rest \<Rightarrow> nat \<Rightarrow> TransferSource \<Rightarrow>
     TransferSource \<times> (TransferChunk option, TransferSourceError) result" where
  "TransferSource_next_chunk c rest max_chunk_size src =
     (if max_chunk_size = 0 then (src, Err ZeroChunkSize)
      else if end_verified src then (src, Ok None)
      else if source_offset src = source_size src then
        (case TransferSource_verify_end c rest src of
           Err e \<Rightarrow> (src, Err e)
         | Ok _ \<Rightarrow> (src\<lparr>end_verified := True\<rparr>, Ok None))
      else
        (let remaining = source_size src - source_offset src; want = min max_chunk_size (unat remaining) in
         case read_chunk rest want src of
           Err e \<Rightarrow> (src, Err e)
         | Ok data \<Rightarrow>
             (src\<lparr>send_hashed := send_hashed src @ data,
                source_offset := saturating_add (source_offset src) (of_nat (length data))\<rparr>,
              Ok (Some \<lparr>chunk_offset = source_offset src, chunk_data = data\<rparr>))))"

section \<open>What is sent\<close>

text \<open>
  The offset never passes the size, and what was fed to the hash is what was emitted. A chunk is not
  empty, so the number of turns to the end is bounded by the bytes that are left.
\<close>

definition source_ok :: "TransferSource \<Rightarrow> bool" where
  "source_ok src \<longleftrightarrow> source_offset src \<le> source_size src \<and> unat (source_offset src) = length (send_hashed src)"

lemma read_chunk_length: "read_chunk rest want src = Ok data \<Longrightarrow> length data = want"
  by (auto simp: read_chunk_def Let_def split: TransferSourceKind.splits result.splits if_splits)

lemma next_chunk_cases:
  assumes "TransferSource_next_chunk c rest k src = (src', r)" and "source_ok src"
  obtains (failed) e where "r = Err e" "src' = src"
    | (finished) "r = Ok None" "src' = src\<lparr>end_verified := True\<rparr>"
        "end_verified src \<or> source_offset src = source_size src \<and> blake3_hash c (send_hashed src) = source_hash src"
    | (chunk) data where "r = Ok (Some \<lparr>chunk_offset = source_offset src, chunk_data = data\<rparr>)"
        "data \<noteq> []" "length data \<le> k" "\<not> end_verified src"
        "src' = src\<lparr>send_hashed := send_hashed src @ data, source_offset := source_offset src + of_nat (length data)\<rparr>"
        "unat (source_offset src) + length data \<le> unat (source_size src)"
proof (cases "k \<noteq> 0 \<and> \<not> end_verified src \<and> source_offset src \<noteq> source_size src")
  case False
  then show thesis
    using assms failed finished
    by (auto simp: TransferSource_next_chunk_def TransferSource_verify_end_def split: if_splits result.splits)
next
  case True
  let ?want = "min k (unat (source_size src - source_offset src))"
  show thesis
  proof (cases "read_chunk rest ?want src")
    case (Err e)
    then show thesis using assms(1) True failed by (auto simp: TransferSource_next_chunk_def Let_def)
  next
    case (Ok data)
    have less: "source_offset src < source_size src" using True assms(2) by (auto simp: source_ok_def)
    then have rem: "unat (source_size src - source_offset src) = unat (source_size src) - unat (source_offset src)"
        "unat (source_offset src) < unat (source_size src)"
      using unat_sub [OF less_imp_le [OF less]] by (simp_all add: word_less_nat_alt)
    have len: "length data = ?want" using read_chunk_length [OF Ok] .
    have room: "unat (source_offset src) + length data \<le> unat (source_size src)" using len rem by auto
    have data: "unat (of_nat (length data) :: u64) = length data"
      using room unat_u64_less [of "source_size src"] by (intro unat_of_nat_u64) linarith
    have add: "saturating_add (source_offset src) (of_nat (length data)) = source_offset src + of_nat (length data)"
      using room data unat_u64_less [of "source_size src"] by (simp add: saturating_add_def)
    have "data \<noteq> []" using len rem True by auto
    then show thesis
      using assms(1) True Ok add room len by (intro chunk [of data]) (auto simp: TransferSource_next_chunk_def Let_def)
  qed
qed

end
