(* ===== verification/Receive_Reservation.thy ===== *)
theory Receive_Reservation
  imports Xenia_Prelude "HOL-Library.Multiset"
begin

text \<open>
  The byte budget of inbound transfers, \<open>crates/xenia-peer-core/src/receive_reservation.rs\<close>: a shared atomic
  counter with a compare-and-exchange loop, and leases that give their bytes back when they are dropped.
  The atomic operations of any number of threads interleave freely.
\<close>

record ReceiveReservationPool =
  pool_capacity :: u64
  pool_reserved :: u64

datatype ReceiveReservationError = CapacityExceeded u64 u64 u64

definition ReceiveReservationPool_new :: "u64 \<Rightarrow> ReceiveReservationPool" where
  "ReceiveReservationPool_new cap = \<lparr>pool_capacity = cap, pool_reserved = 0\<rparr>"

definition ReceiveReservationPool_available_bytes :: "ReceiveReservationPool \<Rightarrow> u64" where
  "ReceiveReservationPool_available_bytes p = saturating_sub (pool_capacity p) (pool_reserved p)"

text \<open>One turn of the loop: the value to exchange for the \<open>reserved\<close> that was read, or the refusal.\<close>

definition reserve_turn :: "u64 \<Rightarrow> u64 \<Rightarrow> u64 \<Rightarrow> (u64, ReceiveReservationError) result" where
  "reserve_turn cap bytes reserved =
     (case checked_add reserved bytes of
        None \<Rightarrow> Err (CapacityExceeded bytes reserved cap)
      | Some next_reserved \<Rightarrow>
          if next_reserved > cap then Err (CapacityExceeded bytes reserved cap) else Ok next_reserved)"

text \<open>
  The loop. \<open>tries\<close> is what its exchanges find: \<open>None\<close> one that succeeds, \<open>Some actual\<close> one that fails,
  because another thread was faster or spuriously. Running out of \<open>tries\<close> is a loop that has not ended yet.
\<close>

fun try_reserve_loop :: "u64 \<Rightarrow> u64 \<Rightarrow> u64 \<Rightarrow> u64 option list \<Rightarrow> (u64, ReceiveReservationError) result option" where
  "try_reserve_loop cap bytes reserved tries =
     (case reserve_turn cap bytes reserved of
        Err e \<Rightarrow> Some (Err e)
      | Ok next_reserved \<Rightarrow>
          (case tries of
             [] \<Rightarrow> None
           | None # _ \<Rightarrow> Some (Ok next_reserved)
           | Some actual # rest \<Rightarrow> try_reserve_loop cap bytes actual rest))"

text \<open>The call of a thread that is not disturbed, and the drop of a lease.\<close>

definition ReceiveReservationPool_try_reserve ::
    "u64 \<Rightarrow> ReceiveReservationPool \<Rightarrow> ReceiveReservationPool \<times> (u64, ReceiveReservationError) result" where
  "ReceiveReservationPool_try_reserve bytes p =
     (case reserve_turn (pool_capacity p) bytes (pool_reserved p) of
        Err e \<Rightarrow> (p, Err e)
      | Ok next_reserved \<Rightarrow> (p\<lparr>pool_reserved := next_reserved\<rparr>, Ok bytes))"

definition ReceiveReservation_drop :: "u64 \<Rightarrow> ReceiveReservationPool \<Rightarrow> ReceiveReservationPool" where
  "ReceiveReservation_drop bytes p = p\<lparr>pool_reserved := pool_reserved p - bytes\<rparr>"

lemma try_reserve_undisturbed:
  "try_reserve_loop (pool_capacity p) bytes (pool_reserved p) [None] =
     Some (map_ok (\<lambda>_. pool_reserved (fst (ReceiveReservationPool_try_reserve bytes p)))
       (snd (ReceiveReservationPool_try_reserve bytes p)))"
  by (auto simp: ReceiveReservationPool_try_reserve_def split: result.splits)

section \<open>Interleavings\<close>

text \<open>
  A thread between calls, or in a call with the value it has read. The leases are those that live. Every
  step is one atomic operation: the first load of a call, its return with a refusal, an exchange that
  succeeds, one that fails because the value has changed, one that fails spuriously, and a drop.
\<close>

datatype reserver = Outside | Trying u64 u64

record 't reservations =
  pool :: ReceiveReservationPool
  threads :: "'t \<Rightarrow> reserver"
  leases :: "u64 multiset"

datatype 't atomic = Load 't u64 | Refuse 't | Acquire 't u64 | Retry 't | Spurious 't | Release u64

inductive atomic_step :: "'t reservations \<Rightarrow> 't atomic \<Rightarrow> 't reservations \<Rightarrow> bool" where
  load: "threads s t = Outside \<Longrightarrow>
    atomic_step s (Load t b) (s\<lparr>threads := (threads s)(t := Trying b (pool_reserved (pool s)))\<rparr>)"
| refuse: "threads s t = Trying b v \<Longrightarrow> reserve_turn (pool_capacity (pool s)) b v = Err e \<Longrightarrow>
    atomic_step s (Refuse t) (s\<lparr>threads := (threads s)(t := Outside)\<rparr>)"
| acquire: "threads s t = Trying b v \<Longrightarrow> reserve_turn (pool_capacity (pool s)) b v = Ok n \<Longrightarrow>
    pool_reserved (pool s) = v \<Longrightarrow>
    atomic_step s (Acquire t b) (s\<lparr>pool := (pool s)\<lparr>pool_reserved := n\<rparr>, threads := (threads s)(t := Outside),
      leases := leases s + {#b#}\<rparr>)"
| retry: "threads s t = Trying b v \<Longrightarrow> reserve_turn (pool_capacity (pool s)) b v = Ok n \<Longrightarrow>
    pool_reserved (pool s) \<noteq> v \<Longrightarrow>
    atomic_step s (Retry t) (s\<lparr>threads := (threads s)(t := Trying b (pool_reserved (pool s)))\<rparr>)"
| spurious: "threads s t = Trying b v \<Longrightarrow> reserve_turn (pool_capacity (pool s)) b v = Ok n \<Longrightarrow>
    pool_reserved (pool s) = v \<Longrightarrow>
    atomic_step s (Spurious t) s"
| release: "b \<in># leases s \<Longrightarrow>
    atomic_step s (Release b) (s\<lparr>pool := ReceiveReservation_drop b (pool s), leases := leases s - {#b#}\<rparr>)"

inductive_cases atomic_stepE: "atomic_step s l s'"

inductive atomic_run :: "'t reservations \<Rightarrow> 't atomic list \<Rightarrow> 't reservations \<Rightarrow> bool" where
  start: "atomic_run s [] s"
| step: "atomic_run s ls s' \<Longrightarrow> atomic_step s' l s'' \<Longrightarrow> atomic_run s (ls @ [l]) s''"

definition no_reservations :: "u64 \<Rightarrow> 't reservations" where
  "no_reservations cap = \<lparr>pool = ReceiveReservationPool_new cap, threads = (\<lambda>_. Outside), leases = {#}\<rparr>"

section \<open>The budget is kept\<close>

lemma reserve_turn_eq_Ok:
  "reserve_turn cap b v = Ok n \<longleftrightarrow> unat v + unat b = unat n \<and> n \<le> cap"
  using unat_u64_less [of n]
  by (auto simp: reserve_turn_def checked_add_eq_Some checked_add_eq_None word_le_nat_alt word_less_nat_alt
      word_unat_eq_iff split: option.splits)

definition within_budget :: "u64 \<Rightarrow> 't reservations \<Rightarrow> bool" where
  "within_budget cap s \<longleftrightarrow> pool_capacity (pool s) = cap \<and>
     unat (pool_reserved (pool s)) = (\<Sum>b\<in>#leases s. unat b) \<and> pool_reserved (pool s) \<le> cap"

lemma lease_le_reserved:
  assumes "within_budget cap s" and "b \<in># leases s"
  shows "b \<le> pool_reserved (pool s)"
proof -
  obtain M where "leases s = add_mset b M" using assms(2) by (meson mset_add)
  then show ?thesis using assms(1) by (simp add: within_budget_def word_le_nat_alt)
qed

lemma step_within_budget:
  assumes "atomic_step s l s'" and "within_budget cap s"
  shows "within_budget cap s'"
  using assms(1)
proof cases
  case (release b)
  then obtain M where M: "leases s = add_mset b M" by (meson mset_add)
  have le: "b \<le> pool_reserved (pool s)" using lease_le_reserved [OF assms(2) release(3)] .
  then have "unat (pool_reserved (pool s) - b) = unat (pool_reserved (pool s)) - unat b" by (rule unat_sub)
  then show ?thesis
    using assms(2) release(2) M le
    by (auto simp: within_budget_def ReceiveReservation_drop_def word_le_nat_alt)
qed (use assms(2) in \<open>auto simp: within_budget_def reserve_turn_eq_Ok\<close>)

lemma run_within_budget:
  assumes "atomic_run s ls s'" and "within_budget cap s"
  shows "within_budget cap s'"
  using assms by (induction rule: atomic_run.induct) (auto intro: step_within_budget)

lemma no_reservations_within: "within_budget cap (no_reservations cap)"
  by (simp add: within_budget_def no_reservations_def ReceiveReservationPool_new_def)

text \<open>
  C38. The budget holds under every interleaving. Whatever the threads do and in whatever order their
  atomic operations run, the counter is the exact sum of the bytes of the live leases, never more than
  the capacity, and dropping a lease does not wrap around; with no leases left the whole capacity is free.
\<close>

theorem reservations_within_capacity:
  assumes "atomic_run (no_reservations cap) ls s"
  shows "unat (pool_reserved (pool s)) = (\<Sum>b\<in>#leases s. unat b) \<and> (\<Sum>b\<in>#leases s. unat b) \<le> unat cap \<and>
    (\<forall>b\<in>#leases s. unat (pool_reserved (ReceiveReservation_drop b (pool s))) = unat (pool_reserved (pool s)) - unat b) \<and>
    (leases s = {#} \<longrightarrow> ReceiveReservationPool_available_bytes (pool s) = cap)"
proof -
  have w: "within_budget cap s" by (rule run_within_budget [OF assms no_reservations_within])
  then show ?thesis
    using lease_le_reserved [OF w]
    by (auto simp: within_budget_def word_le_nat_alt ReceiveReservation_drop_def unat_sub
        ReceiveReservationPool_available_bytes_def saturating_sub_def unat_eq_0)
qed

section \<open>Retries\<close>

fun retries :: "'t \<Rightarrow> 't atomic list \<Rightarrow> nat" where
  "retries t [] = 0"
| "retries t (Retry u # ls) = (if t = u then 1 else 0) + retries t ls"
| "retries t (_ # ls) = retries t ls"

fun changes :: "'t atomic list \<Rightarrow> nat" where
  "changes [] = 0"
| "changes (Acquire _ _ # ls) = Suc (changes ls)"
| "changes (Release _ # ls) = Suc (changes ls)"
| "changes (_ # ls) = changes ls"

lemma retries_append: "retries t (ls @ ls') = retries t ls + retries t ls'"
  by (induction t ls rule: retries.induct) auto

lemma changes_append: "changes (ls @ ls') = changes ls + changes ls'"
  by (induction ls rule: changes.induct) auto

text \<open>A thread whose value is out of date has been overtaken by a change that its retries do not count yet.\<close>

definition overtaken :: "'t \<Rightarrow> 't reservations \<Rightarrow> bool" where
  "overtaken t s \<longleftrightarrow> (\<exists>b v. threads s t = Trying b v \<and> v \<noteq> pool_reserved (pool s))"

lemma retries_bounded:
  assumes "atomic_run s ls s'" and "threads s t = Outside"
  shows "retries t ls + (if overtaken t s' then 1 else 0) \<le> changes ls"
  using assms
proof (induction rule: atomic_run.induct)
  case (start s)
  then show ?case by (simp add: overtaken_def)
next
  case (step s ls s' l s'')
  from step.hyps(2) step.IH [OF step.prems] show ?case
    by (cases rule: atomic_step.cases) (auto simp: retries_append changes_append overtaken_def split: if_splits)
qed

text \<open>
  C39. The loop makes progress. Under every interleaving a call retries, spurious failures apart, at most
  as often as the counter changed: a thread can only be kept in the loop by other threads that get their
  reservations or give them back. And a call whose exchange succeeds at its last try, or which is refused,
  has returned: the loop ends after as many turns as there were failures.
\<close>

theorem reserve_loop_progress:
  assumes "atomic_run s ls s'" and "threads s t = Outside"
  shows "retries t ls \<le> changes ls \<and>
    try_reserve_loop cap bytes v (map Some actuals @ [None]) \<noteq> None"
proof
  show "retries t ls \<le> changes ls" using retries_bounded [OF assms] by simp
  show "try_reserve_loop cap bytes v (map Some actuals @ [None]) \<noteq> None"
    by (induction actuals arbitrary: v) (auto split: result.splits)
qed

section \<open>A race\<close>

text \<open>Two threads ask for three bytes each of five: one gets them, the other retries and is refused.\<close>

lemma demo_race:
  obtains s where "atomic_run (no_reservations 5) [Load (0::nat) 3, Load 1 3, Acquire 0 3, Retry 1, Refuse 1] s"
    and "leases s = {#3#}"
proof -
  let ?s0 = "no_reservations 5 :: nat reservations"
  let ?s1 = "?s0\<lparr>threads := (threads ?s0)(0 := Trying 3 0)\<rparr>"
  let ?s2 = "?s1\<lparr>threads := (threads ?s1)(1 := Trying 3 0)\<rparr>"
  let ?s3 = "?s2\<lparr>pool := (pool ?s2)\<lparr>pool_reserved := 3\<rparr>, threads := (threads ?s2)(0 := Outside), leases := leases ?s2 + {#3#}\<rparr>"
  let ?s4 = "?s3\<lparr>threads := (threads ?s3)(1 := Trying 3 3)\<rparr>"
  let ?s5 = "?s4\<lparr>threads := (threads ?s4)(1 := Outside)\<rparr>"
  note demo = no_reservations_def ReceiveReservationPool_new_def reserve_turn_def checked_add_def
  have 1: "atomic_step ?s0 (Load 0 3) ?s1"
    using atomic_step.load [of ?s0 0 3] by (simp add: demo)
  have 2: "atomic_step ?s1 (Load 1 3) ?s2"
    using atomic_step.load [of ?s1 1 3] by (simp add: demo)
  have 3: "atomic_step ?s2 (Acquire 0 3) ?s3"
    using atomic_step.acquire [of ?s2 0 3 0 3] by (simp add: demo)
  have 4: "atomic_step ?s3 (Retry 1) ?s4"
    using atomic_step.retry [of ?s3 1 3 0 3] by (simp add: demo)
  have 5: "atomic_step ?s4 (Refuse 1) ?s5"
    using atomic_step.refuse [of ?s4 1 3 3 "CapacityExceeded 3 3 5"] by (simp add: demo)
  note run = atomic_run.step [OF atomic_run.step [OF atomic_run.step [OF atomic_run.step [OF atomic_run.step
    [OF atomic_run.start 1] 2] 3] 4] 5]
  show thesis using that run by (simp add: no_reservations_def)
qed

theorem reservations_within_capacity_witness:
  "\<exists>s. atomic_run (no_reservations 5) [Load (0::nat) 3, Load 1 3, Acquire 0 3, Retry 1, Refuse 1] s \<and>
     pool_reserved (pool s) = 3"
proof -
  obtain s where s: "atomic_run (no_reservations 5) [Load (0::nat) 3, Load 1 3, Acquire 0 3, Retry 1, Refuse 1] s" "leases s = {#3#}"
    by (rule demo_race)
  then have "unat (pool_reserved (pool s)) = unat (3 :: u64)"
    using reservations_within_capacity [OF s(1)] by simp
  then show ?thesis using s(1) by (auto simp: word_unat_eq_iff)
qed

theorem reserve_loop_progress_witness:
  "retries 1 [Load (0::nat) 3, Load 1 3, Acquire 0 3, Retry 1, Refuse 1] = 1 \<and>
   retries 1 [Load (0::nat) 3, Load 1 3, Acquire 0 3, Retry 1, Refuse 1] \<le>
     changes [Load (0::nat) 3, Load 1 3, Acquire 0 3, Retry 1, Refuse 1] \<and>
   try_reserve_loop 5 3 0 [Some 1, Some 2, None] = Some (Ok 5)"
proof -
  obtain s where s: "atomic_run (no_reservations 5) [Load (0::nat) 3, Load 1 3, Acquire 0 3, Retry 1, Refuse 1] s"
    using demo_race by blast
  have "try_reserve_loop 5 3 0 (map Some [1, 2] @ [None]) = Some (Ok 5)"
    by (simp add: reserve_turn_def checked_add_def)
  then show ?thesis
    using reserve_loop_progress [OF s, of 1 5 3 0 "[1, 2]"] by (simp add: no_reservations_def)
qed

end
