(* ===== verification/M1_Session.thy ===== *)
theory M1_Session
  imports Xenia_Prelude
begin

text \<open>
  The life of a session, \<open>crates/xenia-peer-core/src/m1_session.rs\<close>: a state machine which every
  privileged flow has to ask, with the tiers that the consent covers and an audit trail. A flow is allowed
  exactly while a grant that covers it is in force.
\<close>

datatype M1SessionState = Idle | Offered | Active | Denied | Revoked | Ended | Failed

datatype M1Permission =
    StreamFrame
  | StreamTelemetry
  | StreamAudio
  | InjectInput
  | ReadHostClipboard
  | WriteHostClipboard
  | SendFileToViewer
  | ReceiveFileFromViewer

record M1PermissionSet =
  stream_frame :: bool
  stream_telemetry :: bool
  stream_audio :: bool
  inject_input :: bool
  read_host_clipboard :: bool
  write_host_clipboard :: bool
  send_file_to_viewer :: bool
  receive_file_from_viewer :: bool

definition M1PermissionSet_default :: M1PermissionSet where
  "M1PermissionSet_default = \<lparr>stream_frame = False, stream_telemetry = False, stream_audio = False,
     inject_input = False, read_host_clipboard = False, write_host_clipboard = False,
     send_file_to_viewer = False, receive_file_from_viewer = False\<rparr>"

definition M1PermissionSet_all :: M1PermissionSet where
  "M1PermissionSet_all = \<lparr>stream_frame = True, stream_telemetry = True, stream_audio = True,
     inject_input = True, read_host_clipboard = True, write_host_clipboard = True,
     send_file_to_viewer = True, receive_file_from_viewer = True\<rparr>"

fun M1PermissionSet_contains :: "M1PermissionSet \<Rightarrow> M1Permission \<Rightarrow> bool" where
  "M1PermissionSet_contains s StreamFrame = stream_frame s"
| "M1PermissionSet_contains s StreamTelemetry = stream_telemetry s"
| "M1PermissionSet_contains s StreamAudio = stream_audio s"
| "M1PermissionSet_contains s InjectInput = inject_input s"
| "M1PermissionSet_contains s ReadHostClipboard = read_host_clipboard s"
| "M1PermissionSet_contains s WriteHostClipboard = write_host_clipboard s"
| "M1PermissionSet_contains s SendFileToViewer = send_file_to_viewer s"
| "M1PermissionSet_contains s ReceiveFileFromViewer = receive_file_from_viewer s"

datatype M1AuditEvent =
    SessionOffered
  | ConsentGranted
  | ConsentDenied
  | FrameStreamed
  | TelemetryStreamed
  | AudioStreamed
  | InputInjected
  | HostClipboardRead
  | HostClipboardWritten
  | FileSentToViewer
  | FileReceivedFromViewer
  | ConsentRevoked
  | SessionEnded
  | SessionFailed

datatype M1SessionError =
    InvalidTransition M1SessionState string
  | PermissionDenied M1SessionState M1Permission

record M1SessionMachine =
  m1_state :: M1SessionState
  m1_audit :: "M1AuditEvent list"
  m1_granted :: M1PermissionSet

definition M1SessionMachine_new :: M1SessionMachine where
  "M1SessionMachine_new = \<lparr>m1_state = Idle, m1_audit = [], m1_granted = M1PermissionSet_default\<rparr>"

section \<open>The transitions\<close>

type_synonym m1_result = "M1SessionMachine \<times> (unit, M1SessionError) result"

definition M1SessionMachine_transition ::
    "M1SessionState \<Rightarrow> M1SessionState \<Rightarrow> string \<Rightarrow> M1AuditEvent \<Rightarrow> M1SessionMachine \<Rightarrow> m1_result" where
  "M1SessionMachine_transition from to action ev m =
     (if m1_state m \<noteq> from then (m, Err (InvalidTransition (m1_state m) action))
      else (m\<lparr>m1_state := to, m1_audit := m1_audit m @ [ev]\<rparr>, Ok ()))"

definition M1SessionMachine_require_active :: "M1Permission \<Rightarrow> M1SessionMachine \<Rightarrow> (unit, M1SessionError) result" where
  "M1SessionMachine_require_active p m =
     (if m1_state m = Active \<and> M1PermissionSet_contains (m1_granted m) p then Ok ()
      else Err (PermissionDenied (m1_state m) p))"

definition M1SessionMachine_offer :: "M1SessionMachine \<Rightarrow> m1_result" where
  "M1SessionMachine_offer = M1SessionMachine_transition Idle Offered ''offer'' SessionOffered"

definition M1SessionMachine_grant_consent_scoped :: "M1PermissionSet \<Rightarrow> M1SessionMachine \<Rightarrow> m1_result" where
  "M1SessionMachine_grant_consent_scoped g m =
     (case M1SessionMachine_transition Offered Active ''grant_consent'' ConsentGranted m of
        (m', Err e) \<Rightarrow> (m', Err e)
      | (m', Ok _) \<Rightarrow> (m'\<lparr>m1_granted := g\<rparr>, Ok ()))"

definition M1SessionMachine_grant_consent :: "M1SessionMachine \<Rightarrow> m1_result" where
  "M1SessionMachine_grant_consent = M1SessionMachine_grant_consent_scoped M1PermissionSet_all"

definition M1SessionMachine_deny_consent :: "M1SessionMachine \<Rightarrow> m1_result" where
  "M1SessionMachine_deny_consent = M1SessionMachine_transition Offered Denied ''deny_consent'' ConsentDenied"

text \<open>The three ways out of a session also clear what was granted.\<close>

definition M1SessionMachine_revoke :: "M1SessionMachine \<Rightarrow> m1_result" where
  "M1SessionMachine_revoke m =
     (if m1_state m \<in> {Offered, Active}
      then (m\<lparr>m1_state := Revoked, m1_granted := M1PermissionSet_default,
        m1_audit := m1_audit m @ [ConsentRevoked]\<rparr>, Ok ())
      else (m, Err (InvalidTransition (m1_state m) ''revoke'')))"

definition M1SessionMachine_end :: "M1SessionMachine \<Rightarrow> m1_result" where
  "M1SessionMachine_end m =
     (if m1_state m \<in> {Idle, Offered, Active, Revoked}
      then (m\<lparr>m1_state := Ended, m1_granted := M1PermissionSet_default,
        m1_audit := m1_audit m @ [SessionEnded]\<rparr>, Ok ())
      else (m, Err (InvalidTransition (m1_state m) ''end'')))"

definition M1SessionMachine_fail :: "M1SessionMachine \<Rightarrow> m1_result" where
  "M1SessionMachine_fail m =
     (if m1_state m \<in> {Denied, Ended, Failed}
      then (m, Err (InvalidTransition (m1_state m) ''fail''))
      else (m\<lparr>m1_state := Failed, m1_granted := M1PermissionSet_default,
        m1_audit := m1_audit m @ [SessionFailed]\<rparr>, Ok ()))"

text \<open>
  The eight flows: \<open>stream_frame\<close> to \<open>receive_file_from_viewer\<close> ask for their permission and record their
  event.
\<close>

fun flow_event :: "M1Permission \<Rightarrow> M1AuditEvent" where
  "flow_event StreamFrame = FrameStreamed"
| "flow_event StreamTelemetry = TelemetryStreamed"
| "flow_event StreamAudio = AudioStreamed"
| "flow_event InjectInput = InputInjected"
| "flow_event ReadHostClipboard = HostClipboardRead"
| "flow_event WriteHostClipboard = HostClipboardWritten"
| "flow_event SendFileToViewer = FileSentToViewer"
| "flow_event ReceiveFileFromViewer = FileReceivedFromViewer"

definition M1SessionMachine_flow :: "M1Permission \<Rightarrow> M1SessionMachine \<Rightarrow> m1_result" where
  "M1SessionMachine_flow p m =
     (case M1SessionMachine_require_active p m of
        Err e \<Rightarrow> (m, Err e)
      | Ok _ \<Rightarrow> (m\<lparr>m1_audit := m1_audit m @ [flow_event p]\<rparr>, Ok ()))"

section \<open>Sequences of operations\<close>

datatype m1_op = Offer | Grant M1PermissionSet | Deny | Revoke | End | Fail | Flow M1Permission

fun m1_apply :: "m1_op \<Rightarrow> M1SessionMachine \<Rightarrow> m1_result" where
  "m1_apply Offer m = M1SessionMachine_offer m"
| "m1_apply (Grant g) m = M1SessionMachine_grant_consent_scoped g m"
| "m1_apply Deny m = M1SessionMachine_deny_consent m"
| "m1_apply Revoke m = M1SessionMachine_revoke m"
| "m1_apply End m = M1SessionMachine_end m"
| "m1_apply Fail m = M1SessionMachine_fail m"
| "m1_apply (Flow p) m = M1SessionMachine_flow p m"

text \<open>The machine after a sequence of calls, and the calls with whether they succeeded.\<close>

definition m1_after :: "m1_op list \<Rightarrow> M1SessionMachine" where
  "m1_after ops = fold (\<lambda>op m. fst (m1_apply op m)) ops M1SessionMachine_new"

definition m1_history :: "m1_op list \<Rightarrow> (m1_op \<times> bool) list" where
  "m1_history ops = map (\<lambda>i. (ops ! i, is_ok (snd (m1_apply (ops ! i) (m1_after (take i ops)))))) [0..<length ops]"

lemmas m1_defs = M1SessionMachine_transition_def M1SessionMachine_require_active_def M1SessionMachine_offer_def
  M1SessionMachine_grant_consent_scoped_def M1SessionMachine_deny_consent_def M1SessionMachine_revoke_def
  M1SessionMachine_end_def M1SessionMachine_fail_def M1SessionMachine_flow_def

lemma m1_after_snoc: "m1_after (ops @ [op]) = fst (m1_apply op (m1_after ops))"
  by (simp add: m1_after_def)

lemma m1_history_snoc: "m1_history (ops @ [op]) = m1_history ops @ [(op, is_ok (snd (m1_apply op (m1_after ops))))]"
  by (auto simp: m1_history_def nth_append)

text \<open>The grant in force: the last successful call that was not a flow was that grant.\<close>

definition grant_in_force :: "(m1_op \<times> bool) list \<Rightarrow> M1PermissionSet \<Rightarrow> bool" where
  "grant_in_force h g \<longleftrightarrow> (\<exists>h1 h2. h = h1 @ (Grant g, True) # h2 \<and> (\<forall>(op, ok) \<in> set h2. ok \<longrightarrow> (\<exists>p. op = Flow p)))"

lemma grant_in_force_Nil [simp]: "\<not> grant_in_force [] g"
  by (simp add: grant_in_force_def)

lemma grant_in_force_snoc:
  "grant_in_force (h @ [(op, ok)]) g \<longleftrightarrow>
     op = Grant g \<and> ok \<or> grant_in_force h g \<and> (ok \<longrightarrow> (\<exists>p. op = Flow p))"
proof
  assume "grant_in_force (h @ [(op, ok)]) g"
  then obtain h1 h2 where h: "h @ [(op, ok)] = h1 @ (Grant g, True) # h2"
    and h2: "\<forall>(op, ok) \<in> set h2. ok \<longrightarrow> (\<exists>p. op = Flow p)"
    by (auto simp: grant_in_force_def)
  show "op = Grant g \<and> ok \<or> grant_in_force h g \<and> (ok \<longrightarrow> (\<exists>p. op = Flow p))"
  proof (cases h2 rule: rev_cases)
    case (snoc h3 x)
    then have "h = h1 @ (Grant g, True) # h3" "x = (op, ok)" using h by auto
    then show ?thesis using h2 snoc by (auto simp: grant_in_force_def)
  qed (use h in auto)
next
  assume r: "op = Grant g \<and> ok \<or> grant_in_force h g \<and> (ok \<longrightarrow> (\<exists>p. op = Flow p))"
  then show "grant_in_force (h @ [(op, ok)]) g"
  proof
    assume "op = Grant g \<and> ok"
    then show ?thesis unfolding grant_in_force_def by (intro exI [of _ h] exI [of _ "[]"]) simp
  next
    assume l: "grant_in_force h g \<and> (ok \<longrightarrow> (\<exists>p. op = Flow p))"
    then obtain h1 h2 where h: "h = h1 @ (Grant g, True) # h2" "\<forall>(op, ok) \<in> set h2. ok \<longrightarrow> (\<exists>p. op = Flow p)"
      by (auto simp: grant_in_force_def)
    have "\<forall>(op, ok) \<in> set (h2 @ [(op, ok)]). ok \<longrightarrow> (\<exists>p. op = Flow p)" using h(2) l by simp
    then show ?thesis unfolding grant_in_force_def
      by (intro exI [of _ h1] exI [of _ "h2 @ [(op, ok)]"]) (simp add: h(1))
  qed
qed

lemma m1_active_iff: "m1_state (m1_after ops) = Active \<and> m1_granted (m1_after ops) = g \<longleftrightarrow> grant_in_force (m1_history ops) g"
proof (induction ops rule: rev_induct)
  case Nil
  then show ?case by (simp add: m1_after_def m1_history_def M1SessionMachine_new_def)
next
  case (snoc op ops)
  let ?m = "m1_after ops"
  have "m1_state (fst (m1_apply op ?m)) = Active \<and> m1_granted (fst (m1_apply op ?m)) = g \<longleftrightarrow>
      op = Grant g \<and> is_ok (snd (m1_apply op ?m)) \<or>
      (m1_state ?m = Active \<and> m1_granted ?m = g) \<and> (is_ok (snd (m1_apply op ?m)) \<longrightarrow> (\<exists>p. op = Flow p))"
    by (cases op; cases "m1_state ?m") (auto simp: m1_defs)
  then show ?case by (simp add: m1_after_snoc m1_history_snoc grant_in_force_snoc snoc.IH)
qed

text \<open>
  C14. No privileged flow without a live grant. After any sequence of calls on a session, a flow is allowed
  if and only if some grant of consent that covers its permission succeeded and since then only flows
  have: not before the consent, not after it was revoked or the session ended or failed, and no tier that
  the consent left out. What was refused is what \<open>require_active\<close> says, and changes nothing.
\<close>

theorem flow_iff_grant_in_force:
  "(is_ok (snd (M1SessionMachine_flow p (m1_after ops))) \<longleftrightarrow>
     (\<exists>g. grant_in_force (m1_history ops) g \<and> M1PermissionSet_contains g p)) \<and>
   (\<not> is_ok (snd (M1SessionMachine_flow p (m1_after ops))) \<longrightarrow>
     M1SessionMachine_flow p (m1_after ops) = (m1_after ops, Err (PermissionDenied (m1_state (m1_after ops)) p)))"
  unfolding m1_active_iff [symmetric] by (auto simp: m1_defs split: if_splits)

theorem flow_iff_grant_in_force_witness:
  "\<not> is_ok (snd (M1SessionMachine_flow InjectInput
     (m1_after [Offer, Grant (M1PermissionSet_default\<lparr>stream_frame := True\<rparr>), Flow StreamFrame]))) \<and>
   M1SessionMachine_flow InjectInput (m1_after [Offer, Grant (M1PermissionSet_default\<lparr>stream_frame := True\<rparr>), Flow StreamFrame]) =
     (m1_after [Offer, Grant (M1PermissionSet_default\<lparr>stream_frame := True\<rparr>), Flow StreamFrame],
      Err (PermissionDenied Active InjectInput))"
  using flow_iff_grant_in_force [of InjectInput "[Offer, Grant (M1PermissionSet_default\<lparr>stream_frame := True\<rparr>), Flow StreamFrame]"]
  by (simp add: m1_after_def m1_defs M1SessionMachine_new_def M1PermissionSet_default_def)

end
