(* ===== verification/M1_Runtime.thy ===== *)
theory M1_Runtime
  imports M1_Session Ledger_Evidence
begin

text \<open>
  The session with its ledger, \<open>M1RuntimeSession\<close> of \<open>apps/xenia-peer/src/m1_runtime.rs\<close> and the adapter
  \<open>apps/xenia-peer/src/m1_ledger.rs\<close>: every operation runs on the session machine of \<open>M1_Session\<close> and then
  appends the consent events that it caused to the signed chain. The ledger mirrors the session, its
  evidence verifies, and replaying it restores the state.
\<close>

section \<open>From audit events to consent records\<close>

datatype M1LedgerSkipReason = NotConsentBoundary | NormalTerminalEvent

datatype M1LedgerDisposition = Record ConsentKind | Skip M1LedgerSkipReason

fun disposition_for_m1_event :: "M1AuditEvent \<Rightarrow> M1LedgerDisposition" where
  "disposition_for_m1_event SessionOffered = Record Request"
| "disposition_for_m1_event ConsentGranted = Record Approval"
| "disposition_for_m1_event ConsentDenied = Record Denial"
| "disposition_for_m1_event ConsentRevoked = Record Revocation"
| "disposition_for_m1_event SessionFailed = Record Violation"
| "disposition_for_m1_event SessionEnded = Skip NormalTerminalEvent"
| "disposition_for_m1_event _ = Skip NotConsentBoundary"

definition consent_record_for_m1_event ::
    "u8_32 \<Rightarrow> Uuid \<Rightarrow> Uuid \<Rightarrow> string \<Rightarrow> M1AuditEvent \<Rightarrow> ConsentEventRecord option" where
  "consent_record_for_m1_event src sid rid sc ev =
     (case disposition_for_m1_event ev of
        Record k \<Rightarrow> Some \<lparr>ConsentEventRecord.source_id = src, session_id = sid, request_id = rid, kind = k, scope = sc\<rparr>
      | Skip _ \<Rightarrow> None)"

section \<open>The runtime session\<close>

datatype (plugins only:) M1RuntimeError =
    Session M1SessionError
  | Ledger LedgerError
  | VerifyFailed VerifyError
  | EvidenceBundle EvidenceBundleVerifyError
  | MissingTranscriptBinding
  | FullPqcRuntimeUnavailable string string
  | UnsupportedEvidenceExportProfile string
  | EvidenceManifest string
  | TrustedKeyFingerprintMismatch string u8_32 u8_32
  | PersistIo string
  | PersistCodec string
  | PersistJson string

record 'sk M1RuntimeSession =
  rt_session :: M1SessionMachine
  rt_chain :: "'sk Chain"
  rt_source_id :: u8_32
  rt_session_id :: Uuid
  rt_request_id :: Uuid
  rt_scope :: string
  session_transcript_hash :: "u8_32 option"
  next_audit_index :: nat

definition M1RuntimeSession_from_chain ::
    "'sk Chain \<Rightarrow> u8_32 \<Rightarrow> Uuid \<Rightarrow> Uuid \<Rightarrow> string \<Rightarrow> 'sk M1RuntimeSession" where
  "M1RuntimeSession_from_chain ch src sid rid sc = \<lparr>rt_session = M1SessionMachine_new, rt_chain = ch,
     rt_source_id = src, rt_session_id = sid, rt_request_id = rid, rt_scope = sc,
     session_transcript_hash = None, next_audit_index = 0\<rparr>"

definition M1RuntimeSession_new :: "'sk \<Rightarrow> u8_32 \<Rightarrow> Uuid \<Rightarrow> Uuid \<Rightarrow> string \<Rightarrow> 'sk M1RuntimeSession" where
  "M1RuntimeSession_new sk = M1RuntimeSession_from_chain (Chain_new sk)"

text \<open>
  Appending the new events. \<open>clock n\<close> is the time at which the chain gets its entry number \<open>n\<close>. A failing
  append leaves the loop with what was appended before it, and the index where it was.
\<close>

fun flush_events ::
    "('sk, 'vk, 'ml) crypto \<Rightarrow> (nat \<Rightarrow> SystemTime) \<Rightarrow> M1AuditEvent list \<Rightarrow> 'sk M1RuntimeSession \<Rightarrow>
     'sk M1RuntimeSession \<times> (unit, M1RuntimeError) result" where
  "flush_events c clock [] rt = (rt, Ok ())"
| "flush_events c clock (ev # evs) rt =
     (case consent_record_for_m1_event (rt_source_id rt) (rt_session_id rt) (rt_request_id rt) (rt_scope rt) ev of
        None \<Rightarrow> flush_events c clock evs rt
      | Some r \<Rightarrow>
          (case Chain_append c (clock (length (Chain.entries (rt_chain rt)))) r (rt_chain rt) of
             (ch, Err e) \<Rightarrow> (rt\<lparr>rt_chain := ch\<rparr>, Err (Ledger e))
           | (ch, Ok _) \<Rightarrow> flush_events c clock evs (rt\<lparr>rt_chain := ch\<rparr>)))"

definition M1RuntimeSession_flush_new_audit_events ::
    "('sk, 'vk, 'ml) crypto \<Rightarrow> (nat \<Rightarrow> SystemTime) \<Rightarrow> 'sk M1RuntimeSession \<Rightarrow>
     'sk M1RuntimeSession \<times> (unit, M1RuntimeError) result" where
  "M1RuntimeSession_flush_new_audit_events c clock rt =
     (case flush_events c clock (drop (next_audit_index rt) (m1_audit (rt_session rt))) rt of
        (rt', Err e) \<Rightarrow> (rt', Err e)
      | (rt', Ok _) \<Rightarrow> (rt'\<lparr>next_audit_index := length (m1_audit (rt_session rt'))\<rparr>, Ok ()))"

text \<open>\<open>offer\<close> to \<open>fail\<close> and the eight flows with their \<open>allow_\<close> names: the call on the machine, then the flush.\<close>

definition M1RuntimeSession_apply ::
    "('sk, 'vk, 'ml) crypto \<Rightarrow> (nat \<Rightarrow> SystemTime) \<Rightarrow> m1_op \<Rightarrow> 'sk M1RuntimeSession \<Rightarrow>
     'sk M1RuntimeSession \<times> (unit, M1RuntimeError) result" where
  "M1RuntimeSession_apply c clock op rt =
     (case m1_apply op (rt_session rt) of
        (m, Err e) \<Rightarrow> (rt\<lparr>rt_session := m\<rparr>, Err (Session e))
      | (m, Ok _) \<Rightarrow> M1RuntimeSession_flush_new_audit_events c clock (rt\<lparr>rt_session := m\<rparr>))"

definition M1RuntimeSession_preflight_frame_flow :: "'sk M1RuntimeSession \<Rightarrow> (unit, M1RuntimeError) result" where
  "M1RuntimeSession_preflight_frame_flow rt =
     (if m1_state (rt_session rt) = Active then Ok ()
      else Err (Session (PermissionDenied (m1_state (rt_session rt)) StreamFrame)))"

section \<open>Replay\<close>

fun replay_kind :: "ConsentKind \<Rightarrow> M1SessionMachine \<Rightarrow> m1_result" where
  "replay_kind Request m = M1SessionMachine_offer m"
| "replay_kind Approval m = M1SessionMachine_grant_consent m"
| "replay_kind Denial m = M1SessionMachine_deny_consent m"
| "replay_kind Revocation m = M1SessionMachine_revoke m"
| "replay_kind Violation m = M1SessionMachine_fail m"
| "replay_kind AthenaTriage m = (m, Ok ())"

fun replay_kinds :: "ConsentKind list \<Rightarrow> M1SessionMachine \<Rightarrow> m1_result" where
  "replay_kinds [] m = (m, Ok ())"
| "replay_kinds (k # ks) m =
     (case replay_kind k m of (m', Err e) \<Rightarrow> (m', Err e) | (m', Ok _) \<Rightarrow> replay_kinds ks m')"

definition M1RuntimeSession_replay_persisted_consent_state ::
    "'sk M1RuntimeSession \<Rightarrow> 'sk M1RuntimeSession \<times> (unit, M1RuntimeError) result" where
  "M1RuntimeSession_replay_persisted_consent_state rt =
     (case replay_kinds (map (\<lambda>e. ConsentEventRecord.kind (LedgerEntry.event e)) (Chain.entries (rt_chain rt))) (rt_session rt) of
        (m, Err e) \<Rightarrow> (rt\<lparr>rt_session := m\<rparr>, Err (Session e))
      | (m, Ok _) \<Rightarrow> (rt\<lparr>rt_session := m, next_audit_index := length (m1_audit m)\<rparr>, Ok ()))"

definition M1RuntimeSession_from_persisted_entries ::
    "'sk \<Rightarrow> LedgerEntry list \<Rightarrow> u8_32 \<Rightarrow> Uuid \<Rightarrow> Uuid \<Rightarrow> string \<Rightarrow> ('sk M1RuntimeSession, M1RuntimeError) result" where
  "M1RuntimeSession_from_persisted_entries sk es src sid rid sc =
     (case M1RuntimeSession_replay_persisted_consent_state
         (M1RuntimeSession_from_chain (Chain_from_entries es sk) src sid rid sc) of
        (rt, Err e) \<Rightarrow> Err e
      | (rt, Ok _) \<Rightarrow> Ok rt)"

section \<open>The evidence of the session\<close>

definition M1RuntimeSession_bind_session_transcript_hash :: "u8_32 \<Rightarrow> 'sk M1RuntimeSession \<Rightarrow> 'sk M1RuntimeSession" where
  "M1RuntimeSession_bind_session_transcript_hash h rt = rt\<lparr>session_transcript_hash := Some h\<rparr>"

definition M1RuntimeSession_session_transcript_binding :: "'sk M1RuntimeSession \<Rightarrow> SessionTranscriptBinding option" where
  "M1RuntimeSession_session_transcript_binding rt =
     map_option (\<lambda>h. SessionTranscriptBinding_from_hash (rt_session_id rt) h
       (EvidenceCryptoManifest.transcript_signature CURRENT_EVIDENCE_CRYPTO_MANIFEST)) (session_transcript_hash rt)"

definition M1RuntimeSession_verify_transcript_bound_export ::
    "('sk, 'vk, 'ml) crypto \<Rightarrow> 'vk \<Rightarrow> 'sk M1RuntimeSession \<Rightarrow> (unit, M1RuntimeError) result" where
  "M1RuntimeSession_verify_transcript_bound_export c pk rt =
     (case M1RuntimeSession_session_transcript_binding rt of
        None \<Rightarrow> Err MissingTranscriptBinding
      | Some tb \<Rightarrow> map_err EvidenceBundle (Verifier_verify_transcript_bound_evidence_bundle c
          CURRENT_EVIDENCE_CRYPTO_MANIFEST tb (Chain_export_entries (rt_chain rt)) pk))"

definition M1RuntimeSession_verify ::
    "('sk, 'vk, 'ml) crypto \<Rightarrow> 'vk \<Rightarrow> 'sk M1RuntimeSession \<Rightarrow> (unit, M1RuntimeError) result" where
  "M1RuntimeSession_verify c pk rt = map_err VerifyFailed (Verifier_verify_chain c (Chain.entries (rt_chain rt)) pk)"

section \<open>The ledger mirrors the session\<close>

definition runtime_after ::
    "('sk, 'vk, 'ml) crypto \<Rightarrow> (nat \<Rightarrow> SystemTime) \<Rightarrow> m1_op list \<Rightarrow> 'sk M1RuntimeSession \<Rightarrow> 'sk M1RuntimeSession" where
  "runtime_after c clock ops rt = fold (\<lambda>op rt. fst (M1RuntimeSession_apply c clock op rt)) ops rt"

definition consent_records :: "u8_32 \<Rightarrow> Uuid \<Rightarrow> Uuid \<Rightarrow> string \<Rightarrow> M1AuditEvent list \<Rightarrow> ConsentEventRecord list" where
  "consent_records src sid rid sc evs = List.map_filter (consent_record_for_m1_event src sid rid sc) evs"

lemma runtime_after_snoc:
  "runtime_after c clock (ops @ [op]) rt = fst (M1RuntimeSession_apply c clock op (runtime_after c clock ops rt))"
  by (simp add: runtime_after_def)

lemma m1_apply_shape:
  "m1_apply op m = (m', Ok u) \<Longrightarrow> \<exists>ev. m1_audit m' = m1_audit m @ [ev]"
  "m1_apply op m = (m', Err e) \<Longrightarrow> m' = m"
  by (cases op; cases "m1_state m"; auto simp: m1_defs split: if_splits)+

text \<open>The runtime after some calls: its machine is the bare machine, and every boundary event is in the chain.\<close>

definition mirrors ::
    "('sk, 'vk, 'ml) crypto \<Rightarrow> 'sk \<Rightarrow> u8_32 \<Rightarrow> Uuid \<Rightarrow> Uuid \<Rightarrow> string \<Rightarrow> m1_op list \<Rightarrow> 'sk M1RuntimeSession \<Rightarrow> bool" where
  "mirrors c sk src sid rid sc ops rt \<longleftrightarrow>
     rt_session rt = m1_after ops \<and> next_audit_index rt = length (m1_audit (m1_after ops)) \<and>
     rt_source_id rt = src \<and> rt_session_id rt = sid \<and> rt_request_id rt = rid \<and> rt_scope rt = sc \<and>
     session_transcript_hash rt = None \<and>
     map LedgerEntry.event (Chain.entries (rt_chain rt)) = consent_records src sid rid sc (m1_audit (m1_after ops)) \<and>
     Chain_ok c (rt_chain rt) \<and> Chain.base_checkpoint (rt_chain rt) = None \<and> Chain.signing_key (rt_chain rt) = sk"

lemma audit_length: "length (m1_audit (m1_after ops)) \<le> length ops"
proof (induction ops rule: rev_induct)
  case Nil
  show ?case by (simp add: m1_after_def M1SessionMachine_new_def)
next
  case (snoc op ops)
  obtain m' r where 1: "m1_apply op (m1_after ops) = (m', r)" by fastforce
  then show ?case
    using m1_apply_shape [of op "m1_after ops" m'] snoc by (cases r) (fastforce simp: m1_after_snoc)+
qed

lemma mirrors_snoc:
  assumes "ed25519_correct c" and ser: "\<And>p. \<exists>b. bincode_serialize c p = Ok b" and "length ops < 2 ^ 63"
    and mir: "mirrors c sk src sid rid sc ops rt"
  shows "mirrors c sk src sid rid sc (ops @ [op]) (fst (M1RuntimeSession_apply c clock op rt)) \<and>
    is_ok (snd (M1RuntimeSession_apply c clock op rt)) = is_ok (snd (m1_apply op (m1_after ops)))"
proof -
  obtain m' r where 1: "m1_apply op (m1_after ops) = (m', r)" by fastforce
  have after: "m1_after (ops @ [op]) = m'" by (simp add: m1_after_snoc 1)
  show ?thesis
  proof (cases r)
    case (Err e)
    then have "m' = m1_after ops" using m1_apply_shape(2) 1 by blast
    then show ?thesis using mir 1 Err after by (simp add: mirrors_def M1RuntimeSession_apply_def)
  next
    case (Ok u)
    obtain ev where ev: "m1_audit m' = m1_audit (m1_after ops) @ [ev]" using m1_apply_shape(1) 1 Ok by blast
    have len: "length (Chain.entries (rt_chain rt)) < 2 ^ 63"
    proof -
      have "length (Chain.entries (rt_chain rt)) = length (consent_records src sid rid sc (m1_audit (m1_after ops)))"
        using mir by (metis length_map mirrors_def)
      also have "\<dots> \<le> length (m1_audit (m1_after ops))" by (simp add: consent_records_def List.map_filter_def)
      finally show ?thesis using audit_length [of ops] assms(3) by linarith
    qed
    have base: "unat (base_entry_count (rt_chain rt)) = 0"
      using mir by (auto simp: mirrors_def Chain_ok_def anchored_def)
    show ?thesis
    proof (cases "consent_record_for_m1_event src sid rid sc ev")
      case None
      then show ?thesis using mir 1 Ok ev after
        by (simp add: mirrors_def M1RuntimeSession_apply_def M1RuntimeSession_flush_new_audit_events_def
            consent_records_def List.map_filter_simps List.map_filter_def)
    next
      case (Some rec)
      let ?now = "clock (length (Chain.entries (rt_chain rt)))"
      obtain e where e: "Chain_append c ?now rec (rt_chain rt) = ((rt_chain rt)\<lparr>Chain.entries := Chain.entries (rt_chain rt) @ [e]\<rparr>, Ok e)"
          "LedgerEntry.event e = rec"
        using append_serialized [OF ser, of "rt_chain rt" ?now rec] base len by auto
      have "Chain_ok c ((rt_chain rt)\<lparr>Chain.entries := Chain.entries (rt_chain rt) @ [e]\<rparr>)"
        using Chain_append_ok [OF assms(1), of "rt_chain rt" ?now rec] mir e(1) len by (simp add: mirrors_def vec_fits_def)
      then show ?thesis using mir 1 Ok ev after Some e
        by (simp add: mirrors_def M1RuntimeSession_apply_def M1RuntimeSession_flush_new_audit_events_def
            consent_records_def List.map_filter_def)
    qed
  qed
qed

lemma runtime_mirrors:
  assumes "ed25519_correct c" and "\<And>p. \<exists>b. bincode_serialize c p = Ok b" and "length ops \<le> 2 ^ 63"
  shows "mirrors c sk src sid rid sc ops (runtime_after c clock ops (M1RuntimeSession_new sk src sid rid sc))"
  using assms(3)
proof (induction ops rule: rev_induct)
  case Nil
  show ?case
    by (simp add: mirrors_def runtime_after_def M1RuntimeSession_new_def M1RuntimeSession_from_chain_def m1_after_def
        M1SessionMachine_new_def consent_records_def List.map_filter_def Chain_ok_new)
      (simp add: Chain_new_def)
next
  case (snoc op ops)
  then show ?case
    using mirrors_snoc [OF assms(1,2), of ops sk src sid rid sc _ op clock]
    by (simp add: runtime_after_snoc)
qed

lemma consent_records_session:
  "r \<in> set (consent_records src sid rid sc evs) \<Longrightarrow> ConsentEventRecord.session_id r = sid"
  by (auto simp: consent_records_def List.map_filter_def consent_record_for_m1_event_def split: M1LedgerDisposition.splits)

text \<open>
  C15. The ledger is the record of the session. After any sequence of calls on a new session, in any order
  and with any of them refused, the runtime's machine is in the state the calls put a bare machine in, the
  events of its chain are exactly the consent events of the audit trail in order, the chain verifies under
  the session's key, and when the chain is not empty and a transcript hash other than zero is bound, the
  exported evidence passes its verifier.
\<close>

theorem ledger_mirrors_session:
  fixes c :: "('sk, 'vk, 'ml) crypto" and sk :: 'sk and clock src sid rid sc
  assumes "ed25519_correct c" and "ed25519_key_codec c" and "\<And>p. \<exists>b. bincode_serialize c p = Ok b"
    and "length ops \<le> 2 ^ 63" and "h \<noteq> zeroed"
  defines "rt \<equiv> runtime_after c clock ops (M1RuntimeSession_new sk src sid rid sc)"
  shows "rt_session rt = m1_after ops \<and>
    map LedgerEntry.event (Chain.entries (rt_chain rt)) = consent_records src sid rid sc (m1_audit (m1_after ops)) \<and>
    M1RuntimeSession_verify c (ed_verifying_key c sk) rt = Ok () \<and>
    (Chain.entries (rt_chain rt) \<noteq> [] \<longrightarrow> M1RuntimeSession_verify_transcript_bound_export c (ed_verifying_key c sk)
      (M1RuntimeSession_bind_session_transcript_hash h rt) = Ok ())"
proof -
  have m: "mirrors c sk src sid rid sc ops rt" unfolding rt_def by (rule runtime_mirrors [OF assms(1,3,4)])
  have v: "Verifier_verify_chain c (Chain.entries (rt_chain rt)) (ed_verifying_key c sk) = Ok ()"
    using m Chain_ok_verifies [of c "rt_chain rt"] by (simp add: mirrors_def Chain_into_entries_def)
  let ?tb = "SessionTranscriptBinding_from_hash sid h Ed25519Rfc8032"
  have "SessionTranscriptBinding_validate_against_manifest ?tb CURRENT_EVIDENCE_CRYPTO_MANIFEST = Ok ()"
    using assms(5) current_manifest_valid by (simp add: transcript_binding_validate_eq_Ok SessionTranscriptBinding_from_hash_def)
  moreover have "check_entry_sessions ?tb (map LedgerEntry_to_export_entry (Chain.entries (rt_chain rt))) = Ok ()"
  proof -
    have "ConsentEventRecord.session_id (LedgerEntry.event e) = sid" if "e \<in> set (Chain.entries (rt_chain rt))" for e
      using consent_records_session [of "LedgerEntry.event e" src sid rid sc "m1_audit (m1_after ops)"] m that
      by (metis (no_types, lifting) image_eqI list.set_map mirrors_def)
    then show ?thesis by (simp add: check_entry_sessions_eq_Ok SessionTranscriptBinding_from_hash_def)
  qed
  moreover have "Verifier_verify_evidence_bundle_with_backend c CURRENT_EVIDENCE_CRYPTO_MANIFEST
      (map LedgerEntry_to_export_entry (Chain.entries (rt_chain rt))) (slice (ed_key_to_bytes c (ed_verifying_key c sk)))
      (Ed25519EvidenceSignatureBackend c) = Ok ()"
    using exported_chain_accepted [OF v assms(2)]
    by (simp add: evidence_bundle_with_backend_eq_Ok current_manifest_valid Ed25519EvidenceSignatureBackend_def)
  ultimately have "Chain.entries (rt_chain rt) \<noteq> [] \<longrightarrow> M1RuntimeSession_verify_transcript_bound_export c (ed_verifying_key c sk)
      (M1RuntimeSession_bind_session_transcript_hash h rt) = Ok ()"
    using m by (simp add: mirrors_def M1RuntimeSession_verify_transcript_bound_export_def
        M1RuntimeSession_session_transcript_binding_def M1RuntimeSession_bind_session_transcript_hash_def
        Verifier_verify_transcript_bound_evidence_bundle_def transcript_bound_with_backend_eq_Ok Chain_export_entries_def
        CURRENT_EVIDENCE_CRYPTO_MANIFEST_def)
  then show ?thesis using m v by (simp add: mirrors_def M1RuntimeSession_verify_def)
qed

section \<open>Replaying the ledger\<close>

lemma replay_kinds_snoc:
  "replay_kinds (ks @ [k]) m = (case replay_kinds ks m of (m', Err e) \<Rightarrow> (m', Err e) | (m', Ok _) \<Rightarrow> replay_kind k m')"
  by (induction ks arbitrary: m) (auto split: prod.splits result.splits)

lemma consent_records_snoc:
  "map ConsentEventRecord.kind (consent_records src sid rid sc (evs @ [ev])) =
     map ConsentEventRecord.kind (consent_records src sid rid sc evs) @
       (case disposition_for_m1_event ev of Record k \<Rightarrow> [k] | Skip _ \<Rightarrow> [])"
  by (auto simp: consent_records_def List.map_filter_def consent_record_for_m1_event_def split: M1LedgerDisposition.splits)

lemma flow_skipped [simp]: "disposition_for_m1_event (flow_event p) = Skip NotConsentBoundary"
  by (cases p) simp_all

lemma replay_audit:
  "\<exists>m. replay_kinds (map ConsentEventRecord.kind (consent_records src sid rid sc (m1_audit (m1_after ops)))) M1SessionMachine_new = (m, Ok ()) \<and>
     (m1_state (m1_after ops) \<noteq> Ended \<longrightarrow> m1_state m = m1_state (m1_after ops))"
proof (induction ops rule: rev_induct)
  case Nil
  show ?case by (simp add: m1_after_def M1SessionMachine_new_def consent_records_def List.map_filter_def)
next
  case (snoc op ops)
  let ?m = "m1_after ops"
  obtain m where m: "replay_kinds (map ConsentEventRecord.kind (consent_records src sid rid sc (m1_audit ?m))) M1SessionMachine_new = (m, Ok ())"
    and st: "m1_state ?m \<noteq> Ended \<longrightarrow> m1_state m = m1_state ?m"
    using snoc.IH by blast
  show ?case
    unfolding m1_after_snoc using m st
    by (cases op; cases "m1_state ?m")
      (auto simp: m1_defs consent_records_snoc replay_kinds_snoc M1SessionMachine_grant_consent_def)
qed

text \<open>
  C37. A session can be taken up from its ledger. The entries of a session, after any sequence of calls,
  replay without an error, on the same chain, and to the same state unless the session had ended normally;
  the next entry is then linked to the last one, as if the session had gone on.
\<close>

theorem replay_restores_session:
  fixes c :: "('sk, 'vk, 'ml) crypto" and sk :: 'sk and clock src sid rid sc
  assumes "ed25519_correct c" and "\<And>p. \<exists>b. bincode_serialize c p = Ok b" and "length ops \<le> 2 ^ 63"
  defines "rt \<equiv> runtime_after c clock ops (M1RuntimeSession_new sk src sid rid sc)"
  shows "\<exists>rt'. M1RuntimeSession_from_persisted_entries sk (Chain.entries (rt_chain rt)) src sid rid sc = Ok rt' \<and>
    rt_chain rt' = rt_chain rt \<and>
    next_audit_index rt' = length (m1_audit (rt_session rt')) \<and>
    (m1_state (rt_session rt) \<noteq> Ended \<longrightarrow> m1_state (rt_session rt') = m1_state (rt_session rt))"
proof -
  have m: "mirrors c sk src sid rid sc ops rt" unfolding rt_def by (rule runtime_mirrors [OF assms(1-3)])
  obtain m' where m': "replay_kinds (map ConsentEventRecord.kind (consent_records src sid rid sc (m1_audit (m1_after ops))))
      M1SessionMachine_new = (m', Ok ())"
    and st: "m1_state (m1_after ops) \<noteq> Ended \<longrightarrow> m1_state m' = m1_state (m1_after ops)"
    using replay_audit [of src sid rid sc ops] by blast
  have kinds: "map (\<lambda>e. ConsentEventRecord.kind (LedgerEntry.event e)) (Chain.entries (rt_chain rt)) =
      map ConsentEventRecord.kind (consent_records src sid rid sc (m1_audit (m1_after ops)))"
    using m by (simp add: mirrors_def flip: map_map [unfolded comp_def])
  have chain: "Chain_from_entries (Chain.entries (rt_chain rt)) sk = rt_chain rt"
    using m by (cases "rt_chain rt") (auto simp: mirrors_def Chain_ok_def anchored_def Chain_from_entries_def)
  show ?thesis
    using m m' st
    by (simp add: M1RuntimeSession_from_persisted_entries_def M1RuntimeSession_replay_persisted_consent_state_def
        M1RuntimeSession_from_chain_def chain kinds mirrors_def)
qed

text \<open>
  What the replay cannot restore: a normal end leaves no entry and a grant leaves no list of its tiers, so
  a session that was ended comes back as active, and with every permission.
\<close>

lemma ended_session_replays_active:
  assumes "ed25519_correct c" and "\<And>p. \<exists>b. bincode_serialize c p = Ok b"
  defines "rt \<equiv> runtime_after c (\<lambda>_. demo_time) [Offer, Grant M1PermissionSet_default, End]
    (M1RuntimeSession_new (filled 9) (filled 1) (filled 2) (filled 3) [])"
  shows "m1_state (rt_session rt) = Ended \<and>
    (\<exists>rt'. M1RuntimeSession_from_persisted_entries (filled 9) (Chain.entries (rt_chain rt)) (filled 1) (filled 2) (filled 3) [] = Ok rt' \<and>
       m1_state (rt_session rt') = Active \<and> m1_granted (rt_session rt') = M1PermissionSet_all)"
proof -
  have m: "mirrors c (filled 9) (filled 1) (filled 2) (filled 3) [] [Offer, Grant M1PermissionSet_default, End] rt"
    unfolding rt_def by (rule runtime_mirrors [OF assms(1,2)]) simp
  have after: "m1_after [Offer, Grant M1PermissionSet_default, End] =
      \<lparr>m1_state = Ended, m1_audit = [SessionOffered, ConsentGranted, SessionEnded], m1_granted = M1PermissionSet_default\<rparr>"
    by (simp add: m1_after_def m1_defs M1SessionMachine_new_def)
  have "map (\<lambda>e. ConsentEventRecord.kind (LedgerEntry.event e)) (Chain.entries (rt_chain rt)) = [Request, Approval]"
    using m by (simp add: mirrors_def after consent_records_def List.map_filter_def consent_record_for_m1_event_def
        flip: map_map [unfolded comp_def])
  then show ?thesis
    using m by (simp add: mirrors_def after M1RuntimeSession_from_persisted_entries_def
        M1RuntimeSession_replay_persisted_consent_state_def M1RuntimeSession_from_chain_def Chain_from_entries_def
        M1SessionMachine_grant_consent_def m1_defs M1SessionMachine_new_def)
qed

section \<open>Concrete sessions\<close>

lemma demo_serializes: "\<exists>b. bincode_serialize demo_crypto p = Ok b"
  by simp

theorem ledger_mirrors_session_witness:
  "map (\<lambda>e. ConsentEventRecord.kind (LedgerEntry.event e)) (Chain.entries (rt_chain (runtime_after demo_crypto (\<lambda>_. demo_time)
       [Offer, Flow StreamFrame, Grant M1PermissionSet_all, Flow StreamFrame, Revoke]
       (M1RuntimeSession_new (filled 9) (filled 1) (filled 2) (filled 3) [])))) = [Request, Approval, Revocation]"
proof -
  let ?ops = "[Offer, Flow StreamFrame, Grant M1PermissionSet_all, Flow StreamFrame, Revoke]"
  have "m1_audit (m1_after ?ops) = [SessionOffered, ConsentGranted, FrameStreamed, ConsentRevoked]"
    by (simp add: m1_after_def m1_defs M1SessionMachine_new_def M1PermissionSet_all_def)
  then show ?thesis
    using ledger_mirrors_session [OF _ _ demo_serializes, where ops = ?ops and h = "filled 1" and clock = "\<lambda>_. demo_time"
        and sk = "filled 9" and src = "filled 1" and sid = "filled 2" and rid = "filled 3" and sc = "[]"]
    by (simp add: consent_records_def List.map_filter_def consent_record_for_m1_event_def flip: map_map [unfolded comp_def])
qed

theorem replay_restores_session_witness:
  "\<exists>rt'. M1RuntimeSession_from_persisted_entries (filled 9 :: u8_32) (Chain.entries (rt_chain (runtime_after demo_crypto (\<lambda>_. demo_time)
       [Offer, Grant M1PermissionSet_all, Revoke] (M1RuntimeSession_new (filled 9) (filled 1) (filled 2) (filled 3) []))))
       (filled 1) (filled 2) (filled 3) [] = Ok rt' \<and> m1_state (rt_session rt') = Revoked"
proof -
  let ?ops = "[Offer, Grant M1PermissionSet_all, Revoke]"
  have "m1_state (m1_after ?ops) = Revoked"
    by (simp add: m1_after_def m1_defs M1SessionMachine_new_def)
  moreover have "rt_session (runtime_after demo_crypto (\<lambda>_. demo_time) ?ops
      (M1RuntimeSession_new (filled 9) (filled 1) (filled 2) (filled 3) [])) = m1_after ?ops"
    using runtime_mirrors [OF _ demo_serializes, of ?ops] by (simp add: mirrors_def)
  ultimately show ?thesis
    using replay_restores_session [OF _ demo_serializes, where ops = ?ops and clock = "\<lambda>_. demo_time"
        and sk = "filled 9" and src = "filled 1" and sid = "filled 2" and rid = "filled 3" and sc = "[]"] by auto
qed

end
