(* ===== verification/File_Transfer.thy ===== *)
theory File_Transfer
  imports File_Staging Transfer_Source Receive_Reservation M1_Runtime
begin

text \<open>
  The file transfers of the daemon, \<open>apps/xenia-peer/src/file_transfer.rs\<close>: the decision on an offer, the
  transfers that are open, and the handler of every message, with the consent gate of \<open>M1_Runtime\<close>, the
  budget of \<open>Receive_Reservation\<close>, the stager of \<open>File_Staging\<close> and the source of \<open>Transfer_Source\<close>. Opening
  and sealing envelopes is the transport session: the handler gets the message that was opened and says
  which messages were sealed and sent.
\<close>

datatype FileTransferMessage =
    FtOffer u64 string u64 u8_32
  | FtAccept u64
  | FtReject u64 string
  | FtChunk u64 u64 bytes
  | FtComplete u64
  | FtVerified u64 bool

definition MAX_CONCURRENT_INCOMING_TRANSFERS :: nat where
  "MAX_CONCURRENT_INCOMING_TRANSFERS = 8"

record OutgoingTransfer =
  out_transfer_id :: u64
  out_source :: TransferSource
  out_started :: bool

record IncomingTransfer =
  in_name :: string
  in_expected_size :: u64
  stager :: IncomingFileStager
  reservation :: u64

record FileTransferState =
  outgoing :: "OutgoingTransfer option"
  incoming :: "u64 \<rightharpoonup> IncomingTransfer"
  receive_reservations :: ReceiveReservationPool

record FileTransferConfig =
  recv_file_dir :: "string option"
  max_bytes :: u64

datatype OfferDecision = AcceptOffer string | RejectOffer string

definition FileTransferState_new :: "u64 \<Rightarrow> FileTransferState" where
  "FileTransferState_new cap =
     \<lparr>outgoing = None, incoming = Map.empty, receive_reservations = ReceiveReservationPool_new cap\<rparr>"

definition sanitize_transfer_filename :: "string \<Rightarrow> string option" where
  "sanitize_transfer_filename name =
     Option.bind (file_name name) (\<lambda>candidate. if candidate \<in> {[], ''.'', ''..''} then None else Some candidate)"

definition FileTransferState_evaluate_offer ::
    "FileTransferConfig \<Rightarrow> string \<Rightarrow> u64 \<Rightarrow> FileTransferState \<Rightarrow> OfferDecision" where
  "FileTransferState_evaluate_offer cfg name sz st =
     (case (recv_file_dir cfg, sanitize_transfer_filename name) of
        (None, _) \<Rightarrow> RejectOffer ''file transfer is disabled on this daemon''
      | (Some _, None) \<Rightarrow> RejectOffer ''unusable filename''
      | (Some _, Some safe_name) \<Rightarrow>
          if sz > max_bytes cfg then RejectOffer (''file exceeds '' @ decimal (unat (max_bytes cfg)) @ ''-byte cap'')
          else if card (dom (incoming st)) \<ge> MAX_CONCURRENT_INCOMING_TRANSFERS
          then RejectOffer (''too many concurrent transfers (max '' @ decimal MAX_CONCURRENT_INCOMING_TRANSFERS @ '')'')
          else AcceptOffer safe_name)"

section \<open>The handler\<close>

text \<open>What it works on, and what one call of it meets: clocks, file system calls, and which sends succeed.\<close>

record 'sk transfer_world =
  tw_state :: FileTransferState
  tw_runtime :: "'sk M1RuntimeSession"
  tw_disk :: disk

record transfer_env =
  te_clock :: "nat \<Rightarrow> SystemTime"
  te_staging :: staging_env
  te_written :: "nat option"
  te_finish :: finish_env
  te_send_ok :: "nat \<Rightarrow> bool"
  te_rest :: "nat \<Rightarrow> file_rest"

type_synonym 'sk handled = "'sk transfer_world \<times> FileTransferMessage list \<times> (unit, string) result"

text \<open>A message at position \<open>i\<close> of the call is sealed and sent.\<close>

definition send_message :: "transfer_env \<Rightarrow> nat \<Rightarrow> FileTransferMessage \<Rightarrow> 'sk transfer_world \<Rightarrow> 'sk handled" where
  "send_message env i msg w = (if te_send_ok env i then (w, [msg], Ok ()) else (w, [], Err ''send''))"

definition allow_flow ::
    "('sk, 'vk, 'ml) crypto \<Rightarrow> transfer_env \<Rightarrow> M1Permission \<Rightarrow> 'sk transfer_world \<Rightarrow>
     'sk transfer_world \<times> (unit, M1RuntimeError) result" where
  "allow_flow c env p w =
     apfst (\<lambda>rt. w\<lparr>tw_runtime := rt\<rparr>) (M1RuntimeSession_apply c (te_clock env) (Flow p) (tw_runtime w))"

text \<open>A transfer that goes out of scope removes its staging file and gives its bytes back.\<close>

definition drop_transfer :: "transfer_env \<Rightarrow> IncomingTransfer \<Rightarrow> 'sk transfer_world \<Rightarrow> 'sk transfer_world" where
  "drop_transfer env tr w =
     (let st = tw_state w in
      w\<lparr>tw_state := st\<lparr>receive_reservations := ReceiveReservation_drop (reservation tr) (receive_reservations st)\<rparr>,
        tw_disk := IncomingFileStager_drop (unlink_works (te_finish env)) (stager tr) (tw_disk w)\<rparr>)"

definition remove_incoming :: "transfer_env \<Rightarrow> u64 \<Rightarrow> 'sk transfer_world \<Rightarrow> 'sk transfer_world" where
  "remove_incoming env tid w =
     (case incoming (tw_state w) tid of
        None \<Rightarrow> w
      | Some tr \<Rightarrow> drop_transfer env tr (w\<lparr>tw_state := (tw_state w)\<lparr>incoming := (incoming (tw_state w))(tid := None)\<rparr>\<rparr>))"

definition insert_incoming :: "transfer_env \<Rightarrow> u64 \<Rightarrow> IncomingTransfer \<Rightarrow> 'sk transfer_world \<Rightarrow> 'sk transfer_world" where
  "insert_incoming env tid tr w =
     (let w' = remove_incoming env tid w in
      w'\<lparr>tw_state := (tw_state w')\<lparr>incoming := (incoming (tw_state w'))(tid \<mapsto> tr)\<rparr>\<rparr>)"

definition accept_offer ::
    "('sk, 'vk, 'ml) crypto \<Rightarrow> transfer_env \<Rightarrow> FileTransferConfig \<Rightarrow> u64 \<Rightarrow> string \<Rightarrow> u64 \<Rightarrow> u8_32 \<Rightarrow>
     'sk transfer_world \<Rightarrow> 'sk transfer_world \<times> (FileTransferMessage, string) result" where
  "accept_offer c env cfg tid safe_name sz h w =
     (case allow_flow c env ReceiveFileFromViewer w of
        (w1, Err _) \<Rightarrow> (w1, Ok (FtReject tid ''file receive is not permitted by current consent''))
      | (w1, Ok _) \<Rightarrow>
          (case ReceiveReservationPool_try_reserve sz (receive_reservations (tw_state w1)) of
             (_, Err _) \<Rightarrow> (w1, Ok (FtReject tid ''receiver has insufficient reserved receive capacity''))
           | (p, Ok lease) \<Rightarrow>
               (case recv_file_dir cfg of
                  None \<Rightarrow> (w1, Err ''accepted file-transfer offer without configured receive directory'')
                | Some dir \<Rightarrow>
                    (case IncomingFileStager_create (te_staging env) (path_join dir safe_name) sz h (tw_disk w1) of
                       (fs, Err _) \<Rightarrow>
                         (w1\<lparr>tw_disk := fs\<rparr>, Ok (FtReject tid ''receiver could not allocate private staging''))
                     | (fs, Ok stgr) \<Rightarrow>
                         (insert_incoming env tid
                            \<lparr>in_name = safe_name, in_expected_size = sz, stager = stgr, reservation = lease\<rparr>
                            (w1\<lparr>tw_disk := fs, tw_state := (tw_state w1)\<lparr>receive_reservations := p\<rparr>\<rparr>),
                          Ok (FtAccept tid))))))"

definition handle_offer ::
    "('sk, 'vk, 'ml) crypto \<Rightarrow> transfer_env \<Rightarrow> FileTransferConfig \<Rightarrow> u64 \<Rightarrow> string \<Rightarrow> u64 \<Rightarrow> u8_32 \<Rightarrow>
     'sk transfer_world \<Rightarrow> 'sk handled" where
  "handle_offer c env cfg tid name sz h w =
     (case FileTransferState_evaluate_offer cfg name sz (tw_state w) of
        RejectOffer reason \<Rightarrow> send_message env 0 (FtReject tid reason) w
      | AcceptOffer safe_name \<Rightarrow>
          (case accept_offer c env cfg tid safe_name sz h w of
             (w', Err e) \<Rightarrow> (w', [], Err e)
           | (w', Ok reply) \<Rightarrow> send_message env 0 reply w'))"

text \<open>
  The loop that sends the chunks. Every turn asks the consent gate; \<open>fuel\<close> bounds the turns. It ends halted
  by the gate, broken by an error, or with the source verified to its end.
\<close>

datatype stream_end = Halted | Broken | Streamed

fun stream_chunks ::
    "('sk, 'vk, 'ml) crypto \<Rightarrow> transfer_env \<Rightarrow> u64 \<Rightarrow> nat \<Rightarrow> nat \<Rightarrow> TransferSource \<Rightarrow> 'sk transfer_world \<Rightarrow>
     (TransferSource \<times> 'sk transfer_world \<times> FileTransferMessage list \<times> stream_end) option" where
  "stream_chunks c env tid 0 i src w = None"
| "stream_chunks c env tid (Suc fuel) i src w =
     (case allow_flow c env SendFileToViewer w of
        (w1, Err _) \<Rightarrow> Some (src, w1, [], Halted)
      | (w1, Ok _) \<Rightarrow>
          (case TransferSource_next_chunk c (te_rest env i) FILE_TRANSFER_CHUNK_SIZE src of
             (src', Err _) \<Rightarrow> Some (src', w1, [], Broken)
           | (src', Ok None) \<Rightarrow>
               if te_send_ok env i then Some (src', w1, [FtComplete tid], Streamed) else Some (src', w1, [], Broken)
           | (src', Ok (Some chunk)) \<Rightarrow>
               if \<not> te_send_ok env i then Some (src', w1, [], Broken)
               else map_option (\<lambda>(s, w', ms, e). (s, w', FtChunk tid (chunk_offset chunk) (chunk_data chunk) # ms, e))
                 (stream_chunks c env tid fuel (Suc i) src' w1)))"

definition stream_fuel :: "TransferSource \<Rightarrow> nat" where
  "stream_fuel src = Suc (unat (source_size src) - unat (source_offset src))"

definition handle_accept ::
    "('sk, 'vk, 'ml) crypto \<Rightarrow> transfer_env \<Rightarrow> u64 \<Rightarrow> 'sk transfer_world \<Rightarrow> 'sk handled option" where
  "handle_accept c env tid w =
     (case outgoing (tw_state w) of
        None \<Rightarrow> Some (w, [], Ok ())
      | Some tr \<Rightarrow>
          if out_transfer_id tr \<noteq> tid then Some (w, [], Ok ())
          else map_option (\<lambda>(src, w', ms, e).
              (w'\<lparr>tw_state := (tw_state w')\<lparr>outgoing := Some (tr\<lparr>out_source := src, out_started := True\<rparr>)\<rparr>\<rparr>, ms,
               if e = Broken then Err ''transfer'' else Ok ()))
            (stream_chunks c env tid (stream_fuel (out_source tr)) 0 (out_source tr) w))"

definition forget_outgoing :: "u64 \<Rightarrow> 'sk transfer_world \<Rightarrow> 'sk transfer_world" where
  "forget_outgoing tid w =
     (case outgoing (tw_state w) of
        Some tr \<Rightarrow> if out_transfer_id tr = tid then w\<lparr>tw_state := (tw_state w)\<lparr>outgoing := None\<rparr>\<rparr> else w
      | None \<Rightarrow> w)"

definition handle_chunk ::
    "('sk, 'vk, 'ml) crypto \<Rightarrow> transfer_env \<Rightarrow> u64 \<Rightarrow> u64 \<Rightarrow> bytes \<Rightarrow> 'sk transfer_world \<Rightarrow> 'sk transfer_world" where
  "handle_chunk c env tid offset data w =
     (case allow_flow c env ReceiveFileFromViewer w of
        (w1, Err _) \<Rightarrow> remove_incoming env tid w1
      | (w1, Ok _) \<Rightarrow>
          (case incoming (tw_state w1) tid of
             None \<Rightarrow> w1
           | Some tr \<Rightarrow>
               (case IncomingFileStager_append (te_written env) offset data (stager tr) (tw_disk w1) of
                  ((stgr, fs), Ok _) \<Rightarrow>
                    w1\<lparr>tw_disk := fs,
                      tw_state := (tw_state w1)\<lparr>incoming := (incoming (tw_state w1))(tid \<mapsto> tr\<lparr>stager := stgr\<rparr>)\<rparr>\<rparr>
                | ((stgr, fs), Err _) \<Rightarrow> remove_incoming env tid (w1\<lparr>tw_disk := fs\<rparr>))))"

definition handle_complete ::
    "('sk, 'vk, 'ml) crypto \<Rightarrow> transfer_env \<Rightarrow> u64 \<Rightarrow> 'sk transfer_world \<Rightarrow> 'sk handled" where
  "handle_complete c env tid w =
     (case incoming (tw_state w) tid of
        None \<Rightarrow> (w, [], Ok ())
      | Some tr \<Rightarrow>
          (let w0 = w\<lparr>tw_state := (tw_state w)\<lparr>incoming := (incoming (tw_state w))(tid := None)\<rparr>\<rparr> in
           case allow_flow c env ReceiveFileFromViewer w0 of
             (w1, Err _) \<Rightarrow> send_message env 0 (FtVerified tid False) (drop_transfer env tr w1)
           | (w1, Ok _) \<Rightarrow>
               (case IncomingFileStager_finish c (te_finish env) (stager tr) (tw_disk w1) of
                  (fs, r) \<Rightarrow> send_message env 0 (FtVerified tid (is_ok r))
                    (w1\<lparr>tw_disk := fs, tw_state := (tw_state w1)\<lparr>receive_reservations :=
                       ReceiveReservation_drop (reservation tr) (receive_reservations (tw_state w1))\<rparr>\<rparr>))))"

text \<open>An envelope that does not open is only logged.\<close>

fun handle_envelope ::
    "('sk, 'vk, 'ml) crypto \<Rightarrow> transfer_env \<Rightarrow> FileTransferConfig \<Rightarrow> FileTransferMessage option \<Rightarrow>
     'sk transfer_world \<Rightarrow> 'sk handled option" where
  "handle_envelope c env cfg None w = Some (w, [], Ok ())"
| "handle_envelope c env cfg (Some (FtOffer tid name sz h)) w = Some (handle_offer c env cfg tid name sz h w)"
| "handle_envelope c env cfg (Some (FtAccept tid)) w = handle_accept c env tid w"
| "handle_envelope c env cfg (Some (FtReject tid _)) w = Some (forget_outgoing tid w, [], Ok ())"
| "handle_envelope c env cfg (Some (FtChunk tid offset data)) w = Some (handle_chunk c env tid offset data w, [], Ok ())"
| "handle_envelope c env cfg (Some (FtComplete tid)) w = Some (handle_complete c env tid w)"
| "handle_envelope c env cfg (Some (FtVerified tid _)) w = Some (forget_outgoing tid w, [], Ok ())"

section \<open>The loop of the sender ends\<close>

lemma stream_chunks_returns:
  assumes "source_ok src" and "stream_fuel src \<le> fuel"
  shows "stream_chunks c env tid fuel i src w \<noteq> None"
  using assms
proof (induction fuel arbitrary: i src w)
  case 0
  then show ?case by (simp add: stream_fuel_def)
next
  case (Suc fuel)
  obtain w1 r1 where 1: "allow_flow c env SendFileToViewer w = (w1, r1)" by fastforce
  obtain src' r2 where 2: "TransferSource_next_chunk c (te_rest env i) FILE_TRANSFER_CHUNK_SIZE src = (src', r2)" by fastforce
  from 2 Suc.prems(1) show ?case
  proof (cases rule: next_chunk_cases)
    case (chunk data)
    have u: "unat (source_offset src + of_nat (length data)) = unat (source_offset src) + length data"
    proof -
      have "unat (of_nat (length data) :: u64) = length data"
        using chunk(6) unat_u64_less [of "source_size src"] by (intro unat_of_nat_u64) linarith
      then show ?thesis
        using chunk(6) unat_u64_less [of "source_size src"] by (subst unat_add_lem [THEN iffD1]) auto
    qed
    have "source_ok src'" using chunk(5,6) u Suc.prems(1) by (simp add: source_ok_def word_le_nat_alt)
    moreover have "stream_fuel src' \<le> fuel"
    proof -
      obtain n where "length data = Suc n" using chunk(2) by (cases data) auto
      then show ?thesis using Suc.prems(2) chunk(5,6) u by (simp add: stream_fuel_def)
    qed
    ultimately show ?thesis using Suc.IH [of src' "Suc i" w1] 1 2 chunk(1) by (auto split: result.splits)
  qed (use 1 2 in \<open>auto split: result.splits\<close>)
qed

end
