(* ===== verification/File_Transfer_Safety.thy ===== *)
theory File_Transfer_Safety
  imports File_Transfer
begin

text \<open>
  What the transfers of \<open>File_Transfer\<close> keep under every message and every failing call: the open transfers
  with their staging files and their reserved bytes, the files that were there before, and where each
  new file comes from.
\<close>

section \<open>Invariants of the transfers\<close>

definition staging_paths :: "'sk transfer_world \<Rightarrow> string set" where
  "staging_paths w = (\<lambda>tr. staging_path (stager tr)) ` ran (incoming (tw_state w))"

definition staged :: "disk \<Rightarrow> IncomingTransfer \<Rightarrow> bool" where
  "staged fs tr \<longleftrightarrow> fs (staging_path (stager tr)) = Some (hashed (stager tr)) \<and>
     unat (received_count (stager tr)) = length (hashed (stager tr)) \<and>
     received_count (stager tr) \<le> expected_size (stager tr) \<and> reservation tr = expected_size (stager tr)"

definition reserved_by :: "(u64 \<rightharpoonup> IncomingTransfer) \<Rightarrow> nat" where
  "reserved_by inc = (\<Sum>tid\<in>dom inc. unat (reservation (the (inc tid))))"

definition world_ok :: "u64 \<Rightarrow> 'sk transfer_world \<Rightarrow> bool" where
  "world_ok cap w \<longleftrightarrow>
     (let inc = incoming (tw_state w); p = receive_reservations (tw_state w) in
      finite (dom inc) \<and> card (dom inc) \<le> MAX_CONCURRENT_INCOMING_TRANSFERS \<and>
      pool_capacity p = cap \<and> unat (pool_reserved p) = reserved_by inc \<and> pool_reserved p \<le> cap \<and>
      (\<forall>tid tr. inc tid = Some tr \<longrightarrow> staged (tw_disk w) tr) \<and>
      inj_on (\<lambda>tid. staging_path (stager (the (inc tid)))) (dom inc))"

text \<open>No file that is there, other than the staging files, is lost or changed.\<close>

definition keeps :: "'sk transfer_world \<Rightarrow> 'sk transfer_world \<Rightarrow> bool" where
  "keeps w w' \<longleftrightarrow> (\<forall>q b. tw_disk w q = Some b \<longrightarrow> q \<notin> staging_paths w \<longrightarrow>
     tw_disk w' q = Some b \<and> q \<notin> staging_paths w')"

lemma keeps_refl: "keeps w w"
  by (simp add: keeps_def)

lemma keeps_trans: "keeps w w' \<Longrightarrow> keeps w' w'' \<Longrightarrow> keeps w w''"
  by (simp add: keeps_def)

lemma reserved_by_remove:
  assumes "finite (dom inc)" and "inc tid = Some tr"
  shows "reserved_by inc = unat (reservation tr) + reserved_by (inc(tid := None))"
proof -
  have "reserved_by inc = unat (reservation tr) + (\<Sum>x\<in>dom inc - {tid}. unat (reservation (the (inc x))))"
    unfolding reserved_by_def using assms by (subst sum.remove [of _ tid]) (auto simp: domIff)
  also have "(\<Sum>x\<in>dom inc - {tid}. unat (reservation (the (inc x)))) = reserved_by (inc(tid := None))"
    unfolding reserved_by_def by (intro sum.cong) (auto split: if_splits)
  finally show ?thesis .
qed

lemma reserved_by_insert:
  assumes "finite (dom inc)" and "inc tid = None"
  shows "reserved_by (inc(tid \<mapsto> tr)) = unat (reservation tr) + reserved_by inc"
proof -
  have "(inc(tid \<mapsto> tr))(tid := None) = inc" using assms(2) by auto
  then show ?thesis using reserved_by_remove [of "inc(tid \<mapsto> tr)" tid tr] assms(1) by simp
qed

lemma staged_cong: "fs' (staging_path (stager tr)) = fs (staging_path (stager tr)) \<Longrightarrow> staged fs' tr = staged fs tr"
  by (simp add: staged_def)

lemma other_staging:
  assumes "world_ok cap w" and "incoming (tw_state w) tid = Some tr" and "incoming (tw_state w) tid' = Some tr'" and "tid \<noteq> tid'"
  shows "staging_path (stager tr') \<noteq> staging_path (stager tr)"
proof -
  have "inj_on (\<lambda>tid. staging_path (stager (the (incoming (tw_state w) tid)))) (dom (incoming (tw_state w)))"
    using assms(1) by (simp add: world_ok_def Let_def)
  from inj_onD [OF this, of tid tid'] show ?thesis using assms(2-4) by (auto simp: domIff)
qed

text \<open>Removing a transfer, whatever its staging file has become.\<close>

lemma remove_incoming_ok:
  fixes env :: transfer_env
  assumes ok: "world_ok cap w"
    and D: "\<And>q. (\<And>tr. incoming (tw_state w) tid = Some tr \<Longrightarrow> q \<noteq> staging_path (stager tr)) \<Longrightarrow> D q = tw_disk w q"
  defines "w' \<equiv> remove_incoming env tid (w\<lparr>tw_disk := D\<rparr>)"
  shows "world_ok cap w' \<and> keeps w w' \<and> incoming (tw_state w') = (incoming (tw_state w))(tid := None) \<and>
    (\<forall>q b. tw_disk w' q = Some b \<longrightarrow> D q = Some b)"
proof (cases "incoming (tw_state w) tid")
  case None
  then have "(incoming (tw_state w))(tid := None) = incoming (tw_state w)" "D = tw_disk w" using D by auto
  then show ?thesis using None ok by (simp add: w'_def remove_incoming_def keeps_refl)
next
  case (Some tr)
  let ?inc = "incoming (tw_state w)"
  have inc: "incoming (tw_state w') = ?inc(tid := None)"
    and disk: "tw_disk w' = (if unlink_works (te_finish env) then D(staging_path (stager tr) := None) else D)"
    and pool: "receive_reservations (tw_state w') = ReceiveReservation_drop (reservation tr) (receive_reservations (tw_state w))"
    using Some by (simp_all add: w'_def remove_incoming_def drop_transfer_def Let_def IncomingFileStager_drop_def)
  have D': "D q = tw_disk w q" if "q \<noteq> staging_path (stager tr)" for q using D [of q] that Some by simp
  have fin: "finite (dom ?inc)" and res: "unat (pool_reserved (receive_reservations (tw_state w))) = reserved_by ?inc"
    and le: "pool_reserved (receive_reservations (tw_state w)) \<le> cap"
    and inj: "inj_on (\<lambda>tid. staging_path (stager (the (?inc tid)))) (dom ?inc)"
    using ok by (simp_all add: world_ok_def Let_def)
  have sum: "reserved_by ?inc = unat (reservation tr) + reserved_by (?inc(tid := None))"
    by (rule reserved_by_remove [of ?inc tid tr]) (use fin Some in auto)
  then have "reservation tr \<le> pool_reserved (receive_reservations (tw_state w))"
    using res by (simp add: word_le_nat_alt)
  note sub = unat_sub [OF this]
  have "staged (tw_disk w') tr'" if "?inc tid' = Some tr'" "tid' \<noteq> tid" for tid' tr'
    using other_staging [OF ok Some that(1)] that D' ok by (auto simp: disk world_ok_def Let_def staged_def)
  moreover have "inj_on (\<lambda>x. staging_path (stager (the ((?inc(tid := None)) x)))) (dom ?inc - {tid})"
    using inj by (auto simp: inj_on_def domIff)
  moreover have "card (dom ?inc - {tid}) \<le> card (dom ?inc)" using fin by (simp add: card_Diff1_le)
  ultimately have "world_ok cap w'"
    using ok sum sub res le fin
    by (auto simp: world_ok_def Let_def inc pool ReceiveReservation_drop_def word_le_nat_alt)
  moreover have "keeps w w'"
    unfolding keeps_def
  proof (intro allI impI)
    fix q b assume q: "tw_disk w q = Some b" "q \<notin> staging_paths w"
    then have "q \<noteq> staging_path (stager tr)" using Some by (auto simp: staging_paths_def ran_def)
    moreover have "q \<notin> staging_paths w'" using q(2) by (auto simp: staging_paths_def ran_def inc split: if_splits)
    ultimately show "tw_disk w' q = Some b \<and> q \<notin> staging_paths w'" using D' q(1) by (simp add: disk)
  qed
  ultimately show ?thesis using inc by (simp add: disk split: if_splits)
qed

lemma open_staging_loop_Ok:
  assumes "open_staging_loop env parent n i fs = (fs', Ok path)"
  shows "fs path = None \<and> fs' = fs(path \<mapsto> []) \<and> (\<exists>r. path = path_join parent (staging_name (process_id env) r))"
  using assms by (induction n arbitrary: i) (auto simp: Let_def simp del: split_paired_Ex split: if_splits)

lemma open_staging_loop_Err:
  assumes "open_staging_loop env parent n i fs = (fs', Err e)"
  shows "fs' = fs"
  using assms by (induction n arbitrary: i) (auto simp: Let_def split: if_splits)

lemma create_cases:
  assumes "IncomingFileStager_create env final sz h fs = (fs', r)"
  obtains (failed) e where "r = Err e" "fs' = fs"
    | (created) path dir rnd where "r = Ok \<lparr>final_path = final, staging_path = path, file_open = True, hashed = [],
          expected_size = sz, expected_hash = h, received_count = 0\<rparr>"
        "fs path = None" "fs' = fs(path \<mapsto> [])" "path = path_join dir (staging_name (process_id env) rnd)"
proof (cases "receive_parent final")
  case (Err e)
  then show thesis using assms failed by (auto simp: IncomingFileStager_create_def)
next
  case (Ok parent)
  obtain fs1 r1 where 1: "open_staging_file env parent fs = (fs1, r1)" by fastforce
  show thesis
  proof (cases r1)
    case (Err e)
    then have "fs1 = fs" using 1 open_staging_loop_Err by (simp add: open_staging_file_def)
    then show thesis using assms failed Ok 1 Err by (auto simp: IncomingFileStager_create_def)
  next
    case stg: (Ok path)
    obtain rnd where "fs path = None" "fs1 = fs(path \<mapsto> [])" "path = path_join parent (staging_name (process_id env) rnd)"
      using 1 stg open_staging_loop_Ok [of env parent STAGING_ATTEMPTS 0 fs fs1 path] unfolding open_staging_file_def by blast
    then show thesis using assms Ok 1 stg by (intro created [of path parent rnd]) (auto simp: IncomingFileStager_create_def)
  qed
qed

lemma insert_fresh_ok:
  assumes ok: "world_ok cap w" and new: "incoming (tw_state w) tid = None" and fresh: "tw_disk w q = None"
    and room: "card (dom (incoming (tw_state w))) < MAX_CONCURRENT_INCOMING_TRANSFERS"
    and turn: "reserve_turn cap sz (pool_reserved (receive_reservations (tw_state w))) = Ok n"
    and tr: "reservation tr = sz" "stager tr = \<lparr>final_path = final, staging_path = q, file_open = True, hashed = [],
          expected_size = sz, expected_hash = h, received_count = 0\<rparr>"
  defines "w' \<equiv> w\<lparr>tw_disk := (tw_disk w)(q \<mapsto> []),
    tw_state := (tw_state w)\<lparr>receive_reservations := (receive_reservations (tw_state w))\<lparr>pool_reserved := n\<rparr>,
      incoming := (incoming (tw_state w))(tid \<mapsto> tr)\<rparr>\<rparr>"
  shows "world_ok cap w' \<and> keeps w w'"
proof -
  let ?inc = "incoming (tw_state w)"
  have fin: "finite (dom ?inc)" and inj: "inj_on (\<lambda>tid. staging_path (stager (the (?inc tid)))) (dom ?inc)"
    using ok by (simp_all add: world_ok_def Let_def)
  have other: "staging_path (stager tr') \<noteq> q" if "?inc tid' = Some tr'" for tid' tr'
    using ok that fresh by (fastforce simp: world_ok_def Let_def staged_def)
  have out: "x \<noteq> tid" if "x \<in> dom ?inc" for x using that new by auto
  have "inj_on (\<lambda>x. staging_path (stager (the ((?inc(tid \<mapsto> tr)) x)))) (dom ?inc)"
    using inj by (rule inj_on_cong [THEN iffD1, rotated]) (simp add: out)
  then have "inj_on (\<lambda>x. staging_path (stager (the ((?inc(tid \<mapsto> tr)) x)))) (insert tid (dom ?inc))"
    using other tr(2) out by (fastforce simp: inj_on_insert)
  moreover have "staged ((tw_disk w)(q \<mapsto> [])) tr'" if "?inc tid' = Some tr'" for tid' tr'
    using ok that other [OF that] by (simp add: world_ok_def Let_def staged_def)
  moreover have "staged ((tw_disk w)(q \<mapsto> [])) tr" using tr by (simp add: staged_def)
  moreover have "card (insert tid (dom ?inc)) \<le> MAX_CONCURRENT_INCOMING_TRANSFERS"
    using room fin card_insert_le_m1 by (simp add: card_insert_if)
  ultimately have "world_ok cap w'"
    using ok fin turn reserved_by_insert [OF fin new, of tr] tr(1) new
    by (auto simp: world_ok_def Let_def w'_def reserve_turn_eq_Ok)
  moreover have "keeps w w'"
    using fresh tr(2) by (auto simp: keeps_def staging_paths_def w'_def ran_def split: if_splits)
  ultimately show ?thesis ..
qed

lemma append_cases:
  assumes "IncomingFileStager_append written offset data st fs = ((st', fs'), r)"
    and "fs (staging_path st) = Some (hashed st)" and "unat (received_count st) = length (hashed st)"
    and "received_count st \<le> expected_size st"
  obtains (failed) e where "r = Err e" "st' = st" "\<exists>b. fs' = fs(staging_path st \<mapsto> b)"
    | (appended) n where "r = Ok n" "st' = st\<lparr>hashed := hashed st @ data, received_count := n\<rparr>"
        "fs' = fs(staging_path st \<mapsto> hashed st @ data)" "unat n = length (hashed st @ data)" "n \<le> expected_size st"
        "offset = received_count st"
proof (cases r)
  case (Err e)
  have "fs = fs(staging_path st \<mapsto> hashed st)" using assms(2) by auto
  then show thesis
    using assms(1,2) Err failed [OF Err]
    by (auto simp: IncomingFileStager_append_def Let_def split: if_splits option.splits)
next
  case (Ok n)
  then have "\<not> 2 ^ 64 \<le> length data" "checked_add (received_count st) (of_nat (length data)) = Some n"
      "n \<le> expected_size st" "offset = received_count st"
      "st' = st\<lparr>hashed := hashed st @ data, received_count := n\<rparr>" "fs' = fs(staging_path st \<mapsto> hashed st @ data)"
    using assms(1,2) by (auto simp: IncomingFileStager_append_def Let_def not_less split: if_splits option.splits)
  then show thesis
    using appended [OF Ok] assms(3) by (auto simp: checked_add_eq_Some unat_of_nat_u64)
qed

section \<open>Every message keeps them\<close>

lemma runtime_irrelevant [simp]:
  "world_ok cap (w\<lparr>tw_runtime := rt\<rparr>) = world_ok cap w"
  "keeps w0 (w\<lparr>tw_runtime := rt\<rparr>) = keeps w0 w" "keeps (w\<lparr>tw_runtime := rt\<rparr>) w1 = keeps w w1"
  by (simp_all add: world_ok_def keeps_def staging_paths_def)

lemma outgoing_irrelevant [simp]:
  "world_ok cap (w\<lparr>tw_state := (tw_state w)\<lparr>outgoing := out\<rparr>\<rparr>) = world_ok cap w"
  "keeps w0 (w\<lparr>tw_state := (tw_state w)\<lparr>outgoing := out\<rparr>\<rparr>) = keeps w0 w"
  by (simp_all add: world_ok_def keeps_def staging_paths_def)

lemma allow_flow_frame:
  assumes "allow_flow c env p w = (w1, r)"
  obtains rt where "w1 = w\<lparr>tw_runtime := rt\<rparr>" "M1RuntimeSession_apply c (te_clock env) (Flow p) (tw_runtime w) = (rt, r)"
  using assms by (cases "M1RuntimeSession_apply c (te_clock env) (Flow p) (tw_runtime w)") (auto simp: allow_flow_def)

lemma send_message_world: "send_message env i m w = (w', ms, r) \<Longrightarrow> w' = w \<and> set ms \<subseteq> {m}"
  by (auto simp: send_message_def split: if_splits)

lemma stream_chunks_frame:
  "stream_chunks c env tid fuel i src w = Some (src', w', ms, e) \<Longrightarrow> \<exists>rt. w' = w\<lparr>tw_runtime := rt\<rparr>"
proof (induction fuel arbitrary: i src w ms)
  case (Suc fuel)
  obtain w1 r1 where 1: "allow_flow c env SendFileToViewer w = (w1, r1)" by fastforce
  obtain rt where "w1 = w\<lparr>tw_runtime := rt\<rparr>" using allow_flow_frame [OF 1] by blast
  then show ?case using Suc.prems Suc.IH [where w = w1] 1
    by (fastforce split: result.splits prod.splits option.splits if_splits)
qed simp

lemma update_incoming_ok:
  assumes ok: "world_ok cap w" and tr: "incoming (tw_state w) tid = Some tr"
    and st: "staging_path st' = staging_path (stager tr)" "unat (received_count st') = length (hashed st')"
      "received_count st' \<le> expected_size st'" "expected_size st' = expected_size (stager tr)"
  defines "w' \<equiv> w\<lparr>tw_disk := (tw_disk w)(staging_path st' \<mapsto> hashed st'),
    tw_state := (tw_state w)\<lparr>incoming := (incoming (tw_state w))(tid \<mapsto> tr\<lparr>stager := st'\<rparr>)\<rparr>\<rparr>"
  shows "world_ok cap w' \<and> keeps w w'"
proof -
  let ?inc = "incoming (tw_state w)"
  have dom: "dom (?inc(tid \<mapsto> tr\<lparr>stager := st'\<rparr>)) = dom ?inc" using tr by auto
  have "reserved_by (?inc(tid \<mapsto> tr\<lparr>stager := st'\<rparr>)) = reserved_by ?inc"
    unfolding reserved_by_def dom using tr by (intro sum.cong) auto
  moreover have "inj_on (\<lambda>x. staging_path (stager (the ((?inc(tid \<mapsto> tr\<lparr>stager := st'\<rparr>)) x)))) (dom ?inc)"
  proof -
    have "(\<lambda>x. staging_path (stager (the ((?inc(tid \<mapsto> tr\<lparr>stager := st'\<rparr>)) x)))) = (\<lambda>x. staging_path (stager (the (?inc x))))"
      using tr st(1) by auto
    then show ?thesis using ok by (simp add: world_ok_def Let_def)
  qed
  moreover have "staged ((tw_disk w)(staging_path st' \<mapsto> hashed st')) tr'"
    if "(?inc(tid \<mapsto> tr\<lparr>stager := st'\<rparr>)) tid' = Some tr'" for tid' tr'
  proof (cases "tid' = tid")
    case True
    then show ?thesis using that st ok tr by (auto simp: staged_def world_ok_def Let_def)
  next
    case False
    then show ?thesis using that other_staging [OF ok tr, of tid' tr'] st(1) ok by (simp add: staged_def world_ok_def Let_def)
  qed
  ultimately have "world_ok cap w'"
    using ok dom by (simp add: world_ok_def Let_def w'_def)
  moreover have "keeps w w'"
    unfolding keeps_def staging_paths_def w'_def using tr st(1) by (auto simp: ran_def split: if_splits)
  ultimately show ?thesis ..
qed

lemma deliver_ok:
  assumes ok: "world_ok cap w" and "tw_disk w q = None"
  shows "world_ok cap (w\<lparr>tw_disk := (tw_disk w)(q \<mapsto> b)\<rparr>) \<and> keeps w (w\<lparr>tw_disk := (tw_disk w)(q \<mapsto> b)\<rparr>)"
proof -
  have "staged ((tw_disk w)(q \<mapsto> b)) tr" if "incoming (tw_state w) tid = Some tr" for tid tr
  proof -
    have "staged (tw_disk w) tr" using ok that by (simp add: world_ok_def Let_def)
    then show ?thesis using assms(2) by (auto simp: staged_def)
  qed
  then show ?thesis using ok assms(2) by (auto simp: world_ok_def Let_def keeps_def staging_paths_def)
qed

section \<open>Every file comes from an offer\<close>

definition staging_named :: "string \<Rightarrow> bool" where
  "staging_named q \<longleftrightarrow> (\<exists>dir pid r. q = path_join dir (staging_name pid r))"

definition offered_by :: "FileTransferConfig \<Rightarrow> FileTransferMessage option \<Rightarrow> IncomingFileStager \<Rightarrow> bool" where
  "offered_by cfg m st \<longleftrightarrow> staging_named (staging_path st) \<and>
     (\<exists>tid name dir safe. m = Some (FtOffer tid name (expected_size st) (expected_hash st)) \<and>
        recv_file_dir cfg = Some dir \<and> sanitize_transfer_filename name = Some safe \<and>
        final_path st = path_join dir safe \<and> expected_size st \<le> max_bytes cfg)"

definition delivered ::
    "('sk, 'vk, 'ml) crypto \<Rightarrow> FileTransferConfig \<Rightarrow> FileTransferMessage option \<Rightarrow> string \<Rightarrow> bytes \<Rightarrow> bool" where
  "delivered c cfg m q b \<longleftrightarrow>
     (\<exists>tid name sz dir safe. m = Some (FtOffer tid name sz (blake3_hash c b)) \<and> recv_file_dir cfg = Some dir \<and>
        sanitize_transfer_filename name = Some safe \<and> q = path_join dir safe \<and> length b = unat sz \<and> sz \<le> max_bytes cfg)"

definition transfers_ok :: "u64 \<Rightarrow> FileTransferConfig \<Rightarrow> FileTransferMessage option set \<Rightarrow> 'sk transfer_world \<Rightarrow> bool" where
  "transfers_ok cap cfg M w \<longleftrightarrow> world_ok cap w \<and>
     (\<forall>tid tr. incoming (tw_state w) tid = Some tr \<longrightarrow> (\<exists>m\<in>M. offered_by cfg m (stager tr)))"

definition writes ::
    "('sk, 'vk, 'ml) crypto \<Rightarrow> FileTransferConfig \<Rightarrow> FileTransferMessage option set \<Rightarrow>
     'sk transfer_world \<Rightarrow> 'sk transfer_world \<Rightarrow> bool" where
  "writes c cfg M w w' \<longleftrightarrow> keeps w w' \<and>
     (\<forall>q b. tw_disk w' q = Some b \<longrightarrow> tw_disk w q = Some b \<or> staging_named q \<or> (\<exists>m\<in>M. delivered c cfg m q b))"

lemma writes_trans: "writes c cfg M w w' \<Longrightarrow> writes c cfg M w' w'' \<Longrightarrow> writes c cfg M w w''"
  unfolding writes_def using keeps_trans by blast

lemma transfers_irrelevant [simp]:
  "transfers_ok cap cfg M (w\<lparr>tw_runtime := rt\<rparr>) = transfers_ok cap cfg M w"
  "transfers_ok cap cfg M (w\<lparr>tw_state := (tw_state w)\<lparr>outgoing := out\<rparr>\<rparr>) = transfers_ok cap cfg M w"
  "writes c cfg M w0 (w\<lparr>tw_runtime := rt\<rparr>) = writes c cfg M w0 w"
  "writes c cfg M w0 (w\<lparr>tw_state := (tw_state w)\<lparr>outgoing := out\<rparr>\<rparr>) = writes c cfg M w0 w"
  "writes c cfg M (w\<lparr>tw_runtime := rt\<rparr>) w1 = writes c cfg M w w1"
  by (simp_all add: transfers_ok_def writes_def)

lemma writes_refl [simp]: "writes c cfg M w w"
  by (simp add: writes_def keeps_refl)

lemma incoming_named:
  assumes "transfers_ok cap cfg M w" and "incoming (tw_state w) tid = Some tr"
  shows "staging_named (staging_path (stager tr))"
  using assms by (auto simp: transfers_ok_def offered_by_def)

lemma remove_incoming_steps:
  assumes ok: "transfers_ok cap cfg M w"
    and D: "\<And>q. (\<And>tr. incoming (tw_state w) tid = Some tr \<Longrightarrow> q \<noteq> staging_path (stager tr)) \<Longrightarrow> D q = tw_disk w q"
  shows "transfers_ok cap cfg M (remove_incoming env tid (w\<lparr>tw_disk := D\<rparr>)) \<and>
    writes c cfg M w (remove_incoming env tid (w\<lparr>tw_disk := D\<rparr>))"
proof -
  let ?w = "remove_incoming env tid (w\<lparr>tw_disk := D\<rparr>)"
  have r: "world_ok cap ?w" "keeps w ?w" "incoming (tw_state ?w) = (incoming (tw_state w))(tid := None)"
      "\<And>q b. tw_disk ?w q = Some b \<Longrightarrow> D q = Some b"
    using remove_incoming_ok [of cap w tid D env, OF _ D] ok by (auto simp: transfers_ok_def)
  have "tw_disk w q = Some b \<or> staging_named q" if "tw_disk ?w q = Some b" for q b
    using r(4) [OF that] D [of q] incoming_named [OF ok] by fastforce
  then show ?thesis using r(1-3) ok by (auto simp: transfers_ok_def writes_def split: if_splits)
qed

lemma remove_incoming_step:
  assumes "transfers_ok cap cfg M w"
  shows "transfers_ok cap cfg M (remove_incoming env tid w) \<and> writes c cfg M w (remove_incoming env tid w)"
  using remove_incoming_steps [OF assms, of tid "tw_disk w" env c] by simp

lemma handle_chunk_step:
  assumes ok: "transfers_ok cap cfg M w"
  shows "transfers_ok cap cfg M (handle_chunk c env tid offset data w) \<and> writes c cfg M w (handle_chunk c env tid offset data w)"
proof -
  obtain w1 r1 where 1: "allow_flow c env ReceiveFileFromViewer w = (w1, r1)" by fastforce
  then obtain rt where w1: "w1 = w\<lparr>tw_runtime := rt\<rparr>" by (rule allow_flow_frame)
  then have ok1: "transfers_ok cap cfg M w1" using ok by simp
  have "transfers_ok cap cfg M (handle_chunk c env tid offset data w) \<and> writes c cfg M w1 (handle_chunk c env tid offset data w)"
  proof (cases "is_ok r1 \<and> incoming (tw_state w1) tid \<noteq> None")
    case False
    then show ?thesis
      using 1 ok1 remove_incoming_step [OF ok1, of env tid c] by (cases r1) (auto simp: handle_chunk_def)
  next
    case True
    then obtain tr u where tr: "incoming (tw_state w1) tid = Some tr" and u: "r1 = Ok u" by (cases r1) auto
    obtain st fs r where a: "IncomingFileStager_append (te_written env) offset data (stager tr) (tw_disk w1) = ((st, fs), r)"
      by (metis surj_pair)
    have st: "staged (tw_disk w1) tr" and named: "staging_named (staging_path (stager tr))"
      using ok1 tr incoming_named [OF ok1 tr] by (auto simp: transfers_ok_def world_ok_def Let_def)
    from a st [unfolded staged_def, THEN conjunct1] st [unfolded staged_def, THEN conjunct2, THEN conjunct1]
      st [unfolded staged_def, THEN conjunct2, THEN conjunct2, THEN conjunct1]
    show ?thesis
    proof (cases rule: append_cases)
      case (failed e)
      then obtain b where "fs = (tw_disk w1)(staging_path (stager tr) \<mapsto> b)" by auto
      then show ?thesis
        using remove_incoming_steps [OF ok1, of tid fs env c] tr 1 u a failed by (simp add: handle_chunk_def)
    next
      case (appended n)
      let ?w = "handle_chunk c env tid offset data w"
      have w: "?w = w1\<lparr>tw_disk := (tw_disk w1)(staging_path st \<mapsto> hashed st),
          tw_state := (tw_state w1)\<lparr>incoming := (incoming (tw_state w1))(tid \<mapsto> tr\<lparr>stager := st\<rparr>)\<rparr>\<rparr>"
        using 1 u tr a appended by (simp add: handle_chunk_def)
      have "world_ok cap ?w \<and> keeps w1 ?w"
        unfolding w using ok1 appended by (intro update_incoming_ok [OF _ tr]) (auto simp: transfers_ok_def)
      moreover have "\<exists>m\<in>M. offered_by cfg m st" using ok1 tr appended by (fastforce simp: transfers_ok_def offered_by_def)
      moreover have "staging_named (staging_path st)" using named appended(2) by simp
      ultimately show ?thesis using ok1 unfolding transfers_ok_def writes_def by (auto simp: w)
    qed
  qed
  then show ?thesis using w1 by simp
qed

lemma finish_cases:
  assumes "IncomingFileStager_finish c env st fs = (fs', r)" and "fs (staging_path st) = Some (hashed st)"
  obtains (failed) e where "r = Err e" "fs' = IncomingFileStager_drop (unlink_works env) st fs"
    | (finished) "r = Ok ()" "received_count st = expected_size st" "blake3_hash c (hashed st) = expected_hash st"
        "fs (final_path st) = None"
        "fs' = IncomingFileStager_drop (unlink_works env) st (fs(final_path st \<mapsto> hashed st))"
  using assms by (auto simp: IncomingFileStager_finish_def split: if_splits)

text \<open>Finishing a transfer is putting its file in place, when it is right, and then dropping it.\<close>

lemma handle_complete_cases:
  assumes ok: "transfers_ok cap cfg M w" and h: "handle_complete c env tid w = (w', ms, r)"
    and tr: "incoming (tw_state w) tid = Some tr"
  obtains (unchanged) rt where "w' = (remove_incoming env tid w)\<lparr>tw_runtime := rt\<rparr>" "FtVerified tid True \<notin> set ms"
    | (placed) rt where
        "w' = (remove_incoming env tid (w\<lparr>tw_disk := (tw_disk w)(final_path (stager tr) \<mapsto> hashed (stager tr))\<rparr>))\<lparr>tw_runtime := rt\<rparr>"
        "tw_disk w (final_path (stager tr)) = None" "length (hashed (stager tr)) = unat (expected_size (stager tr))"
        "blake3_hash c (hashed (stager tr)) = expected_hash (stager tr)"
        "is_ok (snd (M1RuntimeSession_apply c (te_clock env) (Flow ReceiveFileFromViewer) (tw_runtime w)))"
proof -
  let ?w0 = "w\<lparr>tw_state := (tw_state w)\<lparr>incoming := (incoming (tw_state w))(tid := None)\<rparr>\<rparr>"
  obtain w1 r1 where 1: "allow_flow c env ReceiveFileFromViewer ?w0 = (w1, r1)" by fastforce
  then obtain rt where w1: "w1 = ?w0\<lparr>tw_runtime := rt\<rparr>"
      and gate: "M1RuntimeSession_apply c (te_clock env) (Flow ReceiveFileFromViewer) (tw_runtime w) = (rt, r1)"
    by (rule allow_flow_frame) simp
  have st: "staged (tw_disk w) tr" using ok tr by (auto simp: transfers_ok_def world_ok_def Let_def)
  show thesis
  proof (cases r1)
    case (Err e)
    then show thesis using h tr 1 w1
      by (intro unchanged [of rt]) (auto simp: handle_complete_def Let_def send_message_def remove_incoming_def drop_transfer_def split: if_splits)
  next
    case (Ok u)
    obtain fs r2 where f: "IncomingFileStager_finish c (te_finish env) (stager tr) (tw_disk w) = (fs, r2)" by fastforce
    have "tw_disk w (staging_path (stager tr)) = Some (hashed (stager tr))" using st by (simp add: staged_def)
    with f show thesis
    proof (cases rule: finish_cases)
      case (failed e)
      then show thesis using h tr 1 w1 f Ok
        by (intro unchanged [of rt]) (auto simp: handle_complete_def Let_def send_message_def remove_incoming_def drop_transfer_def split: if_splits)
    next
      case finished
      then show thesis using h tr 1 w1 f Ok st gate
        by (intro placed [of rt]) (auto simp: handle_complete_def Let_def send_message_def remove_incoming_def drop_transfer_def staged_def split: if_splits)
    qed
  qed
qed

lemma handle_complete_step:
  assumes ok: "transfers_ok cap cfg M w" and h: "handle_complete c env tid w = (w', ms, r)"
  shows "transfers_ok cap cfg M w' \<and> writes c cfg M w w'"
proof (cases "incoming (tw_state w) tid")
  case None
  then show ?thesis using h ok by (simp add: handle_complete_def)
next
  case (Some tr)
  from ok h Some show ?thesis
  proof (cases rule: handle_complete_cases)
    case (unchanged rt)
    then show ?thesis using remove_incoming_step [OF ok, of env tid c] by simp
  next
    case (placed rt)
    let ?st = "stager tr"
    let ?w = "w\<lparr>tw_disk := (tw_disk w)(final_path ?st \<mapsto> hashed ?st)\<rparr>"
    have d: "world_ok cap ?w \<and> keeps w ?w" using ok placed(2) by (intro deliver_ok) (auto simp: transfers_ok_def)
    then have ok2: "transfers_ok cap cfg M ?w" using ok by (simp add: transfers_ok_def)
    obtain m where "m \<in> M" "offered_by cfg m ?st" using ok Some by (auto simp: transfers_ok_def)
    then have "\<exists>m\<in>M. delivered c cfg m (final_path ?st) (hashed ?st)"
      using placed(3,4) by (fastforce simp: offered_by_def delivered_def)
    then have "writes c cfg M w ?w" using d by (auto simp: writes_def)
    then show ?thesis using writes_trans remove_incoming_step [OF ok2, of env tid c] placed(1) by auto
  qed
qed

lemma evaluate_accepts:
  assumes "FileTransferState_evaluate_offer cfg name sz st = AcceptOffer safe"
  obtains dir where "recv_file_dir cfg = Some dir" "sanitize_transfer_filename name = Some safe" "sz \<le> max_bytes cfg"
    "card (dom (incoming st)) < MAX_CONCURRENT_INCOMING_TRANSFERS"
  using assms by (auto simp: FileTransferState_evaluate_offer_def not_less not_le split: option.splits if_splits)

text \<open>
  An accepted offer: the transfer that had its number, if any, is removed, and the new one is there with a
  fresh staging file and its bytes reserved.
\<close>

lemma insert_incoming_removed:
  fixes env :: transfer_env and tid :: u64
  assumes ok: "world_ok cap w" and turn: "reserve_turn cap sz (pool_reserved (receive_reservations (tw_state w))) = Ok n"
    and fresh: "tw_disk w q = None"
  defines "w2 \<equiv> remove_incoming env tid w"
  obtains n' where "reserve_turn cap sz (pool_reserved (receive_reservations (tw_state w2))) = Ok n'"
    "insert_incoming env tid tr (w\<lparr>tw_disk := (tw_disk w)(q \<mapsto> []),
       tw_state := (tw_state w)\<lparr>receive_reservations := (receive_reservations (tw_state w))\<lparr>pool_reserved := n\<rparr>\<rparr>\<rparr>) =
     w2\<lparr>tw_disk := (tw_disk w2)(q \<mapsto> []),
       tw_state := (tw_state w2)\<lparr>receive_reservations := (receive_reservations (tw_state w2))\<lparr>pool_reserved := n'\<rparr>,
         incoming := (incoming (tw_state w2))(tid \<mapsto> tr)\<rparr>\<rparr>"
proof (cases "incoming (tw_state w) tid")
  case None
  then show thesis using turn
    by (intro that [of n]) (auto simp: w2_def remove_incoming_def insert_incoming_def Let_def)
next
  case (Some tr0)
  let ?v = "pool_reserved (receive_reservations (tw_state w))"
  have q: "staging_path (stager tr0) \<noteq> q" and fin: "finite (dom (incoming (tw_state w)))"
      and res: "unat ?v = reserved_by (incoming (tw_state w))"
    using ok Some fresh by (auto simp: world_ok_def Let_def staged_def)
  have le: "reservation tr0 \<le> ?v"
    using reserved_by_remove [OF fin Some] res by (simp add: word_le_nat_alt)
  have n: "unat n = unat ?v + unat sz" "n \<le> cap" using turn by (simp_all add: reserve_turn_eq_Ok)
  then have "reservation tr0 \<le> n" using le by (simp add: word_le_nat_alt)
  then have "unat (n - reservation tr0) = unat n - unat (reservation tr0)" by (rule unat_sub)
  then have turn2: "reserve_turn cap sz (?v - reservation tr0) = Ok (n - reservation tr0)"
    using n le unat_sub [OF le] by (auto simp: reserve_turn_eq_Ok word_le_nat_alt)
  show thesis using turn2 Some q
    by (intro that [of "n - reservation tr0"])
       (auto simp: w2_def remove_incoming_def insert_incoming_def drop_transfer_def Let_def IncomingFileStager_drop_def
          ReceiveReservation_drop_def fun_upd_twist)
qed

lemma accept_offer_cases:
  assumes h: "accept_offer c env cfg tid safe sz h w = (w', r)" and dir: "recv_file_dir cfg = Some dir"
  obtains (refused) rt where "w' = w\<lparr>tw_runtime := rt\<rparr>" "r \<noteq> Ok (FtAccept tid)"
    | (accepted) rt n q rnd parent where
        "reserve_turn (pool_capacity (receive_reservations (tw_state w))) sz (pool_reserved (receive_reservations (tw_state w))) = Ok n"
        "tw_disk w q = None" "q = path_join parent (staging_name (process_id (te_staging env)) rnd)" "r = Ok (FtAccept tid)"
        "w' = insert_incoming env tid
            \<lparr>in_name = safe, in_expected_size = sz, stager = \<lparr>final_path = path_join dir safe, staging_path = q,
              file_open = True, hashed = [], expected_size = sz, expected_hash = h, received_count = 0\<rparr>, reservation = sz\<rparr>
            (w\<lparr>tw_runtime := rt, tw_disk := (tw_disk w)(q \<mapsto> []),
               tw_state := (tw_state w)\<lparr>receive_reservations := (receive_reservations (tw_state w))\<lparr>pool_reserved := n\<rparr>\<rparr>\<rparr>)"
        "M1RuntimeSession_apply c (te_clock env) (Flow ReceiveFileFromViewer) (tw_runtime w) = (rt, Ok ())"
proof -
  obtain w1 r1 where 1: "allow_flow c env ReceiveFileFromViewer w = (w1, r1)" by fastforce
  then obtain rt where w1: "w1 = w\<lparr>tw_runtime := rt\<rparr>"
      and gate: "M1RuntimeSession_apply c (te_clock env) (Flow ReceiveFileFromViewer) (tw_runtime w) = (rt, r1)"
    by (rule allow_flow_frame)
  let ?p = "receive_reservations (tw_state w)"
  show thesis
  proof (cases "is_ok r1 \<and> is_ok (reserve_turn (pool_capacity ?p) sz (pool_reserved ?p))")
    case False
    then show thesis using h 1 w1
      by (intro refused [of rt]) (auto simp: accept_offer_def ReceiveReservationPool_try_reserve_def split: result.splits)
  next
    case True
    then obtain n u where n: "reserve_turn (pool_capacity ?p) sz (pool_reserved ?p) = Ok n" and u: "r1 = Ok u"
      by (auto simp: is_ok_iff)
    obtain fs r2 where cr: "IncomingFileStager_create (te_staging env) (path_join dir safe) sz h (tw_disk w) = (fs, r2)" by fastforce
    from cr show thesis
    proof (cases rule: create_cases)
      case (failed e)
      then show thesis using h 1 w1 n u cr dir
        by (intro refused [of rt]) (auto simp: accept_offer_def ReceiveReservationPool_try_reserve_def)
    next
      case (created q parent rnd)
      then show thesis using h 1 w1 n u cr dir gate
        by (intro accepted [of n q parent rnd rt]) (auto simp: accept_offer_def ReceiveReservationPool_try_reserve_def)
    qed
  qed
qed

lemma accept_offer_step:
  assumes ok: "transfers_ok cap cfg M w" and h: "accept_offer c env cfg tid safe sz h w = (w', r)"
    and dir: "recv_file_dir cfg = Some dir" and name: "sanitize_transfer_filename name = Some safe" "sz \<le> max_bytes cfg"
      "card (dom (incoming (tw_state w))) < MAX_CONCURRENT_INCOMING_TRANSFERS" "Some (FtOffer tid name sz h) \<in> M"
  shows "transfers_ok cap cfg M w' \<and> writes c cfg M w w'"
  using h dir
proof (cases rule: accept_offer_cases)
  case (refused rt)
  then show ?thesis using ok by simp
next
  case (accepted rt n q rnd parent)
  let ?w = "w\<lparr>tw_runtime := rt\<rparr>" and ?st = "\<lparr>final_path = path_join dir safe, staging_path = q,
              file_open = True, hashed = [], expected_size = sz, expected_hash = h, received_count = 0\<rparr>"
  let ?tr = "\<lparr>in_name = safe, in_expected_size = sz, stager = ?st, reservation = sz\<rparr>"
  let ?w2 = "remove_incoming env tid ?w"
  have ok1: "transfers_ok cap cfg M ?w" and cap: "pool_capacity (receive_reservations (tw_state w)) = cap"
    using ok by (simp_all add: transfers_ok_def world_ok_def Let_def)
  obtain n' where turn: "reserve_turn cap sz (pool_reserved (receive_reservations (tw_state ?w2))) = Ok n'"
    and w': "w' = ?w2\<lparr>tw_disk := (tw_disk ?w2)(q \<mapsto> []),
       tw_state := (tw_state ?w2)\<lparr>receive_reservations := (receive_reservations (tw_state ?w2))\<lparr>pool_reserved := n'\<rparr>,
         incoming := (incoming (tw_state ?w2))(tid \<mapsto> ?tr)\<rparr>\<rparr>"
    using insert_incoming_removed [of cap ?w sz n q env tid ?tr] ok1 accepted(1,2,5) cap by (auto simp: transfers_ok_def)
  have rem: "transfers_ok cap cfg M ?w2" "writes c cfg M ?w ?w2"
    using remove_incoming_step [OF ok1, of env tid c] by simp_all
  have inc: "incoming (tw_state ?w2) = (incoming (tw_state w))(tid := None)" "\<And>b. tw_disk ?w2 q = Some b \<Longrightarrow> tw_disk w q = Some b"
    using remove_incoming_ok [of cap ?w tid "tw_disk w" env] ok1 by (auto simp: transfers_ok_def)
  have fin: "finite (dom (incoming (tw_state w)))" using ok by (simp add: transfers_ok_def world_ok_def Let_def)
  have "card (dom (incoming (tw_state ?w2))) < MAX_CONCURRENT_INCOMING_TRANSFERS"
    using name(3) card_Diff1_le [of "dom (incoming (tw_state w))" tid] by (simp add: inc)
  moreover have "tw_disk ?w2 q = None" using inc(2) accepted(2) by (cases "tw_disk ?w2 q") auto
  ultimately have "world_ok cap w' \<and> keeps ?w2 w'"
    unfolding w' using rem(1) turn inc(1)
    by (intro insert_fresh_ok [where sz = sz and final = "path_join dir safe" and h = h]) (auto simp: transfers_ok_def)
  moreover have named: "staging_named q" using accepted(3) unfolding staging_named_def by blast
  then have "\<exists>m\<in>M. offered_by cfg m ?st" using dir name by (fastforce simp: offered_by_def)
  ultimately have "transfers_ok cap cfg M w' \<and> writes c cfg M ?w2 w'"
    using rem(1) named unfolding transfers_ok_def writes_def by (auto simp: w')
  then show ?thesis using writes_trans [OF rem(2)] by simp
qed

lemma handle_accept_frame:
  assumes "handle_accept c env tid w = Some (w', ms, r)"
  obtains rt out where "w' = w\<lparr>tw_runtime := rt, tw_state := (tw_state w)\<lparr>outgoing := out\<rparr>\<rparr>"
proof (cases "\<exists>tr. outgoing (tw_state w) = Some tr \<and> out_transfer_id tr = tid")
  case False
  then have "w' = w" using assms by (auto simp: handle_accept_def split: option.splits)
  then show thesis by (intro that [of "outgoing (tw_state w)" "tw_runtime w"]) simp
next
  case True
  then obtain tr where tr: "outgoing (tw_state w) = Some tr" "out_transfer_id tr = tid" by blast
  obtain src w1 ms1 e where s: "stream_chunks c env tid (stream_fuel (out_source tr)) 0 (out_source tr) w = Some (src, w1, ms1, e)"
      and w': "w' = w1\<lparr>tw_state := (tw_state w1)\<lparr>outgoing := Some (tr\<lparr>out_source := src, out_started := True\<rparr>)\<rparr>\<rparr>"
    using assms tr by (auto simp: handle_accept_def)
  obtain rt where "w1 = w\<lparr>tw_runtime := rt\<rparr>" using stream_chunks_frame [OF s] by blast
  then show thesis using w' by (intro that [of "Some (tr\<lparr>out_source := src, out_started := True\<rparr>)" rt]) simp
qed

lemma forget_outgoing_frame: "\<exists>out. forget_outgoing tid w = w\<lparr>tw_state := (tw_state w)\<lparr>outgoing := out\<rparr>\<rparr>"
  by (cases "outgoing (tw_state w)") (force simp: forget_outgoing_def intro: exI [of _ "outgoing (tw_state w)"])+

lemma handle_offer_step:
  assumes ok: "transfers_ok cap cfg M w" and h: "handle_offer c env cfg tid name sz h w = (w', ms, r)"
    and M: "Some (FtOffer tid name sz h) \<in> M"
  shows "transfers_ok cap cfg M w' \<and> writes c cfg M w w'"
proof (cases "FileTransferState_evaluate_offer cfg name sz (tw_state w)")
  case (AcceptOffer safe)
  then obtain dir where d: "recv_file_dir cfg = Some dir" "sanitize_transfer_filename name = Some safe" "sz \<le> max_bytes cfg"
      "card (dom (incoming (tw_state w))) < MAX_CONCURRENT_INCOMING_TRANSFERS"
    by (rule evaluate_accepts)
  obtain w1 r1 where a: "accept_offer c env cfg tid safe sz h w = (w1, r1)" by fastforce
  then have "w' = w1" using h AcceptOffer by (auto simp: handle_offer_def send_message_def split: result.splits if_splits)
  then show ?thesis using accept_offer_step [OF ok a d M] by simp
next
  case (RejectOffer reason)
  then show ?thesis using h ok by (auto simp: handle_offer_def send_message_def split: if_splits)
qed

lemma handle_envelope_step:
  assumes ok: "transfers_ok cap cfg M w" and h: "handle_envelope c env cfg m w = Some (w', ms, r)" and M: "m \<in> M"
  shows "transfers_ok cap cfg M w' \<and> writes c cfg M w w'"
proof (cases m)
  case None
  then show ?thesis using ok h by simp
next
  case (Some msg)
  show ?thesis
  proof (cases msg)
    case (FtOffer tid name sz h)
    then show ?thesis using handle_offer_step [OF ok] assms(2) M Some by simp
  next
    case (FtAccept tid)
    then obtain out rt where "w' = w\<lparr>tw_runtime := rt, tw_state := (tw_state w)\<lparr>outgoing := out\<rparr>\<rparr>"
      using h Some handle_accept_frame by (metis handle_envelope.simps(3))
    then have "w' = (w\<lparr>tw_runtime := rt\<rparr>)\<lparr>tw_state := (tw_state (w\<lparr>tw_runtime := rt\<rparr>))\<lparr>outgoing := out\<rparr>\<rparr>" by simp
    then show ?thesis using ok by (simp only: transfers_irrelevant writes_refl)
  next
    case (FtReject tid reason)
    then show ?thesis using h Some ok forget_outgoing_frame [of tid w] by auto
  next
    case (FtChunk tid offset data)
    then show ?thesis using h Some handle_chunk_step [OF ok, of c env tid offset data] by auto
  next
    case (FtComplete tid)
    then show ?thesis using h Some handle_complete_step [OF ok] by simp
  next
    case (FtVerified tid v)
    then show ?thesis using h Some ok forget_outgoing_frame [of tid w] by auto
  qed
qed

section \<open>Runs of messages\<close>

fun transfer_run ::
    "('sk, 'vk, 'ml) crypto \<Rightarrow> FileTransferConfig \<Rightarrow> (transfer_env \<times> FileTransferMessage option) list \<Rightarrow>
     'sk transfer_world \<Rightarrow> ('sk transfer_world \<times> FileTransferMessage list) option" where
  "transfer_run c cfg [] w = Some (w, [])"
| "transfer_run c cfg ((env, m) # steps) w =
     (case handle_envelope c env cfg m w of
        None \<Rightarrow> None
      | Some (w', ms, _) \<Rightarrow> map_option (apsnd ((@) ms)) (transfer_run c cfg steps w'))"

definition source_sound :: "'sk transfer_world \<Rightarrow> bool" where
  "source_sound w \<longleftrightarrow> (\<forall>tr. outgoing (tw_state w) = Some tr \<longrightarrow> source_ok (out_source tr))"

lemma source_sound_irrelevant [simp]:
  "source_sound (w\<lparr>tw_runtime := rt\<rparr>) = source_sound w" "source_sound (w\<lparr>tw_disk := fs\<rparr>) = source_sound w"
  by (simp_all add: source_sound_def)

lemma next_chunk_sound:
  assumes "TransferSource_next_chunk c rest k src = (src', r)" and "source_ok src"
  shows "source_ok src'"
  using assms
proof (cases rule: next_chunk_cases)
  case (chunk data)
  have len: "unat (of_nat (length data) :: u64) = length data"
    using chunk(6) unat_u64_less [of "source_size src"] by (intro unat_of_nat_u64) linarith
  then have "unat (source_offset src + of_nat (length data)) = unat (source_offset src) + length data"
    using chunk(6) unat_u64_less [of "source_size src"] by (subst unat_add_lem [THEN iffD1]) auto
  then show ?thesis using chunk(5,6) assms(2) by (simp add: source_ok_def word_le_nat_alt)
qed (use assms(2) in \<open>auto simp: source_ok_def\<close>)

lemma stream_chunks_sound:
  "stream_chunks c env tid fuel i src w = Some (src', w', ms, e) \<Longrightarrow> source_ok src \<Longrightarrow> source_ok src'"
proof (induction fuel arbitrary: i src w ms)
  case (Suc fuel)
  obtain src1 r1 where n: "TransferSource_next_chunk c (te_rest env i) FILE_TRANSFER_CHUNK_SIZE src = (src1, r1)" by fastforce
  then have "source_ok src1" using next_chunk_sound Suc.prems(2) by blast
  then show ?case using Suc.prems Suc.IH [where src = src1] n
    by (fastforce split: result.splits prod.splits option.splits if_splits)
qed simp

lemma outgoing_kept [simp]:
  "outgoing (tw_state (remove_incoming env tid w)) = outgoing (tw_state w)"
  "outgoing (tw_state (insert_incoming env tid tr w)) = outgoing (tw_state w)"
  "outgoing (tw_state (drop_transfer env tr w)) = outgoing (tw_state w)"
  by (simp_all add: remove_incoming_def insert_incoming_def drop_transfer_def Let_def split: option.splits)

lemma outgoing_allow_flow [simp]: "tw_state (fst (allow_flow c env p w)) = tw_state w"
  by (simp add: allow_flow_def split: prod.splits)

lemma receiver_keeps_outgoing:
  "outgoing (tw_state (handle_chunk c env tid offset data w)) = outgoing (tw_state w)"
  "outgoing (tw_state (fst (handle_complete c env tid w))) = outgoing (tw_state w)"
  "outgoing (tw_state (fst (handle_offer c env cfg tid name sz h w))) = outgoing (tw_state w)"
proof -
  have a: "tw_state w1 = tw_state w0" if "allow_flow c env p w0 = (w1, r)" for p w0 w1 r
    using outgoing_allow_flow [of c env p w0] that by simp
  show "outgoing (tw_state (handle_chunk c env tid offset data w)) = outgoing (tw_state w)"
    by (auto simp: handle_chunk_def dest: a split: prod.splits result.splits option.splits)
  show "outgoing (tw_state (fst (handle_complete c env tid w))) = outgoing (tw_state w)"
    by (auto simp: handle_complete_def Let_def send_message_def dest!: a split: prod.splits result.splits option.splits)
  show "outgoing (tw_state (fst (handle_offer c env cfg tid name sz h w))) = outgoing (tw_state w)"
    by (auto simp: handle_offer_def accept_offer_def send_message_def dest: a
        split: prod.splits result.splits option.splits OfferDecision.splits)
qed

lemma handle_accept_returns:
  assumes "source_sound w"
  shows "\<exists>w' ms r. handle_accept c env tid w = Some (w', ms, r) \<and> source_sound w'"
proof (cases "\<exists>tr. outgoing (tw_state w) = Some tr \<and> out_transfer_id tr = tid")
  case False
  then show ?thesis using assms by (auto simp: handle_accept_def split: option.splits)
next
  case True
  then obtain tr where tr: "outgoing (tw_state w) = Some tr" "out_transfer_id tr = tid" by blast
  then have ok: "source_ok (out_source tr)" using assms by (simp add: source_sound_def)
  obtain src w1 ms1 e where s: "stream_chunks c env tid (stream_fuel (out_source tr)) 0 (out_source tr) w = Some (src, w1, ms1, e)"
    using stream_chunks_returns [OF ok order_refl, of c env tid 0 w] by auto
  then show ?thesis using tr stream_chunks_sound [OF s ok] by (auto simp: handle_accept_def source_sound_def)
qed

lemma handle_envelope_returns:
  assumes "source_sound w"
  shows "\<exists>w' ms r. handle_envelope c env cfg m w = Some (w', ms, r) \<and> source_sound w'"
proof (cases m)
  case None
  then show ?thesis using assms by simp
next
  case (Some msg)
  then show ?thesis
  proof (cases msg)
    case (FtOffer tid name sz h)
    then show ?thesis using Some assms receiver_keeps_outgoing(3) [of c env cfg tid name sz h w]
      by (cases "handle_offer c env cfg tid name sz h w") (auto simp: source_sound_def)
  next
    case (FtComplete tid)
    then show ?thesis using Some assms receiver_keeps_outgoing(2) [of c env tid w]
      by (cases "handle_complete c env tid w") (auto simp: source_sound_def)
  qed (use assms handle_accept_returns [OF assms, of c env] in
      \<open>auto simp: source_sound_def forget_outgoing_def receiver_keeps_outgoing split: option.splits\<close>)
qed

lemma transfer_run_ok:
  assumes "transfers_ok cap cfg M w" and "source_sound w" and "snd ` set steps \<subseteq> M"
  shows "\<exists>w' ms. transfer_run c cfg steps w = Some (w', ms) \<and> transfers_ok cap cfg M w' \<and> writes c cfg M w w' \<and> source_sound w'"
  using assms
proof (induction c cfg steps w rule: transfer_run.induct)
  case (2 c cfg env m steps w)
  obtain w1 ms1 r1 where h: "handle_envelope c env cfg m w = Some (w1, ms1, r1)" "source_sound w1"
    using handle_envelope_returns [OF 2(3)] by blast
  have 1: "transfers_ok cap cfg M w1" "writes c cfg M w w1" using handle_envelope_step [OF 2(2) h(1)] 2(4) by auto
  obtain w' ms where "transfer_run c cfg steps w1 = Some (w', ms)" "transfers_ok cap cfg M w'" "writes c cfg M w1 w'" "source_sound w'"
    using 2(1) [OF h(1) refl refl] 1(1) h(2) 2(4) by auto
  then show ?case using h(1) writes_trans [OF 1(2)] by auto
qed simp

text \<open>
  C13. The daemon starts with no incoming transfer and any outgoing one, and handles any messages whatever the file
  system and the clocks do. The handler returns on every one. Every file that was there is there unchanged at
  the end. Every other file is a staging file, or it stands under the bare name of an offer in the
  receive directory, within the size cap, and has exactly the size and the hash of that offer. At most eight
  transfers are open, and their sizes are what the budget has reserved, within its capacity.
\<close>

theorem received_files_as_offered:
  assumes "incoming (tw_state w) = Map.empty" and "receive_reservations (tw_state w) = ReceiveReservationPool_new cap"
    and "\<And>tr. outgoing (tw_state w) = Some tr \<Longrightarrow> source_ok (out_source tr)"
  shows "\<exists>w' ms. transfer_run c cfg steps w = Some (w', ms) \<and>
    (\<forall>q b. tw_disk w q = Some b \<longrightarrow> tw_disk w' q = Some b) \<and>
    (\<forall>q b. tw_disk w q = None \<longrightarrow> tw_disk w' q = Some b \<longrightarrow>
       (\<exists>dir pid r. q = path_join dir (staging_name pid r)) \<or>
       (\<exists>env tid name sz dir safe. (env, Some (FtOffer tid name sz (blake3_hash c b))) \<in> set steps \<and>
          recv_file_dir cfg = Some dir \<and> sanitize_transfer_filename name = Some safe \<and> CHR ''/'' \<notin> set safe \<and>
          q = path_join dir safe \<and> length b = unat sz \<and> sz \<le> max_bytes cfg)) \<and>
    card (dom (incoming (tw_state w'))) \<le> MAX_CONCURRENT_INCOMING_TRANSFERS \<and>
    (\<Sum>tid\<in>dom (incoming (tw_state w')). unat (expected_size (stager (the (incoming (tw_state w') tid))))) =
      unat (pool_reserved (receive_reservations (tw_state w'))) \<and>
    pool_reserved (receive_reservations (tw_state w')) \<le> cap"
proof -
  let ?M = "snd ` set steps"
  have "transfers_ok cap cfg ?M w"
    using assms(1,2) by (simp add: transfers_ok_def world_ok_def reserved_by_def ReceiveReservationPool_new_def)
  moreover have "source_sound w" using assms(3) by (simp add: source_sound_def)
  ultimately obtain w' ms where run: "transfer_run c cfg steps w = Some (w', ms)"
      and ok: "transfers_ok cap cfg ?M w'" and wr: "writes c cfg ?M w w'"
    using transfer_run_ok [of cap cfg ?M w steps c] by blast
  have res: "(\<Sum>tid\<in>dom (incoming (tw_state w')). unat (expected_size (stager (the (incoming (tw_state w') tid))))) =
      reserved_by (incoming (tw_state w'))"
    unfolding reserved_by_def using ok by (intro sum.cong) (auto simp: transfers_ok_def world_ok_def Let_def staged_def)
  have bare: "CHR ''/'' \<notin> set safe" if "sanitize_transfer_filename name = Some safe" for name safe
    using that file_name_plain(1) by (auto simp: sanitize_transfer_filename_def split: if_splits bind_splits)
  have old: "tw_disk w' q = Some b" if "tw_disk w q = Some b" for q b
    using wr that assms(1) by (simp add: writes_def keeps_def staging_paths_def)
  have new: "(\<exists>dir pid r. q = path_join dir (staging_name pid r)) \<or>
       (\<exists>env tid name sz dir safe. (env, Some (FtOffer tid name sz (blake3_hash c b))) \<in> set steps \<and>
          recv_file_dir cfg = Some dir \<and> sanitize_transfer_filename name = Some safe \<and> CHR ''/'' \<notin> set safe \<and>
          q = path_join dir safe \<and> length b = unat sz \<and> sz \<le> max_bytes cfg)"
    if q: "tw_disk w q = None" "tw_disk w' q = Some b" for q b
  proof (cases "staging_named q")
    case False
    then obtain m where m: "m \<in> ?M" "delivered c cfg m q b" using wr q unfolding writes_def by fastforce
    then show ?thesis using bare unfolding delivered_def by fastforce
  qed (auto simp: staging_named_def simp del: split_paired_Ex)
  show ?thesis
    using run old new res ok by (intro exI [of _ w'] exI [of _ ms]) (auto simp: transfers_ok_def world_ok_def Let_def)
qed

section \<open>Concrete transfers\<close>

definition demo_runtime :: "u8_32 M1RuntimeSession" where
  "demo_runtime = runtime_after demo_crypto (\<lambda>_. demo_time) [Offer, Grant M1PermissionSet_all]
     (M1RuntimeSession_new (filled 9) (filled 1) (filled 2) (filled 3) [])"

definition demo_receiver :: "u8_32 transfer_world" where
  "demo_receiver = \<lparr>tw_state = FileTransferState_new 100, tw_runtime = demo_runtime, tw_disk = Map.empty\<rparr>"

definition demo_sender :: "u8_32 transfer_world" where
  "demo_sender = \<lparr>tw_state = (FileTransferState_new 100)\<lparr>outgoing := Some \<lparr>out_transfer_id = 4,
       out_source = TransferSource_from_memory demo_crypto [1, 2, 3], out_started = False\<rparr>\<rparr>,
     tw_runtime = demo_runtime, tw_disk = Map.empty\<rparr>"

definition demo_transfer_env :: transfer_env where
  "demo_transfer_env = \<lparr>te_clock = (\<lambda>_. demo_time),
     te_staging = \<lparr>process_id = 5, random_pair = (\<lambda>i. (of_nat i, 9)), open_fails = (\<lambda>_. False)\<rparr>, te_written = None,
     te_finish = \<lparr>sync_works = True, link_works = True, unlink_works = True\<rparr>, te_send_ok = (\<lambda>_. True), te_rest = (\<lambda>_. Ok [])\<rparr>"

definition demo_transfer_config :: FileTransferConfig where
  "demo_transfer_config = \<lparr>recv_file_dir = Some ''recv'', max_bytes = 50\<rparr>"

theorem received_files_as_offered_witness:
  "\<exists>w' ms. transfer_run demo_crypto demo_transfer_config
     [(demo_transfer_env, Some (FtOffer 4 ''../a.txt'' 1 (filled 7))), (demo_transfer_env, Some (FtChunk 4 0 [1, 2])),
      (demo_transfer_env, Some (FtComplete 4))] (demo_receiver\<lparr>tw_disk := [''recv/a.txt'' \<mapsto> [8]]\<rparr>) = Some (w', ms) \<and>
     tw_disk w' ''recv/a.txt'' = Some [8] \<and> pool_reserved (receive_reservations (tw_state w')) \<le> 100"
  using received_files_as_offered [of "demo_receiver\<lparr>tw_disk := [''recv/a.txt'' \<mapsto> [8]]\<rparr>" 100 demo_crypto demo_transfer_config
    "[(demo_transfer_env, Some (FtOffer 4 ''../a.txt'' 1 (filled 7))), (demo_transfer_env, Some (FtChunk 4 0 [1, 2])),
      (demo_transfer_env, Some (FtComplete 4))]"]
  by (fastforce simp: demo_receiver_def FileTransferState_new_def)

end
