(* ===== verification/File_Transfer_Delivery.thy ===== *)
theory File_Transfer_Delivery
  imports File_Transfer_Safety
begin

text \<open>
  When files move: only under a grant of the session of \<open>M1_Session\<close>, and, from a sender to a receiver that
  meet no failing call, completely.
\<close>

section \<open>Files move only under a grant\<close>

definition permits :: "M1Permission \<Rightarrow> 'sk transfer_world \<Rightarrow> bool" where
  "permits p w \<longleftrightarrow> m1_state (rt_session (tw_runtime w)) = Active \<and>
     M1PermissionSet_contains (m1_granted (rt_session (tw_runtime w))) p"

lemma allow_flow_Ok: "allow_flow c env p w = (w1, Ok u) \<Longrightarrow> permits p w"
  by (auto simp: allow_flow_def M1RuntimeSession_apply_def permits_def m1_defs split: if_splits prod.splits)

lemma remove_incoming_disk:
  "tw_disk (remove_incoming env tid w) q = Some b \<Longrightarrow> tw_disk w q = Some b"
  "tw_disk (drop_transfer env tr w) q = Some b \<Longrightarrow> tw_disk w q = Some b"
  by (auto simp: remove_incoming_def drop_transfer_def Let_def IncomingFileStager_drop_def split: option.splits if_splits)

lemma not_permitted:
  assumes "\<not> permits p w"
  obtains rt e where "allow_flow c env p w = (w\<lparr>tw_runtime := rt\<rparr>, Err e)"
proof -
  obtain w1 r where 1: "allow_flow c env p w = (w1, r)" by fastforce
  then obtain rt where "w1 = w\<lparr>tw_runtime := rt\<rparr>" by (rule allow_flow_frame)
  then show thesis using 1 allow_flow_Ok [of c env p w w1] assms that by (cases r) auto
qed

lemma handle_offer_denied:
  assumes "\<not> permits ReceiveFileFromViewer w" and "handle_offer c env cfg tid name sz h w = (w', ms, r)"
  shows "tw_disk w' = tw_disk w"
proof -
  obtain rt e where "allow_flow c env ReceiveFileFromViewer w = (w\<lparr>tw_runtime := rt\<rparr>, Err e)" by (rule not_permitted [OF assms(1)])
  then show ?thesis using assms(2) by (auto simp: handle_offer_def accept_offer_def send_message_def split: OfferDecision.splits if_splits)
qed

lemma handle_chunk_denied:
  assumes "\<not> permits ReceiveFileFromViewer w" and "tw_disk (handle_chunk c env tid offset data w) q = Some b"
  shows "tw_disk w q = Some b"
proof -
  obtain rt e where "allow_flow c env ReceiveFileFromViewer w = (w\<lparr>tw_runtime := rt\<rparr>, Err e)" by (rule not_permitted [OF assms(1)])
  then show ?thesis using assms(2) by (auto simp: handle_chunk_def dest: remove_incoming_disk)
qed

lemma handle_complete_denied:
  assumes "\<not> permits ReceiveFileFromViewer w" and "handle_complete c env tid w = (w', ms, r)" and "tw_disk w' q = Some b"
  shows "tw_disk w q = Some b"
proof -
  let ?w = "w\<lparr>tw_state := (tw_state w)\<lparr>incoming := (incoming (tw_state w))(tid := None)\<rparr>\<rparr>"
  have "\<not> permits ReceiveFileFromViewer ?w" using assms(1) by (simp add: permits_def)
  then obtain rt e where "allow_flow c env ReceiveFileFromViewer ?w = (?w\<lparr>tw_runtime := rt\<rparr>, Err e)"
    by (rule not_permitted)
  then show ?thesis
    using assms(2,3) by (auto simp: handle_complete_def send_message_def dest: remove_incoming_disk split: option.splits if_splits)
qed

lemma handle_accept_denied:
  assumes "\<not> permits SendFileToViewer w" and "handle_accept c env tid w = Some (w', ms, r)"
  shows "ms = []"
proof -
  obtain rt e where "allow_flow c env SendFileToViewer w = (w\<lparr>tw_runtime := rt\<rparr>, Err e)" by (rule not_permitted [OF assms(1)])
  then show ?thesis using assms(2) by (auto simp: handle_accept_def stream_fuel_def split: option.splits if_splits)
qed

lemma other_messages:
  "handle_offer c env cfg tid name sz h w = (w', ms, r) \<Longrightarrow> FtChunk i off data \<notin> set ms"
  "handle_complete c env tid w = (w', ms, r) \<Longrightarrow> FtChunk i off data \<notin> set ms"
  by (auto simp: handle_offer_def handle_complete_def accept_offer_def send_message_def Let_def
      split: OfferDecision.splits if_splits prod.splits result.splits option.splits)

text \<open>
  C16. Whatever message the daemon handles: a file or staging file gets new content only when the session is
  active with a grant that covers receiving files, and a chunk of a file is sent only when the grant covers sending.
\<close>

theorem files_move_under_grant:
  assumes "handle_envelope c env cfg m w = Some (w', ms, r)"
  shows "(\<forall>q b. tw_disk w' q = Some b \<longrightarrow> tw_disk w q = Some b \<or>
      m1_state (rt_session (tw_runtime w)) = Active \<and>
      M1PermissionSet_contains (m1_granted (rt_session (tw_runtime w))) ReceiveFileFromViewer) \<and>
    (\<forall>tid off data. FtChunk tid off data \<in> set ms \<longrightarrow>
      m1_state (rt_session (tw_runtime w)) = Active \<and>
      M1PermissionSet_contains (m1_granted (rt_session (tw_runtime w))) SendFileToViewer)"
  unfolding permits_def [symmetric]
proof (cases m)
  case (Some msg)
  then show "(\<forall>q b. tw_disk w' q = Some b \<longrightarrow> tw_disk w q = Some b \<or> permits ReceiveFileFromViewer w) \<and>
    (\<forall>tid off data. FtChunk tid off data \<in> set ms \<longrightarrow> permits SendFileToViewer w)"
  proof (cases msg)
    case (FtAccept tid)
    then have a: "handle_accept c env tid w = Some (w', ms, r)" using Some assms by simp
    then obtain out rt where "w' = w\<lparr>tw_runtime := rt, tw_state := (tw_state w)\<lparr>outgoing := out\<rparr>\<rparr>"
      by (rule handle_accept_frame)
    then show ?thesis using handle_accept_denied [OF _ a] by (cases "permits SendFileToViewer w") auto
  next
    case (FtOffer tid name sz h)
    then show ?thesis using Some assms handle_offer_denied [of w c env cfg tid name sz h w' ms r] other_messages(1) by fastforce
  next
    case (FtChunk tid off data)
    then show ?thesis using Some assms handle_chunk_denied [of w c env tid off data] by auto
  next
    case (FtComplete tid)
    then show ?thesis using Some assms handle_complete_denied [of w c env tid w' ms r] other_messages(2) by fastforce
  qed (use Some assms in \<open>auto simp: forget_outgoing_def split: option.splits if_splits\<close>)
qed (use assms in simp)

section \<open>A transfer between two peers\<close>

text \<open>The gate opens: the session is active with the permission, and the ledger has every event so far.\<close>

definition gate_open :: "M1Permission \<Rightarrow> 'sk transfer_world \<Rightarrow> bool" where
  "gate_open p w \<longleftrightarrow> permits p w \<and>
     next_audit_index (tw_runtime w) = length (m1_audit (rt_session (tw_runtime w)))"

lemma gate_opens:
  assumes "gate_open p w"
  obtains rt where "allow_flow c env p w = (w\<lparr>tw_runtime := rt\<rparr>, Ok ())" "gate_open p (w\<lparr>tw_runtime := rt\<rparr>)"
proof -
  let ?rt = "tw_runtime w"
  let ?m = "(rt_session ?rt)\<lparr>m1_audit := m1_audit (rt_session ?rt) @ [flow_event p]\<rparr>"
  have "allow_flow c env p w = (w\<lparr>tw_runtime := ?rt\<lparr>rt_session := ?m, next_audit_index := length (m1_audit ?m)\<rparr>\<rparr>, Ok ())"
    using assms by (auto simp: gate_open_def permits_def allow_flow_def M1RuntimeSession_apply_def m1_defs
        M1RuntimeSession_flush_new_audit_events_def consent_record_for_m1_event_def)
  then show thesis by (rule that) (use assms in \<open>auto simp: gate_open_def permits_def\<close>)
qed

lemma gate_open_irrelevant [simp]:
  "gate_open p (w\<lparr>tw_disk := fs\<rparr>) = gate_open p w" "gate_open p (w\<lparr>tw_state := st\<rparr>) = gate_open p w"
  by (simp_all add: gate_open_def permits_def)

text \<open>What the sender of \<open>data\<close> sends from position \<open>k\<close> on.\<close>

function chunk_messages :: "u64 \<Rightarrow> nat \<Rightarrow> bytes \<Rightarrow> FileTransferMessage list" where
  "chunk_messages tid k rest =
     (if rest = [] then [FtComplete tid]
      else FtChunk tid (of_nat k) (take FILE_TRANSFER_CHUNK_SIZE rest) #
        chunk_messages tid (k + min FILE_TRANSFER_CHUNK_SIZE (length rest)) (drop FILE_TRANSFER_CHUNK_SIZE rest))"
  by auto
termination
  by (relation "measure (\<lambda>(_, _, rest). length rest)") (auto simp: FILE_TRANSFER_CHUNK_SIZE_def)

declare chunk_messages.simps [simp del]

lemma chunk_size_pos [simp]: "0 < FILE_TRANSFER_CHUNK_SIZE"
  by (simp add: FILE_TRANSFER_CHUNK_SIZE_def)

definition memory_source_at :: "('sk, 'vk, 'ml) crypto \<Rightarrow> bytes \<Rightarrow> nat \<Rightarrow> TransferSource \<Rightarrow> bool" where
  "memory_source_at c data k src \<longleftrightarrow> source_kind src = Memory data \<and> k \<le> length data \<and> length data < 2 ^ 64 \<and>
     source_size src = of_nat (length data) \<and> source_hash src = blake3_hash c data \<and> source_offset src = of_nat k \<and>
     send_hashed src = take k data \<and> \<not> end_verified src"

lemma next_chunk_memory:
  assumes "memory_source_at c data k src" and "k < length data"
  obtains src' where "TransferSource_next_chunk c rest FILE_TRANSFER_CHUNK_SIZE src =
      (src', Ok (Some \<lparr>chunk_offset = of_nat k, chunk_data = take FILE_TRANSFER_CHUNK_SIZE (drop k data)\<rparr>))"
    "memory_source_at c data (k + min FILE_TRANSFER_CHUNK_SIZE (length (drop k data))) src'"
proof -
  let ?n = "min FILE_TRANSFER_CHUNK_SIZE (length data - k)"
  note m = assms(1) [unfolded memory_source_at_def]
  have u: "unat (of_nat k :: u64) = k" "unat (of_nat (length data) :: u64) = length data" "unat (of_nat ?n :: u64) = ?n"
    using assms(2) m by (auto intro!: unat_of_nat_u64)
  have ne: "(of_nat k :: u64) \<noteq> of_nat (length data)" using u(1,2) assms(2) by (metis nat_neq_iff)
  have sub: "unat (of_nat (length data) - of_nat k :: u64) = length data - k"
    using u(1,2) assms(2) unat_sub [of "of_nat k :: u64" "of_nat (length data)"] by (simp add: word_le_nat_alt)
  have add: "saturating_add (of_nat k) (of_nat ?n) = (of_nat (k + ?n) :: u64)"
  proof -
    have "k + ?n < 2 ^ 64" using m assms(2) by linarith
    then show ?thesis using u(1,3) by (simp add: saturating_add_def)
  qed
  have tk: "take ?n (drop k data) = take FILE_TRANSFER_CHUNK_SIZE (drop k data)" by (simp add: min_def)
  have rd: "read_chunk rest ?n src = Ok (take FILE_TRANSFER_CHUNK_SIZE (drop k data))"
    using m u(1) tk assms(2) by (simp add: read_chunk_def Let_def)
  let ?src = "src\<lparr>send_hashed := send_hashed src @ take FILE_TRANSFER_CHUNK_SIZE (drop k data), source_offset := of_nat (k + ?n)\<rparr>"
  have "TransferSource_next_chunk c rest FILE_TRANSFER_CHUNK_SIZE src =
      (?src, Ok (Some \<lparr>chunk_offset = of_nat k, chunk_data = take FILE_TRANSFER_CHUNK_SIZE (drop k data)\<rparr>))"
    using m ne sub rd add by (simp add: TransferSource_next_chunk_def Let_def min.commute)
  moreover have "take (k + ?n) data = take k data @ take FILE_TRANSFER_CHUNK_SIZE (drop k data)"
    unfolding take_add tk ..
  then have "memory_source_at c data (k + ?n) ?src" using m assms(2) by (simp add: memory_source_at_def)
  ultimately show thesis by (intro that [of ?src]) simp_all
qed

lemma next_chunk_memory_end:
  assumes "memory_source_at c data (length data) src"
  shows "TransferSource_next_chunk c rest FILE_TRANSFER_CHUNK_SIZE src = (src\<lparr>end_verified := True\<rparr>, Ok None)"
  using assms by (simp add: TransferSource_next_chunk_def memory_source_at_def TransferSource_verify_end_def)

lemma stream_memory:
  assumes "memory_source_at c data k src" and "gate_open SendFileToViewer w" and "\<And>j. te_send_ok env j"
    and "length data - k < fuel"
  shows "\<exists>src' w'. stream_chunks c env tid fuel i src w = Some (src', w', chunk_messages tid k (drop k data), Streamed)"
  using assms(1,2,4)
proof (induction fuel arbitrary: k src w i)
  case (Suc fuel)
  obtain rt where g: "allow_flow c env SendFileToViewer w = (w\<lparr>tw_runtime := rt\<rparr>, Ok ())"
      "gate_open SendFileToViewer (w\<lparr>tw_runtime := rt\<rparr>)" by (rule gate_opens [OF Suc.prems(2)])
  show ?case
  proof (cases "k < length data")
    case True
    let ?k = "k + min FILE_TRANSFER_CHUNK_SIZE (length (drop k data))"
    obtain src' where n: "TransferSource_next_chunk c (te_rest env i) FILE_TRANSFER_CHUNK_SIZE src =
        (src', Ok (Some \<lparr>chunk_offset = of_nat k, chunk_data = take FILE_TRANSFER_CHUNK_SIZE (drop k data)\<rparr>))"
      "memory_source_at c data ?k src'" by (rule next_chunk_memory [OF Suc.prems(1) True])
    have "0 < min FILE_TRANSFER_CHUNK_SIZE (length (drop k data))" using True by simp
    then have "length data - ?k < fuel" using Suc.prems(3) True by linarith
    from Suc.IH [OF n(2) g(2) this, of "Suc i"] obtain src2 w2 where
      "stream_chunks c env tid fuel (Suc i) src' (w\<lparr>tw_runtime := rt\<rparr>) = Some (src2, w2, chunk_messages tid ?k (drop ?k data), Streamed)"
      by blast
    moreover have "drop ?k data = drop FILE_TRANSFER_CHUNK_SIZE (drop k data)" by (simp add: min_def add.commute)
    ultimately show ?thesis using g(1) n(1) True assms(3) by (simp add: chunk_messages.simps [of tid k])
  next
    case False
    then have "k = length data" using Suc.prems(1) by (simp add: memory_source_at_def)
    then show ?thesis
      using g(1) next_chunk_memory_end [of c data src] Suc.prems(1) assms(3) by (simp add: chunk_messages.simps)
  qed
qed simp

section \<open>The receiver\<close>

definition calm :: "transfer_env \<Rightarrow> bool" where
  "calm env \<longleftrightarrow> te_written env = None \<and> sync_works (te_finish env) \<and> link_works (te_finish env) \<and>
     unlink_works (te_finish env) \<and> te_send_ok env 0"

definition receiving_at ::
    "('sk, 'vk, 'ml) crypto \<Rightarrow> bytes \<Rightarrow> u64 \<Rightarrow> IncomingTransfer \<Rightarrow> nat \<Rightarrow> 'sk transfer_world \<Rightarrow> bool" where
  "receiving_at c data tid tr k w \<longleftrightarrow> incoming (tw_state w) tid = Some tr \<and> k \<le> length data \<and> length data < 2 ^ 64 \<and>
     tw_disk w (staging_path (stager tr)) = Some (take k data) \<and> tw_disk w (final_path (stager tr)) = None \<and>
     file_open (stager tr) \<and> hashed (stager tr) = take k data \<and> expected_size (stager tr) = of_nat (length data) \<and>
     expected_hash (stager tr) = blake3_hash c data \<and> received_count (stager tr) = of_nat k"

definition next_transfer :: "bytes \<Rightarrow> IncomingTransfer \<Rightarrow> IncomingTransfer" where
  "next_transfer d tr = tr\<lparr>stager := (stager tr)\<lparr>hashed := hashed (stager tr) @ d,
     received_count := received_count (stager tr) + of_nat (length d)\<rparr>\<rparr>"

lemma receive_chunk:
  assumes r: "receiving_at c data tid tr k w" and g: "gate_open ReceiveFileFromViewer w" and "calm env"
    and d: "k + length d \<le> length data" "take (k + length d) data = take k data @ d"
  obtains rt where "handle_chunk c env tid (of_nat k) d w = w\<lparr>tw_runtime := rt,
      tw_disk := (tw_disk w)(staging_path (stager tr) \<mapsto> take (k + length d) data),
      tw_state := (tw_state w)\<lparr>incoming := (incoming (tw_state w))(tid \<mapsto> next_transfer d tr)\<rparr>\<rparr>"
    "receiving_at c data tid (next_transfer d tr) (k + length d) (handle_chunk c env tid (of_nat k) d w)"
    "gate_open ReceiveFileFromViewer (handle_chunk c env tid (of_nat k) d w)"
proof -
  obtain rt where a: "allow_flow c env ReceiveFileFromViewer w = (w\<lparr>tw_runtime := rt\<rparr>, Ok ())"
      and g': "gate_open ReceiveFileFromViewer (w\<lparr>tw_runtime := rt\<rparr>)" by (rule gate_opens [OF g])
  note m = r [unfolded receiving_at_def]
  have u: "unat (of_nat k :: u64) = k" "unat (of_nat (length d) :: u64) = length d"
      "unat (of_nat (length data) :: u64) = length data" "unat (of_nat (k + length d) :: u64) = k + length d"
    using d(1) m by (auto intro!: unat_of_nat_u64 simp del: of_nat_add)
  have add: "checked_add (of_nat k) (of_nat (length d)) = Some (of_nat (k + length d) :: u64)"
    using u by (simp add: checked_add_eq_Some)
  have "\<not> (of_nat (length data) :: u64) < of_nat (k + length d)" using u d(1) by (simp add: word_less_nat_alt)
  then have "IncomingFileStager_append (te_written env) (of_nat k) d (stager tr) (tw_disk w) =
      ((stager (next_transfer d tr), (tw_disk w)(staging_path (stager tr) \<mapsto> take (k + length d) data)), Ok (of_nat (k + length d)))"
    using m add d assms(3) by (simp add: IncomingFileStager_append_def next_transfer_def calm_def)
  then have h: "handle_chunk c env tid (of_nat k) d w = w\<lparr>tw_runtime := rt,
      tw_disk := (tw_disk w)(staging_path (stager tr) \<mapsto> take (k + length d) data),
      tw_state := (tw_state w)\<lparr>incoming := (incoming (tw_state w))(tid \<mapsto> next_transfer d tr)\<rparr>\<rparr>"
    using a m by (simp add: handle_chunk_def next_transfer_def)
  show thesis
  proof (rule that [OF h])
    show "receiving_at c data tid (next_transfer d tr) (k + length d) (handle_chunk c env tid (of_nat k) d w)"
      unfolding h using m d by (auto simp: receiving_at_def next_transfer_def)
    show "gate_open ReceiveFileFromViewer (handle_chunk c env tid (of_nat k) d w)"
      unfolding h using g' by simp
  qed
qed

lemma receive_complete:
  assumes r: "receiving_at c data tid tr (length data) w" and g: "gate_open ReceiveFileFromViewer w" and "calm env"
  shows "\<exists>rt. handle_complete c env tid w = (w\<lparr>tw_runtime := rt,
      tw_disk := (tw_disk w)(final_path (stager tr) \<mapsto> data, staging_path (stager tr) := None),
      tw_state := (tw_state w)\<lparr>incoming := (incoming (tw_state w))(tid := None),
        receive_reservations := ReceiveReservation_drop (reservation tr) (receive_reservations (tw_state w))\<rparr>\<rparr>,
      [FtVerified tid True], Ok ())"
proof -
  let ?w = "w\<lparr>tw_state := (tw_state w)\<lparr>incoming := (incoming (tw_state w))(tid := None)\<rparr>\<rparr>"
  have "gate_open ReceiveFileFromViewer ?w" using g by simp
  then obtain rt where a: "allow_flow c env ReceiveFileFromViewer ?w = (?w\<lparr>tw_runtime := rt\<rparr>, Ok ())" by (rule gate_opens)
  have "IncomingFileStager_finish c (te_finish env) (stager tr) (tw_disk w) =
      ((tw_disk w)(final_path (stager tr) \<mapsto> data, staging_path (stager tr) := None), Ok ())"
    using r assms(3) by (simp add: receiving_at_def IncomingFileStager_finish_def calm_def IncomingFileStager_drop_def)
  then show ?thesis
    using a r assms(3) by (intro exI [of _ rt]) (simp add: handle_complete_def receiving_at_def calm_def send_message_def)
qed

lemma receive_memory:
  assumes "receiving_at c data tid tr k w" and "gate_open ReceiveFileFromViewer w" and calm: "calm env"
  shows "\<exists>w'. transfer_run c cfg (map (\<lambda>m. (env, Some m)) (chunk_messages tid k (drop k data))) w = Some (w', [FtVerified tid True]) \<and>
    tw_disk w' = (tw_disk w)(final_path (stager tr) \<mapsto> data, staging_path (stager tr) := None) \<and>
    incoming (tw_state w') = (incoming (tw_state w))(tid := None) \<and> outgoing (tw_state w') = outgoing (tw_state w) \<and>
    receive_reservations (tw_state w') = ReceiveReservation_drop (reservation tr) (receive_reservations (tw_state w))"
  using assms(1,2)
proof (induction "length data - k" arbitrary: k w tr rule: less_induct)
  case less
  show ?case
  proof (cases "k < length data")
    case False
    then have k: "k = length data" using less.prems(1) by (simp add: receiving_at_def)
    obtain rt where "handle_complete c env tid w = (w\<lparr>tw_runtime := rt,
      tw_disk := (tw_disk w)(final_path (stager tr) \<mapsto> data, staging_path (stager tr) := None),
      tw_state := (tw_state w)\<lparr>incoming := (incoming (tw_state w))(tid := None),
        receive_reservations := ReceiveReservation_drop (reservation tr) (receive_reservations (tw_state w))\<rparr>\<rparr>,
      [FtVerified tid True], Ok ())"
      using receive_complete [OF less.prems(1) [unfolded k] less.prems(2) calm] by blast
    then show ?thesis using k by (simp add: chunk_messages.simps)
  next
    case True
    let ?d = "take FILE_TRANSFER_CHUNK_SIZE (drop k data)"
    let ?k = "k + length ?d" and ?tr = "next_transfer ?d tr"
    have d: "?k \<le> length data" "take ?k data = take k data @ ?d" "drop FILE_TRANSFER_CHUNK_SIZE (drop k data) = drop ?k data"
      using True by (auto simp: take_add min_def add.commute)
    obtain rt where h: "handle_chunk c env tid (of_nat k) ?d w = w\<lparr>tw_runtime := rt,
        tw_disk := (tw_disk w)(staging_path (stager tr) \<mapsto> take ?k data),
        tw_state := (tw_state w)\<lparr>incoming := (incoming (tw_state w))(tid \<mapsto> ?tr)\<rparr>\<rparr>"
      and r: "receiving_at c data tid ?tr ?k (handle_chunk c env tid (of_nat k) ?d w)"
      and g: "gate_open ReceiveFileFromViewer (handle_chunk c env tid (of_nat k) ?d w)"
      by (rule receive_chunk [OF less.prems calm d(1,2)])
    have "0 < length ?d" using True by simp
    then have "length data - ?k < length data - k" using True by linarith
    from less.hyps [OF this r g] obtain w' where
      w': "transfer_run c cfg (map (\<lambda>m. (env, Some m)) (chunk_messages tid ?k (drop ?k data))) (handle_chunk c env tid (of_nat k) ?d w) =
        Some (w', [FtVerified tid True])"
      "tw_disk w' = (tw_disk (handle_chunk c env tid (of_nat k) ?d w))(final_path (stager ?tr) \<mapsto> data, staging_path (stager ?tr) := None)"
      "incoming (tw_state w') = (incoming (tw_state (handle_chunk c env tid (of_nat k) ?d w)))(tid := None)"
      "outgoing (tw_state w') = outgoing (tw_state (handle_chunk c env tid (of_nat k) ?d w))"
      "receive_reservations (tw_state w') =
        ReceiveReservation_drop (reservation ?tr) (receive_reservations (tw_state (handle_chunk c env tid (of_nat k) ?d w)))"
      by blast
    have msgs: "chunk_messages tid k (drop k data) = FtChunk tid (of_nat k) ?d # chunk_messages tid ?k (drop ?k data)"
      using True d(3) by (simp add: chunk_messages.simps [of tid k] min.commute)
    have "tw_disk w' = (tw_disk w)(final_path (stager tr) \<mapsto> data, staging_path (stager tr) := None)"
      using less.prems(1) by (auto simp: w'(2) h next_transfer_def receiving_at_def)
    then show ?thesis using w'(1,3-5) by (simp add: msgs h next_transfer_def)
  qed
qed

section \<open>End to end\<close>

lemma sanitized_plain:
  assumes "sanitize_transfer_filename name = Some safe"
  shows "CHR ''/'' \<notin> set safe" and "safe \<notin> {[], ''.'', ''..''}"
  using assms file_name_plain(1) by (auto simp: sanitize_transfer_filename_def split: if_splits bind_splits)

lemma open_first_staging:
  assumes "fs (path_join parent (staging_name (process_id env) (random_pair env 0))) = None" and "\<not> open_fails env 0"
  shows "open_staging_file env parent fs =
    (fs(path_join parent (staging_name (process_id env) (random_pair env 0)) \<mapsto> []),
     Ok (path_join parent (staging_name (process_id env) (random_pair env 0))))"
proof -
  obtain n where n: "STAGING_ATTEMPTS = Suc n" by (simp add: STAGING_ATTEMPTS_def)
  show ?thesis unfolding open_staging_file_def n using assms by (simp add: Let_def)
qed

text \<open>An offer that finds room is accepted, and the receiver waits for the first byte.\<close>

lemma receive_offer:
  fixes env :: transfer_env
  assumes state: "tw_state w = FileTransferState_new cap" and g: "gate_open ReceiveFileFromViewer w" and "calm env"
    and data: "length data < 2 ^ 64" "of_nat (length data) \<le> max_bytes cfg" "of_nat (length data) \<le> cap"
    and name: "recv_file_dir cfg = Some dir" "sanitize_transfer_filename name = Some safe"
      "tw_disk w (path_join dir safe) = None"
    and fresh: "\<And>p. tw_disk w (path_join p staging) = None" "\<not> open_fails (te_staging env) 0" "safe \<noteq> staging"
    and staging: "staging = staging_name (process_id (te_staging env)) (random_pair (te_staging env) 0)"
  obtains w1 tr q where
    "handle_offer c env cfg tid name (of_nat (length data)) (blake3_hash c data) w = (w1, [FtAccept tid], Ok ())"
    "receiving_at c data tid tr 0 w1" "gate_open ReceiveFileFromViewer w1" "incoming (tw_state w1) = [tid \<mapsto> tr]"
    "receive_reservations (tw_state w1) = \<lparr>pool_capacity = cap, pool_reserved = reservation tr\<rparr>"
    "outgoing (tw_state w1) = None" "tw_disk w1 = (tw_disk w)(q \<mapsto> [])" "q \<noteq> path_join dir safe" "tw_disk w q = None"
    "final_path (stager tr) = path_join dir safe" "staging_path (stager tr) = q"
proof -
  obtain rt where a: "allow_flow c env ReceiveFileFromViewer w = (w\<lparr>tw_runtime := rt\<rparr>, Ok ())"
      and g': "gate_open ReceiveFileFromViewer (w\<lparr>tw_runtime := rt\<rparr>)" by (rule gate_opens [OF g])
  have "file_name (path_join dir safe) = Some safe" using sanitized_plain [OF name(2)] by (rule file_name_join)
  then obtain parent where parent: "receive_parent (path_join dir safe) = Ok parent"
    by (cases "path_parent (path_join dir safe) = []") (auto simp: receive_parent_def)
  let ?q = "path_join parent staging" and ?sz = "of_nat (length data) :: u64"
  let ?st = "\<lparr>final_path = path_join dir safe, staging_path = ?q, file_open = True, hashed = [],
      expected_size = ?sz, expected_hash = blake3_hash c data, received_count = 0\<rparr>"
  let ?tr = "\<lparr>in_name = safe, in_expected_size = ?sz, stager = ?st, reservation = ?sz\<rparr>"
  let ?w1 = "w\<lparr>tw_runtime := rt, tw_disk := (tw_disk w)(?q \<mapsto> []),
      tw_state := (tw_state w)\<lparr>receive_reservations := \<lparr>pool_capacity = cap, pool_reserved = ?sz\<rparr>, incoming := [tid \<mapsto> ?tr]\<rparr>\<rparr>"
  have ne: "?q \<noteq> path_join dir safe"
    using path_join_name [of parent staging dir safe] fresh(3) staging staging_name_plain sanitized_plain(1) [OF name(2)] by auto
  have "IncomingFileStager_create (te_staging env) (path_join dir safe) ?sz (blake3_hash c data) (tw_disk w) =
      ((tw_disk w)(?q \<mapsto> []), Ok ?st)"
    using parent open_first_staging [of "tw_disk w" parent "te_staging env"] fresh(1,2) staging
    by (simp add: IncomingFileStager_create_def)
  moreover have "reserve_turn cap ?sz 0 = Ok ?sz" using data(3) by (simp add: reserve_turn_eq_Ok)
  then have "ReceiveReservationPool_try_reserve ?sz (receive_reservations (tw_state w)) = (\<lparr>pool_capacity = cap, pool_reserved = ?sz\<rparr>, Ok ?sz)"
    using state by (simp add: FileTransferState_new_def ReceiveReservationPool_new_def ReceiveReservationPool_try_reserve_def)
  ultimately have acc: "accept_offer c env cfg tid safe ?sz (blake3_hash c data) w = (?w1, Ok (FtAccept tid))"
    using a name(1) state by (simp add: accept_offer_def insert_incoming_def remove_incoming_def FileTransferState_new_def)
  have "FileTransferState_evaluate_offer cfg name ?sz (tw_state w) = AcceptOffer safe"
    using name(1,2) data(2) state
    by (simp add: FileTransferState_evaluate_offer_def FileTransferState_new_def MAX_CONCURRENT_INCOMING_TRANSFERS_def not_less)
  then have h: "handle_offer c env cfg tid name ?sz (blake3_hash c data) w = (?w1, [FtAccept tid], Ok ())"
    using acc \<open>calm env\<close> by (simp add: handle_offer_def send_message_def calm_def)
  show thesis
    by (rule that [OF h, of ?tr ?q])
       (use data(1) name(3) ne g' fresh(1) state in \<open>auto simp: receiving_at_def FileTransferState_new_def\<close>)
qed

text \<open>
  C17. A file of any content that was offered from memory is accepted, streamed and delivered: with consent on both
  sides, room in the budget, a free name and no failing call, the receiver answers with its acceptance and
  then, after exactly the messages that the sender emits on it, with a positive verification. The file is in the
  receive directory with that content, nothing else is left on the disk, and the receiver is as it was.
\<close>

theorem file_transfer_end_to_end:
  assumes sender: "outgoing (tw_state ws) =
        Some \<lparr>out_transfer_id = tid, out_source = TransferSource_from_memory c data, out_started = False\<rparr>"
      "gate_open SendFileToViewer ws" "\<And>j. te_send_ok es j"
    and receiver: "tw_state wr = FileTransferState_new cap" "gate_open ReceiveFileFromViewer wr" "calm er"
    and data: "length data < 2 ^ 64" "of_nat (length data) \<le> max_bytes cfg" "of_nat (length data) \<le> cap"
    and name: "recv_file_dir cfg = Some dir" "sanitize_transfer_filename name = Some safe"
      "tw_disk wr (path_join dir safe) = None"
    and fresh: "\<And>p. tw_disk wr (path_join p (staging_name (process_id (te_staging er)) (random_pair (te_staging er) 0))) = None"
      "\<not> open_fails (te_staging er) 0" "safe \<noteq> staging_name (process_id (te_staging er)) (random_pair (te_staging er) 0)"
  shows "\<exists>ws' ms wr'. handle_envelope c es cfg' (Some (FtAccept tid)) ws = Some (ws', ms, Ok ()) \<and>
    transfer_run c cfg ((er, Some (FtOffer tid name (of_nat (length data)) (blake3_hash c data))) # map (\<lambda>m. (er, Some m)) ms) wr =
      Some (wr', [FtAccept tid, FtVerified tid True]) \<and>
    tw_disk wr' = (tw_disk wr)(path_join dir safe \<mapsto> data) \<and> tw_state wr' = FileTransferState_new cap"
proof -
  let ?src = "TransferSource_from_memory c data" and ?ms = "chunk_messages tid 0 data"
  have "memory_source_at c data 0 ?src" using data(1) by (simp add: memory_source_at_def TransferSource_from_memory_def)
  moreover have "length data - 0 < stream_fuel ?src"
    using data(1) by (simp add: stream_fuel_def TransferSource_from_memory_def unat_of_nat_u64)
  ultimately obtain src' w' where "stream_chunks c es tid (stream_fuel ?src) 0 ?src ws = Some (src', w', ?ms, Streamed)"
    using stream_memory [of c data 0 ?src ws es "stream_fuel ?src" tid 0] sender(2,3) by auto
  then have s: "\<exists>ws'. handle_envelope c es cfg' (Some (FtAccept tid)) ws = Some (ws', ?ms, Ok ())"
    using sender(1) by (simp add: handle_accept_def)
  obtain w1 tr q where h: "handle_offer c er cfg tid name (of_nat (length data)) (blake3_hash c data) wr = (w1, [FtAccept tid], Ok ())"
    and r: "receiving_at c data tid tr 0 w1" "gate_open ReceiveFileFromViewer w1" "incoming (tw_state w1) = [tid \<mapsto> tr]"
      "receive_reservations (tw_state w1) = \<lparr>pool_capacity = cap, pool_reserved = reservation tr\<rparr>"
      "outgoing (tw_state w1) = None" "tw_disk w1 = (tw_disk wr)(q \<mapsto> [])" "q \<noteq> path_join dir safe" "tw_disk wr q = None"
      "final_path (stager tr) = path_join dir safe" "staging_path (stager tr) = q"
    by (rule receive_offer [OF receiver data name fresh refl])
  obtain wr' where run: "transfer_run c cfg (map (\<lambda>m. (er, Some m)) ?ms) w1 = Some (wr', [FtVerified tid True])"
      and disk: "tw_disk wr' = (tw_disk w1)(path_join dir safe \<mapsto> data, q := None)"
      and st: "incoming (tw_state wr') = (incoming (tw_state w1))(tid := None)"
        "outgoing (tw_state wr') = outgoing (tw_state w1)"
        "receive_reservations (tw_state wr') = ReceiveReservation_drop (reservation tr) (receive_reservations (tw_state w1))"
    using receive_memory [OF r(1,2) receiver(3), of cfg] r(9,10) by auto
  have "tw_state wr' = FileTransferState_new cap"
    using st r(3-5) by (simp add: FileTransferState_new_def ReceiveReservationPool_new_def ReceiveReservation_drop_def)
  moreover have "tw_disk wr' = (tw_disk wr)(path_join dir safe \<mapsto> data)" using disk r(6,7,8) by auto
  ultimately show ?thesis using s h run by auto
qed

section \<open>The staging namespace is not reserved\<close>

text \<open>
  A peer may offer a file whose name is that of a staging file. It is accepted and delivered under that
  name, and the next process removes it as an orphan.
\<close>

lemma delivered_file_cleaned_up:
  fixes name :: string
  defines "name \<equiv> ''.xenia-receive-7-0123456789abcdef0123456789abcdef.tmp''"
  shows "sanitize_transfer_filename name = Some name"
    and "pid \<noteq> 7 \<Longrightarrow> fs (path_join dir name) = Some b \<Longrightarrow>
      cleanup_orphaned_receive_staging pid dir (Ok [(Some name, True)]) fs = (fs(path_join dir name := None), Ok 1)"
proof -
  have "CHR ''/'' \<notin> set name" "name \<notin> {[], ''.'', ''..''}" by (simp_all add: name_def)
  then show "sanitize_transfer_filename name = Some name"
    by (simp add: sanitize_transfer_filename_def file_name_of_plain)
  have "owned_receive_staging_pid name = Some 7" unfolding name_def owned_receive_staging_pid_def RECEIVE_STAGING_PREFIX_def RECEIVE_STAGING_SUFFIX_def
    by (simp add: strip_prefix_def strip_suffix_def split_once_def is_ascii_digit_def is_ascii_hexdigit_def parse_u32_def)
  then show "pid \<noteq> 7 \<Longrightarrow> fs (path_join dir name) = Some b \<Longrightarrow>
      cleanup_orphaned_receive_staging pid dir (Ok [(Some name, True)]) fs = (fs(path_join dir name := None), Ok 1)"
    by (simp add: cleanup_orphaned_receive_staging_def)
qed

section \<open>Transfers that happen\<close>

lemma demo_gate_open:
  "tw_runtime w = demo_runtime \<Longrightarrow> M1PermissionSet_contains M1PermissionSet_all p \<Longrightarrow> gate_open p w"
proof -
  let ?ops = "[Offer, Grant M1PermissionSet_all]"
  have "mirrors demo_crypto (filled 9) (filled 1) (filled 2) (filled 3) [] ?ops demo_runtime"
    unfolding demo_runtime_def by (rule runtime_mirrors [OF _ demo_serializes]) simp_all
  then have "rt_session demo_runtime = m1_after ?ops" "next_audit_index demo_runtime = length (m1_audit (m1_after ?ops))"
    by (simp_all add: mirrors_def)
  moreover have "m1_state (m1_after ?ops) = Active" "m1_granted (m1_after ?ops) = M1PermissionSet_all"
    by (simp_all add: m1_after_def m1_defs M1SessionMachine_new_def)
  ultimately show "tw_runtime w = demo_runtime \<Longrightarrow> M1PermissionSet_contains M1PermissionSet_all p \<Longrightarrow> gate_open p w"
    by (simp add: gate_open_def permits_def)
qed

theorem files_move_under_grant_witness:
  "\<exists>w' ms r. handle_envelope demo_crypto demo_transfer_env demo_transfer_config (Some (FtAccept 4))
      (demo_sender\<lparr>tw_runtime := demo_runtime\<lparr>rt_session := M1SessionMachine_new\<rparr>\<rparr>) = Some (w', ms, r) \<and>
    (\<forall>tid off data. FtChunk tid off data \<notin> set ms)"
proof -
  let ?w = "demo_sender\<lparr>tw_runtime := demo_runtime\<lparr>rt_session := M1SessionMachine_new\<rparr>\<rparr>"
  have "source_sound ?w"
    by (simp add: source_sound_def source_ok_def demo_sender_def TransferSource_from_memory_def)
  then obtain w' ms r where h: "handle_envelope demo_crypto demo_transfer_env demo_transfer_config (Some (FtAccept 4)) ?w = Some (w', ms, r)"
    using handle_envelope_returns by blast
  then show ?thesis using files_move_under_grant [OF h] by (auto simp: M1SessionMachine_new_def)
qed

theorem file_transfer_end_to_end_witness:
  "\<exists>ws' ms wr'. handle_envelope demo_crypto demo_transfer_env demo_transfer_config (Some (FtAccept 4)) demo_sender = Some (ws', ms, Ok ()) \<and>
    transfer_run demo_crypto demo_transfer_config
      ((demo_transfer_env, Some (FtOffer 4 ''../a.txt'' (of_nat (length [1, 2, 3 :: u8])) (blake3_hash demo_crypto [1, 2, 3]))) #
        map (\<lambda>m. (demo_transfer_env, Some m)) ms) demo_receiver = Some (wr', [FtAccept 4, FtVerified 4 True]) \<and>
    tw_disk wr' = (tw_disk demo_receiver)(path_join ''recv'' ''a.txt'' \<mapsto> [1, 2, 3]) \<and> tw_state wr' = FileTransferState_new 100"
proof (rule file_transfer_end_to_end)
  show "gate_open SendFileToViewer demo_sender" "gate_open ReceiveFileFromViewer demo_receiver"
    by (rule demo_gate_open; simp add: demo_sender_def demo_receiver_def M1PermissionSet_all_def)+
  show "sanitize_transfer_filename ''../a.txt'' = Some ''a.txt''"
    by (simp add: sanitize_transfer_filename_def file_name_def path_names_def Let_def)
qed (simp_all add: demo_sender_def demo_receiver_def demo_transfer_env_def demo_transfer_config_def calm_def
    staging_name_def RECEIVE_STAGING_PREFIX_def)

end
