(* ===== verification/Spec2Isabelle.thy ===== *)
theory Spec2Isabelle
  imports Ledger_Evidence Ledger_Witness Peer_Handshake_Agreement Session_Epoch Operator_Daemon
    Compaction_Lifecycle Consent_Decisions File_Transfer_Delivery
begin

text \<open>
  \<^bold>\<open>Verification of the Xenia peer.\<close>

  Xenia is a remote session system in Rust. A host daemon shares its screen, input, clipboard and files
  with a viewer after a post-quantum handshake; every consent that allows it is decided by an enrolled
  operator and recorded in a signed, hash-linked ledger, which is persisted, exported as evidence, archived
  and compacted. This development models the parts of it that decide what is allowed and what is recorded.

  \<^bold>\<open>The parts and their theories.\<close>

  \<^item> The ledger crate, \<open>src/crates/xenia-ledger/src\<close>. \<open>Ledger_Primitives\<close>, \<open>Ledger_Entry\<close>
    (\<open>entry.rs\<close>, \<open>hash.rs\<close>, \<open>errors.rs\<close>), \<open>Ledger_Signature\<close>, \<open>Ledger_Policy\<close>, \<open>Ledger_Checkpoint\<close> and
    \<open>Ledger_Continuity\<close> (\<open>checkpoint.rs\<close>), \<open>Ledger_Verify\<close> and \<open>Ledger_Evidence\<close> (\<open>verify.rs\<close>),
    \<open>Ledger_Chain\<close>, \<open>Ledger_MlDsa_Chain\<close>, \<open>Ledger_Archive\<close>, \<open>Ledger_Compaction\<close>,
    \<open>Ledger_Key_Transition\<close>, \<open>Ledger_Witness\<close>, \<open>Ledger_Binding\<close> and \<open>Ledger_Seal\<close>. The state is the
    record \<open>Chain\<close>; its operations, the verifiers and the builders of every signed artifact are functions.
    Shown: chains that the operations reach verify, verified artifacts determine what they commit to or
    exhibit a named collision, what the builders produce is accepted, and the strictest evidence verifier
    accepts exactly the bundles that a predicate over their data alone describes.
  \<^item> The handshake, \<open>src/crates/xenia-handshake/src/lib.rs\<close> and
    \<open>src/crates/xenia-peer-core/src/handshake.rs\<close>. \<open>Handshake_Keys\<close>, \<open>Handshake_Manager\<close>,
    \<open>Peer_Handshake\<close>, \<open>Peer_Handshake_Agreement\<close>, \<open>Session_Epoch\<close>. The state is the manager with its
    single-use keys, and the epoch of a session. Shown: an honest exchange ends in agreement, a viewer that
    finishes agrees with the host whose key it verified or has accepted that key's signatures on a transcript
    which the host's run did not sign, lane keys are separated, a rekey keeps two peers in step, and the history
    of rekeys is committed.
  \<^item> Operators, \<open>src/crates/xenia-operator-proto/src/lib.rs\<close> and \<open>operator*.rs\<close> of
    \<open>src/apps/xenia-peer/src\<close>. \<open>Operator_Proto\<close>, \<open>Operator_Policy\<close>, \<open>Operator_Auth\<close>,
    \<open>Operator_Revocations\<close>, \<open>Operator_Http\<close>, and \<open>Operator_Daemon\<close>, where the HTTP handlers are the steps of a
    transition system. Shown: signed messages are unambiguous, a challenge is used once, a revoked
    operator is locked out, every privileged change presents a token that the daemon signed and that goes back
    to a login of the run (or is no token of the run), and the files round-trip.
  \<^item> Consent, \<open>consent_compaction.rs\<close>, \<open>audit_ledger_store.rs\<close>, \<open>consent_ledger_persistence.rs\<close>,
    \<open>operator_audit.rs\<close>, \<open>consent_server.rs\<close> and \<open>decode_consent_decision\<close> of \<open>main.rs\<close>.
    \<open>Consent_Recovery\<close>, \<open>Consent_Compaction\<close>, \<open>Compaction_Lifecycle\<close>, \<open>Byte_Codec\<close>,
    \<open>Audit_Ledger_Store\<close>, \<open>Consent_Server\<close>, \<open>Consent_Decisions\<close>. The state is the server with its
    ledger, its session registry and the disk. Shown: a decision that took effect is signed by an enrolled
    operator and is on the disk, a restart reads back exactly the ledger, with either persister, unless the
    directory could not be synced after the last rename (then the file of the complete ledger has the entry of
    the refused decision as well), and compaction changes neither the state nor what can be recovered.
  \<^item> The session, \<open>src/crates/xenia-peer-core/src/m1_session.rs\<close>, \<open>m1_ledger.rs\<close> and
    \<open>M1RuntimeSession\<close> of \<open>m1_runtime.rs\<close>. \<open>M1_Session\<close>, \<open>M1_Runtime\<close>. Shown: a flow is
    allowed exactly while a grant with its permission is in force, and the ledger mirrors the session.
  \<^item> File transfer, \<open>receive_reservation.rs\<close>, \<open>file_transfer.rs\<close> and \<open>transfer_source.rs\<close> of
    \<open>src/crates/xenia-peer-core/src\<close> and \<open>src/apps/xenia-peer/src/file_transfer.rs\<close>.
    \<open>Receive_Reservation\<close>, \<open>Rust_Paths\<close>, \<open>File_Staging\<close>, \<open>Transfer_Source\<close>, \<open>File_Transfer\<close>,
    \<open>File_Transfer_Safety\<close>, \<open>File_Transfer_Delivery\<close>. The state is the open transfers, the session
    runtime and the disk. Shown: the budget holds under every interleaving of the atomic operations, no
    file is ever overwritten, every delivered file is what an offer announced, files move only under a
    grant, and a transfer without failing calls delivers its content.

  \<open>Xenia_Prelude\<close> has the integers, byte arrays, the \<open>Result\<close> type and encoders; \<open>Rust_Strings\<close> and
  \<open>Rust_Paths\<close> have what the sources use of \<open>str\<close> and \<open>std::path\<close>. A Rust method \<open>Type::method\<close> is the
  constant \<open>Type_method\<close>; a constant of the source that is not in the map stands in the theory of the
  operations that use it. The property of this theory spans the chain and its verifiers.

  \<^bold>\<open>Interfaces.\<close> \<open>hash_walk\<close> and \<open>committed_walk\<close> (\<open>Hash_Walk\<close>) are the contract of every loop over a
  hash-linked log, interpreted on the chain verifier, the exported-chain verifier, the checkpoint extension
  and the rekey epochs. \<open>evidence_backend\<close> (\<open>Ledger_Signature\<close>) is interpreted on the three signature
  backends, \<open>append_operation\<close> (\<open>Ledger_Chain\<close>) on the three ways of appending, and \<open>durable_store\<close>
  (\<open>Consent_Server\<close>) on the two persisters; \<open>unsynced_store\<close>, the contract that also covers a failed sync of the
  directory and gives \<open>durable_store\<close>, on the persister of the complete ledger.

  \<^bold>\<open>Parameters.\<close> Code that is not in the tree is an argument: BLAKE3, Ed25519, ML-DSA, ML-KEM, HKDF, the
  bincode and JSON encoders, hex and base64. The hypotheses on them are named and say what their
  documentation says: a signature verifies under its key, a key decodes from its encoding, decapsulation
  inverts encapsulation, an encoder has an inverse. Nothing assumes that a hash has no collision or that
  a signature cannot be forged: such conclusions have a disjunct that names the collision or the forgery. Clocks,
  random numbers, what a file read returns, and which system call fails are arguments too, so the theorems
  hold for all of them. The \<open>demo\<close> constants are concrete instances for the witnesses.

  \<^bold>\<open>Integers, loops and fuel.\<close> Integers have the width they have in the source, and wrap or are checked where
  the source wraps or checks; \<open>usize\<close> has 64 bits. Loops are structural recursions. The one loop with
  fuel, \<open>stream_chunks\<close>, gets one turn more than there are bytes left; \<open>stream_chunks_returns\<close> shows that
  this is enough, because no chunk is empty, and \<open>received_files_as_offered\<close> states that the handler
  returns. The compare-and-exchange loop of a reservation is a step relation, with a bound on its retries.

  \<^bold>\<open>Simplifications.\<close> A handler of the daemon is one step, although it takes its locks one after the other;
  the reservations, which are lock-free, are interleaved. A disk is a map from paths to contents, without
  links or modes, and a path is the string as written: \<open>recv/./x\<close> and \<open>recv/x\<close> are two
  paths of the map. What a hasher has been fed is kept as bytes.

  \<^bold>\<open>Not modelled.\<close> Sealing with \<open>xenia-wire\<close>, which is not in the tree; sockets, QUIC and websocket
  transports; video, audio, capture and input injection; the launchers, viewers, mobile bindings and the
  administration site, which are user interfaces; the operator agent; the negotiated capability contexts of
  \<open>handshake.rs\<close>; the evidence directories and trust policies of \<open>m1_runtime.rs\<close>, whose content serde and
  chrono decide; the retirement, purge and destruction ceremonies that follow compaction; the
  zero-knowledge crates, the archive, the fuzzers and the scripts.
\<close>

text \<open>
  C3. Two chains that verify, have the same length and end in the same hash carry the same
  entries (sequence number, link, time and event), or the ledger's hash has a collision at one
  position of them.
\<close>

theorem verified_chains_same_head:
  assumes "Verifier_verify_chain c es pk = Ok ()" and "Verifier_verify_chain c fs pk' = Ok ()"
    and "length es = length fs" and "chain_head es = chain_head fs"
  shows "map entry_preimage es = map entry_preimage fs \<or>
    (\<exists>k < length es. entry_hash_collision c (entry_preimage (es ! k)) (entry_preimage (fs ! k)))"
  using chain_walk.same_head_same_log [OF assms(1,2) [unfolded Verifier_verify_chain_def] assms(3,4)]
  by (auto simp: entry_hash_collision_def)

theorem verified_chains_same_head_witness:
  "map entry_preimage (Chain_into_entries demo_chain2) =
     map entry_preimage (Chain_into_entries demo_chain2) \<or>
   (\<exists>k < length (Chain_into_entries demo_chain2).
      entry_hash_collision demo_crypto (entry_preimage (Chain_into_entries demo_chain2 ! k))
        (entry_preimage (Chain_into_entries demo_chain2 ! k)))"
  by (rule verified_chains_same_head [OF demo_chain2_verifies demo_chain2_verifies refl refl])

end
